(* ===== verification/Prelude.thy ===== *)
theory Prelude
  imports Main "HOL-Library.Word" "HOL-Library.Char_ord" "HOL-Library.List_Lexorder"
begin

text \<open>
  Shared ground of the development: the simplification collections, the Go string
  functions the broker uses (package \<^verbatim>\<open>strings\<close>, on byte strings), Go's
  \<^verbatim>\<open>time\<close> arithmetic on 64-bit nanosecond durations, the error values of the
  source, and generic facts on lists that several components share.

  A Go string is a sequence of bytes and so is an Isabelle \<^typ>\<open>string\<close>: a
  \<^typ>\<open>char\<close> is one byte.  A \<^verbatim>\<open>[]byte\<close> is a list of \<^typ>\<open>8 word\<close>.
\<close>

named_theorems db_simps \<open>what one store operation does, as equations\<close>
named_theorems handler_defs \<open>definitions of request handlers and their helpers\<close>
named_theorems frame \<open>parts of the state an operation leaves alone\<close>

type_synonym byte = "8 word"

section \<open>Bytes and characters\<close>

definition byte_of :: "char \<Rightarrow> byte" where
  "byte_of c = word_of_nat (of_char c)"

definition char_of_byte :: "byte \<Rightarrow> char" where
  "char_of_byte b = char_of (unat b)"

text \<open>The conversions \<^verbatim>\<open>[]byte(s)\<close> and \<^verbatim>\<open>string(b)\<close>.\<close>

definition bytes_of :: "string \<Rightarrow> byte list" where
  "bytes_of s = map byte_of s"

definition string_of :: "byte list \<Rightarrow> string" where
  "string_of bs = map char_of_byte bs"

lemma of_char_lt_256: "(of_char c :: nat) < 256"
  by (metis mod_less_divisor of_char_mod_256 zero_less_numeral)

lemma char_of_byte_of [simp]: "char_of_byte (byte_of c) = c"
  using of_char_lt_256 [of c]
  by (simp add: char_of_byte_def byte_of_def unat_of_nat)

lemma string_of_bytes_of [simp]: "string_of (bytes_of s) = s"
  by (simp add: string_of_def bytes_of_def o_def)

section \<open>Package strings\<close>

abbreviation code :: "char \<Rightarrow> nat" where
  "code c \<equiv> of_char c"

definition is_ascii_space :: "char \<Rightarrow> bool" where
  "is_ascii_space c = (code c = 32 \<or> (9 \<le> code c \<and> code c \<le> 13))"

text \<open>
  The white space of \<^verbatim>\<open>unicode.IsSpace\<close> beyond ASCII, as UTF-8: U+0085 and U+00A0
  in two bytes; U+1680, U+2000 to U+200A, U+2028, U+2029, U+202F, U+205F and U+3000 in three.
  No continuation byte is a first byte of one of them, so looking for them at every byte
  position is the same as decoding runes.
\<close>

definition is_space2 :: "char \<Rightarrow> char \<Rightarrow> bool" where
  "is_space2 a b = (code a = 0xC2 \<and> (code b = 0x85 \<or> code b = 0xA0))"

definition is_space3 :: "char \<Rightarrow> char \<Rightarrow> char \<Rightarrow> bool" where
  "is_space3 a b c =
     (code a = 0xE1 \<and> code b = 0x9A \<and> code c = 0x80 \<or>
      code a = 0xE2 \<and> code b = 0x80 \<and>
        (0x80 \<le> code c \<and> code c \<le> 0x8A \<or> code c = 0xA8 \<or> code c = 0xA9 \<or> code c = 0xAF) \<or>
      code a = 0xE2 \<and> code b = 0x81 \<and> code c = 0x9F \<or>
      code a = 0xE3 \<and> code b = 0x80 \<and> code c = 0x80)"

text \<open>Bytes of the white space rune a string starts with; 0 if it starts with none.\<close>

fun space_width :: "string \<Rightarrow> nat" where
  "space_width [] = 0"
| "space_width (a # s) =
     (if is_ascii_space a then 1
      else case s of [] \<Rightarrow> 0
        | b # t \<Rightarrow> if is_space2 a b then 2
            else case t of [] \<Rightarrow> 0 | c # _ \<Rightarrow> if is_space3 a b c then 3 else 0)"

text \<open>The same at the end of a string, given its bytes in reverse.\<close>

fun space_width_rev :: "string \<Rightarrow> nat" where
  "space_width_rev [] = 0"
| "space_width_rev (c # s) =
     (if is_ascii_space c then 1
      else case s of [] \<Rightarrow> 0
        | b # t \<Rightarrow> if is_space2 b c then 2
            else case t of [] \<Rightarrow> 0 | a # _ \<Rightarrow> if is_space3 a b c then 3 else 0)"

lemma space_width_le: "space_width s \<le> length s"
  by (cases s rule: space_width.cases) (auto split: list.splits)

function trim_left :: "string \<Rightarrow> string" where
  "trim_left s = (if space_width s = 0 then s else trim_left (drop (space_width s) s))"
  by pat_completeness auto
termination
proof (relation "measure length")
  fix s
  assume "space_width s \<noteq> 0"
  then show "(drop (space_width s) s, s) \<in> measure length"
    by (cases s) auto
qed simp

function trim_left_rev :: "string \<Rightarrow> string" where
  "trim_left_rev s =
     (if space_width_rev s = 0 then s else trim_left_rev (drop (space_width_rev s) s))"
  by pat_completeness auto
termination
proof (relation "measure length")
  fix s
  assume "space_width_rev s \<noteq> 0"
  then show "(drop (space_width_rev s) s, s) \<in> measure length"
    by (cases s) auto
qed simp

declare trim_left.simps [simp del] trim_left_rev.simps [simp del]

definition TrimSpace :: "string \<Rightarrow> string" where
  "TrimSpace s = rev (trim_left_rev (rev (trim_left s)))"

text \<open>The longest prefix of a string that has no white space rune.\<close>

fun nonspace_prefix :: "string \<Rightarrow> string" where
  "nonspace_prefix [] = []"
| "nonspace_prefix (c # s) =
     (if 0 < space_width (c # s) then [] else c # nonspace_prefix s)"

declare space_width.simps [simp del] space_width_rev.simps [simp del]

lemma trim_left_length: "length (trim_left s) \<le> length s"
proof (induction s rule: trim_left.induct)
  case (1 s)
  show ?case
  proof (cases "space_width s = 0")
    case True
    then show ?thesis by (simp add: trim_left.simps [of s])
  next
    case False
    with 1 have "length (trim_left (drop (space_width s) s)) \<le> length (drop (space_width s) s)"
      by blast
    with False show ?thesis by (simp add: trim_left.simps [of s])
  qed
qed

lemma trim_left_stops: "space_width (trim_left s) = 0"
proof (induction s rule: trim_left.induct)
  case (1 s)
  then show ?case by (subst trim_left.simps) simp
qed

text \<open>\<^verbatim>\<open>strings.Fields\<close>.\<close>

function Fields :: "string \<Rightarrow> string list" where
  "Fields s =
     (let t = trim_left s; w = nonspace_prefix t
      in if t = [] then [] else w # Fields (drop (length w) t))"
  by pat_completeness auto
termination
proof (relation "measure length")
  fix s t w
  assume t: "t = trim_left s" and w: "w = nonspace_prefix t" and ne: "t \<noteq> []"
  obtain c t' where c: "t = c # t'" using ne by (cases t) auto
  have "0 < length w"
    using trim_left_stops [of s] unfolding w t [symmetric] c by simp
  with ne have "length (drop (length w) t) < length t" by simp
  also have "\<dots> \<le> length s" by (simp add: t trim_left_length)
  finally show "(drop (length w) t, s) \<in> measure length" by simp
qed simp

declare Fields.simps [simp del]

text \<open>\<^verbatim>\<open>strings.Join\<close> and \<^verbatim>\<open>strings.Split\<close> with a one-byte separator.\<close>

fun Join :: "string list \<Rightarrow> string \<Rightarrow> string" where
  "Join [] sep = []"
| "Join [w] sep = w"
| "Join (w # v # ws) sep = w @ sep @ Join (v # ws) sep"

fun Split :: "char \<Rightarrow> string \<Rightarrow> string list" where
  "Split c [] = [[]]"
| "Split c (x # xs) =
     (if x = c then [] # Split c xs
      else case Split c xs of [] \<Rightarrow> [[x]] | y # ys \<Rightarrow> (x # y) # ys)"

definition HasPrefix :: "string \<Rightarrow> string \<Rightarrow> bool" where
  "HasPrefix s p = (take (length p) s = p)"

definition TrimPrefix :: "string \<Rightarrow> string \<Rightarrow> string" where
  "TrimPrefix s p = (if HasPrefix s p then drop (length p) s else s)"

text \<open>
  \<^verbatim>\<open>strings.ToLower\<close>: the ASCII branch byte by byte, as Go does it; what the
  Unicode tables do to a string with other bytes is the argument \<open>uc\<close>.
\<close>

definition lower_char :: "char \<Rightarrow> char" where
  "lower_char c = (if 65 \<le> code c \<and> code c \<le> 90 then char_of (code c + 32) else c)"

definition is_ascii :: "string \<Rightarrow> bool" where
  "is_ascii s = (\<forall>c \<in> set s. code c < 128)"

definition ToLower :: "(string \<Rightarrow> string) \<Rightarrow> string \<Rightarrow> string" where
  "ToLower uc s = (if is_ascii s then map lower_char s else uc s)"

subsection \<open>Facts on fields and joins\<close>

text \<open>A word of printable ASCII bytes, which no white space rune can touch.\<close>

definition plain_word :: "string \<Rightarrow> bool" where
  "plain_word w = (w \<noteq> [] \<and> (\<forall>c \<in> set w. 33 \<le> code c \<and> code c \<le> 126))"

lemma space_width_plain: "33 \<le> code c \<Longrightarrow> code c \<le> 126 \<Longrightarrow> space_width (c # s) = 0"
  by (auto simp: space_width.simps is_ascii_space_def is_space2_def is_space3_def split: list.splits)

lemma nonspace_prefix_plain:
  "\<forall>c \<in> set w. 33 \<le> code c \<and> code c \<le> 126 \<Longrightarrow> s = [] \<or> 0 < space_width s \<Longrightarrow>
     nonspace_prefix (w @ s) = w"
proof (induction w)
  case Nil
  then show ?case by (cases s) auto
next
  case (Cons c w)
  then show ?case by (simp add: space_width_plain)
qed

lemma trim_left_plain: "plain_word w \<Longrightarrow> trim_left (w @ s) = w @ s"
  by (cases w) (auto simp: plain_word_def trim_left.simps space_width_plain)

lemma space_width_blank [simp]: "space_width (CHR '' '' # s) = 1"
  by (simp add: space_width.simps is_ascii_space_def)

lemma trim_left_blank [simp]: "trim_left (CHR '' '' # s) = trim_left s"
  by (subst trim_left.simps) simp

lemma trim_left_Nil [simp]: "trim_left [] = []"
  by (simp add: trim_left.simps space_width.simps)

lemma Fields_Nil [simp]: "Fields [] = []"
  by (simp add: Fields.simps)

lemma Fields_blank: "Fields (CHR '' '' # s) = Fields s"
  by (simp add: Fields.simps [of "CHR '' '' # s"] Fields.simps [of s])

lemma Fields_plain_append:
  assumes "plain_word w" and "s = [] \<or> 0 < space_width s"
  shows "Fields (w @ s) = w # Fields s"
proof -
  have "nonspace_prefix (w @ s) = w"
    using assms by (auto simp: plain_word_def intro: nonspace_prefix_plain)
  moreover have "w @ s \<noteq> []" using assms(1) by (simp add: plain_word_def)
  ultimately show ?thesis
    using assms(1) by (simp add: Fields.simps [of "w @ s"] trim_left_plain)
qed

lemma Fields_Join: "\<forall>w \<in> set ws. plain_word w \<Longrightarrow> Fields (Join ws '' '') = ws"
proof (induction ws "'' ''" rule: Join.induct)
  case 1
  then show ?case by simp
next
  case (2 w)
  then show ?case using Fields_plain_append [of w "[]"] by simp
next
  case (3 w v ws)
  have "Fields (w @ '' '' @ Join (v # ws) '' '') = w # Fields ('' '' @ Join (v # ws) '' '')"
    using 3(2) by (intro Fields_plain_append) auto
  also have "\<dots> = w # v # ws"
    using 3 by (simp add: Fields_blank)
  finally show ?case by simp
qed

lemma Split_no_sep: "c \<notin> set s \<Longrightarrow> Split c s = [s]"
  by (induction s) auto

lemma Split_append: "c \<notin> set s \<Longrightarrow> Split c (s @ c # t) = s # Split c t"
  by (induction s) auto

section \<open>Loops over a seen-set\<close>

text \<open>
  The loop that copies the elements it has not yet seen, in order: the source writes it
  with a \<^verbatim>\<open>seen\<close> map in half a dozen places.
\<close>

fun dedup_from :: "'a set \<Rightarrow> 'a list \<Rightarrow> 'a list" where
  "dedup_from seen [] = []"
| "dedup_from seen (x # xs) =
     (if x \<in> seen then dedup_from seen xs else x # dedup_from (insert x seen) xs)"

abbreviation dedup :: "'a list \<Rightarrow> 'a list" where
  "dedup \<equiv> dedup_from {}"

lemma set_dedup_from [simp]: "set (dedup_from seen xs) = set xs - seen"
  by (induction xs arbitrary: seen) auto

lemma distinct_dedup_from [simp]: "distinct (dedup_from seen xs)"
  by (induction xs arbitrary: seen) auto

lemma dedup_from_distinct: "distinct xs \<Longrightarrow> set xs \<inter> seen = {} \<Longrightarrow> dedup_from seen xs = xs"
  by (induction xs arbitrary: seen) auto

section \<open>Package time\<close>

text \<open>
  A \<^verbatim>\<open>time.Time\<close> is the number of nanoseconds since the Unix epoch; the zero time is
  1 January of year 1.  A \<^verbatim>\<open>time.Duration\<close> is a signed 64-bit number of nanoseconds:
  products wrap around, \<^verbatim>\<open>Time.Sub\<close> saturates.
\<close>

type_synonym time = int
type_synonym duration = int

definition zero_time :: time where
  "zero_time = - 62135596800 * 1000000000"

definition IsZero :: "time \<Rightarrow> bool" where
  "IsZero t = (t = zero_time)"

definition wrap64 :: "int \<Rightarrow> int" where
  "wrap64 x = (x + 2 ^ 63) mod 2 ^ 64 - 2 ^ 63"

abbreviation Second :: duration where
  "Second \<equiv> 1000000000"

abbreviation Minute :: duration where
  "Minute \<equiv> 60 * Second"

abbreviation Hour :: duration where
  "Hour \<equiv> 3600 * Second"

text \<open>\<^verbatim>\<open>time.Duration(n) * unit\<close>.\<close>

definition dur :: "int \<Rightarrow> duration \<Rightarrow> duration" where
  "dur n unit = wrap64 (n * unit)"

text \<open>\<^verbatim>\<open>t.Sub(u)\<close>: saturates at the bounds of a duration.\<close>

definition time_sub :: "time \<Rightarrow> time \<Rightarrow> duration" where
  "time_sub t u = max (- (2 ^ 63)) (min (2 ^ 63 - 1) (t - u))"

text \<open>\<^verbatim>\<open>t.Unix()\<close>: whole seconds, rounded down.\<close>

definition Unix :: "time \<Rightarrow> int" where
  "Unix t = t div Second"

text \<open>
  \<^verbatim>\<open>time.Unix(sec, 0)\<close>: the seconds since year 1 are a 64-bit sum that wraps around.
\<close>

definition unix_time :: "int \<Rightarrow> time" where
  "unix_time sec = (wrap64 (sec + 62135596800) - 62135596800) * Second"

lemma wrap64_id: "- (2 ^ 63) \<le> x \<Longrightarrow> x < 2 ^ 63 \<Longrightarrow> wrap64 x = x"
  by (simp add: wrap64_def)

lemma wrap64_range: "- (2 ^ 63) \<le> wrap64 x \<and> wrap64 x < 2 ^ 63"
proof -
  have "0 \<le> (x + 2 ^ 63) mod 2 ^ 64" and "(x + 2 ^ 63) mod 2 ^ 64 < (2 ^ 64 :: int)"
    by simp_all
  then show ?thesis by (simp add: wrap64_def)
qed

lemma unix_time_exact: "0 \<le> sec \<Longrightarrow> sec < 2 ^ 62 \<Longrightarrow> unix_time sec = sec * Second"
  by (simp add: unix_time_def wrap64_id)

lemma dur_exact: "0 \<le> n \<Longrightarrow> 0 \<le> unit \<Longrightarrow> n * unit < 2 ^ 63 \<Longrightarrow> dur n unit = n * unit"
proof -
  assume "0 \<le> n" and "0 \<le> unit" and lt: "n * unit < 2 ^ 63"
  then have "0 \<le> n * unit" by simp
  with lt show "dur n unit = n * unit" unfolding dur_def by (intro wrap64_id) simp_all
qed

end
