(* ===== verification/Codec.thy ===== *)
theory Codec
  imports Prelude
begin

text \<open>
  Package-level helpers of \<^verbatim>\<open>util.go\<close> and \<^verbatim>\<open>pkce.go\<close> and the encodings they
  use: base64url with and without padding (\<^verbatim>\<open>encoding/base64\<close>, which skips carriage
  returns and line feeds and does not check trailing bits) and hexadecimal
  (\<^verbatim>\<open>encoding/hex\<close>).  SHA-256 is a parameter: every definition that hashes takes the
  hash function as its argument \<open>sha\<close>.
\<close>

section \<open>Errors of the codecs\<close>

datatype codec_error = EmptyBase64URL | CorruptInput

section \<open>base64url\<close>

definition b64_char :: "nat \<Rightarrow> char" where
  "b64_char n =
     char_of (if n < 26 then 65 + n else if n < 52 then 71 + n else if n < 62 then n - 4
              else if n = 62 then 45 else 95)"

definition b64_val :: "char \<Rightarrow> nat option" where
  "b64_val c =
     (let k = code c in
      if 65 \<le> k \<and> k \<le> 90 then Some (k - 65)
      else if 97 \<le> k \<and> k \<le> 122 then Some (k - 71)
      else if 48 \<le> k \<and> k \<le> 57 then Some (k + 4)
      else if k = 45 then Some 62
      else if k = 95 then Some 63
      else None)"

text \<open>\<^verbatim>\<open>base64.RawURLEncoding.EncodeToString\<close>, the whole of \<^verbatim>\<open>base64RawURL\<close>.\<close>

fun base64RawURL :: "byte list \<Rightarrow> string" where
  "base64RawURL [] = []"
| "base64RawURL [a] = [b64_char (unat a div 4), b64_char (unat a mod 4 * 16)]"
| "base64RawURL [a, b] =
     [b64_char (unat a div 4), b64_char (unat a mod 4 * 16 + unat b div 16),
      b64_char (unat b mod 16 * 4)]"
| "base64RawURL (a # b # c # bs) =
     b64_char (unat a div 4) # b64_char (unat a mod 4 * 16 + unat b div 16) #
     b64_char (unat b mod 16 * 4 + unat c div 64) # b64_char (unat c mod 64) #
     base64RawURL bs"

fun dec_sextets :: "nat list \<Rightarrow> byte list option" where
  "dec_sextets [] = Some []"
| "dec_sextets [p] = None"
| "dec_sextets [p, q] = Some [word_of_nat (p * 4 + q div 16)]"
| "dec_sextets [p, q, r] =
     Some [word_of_nat (p * 4 + q div 16), word_of_nat (q mod 16 * 16 + r div 4)]"
| "dec_sextets (p # q # r # s # vs) =
     map_option (\<lambda>bs. word_of_nat (p * 4 + q div 16) # word_of_nat (q mod 16 * 16 + r div 4) #
                      word_of_nat (r mod 4 * 64 + s) # bs) (dec_sextets vs)"

definition drop_newlines :: "string \<Rightarrow> string" where
  "drop_newlines s = filter (\<lambda>c. code c \<noteq> 10 \<and> code c \<noteq> 13) s"

definition dec_alphabet :: "string \<Rightarrow> byte list option" where
  "dec_alphabet t = Option.bind (those (map b64_val t)) dec_sextets"

definition raw_url_decode :: "string \<Rightarrow> byte list option" where
  "raw_url_decode s = dec_alphabet (drop_newlines s)"

definition pad_url_decode :: "string \<Rightarrow> byte list option" where
  "pad_url_decode s =
     (let t = drop_newlines s; n = length t in
      if n mod 4 \<noteq> 0 then None
      else if drop (n - 2) t = ''=='' then dec_alphabet (take (n - 2) t)
      else if drop (n - 1) t = ''='' then dec_alphabet (take (n - 1) t)
      else dec_alphabet t)"

definition decodeB64URL :: "string \<Rightarrow> codec_error + byte list" where
  "decodeB64URL s =
     (let s = TrimSpace s in
      if s = [] then Inl EmptyBase64URL
      else case raw_url_decode s of
          Some b \<Rightarrow> Inr b
        | None \<Rightarrow> (case pad_url_decode s of Some b \<Rightarrow> Inr b | None \<Rightarrow> Inl CorruptInput))"

definition normalizeChallenge :: "string \<Rightarrow> string" where
  "normalizeChallenge ch =
     (case decodeB64URL ch of Inl _ \<Rightarrow> ch | Inr b \<Rightarrow> base64RawURL b)"

section \<open>Hexadecimal\<close>

definition hex_char :: "nat \<Rightarrow> char" where
  "hex_char n = char_of (if n < 10 then 48 + n else 87 + n)"

definition hex_val :: "char \<Rightarrow> nat option" where
  "hex_val c =
     (let k = code c in
      if 48 \<le> k \<and> k \<le> 57 then Some (k - 48)
      else if 97 \<le> k \<and> k \<le> 102 then Some (k - 87)
      else if 65 \<le> k \<and> k \<le> 70 then Some (k - 55)
      else None)"

fun hex_encode :: "byte list \<Rightarrow> string" where
  "hex_encode [] = []"
| "hex_encode (b # bs) = hex_char (unat b div 16) # hex_char (unat b mod 16) # hex_encode bs"

fun hex_decode :: "string \<Rightarrow> byte list option" where
  "hex_decode [] = Some []"
| "hex_decode [c] = None"
| "hex_decode (c # d # s) =
     (case (hex_val c, hex_val d) of
        (Some x, Some y) \<Rightarrow> map_option (\<lambda>bs. word_of_nat (x * 16 + y) # bs) (hex_decode s)
      | _ \<Rightarrow> None)"

text \<open>\<^verbatim>\<open>hashSecret\<close>: the key under which codes and refresh tokens are stored.\<close>

definition hashSecret :: "(byte list \<Rightarrow> byte list) \<Rightarrow> string \<Rightarrow> string" where
  "hashSecret sha secret = hex_encode (sha (bytes_of secret))"

definition uniqueNonEmpty :: "string list \<Rightarrow> string list" where
  "uniqueNonEmpty values = dedup (filter (\<lambda>v. v \<noteq> []) (map TrimSpace values))"

section \<open>PKCE\<close>

definition pkceVerifierMinLen :: nat where
  "pkceVerifierMinLen = 43"

definition pkceVerifierMaxLen :: nat where
  "pkceVerifierMaxLen = 128"

definition unreserved :: "char \<Rightarrow> bool" where
  "unreserved c =
     (let k = code c in
      65 \<le> k \<and> k \<le> 90 \<or> 97 \<le> k \<and> k \<le> 122 \<or> 48 \<le> k \<and> k \<le> 57 \<or>
      c = CHR ''-'' \<or> c = CHR ''.'' \<or> c = CHR ''_'' \<or> c = CHR ''~'')"

definition validPKCEVerifier :: "string \<Rightarrow> bool" where
  "validPKCEVerifier verifier =
     (\<not> (length verifier < pkceVerifierMinLen \<or> length verifier > pkceVerifierMaxLen) \<and>
      list_all unreserved verifier)"

definition verifyPKCE :: "(byte list \<Rightarrow> byte list) \<Rightarrow> string \<Rightarrow> string \<Rightarrow> string \<Rightarrow> bool" where
  "verifyPKCE sha expectedChallenge meth verifier =
     (if meth \<noteq> ''S256'' \<or> expectedChallenge = [] then False
      else if \<not> validPKCEVerifier verifier then False
      else base64RawURL (sha (bytes_of verifier)) = expectedChallenge)"

section \<open>Round trips\<close>

lemma unat_byte: "unat (b :: byte) < 256"
  using unsigned_less [of b] by simp

lemma word_of_nat_unat_sum [simp]: "n = unat b \<Longrightarrow> (word_of_nat n :: byte) = b"
  by simp

lemma b64_val_char: "n < 64 \<Longrightarrow> b64_val (b64_char n) = Some n"
  by (auto simp: b64_val_def b64_char_def Let_def)

lemma b64_char_code:
  "n < 64 \<Longrightarrow> 45 \<le> code (b64_char n) \<and> code (b64_char n) \<le> 122 \<and> b64_char n \<noteq> CHR ''.''"
proof -
  assume n: "n < 64"
  have c: "code CHR ''.'' = (46 :: nat)" by simp
  have "code (b64_char n) \<noteq> (46 :: nat)" using n by (auto simp: b64_char_def)
  then have "b64_char n \<noteq> CHR ''.''" using c by metis
  with n show ?thesis by (auto simp: b64_char_def)
qed

lemma sextet_bounds:
  "unat (a :: byte) div 4 < 64" "unat a mod 4 * 16 < 64"
  "unat a mod 4 * 16 + unat (b :: byte) div 16 < 64"
  "unat b mod 16 * 4 < 64" "unat b mod 16 * 4 + unat (c :: byte) div 64 < 64" "unat c mod 64 < 64"
  using unat_byte [of a] unat_byte [of b] unat_byte [of c] by linarith+

lemma base64RawURL_chars:
  "c \<in> set (base64RawURL bs) \<Longrightarrow> 45 \<le> code c \<and> code c \<le> 122 \<and> c \<noteq> CHR ''.''"
  by (induction bs rule: base64RawURL.induct)
    (auto simp: b64_char_code [OF sextet_bounds(1)] b64_char_code [OF sextet_bounds(2)]
      b64_char_code [OF sextet_bounds(3)] b64_char_code [OF sextet_bounds(4)]
      b64_char_code [OF sextet_bounds(5)] b64_char_code [OF sextet_bounds(6)])

lemma base64RawURL_no_dot [simp]: "CHR ''.'' \<notin> set (base64RawURL bs)"
  using base64RawURL_chars by blast

lemma drop_newlines_base64 [simp]: "drop_newlines (base64RawURL bs) = base64RawURL bs"
  unfolding drop_newlines_def by (rule filter_True) (use base64RawURL_chars in fastforce)

lemma dec_alphabet_Cons4:
  "b64_val w = Some p \<Longrightarrow> b64_val x = Some q \<Longrightarrow> b64_val y = Some r \<Longrightarrow> b64_val z = Some s \<Longrightarrow>
   dec_alphabet (w # x # y # z # t) =
     map_option (\<lambda>bs. word_of_nat (p * 4 + q div 16) # word_of_nat (q mod 16 * 16 + r div 4) #
                      word_of_nat (r mod 4 * 64 + s) # bs) (dec_alphabet t)"
  by (cases "those (map b64_val t)") (simp_all add: dec_alphabet_def)

lemma quantum_arith:
  fixes a b c :: nat
  assumes "b < 256" "c < 256"
  shows "a div 4 * 4 + (a mod 4 * 16 + b div 16) div 16 = a"
    and "(a mod 4 * 16 + b div 16) mod 16 * 16 + (b mod 16 * 4 + c div 64) div 4 = b"
    and "(b mod 16 * 4 + c div 64) mod 4 * 64 + c mod 64 = c"
    and "a div 4 * 4 + (a mod 4 * 16) div 16 = a"
    and "(a mod 4 * 16 + b div 16) mod 16 * 16 + (b mod 16 * 4) div 4 = b"
proof -
  have b: "b div 16 < 16" and c: "c div 64 < 4" using assms by linarith+
  have digits: "(x * m + y) div m = x" "(x * m + y) mod m = y" if "y < m" for x y m :: nat
    using that by simp_all
  show "a div 4 * 4 + (a mod 4 * 16 + b div 16) div 16 = a"
    and "(a mod 4 * 16 + b div 16) mod 16 * 16 + (b mod 16 * 4 + c div 64) div 4 = b"
    and "(b mod 16 * 4 + c div 64) mod 4 * 64 + c mod 64 = c"
    and "a div 4 * 4 + (a mod 4 * 16) div 16 = a"
    and "(a mod 4 * 16 + b div 16) mod 16 * 16 + (b mod 16 * 4) div 4 = b"
    using digits [OF b] digits [OF c] by simp_all
qed

lemma dec_alphabet_base64: "dec_alphabet (base64RawURL bs) = Some bs"
proof (induction bs rule: base64RawURL.induct)
  case 1
  then show ?case by (simp add: dec_alphabet_def)
next
  case (2 a)
  then show ?case
    using quantum_arith(4) [of 0 0 "unat a"]
    by (simp add: dec_alphabet_def b64_val_char sextet_bounds)
next
  case (3 a b)
  then show ?case
    using quantum_arith(1,5) [of "unat b" 0 "unat a"] unat_byte [of b]
    by (simp add: dec_alphabet_def b64_val_char sextet_bounds)
next
  case (4 a b c bs)
  have "dec_alphabet (base64RawURL (a # b # c # bs)) =
      map_option (\<lambda>bs. word_of_nat (unat a) # word_of_nat (unat b) # word_of_nat (unat c) # bs)
        (dec_alphabet (base64RawURL bs))"
    unfolding base64RawURL.simps
    by (subst dec_alphabet_Cons4 [OF b64_val_char b64_val_char b64_val_char b64_val_char])
      (simp_all only: sextet_bounds quantum_arith [OF unat_byte unat_byte])
  with 4 show ?case by simp
qed

lemma raw_url_decode_base64 [simp]: "raw_url_decode (base64RawURL bs) = Some bs"
  by (simp add: raw_url_decode_def dec_alphabet_base64)

text \<open>Nothing of a string that starts and ends with printable ASCII is trimmed.\<close>

lemma space_width_rev_plain: "33 \<le> code c \<Longrightarrow> code c \<le> 126 \<Longrightarrow> space_width_rev (c # s) = 0"
  by (auto simp: space_width_rev.simps is_ascii_space_def is_space2_def is_space3_def
      split: list.splits)

lemma TrimSpace_plain:
  assumes "\<forall>c \<in> set s. 33 \<le> code c \<and> code c \<le> 126"
  shows "TrimSpace s = s"
proof (cases "s = []")
  case True
  then show ?thesis by (simp add: TrimSpace_def trim_left_rev.simps space_width_rev.simps)
next
  case False
  with assms have l: "trim_left s = s"
    using trim_left_plain [of s "[]"] by (simp add: plain_word_def)
  obtain c t where c: "rev s = c # t" using False by (cases "rev s") auto
  then have "c \<in> set s" by (metis list.set_intros(1) set_rev)
  with assms have "space_width_rev (c # t) = 0" by (simp add: space_width_rev_plain)
  then have "trim_left_rev (rev s) = rev s" by (simp add: c trim_left_rev.simps)
  with l show ?thesis by (simp add: TrimSpace_def)
qed

lemma TrimSpace_base64 [simp]: "TrimSpace (base64RawURL bs) = base64RawURL bs"
  by (rule TrimSpace_plain) (use base64RawURL_chars in fastforce)

lemma TrimSpace_head:
  assumes "TrimSpace s = c # t"
  shows "\<not> is_ascii_space c"
proof -
  have suffix: "\<exists>u. x = u @ trim_left_rev x" for x
  proof (induction x rule: trim_left_rev.induct)
    case (1 x)
    show ?case
    proof (cases "space_width_rev x = 0")
      case False
      with 1 obtain u where "drop (space_width_rev x) x = u @ trim_left_rev (drop (space_width_rev x) x)"
        by blast
      then have "x = (take (space_width_rev x) x @ u) @ trim_left_rev (drop (space_width_rev x) x)"
        by (metis append.assoc append_take_drop_id)
      with False show ?thesis by (metis trim_left_rev.simps)
    qed (simp add: trim_left_rev.simps [of x])
  qed
  obtain u where "rev (trim_left s) = u @ trim_left_rev (rev (trim_left s))" using suffix by blast
  then have "trim_left s = TrimSpace s @ rev u"
    by (metis TrimSpace_def rev_append rev_rev_ident)
  with assms have "trim_left s = c # t @ rev u" by simp
  with trim_left_stops [of s] show ?thesis by (auto simp: space_width.simps)
qed

lemma base64RawURL_eq_Nil [simp]: "base64RawURL bs = [] \<longleftrightarrow> bs = []"
  by (cases bs rule: base64RawURL.cases) auto

lemma base64RawURL_inject: "base64RawURL a = base64RawURL b \<longleftrightarrow> a = b"
  by (metis option.inject raw_url_decode_base64)

lemma decodeB64URL_base64: "bs \<noteq> [] \<Longrightarrow> decodeB64URL (base64RawURL bs) = Inr bs"
  by (simp add: decodeB64URL_def Let_def)

lemma dec_sextets_nonempty: "dec_sextets vs = Some b \<Longrightarrow> vs \<noteq> [] \<Longrightarrow> b \<noteq> []"
  by (cases vs rule: dec_sextets.cases) auto

lemma dec_alphabet_nonempty: "dec_alphabet t = Some b \<Longrightarrow> t \<noteq> [] \<Longrightarrow> b \<noteq> []"
  by (cases t) (auto simp: dec_alphabet_def bind_eq_Some_conv dest!: dec_sextets_nonempty split: option.splits)

text \<open>What \<^verbatim>\<open>decodeB64URL\<close> accepts decodes to at least one byte.\<close>

lemma decodeB64URL_nonempty: "decodeB64URL s = Inr b \<Longrightarrow> b \<noteq> []"
proof -
  assume dec: "decodeB64URL s = Inr b"
  then obtain c t where c: "TrimSpace s = c # t"
    by (cases "TrimSpace s") (auto simp: decodeB64URL_def)
  then have "\<not> is_ascii_space c" by (rule TrimSpace_head)
  then have ne: "drop_newlines (c # t) \<noteq> []"
    by (auto simp: drop_newlines_def is_ascii_space_def)
  have pad: "b \<noteq> []" if "pad_url_decode (c # t) = Some b"
  proof -
    let ?u = "drop_newlines (c # t)"
    from that have "length ?u mod 4 = 0" by (auto simp: pad_url_decode_def Let_def split: if_splits)
    with ne have "4 \<le> length ?u" by (cases "length ?u < 4") auto
    then have "take (length ?u - 2) ?u \<noteq> []" "take (length ?u - 1) ?u \<noteq> []" by auto
    with that ne show ?thesis
      by (auto simp: pad_url_decode_def Let_def dest: dec_alphabet_nonempty split: if_splits)
  qed
  from dec c ne pad show ?thesis
    by (auto simp: decodeB64URL_def raw_url_decode_def Let_def dest: dec_alphabet_nonempty
        split: option.splits)
qed

lemma hex_val_char: "n < 16 \<Longrightarrow> hex_val (hex_char n) = Some n"
  by (auto simp: hex_val_def hex_char_def Let_def)

lemma hex_decode_encode [simp]: "hex_decode (hex_encode bs) = Some bs"
proof (induction bs)
  case (Cons b bs)
  have "unat b div 16 < 16" using unat_byte [of b] by linarith
  with Cons show ?case by (simp add: hex_val_char)
qed simp

lemma hex_encode_inject: "hex_encode a = hex_encode b \<longleftrightarrow> a = b"
  by (metis hex_decode_encode option.inject)

lemma bytes_of_inject [simp]: "bytes_of a = bytes_of b \<longleftrightarrow> a = b"
  by (metis string_of_bytes_of)

lemma length_hex_encode [simp]: "length (hex_encode bs) = 2 * length bs"
  by (induction bs) auto

lemma hashSecret_eq: "hashSecret sha a = hashSecret sha b \<longleftrightarrow> sha (bytes_of a) = sha (bytes_of b)"
  by (simp add: hashSecret_def hex_encode_inject)

end
