(* ===== verification/Model.thy ===== *)
theory Model
  imports Codec
begin

text \<open>
  The data of the broker: the structs of \<^verbatim>\<open>broker.go\<close>, \<^verbatim>\<open>store.go\<close>,
  \<^verbatim>\<open>config.go\<close>, \<^verbatim>\<open>groups.go\<close> and \<^verbatim>\<open>signing_keys.go\<close> as records.
  Field names keep the source's names behind a prefix for the struct, since Isabelle's record
  fields share one name space.  A slice is a list, an optional pointer an \<open>option\<close>, a
  Go map that is only iterated an association list in the order of one iteration, a
  \<^verbatim>\<open>map[string]bool\<close> used as a set a set, a struct embedded by value a nested record.
\<close>

section \<open>Group mappings\<close>

text \<open>
  A compiled regular expression is what the broker uses of it: \<^verbatim>\<open>FindStringSubmatch\<close>
  and \<^verbatim>\<open>SubexpNames\<close>.  A distinguished name of the LDAP library is its list of RDNs,
  each a list of attribute types and values.
\<close>

record regexp =
  rx_FindStringSubmatch :: "string \<Rightarrow> string list option"
  rx_SubexpNames :: "string list"

type_synonym DN = "(string \<times> string) list list"

record scopedGroupMapping =
  sg_Source :: string
  sg_Target :: string
  sg_BaseDN :: DN

record regexGroupMapping =
  rg_Source :: string
  rg_Target :: string
  rg_Pattern :: regexp

record compiledGroupMappings =
  cg_direct :: "string \<rightharpoonup> string"
  cg_scoped :: "scopedGroupMapping list"
  cg_regex :: "regexGroupMapping list"

section \<open>Configuration\<close>

record RateLimitConfig =
  rl_LoginWindowSeconds :: int
  rl_LoginMaxAttempts :: int
  rl_LoginLockoutSeconds :: int
  rl_TokenWindowSeconds :: int
  rl_TokenMaxAttempts :: int
  rl_TokenLockoutSeconds :: int
  rl_PreAuthWindowSeconds :: int
  rl_PreAuthMaxAttempts :: int
  rl_PreAuthLockoutSeconds :: int

record Client =
  c_ClientID :: string
  c_ClientSecretSHA256 :: string
  c_RedirectURIs :: "string list"
  c_PostLogoutRedirectURIs :: "string list"
  c_Public :: bool
  c_RequirePKCE :: bool
  c_AllowedScopes :: "string list"
  c_ClientCredentialsScopes :: "string list"
  c_AllowOfflineAccess :: bool
  c_GroupMappings :: "(string \<times> string) list"
  c_RequireConsent :: bool
  c_StoredAt :: time
  c_compiledMappings :: "compiledGroupMappings option"
  c_allowedScopeSet :: "string set"
  c_clientCredentialsAllowedScopes :: "string set"

record AppTokenConfig =
  at_ID :: string
  at_DisplayName :: string
  at_Audience :: string
  at_ClientID :: string
  at_Scope :: string
  at_TokenTTLMinutes :: int
  at_GroupMappings :: "(string \<times> string) list"
  at_StoredAt :: time
  at_compiledMappings :: "compiledGroupMappings option"

record WebAuthnConfig =
  wa_RPID :: string
  wa_RPDisplayName :: string
  wa_Origins :: "string list"

record MetricsConfig =
  me_Enabled :: bool
  me_Path :: string
  me_BearerSHA256 :: string

record SigningKeyConfig =
  sk_KeyID :: string
  sk_SigningKeyPEM :: string
  sk_Active :: bool

record LDAPConfig =
  ld_URL :: string
  ld_UserDNTemplate :: string
  ld_DomainSuffix :: string
  ld_BaseDN :: string
  ld_UserFilter :: string
  ld_EmailAttribute :: string
  ld_NameAttribute :: string
  ld_GroupsAttribute :: string
  ld_NestedGroups :: bool
  ld_GroupSearchBaseDN :: string
  ld_GroupSearchFilter :: string
  ld_GroupNameAttribute :: string
  ld_StartTLS :: bool
  ld_InsecureSkipVerify :: bool
  ld_CACertPath :: string
  ld_TimeoutSeconds :: int

record ACMEConfig =
  acme_Enabled :: bool
  acme_Domains :: "string list"
  acme_Email :: string
  acme_CADirectory :: string
  acme_CACertPath :: string
  acme_StoragePath :: string
  acme_HTTPAddr :: string
  acme_HTTPSAddr :: string
  acme_AgreedTOS :: bool

text \<open>\<^verbatim>\<open>MFAConfig\<close> has one field; it is \<open>cf_MFA_TOTPRequired\<close> here.\<close>

record Config =
  cf_Issuer :: string
  cf_Listen :: string
  cf_DisplayName :: string
  cf_Production :: bool
  cf_SigningKeyPEM :: string
  cf_KeyID :: string
  cf_CookieSecure :: "bool option"
  cf_TrustedProxies :: "string list"
  cf_ClientIPHeader :: string
  cf_SigningKeys :: "SigningKeyConfig list"
  cf_SigningKeyRotationDays :: int
  cf_SigningKeyRetentionDays :: int
  cf_LDAP :: LDAPConfig
  cf_Clients :: "Client list"
  cf_MFA_TOTPRequired :: bool
  cf_WebAuthn :: WebAuthnConfig
  cf_AppTokens :: "AppTokenConfig list"
  cf_ACME :: ACMEConfig
  cf_RateLimit :: RateLimitConfig
  cf_Metrics :: MetricsConfig
  cf_AdminGroups :: "string list"
  cf_AccessTokenTTLMinutes :: int
  cf_IDTokenTTLMinutes :: int
  cf_RefreshTokenTTLDays :: int
  cf_AuthCodeTTLSeconds :: int
  cf_SessionTTLHrs :: int
  cf_SessionAbsoluteTTLHrs :: int

section \<open>WebAuthn messages\<close>

record webauthnClientData =
  cd_Type :: string
  cd_Challenge :: string
  cd_Origin :: string
  cd_CrossOrigin :: bool

record webauthnAttestationResponse =
  wr_ID :: string
  wr_RawID :: string
  wr_Type :: string
  wr_ClientDataJSON :: string
  wr_AttestationObject :: string

record webauthnAssertionResponse =
  wl_ID :: string
  wl_RawID :: string
  wl_Type :: string
  wl_ClientDataJSON :: string
  wl_AuthenticatorData :: string
  wl_Signature :: string
  wl_UserHandle :: string

section \<open>Persisted state\<close>

record WebAuthnCredential =
  wc_IDBase64URL :: string
  wc_Alg :: string
  wc_XBase64URL :: string
  wc_YBase64URL :: string
  wc_SignCount :: "32 word"
  wc_CreatedAt :: int

record StoredUser =
  u_Username :: string
  u_Email :: string
  u_Name :: string
  u_Groups :: "string list"
  u_TOTPSecretBase32 :: string
  u_PendingTOTPSecretBase32 :: string
  u_WebAuthnCredentials :: "WebAuthnCredential list"

record UserProfile =
  p_Subject :: string
  p_Email :: string
  p_Name :: string
  p_Groups :: "string list"

record Session =
  s_UserID :: string
  s_ExpiresAt :: time
  s_AbsoluteExpiresAt :: time
  s_AuthTime :: time
  s_CSRFToken :: string
  s_ReAuthAt :: time
  s_AMR :: "string list"

record AuthorizationRequest =
  ar_ID :: string
  ar_ClientID :: string
  ar_RedirectURI :: string
  ar_Scope :: string
  ar_State :: string
  ar_Nonce :: string
  ar_CodeChallenge :: string
  ar_CodeChallengeMethod :: string
  ar_CreatedAt :: time
  ar_ExpiresAt :: time

record AuthCode =
  ac_UserID :: string
  ac_ClientID :: string
  ac_RedirectURI :: string
  ac_Scope :: string
  ac_Nonce :: string
  ac_CodeChallenge :: string
  ac_CodeChallengeMethod :: string
  ac_AuthTime :: time
  ac_ExpiresAt :: time
  ac_AMR :: "string list"

record RefreshToken =
  rt_UserID :: string
  rt_ClientID :: string
  rt_Scope :: string
  rt_AuthTime :: time
  rt_ExpiresAt :: time
  rt_AMR :: "string list"
  rt_FamilyID :: string
  rt_Generation :: int

record ConsumedRefreshToken =
  crt_UserID :: string
  crt_ClientID :: string
  crt_FamilyID :: string
  crt_ExpiresAt :: time

record ChallengeRecord =
  ch_UserID :: string
  ch_Challenge :: string
  ch_ExpiresAt :: time

record ConsentRecord =
  cr_UserID :: string
  cr_ClientID :: string
  cr_Scopes :: "string list"
  cr_GrantedAt :: time

record managedSigningKey =
  mk_KeyID :: string
  mk_SigningKeyPEM :: string
  mk_CreatedAt :: int
  mk_RetiredAt :: int

record managedSigningKeySet =
  ks_ActiveKeyID :: string
  ks_Keys :: "managedSigningKey list"

text \<open>Go's zero values of the structs the source returns beside a false \<^verbatim>\<open>ok\<close>.\<close>

definition zero_Session :: Session where
  "zero_Session =
     \<lparr>s_UserID = [], s_ExpiresAt = zero_time, s_AbsoluteExpiresAt = zero_time,
      s_AuthTime = zero_time, s_CSRFToken = [], s_ReAuthAt = zero_time, s_AMR = []\<rparr>"

definition new_StoredUser :: "string \<Rightarrow> StoredUser" where
  "new_StoredUser name =
     \<lparr>u_Username = name, u_Email = [], u_Name = [], u_Groups = [], u_TOTPSecretBase32 = [],
      u_PendingTOTPSecretBase32 = [], u_WebAuthnCredentials = []\<rparr>"

text \<open>
  What \<^verbatim>\<open>json.Marshal\<close> keeps of a client and of an app token: the unexported caches are
  not written.
\<close>

definition persist_Client :: "Client \<Rightarrow> Client" where
  "persist_Client c =
     c\<lparr>c_compiledMappings := None, c_allowedScopeSet := {}, c_clientCredentialsAllowedScopes := {}\<rparr>"

definition persist_AppToken :: "AppTokenConfig \<Rightarrow> AppTokenConfig" where
  "persist_AppToken t = t\<lparr>at_compiledMappings := None\<rparr>"

end
