(* ===== verification/Bucket.thy ===== *)
theory Bucket
  imports Model
begin

text \<open>
  One bbolt bucket, as the broker uses it: keys in byte order, each with one JSON value.  The
  B+ tree of \<^verbatim>\<open>go.etcd.io/bbolt\<close> is a library of its own; what the broker relies on is
  its documented behaviour as an ordered map (get after put and delete, iteration in key
  order), stated as the interface \<open>kv_bucket\<close> and provided here by sorted association
  lists.  A value is either the JSON of a record of the bucket's type or bytes that do not
  decode.
\<close>

datatype 'v cell = Json 'v | Malformed

type_synonym 'v bucket = "(string \<times> 'v cell) list"

definition bget :: "string \<Rightarrow> 'v bucket \<Rightarrow> 'v cell option" where
  "bget k b = map_of b k"

fun bput :: "string \<Rightarrow> 'v \<Rightarrow> 'v bucket \<Rightarrow> 'v bucket" where
  "bput k v [] = [(k, Json v)]"
| "bput k v ((k', c) # b) =
     (if k < k' then (k, Json v) # (k', c) # b
      else if k = k' then (k, Json v) # b
      else (k', c) # bput k v b)"

definition bdel :: "string \<Rightarrow> 'v bucket \<Rightarrow> 'v bucket" where
  "bdel k b = filter (\<lambda>(k', _). k' \<noteq> k) b"

definition bucket_ok :: "'v bucket \<Rightarrow> bool" where
  "bucket_ok b = sorted_wrt (<) (map fst b)"

section \<open>The interface of a bucket\<close>

locale kv_bucket =
  fixes get :: "'k \<Rightarrow> 'b \<Rightarrow> 'v option"
    and put :: "'k \<Rightarrow> 'w \<Rightarrow> 'b \<Rightarrow> 'b"
    and del :: "'k \<Rightarrow> 'b \<Rightarrow> 'b"
    and enc :: "'w \<Rightarrow> 'v"
    and ok :: "'b \<Rightarrow> bool"
  assumes get_put: "get k' (put k w b) = (if k' = k then Some (enc w) else get k' b)"
    and get_del: "get k' (del k b) = (if k' = k then None else get k' b)"
    and ok_put: "ok b \<Longrightarrow> ok (put k w b)"
    and ok_del: "ok b \<Longrightarrow> ok (del k b)"
    and ext: "ok b \<Longrightarrow> ok c \<Longrightarrow> (\<And>k. get k b = get k c) \<Longrightarrow> b = c"
begin

text \<open>Taking an entry out and writing the same value back leaves the bucket as it was.\<close>

lemma put_del_restore: "ok b \<Longrightarrow> get k b = Some (enc w) \<Longrightarrow> put k w (del k b) = b"
  by (rule ext) (auto simp: ok_put ok_del get_put get_del)

lemma del_put_fresh: "ok b \<Longrightarrow> get k b = None \<Longrightarrow> del k (put k w b) = b"
  by (rule ext) (auto simp: ok_put ok_del get_put get_del)

lemma put_commute: "ok b \<Longrightarrow> k \<noteq> k' \<Longrightarrow> put k w (put k' w' b) = put k' w' (put k w b)"
  by (rule ext) (auto simp: ok_put get_put)

lemma del_del: "ok b \<Longrightarrow> del k (del k b) = del k b"
  by (rule ext) (auto simp: ok_del get_del)

lemma ok_fold_del: "ok b \<Longrightarrow> ok (fold del ks b)"
  by (induction ks arbitrary: b) (auto simp: ok_del)

lemma get_fold_del: "get k (fold del ks b) = (if k \<in> set ks then None else get k b)"
  by (induction ks arbitrary: b) (auto simp: get_del)

end

section \<open>Sorted association lists implement it\<close>

lemma bget_Nil [simp]: "bget k [] = None"
  by (simp add: bget_def)

lemma bget_bput: "bget k' (bput k v b) = (if k' = k then Some (Json v) else bget k' b)"
  unfolding bget_def by (induction b) auto

lemma bget_bdel: "bget k' (bdel k b) = (if k' = k then None else bget k' b)"
  unfolding bget_def bdel_def by (induction b) auto

lemma set_bput_keys: "fst ` set (bput k v b) = insert k (fst ` set b)"
  by (induction k v b rule: bput.induct) auto

lemma bucket_ok_bput: "bucket_ok b \<Longrightarrow> bucket_ok (bput k v b)"
proof (induction b)
  case (Cons e b)
  obtain k' c where e: "e = (k', c)" by (cases e)
  have "\<forall>x \<in> fst ` set (bput k v b). k' < x" if "k' < k"
    using Cons.prems that unfolding set_bput_keys by (auto simp: bucket_ok_def e)
  with Cons show ?case
    by (fastforce simp: bucket_ok_def e not_less le_less)
qed (simp add: bucket_ok_def)

lemma bucket_ok_bdel: "bucket_ok b \<Longrightarrow> bucket_ok (bdel k b)"
  unfolding bucket_ok_def bdel_def by (induction b) auto

lemma bucket_ok_distinct: "bucket_ok b \<Longrightarrow> distinct (map fst b)"
  unfolding bucket_ok_def by (rule strict_sorted_iff [THEN iffD1, THEN conjunct2])

lemma alist_rebuild: "distinct (map fst b) \<Longrightarrow> map (\<lambda>k. (k, the (map_of b k))) (map fst b) = b"
  by (simp add: o_def) (rule map_idI, auto)

lemma bucket_ext:
  assumes "bucket_ok b" and "bucket_ok c" and "\<And>k. bget k b = bget k c"
  shows "b = c"
proof -
  have eq: "map_of b = map_of c" using assms(3) by (auto simp: bget_def)
  then have "set (map fst b) = set (map fst c)" by (metis dom_map_of_conv_image_fst set_map)
  then have "map fst b = map fst c"
    using assms(1,2) by (simp add: bucket_ok_def strict_sorted_equal)
  then show ?thesis
    by (metis alist_rebuild assms(1,2) bucket_ok_distinct eq)
qed

interpretation bk: kv_bucket bget bput bdel Json bucket_ok
  by unfold_locales
    (auto simp: bget_bput bget_bdel bucket_ok_bput bucket_ok_bdel intro: bucket_ext)

lemma bget_in_set: "bucket_ok b \<Longrightarrow> bget k b = Some c \<longleftrightarrow> (k, c) \<in> set b"
  unfolding bget_def by (simp add: bucket_ok_distinct)

lemma bget_SomeD: "bget k b = Some c \<Longrightarrow> (k, c) \<in> set b"
  unfolding bget_def by (rule map_of_SomeD)

section \<open>Walking a bucket\<close>

text \<open>
  \<^verbatim>\<open>b.ForEach\<close> with a callback that decodes every value and stops at the first that does
  not decode: the decoded entries in key order, or \<open>None\<close>.
\<close>

fun decode_all :: "'v bucket \<Rightarrow> (string \<times> 'v) list option" where
  "decode_all [] = Some []"
| "decode_all ((k, Json v) # b) = map_option (\<lambda>es. (k, v) # es) (decode_all b)"
| "decode_all ((k, Malformed) # b) = None"

lemma decode_all_Some_iff:
  "decode_all b = Some es \<longleftrightarrow> b = map (\<lambda>(k, v). (k, Json v)) es"
proof (induction b arbitrary: es rule: decode_all.induct)
  case (2 k v b)
  then show ?case by (cases es) auto
qed (auto simp: Cons_eq_map_conv split: prod.splits)

lemma decode_all_bget:
  assumes "decode_all b = Some es"
  shows "bget k b = map_option Json (map_of es k)"
proof -
  have "map_of (map (\<lambda>(k, v). (k, Json v)) es) k = map_option Json (map_of es k)"
    by (induction es) auto
  then show ?thesis using assms by (simp add: decode_all_Some_iff bget_def)
qed

text \<open>The keys whose value satisfies a predicate, deleted one by one as the source does.\<close>

definition delete_where :: "('v \<Rightarrow> bool) \<Rightarrow> (string \<times> 'v) list \<Rightarrow> 'v bucket \<Rightarrow> 'v bucket" where
  "delete_where P es b = fold bdel (map fst (filter (\<lambda>(_, v). P v) es)) b"

lemma bget_delete_where:
  assumes "bucket_ok b" and "decode_all b = Some es"
  shows "bget k (delete_where P es b) =
    (case bget k b of Some (Json v) \<Rightarrow> if P v then None else Some (Json v) | c \<Rightarrow> c)"
proof -
  have dist: "distinct (map fst es)"
    using bucket_ok_distinct [OF assms(1)] assms(2)
    by (simp add: decode_all_Some_iff o_def case_prod_beta)
  have mem: "k \<in> set (map fst (filter (\<lambda>(_, v). P v) es)) \<longleftrightarrow> (\<exists>v. map_of es k = Some v \<and> P v)"
    using dist by (force simp: map_of_eq_Some_iff)
  show ?thesis
    unfolding delete_where_def bk.get_fold_del mem decode_all_bget [OF assms(2)]
    by (auto split: option.splits)
qed

lemma bucket_ok_delete_where: "bucket_ok b \<Longrightarrow> bucket_ok (delete_where P es b)"
  unfolding delete_where_def by (rule bk.ok_fold_del)

end
