(* ===== verification/Store.thy ===== *)
theory Store
  imports Bucket
begin

text \<open>
  The persistence layer of \<^verbatim>\<open>store.go\<close>: one record field per bucket, one definition per
  method of \<^verbatim>\<open>Store\<close>.  A read returns an error or its result; a write returns the error or
  the result, and the new store.  Every method runs in one bbolt transaction: a failing
  transaction leaves the store as it was, and on a closed database every transaction fails.
\<close>

section \<open>The database and its transactions\<close>

datatype store_error =
    DatabaseNotOpen | KeyRequired | KeyTooLarge | BadJSON
  | NoPendingTOTPSecret | CredentialAlreadyRegistered | UserNotFound | CredentialNotFound
  | StoreClientIDRequired | StoreAppTokenIDRequired | ConsentIDsRequired | BucketsNotInitialized

record Store =
  db_open :: bool
  db_users :: "StoredUser bucket"
  db_sessions :: "Session bucket"
  db_authRequests :: "AuthorizationRequest bucket"
  db_authCodes :: "AuthCode bucket"
  db_refreshTokens :: "RefreshToken bucket"
  db_consumedRefreshTokens :: "ConsumedRefreshToken bucket"
  db_revokedJTIs :: "time bucket"
  db_webauthnReg :: "ChallengeRecord bucket"
  db_webauthnLog :: "ChallengeRecord bucket"
  db_signingKeys :: "managedSigningKeySet bucket"
  db_clients :: "Client bucket"
  db_appTokens :: "AppTokenConfig bucket"
  db_consents :: "ConsentRecord bucket"

definition empty_Store :: Store where
  "empty_Store =
     \<lparr>db_open = True, db_users = [], db_sessions = [], db_authRequests = [], db_authCodes = [],
      db_refreshTokens = [], db_consumedRefreshTokens = [], db_revokedJTIs = [],
      db_webauthnReg = [], db_webauthnLog = [], db_signingKeys = [], db_clients = [],
      db_appTokens = [], db_consents = []\<rparr>"

text \<open>\<^verbatim>\<open>db.View\<close> and \<^verbatim>\<open>db.Update\<close>.\<close>

definition db_view :: "Store \<Rightarrow> (store_error + 'a) \<Rightarrow> store_error + 'a" where
  "db_view s r = (if db_open s then r else Inl DatabaseNotOpen)"

definition db_update ::
  "Store \<Rightarrow> (store_error + 'a \<times> Store) \<Rightarrow> (store_error + 'a) \<times> Store" where
  "db_update s r =
     (if db_open s
      then case r of Inl e \<Rightarrow> (Inl e, s) | Inr (a, s') \<Rightarrow> (Inr a, s')
      else (Inl DatabaseNotOpen, s))"

text \<open>\<^verbatim>\<open>putJSON\<close>: bbolt refuses an empty key and one of more than 32768 bytes.\<close>

definition putJSON :: "string \<Rightarrow> 'v \<Rightarrow> 'v bucket \<Rightarrow> store_error + 'v bucket" where
  "putJSON k v b =
     (if k = [] then Inl KeyRequired
      else if 32768 < length k then Inl KeyTooLarge
      else Inr (bput k v b))"

text \<open>A value read and decoded: absent, present, or not JSON of its type.\<close>

definition getJSON :: "string \<Rightarrow> 'v bucket \<Rightarrow> store_error + 'v option" where
  "getJSON k b =
     (case bget k b of None \<Rightarrow> Inr None | Some (Json v) \<Rightarrow> Inr (Some v) | Some Malformed \<Rightarrow> Inl BadJSON)"

definition Close :: "Store \<Rightarrow> Store" where
  "Close s = s\<lparr>db_open := False\<rparr>"

section \<open>Users\<close>

definition getUserTx :: "'v bucket \<Rightarrow> string \<Rightarrow> store_error + 'v option" where
  "getUserTx b username = getJSON username b"

text \<open>The shape of the user updates: load, or start a new user, change, write back.\<close>

definition user_or_new :: "string \<Rightarrow> StoredUser option \<Rightarrow> StoredUser" where
  "user_or_new username u = (case u of None \<Rightarrow> new_StoredUser username | Some u \<Rightarrow> u)"

definition put_user :: "string \<Rightarrow> StoredUser \<Rightarrow> Store \<Rightarrow> store_error + unit \<times> Store" where
  "put_user username u s =
     map_sum id (\<lambda>b. ((), s\<lparr>db_users := b\<rparr>)) (putJSON username u (db_users s))"

definition UpsertProfile :: "UserProfile \<Rightarrow> Store \<Rightarrow> (store_error + StoredUser) \<times> Store" where
  "UpsertProfile p s = db_update s
     (case getUserTx (db_users s) (p_Subject p) of
        Inl e \<Rightarrow> Inl e
      | Inr u \<Rightarrow>
          let u = (user_or_new (p_Subject p) u)
                    \<lparr>u_Email := p_Email p, u_Name := p_Name p, u_Groups := p_Groups p\<rparr>
          in map_sum id (\<lambda>(_, s'). (u, s')) (put_user (p_Subject p) u s))"

definition GetUser :: "string \<Rightarrow> Store \<Rightarrow> StoredUser option" where
  "GetUser username s =
     (case db_view s (getUserTx (db_users s) username) of Inl _ \<Rightarrow> None | Inr u \<Rightarrow> u)"

definition SetTOTP :: "string \<Rightarrow> string \<Rightarrow> Store \<Rightarrow> (store_error + unit) \<times> Store" where
  "SetTOTP username secret s = db_update s
     (case getUserTx (db_users s) username of
        Inl e \<Rightarrow> Inl e
      | Inr u \<Rightarrow> put_user username
          ((user_or_new username u)\<lparr>u_TOTPSecretBase32 := secret, u_PendingTOTPSecretBase32 := []\<rparr>) s)"

definition SetPendingTOTP :: "string \<Rightarrow> string \<Rightarrow> Store \<Rightarrow> (store_error + unit) \<times> Store" where
  "SetPendingTOTP username secret s = db_update s
     (case getUserTx (db_users s) username of
        Inl e \<Rightarrow> Inl e
      | Inr u \<Rightarrow> put_user username
          ((user_or_new username u)\<lparr>u_PendingTOTPSecretBase32 := secret\<rparr>) s)"

definition CommitPendingTOTP :: "string \<Rightarrow> Store \<Rightarrow> (store_error + unit) \<times> Store" where
  "CommitPendingTOTP username s = db_update s
     (case getUserTx (db_users s) username of
        Inl e \<Rightarrow> Inl e
      | Inr None \<Rightarrow> Inl NoPendingTOTPSecret
      | Inr (Some u) \<Rightarrow>
          if u_PendingTOTPSecretBase32 u = [] then Inl NoPendingTOTPSecret
          else put_user username
            (u\<lparr>u_TOTPSecretBase32 := u_PendingTOTPSecretBase32 u, u_PendingTOTPSecretBase32 := []\<rparr>) s)"

definition ClearPendingTOTP :: "string \<Rightarrow> Store \<Rightarrow> (store_error + unit) \<times> Store" where
  "ClearPendingTOTP username s = db_update s
     (case getUserTx (db_users s) username of
        Inl e \<Rightarrow> Inl e
      | Inr None \<Rightarrow> Inr ((), s)
      | Inr (Some u) \<Rightarrow>
          if u_PendingTOTPSecretBase32 u = [] then Inr ((), s)
          else put_user username (u\<lparr>u_PendingTOTPSecretBase32 := []\<rparr>) s)"

definition AddWebAuthnCredential ::
  "string \<Rightarrow> WebAuthnCredential \<Rightarrow> Store \<Rightarrow> (store_error + unit) \<times> Store" where
  "AddWebAuthnCredential username cred s = db_update s
     (case getUserTx (db_users s) username of
        Inl e \<Rightarrow> Inl e
      | Inr u \<Rightarrow>
          let u = user_or_new username u in
          if \<exists>c \<in> set (u_WebAuthnCredentials u). wc_IDBase64URL c = wc_IDBase64URL cred
          then Inl CredentialAlreadyRegistered
          else put_user username (u\<lparr>u_WebAuthnCredentials := u_WebAuthnCredentials u @ [cred]\<rparr>) s)"

text \<open>The loop that sets the counter of the first credential with the id, if there is one.\<close>

fun set_sign_count :: "string \<Rightarrow> 32 word \<Rightarrow> WebAuthnCredential list \<Rightarrow> WebAuthnCredential list option" where
  "set_sign_count credID n [] = None"
| "set_sign_count credID n (c # cs) =
     (if wc_IDBase64URL c = credID then Some (c\<lparr>wc_SignCount := n\<rparr> # cs)
      else map_option (\<lambda>cs. c # cs) (set_sign_count credID n cs))"

definition UpdateWebAuthnSignCount ::
  "string \<Rightarrow> string \<Rightarrow> 32 word \<Rightarrow> Store \<Rightarrow> (store_error + unit) \<times> Store" where
  "UpdateWebAuthnSignCount username credID n s = db_update s
     (case getUserTx (db_users s) username of
        Inl e \<Rightarrow> Inl e
      | Inr None \<Rightarrow> Inl UserNotFound
      | Inr (Some u) \<Rightarrow>
          (case set_sign_count credID n (u_WebAuthnCredentials u) of
             None \<Rightarrow> Inl CredentialNotFound
           | Some cs \<Rightarrow> put_user username (u\<lparr>u_WebAuthnCredentials := cs\<rparr>) s))"

section \<open>Sessions\<close>

definition GetSession :: "string \<Rightarrow> Store \<Rightarrow> store_error + Session option" where
  "GetSession sid s = db_view s (getJSON sid (db_sessions s))"

definition PutSession :: "string \<Rightarrow> Session \<Rightarrow> Store \<Rightarrow> (store_error + unit) \<times> Store" where
  "PutSession sid sess s = db_update s
     (map_sum id (\<lambda>b. ((), s\<lparr>db_sessions := b\<rparr>)) (putJSON sid sess (db_sessions s)))"

definition EnsureSessionCSRF ::
  "string \<Rightarrow> string \<Rightarrow> Store \<Rightarrow> (store_error + Session option) \<times> Store" where
  "EnsureSessionCSRF sid generated s = db_update s
     (case getJSON sid (db_sessions s) of
        Inl e \<Rightarrow> Inl e
      | Inr None \<Rightarrow> Inr (None, s)
      | Inr (Some sess) \<Rightarrow>
          if s_CSRFToken sess \<noteq> [] then Inr (Some sess, s)
          else let sess = sess\<lparr>s_CSRFToken := generated\<rparr> in
            map_sum id (\<lambda>b. (Some sess, s\<lparr>db_sessions := b\<rparr>)) (putJSON sid sess (db_sessions s)))"

definition DeleteSession :: "string \<Rightarrow> Store \<Rightarrow> (store_error + unit) \<times> Store" where
  "DeleteSession sid s = db_update s (Inr ((), s\<lparr>db_sessions := bdel sid (db_sessions s)\<rparr>))"

section \<open>Authorization requests\<close>

definition GetAuthRequest :: "string \<Rightarrow> Store \<Rightarrow> store_error + AuthorizationRequest option" where
  "GetAuthRequest rid s = db_view s (getJSON rid (db_authRequests s))"

definition PutAuthRequest :: "AuthorizationRequest \<Rightarrow> Store \<Rightarrow> (store_error + unit) \<times> Store" where
  "PutAuthRequest ar s = db_update s
     (map_sum id (\<lambda>b. ((), s\<lparr>db_authRequests := b\<rparr>)) (putJSON (ar_ID ar) ar (db_authRequests s)))"

text \<open>
  Read and delete in one transaction: \<^verbatim>\<open>ConsumeAuthRequest\<close>, \<^verbatim>\<open>ConsumeAuthCode\<close> and
  \<^verbatim>\<open>consumeChallenge\<close> differ only in their bucket, which \<open>upd\<close> writes back.
\<close>

definition consume ::
  "'v bucket \<Rightarrow> ('v bucket \<Rightarrow> Store) \<Rightarrow> string \<Rightarrow> Store \<Rightarrow> (store_error + 'v option) \<times> Store" where
  "consume b upd k s = db_update s
     (case getJSON k b of
        Inl e \<Rightarrow> Inl e
      | Inr None \<Rightarrow> Inr (None, s)
      | Inr (Some v) \<Rightarrow> Inr (Some v, upd (bdel k b)))"

definition ConsumeAuthRequest ::
  "string \<Rightarrow> Store \<Rightarrow> (store_error + AuthorizationRequest option) \<times> Store" where
  "ConsumeAuthRequest rid s = consume (db_authRequests s) (\<lambda>b. s\<lparr>db_authRequests := b\<rparr>) rid s"

section \<open>Authorization codes\<close>

definition PutAuthCode :: "string \<Rightarrow> AuthCode \<Rightarrow> Store \<Rightarrow> (store_error + unit) \<times> Store" where
  "PutAuthCode key ac s = db_update s
     (map_sum id (\<lambda>b. ((), s\<lparr>db_authCodes := b\<rparr>)) (putJSON key ac (db_authCodes s)))"

definition ConsumeAuthCode :: "string \<Rightarrow> Store \<Rightarrow> (store_error + AuthCode option) \<times> Store" where
  "ConsumeAuthCode key s = consume (db_authCodes s) (\<lambda>b. s\<lparr>db_authCodes := b\<rparr>) key s"

section \<open>Refresh tokens\<close>

definition GetRefreshToken :: "string \<Rightarrow> Store \<Rightarrow> store_error + RefreshToken option" where
  "GetRefreshToken key s = db_view s (getJSON key (db_refreshTokens s))"

definition PutRefreshToken :: "string \<Rightarrow> RefreshToken \<Rightarrow> Store \<Rightarrow> (store_error + unit) \<times> Store" where
  "PutRefreshToken key rt s = db_update s
     (map_sum id (\<lambda>b. ((), s\<lparr>db_refreshTokens := b\<rparr>)) (putJSON key rt (db_refreshTokens s)))"

definition DeleteRefreshToken :: "string \<Rightarrow> Store \<Rightarrow> (store_error + bool) \<times> Store" where
  "DeleteRefreshToken key s = db_update s
     (if bget key (db_refreshTokens s) \<noteq> None
      then Inr (True, s\<lparr>db_refreshTokens := bdel key (db_refreshTokens s)\<rparr>)
      else Inr (False, s))"

definition GetConsumedRefreshToken ::
  "string \<Rightarrow> Store \<Rightarrow> store_error + ConsumedRefreshToken option" where
  "GetConsumedRefreshToken key s = db_view s (getJSON key (db_consumedRefreshTokens s))"

definition RotateRefreshToken ::
  "string \<Rightarrow> string \<Rightarrow> RefreshToken \<Rightarrow> ConsumedRefreshToken \<Rightarrow> Store \<Rightarrow> (store_error + bool) \<times> Store" where
  "RotateRefreshToken oldKey newKey nxt consumed s = db_update s
     (if bget oldKey (db_refreshTokens s) = None then Inr (False, s)
      else let active = bdel oldKey (db_refreshTokens s) in
        case putJSON oldKey consumed (db_consumedRefreshTokens s) of
          Inl e \<Rightarrow> Inl e
        | Inr tombs \<Rightarrow>
            (case putJSON newKey nxt active of
               Inl e \<Rightarrow> Inl e
             | Inr active \<Rightarrow>
                 Inr (True, s\<lparr>db_refreshTokens := active, db_consumedRefreshTokens := tombs\<rparr>)))"

definition RevokeRefreshTokenFamily :: "string \<Rightarrow> Store \<Rightarrow> (store_error + unit) \<times> Store" where
  "RevokeRefreshTokenFamily familyID s =
     (if familyID = [] then (Inr (), s)
      else db_update s
        (case decode_all (db_refreshTokens s) of
           None \<Rightarrow> Inl BadJSON
         | Some es \<Rightarrow> Inr ((), s\<lparr>db_refreshTokens :=
             delete_where (\<lambda>rt. rt_FamilyID rt = familyID) es (db_refreshTokens s)\<rparr>)))"

section \<open>Revoked token identifiers\<close>

definition GetRevokedJTI :: "string \<Rightarrow> Store \<Rightarrow> store_error + time option" where
  "GetRevokedJTI jti s = db_view s (getJSON jti (db_revokedJTIs s))"

definition PutRevokedJTI :: "string \<Rightarrow> time \<Rightarrow> Store \<Rightarrow> (store_error + unit) \<times> Store" where
  "PutRevokedJTI jti expiry s = db_update s
     (map_sum id (\<lambda>b. ((), s\<lparr>db_revokedJTIs := b\<rparr>)) (putJSON jti expiry (db_revokedJTIs s)))"

definition DeleteRevokedJTI :: "string \<Rightarrow> Store \<Rightarrow> (store_error + unit) \<times> Store" where
  "DeleteRevokedJTI jti s = db_update s (Inr ((), s\<lparr>db_revokedJTIs := bdel jti (db_revokedJTIs s)\<rparr>))"

section \<open>WebAuthn challenges\<close>

definition PutWebAuthnRegistration ::
  "string \<Rightarrow> ChallengeRecord \<Rightarrow> Store \<Rightarrow> (store_error + unit) \<times> Store" where
  "PutWebAuthnRegistration challenge rec s = db_update s
     (map_sum id (\<lambda>b. ((), s\<lparr>db_webauthnReg := b\<rparr>)) (putJSON challenge rec (db_webauthnReg s)))"

definition ConsumeWebAuthnRegistration ::
  "string \<Rightarrow> Store \<Rightarrow> (store_error + ChallengeRecord option) \<times> Store" where
  "ConsumeWebAuthnRegistration challenge s =
     consume (db_webauthnReg s) (\<lambda>b. s\<lparr>db_webauthnReg := b\<rparr>) challenge s"

definition PutWebAuthnLogin ::
  "string \<Rightarrow> ChallengeRecord \<Rightarrow> Store \<Rightarrow> (store_error + unit) \<times> Store" where
  "PutWebAuthnLogin challenge rec s = db_update s
     (map_sum id (\<lambda>b. ((), s\<lparr>db_webauthnLog := b\<rparr>)) (putJSON challenge rec (db_webauthnLog s)))"

definition ConsumeWebAuthnLogin ::
  "string \<Rightarrow> Store \<Rightarrow> (store_error + ChallengeRecord option) \<times> Store" where
  "ConsumeWebAuthnLogin challenge s =
     consume (db_webauthnLog s) (\<lambda>b. s\<lparr>db_webauthnLog := b\<rparr>) challenge s"

section \<open>Signing keys\<close>

definition signingKeySetKey :: string where
  "signingKeySetKey = ''managed''"

definition GetSigningKeySet :: "Store \<Rightarrow> store_error + managedSigningKeySet option" where
  "GetSigningKeySet s = db_view s (getJSON signingKeySetKey (db_signingKeys s))"

definition PutSigningKeySet :: "managedSigningKeySet \<Rightarrow> Store \<Rightarrow> (store_error + unit) \<times> Store" where
  "PutSigningKeySet keySet s = db_update s
     (map_sum id (\<lambda>b. ((), s\<lparr>db_signingKeys := b\<rparr>))
       (putJSON signingKeySetKey keySet (db_signingKeys s)))"

section \<open>The sweep\<close>

text \<open>\<^verbatim>\<open>sweepBucketTx\<close>: the number of expired entries, and the bucket without them.\<close>

definition sweepBucketTx ::
  "('v \<Rightarrow> time) \<Rightarrow> time \<Rightarrow> 'v bucket \<Rightarrow> store_error + nat \<times> 'v bucket" where
  "sweepBucketTx expiresAt now b =
     (case decode_all b of
        None \<Rightarrow> Inl BadJSON
      | Some es \<Rightarrow> Inr (length (filter (\<lambda>(_, v). now > expiresAt v) es),
                        delete_where (\<lambda>v. now > expiresAt v) es b))"

definition SweepExpired :: "time \<Rightarrow> Store \<Rightarrow> (store_error + nat) \<times> Store" where
  "SweepExpired now s = db_update s
     (case sweepBucketTx s_ExpiresAt now (db_sessions s) of Inl e \<Rightarrow> Inl e | Inr (n1, b1) \<Rightarrow>
      case sweepBucketTx ar_ExpiresAt now (db_authRequests s) of Inl e \<Rightarrow> Inl e | Inr (n2, b2) \<Rightarrow>
      case sweepBucketTx ac_ExpiresAt now (db_authCodes s) of Inl e \<Rightarrow> Inl e | Inr (n3, b3) \<Rightarrow>
      case sweepBucketTx rt_ExpiresAt now (db_refreshTokens s) of Inl e \<Rightarrow> Inl e | Inr (n4, b4) \<Rightarrow>
      case sweepBucketTx crt_ExpiresAt now (db_consumedRefreshTokens s) of Inl e \<Rightarrow> Inl e | Inr (n5, b5) \<Rightarrow>
      case sweepBucketTx (\<lambda>t. t) now (db_revokedJTIs s) of Inl e \<Rightarrow> Inl e | Inr (n6, b6) \<Rightarrow>
      case sweepBucketTx ch_ExpiresAt now (db_webauthnReg s) of Inl e \<Rightarrow> Inl e | Inr (n7, b7) \<Rightarrow>
      case sweepBucketTx ch_ExpiresAt now (db_webauthnLog s) of Inl e \<Rightarrow> Inl e | Inr (n8, b8) \<Rightarrow>
        Inr (n1 + n2 + n3 + n4 + n5 + n6 + n7 + n8,
             s\<lparr>db_sessions := b1, db_authRequests := b2, db_authCodes := b3, db_refreshTokens := b4,
               db_consumedRefreshTokens := b5, db_revokedJTIs := b6, db_webauthnReg := b7,
               db_webauthnLog := b8\<rparr>))"

section \<open>Stored clients and app tokens\<close>

definition ListStoredClients :: "Store \<Rightarrow> store_error + Client list" where
  "ListStoredClients s = db_view s
     (case decode_all (db_clients s) of
        None \<Rightarrow> Inl BadJSON
      | Some es \<Rightarrow> Inr (sort_key c_ClientID (map snd es)))"

definition PutStoredClient :: "Client \<Rightarrow> Store \<Rightarrow> (store_error + unit) \<times> Store" where
  "PutStoredClient c s =
     (if c_ClientID c = [] then (Inl StoreClientIDRequired, s)
      else db_update s
        (map_sum id (\<lambda>b. ((), s\<lparr>db_clients := b\<rparr>))
          (putJSON (c_ClientID c) (persist_Client c) (db_clients s))))"

definition DeleteStoredClient :: "string \<Rightarrow> Store \<Rightarrow> (store_error + unit) \<times> Store" where
  "DeleteStoredClient clientID s =
     db_update s (Inr ((), s\<lparr>db_clients := bdel clientID (db_clients s)\<rparr>))"

definition ListStoredAppTokens :: "Store \<Rightarrow> store_error + AppTokenConfig list" where
  "ListStoredAppTokens s = db_view s
     (case decode_all (db_appTokens s) of
        None \<Rightarrow> Inl BadJSON
      | Some es \<Rightarrow> Inr (sort_key at_ID (map snd es)))"

definition PutStoredAppToken :: "AppTokenConfig \<Rightarrow> Store \<Rightarrow> (store_error + unit) \<times> Store" where
  "PutStoredAppToken t s =
     (if at_ID t = [] then (Inl StoreAppTokenIDRequired, s)
      else db_update s
        (map_sum id (\<lambda>b. ((), s\<lparr>db_appTokens := b\<rparr>))
          (putJSON (at_ID t) (persist_AppToken t) (db_appTokens s))))"

definition DeleteStoredAppToken :: "string \<Rightarrow> Store \<Rightarrow> (store_error + unit) \<times> Store" where
  "DeleteStoredAppToken tid s =
     db_update s (Inr ((), s\<lparr>db_appTokens := bdel tid (db_appTokens s)\<rparr>))"

section \<open>Consent records\<close>

definition consentKey :: "string \<Rightarrow> string \<Rightarrow> string" where
  "consentKey userID clientID = userID @ ''|'' @ clientID"

definition GetConsent :: "string \<Rightarrow> string \<Rightarrow> Store \<Rightarrow> store_error + ConsentRecord option" where
  "GetConsent userID clientID s =
     db_view s (getJSON (consentKey userID clientID) (db_consents s))"

definition PutConsent :: "ConsentRecord \<Rightarrow> Store \<Rightarrow> (store_error + unit) \<times> Store" where
  "PutConsent rec s =
     (if cr_UserID rec = [] \<or> cr_ClientID rec = [] then (Inl ConsentIDsRequired, s)
      else db_update s
        (map_sum id (\<lambda>b. ((), s\<lparr>db_consents := b\<rparr>))
          (putJSON (consentKey (cr_UserID rec) (cr_ClientID rec)) rec (db_consents s))))"

text \<open>The walk of \<^verbatim>\<open>DeleteConsentsForClient\<close> skips values that do not decode.\<close>

fun decode_some :: "'v bucket \<Rightarrow> (string \<times> 'v) list" where
  "decode_some [] = []"
| "decode_some ((k, Json v) # b) = (k, v) # decode_some b"
| "decode_some ((k, Malformed) # b) = decode_some b"

definition DeleteConsentsForClient :: "string \<Rightarrow> Store \<Rightarrow> (store_error + unit) \<times> Store" where
  "DeleteConsentsForClient clientID s = db_update s
     (Inr ((), s\<lparr>db_consents :=
        delete_where (\<lambda>rec. cr_ClientID rec = clientID) (decode_some (db_consents s))
          (db_consents s)\<rparr>))"

section \<open>What a transaction does\<close>

lemma db_view_Inr: "db_view s r = Inr a \<longleftrightarrow> db_open s \<and> r = Inr a"
  by (auto simp: db_view_def)

lemma db_update_Inr: "db_update s r = (Inr a, s') \<longleftrightarrow> db_open s \<and> r = Inr (a, s')"
  by (auto simp: db_update_def split: sum.splits)

lemma db_update_Inl: "db_update s r = (Inl e, s') \<Longrightarrow> s' = s"
  by (auto simp: db_update_def split: sum.splits if_splits)

lemma db_update_snd:
  "snd (db_update s r) = (if db_open s then (case r of Inl _ \<Rightarrow> s | Inr (_, s') \<Rightarrow> s') else s)"
  by (auto simp: db_update_def split: sum.splits prod.splits)

lemma putJSON_Inr: "putJSON k v b = Inr b' \<longleftrightarrow> k \<noteq> [] \<and> length k \<le> 32768 \<and> b' = bput k v b"
  by (auto simp: putJSON_def)

lemma getJSON_Inr:
  "getJSON k b = Inr r \<longleftrightarrow> bget k b = map_option Json r"
  by (cases r) (auto simp: getJSON_def split: option.splits cell.splits)

lemma getJSON_bput [simp]: "getJSON k' (bput k v b) = (if k' = k then Inr (Some v) else getJSON k' b)"
  by (simp add: getJSON_def bget_bput)

lemma getJSON_bdel [simp]: "getJSON k' (bdel k b) = (if k' = k then Inr None else getJSON k' b)"
  by (simp add: getJSON_def bget_bdel)

lemma map_sum_id_Inr [simp]: "map_sum id f x = Inr y \<longleftrightarrow> (\<exists>z. x = Inr z \<and> y = f z)"
  by (cases x) auto

lemmas store_read = db_view_Inr getJSON_Inr GetSession_def GetAuthRequest_def GetRefreshToken_def
  GetConsumedRefreshToken_def GetRevokedJTI_def GetConsent_def

text \<open>The successful writes, as equations on the new store.\<close>

lemma PutSession_Inr [db_simps]:
  "PutSession sid sess s = (Inr u, s') \<longleftrightarrow>
     db_open s \<and> sid \<noteq> [] \<and> length sid \<le> 32768 \<and>
     s' = s\<lparr>db_sessions := bput sid sess (db_sessions s)\<rparr>"
  by (auto simp: PutSession_def db_update_Inr putJSON_Inr)

lemma DeleteSession_Inr [db_simps]:
  "DeleteSession sid s = (Inr u, s') \<longleftrightarrow>
     db_open s \<and> s' = s\<lparr>db_sessions := bdel sid (db_sessions s)\<rparr>"
  by (auto simp: DeleteSession_def db_update_Inr)

lemma PutAuthRequest_Inr [db_simps]:
  "PutAuthRequest ar s = (Inr u, s') \<longleftrightarrow>
     db_open s \<and> ar_ID ar \<noteq> [] \<and> length (ar_ID ar) \<le> 32768 \<and>
     s' = s\<lparr>db_authRequests := bput (ar_ID ar) ar (db_authRequests s)\<rparr>"
  by (auto simp: PutAuthRequest_def db_update_Inr putJSON_Inr)

lemma PutAuthCode_Inr [db_simps]:
  "PutAuthCode key ac s = (Inr u, s') \<longleftrightarrow>
     db_open s \<and> key \<noteq> [] \<and> length key \<le> 32768 \<and>
     s' = s\<lparr>db_authCodes := bput key ac (db_authCodes s)\<rparr>"
  by (auto simp: PutAuthCode_def db_update_Inr putJSON_Inr)

lemma PutRefreshToken_Inr [db_simps]:
  "PutRefreshToken key rt s = (Inr u, s') \<longleftrightarrow>
     db_open s \<and> key \<noteq> [] \<and> length key \<le> 32768 \<and>
     s' = s\<lparr>db_refreshTokens := bput key rt (db_refreshTokens s)\<rparr>"
  by (auto simp: PutRefreshToken_def db_update_Inr putJSON_Inr)

lemma PutRevokedJTI_Inr [db_simps]:
  "PutRevokedJTI jti t s = (Inr u, s') \<longleftrightarrow>
     db_open s \<and> jti \<noteq> [] \<and> length jti \<le> 32768 \<and>
     s' = s\<lparr>db_revokedJTIs := bput jti t (db_revokedJTIs s)\<rparr>"
  by (auto simp: PutRevokedJTI_def db_update_Inr putJSON_Inr)

lemma consume_Inr_Some:
  "consume b upd k s = (Inr (Some v), s') \<longleftrightarrow>
     db_open s \<and> bget k b = Some (Json v) \<and> s' = upd (bdel k b)"
  by (auto simp: consume_def db_update_Inr getJSON_def split: option.splits cell.splits)

lemma consume_Inr_None:
  "consume b upd k s = (Inr None, s') \<longleftrightarrow> db_open s \<and> bget k b = None \<and> s' = s"
  by (auto simp: consume_def db_update_Inr getJSON_def split: option.splits cell.splits)

lemma consume_Inl: "consume b upd k s = (Inl e, s') \<Longrightarrow> s' = s"
  unfolding consume_def by (rule db_update_Inl)

lemma ConsumeAuthCode_Some [db_simps]:
  "ConsumeAuthCode key s = (Inr (Some ac), s') \<longleftrightarrow>
     db_open s \<and> bget key (db_authCodes s) = Some (Json ac) \<and>
     s' = s\<lparr>db_authCodes := bdel key (db_authCodes s)\<rparr>"
  by (simp add: ConsumeAuthCode_def consume_Inr_Some)

lemma ConsumeAuthRequest_Some [db_simps]:
  "ConsumeAuthRequest rid s = (Inr (Some ar), s') \<longleftrightarrow>
     db_open s \<and> bget rid (db_authRequests s) = Some (Json ar) \<and>
     s' = s\<lparr>db_authRequests := bdel rid (db_authRequests s)\<rparr>"
  by (simp add: ConsumeAuthRequest_def consume_Inr_Some)

lemma ConsumeAuthCode_None [db_simps]:
  "ConsumeAuthCode key s = (Inr None, s') \<longleftrightarrow>
     db_open s \<and> bget key (db_authCodes s) = None \<and> s' = s"
  by (simp add: ConsumeAuthCode_def consume_Inr_None)

lemma ConsumeAuthRequest_None [db_simps]:
  "ConsumeAuthRequest rid s = (Inr None, s') \<longleftrightarrow>
     db_open s \<and> bget rid (db_authRequests s) = None \<and> s' = s"
  by (simp add: ConsumeAuthRequest_def consume_Inr_None)

lemma RotateRefreshToken_True [db_simps]:
  "RotateRefreshToken oldKey newKey nxt consumed s = (Inr True, s') \<longleftrightarrow>
     db_open s \<and> bget oldKey (db_refreshTokens s) \<noteq> None \<and>
     oldKey \<noteq> [] \<and> length oldKey \<le> 32768 \<and> newKey \<noteq> [] \<and> length newKey \<le> 32768 \<and>
     s' = s\<lparr>db_refreshTokens := bput newKey nxt (bdel oldKey (db_refreshTokens s)),
            db_consumedRefreshTokens := bput oldKey consumed (db_consumedRefreshTokens s)\<rparr>"
  by (auto simp: RotateRefreshToken_def db_update_Inr putJSON_def Let_def split: if_splits)

lemma RotateRefreshToken_False [db_simps]:
  "RotateRefreshToken oldKey newKey nxt consumed s = (Inr False, s') \<longleftrightarrow>
     db_open s \<and> bget oldKey (db_refreshTokens s) = None \<and> s' = s"
  by (auto simp: RotateRefreshToken_def db_update_Inr putJSON_def Let_def split: if_splits)

lemma RotateRefreshToken_Inl:
  "RotateRefreshToken oldKey newKey nxt consumed s = (Inl e, s') \<Longrightarrow> s' = s"
  unfolding RotateRefreshToken_def by (rule db_update_Inl)

lemma RevokeRefreshTokenFamily_Inr:
  "RevokeRefreshTokenFamily f s = (Inr u, s') \<Longrightarrow> f \<noteq> [] \<Longrightarrow>
     \<exists>es. db_open s \<and> decode_all (db_refreshTokens s) = Some es \<and>
       s' = s\<lparr>db_refreshTokens := delete_where (\<lambda>rt. rt_FamilyID rt = f) es (db_refreshTokens s)\<rparr>"
  by (auto simp: RevokeRefreshTokenFamily_def db_update_Inr split: option.splits)

section \<open>The well-formedness of a store\<close>

text \<open>Every bucket has its keys in strictly increasing order.\<close>

definition store_ok :: "Store \<Rightarrow> bool" where
  "store_ok s =
     (bucket_ok (db_users s) \<and> bucket_ok (db_sessions s) \<and> bucket_ok (db_authRequests s) \<and>
      bucket_ok (db_authCodes s) \<and> bucket_ok (db_refreshTokens s) \<and>
      bucket_ok (db_consumedRefreshTokens s) \<and> bucket_ok (db_revokedJTIs s) \<and>
      bucket_ok (db_webauthnReg s) \<and> bucket_ok (db_webauthnLog s) \<and>
      bucket_ok (db_signingKeys s) \<and> bucket_ok (db_clients s) \<and> bucket_ok (db_appTokens s) \<and>
      bucket_ok (db_consents s))"

named_theorems store_ok_intros \<open>every operation keeps \<open>store_ok\<close>\<close>

lemma store_ok_empty [store_ok_intros]: "store_ok empty_Store"
  by (simp add: store_ok_def empty_Store_def bucket_ok_def)

lemma store_ok_db_update:
  assumes "store_ok s" and "\<And>a s'. r = Inr (a, s') \<Longrightarrow> store_ok s'"
  shows "store_ok (snd (db_update s r))"
  using assms by (auto simp: db_update_snd split: sum.splits)

lemma putJSON_ok: "bucket_ok b \<Longrightarrow> putJSON k v b = Inr b' \<Longrightarrow> bucket_ok b'"
  by (auto simp: putJSON_Inr bucket_ok_bput)

lemma put_user_ok: "store_ok s \<Longrightarrow> put_user n u s = Inr (a, s') \<Longrightarrow> store_ok s'"
  by (auto simp: put_user_def store_ok_def dest: putJSON_ok)

lemma UpsertProfile_ok [store_ok_intros]: "store_ok s \<Longrightarrow> store_ok (snd (UpsertProfile p s))"
  unfolding UpsertProfile_def
  by (rule store_ok_db_update) (auto simp: Let_def put_user_ok split: sum.splits prod.splits)

lemma SetTOTP_ok [store_ok_intros]: "store_ok s \<Longrightarrow> store_ok (snd (SetTOTP n x s))"
  unfolding SetTOTP_def
  by (rule store_ok_db_update) (auto simp: put_user_ok split: sum.splits)

lemma SetPendingTOTP_ok [store_ok_intros]: "store_ok s \<Longrightarrow> store_ok (snd (SetPendingTOTP n x s))"
  unfolding SetPendingTOTP_def
  by (rule store_ok_db_update) (auto simp: put_user_ok split: sum.splits)

lemma CommitPendingTOTP_ok [store_ok_intros]: "store_ok s \<Longrightarrow> store_ok (snd (CommitPendingTOTP n s))"
  unfolding CommitPendingTOTP_def
  by (rule store_ok_db_update) (auto simp: put_user_ok split: sum.splits option.splits if_splits)

lemma ClearPendingTOTP_ok [store_ok_intros]: "store_ok s \<Longrightarrow> store_ok (snd (ClearPendingTOTP n s))"
  unfolding ClearPendingTOTP_def
  by (rule store_ok_db_update) (auto simp: put_user_ok split: sum.splits option.splits if_splits)

lemma AddWebAuthnCredential_ok [store_ok_intros]:
  "store_ok s \<Longrightarrow> store_ok (snd (AddWebAuthnCredential n c s))"
  unfolding AddWebAuthnCredential_def
  by (rule store_ok_db_update) (auto simp: Let_def put_user_ok split: sum.splits if_splits)

lemma UpdateWebAuthnSignCount_ok [store_ok_intros]:
  "store_ok s \<Longrightarrow> store_ok (snd (UpdateWebAuthnSignCount n c x s))"
  unfolding UpdateWebAuthnSignCount_def
  by (rule store_ok_db_update) (auto simp: put_user_ok split: sum.splits option.splits)

lemma consume_ok:
  "store_ok s \<Longrightarrow> bucket_ok b \<Longrightarrow> (\<And>b'. bucket_ok b' \<Longrightarrow> store_ok (upd b')) \<Longrightarrow>
     store_ok (snd (consume b upd k s))"
  unfolding consume_def
  by (rule store_ok_db_update) (auto simp: bucket_ok_bdel split: sum.splits option.splits)

lemma session_ops_ok [store_ok_intros]:
  "store_ok s \<Longrightarrow> store_ok (snd (PutSession sid sess s))"
  "store_ok s \<Longrightarrow> store_ok (snd (DeleteSession sid s))"
  "store_ok s \<Longrightarrow> store_ok (snd (EnsureSessionCSRF sid g s))"
  unfolding PutSession_def DeleteSession_def EnsureSessionCSRF_def
  by (rule store_ok_db_update;
      auto simp: store_ok_def bucket_ok_bdel Let_def dest: putJSON_ok
        split: sum.splits option.splits if_splits)+

lemma request_ops_ok [store_ok_intros]:
  "store_ok s \<Longrightarrow> store_ok (snd (PutAuthRequest ar s))"
  "store_ok s \<Longrightarrow> store_ok (snd (ConsumeAuthRequest rid s))"
  "store_ok s \<Longrightarrow> store_ok (snd (PutAuthCode key ac s))"
  "store_ok s \<Longrightarrow> store_ok (snd (ConsumeAuthCode key s))"
  unfolding PutAuthRequest_def PutAuthCode_def ConsumeAuthRequest_def ConsumeAuthCode_def
  by (rule store_ok_db_update consume_ok; auto simp: store_ok_def dest: putJSON_ok)+

lemma refresh_ops_ok [store_ok_intros]:
  "store_ok s \<Longrightarrow> store_ok (snd (PutRefreshToken key rt s))"
  "store_ok s \<Longrightarrow> store_ok (snd (DeleteRefreshToken key s))"
  "store_ok s \<Longrightarrow> store_ok (snd (RotateRefreshToken key key' nxt tomb s))"
  unfolding PutRefreshToken_def DeleteRefreshToken_def RotateRefreshToken_def
  by (rule store_ok_db_update;
      auto simp: store_ok_def Let_def bucket_ok_bdel bucket_ok_bput putJSON_Inr
        split: sum.splits if_splits)+

lemma RevokeRefreshTokenFamily_ok [store_ok_intros]:
  "store_ok s \<Longrightarrow> store_ok (snd (RevokeRefreshTokenFamily f s))"
  unfolding RevokeRefreshTokenFamily_def
  by (cases "f = []")
    (simp, simp, rule store_ok_db_update,
      auto simp: store_ok_def bucket_ok_delete_where split: option.splits)

lemma jti_challenge_ops_ok [store_ok_intros]:
  "store_ok s \<Longrightarrow> store_ok (snd (PutRevokedJTI jti t s))"
  "store_ok s \<Longrightarrow> store_ok (snd (DeleteRevokedJTI jti s))"
  "store_ok s \<Longrightarrow> store_ok (snd (PutWebAuthnRegistration c rec s))"
  "store_ok s \<Longrightarrow> store_ok (snd (PutWebAuthnLogin c rec s))"
  "store_ok s \<Longrightarrow> store_ok (snd (ConsumeWebAuthnRegistration c s))"
  "store_ok s \<Longrightarrow> store_ok (snd (ConsumeWebAuthnLogin c s))"
  "store_ok s \<Longrightarrow> store_ok (snd (PutSigningKeySet ks s))"
  unfolding PutRevokedJTI_def DeleteRevokedJTI_def PutWebAuthnRegistration_def PutWebAuthnLogin_def
    ConsumeWebAuthnRegistration_def ConsumeWebAuthnLogin_def PutSigningKeySet_def
  by (rule store_ok_db_update consume_ok; auto simp: store_ok_def bucket_ok_bdel dest: putJSON_ok)+

lemma store_ok_unless: "store_ok s \<Longrightarrow> store_ok (snd u) \<Longrightarrow> store_ok (snd (if P then (e, s) else u))"
  by simp

lemma registry_ops_ok [store_ok_intros]:
  "store_ok s \<Longrightarrow> store_ok (snd (PutStoredClient c s))"
  "store_ok s \<Longrightarrow> store_ok (snd (DeleteStoredClient cid s))"
  "store_ok s \<Longrightarrow> store_ok (snd (PutStoredAppToken t s))"
  "store_ok s \<Longrightarrow> store_ok (snd (DeleteStoredAppToken tid s))"
  "store_ok s \<Longrightarrow> store_ok (snd (PutConsent rec s))"
  "store_ok s \<Longrightarrow> store_ok (snd (DeleteConsentsForClient cid s))"
  unfolding PutStoredClient_def DeleteStoredClient_def PutStoredAppToken_def
    DeleteStoredAppToken_def PutConsent_def DeleteConsentsForClient_def
  by ((rule store_ok_unless, assumption)?, rule store_ok_db_update;
      auto simp: store_ok_def bucket_ok_bdel bucket_ok_delete_where dest: putJSON_ok)+

lemma sweepBucketTx_ok: "bucket_ok b \<Longrightarrow> sweepBucketTx f t b = Inr (n, b') \<Longrightarrow> bucket_ok b'"
  by (auto simp: sweepBucketTx_def bucket_ok_delete_where split: option.splits)

lemma SweepExpired_ok [store_ok_intros]: "store_ok s \<Longrightarrow> store_ok (snd (SweepExpired t s))"
  unfolding SweepExpired_def
  by (rule store_ok_db_update)
    (auto simp: store_ok_def split: sum.splits prod.splits dest: sweepBucketTx_ok)

end
