(* ===== verification/RateLimit.thy ===== *)
theory RateLimit
  imports Prelude
begin

text \<open>
  The in-memory limiter of \<^verbatim>\<open>ratelimit.go\<close>.  A method holds the limiter's mutex for its whole body
  and is one atomic step, except \<^verbatim>\<open>allowAndRecord\<close>, which is two: other calls may come between them
  (\<open>limiter_step\<close> below).  Each clock reading \<^verbatim>\<open>l.now()\<close> is an argument.  A nil limiter is not modelled: \<^verbatim>\<open>NewBroker\<close>
  builds all three.
\<close>

record loginRateEntry =
  e_failures :: "time list"
  e_lockedUntil :: time

record loginRateLimiter =
  l_window :: duration
  l_maxAttempts :: int
  l_lockout :: duration
  l_entries :: "string \<rightharpoonup> loginRateEntry"

definition newLoginRateLimiter :: "duration \<Rightarrow> int \<Rightarrow> duration \<Rightarrow> loginRateLimiter" where
  "newLoginRateLimiter window maxAttempts lockout =
     \<lparr>l_window = window, l_maxAttempts = maxAttempts, l_lockout = lockout, l_entries = Map.empty\<rparr>"

definition new_entry :: loginRateEntry where
  "new_entry = \<lparr>e_failures = [], e_lockedUntil = zero_time\<rparr>"

definition allow :: "time \<Rightarrow> string \<Rightarrow> loginRateLimiter \<Rightarrow> (bool \<times> duration) \<times> loginRateLimiter" where
  "allow now key l =
     (if key = [] then ((True, 0), l)
      else case l_entries l key of
          None \<Rightarrow> ((True, 0), l)
        | Some entry \<Rightarrow>
            if \<not> IsZero (e_lockedUntil entry) \<and> now < e_lockedUntil entry
            then ((False, time_sub (e_lockedUntil entry) now), l)
            else if \<not> IsZero (e_lockedUntil entry) \<and> \<not> now < e_lockedUntil entry
            then ((True, 0), l\<lparr>l_entries := (l_entries l)(key \<mapsto>
                    entry\<lparr>e_lockedUntil := zero_time, e_failures := []\<rparr>)\<rparr>)
            else ((True, 0), l))"

definition recordFailure :: "time \<Rightarrow> string \<Rightarrow> loginRateLimiter \<Rightarrow> loginRateLimiter" where
  "recordFailure now key l =
     (if key = [] then l
      else let entry = (case l_entries l key of None \<Rightarrow> new_entry | Some e \<Rightarrow> e);
               cutoff = now - l_window l;
               failures = filter (\<lambda>t. t > cutoff) (e_failures entry) @ [now];
               entry = entry\<lparr>e_failures := failures\<rparr>;
               entry = (if int (length failures) \<ge> l_maxAttempts l
                        then entry\<lparr>e_lockedUntil := now + l_lockout l\<rparr> else entry)
           in l\<lparr>l_entries := (l_entries l)(key \<mapsto> entry)\<rparr>)"

definition recordSuccess :: "string \<Rightarrow> loginRateLimiter \<Rightarrow> loginRateLimiter" where
  "recordSuccess key l =
     (if key = [] then l else l\<lparr>l_entries := (l_entries l)(key := None)\<rparr>)"

text \<open>The two sections of \<^verbatim>\<open>allowAndRecord\<close> take the lock and read the clock one after the other.\<close>

definition allowAndRecord ::
  "time \<Rightarrow> time \<Rightarrow> string \<Rightarrow> loginRateLimiter \<Rightarrow> (bool \<times> duration) \<times> loginRateLimiter" where
  "allowAndRecord now now' key l =
     (if key = [] then ((True, 0), l)
      else case allow now key l of
          ((allowed, retry), l') \<Rightarrow>
            if \<not> allowed then ((False, retry), l') else ((True, 0), recordFailure now' key l'))"

definition sweep_keeps :: "time \<Rightarrow> duration \<Rightarrow> loginRateEntry \<Rightarrow> bool" where
  "sweep_keeps now window entry =
     (\<not> IsZero (e_lockedUntil entry) \<and> now < e_lockedUntil entry \<or>
      (\<exists>t \<in> set (e_failures entry). t > now - window))"

definition sweep :: "time \<Rightarrow> loginRateLimiter \<Rightarrow> loginRateLimiter" where
  "sweep now l = l\<lparr>l_entries := (\<lambda>key.
     case l_entries l key of
       None \<Rightarrow> None
     | Some entry \<Rightarrow> if sweep_keeps now (l_window l) entry then Some entry else None)\<rparr>"

section \<open>Concurrent calls\<close>

text \<open>
  The limiter under the calls of \<^verbatim>\<open>allowAndRecord\<close> of all requests and the sweeps: the keys of the
  calls that have been let through and have not recorded yet, and of all that were let through.
  \<open>Check\<close> is the first section of a call, \<open>Record\<close> the second, which only a call that was let
  through comes to; any section may come next.
\<close>

record limiter_calls =
  lc_limiter :: loginRateLimiter
  lc_open :: "string list"
  lc_passed :: "string list"

datatype limiter_section = Check time string | Record time string | Sweep time

fun limiter_step :: "limiter_section \<Rightarrow> limiter_calls \<Rightarrow> limiter_calls option" where
  "limiter_step (Check t key) c =
     (if key = [] then Some (c\<lparr>lc_passed := key # lc_passed c\<rparr>)
      else case allow t key (lc_limiter c) of
          ((allowed, _), l) \<Rightarrow>
            Some (if allowed then c\<lparr>lc_limiter := l, lc_open := key # lc_open c, lc_passed := key # lc_passed c\<rparr>
                  else c\<lparr>lc_limiter := l\<rparr>))"
| "limiter_step (Record t key) c =
     (if key \<in> set (lc_open c)
      then Some (c\<lparr>lc_limiter := recordFailure t key (lc_limiter c), lc_open := remove1 key (lc_open c)\<rparr>)
      else None)"
| "limiter_step (Sweep t) c = Some (c\<lparr>lc_limiter := sweep t (lc_limiter c)\<rparr>)"

fun limiter_steps :: "limiter_section list \<Rightarrow> limiter_calls \<Rightarrow> limiter_calls option" where
  "limiter_steps [] c = Some c"
| "limiter_steps (x # xs) c = (case limiter_step x c of None \<Rightarrow> None | Some c' \<Rightarrow> limiter_steps xs c')"

text \<open>The largest number of calls on a key that are between their sections at the same time.\<close>

fun peak :: "string \<Rightarrow> limiter_section list \<Rightarrow> limiter_calls \<Rightarrow> nat" where
  "peak key [] c = count_list (lc_open c) key"
| "peak key (x # xs) c =
     max (count_list (lc_open c) key) (case limiter_step x c of None \<Rightarrow> 0 | Some c' \<Rightarrow> peak key xs c')"

fun section_time :: "limiter_section \<Rightarrow> time" where
  "section_time (Check t key) = t"
| "section_time (Record t key) = t"
| "section_time (Sweep t) = t"

section \<open>Frames\<close>

lemma limiter_params [simp]:
  "l_window (snd (allow t k l)) = l_window l"
  "l_maxAttempts (snd (allow t k l)) = l_maxAttempts l"
  "l_lockout (snd (allow t k l)) = l_lockout l"
  "l_window (recordFailure t k l) = l_window l"
  "l_maxAttempts (recordFailure t k l) = l_maxAttempts l"
  "l_lockout (recordFailure t k l) = l_lockout l"
  "l_window (recordSuccess k l) = l_window l"
  "l_maxAttempts (recordSuccess k l) = l_maxAttempts l"
  "l_lockout (recordSuccess k l) = l_lockout l"
  "l_window (sweep t l) = l_window l"
  "l_maxAttempts (sweep t l) = l_maxAttempts l"
  "l_lockout (sweep t l) = l_lockout l"
  by (auto simp: allow_def recordFailure_def recordSuccess_def sweep_def Let_def split: option.splits)

lemma allowAndRecord_params [simp]:
  "l_window (snd (allowAndRecord t t' k l)) = l_window l"
  "l_maxAttempts (snd (allowAndRecord t t' k l)) = l_maxAttempts l"
  "l_lockout (snd (allowAndRecord t t' k l)) = l_lockout l"
proof -
  obtain a r l' where al: "allow t k l = ((a, r), l')" by (metis surj_pair)
  have "l_window l' = l_window l" "l_maxAttempts l' = l_maxAttempts l" "l_lockout l' = l_lockout l"
    using limiter_params(1-3) [of t k l] al by simp_all
  then show "l_window (snd (allowAndRecord t t' k l)) = l_window l"
    "l_maxAttempts (snd (allowAndRecord t t' k l)) = l_maxAttempts l"
    "l_lockout (snd (allowAndRecord t t' k l)) = l_lockout l"
    by (simp_all add: allowAndRecord_def al)
qed

lemma other_key [simp]:
  "k' \<noteq> k \<Longrightarrow> l_entries (snd (allow t k l)) k' = l_entries l k'"
  "k' \<noteq> k \<Longrightarrow> l_entries (recordFailure t k l) k' = l_entries l k'"
  "k' \<noteq> k \<Longrightarrow> l_entries (recordSuccess k l) k' = l_entries l k'"
  by (auto simp: allow_def recordFailure_def recordSuccess_def Let_def split: option.splits)

text \<open>What the limiter answers depends on the key's own entry only.\<close>

definition locked :: "time \<Rightarrow> loginRateEntry option \<Rightarrow> bool" where
  "locked t e = (case e of None \<Rightarrow> False
     | Some e \<Rightarrow> \<not> IsZero (e_lockedUntil e) \<and> t < e_lockedUntil e)"

lemma allow_iff: "fst (fst (allow t k l)) \<longleftrightarrow> k = [] \<or> \<not> locked t (l_entries l k)"
  by (auto simp: allow_def locked_def split: option.splits)

text \<open>The entry of the key after a call that was let through.\<close>

definition unlock :: "loginRateEntry option \<Rightarrow> loginRateEntry option" where
  "unlock e = (case e of None \<Rightarrow> None
     | Some e \<Rightarrow> if IsZero (e_lockedUntil e) then Some e
                 else Some (e\<lparr>e_lockedUntil := zero_time, e_failures := []\<rparr>))"

definition fail_entry :: "duration \<Rightarrow> int \<Rightarrow> duration \<Rightarrow> time \<Rightarrow> loginRateEntry option \<Rightarrow> loginRateEntry" where
  "fail_entry window maxAttempts lockout now e =
     (let entry = (case e of None \<Rightarrow> new_entry | Some e \<Rightarrow> e);
          failures = filter (\<lambda>t. t > now - window) (e_failures entry) @ [now]
      in if int (length failures) \<ge> maxAttempts
         then entry\<lparr>e_failures := failures, e_lockedUntil := now + lockout\<rparr>
         else entry\<lparr>e_failures := failures\<rparr>)"

lemma allow_entry:
  "k \<noteq> [] \<Longrightarrow> l_entries (snd (allow t k l)) k =
     (if locked t (l_entries l k) then l_entries l k else unlock (l_entries l k))"
  by (auto simp: allow_def locked_def unlock_def split: option.splits)

lemma recordFailure_entry:
  "k \<noteq> [] \<Longrightarrow> l_entries (recordFailure t k l) k =
     Some (fail_entry (l_window l) (l_maxAttempts l) (l_lockout l) t (l_entries l k))"
  by (simp add: recordFailure_def fail_entry_def Let_def)

lemma allowAndRecord_entry:
  assumes "k \<noteq> []"
  shows "fst (fst (allowAndRecord t t' k l)) \<longleftrightarrow> \<not> locked t (l_entries l k)"
    and "l_entries (snd (allowAndRecord t t' k l)) k =
      (if locked t (l_entries l k) then l_entries l k
       else Some (fail_entry (l_window l) (l_maxAttempts l) (l_lockout l) t' (unlock (l_entries l k))))"
proof -
  obtain a r l' where al: "allow t k l = ((a, r), l')" by (metis surj_pair)
  have a: "a \<longleftrightarrow> \<not> locked t (l_entries l k)" using allow_iff [of t k l] al assms by simp
  show "fst (fst (allowAndRecord t t' k l)) \<longleftrightarrow> \<not> locked t (l_entries l k)"
    using assms al a by (simp add: allowAndRecord_def)
  have "l_entries l' k = (if locked t (l_entries l k) then l_entries l k else unlock (l_entries l k))"
    using allow_entry [OF assms, of t l] al by simp
  moreover have "l_window l' = l_window l" "l_maxAttempts l' = l_maxAttempts l"
    "l_lockout l' = l_lockout l"
    using limiter_params(1-3) [of t k l] al by simp_all
  ultimately show "l_entries (snd (allowAndRecord t t' k l)) k =
      (if locked t (l_entries l k) then l_entries l k
       else Some (fail_entry (l_window l) (l_maxAttempts l) (l_lockout l) t' (unlock (l_entries l k))))"
    using assms al a by (simp add: allowAndRecord_def recordFailure_entry)
qed

text \<open>A call that nothing comes between is its two sections in a row.\<close>

lemma allowAndRecord_steps:
  assumes "k \<noteq> []" and "allowAndRecord t t' k (lc_limiter c) = ((a, r), l)"
  shows "limiter_steps (if a then [Check t k, Record t' k] else [Check t k]) c =
    Some (if a then c\<lparr>lc_limiter := l, lc_passed := k # lc_passed c\<rparr> else c\<lparr>lc_limiter := l\<rparr>)"
  using assms by (auto simp: allowAndRecord_def split: prod.splits if_splits)

section \<open>Bursts\<close>

text \<open>
  How many of the failures of an entry lie after \<open>T0\<close>, and how many calls such an entry lets
  through until \<open>T1\<close> if each is recorded before the next.
\<close>

definition pot :: "time \<Rightarrow> loginRateEntry option \<Rightarrow> nat" where
  "pot T0 e = (case e of None \<Rightarrow> 0 | Some e \<Rightarrow> length (filter (\<lambda>t. T0 \<le> t) (e_failures e)))"

definition budget :: "nat \<Rightarrow> time \<Rightarrow> loginRateEntry option \<Rightarrow> nat" where
  "budget M T0 e = max 1 (M - pot T0 e)"

text \<open>A lock is set, though it may be over: it was set before \<open>T0\<close>.\<close>

definition lock_set :: "loginRateEntry option \<Rightarrow> bool" where
  "lock_set e = (case e of None \<Rightarrow> False | Some e \<Rightarrow> \<not> IsZero (e_lockedUntil e))"

text \<open>
  The invariant of a stretch from \<open>T0\<close> to \<open>T1\<close> in which at most \<open>C\<close> calls are open at once, when \<open>n\<close>
  calls were let through and \<open>p\<close> are open: as long as the key is not locked for the rest of the
  stretch, what was let through and what still may be does not exceed the allowance by more than
  the open calls; nothing was let through while an old lock stands.
\<close>

definition within :: "nat \<Rightarrow> nat \<Rightarrow> time \<Rightarrow> time \<Rightarrow> nat \<Rightarrow> nat \<Rightarrow> loginRateEntry option \<Rightarrow> bool" where
  "within M C T0 T1 n p e \<longleftrightarrow> n + 1 \<le> M + C \<and>
     (\<not> locked T1 e \<longrightarrow> (if lock_set e then n = 0 else n + budget M T0 e \<le> M + p))"

lemma pot_fail_entry:
  assumes "T1 - T0 < w" and "t \<le> T1" and "T0 \<le> t"
  shows "pot T0 (Some (fail_entry w m lo t e)) = Suc (pot T0 e)"
proof -
  have "filter (\<lambda>x. t < w + x \<and> T0 \<le> x) fs = filter (\<lambda>x. T0 \<le> x) fs" for fs
    using assms by (intro filter_cong) auto
  then show ?thesis
    using assms by (auto simp: pot_def fail_entry_def Let_def new_entry_def algebra_simps conj_commute split: option.splits)
qed

lemma pot_le_failures: "pot T0 (Some e) \<le> length (e_failures e)"
  by (simp add: pot_def)

lemma fail_entry_lock:
  "int (length (e_failures (fail_entry w m lo t e))) \<ge> m \<Longrightarrow>
     e_lockedUntil (fail_entry w m lo t e) = t + lo"
  "\<not> int (length (e_failures (fail_entry w m lo t e))) \<ge> m \<Longrightarrow>
     e_lockedUntil (fail_entry w m lo t e) = (case e of None \<Rightarrow> zero_time | Some e \<Rightarrow> e_lockedUntil e)"
  by (auto simp: fail_entry_def Let_def new_entry_def split: option.splits if_splits)

lemma within_start: "1 \<le> M \<Longrightarrow> 1 \<le> C \<Longrightarrow> within M C T0 T1 0 p e"
  by (auto simp: within_def budget_def)

lemma locked_earlier: "locked T e \<Longrightarrow> t \<le> T \<Longrightarrow> locked t e"
  by (auto simp: locked_def split: option.splits)

lemma within_check:
  assumes "within M C T0 T1 n p e" and "1 \<le> M" and "Suc p \<le> C" and "t \<le> T1" and "\<not> locked t e"
  shows "within M C T0 T1 (Suc n) (Suc p) (unlock e)"
proof -
  have open_: "\<not> locked T1 e" using assms(4,5) locked_earlier by blast
  show ?thesis
  proof (cases "lock_set e")
    case True
    then have "budget M T0 (unlock e) = M" "\<not> lock_set (unlock e)"
      using assms(2) by (auto simp: lock_set_def unlock_def budget_def pot_def IsZero_def split: option.splits)
    then show ?thesis using assms(1-3) open_ True by (simp add: within_def)
  next
    case False
    then have "unlock e = e" by (auto simp: lock_set_def unlock_def split: option.splits)
    moreover have "1 \<le> budget M T0 e" by (simp add: budget_def)
    ultimately show ?thesis using assms(1,3) open_ False by (auto simp: within_def)
  qed
qed

lemma within_record:
  assumes "within M C T0 T1 n (Suc p) e" and "0 \<le> T0" and "T0 \<le> t" and "t \<le> T1" and "T1 - T0 < w" and "T1 - T0 < lo"
  shows "within M C T0 T1 n p (Some (fail_entry w (int M) lo t e))" (is "within M C T0 T1 n p (Some ?f)")
proof (cases "int (length (e_failures ?f)) \<ge> int M")
  case True
  then have "e_lockedUntil ?f = t + lo" by (rule fail_entry_lock)
  then have "locked T1 (Some ?f)" using assms(2-6) by (auto simp: locked_def IsZero_def zero_time_def)
  then show ?thesis using assms(1) by (simp add: within_def)
next
  case False
  have pf: "pot T0 (Some ?f) = Suc (pot T0 e)" using assms by (intro pot_fail_entry) auto
  have l: "locked T1 (Some ?f) = locked T1 e" "lock_set (Some ?f) = lock_set e"
    using fail_entry_lock(2) [OF False] by (auto simp: locked_def lock_set_def IsZero_def split: option.splits)
  have "Suc (pot T0 e) < M" using False pot_le_failures [of T0 ?f] pf by simp
  then have "Suc (budget M T0 (Some ?f)) = budget M T0 e" by (simp add: budget_def pf)
  then show ?thesis using assms(1) by (auto simp: within_def l)
qed

lemma within_sweep:
  assumes "within M C T0 T1 n p (l_entries l k)" and "1 \<le> M" and "t \<le> T1" and "T1 - T0 < l_window l"
  shows "within M C T0 T1 n p (l_entries (sweep t l) k)"
proof (cases "l_entries (sweep t l) k = l_entries l k")
  case False
  then obtain e where e: "l_entries l k = Some e" "\<not> sweep_keeps t (l_window l) e" and n: "l_entries (sweep t l) k = None"
    by (auto simp: sweep_def split: option.splits if_splits)
  have open_: "\<not> locked T1 (Some e)"
    using e(2) assms(3) locked_earlier [of T1 "Some e" t] by (auto simp: sweep_keeps_def locked_def)
  have "pot T0 (Some e) = 0" using e(2) assms(3,4) by (fastforce simp: pot_def sweep_keeps_def filter_empty_conv)
  then show ?thesis
    using assms(1,2) e(1) n open_ by (auto simp: within_def budget_def pot_def locked_def lock_set_def split: if_splits)
qed (use assms(1) in simp)

lemma count_remove1: "x \<in> set xs \<Longrightarrow> Suc (count_list (remove1 x xs) x) = count_list xs x"
  by (induction xs) auto

lemma count_remove1_other: "x \<noteq> y \<Longrightarrow> count_list (remove1 y xs) x = count_list xs x"
  by (induction xs) auto

text \<open>One section keeps the invariant of every key, and the parameters of the limiter.\<close>

lemma within_step:
  assumes "limiter_step x c = Some c'" and "k \<noteq> []" and "l_maxAttempts (lc_limiter c) = int M" and "1 \<le> M" and "0 \<le> T0"
    and "T1 - T0 < l_window (lc_limiter c)" and "T1 - T0 < l_lockout (lc_limiter c)"
    and "T0 \<le> section_time x" and "section_time x \<le> T1" and "count_list (lc_open c') k \<le> C"
    and "count_list (lc_passed c) k = b + n" and "within M C T0 T1 n (count_list (lc_open c) k) (l_entries (lc_limiter c) k)"
  shows "\<exists>n'. count_list (lc_passed c') k = b + n' \<and>
    within M C T0 T1 n' (count_list (lc_open c') k) (l_entries (lc_limiter c') k)"
proof (cases x)
  case (Check t key)
  obtain a r l where al: "allow t key (lc_limiter c) = ((a, r), l)" by (metis surj_pair)
  show ?thesis
  proof (cases "key = k")
    case True
    have a: "a \<longleftrightarrow> \<not> locked t (l_entries (lc_limiter c) k)" using allow_iff [of t k "lc_limiter c"] al True assms(2) by simp
    have e: "l_entries l k = (if a then unlock (l_entries (lc_limiter c) k) else l_entries (lc_limiter c) k)"
      using allow_entry [OF assms(2), of t "lc_limiter c"] al True a by simp
    show ?thesis
    proof (cases a)
      case True
      then show ?thesis
        using assms Check al e a \<open>key = k\<close> within_check [OF assms(12,4), of t] by (intro exI [of _ "Suc n"]) auto
    next
      case False
      then show ?thesis using assms Check al e \<open>key = k\<close> by (intro exI [of _ n]) auto
    qed
  next
    case False
    then have "l_entries l k = l_entries (lc_limiter c) k" using other_key(1) [of k key t "lc_limiter c"] al by simp
    then show ?thesis using False assms Check al by (intro exI [of _ n]) (auto split: if_splits)
  qed
next
  case (Record t key)
  then have c': "key \<in> set (lc_open c)" "c' = c\<lparr>lc_limiter := recordFailure t key (lc_limiter c), lc_open := remove1 key (lc_open c)\<rparr>"
    using assms(1) by (auto split: if_splits)
  show ?thesis
  proof (cases "key = k")
    case True
    have "Suc (count_list (lc_open c') k) = count_list (lc_open c) k" using c' True count_remove1 [of k "lc_open c"] by simp
    with assms(12) have "within M C T0 T1 n (Suc (count_list (lc_open c') k)) (l_entries (lc_limiter c) k)" by argo
    from within_record [OF this assms(5) _ _ assms(6,7), of t] show ?thesis
      using assms Record c' True by (intro exI [of _ n]) (simp add: recordFailure_entry)
  next
    case False
    then show ?thesis using assms(11,12) c' by (intro exI [of _ n]) (simp add: count_remove1_other)
  qed
next
  case (Sweep t)
  then show ?thesis
    using assms within_sweep [OF assms(12,4), of t] by (intro exI [of _ n]) auto
qed

lemma step_params:
  assumes "limiter_step x c = Some c'"
  shows "l_window (lc_limiter c') = l_window (lc_limiter c)" "l_maxAttempts (lc_limiter c') = l_maxAttempts (lc_limiter c)"
    "l_lockout (lc_limiter c') = l_lockout (lc_limiter c)"
proof -
  have "l_window l = l_window l0 \<and> l_maxAttempts l = l_maxAttempts l0 \<and> l_lockout l = l_lockout l0"
    if "allow t k l0 = (r, l)" for t k l0 r l using that limiter_params(1-3) [of t k l0] by simp
  then show "l_window (lc_limiter c') = l_window (lc_limiter c)" "l_maxAttempts (lc_limiter c') = l_maxAttempts (lc_limiter c)"
    "l_lockout (lc_limiter c') = l_lockout (lc_limiter c)"
    using assms by (cases x; auto split: if_splits prod.splits)+
qed

lemma peak_head: "count_list (lc_open c) k \<le> peak k xs c"
  by (cases xs) simp_all

lemma within_steps:
  assumes "limiter_steps xs c = Some c'" and "k \<noteq> []" and "l_maxAttempts (lc_limiter c) = int M" and "1 \<le> M" and "0 \<le> T0"
    and "T1 - T0 < l_window (lc_limiter c)" and "T1 - T0 < l_lockout (lc_limiter c)"
    and "\<forall>x \<in> set xs. T0 \<le> section_time x \<and> section_time x \<le> T1" and "peak k xs c \<le> C"
    and "count_list (lc_passed c) k = b + n" and "within M C T0 T1 n (count_list (lc_open c) k) (l_entries (lc_limiter c) k)"
  shows "count_list (lc_passed c') k + 1 \<le> b + M + C"
  using assms
proof (induction xs arbitrary: c n)
  case Nil
  then show ?case by (simp add: within_def)
next
  case (Cons x xs)
  from Cons.prems(1) obtain c1 where s: "limiter_step x c = Some c1" and r: "limiter_steps xs c1 = Some c'"
    by (auto split: option.splits)
  have pk: "peak k xs c1 \<le> C" using Cons.prems(9) s by simp
  then have o: "count_list (lc_open c1) k \<le> C" using peak_head [of c1 k xs] by simp
  have x: "T0 \<le> section_time x" "section_time x \<le> T1" and xs: "\<forall>x \<in> set xs. T0 \<le> section_time x \<and> section_time x \<le> T1"
    using Cons.prems(8) by simp_all
  note st = within_step [OF s Cons.prems(2-7) x o Cons.prems(10,11)]
  then obtain n' where n': "count_list (lc_passed c1) k = b + n'"
    "within M C T0 T1 n' (count_list (lc_open c1) k) (l_entries (lc_limiter c1) k)" by blast
  note p = step_params [OF s]
  show ?case by (rule Cons.IH [OF r Cons.prems(2) _ Cons.prems(4,5) _ _ xs pk n']) (use Cons.prems p in simp_all)
qed


definition demo_calls :: limiter_calls where
  "demo_calls = \<lparr>lc_limiter = newLoginRateLimiter 60 2 60, lc_open = [], lc_passed = []\<rparr>"

definition demo_sections :: "limiter_section list" where
  "demo_sections = [Check 0 ''k'', Record 1 ''k'', Check 1 ''k'', Check 1 ''k'', Check 2 ''k'', Record 2 ''k'', Check 2 ''k'',
     Record 3 ''k'', Sweep 3, Record 3 ''k'']"

lemma demo_sections_eval:
  "\<exists>l. limiter_steps demo_sections demo_calls = Some (demo_calls\<lparr>lc_limiter := l, lc_passed := replicate 4 ''k''\<rparr>)"
  "peak ''k'' demo_sections demo_calls = 3"
  by (simp_all add: demo_sections_def demo_calls_def newLoginRateLimiter_def allow_def recordFailure_def new_entry_def sweep_def
      sweep_keeps_def IsZero_def zero_time_def Let_def numeral_eq_Suc)


section \<open>Lockout\<close>

abbreviation failures_at :: "string \<Rightarrow> time list \<Rightarrow> loginRateLimiter \<Rightarrow> loginRateLimiter" where
  "failures_at k ts l \<equiv> fold (\<lambda>t. recordFailure t k) ts l"

lemma fold_fail_params [simp]:
  "l_window (failures_at k ts l) = l_window l"
  "l_maxAttempts (failures_at k ts l) = l_maxAttempts l"
  "l_lockout (failures_at k ts l) = l_lockout l"
  by (induction ts arbitrary: l) simp_all

lemma fold_fail_pot:
  assumes "k \<noteq> []" and "T1 - T0 < l_window l" and "\<forall>t \<in> set ts. T0 \<le> t \<and> t \<le> T1"
  shows "pot T0 (l_entries (failures_at k ts l) k) = pot T0 (l_entries l k) + length ts"
  using assms
proof (induction ts arbitrary: l)
  case (Cons t ts)
  have "pot T0 (l_entries (recordFailure t k l) k) = Suc (pot T0 (l_entries l k))"
    using Cons.prems by (simp add: recordFailure_entry pot_fail_entry)
  then show ?case using Cons by simp
qed simp

text \<open>
  Lockout: once \<^verbatim>\<open>maxAttempts\<close> failures of a key fall within one window, \<^verbatim>\<open>allow\<close>
  refuses the key until the lockout that follows the last of them is over, changes nothing
  meanwhile, and its retry hint is exactly the time that is left.
\<close>

theorem lockout_holds:
  assumes "k \<noteq> []" and "l_maxAttempts l \<le> int (length (ts @ [t]))" and "0 \<le> T0"
    and "T1 - T0 < l_window l" and "0 < l_lockout l" and "l_lockout l < 2 ^ 63"
    and "\<forall>u \<in> set (ts @ [t]). T0 \<le> u \<and> u \<le> T1"
    and "t \<le> now" and "now < t + l_lockout l"
  shows "allow now k (failures_at k (ts @ [t]) l) =
           ((False, t + l_lockout l - now), failures_at k (ts @ [t]) l)"
proof -
  let ?l = "failures_at k ts l"
  let ?e = "fail_entry (l_window l) (l_maxAttempts l) (l_lockout l) t (l_entries ?l k)"
  have e: "l_entries (failures_at k (ts @ [t]) l) k = Some ?e"
    using assms(1) by (simp add: recordFailure_entry)
  have "pot T0 (Some ?e) = pot T0 (l_entries l k) + length (ts @ [t])"
    using fold_fail_pot [OF assms(1,4,7)] e by simp
  then have "l_maxAttempts l \<le> int (length (e_failures ?e))"
    using assms(2) pot_le_failures [of T0 ?e] by simp
  then have lk: "e_lockedUntil ?e = t + l_lockout l" by (rule fail_entry_lock)
  have "0 \<le> t" using assms(3,7) by auto
  then have "\<not> IsZero (t + l_lockout l)" using assms(5) by (simp add: IsZero_def zero_time_def)
  moreover have "time_sub (t + l_lockout l) now = t + l_lockout l - now"
    using assms(6,8,9) by (simp add: time_sub_def)
  ultimately show ?thesis
    using assms(1,9) e lk by (simp add: allow_def)
qed

theorem lockout_holds_witness:
  "allow 50 ''k'' (failures_at ''k'' ([10] @ [20]) (newLoginRateLimiter 60 2 100)) =
     ((False, 70), failures_at ''k'' ([10] @ [20]) (newLoginRateLimiter 60 2 100))"
  using lockout_holds [of "''k''" "newLoginRateLimiter 60 2 100" "[10]" 20 10 20 50]
  by (simp add: newLoginRateLimiter_def)

section \<open>Sweeping\<close>

text \<open>
  Calls of \<^verbatim>\<open>allowAndRecord\<close> on one key, one after the other, with their two clock readings: how many
  are let through, and the limiter after them.
\<close>

fun attempts :: "string \<Rightarrow> (time \<times> time) list \<Rightarrow> loginRateLimiter \<Rightarrow> nat \<times> loginRateLimiter" where
  "attempts k [] l = (0, l)"
| "attempts k ((t, t') # ts) l =
     (case allowAndRecord t t' k l of ((a, _), l1) \<Rightarrow>
        case attempts k ts l1 of (n, l2) \<Rightarrow> ((if a then Suc n else n), l2))"

text \<open>An entry the sweeper may drop behaves like no entry at all from then on.\<close>

lemma fail_entry_swept:
  assumes "\<not> sweep_keeps now w e" and "now \<le> t"
  shows "\<not> locked t (Some e)"
    and "fail_entry w m lo t (unlock (Some e)) = fail_entry w m lo t None"
proof -
  show u: "\<not> locked t (Some e)" using assms by (auto simp: sweep_keeps_def locked_def)
  have "filter (\<lambda>x. x > t - w) (e_failures e) = []"
    using assms by (fastforce simp: sweep_keeps_def filter_empty_conv)
  then show "fail_entry w m lo t (unlock (Some e)) = fail_entry w m lo t None"
    by (auto simp: fail_entry_def unlock_def new_entry_def IsZero_def Let_def)
qed

lemma allowAndRecord_sweep:
  assumes "k \<noteq> []" and "now \<le> t" and "now \<le> t'"
  shows "fst (fst (allowAndRecord t t' k (sweep now l))) = fst (fst (allowAndRecord t t' k l))"
    and "l_entries (snd (allowAndRecord t t' k (sweep now l))) k = l_entries (snd (allowAndRecord t t' k l)) k"
proof -
  have sw: "l_entries (sweep now l) k = l_entries l k \<or>
    (\<exists>e. l_entries l k = Some e \<and> \<not> sweep_keeps now (l_window l) e \<and> l_entries (sweep now l) k = None)"
    by (auto simp: sweep_def split: option.splits)
  have none: "\<not> locked t None" "unlock None = None" by (simp_all add: locked_def unlock_def)
  show "fst (fst (allowAndRecord t t' k (sweep now l))) = fst (fst (allowAndRecord t t' k l))"
    using sw assms(2,3) none by (auto simp: allowAndRecord_entry [OF assms(1)] fail_entry_swept)
  show "l_entries (snd (allowAndRecord t t' k (sweep now l))) k = l_entries (snd (allowAndRecord t t' k l)) k"
    using sw assms(2,3) none by (auto simp: allowAndRecord_entry [OF assms(1)] fail_entry_swept)
qed

text \<open>Limiters that agree on a key and on the parameters let the same calls through.\<close>

lemma attempts_cong:
  assumes "k \<noteq> []" and "l_entries l k = l_entries l' k" and "l_window l = l_window l'"
    and "l_maxAttempts l = l_maxAttempts l'" and "l_lockout l = l_lockout l'"
  shows "fst (attempts k ts l) = fst (attempts k ts l')"
  using assms
proof (induction ts arbitrary: l l')
  case (Cons tt ts)
  obtain t t' where tt: "tt = (t, t')" by (cases tt)
  obtain a r l1 a' r' l1' where s: "allowAndRecord t t' k l = ((a, r), l1)"
    "allowAndRecord t t' k l' = ((a', r'), l1')" by (metis surj_pair)
  note en = allowAndRecord_entry [OF Cons.prems(1), of t t' l] allowAndRecord_entry [OF Cons.prems(1), of t t' l']
  note pa = allowAndRecord_params [of t t' k l] allowAndRecord_params [of t t' k l']
  have "fst (attempts k ts l1) = fst (attempts k ts l1')"
    using en pa Cons.prems unfolding s by (intro Cons.IH) simp_all
  moreover have "a = a'" using en Cons.prems unfolding s by simp
  ultimately show ?case
    by (cases "attempts k ts l1"; cases "attempts k ts l1'") (simp add: s tt)
qed simp

text \<open>
  Sweeping is invisible: dropping idle entries at a time \<open>now\<close> changes the answer of no
  sequence of later calls, and no entry under an active lock is dropped.
\<close>

theorem sweep_invisible:
  assumes "\<forall>(t, t') \<in> set ts. now \<le> t \<and> now \<le> t'"
  shows "fst (attempts k ts (sweep now l)) = fst (attempts k ts l) \<and>
         (\<forall>k'. locked now (l_entries l k') \<longrightarrow> l_entries (sweep now l) k' = l_entries l k')"
proof
  have nil: "allowAndRecord t t' [] l = ((True, 0), l)" for t t' l by (simp add: allowAndRecord_def)
  show "fst (attempts k ts (sweep now l)) = fst (attempts k ts l)"
  proof (cases ts)
    case (Cons tt us)
    obtain t t' where tt: "tt = (t, t')" by (cases tt)
    obtain a r l1 a' r' l1' where s: "allowAndRecord t t' k l = ((a, r), l1)"
      "allowAndRecord t t' k (sweep now l) = ((a', r'), l1')" by (metis surj_pair)
    show ?thesis
    proof (cases "k = []")
      case True
      have "fst (attempts [] us l) = length us" for us l
        by (induction us) (auto simp: nil case_prod_beta)
      then show ?thesis using True by simp
    next
      case False
      note en = allowAndRecord_sweep [OF False, of now t t' l]
      note pa = allowAndRecord_params [of t t' k l] allowAndRecord_params [of t t' k "sweep now l"]
      have "fst (attempts k us l1) = fst (attempts k us l1')"
        using en pa Cons assms False tt unfolding s by (intro attempts_cong) simp_all
      moreover have "a = a'" using en Cons assms tt unfolding s by simp
      ultimately show ?thesis
        by (cases "attempts k us l1"; cases "attempts k us l1'") (simp add: s Cons tt)
    qed
  qed simp
  show "\<forall>k'. locked now (l_entries l k') \<longrightarrow> l_entries (sweep now l) k' = l_entries l k'"
    by (auto simp: sweep_def locked_def sweep_keeps_def split: option.splits)
qed

theorem sweep_invisible_witness:
  "fst (attempts ''k'' [(100, 100), (101, 102)]
     (sweep 100 (failures_at ''k'' [1, 2] (newLoginRateLimiter 60 3 60)))) = 2 \<and>
   fst (attempts ''k'' [(100, 100), (101, 102)] (failures_at ''k'' [1, 2] (newLoginRateLimiter 60 3 60))) = 2"
  using sweep_invisible [of "[(100, 100), (101, 102)]" 100 "''k''"
      "failures_at ''k'' [1, 2] (newLoginRateLimiter 60 3 60)"]
  by (simp add: newLoginRateLimiter_def allowAndRecord_def allow_def recordFailure_def new_entry_def
      IsZero_def Let_def)

end
