(* ===== verification/Scopes.thy ===== *)
theory Scopes
  imports Model
begin

text \<open>
  The scope policy of \<^verbatim>\<open>scopes.go\<close>: which tokens a scope string holds, which scopes a
  client may ask for in the authorization code grant and in the client credentials grant, and
  the normalisation of a client's configured scopes.  An error keeps the format of its message
  and its argument; \<open>scope_error_text\<close> renders it, with Go's \<^verbatim>\<open>%q\<close> as a parameter.
\<close>

datatype scope_error =
    InvalidScope string
  | UnsupportedAllowedScope string
  | OfflineNeedsFlag
  | CredentialsOffline
  | UnsupportedAppTokenScope string
  | UnsupportedScope string
  | OfflineNotAllowed
  | ScopeNotAllowed string
  | CredentialsNotEnabled
  | ScopeRequired
  | ScopeNotAllowedCredentials string

fun scope_error_text :: "(string \<Rightarrow> string) \<Rightarrow> scope_error \<Rightarrow> string" where
  "scope_error_text quote (InvalidScope s) = ''invalid scope '' @ quote s"
| "scope_error_text quote (UnsupportedAllowedScope s) =
     ''allowed_scopes contains unsupported scope '' @ quote s"
| "scope_error_text quote OfflineNeedsFlag = ''offline_access requires allow_offline_access=true''"
| "scope_error_text quote CredentialsOffline =
     ''client_credentials_scopes must not include offline_access''"
| "scope_error_text quote (UnsupportedAppTokenScope s) =
     ''app token scope '' @ quote s @ '' is not supported''"
| "scope_error_text quote (UnsupportedScope s) = ''unsupported scope '' @ quote s"
| "scope_error_text quote OfflineNotAllowed =
     ''scope offline_access is not allowed for this client''"
| "scope_error_text quote (ScopeNotAllowed s) =
     ''scope '' @ quote s @ '' is not allowed for this client''"
| "scope_error_text quote CredentialsNotEnabled =
     ''client_credentials is not enabled for this client''"
| "scope_error_text quote ScopeRequired = ''scope is required for client_credentials''"
| "scope_error_text quote (ScopeNotAllowedCredentials s) =
     ''scope '' @ quote s @ '' is not allowed for client_credentials''"

definition scopeOpenID :: string where "scopeOpenID = ''openid''"
definition scopeProfile :: string where "scopeProfile = ''profile''"
definition scopeEmail :: string where "scopeEmail = ''email''"
definition scopeGroups :: string where "scopeGroups = ''groups''"
definition scopeOfflineAccess :: string where "scopeOfflineAccess = ''offline_access''"

lemmas scope_names = scopeOpenID_def scopeProfile_def scopeEmail_def scopeGroups_def
  scopeOfflineAccess_def

definition supportedAuthorizationScopes :: "string set" where
  "supportedAuthorizationScopes =
     {scopeOpenID, scopeProfile, scopeEmail, scopeGroups, scopeOfflineAccess}"

definition defaultClientAllowedScopes :: "string list" where
  "defaultClientAllowedScopes = [scopeOpenID, scopeProfile, scopeEmail, scopeGroups]"

section \<open>Tokens\<close>

definition scope_char :: "char \<Rightarrow> bool" where
  "scope_char c = (code c = 0x21 \<or> (0x23 \<le> code c \<and> code c \<le> 0x5b) \<or> (0x5d \<le> code c \<and> code c \<le> 0x7e))"

definition validScopeToken :: "string \<Rightarrow> bool" where
  "validScopeToken scope = (scope \<noteq> [] \<and> (\<forall>c \<in> set scope. scope_char c))"

text \<open>
  The two nested loops of \<^verbatim>\<open>normalizeScopeTokens\<close> visit the fields of the values in turn;
  \<^verbatim>\<open>seen\<close> holds what \<^verbatim>\<open>out\<close> holds.
\<close>

fun scope_loop :: "string list \<Rightarrow> string list \<Rightarrow> scope_error + string list" where
  "scope_loop out [] = Inr out"
| "scope_loop out (scope # rest) =
     (if \<not> validScopeToken scope then Inl (InvalidScope scope)
      else if scope \<in> set out then scope_loop out rest
      else scope_loop (out @ [scope]) rest)"

definition normalizeScopeTokens :: "string list \<Rightarrow> scope_error + string list" where
  "normalizeScopeTokens values = scope_loop [] (concat (map Fields values))"

definition parseScopeString :: "string \<Rightarrow> scope_error + string list" where
  "parseScopeString raw = normalizeScopeTokens [raw]"

definition scopeSet :: "string list \<Rightarrow> string set" where
  "scopeSet scopes = set scopes"

section \<open>Normalising a client's policy\<close>

definition normalizeClientAllowedScopes :: "string list \<Rightarrow> bool \<Rightarrow> scope_error + string list" where
  "normalizeClientAllowedScopes configured allowOfflineAccess =
     (case normalizeScopeTokens (if configured = [] then defaultClientAllowedScopes else configured) of
        Inl e \<Rightarrow> Inl e
      | Inr normalized \<Rightarrow>
          (case List.find (\<lambda>s. s \<notin> supportedAuthorizationScopes) normalized of
             Some s \<Rightarrow> Inl (UnsupportedAllowedScope s)
           | None \<Rightarrow>
               let hasOffline = scopeOfflineAccess \<in> set normalized in
               if hasOffline \<and> \<not> allowOfflineAccess then Inl OfflineNeedsFlag
               else if allowOfflineAccess \<and> \<not> hasOffline then Inr (normalized @ [scopeOfflineAccess])
               else Inr normalized))"

definition normalizeClientCredentialsScopes :: "string list \<Rightarrow> scope_error + string list" where
  "normalizeClientCredentialsScopes configured =
     (case normalizeScopeTokens configured of
        Inl e \<Rightarrow> Inl e
      | Inr normalized \<Rightarrow>
          if scopeOfflineAccess \<in> set normalized then Inl CredentialsOffline else Inr normalized)"

definition normalizeClientScopePolicy :: "Client \<Rightarrow> scope_error + Client" where
  "normalizeClientScopePolicy c =
     (case normalizeClientAllowedScopes (c_AllowedScopes c) (c_AllowOfflineAccess c) of
        Inl e \<Rightarrow> Inl e
      | Inr allowed \<Rightarrow>
          (case normalizeClientCredentialsScopes (c_ClientCredentialsScopes c) of
             Inl e \<Rightarrow> Inl e
           | Inr ccs \<Rightarrow> Inr (c\<lparr>c_AllowedScopes := allowed, c_ClientCredentialsScopes := ccs,
               c_allowedScopeSet := scopeSet allowed,
               c_clientCredentialsAllowedScopes := scopeSet ccs\<rparr>)))"

definition validateClientScopeConfig :: "Client \<Rightarrow> scope_error option" where
  "validateClientScopeConfig c =
     (case normalizeClientScopePolicy c of Inl e \<Rightarrow> Some e | Inr _ \<Rightarrow> None)"

definition normalizeAppTokenScope :: "string \<Rightarrow> scope_error + string" where
  "normalizeAppTokenScope raw =
     (case parseScopeString raw of
        Inl e \<Rightarrow> Inl e
      | Inr scopes \<Rightarrow>
          (case List.find (\<lambda>s. s \<notin> supportedAuthorizationScopes \<or> s = scopeOfflineAccess) scopes of
             Some s \<Rightarrow> Inl (UnsupportedAppTokenScope s)
           | None \<Rightarrow> Inr (Join scopes '' '')))"

section \<open>Checking a requested scope\<close>

definition clientAllowedScopeSet :: "Client \<Rightarrow> string set" where
  "clientAllowedScopeSet client =
     (if c_allowedScopeSet client \<noteq> {} then c_allowedScopeSet client
      else case normalizeClientAllowedScopes (c_AllowedScopes client) (c_AllowOfflineAccess client) of
          Inl _ \<Rightarrow> {}
        | Inr allowed \<Rightarrow> scopeSet allowed)"

definition clientCredentialsScopeSet :: "Client \<Rightarrow> string set" where
  "clientCredentialsScopeSet client =
     (if c_clientCredentialsAllowedScopes client \<noteq> {} then c_clientCredentialsAllowedScopes client
      else case normalizeClientCredentialsScopes (c_ClientCredentialsScopes client) of
          Inl _ \<Rightarrow> {}
        | Inr allowed \<Rightarrow> scopeSet allowed)"

fun authorization_scope_error :: "Client \<Rightarrow> string set \<Rightarrow> string list \<Rightarrow> scope_error option" where
  "authorization_scope_error client allowed [] = None"
| "authorization_scope_error client allowed (scope # rest) =
     (if scope \<notin> supportedAuthorizationScopes then Some (UnsupportedScope scope)
      else if scope = scopeOfflineAccess \<and> \<not> c_AllowOfflineAccess client then Some OfflineNotAllowed
      else if scope \<notin> allowed then Some (ScopeNotAllowed scope)
      else authorization_scope_error client allowed rest)"

definition validateAuthorizationScope :: "Client \<Rightarrow> string \<Rightarrow> scope_error + string" where
  "validateAuthorizationScope client raw =
     (case parseScopeString raw of
        Inl e \<Rightarrow> Inl e
      | Inr scopes \<Rightarrow>
          (case authorization_scope_error client (clientAllowedScopeSet client) scopes of
             Some e \<Rightarrow> Inl e
           | None \<Rightarrow> Inr (Join scopes '' '')))"

definition validateClientCredentialsScope :: "Client \<Rightarrow> string \<Rightarrow> scope_error + string" where
  "validateClientCredentialsScope client raw =
     (let allowed = clientCredentialsScopeSet client in
      if allowed = {} then Inl CredentialsNotEnabled
      else case parseScopeString raw of
          Inl e \<Rightarrow> Inl e
        | Inr scopes \<Rightarrow>
            if scopes = [] then Inl ScopeRequired
            else case List.find (\<lambda>s. s \<notin> allowed) scopes of
                Some s \<Rightarrow> Inl (ScopeNotAllowedCredentials s)
              | None \<Rightarrow> Inr (Join scopes '' ''))"

section \<open>Facts\<close>

lemma find_None_iff_all: "List.find P xs = None \<longleftrightarrow> (\<forall>x \<in> set xs. \<not> P x)"
  by (induction xs) auto

lemma valid_plain: "validScopeToken s \<Longrightarrow> plain_word s"
  by (fastforce simp: validScopeToken_def plain_word_def scope_char_def)

lemma scope_loop_Inr:
  "scope_loop out ts = Inr r \<longleftrightarrow>
     (\<forall>t \<in> set ts. validScopeToken t) \<and> r = out @ dedup_from (set out) ts"
  by (induction ts arbitrary: out) (auto simp: Un_commute insert_absorb)

lemma normalizeScopeTokens_Inr:
  "normalizeScopeTokens vs = Inr r \<longleftrightarrow>
     (\<forall>t \<in> set (concat (map Fields vs)). validScopeToken t) \<and> r = dedup (concat (map Fields vs))"
  by (simp add: normalizeScopeTokens_def scope_loop_Inr)

lemma parseScopeString_Inr:
  "parseScopeString raw = Inr r \<longleftrightarrow> (\<forall>t \<in> set (Fields raw). validScopeToken t) \<and> r = dedup (Fields raw)"
  by (simp add: parseScopeString_def normalizeScopeTokens_Inr)

text \<open>A parsed scope list prints to a string with the same fields, which parses to the same list.\<close>

lemma parse_fields: "parseScopeString raw = Inr scopes \<Longrightarrow> Fields (Join scopes '' '') = scopes"
  by (rule Fields_Join) (auto simp: parseScopeString_Inr valid_plain)

lemma parse_join: "parseScopeString raw = Inr scopes \<Longrightarrow> parseScopeString (Join scopes '' '') = Inr scopes"
  by (frule parse_fields) (auto simp: parseScopeString_Inr dedup_from_distinct)

lemma Fields_valid: "validScopeToken s \<Longrightarrow> Fields s = [s]"
  using Fields_Join [of "[s]"] by (simp add: valid_plain)

lemma concat_Fields_valid: "\<forall>t \<in> set ts. validScopeToken t \<Longrightarrow> concat (map Fields ts) = ts"
  by (induction ts) (auto simp: Fields_valid)

lemma normalizeScopeTokens_idem:
  "distinct ts \<Longrightarrow> \<forall>t \<in> set ts. validScopeToken t \<Longrightarrow> normalizeScopeTokens ts = Inr ts"
  by (simp add: normalizeScopeTokens_Inr concat_Fields_valid dedup_from_distinct)

lemma normalizeScopeTokens_good:
  "normalizeScopeTokens vs = Inr r \<Longrightarrow> distinct r \<and> (\<forall>t \<in> set r. validScopeToken t)"
  by (auto simp: normalizeScopeTokens_Inr)

lemma authorization_scope_error_None:
  "authorization_scope_error client allowed scopes = None \<longleftrightarrow>
     (\<forall>s \<in> set scopes. s \<in> supportedAuthorizationScopes \<and> s \<in> allowed \<and>
        (s = scopeOfflineAccess \<longrightarrow> c_AllowOfflineAccess client))"
  by (induction scopes) auto

lemma validateAuthorizationScope_Inr:
  "validateAuthorizationScope client raw = Inr scope \<longleftrightarrow>
     (\<exists>scopes. parseScopeString raw = Inr scopes \<and> scope = Join scopes '' '' \<and>
        (\<forall>s \<in> set scopes. s \<in> supportedAuthorizationScopes \<and> s \<in> clientAllowedScopeSet client \<and>
           (s = scopeOfflineAccess \<longrightarrow> c_AllowOfflineAccess client)))"
  by (auto simp: validateAuthorizationScope_def authorization_scope_error_None [symmetric]
      split: sum.splits option.splits)

lemma validateClientCredentialsScope_Inr:
  "validateClientCredentialsScope client raw = Inr scope \<longleftrightarrow>
     (\<exists>scopes. parseScopeString raw = Inr scopes \<and> scopes \<noteq> [] \<and> scope = Join scopes '' '' \<and>
        set scopes \<subseteq> clientCredentialsScopeSet client)"
  by (auto simp: validateClientCredentialsScope_def find_None_iff_all find_Some_iff Let_def subset_iff
      split: sum.splits option.splits if_splits dest!: list.set_sel(1))

lemma validScopeToken_offline: "validScopeToken scopeOfflineAccess"
  by (simp add: validScopeToken_def scope_char_def scope_names)

lemma supported_offline: "scopeOfflineAccess \<in> supportedAuthorizationScopes"
  by (simp add: supportedAuthorizationScopes_def)

lemma normalizeClientAllowedScopes_Inr:
  assumes "normalizeClientAllowedScopes cs off = Inr r"
  shows "distinct r \<and> (\<forall>t \<in> set r. validScopeToken t \<and> t \<in> supportedAuthorizationScopes) \<and>
         (scopeOfflineAccess \<in> set r \<longleftrightarrow> off)"
  using assms
  by (auto simp: normalizeClientAllowedScopes_def find_None_iff_all Let_def validScopeToken_offline
      supported_offline split: sum.splits option.splits if_splits dest!: normalizeScopeTokens_good)

lemma Fields_default: "normalizeScopeTokens defaultClientAllowedScopes = Inr defaultClientAllowedScopes"
  by (rule normalizeScopeTokens_idem)
    (simp_all add: defaultClientAllowedScopes_def scope_names validScopeToken_def scope_char_def)

lemma normalizeClientAllowedScopes_idem:
  assumes "normalizeClientAllowedScopes cs off = Inr r" and "r \<noteq> []"
  shows "normalizeClientAllowedScopes r off = Inr r"
proof -
  note g = normalizeClientAllowedScopes_Inr [OF assms(1)]
  then have "normalizeScopeTokens r = Inr r" by (intro normalizeScopeTokens_idem) auto
  with g assms(2) show ?thesis
    by (auto simp: normalizeClientAllowedScopes_def find_None_iff_all find_Some_iff Let_def
        split: option.splits dest: nth_mem)
qed

lemma normalizeClientCredentialsScopes_Inr:
  "normalizeClientCredentialsScopes cs = Inr r \<Longrightarrow>
     distinct r \<and> (\<forall>t \<in> set r. validScopeToken t) \<and> scopeOfflineAccess \<notin> set r"
  by (auto simp: normalizeClientCredentialsScopes_def split: sum.splits if_splits
      dest!: normalizeScopeTokens_good)

lemma normalizeClientCredentialsScopes_Nil [simp]: "normalizeClientCredentialsScopes [] = Inr []"
  by (simp add: normalizeClientCredentialsScopes_def normalizeScopeTokens_def)

lemma normalizeClientCredentialsScopes_idem:
  "normalizeClientCredentialsScopes cs = Inr r \<Longrightarrow> normalizeClientCredentialsScopes r = Inr r"
  using normalizeClientCredentialsScopes_Inr [of cs r] normalizeScopeTokens_idem [of r]
  by (simp add: normalizeClientCredentialsScopes_def)

section \<open>A client to evaluate the properties on\<close>

abbreviation demo_client :: Client where
  "demo_client \<equiv> \<lparr>c_ClientID = ''web'', c_ClientSecretSHA256 = [], c_RedirectURIs = [''https://a/cb''],
     c_PostLogoutRedirectURIs = [], c_Public = True, c_RequirePKCE = True, c_AllowedScopes = [],
     c_ClientCredentialsScopes = [], c_AllowOfflineAccess = False, c_GroupMappings = [],
     c_RequireConsent = False, c_StoredAt = 0, c_compiledMappings = None,
     c_allowedScopeSet = {''openid'', ''email''}, c_clientCredentialsAllowedScopes = {}\<rparr>"

lemma demo_scope: "parseScopeString ''openid email openid'' = Inr [''openid'', ''email'']"
proof -
  have "plain_word ''openid''" "plain_word ''email''" by (simp_all add: plain_word_def)
  then have "Fields ''openid email openid'' = [''openid'', ''email'', ''openid'']"
    using Fields_Join [of "[''openid'', ''email'', ''openid'']"] by simp
  then show ?thesis by (simp add: parseScopeString_Inr validScopeToken_def scope_char_def)
qed

abbreviation demo_normalized :: Client where
  "demo_normalized \<equiv> demo_client\<lparr>c_AllowedScopes := defaultClientAllowedScopes,
     c_allowedScopeSet := scopeSet defaultClientAllowedScopes\<rparr>"

lemma demo_normal: "normalizeClientScopePolicy demo_client = Inr demo_normalized"
proof -
  have "List.find (\<lambda>s. s \<notin> supportedAuthorizationScopes) defaultClientAllowedScopes = None"
    "scopeOfflineAccess \<notin> set defaultClientAllowedScopes"
    by (simp_all add: defaultClientAllowedScopes_def supportedAuthorizationScopes_def scope_names)
  then show ?thesis
    by (simp add: normalizeClientScopePolicy_def normalizeClientAllowedScopes_def Fields_default
        scopeSet_def)
qed

section \<open>Properties\<close>

text \<open>
  What the authorization endpoint grants: the granted scope string holds exactly the requested
  scopes, each once, all of them supported and allowed for the client, \<^verbatim>\<open>offline_access\<close> only
  for a client with that permission; and granting it again changes nothing.
\<close>

theorem authorization_scope_granted:
  assumes "validateAuthorizationScope client raw = Inr scope"
  shows "distinct (Fields scope) \<and> set (Fields scope) = set (Fields raw) \<and>
         set (Fields scope) \<subseteq> supportedAuthorizationScopes \<inter> clientAllowedScopeSet client \<and>
         (scopeOfflineAccess \<in> set (Fields scope) \<longrightarrow> c_AllowOfflineAccess client) \<and>
         validateAuthorizationScope client scope = Inr scope"
proof -
  from assms obtain scopes where p: "parseScopeString raw = Inr scopes" and j: "scope = Join scopes '' ''"
    and a: "\<forall>s \<in> set scopes. s \<in> supportedAuthorizationScopes \<and> s \<in> clientAllowedScopeSet client \<and>
           (s = scopeOfflineAccess \<longrightarrow> c_AllowOfflineAccess client)"
    by (auto simp: validateAuthorizationScope_Inr)
  have "Fields scope = scopes" "parseScopeString scope = Inr scopes"
    using parse_fields [OF p] parse_join [OF p] j by simp_all
  moreover have "distinct scopes" "set scopes = set (Fields raw)"
    using p by (simp_all add: parseScopeString_Inr)
  ultimately show ?thesis using a j by (auto simp: validateAuthorizationScope_Inr)
qed

theorem authorization_scope_granted_witness:
  "validateAuthorizationScope demo_client ''openid email'' = Inr ''openid email''"
proof -
  have v: "validateAuthorizationScope demo_client ''openid email openid'' = Inr ''openid email''"
    by (simp add: validateAuthorizationScope_def demo_scope clientAllowedScopeSet_def
        supportedAuthorizationScopes_def scope_names)
  show ?thesis using authorization_scope_granted [OF v] by simp
qed

text \<open>
  What the client credentials grant gives: for a client whose policy was normalised, a granted
  scope is a non-empty list of scopes configured for the grant, never \<^verbatim>\<open>offline_access\<close>; a
  client with no configured scopes is refused whatever it asks for.
\<close>

theorem credentials_scope_granted:
  assumes "normalizeClientScopePolicy c = Inr client"
  shows "(validateClientCredentialsScope client raw = Inr scope \<longrightarrow>
            Fields scope \<noteq> [] \<and> set (Fields scope) \<subseteq> set (c_ClientCredentialsScopes client) \<and>
            scopeOfflineAccess \<notin> set (Fields scope)) \<and>
         (c_ClientCredentialsScopes client = [] \<longrightarrow>
            validateClientCredentialsScope client raw = Inl CredentialsNotEnabled)"
proof -
  from assms obtain ccs where n: "normalizeClientCredentialsScopes (c_ClientCredentialsScopes c) = Inr ccs"
    and cl: "c_ClientCredentialsScopes client = ccs" "c_clientCredentialsAllowedScopes client = set ccs"
    by (auto simp: normalizeClientScopePolicy_def scopeSet_def split: sum.splits)
  have st: "clientCredentialsScopeSet client = set ccs"
    using cl normalizeClientCredentialsScopes_idem [OF n]
    by (auto simp: clientCredentialsScopeSet_def scopeSet_def)
  show ?thesis
  proof (intro conjI impI)
    assume "c_ClientCredentialsScopes client = []"
    then show "validateClientCredentialsScope client raw = Inl CredentialsNotEnabled"
      using st cl by (simp add: validateClientCredentialsScope_def)
  next
    assume "validateClientCredentialsScope client raw = Inr scope"
    then obtain scopes where p: "parseScopeString raw = Inr scopes" and "scopes \<noteq> []"
      and "scope = Join scopes '' ''" and "set scopes \<subseteq> set ccs"
      by (auto simp: validateClientCredentialsScope_Inr st)
    then show "Fields scope \<noteq> []" "set (Fields scope) \<subseteq> set (c_ClientCredentialsScopes client)"
      "scopeOfflineAccess \<notin> set (Fields scope)"
      using parse_fields [OF p] normalizeClientCredentialsScopes_Inr [OF n] cl by auto
  qed
qed

theorem credentials_scope_granted_witness:
  "\<exists>client. normalizeClientScopePolicy demo_client = Inr client \<and>
     validateClientCredentialsScope client ''openid'' = Inl CredentialsNotEnabled"
proof -
  show ?thesis
    using credentials_scope_granted [OF demo_normal, of "''openid''"] demo_normal
    by (intro exI [of _ demo_normalized]) simp
qed

text \<open>
  Normalising a client's scope policy is idempotent, and afterwards the cached sets are the
  ones the configured lists give: what a registry stores and reloads grants the same scopes.
\<close>

theorem scope_policy_idempotent:
  assumes "normalizeClientScopePolicy c = Inr client" and "c_AllowedScopes client \<noteq> []"
  shows "normalizeClientScopePolicy client = Inr client \<and>
         normalizeClientScopePolicy (persist_Client client) = Inr (client\<lparr>c_compiledMappings := None\<rparr>) \<and>
         clientAllowedScopeSet (persist_Client client) = clientAllowedScopeSet client \<and>
         clientCredentialsScopeSet (persist_Client client) = clientCredentialsScopeSet client"
proof -
  from assms(1) obtain al ccs where
    a: "normalizeClientAllowedScopes (c_AllowedScopes c) (c_AllowOfflineAccess c) = Inr al"
    and n: "normalizeClientCredentialsScopes (c_ClientCredentialsScopes c) = Inr ccs"
    and cl: "client = c\<lparr>c_AllowedScopes := al, c_ClientCredentialsScopes := ccs,
       c_allowedScopeSet := scopeSet al, c_clientCredentialsAllowedScopes := scopeSet ccs\<rparr>"
    by (auto simp: normalizeClientScopePolicy_def split: sum.splits)
  have "al \<noteq> []" using assms(2) cl by simp
  then show ?thesis
    using normalizeClientAllowedScopes_idem [OF a] normalizeClientCredentialsScopes_idem [OF n]
    by (auto simp: cl normalizeClientScopePolicy_def clientAllowedScopeSet_def
        clientCredentialsScopeSet_def scopeSet_def persist_Client_def)
qed

theorem scope_policy_idempotent_witness:
  "\<exists>client. normalizeClientScopePolicy demo_client = Inr client \<and>
     normalizeClientScopePolicy client = Inr client"
proof -
  show ?thesis
    using scope_policy_idempotent [OF demo_normal] demo_normal
    by (intro exI [of _ demo_normalized]) (simp add: defaultClientAllowedScopes_def)
qed

end
