(* ===== verification/Golib.thy ===== *)
theory Golib
  imports Model
begin

text \<open>
  What the broker takes from packages outside the repository.  The functions that are simple
  byte manipulations (\<^verbatim>\<open>url.QueryEscape\<close>, \<^verbatim>\<open>net.SplitHostPort\<close>, \<^verbatim>\<open>strconv.Atoi\<close>,
  \<^verbatim>\<open>strings.Replacer\<close>, \<^verbatim>\<open>strings.EqualFold\<close> on ASCII) are defined here.  Cryptography, the
  JSON codec, URL and DN parsing, the regular expression compiler, the Unicode tables and the
  directory server are fields of \<open>golib\<close>: every definition that uses them takes them from
  there, and a theorem holds for whatever they are unless it names a hypothesis about them.
\<close>

section \<open>JSON values\<close>

text \<open>
  What \<^verbatim>\<open>encoding/json\<close> decodes into an \<^verbatim>\<open>any\<close> with \<^verbatim>\<open>UseNumber\<close>: a numeral is kept as
  an integer when it is written as one, and as its text otherwise.
\<close>

datatype json =
    JNull | JBool bool | JInt int | JReal string | JStr string | JArr "json list"
  | JObj "(string \<times> json) list"

type_synonym claims = "string \<rightharpoonup> json"

text \<open>The type assertion \<^verbatim>\<open>s, _ := claims[k].(string)\<close>: the zero value if it fails.\<close>

definition str_claim :: "claims \<Rightarrow> string \<Rightarrow> string" where
  "str_claim claims k = (case claims k of Some (JStr s) \<Rightarrow> s | _ \<Rightarrow> [])"

section \<open>The functions of other packages\<close>

record rsa_PublicKey =
  pk_N :: nat
  pk_E :: nat

record rsa_PrivateKey =
  prv_Public :: rsa_PublicKey
  prv_D :: nat

record URL =
  url_Scheme :: string
  url_Host :: string
  url_Hostname :: string

record golib =
  g_lower :: "string \<Rightarrow> string"
  g_upper :: "string \<Rightarrow> string"
  g_fold :: "string \<Rightarrow> string \<Rightarrow> bool"
  g_quote :: "string \<Rightarrow> string"
  g_sha256 :: "byte list \<Rightarrow> byte list"
  g_hmac_sha1 :: "byte list \<Rightarrow> byte list \<Rightarrow> byte list"
  g_rsa_sign :: "rsa_PrivateKey \<Rightarrow> byte list \<Rightarrow> byte list option"
  g_rsa_verify :: "rsa_PublicKey \<Rightarrow> byte list \<Rightarrow> byte list \<Rightarrow> bool"
  g_json_marshal :: "claims \<Rightarrow> byte list option"
  g_json_unmarshal :: "byte list \<Rightarrow> claims option"
  g_json_decode :: "byte list \<Rightarrow> claims option"
  g_url_query :: "string \<Rightarrow> (string \<times> string) list \<Rightarrow> string option"
  g_url_Parse :: "string \<Rightarrow> URL option"
  g_ParseRequestURI :: "string \<Rightarrow> bool"
  g_ParseIP :: "string \<Rightarrow> byte list option"
  g_ParseCIDR :: "string \<Rightarrow> (byte list \<times> byte list) option"
  g_ParseDN :: "string \<Rightarrow> DN option"
  g_DN_String :: "DN \<Rightarrow> string"
  g_AncestorOfFold :: "DN \<Rightarrow> DN \<Rightarrow> bool"
  g_regexp_Compile :: "string \<Rightarrow> regexp option"
  g_Authenticate :: "string \<Rightarrow> string \<Rightarrow> UserProfile option"
  g_entropy :: "nat \<Rightarrow> nat \<Rightarrow> byte list"
  g_json_clientData :: "byte list \<Rightarrow> webauthnClientData option"
  g_P256_IsOnCurve :: "nat \<Rightarrow> nat \<Rightarrow> bool"
  g_ecdsa_verify :: "nat \<times> nat \<Rightarrow> byte list \<Rightarrow> byte list \<Rightarrow> bool"
  g_pem_Decode :: "byte list \<Rightarrow> (string \<times> byte list) option"
  g_pem_Encode :: "string \<times> byte list \<Rightarrow> byte list option"
  g_ParsePKCS1 :: "byte list \<Rightarrow> rsa_PrivateKey option"
  g_MarshalPKCS1 :: "rsa_PrivateKey \<Rightarrow> byte list"
  g_ParsePKCS8 :: "byte list \<Rightarrow> rsa_PrivateKey option option"
  g_GenerateKey :: "nat \<Rightarrow> rsa_PrivateKey option"
  g_AddDays :: "time \<Rightarrow> int \<Rightarrow> time"
  g_Format :: "string \<Rightarrow> time \<Rightarrow> string"

text \<open>
  \<open>g_lower\<close>, \<open>g_upper\<close> and \<open>g_fold\<close> are what the Unicode tables do to strings with bytes
  beyond ASCII.  \<open>g_url_query u qs\<close> is \<^verbatim>\<open>url.Parse(u)\<close>, then \<^verbatim>\<open>Query().Set\<close> for each pair in
  turn, \<^verbatim>\<open>Encode\<close> and \<^verbatim>\<open>String\<close>; with no pairs the query is left alone; \<open>None\<close> when the
  parse fails.  \<open>g_url_Parse\<close> is
  \<^verbatim>\<open>url.Parse\<close> with the scheme, the host and the host name of the result, and
  \<open>g_ParseRequestURI\<close> whether \<^verbatim>\<open>url.ParseRequestURI\<close> succeeds.  \<open>g_ParseIP\<close> gives the 16 byte form and
  \<open>g_ParseCIDR\<close> the address and the mask of the network.  \<open>g_rsa_sign\<close> is
  \<^verbatim>\<open>rsa.SignPKCS1v15\<close> of a digest with a private key.  \<open>g_json_unmarshal\<close> is \<^verbatim>\<open>json.Unmarshal\<close> into a map and
  \<open>g_json_decode\<close> a \<^verbatim>\<open>json.Decoder\<close> that reads one map with \<^verbatim>\<open>UseNumber\<close>.  \<open>g_entropy i n\<close> is the \<open>i\<close>-th read of \<open>n\<close> bytes from
  \<^verbatim>\<open>crypto/rand\<close>, and \<open>g_GenerateKey i\<close> the \<open>i\<close>-th generated RSA key.  \<open>g_json_clientData\<close> is
  \<^verbatim>\<open>json.Unmarshal\<close> into the client data of WebAuthn, \<open>g_ecdsa_verify\<close> is
  \<^verbatim>\<open>ecdsa.VerifyASN1\<close> for a point of P-256, a digest and a signature.  \<open>g_ParsePKCS8\<close> gives
  \<open>Some None\<close> for a key that is not RSA.  \<open>g_AddDays t n\<close> is \<^verbatim>\<open>t.AddDate(0, 0, n)\<close>, which
  depends on the time zone, and \<open>g_Format\<close> is \<^verbatim>\<open>Format\<close> with a layout.
\<close>

definition to_lower :: "golib \<Rightarrow> string \<Rightarrow> string" where
  "to_lower G s = ToLower (g_lower G) s"

definition upper_char :: "char \<Rightarrow> char" where
  "upper_char c = (if 97 \<le> code c \<and> code c \<le> 122 then char_of (code c - 32) else c)"

definition to_upper :: "golib \<Rightarrow> string \<Rightarrow> string" where
  "to_upper G s = (if is_ascii s then map upper_char s else g_upper G s)"

definition EqualFold :: "golib \<Rightarrow> string \<Rightarrow> string \<Rightarrow> bool" where
  "EqualFold G s t =
     (if is_ascii s \<and> is_ascii t then map lower_char s = map lower_char t else g_fold G s t)"

section \<open>Small byte functions\<close>

text \<open>\<^verbatim>\<open>strings.Contains\<close> and \<^verbatim>\<open>strings.Trim\<close> with a cutset of ASCII characters.\<close>

fun Contains :: "string \<Rightarrow> string \<Rightarrow> bool" where
  "Contains [] t = (t = [])"
| "Contains (c # s) t = (HasPrefix (c # s) t \<or> Contains s t)"

definition TrimRightChars :: "char set \<Rightarrow> string \<Rightarrow> string" where
  "TrimRightChars cs s = rev (dropWhile (\<lambda>c. c \<in> cs) (rev s))"

definition TrimChars :: "char set \<Rightarrow> string \<Rightarrow> string" where
  "TrimChars cs s = TrimRightChars cs (dropWhile (\<lambda>c. c \<in> cs) s)"

text \<open>The part of a media type before its parameters.\<close>

definition before_char :: "char \<Rightarrow> string \<Rightarrow> string" where
  "before_char c s = takeWhile (\<lambda>x. x \<noteq> c) s"

text \<open>\<^verbatim>\<open>url.QueryEscape\<close>.\<close>

definition upper_hex :: "nat \<Rightarrow> char" where
  "upper_hex n = (if n < 10 then char_of (48 + n) else char_of (55 + n))"

fun QueryEscape :: "string \<Rightarrow> string" where
  "QueryEscape [] = []"
| "QueryEscape (c # s) =
     (if unreserved c then c # QueryEscape s
      else if c = CHR '' '' then CHR ''+'' # QueryEscape s
      else CHR ''%'' # upper_hex (code c div 16) # upper_hex (code c mod 16) # QueryEscape s)"

lemma QueryEscape_unreserved: "\<forall>c \<in> set s. unreserved c \<Longrightarrow> QueryEscape s = s"
  by (induction s) auto

text \<open>Decimal printing and \<^verbatim>\<open>strconv.Atoi\<close> on 64-bit \<^verbatim>\<open>int\<close>.\<close>

fun nat_digits :: "nat \<Rightarrow> string" where
  "nat_digits n = (if n < 10 then [char_of (48 + n)] else nat_digits (n div 10) @ [char_of (48 + n mod 10)])"

declare nat_digits.simps [simp del]

definition Itoa :: "int \<Rightarrow> string" where
  "Itoa i = (if i < 0 then CHR ''-'' # nat_digits (nat (- i)) else nat_digits (nat i))"

definition is_digit :: "char \<Rightarrow> bool" where
  "is_digit c = (48 \<le> code c \<and> code c \<le> 57)"

definition digits_value :: "string \<Rightarrow> nat" where
  "digits_value s = foldl (\<lambda>v c. 10 * v + (code c - 48)) 0 s"

definition Atoi :: "string \<Rightarrow> int option" where
  "Atoi s =
     (let (neg, ds) = (case s of c # r \<Rightarrow> if c = CHR ''-'' then (True, r)
                          else if c = CHR ''+'' then (False, r) else (False, s) | [] \<Rightarrow> (False, []));
          v = int (digits_value ds)
      in if ds = [] \<or> \<not> (\<forall>c \<in> set ds. is_digit c) then None
         else if neg then (if v \<le> 2 ^ 63 then Some (- v) else None)
         else (if v < 2 ^ 63 then Some v else None))"

text \<open>
  \<^verbatim>\<open>net.SplitHostPort\<close>, the host part: the port follows the last colon; a host in brackets
  must end just before that colon; a host without brackets has no colon; no other bracket may
  occur.
\<close>

definition last_index :: "char \<Rightarrow> string \<Rightarrow> nat option" where
  "last_index c s =
     (if c \<in> set s then Some (length s - 1 - length (takeWhile (\<lambda>x. x \<noteq> c) (rev s))) else None)"

definition SplitHostPort :: "string \<Rightarrow> string option" where
  "SplitHostPort s =
     (case last_index (CHR '':'') s of
        None \<Rightarrow> None
      | Some i \<Rightarrow>
          if take 1 s = ''['' then
            (let e = length (takeWhile (\<lambda>c. c \<noteq> CHR '']'') s) in
             if e = length s then None
             else if e + 1 \<noteq> i then None
             else if CHR ''['' \<in> set (drop 1 s) \<or> CHR '']'' \<in> set (drop (e + 1) s) then None
             else Some (take (e - 1) (drop 1 s)))
          else if CHR '':'' \<in> set (take i s) then None
          else if CHR ''['' \<in> set s \<or> CHR '']'' \<in> set s then None
          else Some (take i s))"

text \<open>
  \<^verbatim>\<open>strings.NewReplacer(pairs...).Replace\<close> with non-empty old strings: a single scan from the
  left; at each position the first pair whose old string starts there is applied.
\<close>

function Replace :: "(string \<times> string) list \<Rightarrow> string \<Rightarrow> string" where
  "Replace ps [] = []"
| "Replace ps (c # s) =
     (case List.find (\<lambda>(old, _). old \<noteq> [] \<and> HasPrefix (c # s) old) ps of
        None \<Rightarrow> c # Replace ps s
      | Some (old, new) \<Rightarrow> new @ Replace ps (drop (length old) (c # s)))"
  by pat_completeness auto
termination
  by (relation "measure (length \<circ> snd)") (auto simp: find_Some_iff)

section \<open>A library to evaluate definitions with\<close>

text \<open>
  One concrete \<open>golib\<close>, for running the definitions on concrete inputs: simple total functions
  in place of cryptography and parsers, and a directory with one user.
\<close>

definition demo_lib :: golib where
  "demo_lib = \<lparr>
     g_lower = (\<lambda>s. s), g_upper = (\<lambda>s. s), g_fold = (=), g_quote = (\<lambda>s. s),
     g_sha256 = (\<lambda>b. b), g_hmac_sha1 = (\<lambda>_ _. replicate 20 0),
     g_rsa_sign = (\<lambda>_ h. Some (1 # h)), g_rsa_verify = (\<lambda>_ h sig. sig = 1 # h),
     g_json_marshal = (\<lambda>m. Some (if m ''typ'' = None then [2] else [1])),
     g_json_unmarshal = (\<lambda>_. Some [''typ'' \<mapsto> JStr ''JWT'', ''alg'' \<mapsto> JStr ''RS256'', ''kid'' \<mapsto> JStr ''k1'']),
     g_json_decode = (\<lambda>_. None),
     g_url_query = (\<lambda>u qs. Some (u @ concat (map (\<lambda>(k, v). ''&'' @ k @ ''='' @ v) qs))),
     g_url_Parse = (\<lambda>u. Some \<lparr>url_Scheme = ''https'', url_Host = u, url_Hostname = u\<rparr>),
     g_ParseRequestURI = (\<lambda>u. u \<noteq> []),
     g_ParseIP = (\<lambda>s. if s = ''10.0.0.1'' then Some [10, 0, 0, 1]
                   else if s = ''9.9.9.9'' then Some [9, 9, 9, 9] else None),
     g_ParseCIDR = (\<lambda>_. None), g_ParseDN = (\<lambda>_. None), g_DN_String = (\<lambda>_. []),
     g_AncestorOfFold = (\<lambda>_ _. False), g_regexp_Compile = (\<lambda>_. None),
     g_Authenticate = (\<lambda>u p. if p = ''pw'' then Some \<lparr>p_Subject = u, p_Email = u @ ''@x'',
                                    p_Name = u, p_Groups = []\<rparr> else None),
     g_entropy = (\<lambda>i n. [word_of_nat i, word_of_nat n]),
     g_json_clientData = (\<lambda>b. if b = [1] then Some \<lparr>cd_Type = ''webauthn.create'', cd_Challenge = ''AAAA'',
         cd_Origin = ''https://b/'', cd_CrossOrigin = False\<rparr>
       else if b = [2] then Some \<lparr>cd_Type = ''webauthn.get'', cd_Challenge = ''AAAA'',
         cd_Origin = ''https://b/'', cd_CrossOrigin = False\<rparr> else None),
     g_P256_IsOnCurve = (\<lambda>x y. y = x + 1), g_ecdsa_verify = (\<lambda>_ digest sig. sig = 1 # digest),
     g_pem_Decode = (\<lambda>b. if b = [] then None else Some (''RSA PRIVATE KEY'', b)),
     g_pem_Encode = (\<lambda>(_, b). Some b),
     g_ParsePKCS1 = (\<lambda>b. Some \<lparr>prv_Public = \<lparr>pk_N = length b, pk_E = 3\<rparr>, prv_D = 5\<rparr>),
     g_MarshalPKCS1 = (\<lambda>k. replicate (pk_N (prv_Public k)) 65),
     g_ParsePKCS8 = (\<lambda>_. None),
     g_GenerateKey = (\<lambda>i. Some \<lparr>prv_Public = \<lparr>pk_N = i + 1, pk_E = 3\<rparr>, prv_D = 5\<rparr>),
     g_AddDays = (\<lambda>t n. t + n * (24 * Hour)), g_Format = (\<lambda>_ t. nat_digits (nat t))\<rparr>"

lemma demo_lib_sel [simp]:
  "g_sha256 demo_lib = (\<lambda>b. b)" "g_ParseIP demo_lib s = (if s = ''10.0.0.1'' then Some [10, 0, 0, 1]
     else if s = ''9.9.9.9'' then Some [9, 9, 9, 9] else None)"
  "g_entropy demo_lib i n = [word_of_nat i, word_of_nat n]"
  "g_rsa_sign demo_lib sk h = Some (1 # h)" "g_rsa_verify demo_lib k h sig = (sig = 1 # h)"
  "g_json_marshal demo_lib m = Some (if m ''typ'' = None then [2] else [1])"
  "g_url_query demo_lib u qs = Some (u @ concat (map (\<lambda>(k, v). ''&'' @ k @ ''='' @ v) qs))"
  "g_Authenticate demo_lib u p = (if p = ''pw'' then Some \<lparr>p_Subject = u, p_Email = u @ ''@x'',
     p_Name = u, p_Groups = []\<rparr> else None)"
  "g_json_unmarshal demo_lib b =
     Some [''typ'' \<mapsto> JStr ''JWT'', ''alg'' \<mapsto> JStr ''RS256'', ''kid'' \<mapsto> JStr ''k1'']"
  "g_quote demo_lib s = s" "g_url_Parse demo_lib u = Some \<lparr>url_Scheme = ''https'', url_Host = u, url_Hostname = u\<rparr>"
  "g_ParseRequestURI demo_lib u = (u \<noteq> [])"
  "g_json_clientData demo_lib b =
     (if b = [1] then Some \<lparr>cd_Type = ''webauthn.create'', cd_Challenge = ''AAAA'',
         cd_Origin = ''https://b/'', cd_CrossOrigin = False\<rparr>
      else if b = [2] then Some \<lparr>cd_Type = ''webauthn.get'', cd_Challenge = ''AAAA'',
         cd_Origin = ''https://b/'', cd_CrossOrigin = False\<rparr> else None)"
  "g_P256_IsOnCurve demo_lib x y = (y = x + 1)" "g_ecdsa_verify demo_lib pub digest sig = (sig = 1 # digest)"
  "g_pem_Decode demo_lib b = (if b = [] then None else Some (''RSA PRIVATE KEY'', b))"
  "g_pem_Encode demo_lib blk = Some (snd blk)"
  "g_ParsePKCS1 demo_lib b = Some \<lparr>prv_Public = \<lparr>pk_N = length b, pk_E = 3\<rparr>, prv_D = 5\<rparr>"
  "g_MarshalPKCS1 demo_lib sk = replicate (pk_N (prv_Public sk)) 65"
  "g_GenerateKey demo_lib i = Some \<lparr>prv_Public = \<lparr>pk_N = i + 1, pk_E = 3\<rparr>, prv_D = 5\<rparr>"
  "g_AddDays demo_lib t days = t + days * (24 * Hour)" "g_Format demo_lib l t = nat_digits (nat t)"
  by (simp_all add: demo_lib_def case_prod_beta)

end
