(* ===== verification/ClientIP.thy ===== *)
theory ClientIP
  imports Golib
begin

unbundle bit_operations_syntax

text \<open>
  The caller's address (\<^verbatim>\<open>ratelimit.go\<close>): the peer of the connection, or, when that peer is a
  configured proxy, the rightmost entry of the forwarding header that is not a trusted proxy.
  Rate limits and audit records are keyed by it, so what an untrusted caller writes into the
  header must not decide it.
\<close>

section \<open>Networks\<close>

type_synonym ipnet = "byte list \<times> byte list"

definition To4 :: "byte list \<Rightarrow> byte list option" where
  "To4 ip =
     (if length ip = 4 then Some ip
      else if length ip = 16 \<and> take 10 ip = replicate 10 0 \<and> take 2 (drop 10 ip) = [0xff, 0xff]
      then Some (drop 12 ip) else None)"

definition networkNumberAndMask :: "ipnet \<Rightarrow> byte list \<times> byte list" where
  "networkNumberAndMask n =
     (case n of (ip0, m) \<Rightarrow>
        (case (case To4 ip0 of Some x \<Rightarrow> Some x
               | None \<Rightarrow> if length ip0 = 16 then Some ip0 else None) of
           None \<Rightarrow> ([], [])
         | Some ip \<Rightarrow>
             if length m = 4 then (if length ip = 4 then (ip, m) else ([], []))
             else if length m = 16 then (ip, if length ip = 4 then drop 12 m else m)
             else ([], [])))"

definition ipnet_Contains :: "ipnet \<Rightarrow> byte list \<Rightarrow> bool" where
  "ipnet_Contains n ip0 =
     (let (nn, m) = networkNumberAndMask n;
          ip = (case To4 ip0 of Some x \<Rightarrow> x | None \<Rightarrow> ip0)
      in length ip = length nn \<and> map2 (AND) nn m = map2 (AND) ip m)"

section \<open>The proxy set\<close>

datatype proxy_error = BadCIDR string | NotIPOrCIDR string

fun newTrustedProxySet :: "golib \<Rightarrow> string list \<Rightarrow> proxy_error + ipnet list" where
  "newTrustedProxySet G [] = Inr []"
| "newTrustedProxySet G (v # vs) =
     (let raw = TrimSpace v in
      if raw = [] then newTrustedProxySet G vs
      else case (if Contains raw ''/''
                 then (case g_ParseCIDR G raw of None \<Rightarrow> Inl (BadCIDR raw) | Some n \<Rightarrow> Inr n)
                 else (case g_ParseIP G raw of
                         None \<Rightarrow> Inl (NotIPOrCIDR raw)
                       | Some ip \<Rightarrow> Inr (ip, replicate (if To4 ip = None then 16 else 4) 0xff))) of
          Inl e \<Rightarrow> Inl e
        | Inr n \<Rightarrow> map_sum id (\<lambda>ns. n # ns) (newTrustedProxySet G vs))"

definition containsString :: "golib \<Rightarrow> ipnet list \<Rightarrow> string \<Rightarrow> bool" where
  "containsString G nets raw =
     (case g_ParseIP G (TrimSpace raw) of
        None \<Rightarrow> False
      | Some ip \<Rightarrow> \<exists>n \<in> set nets. ipnet_Contains n ip)"

section \<open>The header\<close>

definition brackets :: "char set" where
  "brackets = {CHR ''['', CHR '']''}"

definition parseIPEntry :: "golib \<Rightarrow> string \<Rightarrow> string" where
  "parseIPEntry G raw0 =
     (let raw = TrimSpace raw0 in
      if raw = [] then []
      else if g_ParseIP G raw \<noteq> None then raw
      else case SplitHostPort raw of
          None \<Rightarrow> []
        | Some host0 \<Rightarrow>
            let host = TrimChars brackets (TrimSpace host0)
            in if g_ParseIP G host \<noteq> None then host else [])"

definition clientIPFromTrustedChain :: "golib \<Rightarrow> string \<Rightarrow> ipnet list \<Rightarrow> string" where
  "clientIPFromTrustedChain G value trusted =
     (let parts = map (parseIPEntry G) (Split (CHR '','') value) in
      case List.find (\<lambda>raw. raw \<noteq> [] \<and> \<not> containsString G trusted raw) (rev parts) of
        Some raw \<Rightarrow> raw
      | None \<Rightarrow> (case List.find (\<lambda>ip. ip \<noteq> []) parts of Some ip \<Rightarrow> ip | None \<Rightarrow> []))"

definition remote_ip :: "string \<Rightarrow> string" where
  "remote_ip remoteAddr = (case SplitHostPort remoteAddr of None \<Rightarrow> TrimSpace remoteAddr | Some h \<Rightarrow> h)"

text \<open>\<^verbatim>\<open>Broker.clientIP\<close>, given the value of the configured header.\<close>

definition broker_clientIP :: "golib \<Rightarrow> ipnet list \<Rightarrow> string \<Rightarrow> string \<Rightarrow> string" where
  "broker_clientIP G proxies headerValue remoteAddr =
     (let remote = remote_ip remoteAddr in
      if proxies = [] \<or> \<not> containsString G proxies remote then remote
      else let ip = clientIPFromTrustedChain G headerValue proxies
           in if ip \<noteq> [] then ip else remote)"

section \<open>Spoofing\<close>

lemma Split_append_any: "\<exists>ys. Split c (s @ c # t) = ys @ Split c t"
proof (induction s)
  case Nil
  show ?case by (rule exI [of _ "[[]]"]) simp
next
  case (Cons x s)
  then obtain ys where ys: "Split c (s @ c # t) = ys @ Split c t" by blast
  show ?case
  proof (cases "x = c")
    case True
    then show ?thesis using ys by (intro exI [of _ "[] # ys"]) simp
  next
    case False
    have "ys \<noteq> []"
    proof
      assume "ys = []"
      have len: "length (Split c u) = Suc (count_list u c)" for u
        by (induction u) (auto split: list.splits)
      with ys \<open>ys = []\<close> have "count_list (s @ c # t) c = count_list t c" by (metis Suc_inject append_Nil)
      then show False by simp
    qed
    then show ?thesis using ys False
      by (cases ys) (auto intro: exI [of _ "(x # hd ys) # tl ys"])
  qed
qed

lemma find_append: "List.find P (xs @ ys) = (case List.find P xs of Some x \<Rightarrow> Some x | None \<Rightarrow> List.find P ys)"
  by (induction xs) auto

text \<open>
  The forwarding header cannot be spoofed from the left: when the part of the header that
  the trusted proxies appended names an address that is not a trusted proxy, that address is
  the result whatever an attacker put in front of it, and a caller that does not connect from a
  trusted proxy is identified by its own address whatever the header says.
\<close>

theorem client_ip_no_spoof:
  assumes "\<exists>part \<in> set (Split (CHR '','') honest). parseIPEntry G part \<noteq> [] \<and>
             \<not> containsString G proxies (parseIPEntry G part)"
  shows "broker_clientIP G proxies (forged @ '','' @ honest) remote =
           broker_clientIP G proxies honest remote \<and>
         (containsString G proxies (remote_ip remote) \<and> proxies \<noteq> [] \<longrightarrow>
           \<not> containsString G proxies (broker_clientIP G proxies honest remote)) \<and>
         (\<not> containsString G proxies (remote_ip remote) \<longrightarrow>
           broker_clientIP G proxies forged remote = remote_ip remote)"
proof -
  let ?ok = "\<lambda>raw. raw \<noteq> [] \<and> \<not> containsString G proxies raw"
  let ?hp = "map (parseIPEntry G) (Split (CHR '','') honest)"
  obtain ys where ys: "Split (CHR '','') (forged @ '','' @ honest) = ys @ Split (CHR '','') honest"
    using Split_append_any by fastforce
  have "List.find ?ok (rev ?hp) \<noteq> None" using assms by (auto simp: find_None_iff)
  then obtain raw where f: "List.find ?ok (rev ?hp) = Some raw" by blast
  then have raw: "?ok raw" by (auto simp: find_Some_iff)
  have a: "clientIPFromTrustedChain G (forged @ '','' @ honest) proxies = raw"
    using f by (simp add: clientIPFromTrustedChain_def ys [simplified] find_append)
  have b: "clientIPFromTrustedChain G honest proxies = raw"
    using f by (simp add: clientIPFromTrustedChain_def)
  show ?thesis using a b raw by (simp add: broker_clientIP_def Let_def)
qed

lemma TrimSpace_demo: "TrimSpace ''10.0.0.1'' = ''10.0.0.1''" "TrimSpace ''9.9.9.9'' = ''9.9.9.9''"
  by (rule TrimSpace_plain; simp)+

theorem client_ip_no_spoof_witness:
  "broker_clientIP demo_lib [([10, 0, 0, 1], [255, 255, 255, 255])] (''10.0.0.1'' @ '','' @ ''9.9.9.9'') ''10.0.0.1:80'' =
   broker_clientIP demo_lib [([10, 0, 0, 1], [255, 255, 255, 255])] ''9.9.9.9'' ''10.0.0.1:80''"
proof -
  let ?ps = "[([10, 0, 0, 1], [255, 255, 255, 255])] :: ipnet list"
  have "parseIPEntry demo_lib ''9.9.9.9'' = ''9.9.9.9''"
    by (simp add: parseIPEntry_def TrimSpace_demo)
  moreover have "\<not> containsString demo_lib ?ps ''9.9.9.9''"
    by (simp add: containsString_def TrimSpace_demo ipnet_Contains_def networkNumberAndMask_def To4_def)
  ultimately show ?thesis
    using client_ip_no_spoof [of "''9.9.9.9''" demo_lib ?ps "''10.0.0.1''" "''10.0.0.1:80''"] by simp
qed

end
