(* ===== verification/GroupMapping.thy ===== *)
theory GroupMapping
  imports Golib
begin

text \<open>
  Group mappings (\<^verbatim>\<open>groups.go\<close> and \<^verbatim>\<open>ldapGroupName\<close> of \<^verbatim>\<open>ldap.go\<close>): how the groups of a
  directory user become the group names a client or an app token sees.  A mapping's source is a
  group name, a DN pattern or a regular expression; only groups that a mapping names reach a
  token.  A Go map is iterated in the order of the association list that stands for it.
\<close>

definition ldapGroupName :: "golib \<Rightarrow> string \<Rightarrow> string" where
  "ldapGroupName G value0 =
     (let value = TrimSpace value0 in
      if value = [] then []
      else if Contains value ''='' then
        (case g_ParseDN G value of
           Some (rdn # _) \<Rightarrow>
             (case List.find (\<lambda>(t, v). EqualFold G t ''cn'' \<and> TrimSpace v \<noteq> []) rdn of
                Some (_, v) \<Rightarrow> TrimSpace v
              | None \<Rightarrow>
                  (case List.find (\<lambda>(_, v). TrimSpace v \<noteq> []) rdn of
                     Some (_, v) \<Rightarrow> TrimSpace v
                   | None \<Rightarrow> value))
         | _ \<Rightarrow> value)
      else value)"

definition scopeIncludes :: "string \<Rightarrow> string \<Rightarrow> bool" where
  "scopeIncludes scope wanted = (wanted \<in> set (Fields scope))"

section \<open>Parsing a mapping\<close>

datatype group_error =
    RegexBlank | InvalidRegex string | InvalidScopedDN string | BadWildcard string
  | TooManyMappings nat | BlankSource | BlankTarget string
  | DuplicateRegex string | DuplicateScoped string | DuplicateSource string

definition parseRegexGroupMapping ::
  "golib \<Rightarrow> string \<Rightarrow> string \<Rightarrow> group_error + regexGroupMapping option" where
  "parseRegexGroupMapping G source0 target0 =
     (let source = TrimSpace source0; target = TrimSpace target0; prefix = ''regex:'' in
      if \<not> HasPrefix (to_lower G source) prefix then Inr None
      else let pattern = TrimSpace (drop (length prefix) source) in
        if pattern = [] then Inl RegexBlank
        else case g_regexp_Compile G pattern of
            None \<Rightarrow> Inl (InvalidRegex source)
          | Some compiled \<Rightarrow>
              Inr (Some \<lparr>rg_Source = prefix @ pattern, rg_Target = target, rg_Pattern = compiled\<rparr>))"

definition scopedGroupMappingTargetHasPlaceholder :: "string \<Rightarrow> bool" where
  "scopedGroupMappingTargetHasPlaceholder target =
     (target = ''*'' \<or> Contains target ''{cn}'' \<or> Contains target ''{group}'' \<or> Contains target ''{dn}'')"

definition cnWildcardBaseDN :: "golib \<Rightarrow> DN \<Rightarrow> DN option" where
  "cnWildcardBaseDN G dn =
     (case dn of
        [(t, v)] # r # rest \<Rightarrow> if EqualFold G t ''cn'' \<and> v = ''*'' then Some (r # rest) else None
      | _ \<Rightarrow> None)"

definition firstRDNAttribute :: "golib \<Rightarrow> DN \<Rightarrow> string \<Rightarrow> string option" where
  "firstRDNAttribute G dn attrType =
     (case dn of
        [] \<Rightarrow> None
      | rdn # _ \<Rightarrow> map_option snd (List.find (\<lambda>(t, _). EqualFold G t attrType) rdn))"

definition firstRDNHasAttribute :: "golib \<Rightarrow> DN \<Rightarrow> string \<Rightarrow> bool" where
  "firstRDNHasAttribute G dn attrType = (firstRDNAttribute G dn attrType \<noteq> None)"

definition parseScopedGroupMapping ::
  "golib \<Rightarrow> string \<Rightarrow> string \<Rightarrow> group_error + scopedGroupMapping option" where
  "parseScopedGroupMapping G source0 target0 =
     (let source = TrimSpace source0; target = TrimSpace target0 in
      case g_ParseDN G source of
        None \<Rightarrow>
          if Contains source ''*'' \<or> scopedGroupMappingTargetHasPlaceholder target
          then Inl (InvalidScopedDN source) else Inr None
      | Some dn \<Rightarrow>
          (case cnWildcardBaseDN G dn of
             Some base \<Rightarrow>
               Inr (Some \<lparr>sg_Source = ''CN=*,'' @ g_DN_String G base, sg_Target = target, sg_BaseDN = base\<rparr>)
           | None \<Rightarrow>
               if Contains source ''*'' then Inl (BadWildcard source)
               else if scopedGroupMappingTargetHasPlaceholder target \<and> \<not> firstRDNHasAttribute G dn ''cn''
               then Inr (Some \<lparr>sg_Source = g_DN_String G dn, sg_Target = target, sg_BaseDN = dn\<rparr>)
               else Inr None))"

section \<open>Compiling and normalising the mappings\<close>

fun compile_loop ::
  "golib \<Rightarrow> (string \<times> string) list \<Rightarrow> compiledGroupMappings \<Rightarrow> compiledGroupMappings" where
  "compile_loop G [] c = c"
| "compile_loop G ((source, target) # rest) c =
     (case parseRegexGroupMapping G source target of
        Inr (Some m) \<Rightarrow> compile_loop G rest (c\<lparr>cg_regex := cg_regex c @ [m]\<rparr>)
      | _ \<Rightarrow>
          (case parseScopedGroupMapping G source target of
             Inr (Some m) \<Rightarrow> compile_loop G rest (c\<lparr>cg_scoped := cg_scoped c @ [m]\<rparr>)
           | _ \<Rightarrow>
               let sourceName = ldapGroupName G source in
               if sourceName = [] \<or> TrimSpace target = [] then compile_loop G rest c
               else compile_loop G rest
                 (c\<lparr>cg_direct := (cg_direct c)(to_lower G sourceName \<mapsto> TrimSpace target)\<rparr>)))"

definition compileGroupMappings :: "golib \<Rightarrow> (string \<times> string) list \<Rightarrow> compiledGroupMappings option" where
  "compileGroupMappings G m =
     (if m = [] then None
      else let c = compile_loop G m \<lparr>cg_direct = Map.empty, cg_scoped = [], cg_regex = []\<rparr> in
        if cg_direct c = Map.empty \<and> cg_scoped c = [] \<and> cg_regex c = [] then None else Some c)"

definition maxGroupMappingsPerClient :: nat where
  "maxGroupMappingsPerClient = 64"

text \<open>A Go map as an association list: assignment replaces the entry of the key.\<close>

definition alist_set :: "'k \<Rightarrow> 'v \<Rightarrow> ('k \<times> 'v) list \<Rightarrow> ('k \<times> 'v) list" where
  "alist_set k v m = filter (\<lambda>(k', _). k' \<noteq> k) m @ [(k, v)]"

text \<open>The three \<^verbatim>\<open>seen\<close> maps: an earlier entry with another target is an error.\<close>

definition clash :: "(string \<rightharpoonup> string) \<Rightarrow> string \<Rightarrow> string \<Rightarrow> bool" where
  "clash seen k target = (\<exists>existing. seen k = Some existing \<and> existing \<noteq> target)"

lemma clash_code [code]:
  "clash seen k target = (case seen k of None \<Rightarrow> False | Some existing \<Rightarrow> existing \<noteq> target)"
  by (simp add: clash_def split: option.split)

fun normalize_loop ::
  "golib \<Rightarrow> (string \<times> string) list \<Rightarrow> (string \<rightharpoonup> string) \<Rightarrow> (string \<rightharpoonup> string) \<Rightarrow> (string \<rightharpoonup> string) \<Rightarrow>
     (string \<times> string) list \<Rightarrow> group_error + (string \<times> string) list" where
  "normalize_loop G [] sources scoped regex out = Inr out"
| "normalize_loop G ((source0, target0) # rest) sources scoped regex out =
     (let source = TrimSpace source0; target = TrimSpace target0 in
      if source = [] then Inl BlankSource
      else if target = [] then Inl (BlankTarget source)
      else case parseRegexGroupMapping G source target of
          Inl e \<Rightarrow> Inl e
        | Inr (Some m) \<Rightarrow>
            let key = to_lower G (rg_Source m) in
            if clash regex key target then Inl (DuplicateRegex (rg_Source m))
            else normalize_loop G rest sources scoped (regex(key \<mapsto> target))
                   (alist_set (rg_Source m) target out)
        | Inr None \<Rightarrow>
            (case parseScopedGroupMapping G source target of
               Inl e \<Rightarrow> Inl e
             | Inr (Some m) \<Rightarrow>
                 let key = to_lower G (g_DN_String G (sg_BaseDN m)) in
                 if clash scoped key target then Inl (DuplicateScoped (g_DN_String G (sg_BaseDN m)))
                 else normalize_loop G rest sources (scoped(key \<mapsto> target)) regex
                        (alist_set (sg_Source m) target out)
             | Inr None \<Rightarrow>
                 let normalizedSource = ldapGroupName G source; key = to_lower G normalizedSource in
                 if key = [] then Inl BlankSource
                 else if clash sources key target then Inl (DuplicateSource normalizedSource)
                 else normalize_loop G rest (sources(key \<mapsto> target)) scoped regex
                        (alist_set normalizedSource target out)))"

definition normalizeClientGroupMappings ::
  "golib \<Rightarrow> (string \<times> string) list \<Rightarrow> group_error + (string \<times> string) list" where
  "normalizeClientGroupMappings G m =
     (if m = [] then Inr []
      else if maxGroupMappingsPerClient < length m then Inl (TooManyMappings (length m))
      else normalize_loop G m Map.empty Map.empty Map.empty [])"

section \<open>Rendering a target\<close>

definition renderGroupMappingTarget :: "string \<Rightarrow> string \<Rightarrow> string \<Rightarrow> string" where
  "renderGroupMappingTarget target0 groupName groupDN =
     (let target1 = TrimSpace target0;
          target = (if target1 = ''*'' then ''{cn}'' else target1)
      in TrimSpace (Replace [(''{cn}'', TrimSpace groupName), (''{group}'', TrimSpace groupName),
                             (''{dn}'', TrimSpace groupDN)] target))"

definition regex_replacements :: "regexp \<Rightarrow> string list \<Rightarrow> (string \<times> string) list" where
  "regex_replacements pattern matches =
     (if matches = [] then [] else [(''{match}'', matches ! 0), (''{0}'', matches ! 0)]) @
     map (\<lambda>i. (''{'' @ nat_digits i @ ''}'', matches ! i)) [1..<length matches] @
     map (\<lambda>i. (''{'' @ rx_SubexpNames pattern ! i @ ''}'', matches ! i))
       (filter (\<lambda>i. rx_SubexpNames pattern ! i \<noteq> [])
          [1..<min (length matches) (length (rx_SubexpNames pattern))])"

definition renderRegexGroupMappingTarget ::
  "regexGroupMapping \<Rightarrow> string \<Rightarrow> string \<Rightarrow> string list \<Rightarrow> string" where
  "renderRegexGroupMappingTarget mapping groupName groupDN matches =
     (let replacements = regex_replacements (rg_Pattern mapping) matches;
          target = (if replacements = [] then rg_Target mapping
                    else Replace replacements (rg_Target mapping))
      in renderGroupMappingTarget target groupName groupDN)"

section \<open>Mapping a user's groups\<close>

definition scopedGroupMatch :: "golib \<Rightarrow> scopedGroupMapping \<Rightarrow> string \<Rightarrow> (string \<times> string) option" where
  "scopedGroupMatch G mapping grp =
     (case g_ParseDN G (TrimSpace grp) of
        None \<Rightarrow> None
      | Some dn \<Rightarrow>
          if \<not> g_AncestorOfFold G (sg_BaseDN mapping) dn then None
          else case firstRDNAttribute G dn ''cn'' of
              None \<Rightarrow> None
            | Some cn \<Rightarrow> if TrimSpace cn = [] then None else Some (TrimSpace cn, g_DN_String G dn))"

text \<open>
  The names one group is mapped to, in the order the three inner loops produce them.  A name
  that is empty or was seen before is dropped by the caller.
\<close>

definition group_targets :: "golib \<Rightarrow> compiledGroupMappings \<Rightarrow> string \<Rightarrow> string list" where
  "group_targets G c grp =
     (let groupName = ldapGroupName G grp in
      (case cg_direct c (to_lower G groupName) of
         None \<Rightarrow> []
       | Some target \<Rightarrow>
           if target = [] then [] else [renderGroupMappingTarget target groupName grp]) @
      concat (map (\<lambda>m. case scopedGroupMatch G m grp of
                         None \<Rightarrow> []
                       | Some (cn, dn) \<Rightarrow> [renderGroupMappingTarget (sg_Target m) cn dn]) (cg_scoped c)) @
      concat (map (\<lambda>m. case rx_FindStringSubmatch (rg_Pattern m) grp of
                         None \<Rightarrow> []
                       | Some matches \<Rightarrow> [renderRegexGroupMappingTarget m groupName grp matches])
                (cg_regex c)))"

definition mappedGroups :: "golib \<Rightarrow> compiledGroupMappings option \<Rightarrow> string list \<Rightarrow> string list" where
  "mappedGroups G compiled userGroups =
     (case compiled of
        None \<Rightarrow> []
      | Some c \<Rightarrow>
          if userGroups = [] then []
          else sort (dedup (filter (\<lambda>m. m \<noteq> []) (concat (map (group_targets G c) userGroups)))))"

definition mappedClientGroups :: "golib \<Rightarrow> Client \<Rightarrow> string list \<Rightarrow> string list" where
  "mappedClientGroups G client userGroups = mappedGroups G (c_compiledMappings client) userGroups"

definition mappedAppTokenGroups :: "golib \<Rightarrow> compiledGroupMappings option \<Rightarrow> string list \<Rightarrow> string list" where
  "mappedAppTokenGroups G compiled userGroups = mappedGroups G compiled userGroups"

section \<open>Facts\<close>

lemma mappedGroups_set:
  "set (mappedGroups G (Some c) gs) = {m. m \<noteq> [] \<and> (\<exists>g \<in> set gs. m \<in> set (group_targets G c g))}"
  by (auto simp: mappedGroups_def)

lemma mappedGroups_sorted: "sorted (mappedGroups G c gs) \<and> distinct (mappedGroups G c gs)"
  by (auto simp: mappedGroups_def split: option.splits)

text \<open>
  The groups a token carries are exactly the non-empty names that some mapping gives for some
  group of the user, sorted and without repetition; a user's groups count as a set, so their
  order and repetition in the directory do not matter; and without mappings no group gets out.
\<close>

theorem mapped_groups_exact:
  "set (mappedGroups G (Some c) gs) = {m. m \<noteq> [] \<and> (\<exists>g \<in> set gs. m \<in> set (group_targets G c g))} \<and>
   sorted (mappedGroups G (Some c) gs) \<and> distinct (mappedGroups G (Some c) gs) \<and>
   (set gs = set gs' \<longrightarrow> mappedGroups G (Some c) gs = mappedGroups G (Some c) gs') \<and>
   mappedGroups G None gs = []"
proof -
  have "mappedGroups G (Some c) gs = mappedGroups G (Some c) gs'" if "set gs = set gs'"
    using mappedGroups_sorted [of G "Some c" gs] mappedGroups_sorted [of G "Some c" gs'] that
    by (intro sorted_distinct_set_unique) (auto simp: mappedGroups_set)
  then show ?thesis
    using mappedGroups_set [of G c gs] mappedGroups_sorted [of G "Some c" gs]
    by (simp add: mappedGroups_def)
qed

definition demo_groups :: compiledGroupMappings where
  "demo_groups = \<lparr>cg_direct = [''admins'' \<mapsto> ''root''], cg_scoped = [], cg_regex = []\<rparr>"

theorem mapped_groups_exact_witness:
  "mappedGroups demo_lib (Some demo_groups) [''admins'', ''staff''] =
   mappedGroups demo_lib (Some demo_groups) [''staff'', ''admins'', ''staff'']"
  using mapped_groups_exact [of demo_lib demo_groups "[''admins'', ''staff'']" "[''staff'', ''admins'', ''staff'']"]
  by auto

text \<open>
  A capture of a regular expression that contains a placeholder is substituted again: with
  the target \<open>{1}\<close> and a group whose first capture is the text \<open>{cn}\<close>, the result is the
  group's own name and not the captured text, although the two substitution steps are there to
  prevent exactly that.
\<close>

definition demo_regex :: regexGroupMapping where
  "demo_regex = \<lparr>rg_Source = ''regex:(.*)'', rg_Target = ''{1}'',
     rg_Pattern = \<lparr>rx_FindStringSubmatch = (\<lambda>s. Some [s, s]), rx_SubexpNames = [[], []]\<rparr>\<rparr>"

lemma TrimSpace_admins: "TrimSpace ''admins'' = ''admins''" "TrimSpace ''{cn}'' = ''{cn}''"
  by (rule TrimSpace_plain; simp)+

theorem regex_capture_resubstituted:
  "renderRegexGroupMappingTarget demo_regex ''admins'' ''admins'' [''{cn}'', ''{cn}''] = ''admins''"
proof -
  have n: "nat_digits (Suc 0) = ''1''" by code_simp
  have "regex_replacements (rg_Pattern demo_regex) [''{cn}'', ''{cn}''] =
      [(''{match}'', ''{cn}''), (''{0}'', ''{cn}''), (''{1}'', ''{cn}'')]"
    by (simp add: regex_replacements_def demo_regex_def n upt_rec)
  then have "renderRegexGroupMappingTarget demo_regex ''admins'' ''admins'' [''{cn}'', ''{cn}''] =
      renderGroupMappingTarget ''{cn}'' ''admins'' ''admins''"
    by (simp add: renderRegexGroupMappingTarget_def demo_regex_def HasPrefix_def)
  also have "\<dots> = ''admins''"
    using TrimSpace_plain [of "[]"] by (simp add: renderGroupMappingTarget_def TrimSpace_admins HasPrefix_def)
  finally show ?thesis .
qed

end
