(* ===== verification/Broker.thy ===== *)
theory Broker
  imports Store RateLimit Scopes ClientIP GroupMapping
begin

text \<open>
  The broker's own state and the shape of a request (\<^verbatim>\<open>broker.go\<close>, \<^verbatim>\<open>audit.go\<close> and the
  helpers of \<^verbatim>\<open>util.go\<close> that write responses).  A handler is a function of the immutable part
  of the broker (\<open>env\<close>), the request and the state (\<open>st\<close>); it returns the response and the
  new state.  All clock readings of one request give the same time \<open>e_now\<close>.  The log output
  of \<^verbatim>\<open>log.Printf\<close> and the metrics are not part of the state; the audit log is.
\<close>

section \<open>Requests and responses\<close>

text \<open>
  \<open>r_Form n\<close> is \<^verbatim>\<open>ParseForm\<close> with the body capped at \<open>n\<close> bytes: whether it succeeds, and
  \<^verbatim>\<open>Form.Get\<close> afterwards.  A getter gives the empty string for an absent name, as Go's do.
\<close>

text \<open>
  A body that is read as JSON, capped at a number of bytes: the result of decoding the first
  value into the struct of the handler, and what a second \<^verbatim>\<open>Decode\<close> meets after it.
  \<open>r_JSON_username\<close> is the value of the field after a \<^verbatim>\<open>Decode\<close> whose error is ignored.
\<close>

datatype trailing = AtEOF | MoreJSON | BadTrailing

type_synonym 'a json_stream = "'a option \<times> trailing"

definition decodeSingleJSON :: "'a json_stream \<Rightarrow> 'a option" where
  "decodeSingleJSON b =
     (case fst b of
        None \<Rightarrow> None
      | Some v \<Rightarrow> (case snd b of MoreJSON \<Rightarrow> None | AtEOF \<Rightarrow> Some v | BadTrailing \<Rightarrow> None))"

record http_request =
  r_Method :: string
  r_Host :: string
  r_RemoteAddr :: string
  r_Path :: string
  r_Header :: "string \<Rightarrow> string"
  r_Cookie :: "string \<Rightarrow> string option"
  r_Query :: "string \<Rightarrow> string"
  r_Form :: "nat \<Rightarrow> bool \<times> (string \<Rightarrow> string)"
  r_PostForm :: "nat \<Rightarrow> bool \<times> (string \<Rightarrow> string)"
  r_BasicAuth :: "(string \<times> string) option"
  r_JSON_otp :: "nat \<Rightarrow> string json_stream"
  r_JSON_attestation :: "nat \<Rightarrow> webauthnAttestationResponse json_stream"
  r_JSON_assertion :: "nat \<Rightarrow> webauthnAssertionResponse json_stream"
  r_JSON_username :: "nat \<Rightarrow> string"
  r_PathValue :: "string \<Rightarrow> string"
  r_RequestID :: string

abbreviation form_ok :: "http_request \<Rightarrow> nat \<Rightarrow> bool" where
  "form_ok r n \<equiv> fst (r_Form r n)"

abbreviation form_get :: "http_request \<Rightarrow> nat \<Rightarrow> string \<Rightarrow> string" where
  "form_get r n \<equiv> snd (r_Form r n)"

record cookie =
  k_Name :: string
  k_Value :: string
  k_Secure :: bool
  k_Expires :: "time option"
  k_MaxAge :: int

datatype body =
    NoBody
  | Text string
  | JsonBody claims
  | JsonKeys "claims list"
  | Location string
  | Page string "(string \<times> json) list"

text \<open>\<open>Panic\<close> is a handler that does not return: \<^verbatim>\<open>net/http\<close> closes the connection.\<close>

datatype response = Resp nat body | Panic

definition http_Error :: "string \<Rightarrow> nat \<Rightarrow> response" where
  "http_Error msg status = Resp status (Text msg)"

definition http_Redirect :: "string \<Rightarrow> response" where
  "http_Redirect url = Resp 302 (Location url)"

definition writeJSON :: "nat \<Rightarrow> claims \<Rightarrow> response" where
  "writeJSON status v = Resp status (JsonBody v)"

section \<open>The broker\<close>

text \<open>The type of \<^verbatim>\<open>signing_keys.go\<close>.\<close>

record signingKey =
  key_ID :: string
  key_Private :: rsa_PrivateKey
  key_JWK :: claims

record env =
  e_lib :: golib
  e_cfg :: Config
  e_clients :: "string \<rightharpoonup> Client"
  e_appTokens :: "string \<rightharpoonup> AppTokenConfig"
  e_activeKey :: signingKey
  e_verifyKeys :: "string \<rightharpoonup> rsa_PublicKey"
  e_publicJWKs :: "claims list"
  e_proxies :: "ipnet list"
  e_error_text :: "store_error \<Rightarrow> string"
  e_now :: time

abbreviation e_keyID :: "env \<Rightarrow> string" where
  "e_keyID e \<equiv> key_ID (e_activeKey e)"

text \<open>\<open>e_error_text\<close> is the text of an error that comes from bbolt or the JSON decoder.\<close>

datatype attr = Str string | Flag bool

record audit_record =
  a_event :: string
  a_outcome :: string
  a_attrs :: "(string \<times> attr) list"

record st =
  st_db :: Store
  st_clients :: "string \<rightharpoonup> Client"
  st_appTokens :: "string \<rightharpoonup> AppTokenConfig"
  st_login :: loginRateLimiter
  st_token :: loginRateLimiter
  st_preAuth :: loginRateLimiter
  st_drawn :: nat
  st_audit :: "audit_record list"
  w_header :: "string \<rightharpoonup> string"
  w_cookies :: "cookie list"

definition sessionCookieName :: string where "sessionCookieName = ''broker_session''"
definition csrfCookieName :: string where "csrfCookieName = ''broker_csrf''"
definition csrfFormField :: string where "csrfFormField = ''csrf_token''"
definition csrfHeaderName :: string where "csrfHeaderName = ''X-CSRF-Token''"
definition bearerPrefix :: string where "bearerPrefix = ''Bearer ''"

definition maxLoginBodyBytes :: nat where "maxLoginBodyBytes = 16 * 1024"
definition maxTokenBodyBytes :: nat where "maxTokenBodyBytes = 16 * 1024"
definition maxLogoutBodyBytes :: nat where "maxLogoutBodyBytes = 64 * 1024"
definition maxRevokeBodyBytes :: nat where "maxRevokeBodyBytes = 16 * 1024"
definition maxIntrospectBodyBytes :: nat where "maxIntrospectBodyBytes = 16 * 1024"
definition maxAppTokenFormBodyBytes :: nat where "maxAppTokenFormBodyBytes = 4 * 1024"
definition maxTOTPEnrollBodyBytes :: nat where "maxTOTPEnrollBodyBytes = 4 * 1024"
definition maxTOTPVerifyBodyBytes :: nat where "maxTOTPVerifyBodyBytes = 1024"
definition maxWebAuthnBodyBytes :: nat where "maxWebAuthnBodyBytes = 64 * 1024"
definition maxUserInfoBodyBytes :: nat where "maxUserInfoBodyBytes = 4 * 1024"

definition reAuthValidity :: duration where
  "reAuthValidity = 5 * Minute"

section \<open>Effects of a request\<close>

definition on_db :: "(Store \<Rightarrow> 'a \<times> Store) \<Rightarrow> st \<Rightarrow> 'a \<times> st" where
  "on_db f s = (case f (st_db s) of (a, d) \<Rightarrow> (a, s\<lparr>st_db := d\<rparr>))"

definition set_header :: "string \<Rightarrow> string \<Rightarrow> st \<Rightarrow> st" where
  "set_header k v s = s\<lparr>w_header := (w_header s)(k \<mapsto> v)\<rparr>"

definition SetCookie :: "cookie \<Rightarrow> st \<Rightarrow> st" where
  "SetCookie c s = s\<lparr>w_cookies := w_cookies s @ [c]\<rparr>"

definition randomB64 :: "env \<Rightarrow> nat \<Rightarrow> st \<Rightarrow> string \<times> st" where
  "randomB64 e n s =
     (base64RawURL (g_entropy (e_lib e) (st_drawn s) n), s\<lparr>st_drawn := st_drawn s + 1\<rparr>)"

definition hash_secret :: "env \<Rightarrow> string \<Rightarrow> string" where
  "hash_secret e secret = hashSecret (g_sha256 (e_lib e)) secret"

definition cookieSecure :: "env \<Rightarrow> bool" where
  "cookieSecure e =
     (case cf_CookieSecure (e_cfg e) of
        Some b \<Rightarrow> b
      | None \<Rightarrow> HasPrefix (cf_Issuer (e_cfg e)) ''https://'')"

definition clientIP :: "env \<Rightarrow> http_request \<Rightarrow> string" where
  "clientIP e r =
     broker_clientIP (e_lib e) (e_proxies e) (r_Header r (cf_ClientIPHeader (e_cfg e))) (r_RemoteAddr r)"

definition auditEvent ::
  "env \<Rightarrow> http_request \<Rightarrow> string \<Rightarrow> string \<Rightarrow> (string \<times> attr) list \<Rightarrow> st \<Rightarrow> st" where
  "auditEvent e r event outcome attrs s =
     s\<lparr>st_audit := st_audit s @ [\<lparr>a_event = event, a_outcome = outcome,
        a_attrs = (''client_ip'', Str (clientIP e r)) #
          (if r_RequestID r = [] then [] else [(''request_id'', Str (r_RequestID r))]) @ attrs\<rparr>]\<rparr>"

abbreviation audit_ok ::
  "env \<Rightarrow> http_request \<Rightarrow> string \<Rightarrow> (string \<times> attr) list \<Rightarrow> st \<Rightarrow> st" where
  "audit_ok e r event attrs s \<equiv> auditEvent e r event ''success'' attrs s"

abbreviation audit_fail ::
  "env \<Rightarrow> http_request \<Rightarrow> string \<Rightarrow> (string \<times> attr) list \<Rightarrow> st \<Rightarrow> st" where
  "audit_fail e r event attrs s \<equiv> auditEvent e r event ''failure'' attrs s"

text \<open>
  \<^verbatim>\<open>int(d.Seconds())\<close>: whole seconds.  The rounding of the intermediate \<^verbatim>\<open>float64\<close> is not
  modelled; it is exact below 97 days.
\<close>

definition writeRetryAfter :: "duration \<Rightarrow> st \<Rightarrow> st" where
  "writeRetryAfter d s =
     (let d = (if d < Second then Second else d) in set_header ''Retry-After'' (Itoa (d div Second)) s)"

section \<open>Registries\<close>

definition lookupClient :: "env \<Rightarrow> st \<Rightarrow> string \<Rightarrow> Client option" where
  "lookupClient e s cid = (case e_clients e cid of Some c \<Rightarrow> Some c | None \<Rightarrow> st_clients s cid)"

definition lookupAppToken :: "env \<Rightarrow> st \<Rightarrow> string \<Rightarrow> AppTokenConfig option" where
  "lookupAppToken e s tid = (case e_appTokens e tid of Some t \<Rightarrow> Some t | None \<Rightarrow> st_appTokens s tid)"

text \<open>The snapshots put the stored entries over the configured ones.\<close>

definition snapshotClients :: "env \<Rightarrow> st \<Rightarrow> string \<rightharpoonup> Client" where
  "snapshotClients e s = e_clients e ++ st_clients s"

definition snapshotAppTokens :: "env \<Rightarrow> st \<Rightarrow> string \<rightharpoonup> AppTokenConfig" where
  "snapshotAppTokens e s = e_appTokens e ++ st_appTokens s"

datatype reload_error =
    ReloadStore store_error | ReloadClient string scope_error | ReloadAppToken string scope_error

fun reload_clients :: "env \<Rightarrow> Client list \<Rightarrow> (string \<rightharpoonup> Client) \<Rightarrow> reload_error + (string \<rightharpoonup> Client)" where
  "reload_clients e [] m = Inr m"
| "reload_clients e (c # cs) m =
     (if e_clients e (c_ClientID c) \<noteq> None then reload_clients e cs m
      else case normalizeClientScopePolicy c of
          Inl err \<Rightarrow> Inl (ReloadClient (c_ClientID c) err)
        | Inr c' \<Rightarrow> reload_clients e cs (m(c_ClientID c' \<mapsto>
            c'\<lparr>c_compiledMappings := compileGroupMappings (e_lib e) (c_GroupMappings c')\<rparr>)))"

fun reload_tokens ::
  "env \<Rightarrow> AppTokenConfig list \<Rightarrow> (string \<rightharpoonup> AppTokenConfig) \<Rightarrow> reload_error + (string \<rightharpoonup> AppTokenConfig)" where
  "reload_tokens e [] m = Inr m"
| "reload_tokens e (t # ts) m =
     (if e_appTokens e (at_ID t) \<noteq> None then reload_tokens e ts m
      else case normalizeAppTokenScope (at_Scope t) of
          Inl err \<Rightarrow> Inl (ReloadAppToken (at_ID t) err)
        | Inr scope \<Rightarrow> reload_tokens e ts (m(at_ID t \<mapsto>
            t\<lparr>at_Scope := scope,
              at_compiledMappings := compileGroupMappings (e_lib e) (at_GroupMappings t)\<rparr>)))"

definition reloadStoredRegistries :: "env \<Rightarrow> st \<Rightarrow> (reload_error + unit) \<times> st" where
  "reloadStoredRegistries e s =
     (case ListStoredClients (st_db s) of
        Inl err \<Rightarrow> (Inl (ReloadStore err), s)
      | Inr clients \<Rightarrow>
          (case ListStoredAppTokens (st_db s) of
             Inl err \<Rightarrow> (Inl (ReloadStore err), s)
           | Inr tokens \<Rightarrow>
               (case reload_clients e clients Map.empty of
                  Inl err \<Rightarrow> (Inl err, s)
                | Inr cm \<Rightarrow>
                    (case reload_tokens e tokens Map.empty of
                       Inl err \<Rightarrow> (Inl err, s)
                     | Inr tm \<Rightarrow> (Inr (), s\<lparr>st_clients := cm, st_appTokens := tm\<rparr>)))))"

definition sweepExpired :: "time \<Rightarrow> st \<Rightarrow> st" where
  "sweepExpired now s =
     (let s1 = snd (on_db (SweepExpired now) s)
      in s1\<lparr>st_login := sweep now (st_login s1), st_token := sweep now (st_token s1),
            st_preAuth := sweep now (st_preAuth s1)\<rparr>)"

section \<open>Administrators and identifiers\<close>

definition admin_allowed :: "env \<Rightarrow> string set" where
  "admin_allowed e =
     (\<Union>g \<in> set (cf_AdminGroups (e_cfg e)).
        let trimmed = TrimSpace g in
        if trimmed = [] then {}
        else {to_lower (e_lib e) (ldapGroupName (e_lib e) trimmed), to_lower (e_lib e) trimmed})"

definition userIsAdmin :: "env \<Rightarrow> StoredUser option \<Rightarrow> bool" where
  "userIsAdmin e user =
     (case user of
        None \<Rightarrow> False
      | Some u \<Rightarrow>
          cf_AdminGroups (e_cfg e) \<noteq> [] \<and> admin_allowed e \<noteq> {} \<and>
          (\<exists>g \<in> set (u_Groups u). to_lower (e_lib e) (ldapGroupName (e_lib e) g) \<in> admin_allowed e \<or>
             to_lower (e_lib e) g \<in> admin_allowed e))"

text \<open>
  Go ranges over runes; a byte beyond ASCII is part of a rune that is none of the listed ones,
  so the check is the same byte by byte.
\<close>

definition validIdentifier :: "string \<Rightarrow> nat \<Rightarrow> bool" where
  "validIdentifier ident maxLen =
     (ident \<noteq> [] \<and> length ident \<le> maxLen \<and>
      (\<forall>c \<in> set ident. (97 \<le> code c \<and> code c \<le> 122) \<or> (65 \<le> code c \<and> code c \<le> 90) \<or>
         (48 \<le> code c \<and> code c \<le> 57) \<or> c = CHR ''.'' \<or> c = CHR ''_'' \<or> c = CHR ''-''))"

definition validAppTokenID :: "string \<Rightarrow> bool" where
  "validAppTokenID ident = validIdentifier ident 64"

text \<open>\<^verbatim>\<open>requestHostMatchesIssuer\<close> of \<^verbatim>\<open>main.go\<close> and \<^verbatim>\<open>urlHostname\<close> of \<^verbatim>\<open>config.go\<close>.\<close>

definition urlHostname :: "golib \<Rightarrow> string \<Rightarrow> string option" where
  "urlHostname G raw =
     (case g_url_Parse G (TrimSpace raw) of
        None \<Rightarrow> None | Some u \<Rightarrow> if url_Hostname u = [] then None else Some (url_Hostname u))"

definition requestHostMatchesIssuer :: "env \<Rightarrow> http_request \<Rightarrow> bool" where
  "requestHostMatchesIssuer e r =
     (if \<not> cf_Production (e_cfg e) then True
      else case urlHostname (e_lib e) (cf_Issuer (e_cfg e)) of
          None \<Rightarrow> True
        | Some issuerHost \<Rightarrow>
            let host0 = TrimSpace (r_Host r);
                host1 = (case SplitHostPort host0 of Some h \<Rightarrow> h | None \<Rightarrow> host0);
                host = TrimChars brackets host1
            in EqualFold (e_lib e) host issuerHost)"

section \<open>Frames\<close>

text \<open>The parts of the state the effects leave alone.\<close>

lemma effects_db [frame, simp]:
  "st_db (set_header k v s) = st_db s"
  "st_db (SetCookie c s) = st_db s"
  "st_db (snd (randomB64 e n s)) = st_db s"
  "st_db (auditEvent e r ev oc at s) = st_db s"
  "st_db (writeRetryAfter d s) = st_db s"
  by (simp_all add: set_header_def SetCookie_def randomB64_def auditEvent_def writeRetryAfter_def Let_def)

lemma effects_clients [frame, simp]:
  "st_clients (set_header k v s) = st_clients s"
  "st_clients (SetCookie c s) = st_clients s"
  "st_clients (snd (randomB64 e n s)) = st_clients s"
  "st_clients (auditEvent e r ev oc at s) = st_clients s"
  "st_clients (writeRetryAfter d s) = st_clients s"
  "st_clients (snd (on_db f s)) = st_clients s"
  by (simp_all add: set_header_def SetCookie_def randomB64_def auditEvent_def writeRetryAfter_def
      on_db_def Let_def case_prod_beta)

lemma effects_cookies [frame, simp]:
  "w_cookies (set_header k v s) = w_cookies s"
  "w_cookies (snd (randomB64 e n s)) = w_cookies s"
  "w_cookies (auditEvent e r ev oc at s) = w_cookies s"
  "w_cookies (writeRetryAfter d s) = w_cookies s"
  "w_cookies (snd (on_db f s)) = w_cookies s"
  by (simp_all add: set_header_def randomB64_def auditEvent_def writeRetryAfter_def
      on_db_def Let_def case_prod_beta)

lemma on_db_eq: "on_db f s = (a, s') \<longleftrightarrow> (\<exists>d. f (st_db s) = (a, d) \<and> s' = s\<lparr>st_db := d\<rparr>)"
  by (auto simp: on_db_def split: prod.splits)

lemma on_db_sel [simp]: "fst (on_db f s) = fst (f (st_db s))" "st_db (snd (on_db f s)) = snd (f (st_db s))"
  by (simp_all add: on_db_def case_prod_beta)

lemma lookupClient_cong: "st_clients s = st_clients s' \<Longrightarrow> lookupClient e s = lookupClient e s'"
  by (rule ext) (simp add: lookupClient_def split: option.split)

lemma reload_clients_config:
  "reload_clients e cs m = Inr m' \<Longrightarrow> dom m \<inter> dom (e_clients e) = {} \<Longrightarrow> dom m' \<inter> dom (e_clients e) = {}"
proof (induction e cs m rule: reload_clients.induct)
  case (2 e c cs m)
  show ?case
  proof (cases "e_clients e (c_ClientID c)")
    case None
    with "2.prems" obtain c' where n: "normalizeClientScopePolicy c = Inr c'"
      and r: "reload_clients e cs (m(c_ClientID c' \<mapsto>
            c'\<lparr>c_compiledMappings := compileGroupMappings (e_lib e) (c_GroupMappings c')\<rparr>)) = Inr m'"
      by (auto split: sum.splits)
    have "c_ClientID c' = c_ClientID c"
      using n by (auto simp: normalizeClientScopePolicy_def split: sum.splits)
    then have d: "dom (m(c_ClientID c' \<mapsto>
            c'\<lparr>c_compiledMappings := compileGroupMappings (e_lib e) (c_GroupMappings c')\<rparr>)) \<inter>
        dom (e_clients e) = {}"
      using None "2.prems"(2) by auto
    show ?thesis by (rule "2.IH"(2) [OF _ n r d]) (simp add: None)
  qed (use 2 in auto)
qed simp

text \<open>
  A configured client cannot be shadowed: after the stored registries are reloaded, every
  client id of the configuration still resolves to the configured client, whatever the database
  holds, and the merged snapshot agrees with the lookup on every id.
\<close>

theorem config_clients_win:
  assumes "reloadStoredRegistries e s = (Inr u, s')"
  shows "(e_clients e cid = Some c \<longrightarrow> lookupClient e s' cid = Some c) \<and>
         snapshotClients e s' = lookupClient e s'"
proof -
  from assms obtain cs m where "reload_clients e cs Map.empty = Inr m" "st_clients s' = m"
    by (auto simp: reloadStoredRegistries_def split: sum.splits)
  then have d: "dom (st_clients s') \<inter> dom (e_clients e) = {}"
    using reload_clients_config by (metis dom_empty inf_bot_left)
  have "snapshotClients e s' k = lookupClient e s' k" for k
    using d by (auto simp: snapshotClients_def lookupClient_def map_add_def split: option.splits)
  then show ?thesis by (auto simp: lookupClient_def)
qed

section \<open>A broker to evaluate the properties on\<close>

definition demo_ldap :: LDAPConfig where
  "demo_ldap = \<lparr>ld_URL = ''ldaps://d'', ld_UserDNTemplate = [], ld_DomainSuffix = [], ld_BaseDN = [],
     ld_UserFilter = [], ld_EmailAttribute = [], ld_NameAttribute = [], ld_GroupsAttribute = [],
     ld_NestedGroups = False, ld_GroupSearchBaseDN = [], ld_GroupSearchFilter = [],
     ld_GroupNameAttribute = [], ld_StartTLS = False, ld_InsecureSkipVerify = False,
     ld_CACertPath = [], ld_TimeoutSeconds = 5\<rparr>"

definition demo_acme :: ACMEConfig where
  "demo_acme = \<lparr>acme_Enabled = False, acme_Domains = [], acme_Email = [], acme_CADirectory = [], acme_CACertPath = [],
     acme_StoragePath = [], acme_HTTPAddr = [], acme_HTTPSAddr = [], acme_AgreedTOS = False\<rparr>"

definition demo_rates :: RateLimitConfig where
  "demo_rates = \<lparr>rl_LoginWindowSeconds = 0, rl_LoginMaxAttempts = 0, rl_LoginLockoutSeconds = 0,
     rl_TokenWindowSeconds = 0, rl_TokenMaxAttempts = 0, rl_TokenLockoutSeconds = 0,
     rl_PreAuthWindowSeconds = 0, rl_PreAuthMaxAttempts = 0, rl_PreAuthLockoutSeconds = 0\<rparr>"

definition demo_cfg :: Config where
  "demo_cfg = \<lparr>cf_Issuer = ''https://b'', cf_Listen = [], cf_DisplayName = ''B'', cf_Production = False,
     cf_SigningKeyPEM = [], cf_KeyID = ''k1'', cf_CookieSecure = None, cf_TrustedProxies = [],
     cf_ClientIPHeader = ''XFF'', cf_SigningKeys = [], cf_SigningKeyRotationDays = 90,
     cf_SigningKeyRetentionDays = 30, cf_LDAP = demo_ldap, cf_Clients = [], cf_MFA_TOTPRequired = False,
     cf_WebAuthn = \<lparr>wa_RPID = [], wa_RPDisplayName = [], wa_Origins = []\<rparr>, cf_AppTokens = [],
     cf_ACME = demo_acme, cf_RateLimit = demo_rates,
     cf_Metrics = \<lparr>me_Enabled = False, me_Path = [], me_BearerSHA256 = []\<rparr>, cf_AdminGroups = [],
     cf_AccessTokenTTLMinutes = 15, cf_IDTokenTTLMinutes = 15, cf_RefreshTokenTTLDays = 30,
     cf_AuthCodeTTLSeconds = 60, cf_SessionTTLHrs = 8, cf_SessionAbsoluteTTLHrs = 24\<rparr>"

definition demo_key :: signingKey where
  "demo_key = \<lparr>key_ID = ''k1'', key_Private = \<lparr>prv_Public = \<lparr>pk_N = 7, pk_E = 3\<rparr>, prv_D = 5\<rparr>, key_JWK = Map.empty\<rparr>"

definition demo_env :: env where
  "demo_env = \<lparr>e_lib = demo_lib, e_cfg = demo_cfg, e_clients = [''web'' \<mapsto> demo_client],
     e_appTokens = Map.empty, e_activeKey = demo_key, e_verifyKeys = [''k1'' \<mapsto> \<lparr>pk_N = 7, pk_E = 3\<rparr>],
     e_publicJWKs = [], e_proxies = [], e_error_text = (\<lambda>_. []), e_now = 1000 * Second\<rparr>"

definition demo_limiter :: loginRateLimiter where
  "demo_limiter = newLoginRateLimiter (60 * Second) 5 (300 * Second)"

definition demo_st :: st where
  "demo_st = \<lparr>st_db = empty_Store, st_clients = Map.empty, st_appTokens = Map.empty,
     st_login = demo_limiter, st_token = demo_limiter, st_preAuth = demo_limiter, st_drawn = 0,
     st_audit = [], w_header = Map.empty, w_cookies = []\<rparr>"

definition demo_request :: http_request where
  "demo_request = \<lparr>r_Method = ''POST'', r_Host = ''b'', r_RemoteAddr = ''9.9.9.9:1'', r_Path = ''/'',
     r_Header = (\<lambda>_. []), r_Cookie = (\<lambda>_. None), r_Query = (\<lambda>_. []),
     r_Form = (\<lambda>_. (True, \<lambda>_. [])), r_PostForm = (\<lambda>_. (True, \<lambda>_. [])), r_BasicAuth = None,
     r_JSON_otp = (\<lambda>_. (None, AtEOF)), r_JSON_attestation = (\<lambda>_. (None, AtEOF)),
     r_JSON_assertion = (\<lambda>_. (None, AtEOF)), r_JSON_username = (\<lambda>_. []), r_PathValue = (\<lambda>_. []), r_RequestID = []\<rparr>"

lemma demo_env_sel [simp]:
  "e_lib demo_env = demo_lib" "e_cfg demo_env = demo_cfg" "e_clients demo_env = [''web'' \<mapsto> demo_client]"
  "e_keyID demo_env = ''k1''" "e_verifyKeys demo_env = [''k1'' \<mapsto> \<lparr>pk_N = 7, pk_E = 3\<rparr>]"
  "e_proxies demo_env = []" "e_now demo_env = 1000 * Second" "e_appTokens demo_env = Map.empty"
  by (simp_all add: demo_env_def demo_key_def)

lemma demo_st_sel [simp]:
  "st_db demo_st = empty_Store" "st_clients demo_st = Map.empty" "st_drawn demo_st = 0"
  "st_login demo_st = demo_limiter" "st_token demo_st = demo_limiter" "st_preAuth demo_st = demo_limiter"
  "w_cookies demo_st = []" "st_appTokens demo_st = Map.empty"
  by (simp_all add: demo_st_def)

theorem config_clients_win_witness:
  "\<exists>s'. reloadStoredRegistries demo_env demo_st = (Inr (), s') \<and>
        lookupClient demo_env s' ''web'' = Some demo_client"
proof -
  have r: "reloadStoredRegistries demo_env demo_st = (Inr (), demo_st)"
    by (simp add: reloadStoredRegistries_def ListStoredClients_def ListStoredAppTokens_def db_view_def
        empty_Store_def demo_st_def)
  show ?thesis using config_clients_win [OF r, of "''web''" demo_client] r by auto
qed

end
