(* ===== verification/Jwt.thy ===== *)
theory Jwt
  imports Broker
begin

text \<open>
  Signing and verifying tokens (\<^verbatim>\<open>jwt.go\<close>).  RSA, SHA-256 and the JSON codec are those of the
  \<open>golib\<close>; the format, the choice of the key, the order of the checks, the clock skew and the
  revocation list are the code's.
\<close>

datatype jwt_error =
    MarshalHeader | MarshalClaims | SignFailed
  | MalformedJWT | JwtCodec codec_error | JwtJSON | BadHeader | BadSignature
  | BadIssuer | TokenExpired | TokenNotActive | JwtStore store_error | TokenRevoked

section \<open>Keys\<close>

text \<open>\<^verbatim>\<open>big.Int.Bytes\<close>: big endian, no leading zero byte.\<close>

fun big_bytes :: "nat \<Rightarrow> byte list" where
  "big_bytes n = (if n = 0 then [] else big_bytes (n div 256) @ [word_of_nat (n mod 256)])"

declare big_bytes.simps [simp del]

definition makePublicJWK :: "string \<Rightarrow> rsa_PublicKey \<Rightarrow> claims" where
  "makePublicJWK keyID pub =
     [''kty'' \<mapsto> JStr ''RSA'', ''use'' \<mapsto> JStr ''sig'', ''kid'' \<mapsto> JStr keyID, ''alg'' \<mapsto> JStr ''RS256'',
      ''n'' \<mapsto> JStr (base64RawURL (big_bytes (pk_N pub))),
      ''e'' \<mapsto> JStr (base64RawURL (big_bytes (pk_E pub)))]"

section \<open>Signing\<close>

definition jwt_header :: "env \<Rightarrow> claims" where
  "jwt_header e = [''typ'' \<mapsto> JStr ''JWT'', ''alg'' \<mapsto> JStr ''RS256'', ''kid'' \<mapsto> JStr (e_keyID e)]"

definition sha_str :: "env \<Rightarrow> string \<Rightarrow> byte list" where
  "sha_str e s = g_sha256 (e_lib e) (bytes_of s)"

definition signJWT :: "env \<Rightarrow> claims \<Rightarrow> jwt_error + string" where
  "signJWT e claims =
     (case g_json_marshal (e_lib e) (jwt_header e) of
        None \<Rightarrow> Inl MarshalHeader
      | Some hb \<Rightarrow>
          (case g_json_marshal (e_lib e) claims of
             None \<Rightarrow> Inl MarshalClaims
           | Some cb \<Rightarrow>
               let signingInput = base64RawURL hb @ ''.'' @ base64RawURL cb in
               (case g_rsa_sign (e_lib e) (key_Private (e_activeKey e)) (sha_str e signingInput) of
                  None \<Rightarrow> Inl SignFailed
                | Some sig \<Rightarrow> Inr (signingInput @ ''.'' @ base64RawURL sig))))"

section \<open>Verifying\<close>

definition numberClaim :: "json option \<Rightarrow> int option" where
  "numberClaim v =
     (case v of Some (JInt i) \<Rightarrow> if - (2 ^ 63) \<le> i \<and> i < 2 ^ 63 then Some i else None | _ \<Rightarrow> None)"

definition jwtClockSkew :: duration where
  "jwtClockSkew = 30 * Second"

definition jwtExpired :: "claims \<Rightarrow> time \<Rightarrow> bool" where
  "jwtExpired claims now =
     (case numberClaim (claims ''exp'') of
        None \<Rightarrow> False | Some exp \<Rightarrow> now > unix_time exp + jwtClockSkew)"

definition jwtNotActive :: "claims \<Rightarrow> time \<Rightarrow> bool" where
  "jwtNotActive claims now =
     (case numberClaim (claims ''nbf'') of
        None \<Rightarrow> False | Some nbf \<Rightarrow> now < unix_time nbf - jwtClockSkew)"

definition decodeJWTHeader :: "env \<Rightarrow> string \<Rightarrow> jwt_error + claims" where
  "decodeJWTHeader e encoded =
     (case decodeB64URL encoded of
        Inl err \<Rightarrow> Inl (JwtCodec err)
      | Inr bs \<Rightarrow> (case g_json_unmarshal (e_lib e) bs of None \<Rightarrow> Inl JwtJSON | Some h \<Rightarrow> Inr h))"

definition jwtVerifyKey :: "env \<Rightarrow> claims \<Rightarrow> jwt_error + rsa_PublicKey" where
  "jwtVerifyKey e header =
     (let kid = str_claim header ''kid'' in
      case e_verifyKeys e kid of
        None \<Rightarrow> Inl BadHeader
      | Some key \<Rightarrow>
          if header ''alg'' \<noteq> Some (JStr ''RS256'') \<or> kid = [] then Inl BadHeader else Inr key)"

definition verifyJWTSignature ::
  "env \<Rightarrow> string \<Rightarrow> string \<Rightarrow> string \<Rightarrow> rsa_PublicKey \<Rightarrow> jwt_error option" where
  "verifyJWTSignature e encHeader encClaims encSignature key =
     (case decodeB64URL encSignature of
        Inl err \<Rightarrow> Some (JwtCodec err)
      | Inr sig \<Rightarrow>
          if g_rsa_verify (e_lib e) key (sha_str e (encHeader @ ''.'' @ encClaims)) sig
          then None else Some BadSignature)"

definition decodeJWTClaims :: "env \<Rightarrow> string \<Rightarrow> jwt_error + claims" where
  "decodeJWTClaims e encoded =
     (case decodeB64URL encoded of
        Inl err \<Rightarrow> Inl (JwtCodec err)
      | Inr bs \<Rightarrow> (case g_json_decode (e_lib e) bs of None \<Rightarrow> Inl JwtJSON | Some c \<Rightarrow> Inr c))"

definition verifyTokenNotRevoked :: "env \<Rightarrow> claims \<Rightarrow> st \<Rightarrow> jwt_error option \<times> st" where
  "verifyTokenNotRevoked e claims s =
     (let jti = str_claim claims ''jti'' in
      if jti = [] then (None, s)
      else case GetRevokedJTI jti (st_db s) of
          Inl err \<Rightarrow> (Some (JwtStore err), s)
        | Inr None \<Rightarrow> (None, s)
        | Inr (Some exp) \<Rightarrow>
            if e_now e > exp
            then (case on_db (DeleteRevokedJTI jti) s of
                    (Inl err, s1) \<Rightarrow> (Some (JwtStore err), s1)
                  | (Inr _, s1) \<Rightarrow> (None, s1))
            else (Some TokenRevoked, s))"

definition validateJWTClaims :: "env \<Rightarrow> claims \<Rightarrow> bool \<Rightarrow> st \<Rightarrow> jwt_error option \<times> st" where
  "validateJWTClaims e claims ignoreExpiry s =
     (if str_claim claims ''iss'' \<noteq> cf_Issuer (e_cfg e) then (Some BadIssuer, s)
      else if \<not> ignoreExpiry \<and> jwtExpired claims (e_now e) then (Some TokenExpired, s)
      else if jwtNotActive claims (e_now e) then (Some TokenNotActive, s)
      else verifyTokenNotRevoked e claims s)"

definition verifyJWTWithOptions :: "env \<Rightarrow> string \<Rightarrow> bool \<Rightarrow> st \<Rightarrow> (jwt_error + claims) \<times> st" where
  "verifyJWTWithOptions e token ignoreExpiry s =
     (case Split (CHR ''.'') token of
        [p0, p1, p2] \<Rightarrow>
          (case decodeJWTHeader e p0 of
             Inl err \<Rightarrow> (Inl err, s)
           | Inr header \<Rightarrow>
               (case jwtVerifyKey e header of
                  Inl err \<Rightarrow> (Inl err, s)
                | Inr key \<Rightarrow>
                    (case verifyJWTSignature e p0 p1 p2 key of
                       Some err \<Rightarrow> (Inl err, s)
                     | None \<Rightarrow>
                         (case decodeJWTClaims e p1 of
                            Inl err \<Rightarrow> (Inl err, s)
                          | Inr claims \<Rightarrow>
                              (case validateJWTClaims e claims ignoreExpiry s of
                                 (Some err, s1) \<Rightarrow> (Inl err, s1)
                               | (None, s1) \<Rightarrow> (Inr claims, s1))))))
      | _ \<Rightarrow> (Inl MalformedJWT, s))"

definition verifyJWT :: "env \<Rightarrow> string \<Rightarrow> st \<Rightarrow> (jwt_error + claims) \<times> st" where
  "verifyJWT e token s = verifyJWTWithOptions e token False s"

section \<open>What verification does to the state\<close>

text \<open>At most an outdated entry of the revocation list goes.\<close>

lemma verifyTokenNotRevoked_db:
  assumes "verifyTokenNotRevoked e c s = (r, s')"
  shows "s' = s \<or> (\<exists>jti. s' = s\<lparr>st_db := (st_db s)\<lparr>db_revokedJTIs := bdel jti (db_revokedJTIs (st_db s))\<rparr>\<rparr>)"
  using assms
  by (fastforce simp: verifyTokenNotRevoked_def on_db_def DeleteRevokedJTI_def db_update_def Let_def
      split: if_splits sum.splits option.splits prod.splits)

lemma verifyJWT_db:
  assumes "verifyJWTWithOptions e tok ign s = (r, s')"
  shows "s' = s \<or> (\<exists>jti. s' = s\<lparr>st_db := (st_db s)\<lparr>db_revokedJTIs := bdel jti (db_revokedJTIs (st_db s))\<rparr>\<rparr>)"
proof -
  have "s' = s \<or> (\<exists>c r0. verifyTokenNotRevoked e c s = (r0, s'))"
    using assms
    by (auto simp: verifyJWTWithOptions_def validateJWTClaims_def
        split: list.splits sum.splits option.splits prod.splits if_splits)
  then show ?thesis using verifyTokenNotRevoked_db by blast
qed

text \<open>An accepted token: its parts, its key, its signature and its claims.\<close>

definition authentic :: "env \<Rightarrow> string \<Rightarrow> claims \<Rightarrow> bool" where
  "authentic e token claims =
     (\<exists>p0 p1 p2 header key sig.
        token = p0 @ ''.'' @ p1 @ ''.'' @ p2 \<and> decodeJWTHeader e p0 = Inr header \<and>
        header ''alg'' = Some (JStr ''RS256'') \<and>
        e_verifyKeys e (str_claim header ''kid'') = Some key \<and> decodeB64URL p2 = Inr sig \<and>
        g_rsa_verify (e_lib e) key (sha_str e (p0 @ ''.'' @ p1)) sig \<and> decodeJWTClaims e p1 = Inr claims)"

lemma Join_Split: "Join (Split c s) [c] = s"
proof (induction s)
  case (Cons x s)
  have "Split c s \<noteq> []" for s by (cases s) (auto split: list.splits)
  then obtain y ys where y: "Split c s = y # ys" by (meson neq_Nil_conv)
  then show ?case using Cons by (cases ys) auto
qed simp

lemma Split3: "Split (CHR ''.'') tok = [p0, p1, p2] \<Longrightarrow> tok = p0 @ ''.'' @ p1 @ ''.'' @ p2"
  using Join_Split [of "CHR ''.''" tok] by simp

lemma verifyJWT_sound:
  assumes "verifyJWTWithOptions e tok ign s = (Inr claims, s')"
  shows "authentic e tok claims \<and> validateJWTClaims e claims ign s = (None, s')"
proof -
  from assms obtain p0 p1 p2 header key where
    p: "Split (CHR ''.'') tok = [p0, p1, p2]" "decodeJWTHeader e p0 = Inr header"
    "jwtVerifyKey e header = Inr key" "verifyJWTSignature e p0 p1 p2 key = None"
    "decodeJWTClaims e p1 = Inr claims" "validateJWTClaims e claims ign s = (None, s')"
    by (auto simp: verifyJWTWithOptions_def split: list.splits sum.splits option.splits prod.splits)
  then have "header ''alg'' = Some (JStr ''RS256'')"
    and "e_verifyKeys e (str_claim header ''kid'') = Some key"
    and "\<exists>sig. decodeB64URL p2 = Inr sig \<and> g_rsa_verify (e_lib e) key (sha_str e (p0 @ ''.'' @ p1)) sig"
    by (auto simp: jwtVerifyKey_def verifyJWTSignature_def Let_def
        split: option.splits sum.splits if_splits)
  then have "authentic e tok claims"
    unfolding authentic_def using p(2,5) Split3 [OF p(1)] by blast
  with p(6) show ?thesis by simp
qed

lemma revoked_rejected:
  assumes "str_claim claims ''jti'' = jti" and "jti \<noteq> []"
    and "numberClaim (claims ''exp'') = Some x"
    and "bget jti (db_revokedJTIs (st_db s)) = Some (Json (unix_time x + jwtClockSkew))"
  shows "fst (validateJWTClaims e claims False s) \<noteq> None"
  using assms
  by (simp add: validateJWTClaims_def jwtExpired_def verifyTokenNotRevoked_def GetRevokedJTI_def
      db_view_def getJSON_def Let_def)

text \<open>The claims of a token are those of its text: they depend on neither the keys nor the state.\<close>

lemma verifyJWT_same_claims:
  assumes "verifyJWTWithOptions e tok ign s = (Inr c, s')" and "verifyJWTWithOptions e2 tok ign2 s2 = (Inr c2, s2')"
    and "e_lib e2 = e_lib e"
  shows "c2 = c"
proof -
  have "\<exists>p0 p1 p2. Split (CHR ''.'') tok = [p0, p1, p2] \<and> decodeJWTClaims e p1 = Inr c"
    if "verifyJWTWithOptions e tok ign s = (Inr c, s')" for e ign s c s'
    using that by (auto simp: verifyJWTWithOptions_def split: list.splits sum.splits option.splits prod.splits)
  from this [OF assms(1)] this [OF assms(2)] obtain p where "decodeJWTClaims e p = Inr c" "decodeJWTClaims e2 p = Inr c2"
    by force
  moreover have "decodeJWTClaims e2 p = decodeJWTClaims e p" by (simp only: decodeJWTClaims_def assms(3))
  ultimately show ?thesis by simp
qed

lemma verifyJWT_accepted:
  assumes "verifyJWT e tok s = (Inr claims, s')"
  shows "authentic e tok claims \<and> str_claim claims ''iss'' = cf_Issuer (e_cfg e) \<and>
         \<not> jwtExpired claims (e_now e) \<and> \<not> jwtNotActive claims (e_now e) \<and>
         (\<forall>t. str_claim claims ''jti'' \<noteq> [] \<and>
              bget (str_claim claims ''jti'') (db_revokedJTIs (st_db s)) = Some (Json t) \<longrightarrow> t < e_now e)"
proof -
  note v = verifyJWT_sound [OF assms [unfolded verifyJWT_def]]
  then have "validateJWTClaims e claims False s = (None, s')" by simp
  then show ?thesis
    using v
    by (auto simp: validateJWTClaims_def verifyTokenNotRevoked_def GetRevokedJTI_def db_view_def
        getJSON_def Let_def split: if_splits option.splits)
qed

section \<open>Properties\<close>

text \<open>
  C36. Signing and verifying fit together: a token the broker signs is accepted and gives back the
  claims it was made from, and verification changes nothing, when the claims name this issuer,
  are within their validity, carry no revoked identifier, and RSA and JSON do on these inputs
  what they promise (a signature verifies under its key, decoding undoes encoding).
\<close>

theorem sign_verify_roundtrip:
  assumes "signJWT e claims = Inr tok"
    and "e_keyID e \<noteq> []" and "e_verifyKeys e (e_keyID e) = Some key"
    and "g_json_marshal (e_lib e) (jwt_header e) = Some hb" and "hb \<noteq> []"
    and "g_json_unmarshal (e_lib e) hb = Some (jwt_header e)"
    and "g_json_marshal (e_lib e) claims = Some cb" and "cb \<noteq> []"
    and "g_json_decode (e_lib e) cb = Some claims"
    and "\<And>h sig. g_rsa_sign (e_lib e) (key_Private (e_activeKey e)) h = Some sig \<Longrightarrow> sig \<noteq> [] \<and> g_rsa_verify (e_lib e) key h sig"
    and "str_claim claims ''iss'' = cf_Issuer (e_cfg e)"
    and "\<not> jwtExpired claims (e_now e)" and "\<not> jwtNotActive claims (e_now e)"
    and "db_open (st_db s)" and "bget (str_claim claims ''jti'') (db_revokedJTIs (st_db s)) = None"
  shows "verifyJWT e tok s = (Inr claims, s)"
proof -
  let ?h = "base64RawURL hb" and ?c = "base64RawURL cb"
  from assms(1,4,7) obtain sig where sig: "g_rsa_sign (e_lib e) (key_Private (e_activeKey e)) (sha_str e (?h @ ''.'' @ ?c)) = Some sig"
    and tok: "tok = ?h @ ''.'' @ ?c @ ''.'' @ base64RawURL sig"
    by (auto simp: signJWT_def Let_def split: option.splits)
  have "Split (CHR ''.'') tok = [?h, ?c, base64RawURL sig]"
    unfolding tok by (simp add: Split_append Split_no_sep)
  moreover have "decodeJWTHeader e ?h = Inr (jwt_header e)"
    using assms(5,6) by (simp add: decodeJWTHeader_def decodeB64URL_base64)
  moreover have "jwtVerifyKey e (jwt_header e) = Inr key"
    using assms(2,3) by (simp add: jwtVerifyKey_def jwt_header_def str_claim_def)
  moreover have "verifyJWTSignature e ?h ?c (base64RawURL sig) key = None"
    using assms(10) [OF sig] by (simp add: verifyJWTSignature_def decodeB64URL_base64)
  moreover have "decodeJWTClaims e ?c = Inr claims"
    using assms(8,9) by (simp add: decodeJWTClaims_def decodeB64URL_base64)
  moreover have "validateJWTClaims e claims False s = (None, s)"
    using assms(11-15)
    by (simp add: validateJWTClaims_def verifyTokenNotRevoked_def GetRevokedJTI_def db_view_def
        getJSON_def Let_def)
  ultimately show ?thesis by (simp add: verifyJWT_def verifyJWTWithOptions_def)
qed

definition demo_claims :: claims where
  "demo_claims = [''iss'' \<mapsto> JStr ''https://b'', ''sub'' \<mapsto> JStr ''alice'', ''jti'' \<mapsto> JStr ''j'',
     ''client_id'' \<mapsto> JStr ''web'', ''token_use'' \<mapsto> JStr ''access'', ''scope'' \<mapsto> JStr ''openid'',
     ''exp'' \<mapsto> JInt 2000]"

definition demo_env_jwt :: env where
  "demo_env_jwt = demo_env\<lparr>e_lib := demo_lib\<lparr>g_json_decode := (\<lambda>_. Some demo_claims)\<rparr>\<rparr>"

definition demo_token :: string where
  "demo_token = ''AQ.Ag.AUFRLkFn''"

lemma demo_env_jwt_sel [simp]:
  "e_cfg demo_env_jwt = demo_cfg" "e_keyID demo_env_jwt = ''k1''"
  "e_verifyKeys demo_env_jwt = [''k1'' \<mapsto> \<lparr>pk_N = 7, pk_E = 3\<rparr>]" "e_now demo_env_jwt = 1000 * Second"
  "e_lib demo_env_jwt = demo_lib\<lparr>g_json_decode := (\<lambda>_. Some demo_claims)\<rparr>"
  "e_clients demo_env_jwt = [''web'' \<mapsto> demo_client]" "e_proxies demo_env_jwt = []"
  by (simp_all add: demo_env_jwt_def)

lemma demo_sign: "signJWT demo_env_jwt demo_claims = Inr demo_token"
proof -
  have b: "base64RawURL [1] = ''AQ''" "base64RawURL [2] = ''Ag''"
    "base64RawURL (1 # bytes_of ''AQ.Ag'') = ''AUFRLkFn''" by code_simp+
  show ?thesis
    supply base64RawURL.simps [simp del]
    by (simp add: signJWT_def jwt_header_def demo_claims_def demo_token_def sha_str_def b Let_def)
qed

lemma demo_times: "\<not> jwtExpired demo_claims (1000 * Second)" "\<not> jwtNotActive demo_claims (1000 * Second)"
  by (simp_all add: jwtExpired_def jwtNotActive_def numberClaim_def demo_claims_def unix_time_exact jwtClockSkew_def)

theorem sign_verify_roundtrip_witness:
  "signJWT demo_env_jwt demo_claims = Inr demo_token \<and>
   verifyJWT demo_env_jwt demo_token demo_st = (Inr demo_claims, demo_st)"
proof -
  have "verifyJWT demo_env_jwt demo_token demo_st = (Inr demo_claims, demo_st)"
    by (rule sign_verify_roundtrip [OF demo_sign, where hb = "[1]" and cb = "[2]" and key = "\<lparr>pk_N = 7, pk_E = 3\<rparr>"])
      (use demo_times in \<open>auto simp: jwt_header_def demo_claims_def str_claim_def demo_cfg_def empty_Store_def\<close>)
  with demo_sign show ?thesis by simp
qed

text \<open>
  C38. What verification accepts is authentic: the token has three parts, its header names RS256 and
  a key of the broker, its signature verifies under that key over the exact header and claims
  text, the issuer is this broker, the token is not expired beyond the clock skew, and its
  identifier is not on the revocation list with a deadline that has not passed.
\<close>

theorem verified_token_authentic:
  assumes "verifyJWT e tok s = (Inr claims, s')"
  shows "authentic e tok claims \<and> str_claim claims ''iss'' = cf_Issuer (e_cfg e) \<and>
         \<not> jwtExpired claims (e_now e) \<and> \<not> jwtNotActive claims (e_now e) \<and>
         (\<forall>t. str_claim claims ''jti'' \<noteq> [] \<and>
              bget (str_claim claims ''jti'') (db_revokedJTIs (st_db s)) = Some (Json t) \<longrightarrow> t < e_now e)"
  using assms by (rule verifyJWT_accepted)

theorem verified_token_authentic_witness:
  "authentic demo_env_jwt demo_token demo_claims"
proof -
  have "verifyJWT demo_env_jwt demo_token demo_st = (Inr demo_claims, demo_st)"
  proof -
    have d: "decodeB64URL ''AQ'' = Inr [1]" "decodeB64URL ''Ag'' = Inr [2]"
      "decodeB64URL ''AUFRLkFn'' = Inr (1 # bytes_of ''AQ.Ag'')" by code_simp+
    show ?thesis
      using demo_times
      by (simp add: verifyJWT_def verifyJWTWithOptions_def demo_token_def decodeJWTHeader_def d
          jwtVerifyKey_def str_claim_def verifyJWTSignature_def sha_str_def decodeJWTClaims_def
          validateJWTClaims_def verifyTokenNotRevoked_def GetRevokedJTI_def db_view_def getJSON_def
          empty_Store_def demo_cfg_def demo_claims_def Let_def)
  qed
  from verified_token_authentic [OF this] show ?thesis by simp
qed

text \<open>
  As a logout hint a revoked token becomes usable again: once the deadline on the revocation
  list has passed, verification without the expiry check accepts the claims and drops the entry,
  although the code's comment says that a revoked token is unusable as a hint.
\<close>

theorem revoked_hint_usable_after_deadline:
  assumes "str_claim claims ''iss'' = cf_Issuer (e_cfg e)" and "\<not> jwtNotActive claims (e_now e)"
    and "str_claim claims ''jti'' \<noteq> []" and "db_open (st_db s)"
    and "bget (str_claim claims ''jti'') (db_revokedJTIs (st_db s)) = Some (Json t)" and "t < e_now e"
  shows "\<exists>s'. validateJWTClaims e claims True s = (None, s') \<and>
              bget (str_claim claims ''jti'') (db_revokedJTIs (st_db s')) = None"
  using assms
  by (auto simp: validateJWTClaims_def verifyTokenNotRevoked_def GetRevokedJTI_def db_view_def
      getJSON_def on_db_def DeleteRevokedJTI_def db_update_def bget_bdel Let_def)

theorem revoked_hint_usable_after_deadline_witness:
  "\<exists>s'. validateJWTClaims demo_env_jwt demo_claims True
        (demo_st\<lparr>st_db := empty_Store\<lparr>db_revokedJTIs := [(''j'', Json 5)]\<rparr>\<rparr>) = (None, s')"
proof -
  let ?s = "demo_st\<lparr>st_db := empty_Store\<lparr>db_revokedJTIs := [(''j'', Json 5)]\<rparr>\<rparr>"
  have "str_claim demo_claims ''iss'' = cf_Issuer (e_cfg demo_env_jwt)"
    "str_claim demo_claims ''jti'' = ''j''"
    by (simp_all add: demo_claims_def str_claim_def demo_cfg_def)
  then show ?thesis
    using revoked_hint_usable_after_deadline [of demo_claims demo_env_jwt ?s 5] demo_times(2)
    by (auto simp: empty_Store_def bget_def)
qed

end
