(* ===== verification/Sessions.thy ===== *)
theory Sessions
  imports Jwt
begin

text \<open>
  Sessions, CSRF tokens, re-authentication and the keys of the login limiter: the helpers of
  \<^verbatim>\<open>handlers_session.go\<close> that the handlers of every endpoint share.
\<close>

section \<open>CSRF tokens\<close>

definition session_cookie :: "env \<Rightarrow> string \<Rightarrow> time option \<Rightarrow> int \<Rightarrow> cookie" where
  "session_cookie e value expires maxAge =
     \<lparr>k_Name = sessionCookieName, k_Value = value, k_Secure = cookieSecure e,
      k_Expires = expires, k_MaxAge = maxAge\<rparr>"

definition anonymousCSRFToken :: "env \<Rightarrow> http_request \<Rightarrow> bool \<Rightarrow> st \<Rightarrow> string \<times> st" where
  "anonymousCSRFToken e r rot s =
     (case (if rot then None else r_Cookie r csrfCookieName) of
        Some (c # v) \<Rightarrow> (c # v, s)
      | _ \<Rightarrow>
          (case randomB64 e 32 s of (token, s1) \<Rightarrow>
             (token, SetCookie \<lparr>k_Name = csrfCookieName, k_Value = token, k_Secure = cookieSecure e,
                                k_Expires = None, k_MaxAge = 24 * 3600\<rparr> s1)))"

definition csrfTokenMatches :: "string \<Rightarrow> string \<Rightarrow> bool" where
  "csrfTokenMatches got want = (got \<noteq> [] \<and> want \<noteq> [] \<and> got = want)"

text \<open>The form getter is an argument: it is empty when the handler has not parsed the form.\<close>

definition verifyAnonymousCSRF :: "http_request \<Rightarrow> (string \<Rightarrow> string) \<Rightarrow> bool" where
  "verifyAnonymousCSRF r form =
     (case r_Cookie r csrfCookieName of
        None \<Rightarrow> False | Some v \<Rightarrow> csrfTokenMatches (form csrfFormField) v)"

definition verifySessionCSRF :: "http_request \<Rightarrow> (string \<Rightarrow> string) \<Rightarrow> Session \<Rightarrow> bool" where
  "verifySessionCSRF r form sess =
     (let token = (if form csrfFormField = [] then r_Header r csrfHeaderName else form csrfFormField)
      in csrfTokenMatches token (s_CSRFToken sess))"

definition requireSessionCSRF :: "http_request \<Rightarrow> (string \<Rightarrow> string) \<Rightarrow> Session \<Rightarrow> response option" where
  "requireSessionCSRF r form sess =
     (if verifySessionCSRF r form sess then None else Some (http_Error ''invalid csrf token'' 403))"

section \<open>The session of a request\<close>

definition session_id :: "http_request \<Rightarrow> string option" where
  "session_id r = (case r_Cookie r sessionCookieName of Some (c # v) \<Rightarrow> Some (c # v) | _ \<Rightarrow> None)"

definition session_expired :: "time \<Rightarrow> Session \<Rightarrow> bool" where
  "session_expired now sess =
     (now > s_ExpiresAt sess \<or> (\<not> IsZero (s_AbsoluteExpiresAt sess) \<and> now > s_AbsoluteExpiresAt sess))"

text \<open>
  The loading part that \<^verbatim>\<open>validSession\<close> and \<^verbatim>\<open>maybeExtendSession\<close> have in common, for a cookie
  value: look up, delete if expired, fill in a missing CSRF token.
\<close>

definition load_session :: "env \<Rightarrow> string \<Rightarrow> st \<Rightarrow> Session option \<times> st" where
  "load_session e sid s =
     (case GetSession sid (st_db s) of
        Inr (Some sess) \<Rightarrow>
          if session_expired (e_now e) sess
          then (None, snd (on_db (DeleteSession sid) s))
          else if s_CSRFToken sess = [] then
            (case randomB64 e 32 s of (token, s1) \<Rightarrow>
               (case on_db (EnsureSessionCSRF sid token) s1 of
                  (Inr (Some migrated), s2) \<Rightarrow> (Some migrated, s2)
                | (_, s2) \<Rightarrow> (None, s2)))
          else (Some sess, s)
      | _ \<Rightarrow> (None, s))"

definition validSession :: "env \<Rightarrow> http_request \<Rightarrow> st \<Rightarrow> Session option \<times> st" where
  "validSession e r s =
     (case session_id r of None \<Rightarrow> (None, s) | Some sid \<Rightarrow> load_session e sid s)"

definition maybeExtendSession :: "env \<Rightarrow> http_request \<Rightarrow> st \<Rightarrow> Session option \<times> st" where
  "maybeExtendSession e r s =
     (case session_id r of
        None \<Rightarrow> (None, s)
      | Some sid \<Rightarrow>
          (case load_session e sid s of
             (None, s1) \<Rightarrow> (None, s1)
           | (Some sess, s1) \<Rightarrow>
               let ttl = dur (cf_SessionTTLHrs (e_cfg e)) Hour in
               if ttl \<le> 0 \<or> time_sub (s_ExpiresAt sess) (e_now e) > ttl div 2 then (Some sess, s1)
               else
                 let newExpiry0 = e_now e + ttl;
                     newExpiry = (if \<not> IsZero (s_AbsoluteExpiresAt sess) \<and> newExpiry0 > s_AbsoluteExpiresAt sess
                                  then s_AbsoluteExpiresAt sess else newExpiry0);
                     sess' = sess\<lparr>s_ExpiresAt := newExpiry\<rparr>
                 in (case on_db (PutSession sid sess') s1 of
                       (Inl _, s2) \<Rightarrow> (Some sess', s2)
                     | (Inr _, s2) \<Rightarrow>
                         (Some sess', SetCookie (session_cookie e sid (Some newExpiry) 0) s2))))"

definition clearSession :: "env \<Rightarrow> http_request \<Rightarrow> st \<Rightarrow> (store_error + unit) \<times> st" where
  "clearSession e r s =
     (case (case session_id r of
              None \<Rightarrow> (Inr (), s) | Some sid \<Rightarrow> on_db (DeleteSession sid) s) of
        (Inl err, s1) \<Rightarrow> (Inl err, s1)
      | (Inr _, s1) \<Rightarrow> (Inr (), SetCookie (session_cookie e [] None (- 1)) s1))"

definition createSession ::
  "env \<Rightarrow> string \<Rightarrow> bool \<Rightarrow> string list \<Rightarrow> st \<Rightarrow> (store_error + Session) \<times> st" where
  "createSession e userID freshlyAuthenticated amr s =
     (case randomB64 e 32 s of (sid, s1) \<Rightarrow>
        (case randomB64 e 32 s1 of (csrf, s2) \<Rightarrow>
           let now = e_now e;
               sess = zero_Session\<lparr>s_UserID := userID,
                        s_ExpiresAt := now + dur (cf_SessionTTLHrs (e_cfg e)) Hour,
                        s_AuthTime := now, s_CSRFToken := csrf, s_AMR := amr\<rparr>;
               sess = (if cf_SessionAbsoluteTTLHrs (e_cfg e) > 0
                       then sess\<lparr>s_AbsoluteExpiresAt := now + dur (cf_SessionAbsoluteTTLHrs (e_cfg e)) Hour\<rparr>
                       else sess);
               sess = (if freshlyAuthenticated then sess\<lparr>s_ReAuthAt := now\<rparr> else sess)
           in (case on_db (PutSession sid sess) s2 of
                 (Inl err, s3) \<Rightarrow> (Inl err, s3)
               | (Inr _, s3) \<Rightarrow>
                   (Inr sess, SetCookie (session_cookie e sid (Some (s_ExpiresAt sess)) 0) s3))))"

section \<open>Re-authentication\<close>

datatype reauth_error = NoSession | ReauthStore store_error

definition markSessionReAuth :: "env \<Rightarrow> http_request \<Rightarrow> st \<Rightarrow> (reauth_error + unit) \<times> st" where
  "markSessionReAuth e r s =
     (case session_id r of
        None \<Rightarrow> (Inl NoSession, s)
      | Some sid \<Rightarrow>
          (case GetSession sid (st_db s) of
             Inl err \<Rightarrow> (Inl (ReauthStore err), s)
           | Inr None \<Rightarrow> (Inr (), s)
           | Inr (Some sess) \<Rightarrow>
               (case on_db (PutSession sid (sess\<lparr>s_ReAuthAt := e_now e\<rparr>)) s of
                  (Inl err, s1) \<Rightarrow> (Inl (ReauthStore err), s1)
                | (Inr _, s1) \<Rightarrow> (Inr (), s1))))"

definition sessionRecentlyReAuthenticated :: "env \<Rightarrow> Session \<Rightarrow> bool" where
  "sessionRecentlyReAuthenticated e sess =
     (\<not> IsZero (s_ReAuthAt sess) \<and> time_sub (e_now e) (s_ReAuthAt sess) \<le> reAuthValidity)"

definition requireRecentReAuth :: "env \<Rightarrow> Session \<Rightarrow> st \<Rightarrow> response option \<times> st" where
  "requireRecentReAuth e sess s =
     (if sessionRecentlyReAuthenticated e sess then (None, s)
      else (Some (writeJSON 403
              [''error'' \<mapsto> JStr ''re_auth_required'',
               ''error_description'' \<mapsto> JStr ''POST your current password to /reauth before enrolling a new factor'',
               ''reauth_endpoint'' \<mapsto> JStr ''/reauth'',
               ''reauth_max_age'' \<mapsto> JInt (reAuthValidity div Second)]),
            set_header ''Content-Type'' ''application/json'' s))"

section \<open>Keys of the login limiter\<close>

definition loginIPRateKey :: "env \<Rightarrow> http_request \<Rightarrow> string" where
  "loginIPRateKey e r = ''ip:'' @ clientIP e r"

definition loginRateKey :: "env \<Rightarrow> http_request \<Rightarrow> string \<Rightarrow> string" where
  "loginRateKey e r username =
     (if username = [] then loginIPRateKey e r
      else loginIPRateKey e r @ ''/user:'' @ to_lower (e_lib e) username)"

definition credentialLoginRateKeys :: "env \<Rightarrow> http_request \<Rightarrow> string \<Rightarrow> string list" where
  "credentialLoginRateKeys e r username =
     (let ipKey = loginIPRateKey e r; userKey = loginRateKey e r username
      in if userKey = ipKey then [ipKey] else [ipKey, userKey])"

definition login_allow :: "env \<Rightarrow> string \<Rightarrow> st \<Rightarrow> (bool \<times> duration) \<times> st" where
  "login_allow e key s = (case allow (e_now e) key (st_login s) of (r, l) \<Rightarrow> (r, s\<lparr>st_login := l\<rparr>))"

definition login_failure :: "env \<Rightarrow> string \<Rightarrow> st \<Rightarrow> st" where
  "login_failure e key s = s\<lparr>st_login := recordFailure (e_now e) key (st_login s)\<rparr>"

definition login_success :: "string \<Rightarrow> st \<Rightarrow> st" where
  "login_success key s = s\<lparr>st_login := recordSuccess key (st_login s)\<rparr>"

fun allow_keys :: "env \<Rightarrow> string list \<Rightarrow> st \<Rightarrow> (bool \<times> duration) \<times> st" where
  "allow_keys e [] s = ((True, 0), s)"
| "allow_keys e (key # keys) s =
     (case login_allow e key s of
        ((ok, retry), s1) \<Rightarrow> if \<not> ok then ((False, retry), s1) else allow_keys e keys s1)"

definition allowCredentialLoginAttempt :: "env \<Rightarrow> http_request \<Rightarrow> string \<Rightarrow> st \<Rightarrow> (bool \<times> duration) \<times> st" where
  "allowCredentialLoginAttempt e r username s = allow_keys e (credentialLoginRateKeys e r username) s"

definition recordCredentialLoginFailure :: "env \<Rightarrow> http_request \<Rightarrow> string \<Rightarrow> st \<Rightarrow> st" where
  "recordCredentialLoginFailure e r username s =
     fold (login_failure e) (credentialLoginRateKeys e r username) s"

definition recordCredentialLoginSuccess :: "env \<Rightarrow> http_request \<Rightarrow> string \<Rightarrow> st \<Rightarrow> st" where
  "recordCredentialLoginSuccess e r username s = login_success (loginRateKey e r username) s"

section \<open>Second factor\<close>

definition needsTOTP :: "env \<Rightarrow> StoredUser \<Rightarrow> bool" where
  "needsTOTP e user = (cf_MFA_TOTPRequired (e_cfg e) \<or> u_TOTPSecretBase32 user \<noteq> [])"

section \<open>Frames of the session operations\<close>

text \<open>The operations on sessions change the session bucket, draw random bytes and set cookies.\<close>

definition session_frame :: "st \<Rightarrow> st \<Rightarrow> bool" where
  "session_frame s s' \<longleftrightarrow>
     s' = s\<lparr>st_db := (st_db s)\<lparr>db_sessions := db_sessions (st_db s')\<rparr>, st_drawn := st_drawn s',
             w_cookies := w_cookies s'\<rparr>"

lemma session_frame_refl [simp]: "session_frame s s"
  by (simp add: session_frame_def)

lemma session_frame_ex:
  "session_frame s s' \<longleftrightarrow>
     (\<exists>b n c. s' = s\<lparr>st_db := (st_db s)\<lparr>db_sessions := b\<rparr>, st_drawn := n, w_cookies := c\<rparr>)"
proof
  assume "session_frame s s'"
  then show "\<exists>b n c. s' = s\<lparr>st_db := (st_db s)\<lparr>db_sessions := b\<rparr>, st_drawn := n, w_cookies := c\<rparr>"
    unfolding session_frame_def by blast
qed (auto simp: session_frame_def)

lemma session_frame_trans: "session_frame s s1 \<Longrightarrow> session_frame s1 s2 \<Longrightarrow> session_frame s s2"
  by (auto simp: session_frame_ex) blast

lemma session_frame_put: "on_db (PutSession k sess) s = (x, s') \<Longrightarrow> session_frame s s'"
  by (auto simp: session_frame_def on_db_eq PutSession_def db_update_def putJSON_def split: if_splits)

lemma session_frame_delete: "on_db (DeleteSession k) s = (x, s') \<Longrightarrow> session_frame s s'"
  by (auto simp: session_frame_def on_db_eq DeleteSession_def db_update_def split: if_splits)

lemma session_frame_csrf: "on_db (EnsureSessionCSRF k y) s = (x, s') \<Longrightarrow> session_frame s s'"
  by (auto simp: session_frame_def on_db_eq EnsureSessionCSRF_def db_update_def putJSON_def Let_def
      split: if_splits sum.splits option.splits)

lemma session_frame_random: "randomB64 e n s = (x, s') \<Longrightarrow> session_frame s s'"
  by (auto simp: session_frame_def randomB64_def)

lemma session_frame_cookie: "session_frame s s' \<Longrightarrow> session_frame s (SetCookie c s')"
  by (auto simp: session_frame_ex SetCookie_def) blast

lemma load_session_frame: "load_session e sid s = (x, s') \<Longrightarrow> session_frame s s'"
  by (auto simp: load_session_def split: sum.splits option.splits prod.splits if_splits
      intro: session_frame_delete [OF surjective_pairing] session_frame_trans
      dest!: session_frame_random session_frame_csrf)

lemma validSession_frame: "validSession e r s = (x, s') \<Longrightarrow> session_frame s s'"
  by (auto simp: validSession_def split: option.splits dest: load_session_frame)

lemma maybeExtendSession_frame:
  assumes "maybeExtendSession e r s = (x, s')"
  shows "session_frame s s'"
proof (cases "session_id r")
  case (Some sid)
  obtain o1 s1 where l: "load_session e sid s = (o1, s1)" by fastforce
  note f1 = load_session_frame [OF l]
  have "session_frame s s2" if "on_db (PutSession sid sess) s1 = (y, s2)" for sess y s2
    using session_frame_trans [OF f1 session_frame_put [OF that]] .
  then show ?thesis
    using assms Some l f1
    by (cases o1) (auto simp: maybeExtendSession_def Let_def split: sum.splits prod.splits if_splits
        intro: session_frame_cookie)
qed (use assms in \<open>simp add: maybeExtendSession_def\<close>)

lemma session_frameD:
  assumes "session_frame s s'"
  shows "st_clients s' = st_clients s" "st_login s' = st_login s" "st_token s' = st_token s"
    "st_preAuth s' = st_preAuth s" "st_audit s' = st_audit s" "db_open (st_db s') = db_open (st_db s)"
    "db_authCodes (st_db s') = db_authCodes (st_db s)" "db_authRequests (st_db s') = db_authRequests (st_db s)"
    "db_consents (st_db s') = db_consents (st_db s)" "db_users (st_db s') = db_users (st_db s)"
    "db_refreshTokens (st_db s') = db_refreshTokens (st_db s)"
    "db_consumedRefreshTokens (st_db s') = db_consumedRefreshTokens (st_db s)"
    "db_revokedJTIs (st_db s') = db_revokedJTIs (st_db s)" "st_appTokens s' = st_appTokens s"
  using assms by (auto simp: session_frame_ex)

section \<open>What the operations keep of a session\<close>

text \<open>
  A property of a session that does not depend on its sliding expiry, its CSRF token and its
  last re-authentication is kept by everything that happens to the session.
\<close>

abbreviation session_at :: "st \<Rightarrow> string \<Rightarrow> Session cell option" where
  "session_at s sid \<equiv> bget sid (db_sessions (st_db s))"

locale session_property =
  fixes P :: "Session \<Rightarrow> bool"
  assumes expiry: "P sess \<Longrightarrow> P (sess\<lparr>s_ExpiresAt := t\<rparr>)"
    and csrf: "P sess \<Longrightarrow> P (sess\<lparr>s_CSRFToken := x\<rparr>)"
    and reauth: "P sess \<Longrightarrow> P (sess\<lparr>s_ReAuthAt := t\<rparr>)"
begin

definition holds :: "string \<Rightarrow> st \<Rightarrow> bool" where
  "holds sid s = (\<forall>sess. session_at s sid = Some (Json sess) \<longrightarrow> P sess)"

lemma holds_put:
  "on_db (PutSession k sess) s = (x, s') \<Longrightarrow> holds sid s \<Longrightarrow> (k = sid \<Longrightarrow> P sess) \<Longrightarrow> holds sid s'"
  by (auto simp: holds_def on_db_eq PutSession_def db_update_def putJSON_def bget_bput split: if_splits)

lemma holds_delete: "on_db (DeleteSession k) s = (x, s') \<Longrightarrow> holds sid s \<Longrightarrow> holds sid s'"
  by (auto simp: holds_def on_db_eq DeleteSession_def db_update_def bget_bdel split: if_splits)

lemma holds_cookie [simp]: "holds sid (SetCookie c s) = holds sid s"
  by (simp add: holds_def)

lemma holds_csrf:
  "on_db (EnsureSessionCSRF k x) s = (y, s') \<Longrightarrow> holds sid s \<Longrightarrow> holds sid s'"
  using csrf
  by (auto simp: holds_def on_db_eq EnsureSessionCSRF_def db_update_def putJSON_def getJSON_def bget_bput Let_def
      split: option.splits cell.splits if_splits)

lemma load_P:
  assumes "holds sid s" and "load_session e sid s = (Some sess, s')"
  shows "P sess"
proof -
  from assms(2) obtain old where o: "session_at s sid = Some (Json old)"
    and "sess = old \<or> (\<exists>x. sess = old\<lparr>s_CSRFToken := x\<rparr>)"
    by (auto simp: load_session_def GetSession_def db_view_def getJSON_def on_db_def randomB64_def
        EnsureSessionCSRF_def db_update_def putJSON_def Let_def
        split: sum.splits option.splits cell.splits if_splits prod.splits)
  then show ?thesis using assms(1) csrf by (auto simp: holds_def)
qed

lemma holds_random: "randomB64 e n s = (x, s') \<Longrightarrow> holds sid s \<Longrightarrow> holds sid s'"
  by (auto simp: holds_def randomB64_def)

lemma holds_load: "load_session e k s = (x, s') \<Longrightarrow> holds sid s \<Longrightarrow> holds sid s'"
  by (auto simp: load_session_def split: sum.splits option.splits prod.splits if_splits
      dest: holds_csrf holds_random intro: holds_delete [OF surjective_pairing])

lemma holds_valid: "holds sid s \<Longrightarrow> holds sid (snd (validSession e r s))"
  by (auto simp: validSession_def intro: holds_load [OF surjective_pairing] split: option.splits)

lemma holds_extend:
  assumes "holds sid s"
  shows "holds sid (snd (maybeExtendSession e r s))"
proof (cases "session_id r")
  case (Some k)
  obtain o1 s1 where l: "load_session e k s = (o1, s1)" by fastforce
  have h1: "holds sid s1" using holds_load [OF l assms] .
  have put: "holds sid s2" if "o1 = Some sess"
    "on_db (PutSession k (sess\<lparr>s_ExpiresAt := x\<rparr>)) s1 = (y, s2)" for sess x y s2
  proof (rule holds_put [OF that(2) h1])
    assume "k = sid"
    with l that assms show "P (sess\<lparr>s_ExpiresAt := x\<rparr>)" by (auto intro!: expiry intro: load_P)
  qed
  show ?thesis
  proof (cases o1)
    case (Some sess)
    then show ?thesis
      using \<open>session_id r = Some k\<close> l h1 put [OF Some]
      by (simp add: maybeExtendSession_def Let_def split: sum.split prod.split)
  qed (use l h1 Some in \<open>simp add: maybeExtendSession_def\<close>)
qed (simp add: maybeExtendSession_def assms)

lemma holds_reauth:
  assumes "holds sid s"
  shows "holds sid (snd (markSessionReAuth e r s))"
proof -
  have "holds sid s'"
    if "GetSession k (st_db s) = Inr (Some sess)"
      "on_db (PutSession k (sess\<lparr>s_ReAuthAt := e_now e\<rparr>)) s = (x, s')" for k sess x s'
    using assms that
    by (intro holds_put [OF that(2)] reauth) (auto simp: holds_def GetSession_def db_view_Inr getJSON_Inr)
  then show ?thesis
    using assms by (auto simp: markSessionReAuth_def split: option.splits sum.splits prod.splits)
qed

lemma holds_clear: "holds sid s \<Longrightarrow> holds sid (snd (clearSession e r s))"
  by (auto simp: clearSession_def dest: holds_delete split: option.splits sum.splits prod.splits)

lemma holds_create:
  assumes "holds sid s" and "fst (randomB64 e 32 s) \<noteq> sid"
  shows "holds sid (snd (createSession e u f amr s))"
proof -
  obtain k s1 c s2 where k: "randomB64 e 32 s = (k, s1)" and c: "randomB64 e 32 s1 = (c, s2)" by fastforce
  have h2: "holds sid s2" using holds_random [OF c holds_random [OF k assms(1)]] .
  have "holds sid s3" if "on_db (PutSession k sess) s2 = (x, s3)" for sess x s3
    using assms(2) k by (intro holds_put [OF that h2]) auto
  then show ?thesis
    by (auto simp: createSession_def k c Let_def split: sum.splits prod.splits)
qed

lemma holds_sweep: "holds sid s \<Longrightarrow> holds sid (sweepExpired t s)"
  by (auto simp: holds_def sweepExpired_def SweepExpired_def db_update_def sweepBucketTx_def
      delete_where_def bk.get_fold_del Let_def on_db_def split: sum.splits option.splits if_splits)

end

section \<open>The life of a session\<close>

text \<open>
  What can happen to the sessions between two requests of a browser: every operation on sessions,
  for any request and at any time.  A new session gets a random identifier; that it is not the
  one of the session in question is a premise.
\<close>

inductive session_step :: "env \<Rightarrow> string \<Rightarrow> st \<Rightarrow> st \<Rightarrow> bool" for e sid where
  valid: "session_step e sid s (snd (validSession (e\<lparr>e_now := t\<rparr>) r s))"
| extend: "session_step e sid s (snd (maybeExtendSession (e\<lparr>e_now := t\<rparr>) r s))"
| reauth: "session_step e sid s (snd (markSessionReAuth (e\<lparr>e_now := t\<rparr>) r s))"
| clear: "session_step e sid s (snd (clearSession e r s))"
| sweep: "session_step e sid s (sweepExpired t s)"
| create: "fst (randomB64 e 32 s) \<noteq> sid \<Longrightarrow>
    session_step e sid s (snd (createSession (e\<lparr>e_now := t\<rparr>) u f amr s))"

definition born :: "string \<Rightarrow> time \<Rightarrow> time \<Rightarrow> string list \<Rightarrow> Session \<Rightarrow> bool" where
  "born u t0 cap amr sess =
     (s_UserID sess = u \<and> s_AuthTime sess = t0 \<and> s_AbsoluteExpiresAt sess = cap \<and> s_AMR sess = amr)"

interpretation life: session_property "born u t0 cap amr" for u t0 cap amr
  by unfold_locales (auto simp: born_def)

lemma randomB64_now [simp]: "fst (randomB64 (e\<lparr>e_now := t\<rparr>) n s) = fst (randomB64 e n s)"
  by (simp add: randomB64_def)

lemma life_steps:
  assumes "(session_step e sid)\<^sup>*\<^sup>* s s'" and "life.holds u t0 cap amr sid s"
  shows "life.holds u t0 cap amr sid s'"
  using assms
proof (induction rule: rtranclp_induct)
  case (step s1 s2)
  from step.hyps(2) step.IH [OF step.prems] show ?case
    by (induction rule: session_step.induct)
      (auto intro: life.holds_valid life.holds_extend life.holds_reauth life.holds_clear
        life.holds_sweep life.holds_create)
qed

lemma createSession_put:
  assumes "createSession e u f amr s = (Inr sess, s')"
  shows "session_at s' (fst (randomB64 e 32 s)) = Some (Json sess)"
    and "s_UserID sess = u" and "s_AuthTime sess = e_now e" and "s_AMR sess = amr"
    and "s_AbsoluteExpiresAt sess = (if cf_SessionAbsoluteTTLHrs (e_cfg e) > 0
           then e_now e + dur (cf_SessionAbsoluteTTLHrs (e_cfg e)) Hour else zero_time)"
proof -
  obtain k s1 c s2 where k: "randomB64 e 32 s = (k, s1)" and c: "randomB64 e 32 s1 = (c, s2)" by fastforce
  from assms obtain s3 u3 where p: "on_db (PutSession k sess) s2 = (Inr u3, s3)"
    and s': "s' = SetCookie (session_cookie e k (Some (s_ExpiresAt sess)) 0) s3"
    by (auto simp: createSession_def k c Let_def split: sum.splits prod.splits)
  show "session_at s' (fst (randomB64 e 32 s)) = Some (Json sess)"
    using p by (auto simp: s' k on_db_eq db_simps bget_bput)
  show "s_UserID sess = u" "s_AuthTime sess = e_now e" "s_AMR sess = amr"
    "s_AbsoluteExpiresAt sess = (if cf_SessionAbsoluteTTLHrs (e_cfg e) > 0
           then e_now e + dur (cf_SessionAbsoluteTTLHrs (e_cfg e)) Hour else zero_time)"
    using assms by (auto simp: createSession_def k c Let_def zero_Session_def split: sum.splits prod.splits)
qed

lemma load_session_Some:
  assumes "load_session e sid s = (Some sess, s')"
  shows "s_ExpiresAt sess \<ge> e_now e" and "IsZero (s_AbsoluteExpiresAt sess) \<or> e_now e \<le> s_AbsoluteExpiresAt sess"
  using assms
  by (auto simp: load_session_def GetSession_def db_view_def getJSON_def on_db_def randomB64_def
      EnsureSessionCSRF_def db_update_def putJSON_def session_expired_def Let_def
      split: sum.splits option.splits cell.splits if_splits prod.splits)

text \<open>
  C25. A session ends and keeps its identity: whatever requests, extensions, re-authentications,
  logouts, sweeps and new sessions follow its creation, the session is refused once the absolute
  lifetime has passed, and as long as it is accepted it names the user, the authentication time
  and the methods it was created with.
\<close>

theorem session_absolute_lifetime:
  assumes "createSession e u f amr s0 = (Inr sess0, s1)" and "sid = fst (randomB64 e 32 s0)"
    and "cf_SessionAbsoluteTTLHrs (e_cfg e) > 0"
    and "cap = e_now e + dur (cf_SessionAbsoluteTTLHrs (e_cfg e)) Hour" and "\<not> IsZero cap"
    and "(session_step e sid)\<^sup>*\<^sup>* s1 s2" and "session_id r = Some sid"
  shows "(t > cap \<longrightarrow> fst (validSession (e\<lparr>e_now := t\<rparr>) r s2) = None) \<and>
         (\<forall>sess. fst (validSession (e\<lparr>e_now := t\<rparr>) r s2) = Some sess \<longrightarrow>
            s_UserID sess = u \<and> s_AuthTime sess = e_now e \<and> s_AMR sess = amr)"
proof -
  note c = createSession_put [OF assms(1)]
  have "born u (e_now e) cap amr sess0" using c assms(3,4) by (simp add: born_def)
  then have "life.holds u (e_now e) cap amr sid s1"
    using c(1) assms(2) by (simp add: life.holds_def)
  then have h: "life.holds u (e_now e) cap amr sid s2" by (rule life_steps [OF assms(6)])
  obtain o2 s3 where l: "load_session (e\<lparr>e_now := t\<rparr>) sid s2 = (o2, s3)" by fastforce
  have "born u (e_now e) cap amr sess \<and> t \<le> cap" if "o2 = Some sess" for sess
    using life.load_P [OF h, of "e\<lparr>e_now := t\<rparr>"] load_session_Some(2) [of "e\<lparr>e_now := t\<rparr>" sid s2 sess s3]
      l that assms(5) by (auto simp: born_def)
  then show ?thesis
    using l assms(7) by (cases o2) (auto simp: validSession_def born_def)
qed

definition demo_session_request :: http_request where
  "demo_session_request = demo_request\<lparr>r_Cookie := [sessionCookieName \<mapsto> base64RawURL [0, 32]]\<rparr>"

lemma demo_session_id: "session_id demo_session_request = Some (base64RawURL [0, 32])"
  by (simp add: session_id_def demo_session_request_def sessionCookieName_def)

lemma demo_create:
  "\<exists>sess s1. createSession demo_env ''alice'' True [''pwd''] demo_st = (Inr sess, s1)"
  by (simp add: createSession_def randomB64_def on_db_def PutSession_def db_update_def putJSON_def
      empty_Store_def Let_def)

theorem session_absolute_lifetime_witness:
  "fst (validSession (demo_env\<lparr>e_now := 10 ^ 18\<rparr>) demo_session_request
     (snd (createSession demo_env ''alice'' True [''pwd''] demo_st))) = None"
proof -
  obtain sess s1 where c: "createSession demo_env ''alice'' True [''pwd''] demo_st = (Inr sess, s1)"
    using demo_create by blast
  have d: "dur 24 Hour = 24 * Hour" by (rule dur_exact) simp_all
  have r: "base64RawURL [0, 32] = fst (randomB64 demo_env 32 demo_st)" by (simp add: randomB64_def)
  have "10 ^ 18 > 1000 * Second + dur 24 Hour" using d by simp
  then show ?thesis
    using session_absolute_lifetime [OF c r _ refl, of s1 demo_session_request "10 ^ 18"] demo_session_id d c
    by (simp add: demo_cfg_def IsZero_def zero_time_def)
qed

text \<open>
  A login that succeeds clears the failures of its own user only: the bucket of the address
  keeps them, so one valid account cannot reset the count of a caller that tries many; and every
  failed login counts against the address as well as against the user.
\<close>

theorem login_buckets:
  assumes "u \<noteq> []" and "to_lower (e_lib e) u \<noteq> []"
  shows "l_entries (st_login (recordCredentialLoginSuccess e r u s)) (loginIPRateKey e r) =
           l_entries (st_login s) (loginIPRateKey e r) \<and>
         l_entries (st_login (recordCredentialLoginSuccess e r u s)) (loginRateKey e r u) = None \<and>
         st_login (recordCredentialLoginFailure e r u s) =
           recordFailure (e_now e) (loginRateKey e r u)
             (recordFailure (e_now e) (loginIPRateKey e r) (st_login s)) \<and>
         loginRateKey e r u \<noteq> loginIPRateKey e r"
proof -
  have k: "loginRateKey e r u \<noteq> loginIPRateKey e r" "loginRateKey e r u \<noteq> []"
    using assms by (simp_all add: loginRateKey_def loginIPRateKey_def)
  then show ?thesis
    by (simp add: recordCredentialLoginSuccess_def login_success_def recordSuccess_def
        recordCredentialLoginFailure_def credentialLoginRateKeys_def login_failure_def Let_def)
qed

theorem login_buckets_witness:
  "l_entries (st_login (recordCredentialLoginSuccess demo_env demo_request ''bob'' demo_st))
     (loginIPRateKey demo_env demo_request) = None"
  using login_buckets [of "''bob''" demo_env demo_request demo_st]
  by (simp add: to_lower_def ToLower_def is_ascii_def demo_limiter_def newLoginRateLimiter_def)

end
