(* ===== verification/Contracts.thy ===== *)
theory Contracts
  imports Store
begin

text \<open>
  What the store promises its callers: single-use entries under any interleaving with other
  transactions, the rotation and revocation of refresh tokens, the sweep, the staging of TOTP
  secrets and the consent records.
\<close>

section \<open>Single-use entries\<close>

text \<open>
  A schedule of transactions on one state: redemptions of a key, interleaved with arbitrary
  other transactions (\<open>Other f\<close>).  bbolt runs write transactions one at a time, so a
  schedule is a list.
\<close>

datatype 's sched = Redeem string | Other "'s \<Rightarrow> 's"

fun consume_run ::
  "(string \<Rightarrow> 's \<Rightarrow> ('e + 'v option) \<times> 's) \<Rightarrow> 's sched list \<Rightarrow> 's \<Rightarrow>
     (string \<times> ('e + 'v option)) list \<times> 's" where
  "consume_run op [] s = ([], s)"
| "consume_run op (Redeem k # ops) s =
     (let (r, s') = op k s; (rs, s'') = consume_run op ops s' in ((k, r) # rs, s''))"
| "consume_run op (Other f # ops) s = consume_run op ops (f s)"

definition successes :: "string \<Rightarrow> (string \<times> ('e + 'v option)) list \<Rightarrow> nat" where
  "successes k rs = length (filter (\<lambda>(k', r). k' = k \<and> (\<exists>v. r = Inr (Some v))) rs)"

text \<open>A transaction that does not write the key anew.\<close>

definition no_reissue :: "('s \<Rightarrow> string \<Rightarrow> 'v cell option) \<Rightarrow> string \<Rightarrow> 's sched \<Rightarrow> bool" where
  "no_reissue look k op =
     (case op of Redeem _ \<Rightarrow> True | Other f \<Rightarrow> \<forall>s. look s k = None \<longrightarrow> look (f s) k = None)"

locale one_time =
  fixes op :: "string \<Rightarrow> 's \<Rightarrow> ('e + 'v option) \<times> 's"
    and look :: "'s \<Rightarrow> string \<Rightarrow> 'v cell option"
  assumes op_Some: "op k s = (Inr (Some v), s') \<Longrightarrow>
      look s k = Some (Json v) \<and> look s' = (look s)(k := None)"
    and op_None: "op k s = (Inr None, s') \<Longrightarrow> s' = s"
    and op_Inl: "op k s = (Inl e, s') \<Longrightarrow> s' = s"
begin

lemma op_absent_other: "op k' s = (r, s') \<Longrightarrow> look s k = None \<Longrightarrow> look s' k = None"
proof (cases r)
  case (Inr x)
  then show "op k' s = (r, s') \<Longrightarrow> look s k = None \<Longrightarrow> look s' k = None"
    by (cases x) (auto dest: op_Some op_None)
qed (auto dest: op_Inl)

lemma run_after_use:
  "look s k = None \<Longrightarrow> \<forall>x \<in> set ops. no_reissue look k x \<Longrightarrow>
     successes k (fst (consume_run op ops s)) = 0"
proof (induction ops arbitrary: s)
  case (Cons x ops)
  show ?case
  proof (cases x)
    case (Redeem k')
    obtain r s' where r: "op k' s = (r, s')" by fastforce
    have "look s' k = None" using op_absent_other [OF r Cons.prems(1)] .
    moreover have "\<not> (k' = k \<and> (\<exists>v. r = Inr (Some v)))"
      using op_Some r Cons.prems(1) by fastforce
    ultimately show ?thesis
      using Cons Redeem r by (simp add: successes_def split_beta Let_def)
  next
    case (Other f)
    with Cons show ?thesis by (simp add: no_reissue_def)
  qed
qed (simp add: successes_def)

lemma at_most_once:
  "\<forall>x \<in> set ops. no_reissue look k x \<Longrightarrow> successes k (fst (consume_run op ops s)) \<le> 1"
proof (induction ops arbitrary: s)
  case (Cons x ops)
  show ?case
  proof (cases x)
    case (Redeem k')
    obtain r s' where r: "op k' s = (r, s')" by fastforce
    show ?thesis
    proof (cases "k' = k \<and> (\<exists>v. r = Inr (Some v))")
      case True
      then have "look s' k = None" using op_Some r by fastforce
      then have "successes k (fst (consume_run op ops s')) = 0"
        using Cons.prems by (intro run_after_use) auto
      then show ?thesis
        using Redeem r True by (simp add: successes_def split_beta Let_def)
    next
      case False
      with Cons Redeem r show ?thesis by (auto simp: successes_def split_beta Let_def)
    qed
  next
    case (Other f)
    with Cons show ?thesis by simp
  qed
qed (simp add: successes_def)

end

text \<open>Codes, authorization requests and both kinds of WebAuthn challenge are single-use entries.\<close>

abbreviation code_at :: "Store \<Rightarrow> string \<Rightarrow> AuthCode cell option" where
  "code_at s k \<equiv> bget k (db_authCodes s)"

abbreviation request_at :: "Store \<Rightarrow> string \<Rightarrow> AuthorizationRequest cell option" where
  "request_at s k \<equiv> bget k (db_authRequests s)"

abbreviation reg_challenge_at :: "Store \<Rightarrow> string \<Rightarrow> ChallengeRecord cell option" where
  "reg_challenge_at s k \<equiv> bget k (db_webauthnReg s)"

abbreviation log_challenge_at :: "Store \<Rightarrow> string \<Rightarrow> ChallengeRecord cell option" where
  "log_challenge_at s k \<equiv> bget k (db_webauthnLog s)"

interpretation once_code: one_time ConsumeAuthCode code_at
  by unfold_locales
    (auto simp: ConsumeAuthCode_def consume_Inr_Some consume_Inr_None fun_eq_iff bget_bdel
      dest: consume_Inl)

interpretation once_request: one_time ConsumeAuthRequest request_at
  by unfold_locales
    (auto simp: ConsumeAuthRequest_def consume_Inr_Some consume_Inr_None fun_eq_iff bget_bdel
      dest: consume_Inl)

interpretation once_reg: one_time ConsumeWebAuthnRegistration reg_challenge_at
  by unfold_locales
    (auto simp: ConsumeWebAuthnRegistration_def consume_Inr_Some consume_Inr_None fun_eq_iff
      bget_bdel dest: consume_Inl)

interpretation once_log: one_time ConsumeWebAuthnLogin log_challenge_at
  by unfold_locales
    (auto simp: ConsumeWebAuthnLogin_def consume_Inr_Some consume_Inr_None fun_eq_iff
      bget_bdel dest: consume_Inl)

section \<open>Properties of single use and of the grants\<close>

text \<open>
  A key that is redeemed and then written back with the value it had leaves the request
  bucket unchanged: what a failed login does to the request it consumed.
\<close>

lemma request_restore:
  assumes "store_ok s" and "ConsumeAuthRequest rid s = (Inr (Some ar), s1)"
    and "ar_ID ar = rid" and "PutAuthRequest ar s1 = (Inr u, s2)"
  shows "s2 = s"
proof -
  have "bput rid ar (bdel rid (db_authRequests s)) = db_authRequests s"
    using assms(1,2) by (intro bk.put_del_restore) (auto simp: store_ok_def db_simps)
  with assms(2,3,4) show ?thesis by (auto simp: db_simps)
qed

lemma rotate_bget:
  assumes "RotateRefreshToken oldKey newKey nxt consumed s = (Inr True, s')"
  shows "bget k (db_refreshTokens s') =
      (if k = newKey then Some (Json nxt) else if k = oldKey then None
       else bget k (db_refreshTokens s))"
    and "bget k (db_consumedRefreshTokens s') =
      (if k = oldKey then Some (Json consumed) else bget k (db_consumedRefreshTokens s))"
  using assms by (auto simp: db_simps bget_bput bget_bdel)

lemma revoke_family_bget:
  assumes "store_ok s" and "RevokeRefreshTokenFamily f s = (Inr u, s')" and "f \<noteq> []"
  shows "bget k (db_refreshTokens s') =
    (case bget k (db_refreshTokens s) of
       Some (Json rt) \<Rightarrow> if rt_FamilyID rt = f then None else Some (Json rt) | c \<Rightarrow> c)"
proof -
  from RevokeRefreshTokenFamily_Inr [OF assms(2,3)] obtain es
    where "decode_all (db_refreshTokens s) = Some es"
      and "s' = s\<lparr>db_refreshTokens :=
        delete_where (\<lambda>rt. rt_FamilyID rt = f) es (db_refreshTokens s)\<rparr>" by blast
  with assms(1) show ?thesis by (simp add: store_ok_def bget_delete_where)
qed

section \<open>Walks that skip or stop at undecodable values\<close>

lemma decode_some_mem: "(k, v) \<in> set (decode_some b) \<longleftrightarrow> (k, Json v) \<in> set b"
  by (induction b rule: decode_some.induct) auto

lemma decode_all_some: "decode_all b = Some es \<Longrightarrow> es = decode_some b"
  by (induction b arbitrary: es rule: decode_some.induct) auto

lemma bget_delete_some:
  assumes "bucket_ok b"
  shows "bget k (delete_where P (decode_some b) b) =
    (case bget k b of Some (Json v) \<Rightarrow> if P v then None else Some (Json v) | c \<Rightarrow> c)"
proof -
  have mem: "k \<in> set (map fst (filter (\<lambda>(_, v). P v) (decode_some b))) \<longleftrightarrow>
      (\<exists>v. bget k b = Some (Json v) \<and> P v)"
    by (force simp: decode_some_mem bget_in_set [OF assms])
  show ?thesis
    unfolding delete_where_def bk.get_fold_del mem by (auto split: option.splits cell.splits)
qed

abbreviation hit :: "('v \<Rightarrow> bool) \<Rightarrow> 'v cell \<Rightarrow> bool" where
  "hit P c \<equiv> (case c of Json v \<Rightarrow> P v | Malformed \<Rightarrow> False)"

lemma filter_bucket_ok: "bucket_ok b \<Longrightarrow> bucket_ok (filter f b)"
  unfolding bucket_ok_def by (induction b) auto

lemma option_filter:
  assumes "\<And>c. X = Some c \<longleftrightarrow> Y = Some c \<and> \<not> Q c"
  shows "X = (case Y of None \<Rightarrow> None | Some c \<Rightarrow> if Q c then None else Some c)"
proof (cases Y)
  case None
  then show ?thesis using assms by (cases X) auto
next
  case (Some y)
  have "X = Some y \<longleftrightarrow> \<not> Q y" and "X = Some c \<Longrightarrow> c = y" for c
    using assms [of y] assms [of c] Some by auto
  then show ?thesis using Some by (cases X) auto
qed

lemma delete_where_filter:
  assumes "bucket_ok b"
  shows "delete_where P (decode_some b) b = filter (\<lambda>e. \<not> hit P (snd e)) b"
proof (rule bucket_ext)
  fix k
  have "bget k (filter (\<lambda>e. \<not> hit P (snd e)) b) = Some c \<longleftrightarrow> bget k b = Some c \<and> \<not> hit P c" for c
    by (simp add: bget_in_set filter_bucket_ok assms)
  then have "bget k (filter (\<lambda>e. \<not> hit P (snd e)) b) =
      (case bget k b of None \<Rightarrow> None | Some c \<Rightarrow> if hit P c then None else Some c)"
    by (rule option_filter)
  also have "\<dots> = (case bget k b of Some (Json v) \<Rightarrow> if P v then None else Some (Json v) | c \<Rightarrow> c)"
    by (auto split: option.split cell.split)
  finally show "bget k (delete_where P (decode_some b) b) = bget k (filter (\<lambda>e. \<not> hit P (snd e)) b)"
    by (simp add: bget_delete_some [OF assms])
qed (simp_all add: assms bucket_ok_delete_where filter_bucket_ok)

lemma hits_decode_some: "length (filter (\<lambda>(_, v). P v) (decode_some b)) = length (filter (\<lambda>e. hit P (snd e)) b)"
  by (induction b rule: decode_some.induct) auto

lemma sweepBucketTx_exact:
  assumes "bucket_ok b" and "sweepBucketTx f now b = Inr (n, b')"
  shows "b' = filter (\<lambda>e. \<not> hit (\<lambda>v. f v < now) (snd e)) b" and "n + length b' = length b"
proof -
  from assms(2) obtain es where es: "decode_all b = Some es"
    and n: "n = length (filter (\<lambda>(_, v). f v < now) es)"
    and b': "b' = delete_where (\<lambda>v. f v < now) es b"
    by (auto simp: sweepBucketTx_def split: option.splits)
  note es' = decode_all_some [OF es]
  show b: "b' = filter (\<lambda>e. \<not> hit (\<lambda>v. f v < now) (snd e)) b"
    using b' es' delete_where_filter [OF assms(1)] by simp
  have "n = length (filter (\<lambda>e. hit (\<lambda>v. f v < now) (snd e)) b)"
    using n es' hits_decode_some by simp
  then show "n + length b' = length b"
    using sum_length_filter_compl [of "\<lambda>e. hit (\<lambda>v. f v < now) (snd e)" b] by (simp add: b)
qed

section \<open>Properties\<close>

text \<open>
  C6. An authorization code is redeemed at most once: in any sequence of transactions, however
  the redemptions of the code are interleaved with other transactions, at most one redemption
  gets the code's record, as long as no other transaction writes the same key again.
\<close>

theorem auth_code_single_use:
  assumes "\<forall>x \<in> set ops. no_reissue code_at key x"
  shows "successes key (fst (consume_run ConsumeAuthCode ops s)) \<le> 1"
  using assms by (rule once_code.at_most_once)

abbreviation demo_code :: AuthCode where
  "demo_code \<equiv> \<lparr>ac_UserID = ''alice'', ac_ClientID = ''web'', ac_RedirectURI = ''https://a/cb'',
     ac_Scope = ''openid'', ac_Nonce = [], ac_CodeChallenge = [], ac_CodeChallengeMethod = [],
     ac_AuthTime = 0, ac_ExpiresAt = 60, ac_AMR = []\<rparr>"

theorem auth_code_single_use_witness:
  "successes ''k'' (fst (consume_run ConsumeAuthCode [Redeem ''k'', Other Close, Redeem ''k'']
      (snd (PutAuthCode ''k'' demo_code empty_Store)))) \<le> 1"
  using auth_code_single_use [of "[Redeem ''k'', Other Close, Redeem ''k'']" "''k''"
      "snd (PutAuthCode ''k'' demo_code empty_Store)"]
  by (simp add: no_reissue_def Close_def)

text \<open>
  Rotation of a refresh token: it succeeds only if the presented token is active, and then
  the token is gone, the next token is active, a tombstone of the old one is left, every other
  token and tombstone is untouched, and a second rotation of the same token, as a racing request
  makes it, reports failure and changes nothing.
\<close>

theorem rotation_contract:
  assumes "RotateRefreshToken old new nxt tomb s = (Inr True, s1)" and "new \<noteq> old"
  shows "bget old (db_refreshTokens s) \<noteq> None \<and> bget old (db_refreshTokens s1) = None \<and>
         bget new (db_refreshTokens s1) = Some (Json nxt) \<and>
         bget old (db_consumedRefreshTokens s1) = Some (Json tomb) \<and>
         (\<forall>k. k \<noteq> old \<and> k \<noteq> new \<longrightarrow> bget k (db_refreshTokens s1) = bget k (db_refreshTokens s)) \<and>
         (\<forall>k. k \<noteq> old \<longrightarrow>
            bget k (db_consumedRefreshTokens s1) = bget k (db_consumedRefreshTokens s)) \<and>
         (\<forall>new2 nxt2 tomb2. RotateRefreshToken old new2 nxt2 tomb2 s1 = (Inr False, s1))"
proof -
  note b = rotate_bget [OF assms(1)]
  have pre: "bget old (db_refreshTokens s) \<noteq> None" and "db_open s1"
    using assms(1) by (auto simp: db_simps)
  moreover have "bget old (db_refreshTokens s1) = None" using b(1) [of old] assms(2) by simp
  ultimately have "\<forall>new2 nxt2 tomb2. RotateRefreshToken old new2 nxt2 tomb2 s1 = (Inr False, s1)"
    by (simp add: RotateRefreshToken_def db_update_def)
  then show ?thesis using pre b assms(2) by simp
qed

abbreviation demo_refresh :: "string \<Rightarrow> RefreshToken" where
  "demo_refresh f \<equiv> \<lparr>rt_UserID = ''alice'', rt_ClientID = ''web'', rt_Scope = ''openid offline_access'',
     rt_AuthTime = 0, rt_ExpiresAt = 100, rt_AMR = [], rt_FamilyID = f, rt_Generation = 0\<rparr>"

abbreviation demo_tomb :: ConsumedRefreshToken where
  "demo_tomb \<equiv> \<lparr>crt_UserID = ''alice'', crt_ClientID = ''web'', crt_FamilyID = ''f'', crt_ExpiresAt = 100\<rparr>"

theorem rotation_contract_witness:
  "\<exists>s1. RotateRefreshToken ''a'' ''b'' (demo_refresh ''f'') demo_tomb
           (empty_Store\<lparr>db_refreshTokens := [(''a'', Json (demo_refresh ''f''))]\<rparr>) = (Inr True, s1) \<and>
        bget ''a'' (db_refreshTokens s1) = None \<and>
        RotateRefreshToken ''a'' ''c'' (demo_refresh ''f'') demo_tomb s1 = (Inr False, s1)"
proof -
  let ?s = "empty_Store\<lparr>db_refreshTokens := [(''a'', Json (demo_refresh ''f''))]\<rparr>"
  let ?s1 = "?s\<lparr>db_refreshTokens := [(''b'', Json (demo_refresh ''f''))],
               db_consumedRefreshTokens := [(''a'', Json demo_tomb)]\<rparr>"
  have r: "RotateRefreshToken ''a'' ''b'' (demo_refresh ''f'') demo_tomb ?s = (Inr True, ?s1)"
    by (simp add: RotateRefreshToken_def db_update_def putJSON_def bget_def bdel_def empty_Store_def)
  show ?thesis
    using rotation_contract [OF r] by (intro exI [of _ ?s1] conjI r) simp_all
qed

text \<open>
  Revoking a family removes exactly the active tokens of that family: a token stays active if
  and only if it belongs to another family, and no other bucket changes.
\<close>

theorem family_revocation_exact:
  assumes "store_ok s" and "f \<noteq> []" and "RevokeRefreshTokenFamily f s = (Inr u, s')"
  shows "(bget k (db_refreshTokens s') = Some (Json rt) \<longleftrightarrow>
            bget k (db_refreshTokens s) = Some (Json rt) \<and> rt_FamilyID rt \<noteq> f) \<and>
         s' = s\<lparr>db_refreshTokens := db_refreshTokens s'\<rparr>"
proof -
  have "s' = s\<lparr>db_refreshTokens := db_refreshTokens s'\<rparr>"
    using RevokeRefreshTokenFamily_Inr [OF assms(3,2)] by auto
  moreover have "bget k (db_refreshTokens s') = Some (Json rt) \<longleftrightarrow>
      bget k (db_refreshTokens s) = Some (Json rt) \<and> rt_FamilyID rt \<noteq> f"
    using revoke_family_bget [OF assms(1,3,2), of k]
    by (auto split: option.splits cell.splits if_splits)
  ultimately show ?thesis by blast
qed

theorem family_revocation_exact_witness:
  "bget ''b'' (db_refreshTokens (snd (RevokeRefreshTokenFamily ''f''
      (empty_Store\<lparr>db_refreshTokens :=
         [(''a'', Json (demo_refresh ''f'')), (''b'', Json (demo_refresh ''g''))]\<rparr>)))) =
     Some (Json (demo_refresh ''g''))"
proof -
  let ?s = "empty_Store\<lparr>db_refreshTokens :=
         [(''a'', Json (demo_refresh ''f'')), (''b'', Json (demo_refresh ''g''))]\<rparr>"
  have r: "RevokeRefreshTokenFamily ''f'' ?s = (Inr (), snd (RevokeRefreshTokenFamily ''f'' ?s))"
    by (simp add: RevokeRefreshTokenFamily_def db_update_def empty_Store_def)
  have ok: "store_ok ?s" by (simp add: store_ok_def bucket_ok_def empty_Store_def)
  show ?thesis
    using family_revocation_exact [OF ok _ r, of "''b''" "demo_refresh ''g''"]
    by (simp add: bget_def)
qed

abbreviation sweeps :: "('v \<Rightarrow> time) \<Rightarrow> time \<Rightarrow> 'v bucket \<Rightarrow> 'v bucket" where
  "sweeps f now b \<equiv> filter (\<lambda>e. \<not> hit (\<lambda>v. f v < now) (snd e)) b"

definition entries :: "Store \<Rightarrow> nat" where
  "entries s = length (db_sessions s) + length (db_authRequests s) + length (db_authCodes s) +
     length (db_refreshTokens s) + length (db_consumedRefreshTokens s) +
     length (db_revokedJTIs s) + length (db_webauthnReg s) + length (db_webauthnLog s)"

text \<open>
  The sweep removes exactly the expired entries of the eight buckets that expire, keeps users,
  keys, clients, app tokens and consents, and reports the number of entries it removed.
\<close>

theorem sweep_exact:
  assumes "store_ok s" and "SweepExpired now s = (Inr n, s')"
  shows "s' = s\<lparr>db_sessions := sweeps s_ExpiresAt now (db_sessions s),
                 db_authRequests := sweeps ar_ExpiresAt now (db_authRequests s),
                 db_authCodes := sweeps ac_ExpiresAt now (db_authCodes s),
                 db_refreshTokens := sweeps rt_ExpiresAt now (db_refreshTokens s),
                 db_consumedRefreshTokens := sweeps crt_ExpiresAt now (db_consumedRefreshTokens s),
                 db_revokedJTIs := sweeps (\<lambda>t. t) now (db_revokedJTIs s),
                 db_webauthnReg := sweeps ch_ExpiresAt now (db_webauthnReg s),
                 db_webauthnLog := sweeps ch_ExpiresAt now (db_webauthnLog s)\<rparr> \<and>
         n + entries s' = entries s"
proof -
  from assms(2) obtain n1 b1 n2 b2 n3 b3 n4 b4 n5 b5 n6 b6 n7 b7 n8 b8 where
    w: "sweepBucketTx s_ExpiresAt now (db_sessions s) = Inr (n1, b1)"
      "sweepBucketTx ar_ExpiresAt now (db_authRequests s) = Inr (n2, b2)"
      "sweepBucketTx ac_ExpiresAt now (db_authCodes s) = Inr (n3, b3)"
      "sweepBucketTx rt_ExpiresAt now (db_refreshTokens s) = Inr (n4, b4)"
      "sweepBucketTx crt_ExpiresAt now (db_consumedRefreshTokens s) = Inr (n5, b5)"
      "sweepBucketTx (\<lambda>t. t) now (db_revokedJTIs s) = Inr (n6, b6)"
      "sweepBucketTx ch_ExpiresAt now (db_webauthnReg s) = Inr (n7, b7)"
      "sweepBucketTx ch_ExpiresAt now (db_webauthnLog s) = Inr (n8, b8)"
    and n: "n = n1 + n2 + n3 + n4 + n5 + n6 + n7 + n8"
    and s': "s' = s\<lparr>db_sessions := b1, db_authRequests := b2, db_authCodes := b3,
       db_refreshTokens := b4, db_consumedRefreshTokens := b5, db_revokedJTIs := b6,
       db_webauthnReg := b7, db_webauthnLog := b8\<rparr>"
    unfolding SweepExpired_def db_update_Inr by (auto split: sum.splits)
  have ok: "bucket_ok (db_sessions s)" "bucket_ok (db_authRequests s)" "bucket_ok (db_authCodes s)"
    "bucket_ok (db_refreshTokens s)" "bucket_ok (db_consumedRefreshTokens s)"
    "bucket_ok (db_revokedJTIs s)" "bucket_ok (db_webauthnReg s)" "bucket_ok (db_webauthnLog s)"
    using assms(1) by (simp_all add: store_ok_def)
  note ex = sweepBucketTx_exact [OF ok(1) w(1)] sweepBucketTx_exact [OF ok(2) w(2)]
    sweepBucketTx_exact [OF ok(3) w(3)] sweepBucketTx_exact [OF ok(4) w(4)]
    sweepBucketTx_exact [OF ok(5) w(5)] sweepBucketTx_exact [OF ok(6) w(6)]
    sweepBucketTx_exact [OF ok(7) w(7)] sweepBucketTx_exact [OF ok(8) w(8)]
  have "n + entries s' = entries s"
    using ex(2,4,6,8,10,12,14,16) by (simp add: entries_def n s')
  moreover note ex(1,3,5,7,9,11,13,15)
  ultimately show ?thesis unfolding s' by (simp only: simp_thms)
qed

theorem sweep_exact_witness:
  "\<exists>s'. SweepExpired 50 (empty_Store\<lparr>db_revokedJTIs := [(''a'', Json 10), (''b'', Json 50)]\<rparr>) = (Inr 1, s') \<and>
        db_revokedJTIs s' = [(''b'', Json 50)] \<and> 1 + entries s' = 2"
proof -
  let ?s = "empty_Store\<lparr>db_revokedJTIs := [(''a'', Json 10), (''b'', Json 50)]\<rparr>"
  have ok: "store_ok ?s" by (simp add: store_ok_def bucket_ok_def empty_Store_def)
  have r: "SweepExpired 50 ?s = (Inr 1, ?s\<lparr>db_revokedJTIs := [(''b'', Json 50)]\<rparr>)"
    by (simp add: SweepExpired_def sweepBucketTx_def db_update_def empty_Store_def delete_where_def bdel_def)
  show ?thesis
    using sweep_exact [OF ok r] r by (intro exI conjI) (auto simp: entries_def empty_Store_def)
qed

text \<open>
  Deleting a client's consents removes exactly the records that name the client; records of
  other clients and values that do not decode stay, and nothing else changes.
\<close>

theorem consent_deletion_exact:
  assumes "store_ok s" and "DeleteConsentsForClient cid s = (Inr u, s')"
  shows "(bget k (db_consents s') = Some c \<longleftrightarrow>
            bget k (db_consents s) = Some c \<and> (\<forall>rec. c = Json rec \<longrightarrow> cr_ClientID rec \<noteq> cid)) \<and>
         s' = s\<lparr>db_consents := db_consents s'\<rparr>"
proof -
  have s': "s' = s\<lparr>db_consents := delete_where (\<lambda>rec. cr_ClientID rec = cid)
      (decode_some (db_consents s)) (db_consents s)\<rparr>"
    using assms(2) by (simp add: DeleteConsentsForClient_def db_update_Inr)
  have "bucket_ok (db_consents s)" using assms(1) by (simp add: store_ok_def)
  then show ?thesis
    unfolding s' by (auto simp: bget_delete_some split: option.splits cell.splits if_splits)
qed

abbreviation demo_consent :: "string \<Rightarrow> string \<Rightarrow> ConsentRecord" where
  "demo_consent u c \<equiv> \<lparr>cr_UserID = u, cr_ClientID = c, cr_Scopes = [''openid''], cr_GrantedAt = 1\<rparr>"

theorem consent_deletion_exact_witness:
  "bget ''u|b'' (db_consents (snd (DeleteConsentsForClient ''a''
      (empty_Store\<lparr>db_consents := [(''u|a'', Json (demo_consent ''u'' ''a'')),
                                   (''u|b'', Json (demo_consent ''u'' ''b''))]\<rparr>)))) =
     Some (Json (demo_consent ''u'' ''b''))"
proof -
  let ?s = "empty_Store\<lparr>db_consents := [(''u|a'', Json (demo_consent ''u'' ''a'')),
                                       (''u|b'', Json (demo_consent ''u'' ''b''))]\<rparr>"
  have r: "DeleteConsentsForClient ''a'' ?s = (Inr (), snd (DeleteConsentsForClient ''a'' ?s))"
    by (simp add: DeleteConsentsForClient_def db_update_def empty_Store_def)
  have ok: "store_ok ?s" by (simp add: store_ok_def bucket_ok_def empty_Store_def)
  show ?thesis
    using consent_deletion_exact [OF ok r, of "''u|b''" "Json (demo_consent ''u'' ''b'')"]
    by (simp add: bget_def)
qed

text \<open>A separator that one part does not contain can be split off again.\<close>

lemma append_sep_inject:
  "c \<notin> set a \<Longrightarrow> c \<notin> set a' \<Longrightarrow> a @ c # b = a' @ c # b' \<longleftrightarrow> a = a' \<and> b = b'"
proof (induction a arbitrary: a')
  case Nil
  then show ?case by (cases a') auto
next
  case (Cons x a)
  then show ?case by (cases a') auto
qed

text \<open>
  The key of a consent record identifies its user and client as long as user names have no
  bar; with a bar the key is ambiguous: a consent given by user \<open>a\<close> to client \<open>b|c\<close> is read
  back as the consent of user \<open>a|b\<close> to client \<open>c\<close>, and \<^verbatim>\<open>GetConsent\<close> does not compare the
  identifiers in the record.
\<close>

theorem consent_key_scope:
  "(CHR ''|'' \<notin> set u \<and> CHR ''|'' \<notin> set u' \<longrightarrow>
      (consentKey u c = consentKey u' c' \<longleftrightarrow> u = u' \<and> c = c')) \<and>
   (PutConsent (demo_consent ''a'' ''b|c'') empty_Store = (Inr (), s1) \<longrightarrow>
      GetConsent ''a|b'' ''c'' s1 = Inr (Some (demo_consent ''a'' ''b|c'')))"
proof
  show "CHR ''|'' \<notin> set u \<and> CHR ''|'' \<notin> set u' \<longrightarrow>
      (consentKey u c = consentKey u' c' \<longleftrightarrow> u = u' \<and> c = c')"
    by (simp add: consentKey_def append_sep_inject)
  show "PutConsent (demo_consent ''a'' ''b|c'') empty_Store = (Inr (), s1) \<longrightarrow>
      GetConsent ''a|b'' ''c'' s1 = Inr (Some (demo_consent ''a'' ''b|c''))"
    by (auto simp: PutConsent_def db_update_Inr putJSON_def consentKey_def GetConsent_def db_view_def empty_Store_def getJSON_def bget_def)
qed

theorem consent_key_scope_witness:
  "GetConsent ''a|b'' ''c'' (snd (PutConsent (demo_consent ''a'' ''b|c'') empty_Store)) =
     Inr (Some (demo_consent ''a'' ''b|c''))"
proof -
  have r: "PutConsent (demo_consent ''a'' ''b|c'') empty_Store =
     (Inr (), snd (PutConsent (demo_consent ''a'' ''b|c'') empty_Store))"
    by (simp add: PutConsent_def db_update_def putJSON_def consentKey_def empty_Store_def)
  show ?thesis using consent_key_scope [of "[]" "[]" "[]" "[]"] r by blast
qed

abbreviation user_at :: "Store \<Rightarrow> string \<Rightarrow> StoredUser cell option" where
  "user_at s n \<equiv> bget n (db_users s)"

text \<open>
  Enrolling a second factor is staged: a pending secret leaves the active one in force, a
  commit makes exactly the pending secret active and clears the stage, a commit with nothing
  staged fails and changes nothing, and cancelling restores the user to what it was before.
\<close>

theorem totp_staging:
  assumes "store_ok s" and "user_at s n = Some (Json u)" and "u_PendingTOTPSecretBase32 u = []"
    and "SetPendingTOTP n x s = (Inr a, s1)" and "x \<noteq> []"
  shows "user_at s1 n = Some (Json (u\<lparr>u_PendingTOTPSecretBase32 := x\<rparr>)) \<and>
         (\<exists>s2. CommitPendingTOTP n s1 = (Inr (), s2) \<and>
               user_at s2 n = Some (Json (u\<lparr>u_TOTPSecretBase32 := x\<rparr>)) \<and>
               CommitPendingTOTP n s2 = (Inl NoPendingTOTPSecret, s2)) \<and>
         ClearPendingTOTP n s1 = (Inr (), s)"
proof -
  have k: "db_open s" "n \<noteq> []" "length n \<le> 32768"
    and s1: "s1 = s\<lparr>db_users := bput n (u\<lparr>u_PendingTOTPSecretBase32 := x\<rparr>) (db_users s)\<rparr>"
    using assms(2,4) by (auto simp: SetPendingTOTP_def db_update_Inr getUserTx_def getJSON_def
        put_user_def putJSON_Inr user_or_new_def split: sum.splits)
  have u: "u\<lparr>u_PendingTOTPSecretBase32 := []\<rparr> = u"
    "u\<lparr>u_TOTPSecretBase32 := x, u_PendingTOTPSecretBase32 := []\<rparr> = u\<lparr>u_TOTPSecretBase32 := x\<rparr>"
    using assms(3) by (cases u, simp)+
  have undo: "bput n u (bput n (u\<lparr>u_PendingTOTPSecretBase32 := x\<rparr>) (db_users s)) = db_users s"
    using assms(1,2) by (intro bucket_ext) (auto simp: store_ok_def bucket_ok_bput bget_bput)
  show ?thesis
    using assms(3,5) k undo
    by (simp add: u s1 bget_bput CommitPendingTOTP_def ClearPendingTOTP_def db_update_def
        getUserTx_def getJSON_def put_user_def putJSON_def)
qed

abbreviation demo_user :: StoredUser where
  "demo_user \<equiv> (new_StoredUser ''alice'')\<lparr>u_TOTPSecretBase32 := ''OLD''\<rparr>"

theorem totp_staging_witness:
  "ClearPendingTOTP ''alice'' (snd (SetPendingTOTP ''alice'' ''NEW''
      (empty_Store\<lparr>db_users := [(''alice'', Json demo_user)]\<rparr>))) =
     (Inr (), empty_Store\<lparr>db_users := [(''alice'', Json demo_user)]\<rparr>)"
proof -
  let ?s = "empty_Store\<lparr>db_users := [(''alice'', Json demo_user)]\<rparr>"
  have r: "SetPendingTOTP ''alice'' ''NEW'' ?s = (Inr (), snd (SetPendingTOTP ''alice'' ''NEW'' ?s))"
    by (simp add: SetPendingTOTP_def db_update_def getUserTx_def getJSON_def bget_def put_user_def putJSON_def empty_Store_def)
  have ok: "store_ok ?s" by (simp add: store_ok_def bucket_ok_def empty_Store_def)
  show ?thesis
    using totp_staging [OF ok _ _ r, of demo_user] by (simp add: bget_def new_StoredUser_def)
qed

end
