(* ===== verification/Consent.thy ===== *)
theory Consent
  imports Sessions Contracts
begin

text \<open>
  From an authenticated session to an authorization code: the consent gate and the consent page
  (\<^verbatim>\<open>consent.go\<close>), the code redirect (\<^verbatim>\<open>issueCodeRedirect\<close> of \<^verbatim>\<open>handlers_session.go\<close>), and the
  redirect of an OAuth error and the limiter of unauthenticated writes (\<^verbatim>\<open>handlers_oauth.go\<close>).
\<close>

section \<open>Redirects\<close>

definition redirectOAuthError :: "env \<Rightarrow> string \<Rightarrow> string \<Rightarrow> string \<Rightarrow> string \<Rightarrow> response" where
  "redirectOAuthError e redirectURI state errCode desc =
     (case g_url_query (e_lib e) redirectURI
             ([(''error'', errCode)] @ (if desc = [] then [] else [(''error_description'', desc)]) @
              (if state = [] then [] else [(''state'', state)])) of
        None \<Rightarrow> http_Error errCode 400
      | Some u \<Rightarrow> http_Redirect u)"

definition code_for :: "env \<Rightarrow> AuthorizationRequest \<Rightarrow> Session \<Rightarrow> AuthCode" where
  "code_for e ar sess =
     \<lparr>ac_UserID = s_UserID sess, ac_ClientID = ar_ClientID ar, ac_RedirectURI = ar_RedirectURI ar,
      ac_Scope = ar_Scope ar, ac_Nonce = ar_Nonce ar, ac_CodeChallenge = ar_CodeChallenge ar,
      ac_CodeChallengeMethod = ar_CodeChallengeMethod ar, ac_AuthTime = s_AuthTime sess,
      ac_ExpiresAt = e_now e + dur (cf_AuthCodeTTLSeconds (e_cfg e)) Second, ac_AMR = s_AMR sess\<rparr>"

text \<open>
  The error of \<^verbatim>\<open>url.Parse\<close> is ignored, and the query of the nil URL is then read: the handler
  panics, after the code was stored.
\<close>

definition issueCodeRedirect ::
  "env \<Rightarrow> AuthorizationRequest \<Rightarrow> Session \<Rightarrow> st \<Rightarrow> (store_error + response) \<times> st" where
  "issueCodeRedirect e ar sess s =
     (case randomB64 e 32 s of (acode, s1) \<Rightarrow>
        (case on_db (PutAuthCode (hash_secret e acode) (code_for e ar sess)) s1 of
           (Inl err, s2) \<Rightarrow> (Inl err, s2)
         | (Inr _, s2) \<Rightarrow>
             (case g_url_query (e_lib e) (ar_RedirectURI ar)
                     ([(''code'', acode)] @ (if ar_State ar = [] then [] else [(''state'', ar_State ar)])) of
                None \<Rightarrow> (Inr Panic, s2)
              | Some u \<Rightarrow> (Inr (http_Redirect u), s2))))"

section \<open>Scopes of a consent\<close>

definition requestedScopeList :: "string \<Rightarrow> string list" where
  "requestedScopeList scope = sort (dedup (Fields scope))"

definition consentCovers :: "ConsentRecord \<Rightarrow> string list \<Rightarrow> bool" where
  "consentCovers rec want = (\<forall>s \<in> set want. s \<in> set (cr_Scopes rec))"

definition mergeScopeSets :: "string list \<Rightarrow> string list \<Rightarrow> string list" where
  "mergeScopeSets a b = sort (dedup (a @ b))"

section \<open>Limits on stored requests\<close>

definition preauth_check :: "env \<Rightarrow> string \<Rightarrow> st \<Rightarrow> response option \<times> st" where
  "preauth_check e key s =
     (case allowAndRecord (e_now e) (e_now e) key (st_preAuth s) of
        ((allowed, retry), l) \<Rightarrow>
          let s1 = s\<lparr>st_preAuth := l\<rparr> in
          if \<not> allowed then (Some (http_Error ''too many requests; try again later'' 429), writeRetryAfter retry s1)
          else (None, s1))"

definition allowPreAuthWrite :: "env \<Rightarrow> http_request \<Rightarrow> string \<Rightarrow> st \<Rightarrow> response option \<times> st" where
  "allowPreAuthWrite e r scope s = preauth_check e (''preauth:'' @ scope @ ''/ip:'' @ clientIP e r) s"

definition allowConsentWrite :: "env \<Rightarrow> http_request \<Rightarrow> Session \<Rightarrow> st \<Rightarrow> response option \<times> st" where
  "allowConsentWrite e r sess s =
     preauth_check e (''consent/ip:'' @ clientIP e r @ ''/sub:'' @ s_UserID sess) s"

section \<open>The consent gate\<close>

definition consentRequestExpiry :: duration where
  "consentRequestExpiry = 5 * Minute"

definition proceedAfterAuthn ::
  "env \<Rightarrow> http_request \<Rightarrow> AuthorizationRequest \<Rightarrow> Session \<Rightarrow> st \<Rightarrow> (store_error + response) \<times> st" where
  "proceedAfterAuthn e r ar sess s =
     (case lookupClient e s (ar_ClientID ar) of
        None \<Rightarrow> (Inr (http_Error ''unknown client_id'' 400), s)
      | Some client \<Rightarrow>
          if \<not> c_RequireConsent client then issueCodeRedirect e ar sess s
          else case GetConsent (s_UserID sess) (c_ClientID client) (st_db s) of
              Inl err \<Rightarrow> (Inl err, s)
            | Inr rec \<Rightarrow>
                if (case rec of None \<Rightarrow> False | Some cr \<Rightarrow> consentCovers cr (requestedScopeList (ar_Scope ar)))
                then issueCodeRedirect e ar sess s
                else case allowConsentWrite e r sess s of
                    (Some resp, s1) \<Rightarrow> (Inr resp, s1)
                  | (None, s1) \<Rightarrow>
                      let ar1 = ar\<lparr>ar_ExpiresAt := e_now e + consentRequestExpiry\<rparr> in
                      (case on_db (PutAuthRequest ar1) s1 of
                         (Inl err, s2) \<Rightarrow> (Inl err, s2)
                       | (Inr _, s2) \<Rightarrow>
                           (Inr (http_Redirect (''/consent?request_id='' @ QueryEscape (ar_ID ar))), s2)))"

text \<open>What the callers do with the error: a plain 500.\<close>

definition or_store_error :: "(store_error + response) \<times> st \<Rightarrow> response \<times> st" where
  "or_store_error x =
     (case x of (Inl _, s) \<Rightarrow> (http_Error ''store error'' 500, s) | (Inr resp, s) \<Rightarrow> (resp, s))"

section \<open>The consent page\<close>

definition json_strings :: "string list \<Rightarrow> json" where
  "json_strings xs = JArr (map JStr xs)"

definition handleConsentGet :: "env \<Rightarrow> http_request \<Rightarrow> st \<Rightarrow> response \<times> st" where
  "handleConsentGet e r s =
     (case validSession e r s of
        (None, s1) \<Rightarrow> (http_Redirect ''/login'', s1)
      | (Some sess, s1) \<Rightarrow>
          let rid = TrimSpace (r_Query r ''request_id'') in
          if rid = [] then (http_Error ''missing request_id'' 400, s1)
          else case GetAuthRequest rid (st_db s1) of
              Inl _ \<Rightarrow> (http_Error ''store error'' 500, s1)
            | Inr None \<Rightarrow> (http_Error ''consent request expired'' 400, s1)
            | Inr (Some ar) \<Rightarrow>
                if e_now e > ar_ExpiresAt ar then (http_Error ''consent request expired'' 400, s1)
                else case lookupClient e s1 (ar_ClientID ar) of
                    None \<Rightarrow> (http_Error ''unknown client_id'' 400, s1)
                  | Some client \<Rightarrow>
                      (Resp 200 (Page ''consent''
                         [(''DisplayName'', JStr (cf_DisplayName (e_cfg e))),
                          (''ClientID'', JStr (c_ClientID client)), (''RequestID'', JStr (ar_ID ar)),
                          (''Scopes'', json_strings (requestedScopeList (ar_Scope ar))),
                          (''UserID'', JStr (s_UserID sess)), (''CSRFToken'', JStr (s_CSRFToken sess))]),
                       set_header ''Content-Type'' ''text/html; charset=utf-8'' s1))"

definition handleConsentPost :: "env \<Rightarrow> http_request \<Rightarrow> st \<Rightarrow> response \<times> st" where
  "handleConsentPost e r s =
     (case validSession e r s of
        (None, s1) \<Rightarrow> (http_Error ''not authenticated'' 401, s1)
      | (Some sess, s1) \<Rightarrow>
          let form = form_get r maxLoginBodyBytes in
          if \<not> form_ok r maxLoginBodyBytes then (http_Error ''bad form'' 400, s1)
          else if \<not> verifySessionCSRF r form sess then (http_Error ''invalid csrf token'' 403, s1)
          else let rid = TrimSpace (form ''request_id'') in
          if rid = [] then (http_Error ''missing request_id'' 400, s1)
          else case on_db (ConsumeAuthRequest rid) s1 of
              (Inl _, s2) \<Rightarrow> (http_Error ''store error'' 500, s2)
            | (Inr None, s2) \<Rightarrow> (http_Error ''consent request expired'' 400, s2)
            | (Inr (Some ar), s2) \<Rightarrow>
                if e_now e > ar_ExpiresAt ar then (http_Error ''consent request expired'' 400, s2)
                else if form ''decision'' \<noteq> ''approve'' then
                  (redirectOAuthError e (ar_RedirectURI ar) (ar_State ar) ''access_denied'' ''user denied consent'',
                   audit_fail e r ''consent''
                     [(''user_id'', Str (s_UserID sess)), (''client_id'', Str (ar_ClientID ar)),
                      (''reason'', Str ''denied'')] s2)
                else
                  let scopes = requestedScopeList (ar_Scope ar);
                      merged = (case GetConsent (s_UserID sess) (ar_ClientID ar) (st_db s2) of
                                  Inr (Some existing) \<Rightarrow> mergeScopeSets (cr_Scopes existing) scopes
                                | _ \<Rightarrow> scopes);
                      consent = \<lparr>cr_UserID = s_UserID sess, cr_ClientID = ar_ClientID ar,
                                 cr_Scopes = merged, cr_GrantedAt = e_now e\<rparr>
                  in (case on_db (PutConsent consent) s2 of
                        (Inl _, s3) \<Rightarrow> (http_Error ''store error'' 500, s3)
                      | (Inr _, s3) \<Rightarrow>
                          or_store_error (issueCodeRedirect e ar sess
                            (audit_ok e r ''consent''
                               [(''user_id'', Str (s_UserID sess)), (''client_id'', Str (ar_ClientID ar)),
                                (''scope'', Str (Join scopes '' ''))] s3))))"

section \<open>Facts\<close>

lemma issueCodeRedirect_db:
  assumes "issueCodeRedirect e ar sess s = (x, s')"
  shows "st_db s' = st_db s \<and> (\<exists>err. x = Inl err) \<or>
    st_db s' = (st_db s)\<lparr>db_authCodes :=
       bput (hash_secret e (fst (randomB64 e 32 s))) (code_for e ar sess) (db_authCodes (st_db s))\<rparr>"
proof -
  obtain acode s1 where r: "randomB64 e 32 s = (acode, s1)" by fastforce
  have s1: "st_db s1 = st_db s" using effects_db(3) [of e 32 s] r by simp
  show ?thesis
    using assms
    by (auto simp: issueCodeRedirect_def r on_db_eq db_simps s1 PutAuthCode_def dest!: db_update_Inl
        split: sum.splits prod.splits option.splits)
      (auto simp: db_update_Inr putJSON_Inr)
qed

lemma preauth_check_frame:
  "preauth_check e k s = (x, s') \<Longrightarrow> st_db s' = st_db s \<and> st_clients s' = st_clients s"
  by (auto simp: preauth_check_def Let_def split: prod.splits if_splits)

lemma requestedScopeList_set [simp]: "set (requestedScopeList scope) = set (Fields scope)"
  by (simp add: requestedScopeList_def)

lemma mergeScopeSets_set [simp]: "set (mergeScopeSets a b) = set a \<union> set b"
  by (simp add: mergeScopeSets_def)

lemma proceedAfterAuthn_code:
  assumes "proceedAfterAuthn e r ar sess s = (x, s')"
    and "db_authCodes (st_db s') \<noteq> db_authCodes (st_db s)"
  shows "\<exists>client. lookupClient e s (ar_ClientID ar) = Some client \<and>
           (c_RequireConsent client \<longrightarrow>
              (\<exists>rec. GetConsent (s_UserID sess) (c_ClientID client) (st_db s) = Inr (Some rec) \<and>
                     set (Fields (ar_Scope ar)) \<subseteq> set (cr_Scopes rec))) \<and>
           st_db s' = (st_db s)\<lparr>db_authCodes :=
             bput (hash_secret e (fst (randomB64 e 32 s))) (code_for e ar sess) (db_authCodes (st_db s))\<rparr>"
proof -
  from assms(2) have ne: "st_db s' \<noteq> st_db s" by auto
  from assms obtain client where c: "lookupClient e s (ar_ClientID ar) = Some client"
    by (auto simp: proceedAfterAuthn_def split: option.splits)
  have "issueCodeRedirect e ar sess s = (x, s') \<and> (c_RequireConsent client \<longrightarrow>
      (\<exists>rec. GetConsent (s_UserID sess) (c_ClientID client) (st_db s) = Inr (Some rec) \<and>
             consentCovers rec (requestedScopeList (ar_Scope ar))))"
  proof (cases "c_RequireConsent client")
    case False
    then show ?thesis using assms(1) c by (simp add: proceedAfterAuthn_def)
  next
    case True
    with assms(1) c ne obtain rec where g: "GetConsent (s_UserID sess) (c_ClientID client) (st_db s) = Inr rec"
      by (auto simp: proceedAfterAuthn_def split: sum.splits)
    show ?thesis
    proof (cases "case rec of None \<Rightarrow> False | Some cr \<Rightarrow> consentCovers cr (requestedScopeList (ar_Scope ar))")
      case True
      then show ?thesis
        using assms(1) c g \<open>c_RequireConsent client\<close> by (auto simp: proceedAfterAuthn_def split: option.splits)
    next
      case False
      obtain o1 s1 where a: "allowConsentWrite e r sess s = (o1, s1)" by fastforce
      then have s1: "st_db s1 = st_db s" using preauth_check_frame by (auto simp: allowConsentWrite_def)
      have "db_authCodes (snd (PutAuthRequest y d)) = db_authCodes d" for y d
        by (auto simp: PutAuthRequest_def db_update_def putJSON_def)
      then have "db_authCodes (st_db s') = db_authCodes (st_db s)"
        using assms(1) c g False \<open>c_RequireConsent client\<close> a s1
        by (auto simp: proceedAfterAuthn_def Let_def on_db_def split: option.splits sum.splits prod.splits)
          (metis snd_conv)+
      with assms(2) show ?thesis by simp
    qed
  qed
  then show ?thesis
    using c issueCodeRedirect_db [of e ar sess s x s'] ne by (auto simp: consentCovers_def)
qed

section \<open>Properties\<close>

text \<open>
  C27. The consent gate: after authentication an authorization code is stored only for a client
  that still exists, and, if the client requires consent, only when the user's recorded consent
  covers every scope of the request.  The code is stored under the hash of a fresh random value
  and is bound to the request's client, redirect URI, scope and PKCE challenge and to the user
  of the session; no other code changes.
\<close>

theorem consent_gate:
  assumes "proceedAfterAuthn e r ar sess s = (x, s')"
    and "db_authCodes (st_db s') \<noteq> db_authCodes (st_db s)"
  shows "\<exists>client. lookupClient e s (ar_ClientID ar) = Some client \<and>
           (c_RequireConsent client \<longrightarrow>
              (\<exists>rec. GetConsent (s_UserID sess) (c_ClientID client) (st_db s) = Inr (Some rec) \<and>
                     set (Fields (ar_Scope ar)) \<subseteq> set (cr_Scopes rec))) \<and>
           st_db s' = (st_db s)\<lparr>db_authCodes :=
             bput (hash_secret e (fst (randomB64 e 32 s))) (code_for e ar sess) (db_authCodes (st_db s))\<rparr>"
  using assms by (rule proceedAfterAuthn_code)

abbreviation demo_ar :: AuthorizationRequest where
  "demo_ar \<equiv> \<lparr>ar_ID = ''rid'', ar_ClientID = ''web'', ar_RedirectURI = ''https://a/cb'', ar_Scope = ''openid'',
     ar_State = ''st'', ar_Nonce = [], ar_CodeChallenge = ''ch'', ar_CodeChallengeMethod = ''S256'',
     ar_CreatedAt = 0, ar_ExpiresAt = 2000 * Second\<rparr>"

abbreviation demo_session :: Session where
  "demo_session \<equiv> zero_Session\<lparr>s_UserID := ''alice'', s_ExpiresAt := 5000 * Second, s_CSRFToken := ''tok''\<rparr>"

theorem consent_gate_witness:
  "\<exists>x s'. proceedAfterAuthn demo_env demo_request demo_ar demo_session demo_st = (x, s') \<and>
     db_authCodes (st_db s') \<noteq> [] \<and> (\<exists>client. lookupClient demo_env demo_st ''web'' = Some client)"
proof -
  obtain x s' where p: "proceedAfterAuthn demo_env demo_request demo_ar demo_session demo_st = (x, s')"
    by fastforce
  have h: "hash_secret demo_env (base64RawURL [0, 32]) \<noteq> []"
    "length (hash_secret demo_env (base64RawURL [0, 32])) \<le> 32768"
    by (simp_all add: hash_secret_def hashSecret_def bytes_of_def)
  have ne: "db_authCodes (st_db s') \<noteq> db_authCodes (st_db demo_st)"
    using p h by (auto simp: proceedAfterAuthn_def lookupClient_def issueCodeRedirect_def randomB64_def
        on_db_def PutAuthCode_def db_update_def putJSON_def empty_Store_def)
  show ?thesis using consent_gate [OF p ne] p ne by (auto simp: empty_Store_def)
qed

lemma PutConsent_Inr:
  "PutConsent rec d = (Inr u, d') \<longleftrightarrow>
     cr_UserID rec \<noteq> [] \<and> cr_ClientID rec \<noteq> [] \<and> db_open d \<and>
     length (consentKey (cr_UserID rec) (cr_ClientID rec)) \<le> 32768 \<and>
     d' = d\<lparr>db_consents := bput (consentKey (cr_UserID rec) (cr_ClientID rec)) rec (db_consents d)\<rparr>"
  by (auto simp: PutConsent_def db_update_Inr putJSON_Inr consentKey_def)

lemma ConsumeAuthRequest_frame:
  "on_db (ConsumeAuthRequest rid) s = (x, s') \<Longrightarrow>
     s' = s\<lparr>st_db := (st_db s)\<lparr>db_authRequests := db_authRequests (st_db s')\<rparr>\<rparr>"
  by (auto simp: on_db_eq ConsumeAuthRequest_def consume_def db_update_def
      split: sum.splits option.splits if_splits)

lemma PutConsent_Inl: "PutConsent rec d = (Inl err, d') \<Longrightarrow> d' = d"
  by (auto simp: PutConsent_def split: if_splits dest: db_update_Inl)

text \<open>
  The consent form grants only what the user approved: a code is stored only if the request has
  a valid session and its CSRF token, names a pending request that has not expired and carries
  the decision to approve; the pending request is used up, and the recorded consent afterwards
  covers the requested scopes and everything that was granted before.
\<close>

theorem consent_post_sound:
  assumes "handleConsentPost e r s = (resp, s')"
    and "db_authCodes (st_db s') \<noteq> db_authCodes (st_db s)"
    and "rid = TrimSpace (form_get r maxLoginBodyBytes ''request_id'')"
  shows "\<exists>sess ar rec.
     fst (validSession e r s) = Some sess \<and>
     verifySessionCSRF r (form_get r maxLoginBodyBytes) sess \<and>
     form_get r maxLoginBodyBytes ''decision'' = ''approve'' \<and>
     request_at (st_db s) rid = Some (Json ar) \<and> e_now e \<le> ar_ExpiresAt ar \<and>
     request_at (st_db s') rid = None \<and>
     GetConsent (s_UserID sess) (ar_ClientID ar) (st_db s') = Inr (Some rec) \<and>
     set (Fields (ar_Scope ar)) \<subseteq> set (cr_Scopes rec) \<and>
     (\<forall>old. GetConsent (s_UserID sess) (ar_ClientID ar) (st_db s) = Inr (Some old) \<longrightarrow>
        set (cr_Scopes old) \<subseteq> set (cr_Scopes rec))"
proof -
  let ?form = "form_get r maxLoginBodyBytes"
  obtain o1 s1 where v: "validSession e r s = (o1, s1)" by fastforce
  note f = session_frameD [OF validSession_frame [OF v]]
  obtain c2 s2 where c: "on_db (ConsumeAuthRequest rid) s1 = (c2, s2)" by fastforce
  have s2: "db_authCodes (st_db s2) = db_authCodes (st_db s1)" "db_consents (st_db s2) = db_consents (st_db s1)"
    "db_open (st_db s2) = db_open (st_db s1)"
    by (subst ConsumeAuthRequest_frame [OF c], simp)+
  from assms v c f s2 obtain sess ar where
    sess: "o1 = Some sess" and csrf: "verifySessionCSRF r ?form sess"
    and ar: "c2 = Inr (Some ar)" "e_now e \<le> ar_ExpiresAt ar" and dec: "?form ''decision'' = ''approve''"
    by (auto simp: handleConsentPost_def Let_def split: option.splits sum.splits if_splits)
  define rec where "rec = \<lparr>cr_UserID = s_UserID sess, cr_ClientID = ar_ClientID ar,
     cr_Scopes = (case GetConsent (s_UserID sess) (ar_ClientID ar) (st_db s2) of
        Inr (Some existing) \<Rightarrow> mergeScopeSets (cr_Scopes existing) (requestedScopeList (ar_Scope ar))
      | _ \<Rightarrow> requestedScopeList (ar_Scope ar)), cr_GrantedAt = e_now e\<rparr>"
  obtain p3 s3 where p: "on_db (PutConsent rec) s2 = (p3, s3)" by fastforce
  have p3: "\<exists>u. p3 = Inr u"
  proof (cases p3)
    case (Inl err)
    then have "st_db s3 = st_db s2" using p by (auto simp: on_db_eq dest: PutConsent_Inl)
    then have "db_authCodes (st_db s') = db_authCodes (st_db s)"
      using assms(1,3) v c sess csrf ar dec p Inl f s2
      by (auto simp: handleConsentPost_def Let_def rec_def [symmetric] split: if_splits)
    with assms(2) show ?thesis by simp
  qed simp
  have s3: "st_db s3 = (st_db s2)\<lparr>db_consents := bput (consentKey (s_UserID sess) (ar_ClientID ar)) rec (db_consents (st_db s2))\<rparr>"
    using p p3 by (auto simp: on_db_eq PutConsent_Inr rec_def)
  have req: "request_at (st_db s1) rid = Some (Json ar)" "request_at (st_db s2) rid = None" "db_open (st_db s1)"
    using c ar(1) by (auto simp: on_db_eq db_simps bget_bdel)
  let ?a = "audit_ok e r ''consent'' [(''user_id'', Str (s_UserID sess)), (''client_id'', Str (ar_ClientID ar)),
      (''scope'', Str (Join (requestedScopeList (ar_Scope ar)) '' ''))] s3"
  obtain x where i: "issueCodeRedirect e ar sess ?a = (x, s')"
    using assms(1,2,3) v c sess csrf ar dec p p3 f s2 req
    by (auto simp: handleConsentPost_def Let_def rec_def [symmetric] or_store_error_def
        split: if_splits sum.splits prod.splits)
  have d: "st_db s' = st_db s3 \<or> (\<exists>b. st_db s' = (st_db s3)\<lparr>db_authCodes := b\<rparr>)"
    using issueCodeRedirect_db [OF i] by auto
  have old: "set (cr_Scopes old) \<subseteq> set (cr_Scopes rec)"
    if "GetConsent (s_UserID sess) (ar_ClientID ar) (st_db s) = Inr (Some old)" for old
  proof -
    have "GetConsent (s_UserID sess) (ar_ClientID ar) (st_db s2) = Inr (Some old)"
      using that f s2 by (simp add: GetConsent_def db_view_def)
    then show ?thesis by (simp add: rec_def)
  qed
  have "GetConsent (s_UserID sess) (ar_ClientID ar) (st_db s') = Inr (Some rec)"
    using d s3 req(3) s2(3) by (auto simp: GetConsent_def db_view_def)
  moreover have "set (Fields (ar_Scope ar)) \<subseteq> set (cr_Scopes rec)"
    by (auto simp: rec_def split: sum.splits option.splits)
  moreover have "request_at (st_db s') rid = None" using d s3 req(2) by auto
  moreover have "request_at (st_db s) rid = Some (Json ar)" using req(1) f by simp
  ultimately show ?thesis using v sess csrf dec ar(2) old by auto
qed

definition demo_consent_db :: Store where
  "demo_consent_db = empty_Store\<lparr>db_sessions := [(''sid'', Json demo_session)],
     db_authRequests := [(''rid'', Json demo_ar)]\<rparr>"

definition demo_consent_request :: http_request where
  "demo_consent_request = demo_request\<lparr>r_Cookie := [sessionCookieName \<mapsto> ''sid''],
     r_Form := (\<lambda>_. (True, (\<lambda>_. [])(''csrf_token'' := ''tok'', ''request_id'' := ''rid'', ''decision'' := ''approve'')))\<rparr>"

lemma demo_consent_valid:
  "validSession demo_env demo_consent_request (demo_st\<lparr>st_db := demo_consent_db\<rparr>) =
     (Some demo_session, demo_st\<lparr>st_db := demo_consent_db\<rparr>)"
  by (simp add: validSession_def session_id_def demo_consent_request_def load_session_def GetSession_def
      db_view_def getJSON_def bget_def demo_consent_db_def empty_Store_def session_expired_def
      zero_Session_def IsZero_def sessionCookieName_def)

theorem consent_post_sound_witness:
  "\<exists>resp s' rec. handleConsentPost demo_env demo_consent_request (demo_st\<lparr>st_db := demo_consent_db\<rparr>) = (resp, s') \<and>
     request_at (st_db s') ''rid'' = None \<and>
     (\<exists>u c. GetConsent u c (st_db s') = Inr (Some rec))"
proof -
  let ?s = "demo_st\<lparr>st_db := demo_consent_db\<rparr>"
  obtain resp s' where h: "handleConsentPost demo_env demo_consent_request ?s = (resp, s')" by fastforce
  have t: "TrimSpace ''rid'' = ''rid''" by (rule TrimSpace_plain) simp_all
  have hs: "hash_secret demo_env (base64RawURL [0, 32]) \<noteq> []"
    "length (hash_secret demo_env (base64RawURL [0, 32])) \<le> 32768"
    by (simp_all add: hash_secret_def hashSecret_def bytes_of_def)
  have ne: "db_authCodes (st_db s') \<noteq> db_authCodes (st_db ?s)"
    using h hs unfolding handleConsentPost_def demo_consent_valid
    by (auto simp: demo_consent_request_def verifySessionCSRF_def csrfTokenMatches_def csrfFormField_def t
        on_db_def ConsumeAuthRequest_def consume_def db_update_def getJSON_def bget_def demo_consent_db_def
        empty_Store_def bdel_def GetConsent_def db_view_def PutConsent_def putJSON_def consentKey_def
        issueCodeRedirect_def randomB64_def auditEvent_def PutAuthCode_def or_store_error_def zero_Session_def
        Let_def)
  have r: "''rid'' = TrimSpace (form_get demo_consent_request maxLoginBodyBytes ''request_id'')"
    by (simp add: demo_consent_request_def t)
  show ?thesis using consent_post_sound [OF h ne r] h by blast
qed

end
