(* ===== verification/Totp.thy ===== *)
theory Totp
  imports Consent
begin

unbundle bit_operations_syntax

text \<open>
  Time-based one-time passwords (\<^verbatim>\<open>handlers_totp.go\<close>): base32 as \<^verbatim>\<open>encoding/base32\<close> does it, the
  code of a time step, the check with its window, and the two handlers that enroll a secret.
\<close>

section \<open>Base32\<close>

definition b32_char :: "nat \<Rightarrow> char" where
  "b32_char n = (if n < 26 then char_of (65 + n) else char_of (24 + n))"

definition b32_val :: "char \<Rightarrow> nat option" where
  "b32_val c =
     (if 65 \<le> code c \<and> code c \<le> 90 then Some (code c - 65)
      else if 50 \<le> code c \<and> code c \<le> 55 then Some (code c - 24) else None)"

text \<open>The eight groups of five bits of five bytes.\<close>

definition quantum_groups :: "nat \<Rightarrow> nat \<Rightarrow> nat \<Rightarrow> nat \<Rightarrow> nat \<Rightarrow> nat list" where
  "quantum_groups a b c d f =
     [a div 8, a mod 8 * 4 + b div 64, b div 2 mod 32, b mod 2 * 16 + c div 16,
      c mod 16 * 2 + d div 128, d div 4 mod 32, d mod 4 * 8 + f div 32, f mod 32]"

definition quantum_chars :: "nat \<Rightarrow> byte \<Rightarrow> byte \<Rightarrow> byte \<Rightarrow> byte \<Rightarrow> byte \<Rightarrow> string" where
  "quantum_chars n a b c d f =
     map b32_char (take n (quantum_groups (unat a) (unat b) (unat c) (unat d) (unat f)))"

text \<open>\<^verbatim>\<open>base32.StdEncoding.EncodeToString\<close>, a last group of fewer bytes padded.\<close>

fun b32_encode :: "byte list \<Rightarrow> string" where
  "b32_encode [] = []"
| "b32_encode [a] = quantum_chars 2 a 0 0 0 0 @ ''======''"
| "b32_encode [a, b] = quantum_chars 4 a b 0 0 0 @ ''====''"
| "b32_encode [a, b, c] = quantum_chars 5 a b c 0 0 @ ''===''"
| "b32_encode [a, b, c, d] = quantum_chars 7 a b c d 0 @ ''=''"
| "b32_encode (a # b # c # d # f # bs) = quantum_chars 8 a b c d f @ b32_encode bs"

text \<open>
  One group of the decoder: up to eight characters; padding may start at the third character,
  in the last eight characters of the input, and only after 2, 4, 5 or 7 characters.
\<close>

function b32_scan :: "nat list \<Rightarrow> string \<Rightarrow> (nat list \<times> bool \<times> string) option" where
  "b32_scan acc src =
     (if 8 \<le> length acc then Some (acc, False, src)
      else case src of
          [] \<Rightarrow> None
        | c # rest \<Rightarrow>
            if c = CHR ''='' \<and> 2 \<le> length acc \<and> length rest < 8 then
              (if length rest + length acc < 7 then None
               else if \<exists>x \<in> set (take (7 - length acc) rest). x \<noteq> CHR ''='' then None
               else if length acc \<in> {1, 3, 6} then None
               else Some (acc, True, rest))
            else case b32_val c of None \<Rightarrow> None | Some v \<Rightarrow> b32_scan (acc @ [v]) rest)"
  by pat_completeness auto
termination by (relation "measure (\<lambda>(acc, src). length src)") auto

declare b32_scan.simps [simp del]

text \<open>The bytes of a group, each the low eight bits of its sum.\<close>

definition b32_pack :: "nat list \<Rightarrow> nat list" where
  "b32_pack v =
     (let n = length v in
      (if 2 \<le> n then [v ! 0 * 8 + v ! 1 div 4] else []) @
      (if 4 \<le> n then [v ! 1 * 64 + v ! 2 * 2 + v ! 3 div 16] else []) @
      (if 5 \<le> n then [v ! 3 * 16 + v ! 4 div 2] else []) @
      (if 7 \<le> n then [v ! 4 * 128 + v ! 5 * 4 + v ! 6 div 8] else []) @
      (if 8 \<le> n then [v ! 6 * 32 + v ! 7] else []))"

definition pack_bytes :: "nat list \<Rightarrow> byte list" where
  "pack_bytes v = map word_of_nat (b32_pack v)"

lemma b32_scan_shorter:
  "b32_scan acc src = Some (d, fin, rest) \<Longrightarrow> length rest \<le> length src \<and> (length acc < 8 \<longrightarrow> length rest < length src)"
proof (induction acc src rule: b32_scan.induct)
  case (1 acc src)
  show ?case
  proof (cases "8 \<le> length acc")
    case True
    then show ?thesis using "1.prems" by (simp add: b32_scan.simps [of acc src])
  next
    case False
    then obtain c t where src: "src = c # t" using "1.prems" by (cases src) (auto simp: b32_scan.simps [of acc])
    show ?thesis
    proof (cases "c = CHR ''='' \<and> 2 \<le> length acc \<and> length t < 8")
      case True
      then show ?thesis using "1.prems" False src by (auto simp: b32_scan.simps [of acc] split: if_splits)
    next
      case np: False
      then obtain v where v: "b32_val c = Some v" and "b32_scan (acc @ [v]) t = Some (d, fin, rest)"
        using "1.prems" False unfolding src by (auto simp: b32_scan.simps [of acc "c # t"] split: option.splits)
      then show ?thesis using "1.IH" [OF False src np v] src by simp
    qed
  qed
qed

function b32_decode_groups :: "string \<Rightarrow> byte list option" where
  "b32_decode_groups src =
     (if src = [] then Some []
      else case b32_scan [] src of
          None \<Rightarrow> None
        | Some (d, fin, rest) \<Rightarrow>
            if fin then Some (pack_bytes d)
            else map_option (\<lambda>bs. pack_bytes d @ bs) (b32_decode_groups rest))"
  by pat_completeness auto
termination by (relation "measure length") (auto dest: b32_scan_shorter)

declare b32_decode_groups.simps [simp del]

definition b32_DecodeString :: "string \<Rightarrow> byte list option" where
  "b32_DecodeString s = b32_decode_groups (filter (\<lambda>c. code c \<noteq> 10 \<and> code c \<noteq> 13) s)"

section \<open>The code of a time step\<close>

definition big_endian64 :: "int \<Rightarrow> byte list" where
  "big_endian64 n = map (\<lambda>i. word_of_int (n div 2 ^ (8 * i))) (rev [0..<8])"

definition six_digits :: "nat \<Rightarrow> string" where
  "six_digits n = replicate (6 - length (nat_digits n)) (CHR ''0'') @ nat_digits n"

definition totp_key :: "env \<Rightarrow> string \<Rightarrow> byte list option" where
  "totp_key e secretBase32 =
     (let secret = to_upper (e_lib e) (TrimSpace secretBase32);
          pad = length secret mod 8
      in b32_DecodeString (if pad = 0 then secret else secret @ replicate (8 - pad) (CHR ''='')))"

text \<open>The 31-bit number at the offset that the last byte of the digest gives.\<close>

definition dynamic_truncation :: "byte list \<Rightarrow> nat" where
  "dynamic_truncation digest =
     (let offset = unat (last digest AND 0x0f) in
      (unat (digest ! offset) mod 128) * 2 ^ 24 + unat (digest ! (offset + 1)) * 2 ^ 16 +
      unat (digest ! (offset + 2)) * 2 ^ 8 + unat (digest ! (offset + 3)))"

definition totpCode :: "env \<Rightarrow> string \<Rightarrow> int \<Rightarrow> string" where
  "totpCode e secretBase32 counter =
     (if counter < 0 then ''000000''
      else case totp_key e secretBase32 of
          None \<Rightarrow> ''000000''
        | Some key \<Rightarrow>
            six_digits (dynamic_truncation (g_hmac_sha1 (e_lib e) key (big_endian64 counter)) mod 1000000))"

text \<open>\<^verbatim>\<open>now.Unix() / 30\<close> truncates towards zero.\<close>

definition time_step :: "time \<Rightarrow> int" where
  "time_step now = (if Unix now < 0 then - ((- Unix now) div 30) else Unix now div 30)"

definition verifyTOTP :: "env \<Rightarrow> string \<Rightarrow> string \<Rightarrow> time \<Rightarrow> int \<Rightarrow> bool" where
  "verifyTOTP e secretBase32 code0 now window =
     (let otp = TrimSpace code0 in
      length otp = 6 \<and> (\<exists>i \<in> set [- window..window]. totpCode e secretBase32 (time_step now + i) = otp))"

section \<open>Handlers\<close>

definition media_type :: "http_request \<Rightarrow> string" where
  "media_type r = TrimSpace (before_char (CHR '';'') (r_Header r ''Content-Type''))"

definition formURLEncoded :: "http_request \<Rightarrow> bool" where
  "formURLEncoded r = (media_type r = ''application/x-www-form-urlencoded'')"

text \<open>The form is parsed only when the body is declared as one; otherwise its getter is empty.\<close>

definition verifyFormSessionCSRF :: "http_request \<Rightarrow> nat \<Rightarrow> Session \<Rightarrow> response option" where
  "verifyFormSessionCSRF r limit sess =
     (if formURLEncoded r \<and> \<not> form_ok r limit then Some (http_Error ''bad form'' 400)
      else requireSessionCSRF r (if formURLEncoded r then form_get r limit else (\<lambda>_. [])) sess)"

definition handleTOTPEnroll :: "env \<Rightarrow> http_request \<Rightarrow> st \<Rightarrow> response \<times> st" where
  "handleTOTPEnroll e r s =
     (case validSession e r s of
        (None, s1) \<Rightarrow> (http_Error ''not authenticated'' 401, s1)
      | (Some sess, s1) \<Rightarrow>
          (case verifyFormSessionCSRF r maxTOTPEnrollBodyBytes sess of
             Some resp \<Rightarrow> (resp, s1)
           | None \<Rightarrow>
               (case requireRecentReAuth e sess s1 of
                  (Some resp, s2) \<Rightarrow> (resp, s2)
                | (None, s2) \<Rightarrow>
                    let s3 = snd (maybeExtendSession e r s2);
                        secretBytes = g_entropy (e_lib e) (st_drawn s3) 20;
                        s4 = s3\<lparr>st_drawn := st_drawn s3 + 1\<rparr>;
                        secret = TrimRightChars {CHR ''=''} (b32_encode secretBytes)
                    in (case on_db (SetPendingTOTP (s_UserID sess) secret) s4 of
                          (Inl _, s5) \<Rightarrow>
                            (http_Error ''store error'' 500,
                             audit_fail e r ''totp_enroll''
                               [(''user_id'', Str (s_UserID sess)), (''reason'', Str ''store_error'')] s5)
                        | (Inr _, s5) \<Rightarrow>
                            let name0 = TrimSpace (cf_DisplayName (e_cfg e));
                                issuerName = (if name0 = [] then ''Authbroker'' else name0);
                                label = QueryEscape (issuerName @ '':'' @ s_UserID sess);
                                otpauth = ''otpauth://totp/'' @ label @ ''?secret='' @ secret @ ''&issuer='' @
                                  QueryEscape issuerName @ ''&algorithm=SHA1&digits=6&period=30''
                            in (writeJSON 200 [''secret_base32'' \<mapsto> JStr secret, ''otpauth_uri'' \<mapsto> JStr otpauth],
                                audit_ok e r ''totp_enroll'' [(''user_id'', Str (s_UserID sess))] s5)))))"

definition readTOTPVerifyCode :: "http_request \<Rightarrow> string + string" where
  "readTOTPVerifyCode r =
     (if media_type r = ''application/json'' then
        (case decodeSingleJSON (r_JSON_otp r maxTOTPVerifyBodyBytes) of
           None \<Rightarrow> Inl ''bad json''
         | Some otp \<Rightarrow> if TrimSpace otp = [] then Inl ''missing otp'' else Inr (TrimSpace otp))
      else if \<not> form_ok r maxTOTPVerifyBodyBytes then Inl ''bad form''
      else let otp = TrimSpace (form_get r maxTOTPVerifyBodyBytes ''otp'')
           in if otp = [] then Inl ''missing otp'' else Inr otp)"

definition handleTOTPEnrollVerify :: "env \<Rightarrow> http_request \<Rightarrow> st \<Rightarrow> response \<times> st" where
  "handleTOTPEnrollVerify e r s =
     (case validSession e r s of
        (None, s1) \<Rightarrow> (http_Error ''not authenticated'' 401, s1)
      | (Some sess, s1) \<Rightarrow>
          (case verifyFormSessionCSRF r maxTOTPVerifyBodyBytes sess of
             Some resp \<Rightarrow> (resp, s1)
           | None \<Rightarrow>
               (case requireRecentReAuth e sess s1 of
                  (Some resp, s2) \<Rightarrow> (resp, s2)
                | (None, s2) \<Rightarrow>
                    let s3 = snd (maybeExtendSession e r s2);
                        rateKey = loginRateKey e r (s_UserID sess @ ''/totp_enroll_verify'');
                        event = ''totp_enroll_verify'';
                        who = (''user_id'', Str (s_UserID sess));
                        refuse = (\<lambda>reason msg status s.
                          (http_Error msg status,
                           audit_fail e r event [who, (''reason'', Str reason)] (login_failure e rateKey s)))
                    in (case login_allow e rateKey s3 of
                          ((False, retry), s4) \<Rightarrow>
                            (http_Error ''too many verification attempts; try again later'' 429,
                             audit_fail e r event [who, (''reason'', Str ''rate_limited'')]
                               (writeRetryAfter retry s4))
                        | ((True, _), s4) \<Rightarrow>
                            (case readTOTPVerifyCode r of
                               Inl msg \<Rightarrow> refuse ''bad_request'' msg 400 s4
                             | Inr otp \<Rightarrow>
                                 (case GetUser (s_UserID sess) (st_db s4) of
                                    None \<Rightarrow> refuse ''no_pending_enrollment'' ''no pending totp enrollment'' 410 s4
                                  | Some user \<Rightarrow>
                                      if u_PendingTOTPSecretBase32 user = []
                                      then refuse ''no_pending_enrollment'' ''no pending totp enrollment'' 410 s4
                                      else if \<not> verifyTOTP e (u_PendingTOTPSecretBase32 user) otp (e_now e) 1
                                      then refuse ''invalid_code'' ''invalid code'' 401 s4
                                      else (case on_db (CommitPendingTOTP (s_UserID sess)) s4 of
                                              (Inl _, s5) \<Rightarrow> refuse ''store_error'' ''store error'' 500 s5
                                            | (Inr _, s5) \<Rightarrow>
                                                (Resp 204 NoBody,
                                                 audit_ok e r event [who] (login_success rateKey s5)))))))))"

section \<open>Facts\<close>

lemma nat_digits_length: "1 \<le> k \<Longrightarrow> n < 10 ^ k \<Longrightarrow> length (nat_digits n) \<le> k"
proof (induction n arbitrary: k rule: nat_digits.induct)
  case (1 n)
  show ?case
  proof (cases "n < 10")
    case True
    then show ?thesis using "1.prems" by (simp add: nat_digits.simps)
  next
    case False
    then obtain j where k: "k = Suc j" and "1 \<le> j" using "1.prems" by (cases k; cases "k - 1") auto
    then have "length (nat_digits (n div 10)) \<le> j" using "1.prems" False by (intro "1.IH") auto
    then show ?thesis using False k by (simp add: nat_digits.simps [of n])
  qed
qed

lemma nat_digits_digit: "c \<in> set (nat_digits n) \<Longrightarrow> is_digit c"
proof (induction n rule: nat_digits.induct)
  case (1 n)
  then show ?case by (cases "n < 10") (auto simp: nat_digits.simps [of n] is_digit_def of_char_of)
qed

lemma six_digits_shape: "n < 1000000 \<Longrightarrow> length (six_digits n) = 6 \<and> (\<forall>c \<in> set (six_digits n). is_digit c)"
  using nat_digits_length [of 6 n]
  by (auto simp: six_digits_def is_digit_def dest: nat_digits_digit [unfolded is_digit_def])

lemma totpCode_shape: "length (totpCode e sec i) = 6 \<and> (\<forall>c \<in> set (totpCode e sec i). is_digit c)"
proof -
  have z: "length ''000000'' = 6 \<and> (\<forall>c \<in> set ''000000''. is_digit c)" by (simp add: is_digit_def)
  have "length (six_digits (n mod 1000000)) = 6 \<and> (\<forall>c \<in> set (six_digits (n mod 1000000)). is_digit c)" for n
    by (rule six_digits_shape) simp
  then show ?thesis using z unfolding totpCode_def by (auto split: option.split)
qed

lemma TrimSpace_digits: "\<forall>c \<in> set s. is_digit c \<Longrightarrow> TrimSpace s = s"
  by (cases "s = []") (auto simp: is_digit_def intro!: TrimSpace_plain)

section \<open>Base32 round trip\<close>

lemma b32_val_char: "v < 32 \<Longrightarrow> b32_val (b32_char v) = Some v"
  by (auto simp: b32_val_def b32_char_def of_char_of)

lemma b32_char_code: "v < 32 \<Longrightarrow>
    65 \<le> code (b32_char v) \<and> code (b32_char v) \<le> 90 \<or> 50 \<le> code (b32_char v) \<and> code (b32_char v) \<le> 55"
  by (auto simp: b32_char_def of_char_of)

lemma quantum_groups_small:
  "a < 256 \<Longrightarrow> b < 256 \<Longrightarrow> c < 256 \<Longrightarrow> d < 256 \<Longrightarrow> f < 256 \<Longrightarrow>
     v \<in> set (quantum_groups a b c d f) \<Longrightarrow> v < 32"
  unfolding quantum_groups_def by (auto; presburger)

lemma pack_div: "y < k \<Longrightarrow> (x * k + y) div k = (x :: nat)"
  by (simp add: div_add1_eq)

lemma split_bits:
  assumes "k = m * j"
  shows "b div k * k + b div j mod m * j + b mod j = (b :: nat)"
proof -
  have "b div k * m + b div j mod m = b div j"
    using div_mult_mod_eq [of "b div j" m] assms by (simp add: div_mult2_eq [symmetric] mult.commute)
  then have "(b div k * m + b div j mod m) * j + b mod j = b" by simp
  then show ?thesis using assms by (simp add: algebra_simps)
qed

lemma b32_pack8: "b32_pack [v0, v1, v2, v3, v4, v5, v6, v7] =
   [v0 * 8 + v1 div 4, v1 * 64 + v2 * 2 + v3 div 16, v3 * 16 + v4 div 2,
    v4 * 128 + v5 * 4 + v6 div 8, v6 * 32 + v7]"
  by (simp add: b32_pack_def)

lemma b32_pack_groups:
  assumes "a < 256" "b < 256" "c < 256" "d < 256" "f < 256"
  shows "map (\<lambda>x. x mod 256) (b32_pack (quantum_groups a b c d f)) = [a, b, c, d, f]"
proof -
  have 1: "a div 8 * 8 + (a mod 8 * 4 + b div 64) div 4 = a"
    using assms by (subst pack_div) auto
  have 2: "(a mod 8 * 4 + b div 64) * 64 + b div 2 mod 32 * 2 + (b mod 2 * 16 + c div 16) div 16 = a mod 8 * 256 + b"
    using assms split_bits [of 64 32 2 b] by (subst pack_div) auto
  have 3: "(b mod 2 * 16 + c div 16) * 16 + (c mod 16 * 2 + d div 128) div 2 = b mod 2 * 256 + c"
    using assms by (subst pack_div) auto
  have 4: "(c mod 16 * 2 + d div 128) * 128 + d div 4 mod 32 * 4 + (d mod 4 * 8 + f div 32) div 8 = c mod 16 * 256 + d"
    using assms split_bits [of 128 32 4 d] by (subst pack_div) auto
  have 5: "(d mod 4 * 8 + f div 32) * 32 + f mod 32 = d mod 4 * 256 + f"
    by auto
  have m: "(x * 256 + y) mod 256 = y" if "y < 256" for x y :: nat using that by simp
  show ?thesis
    unfolding quantum_groups_def b32_pack8 1 2 3 4 5 using assms by (simp only: list.map m mod_less)
qed

lemma pack_bytes_groups:
  "pack_bytes (quantum_groups (unat a) (unat b) (unat c) (unat d) (unat f)) = [a, b, c, d, f]"
proof -
  have w: "(word_of_nat x :: byte) = word_of_nat (x mod 256)" for x
    by (simp add: word_of_nat_eq_iff take_bit_eq_mod)
  have "pack_bytes v = map word_of_nat (map (\<lambda>x. x mod 256) (b32_pack v))" for v
    unfolding pack_bytes_def map_map o_def using w by (intro map_cong) auto
  then have "pack_bytes (quantum_groups (unat a) (unat b) (unat c) (unat d) (unat f)) =
      map word_of_nat [unat a, unat b, unat c, unat d, unat f]"
    by (simp only: b32_pack_groups [OF unat_byte unat_byte unat_byte unat_byte unat_byte])
  then show ?thesis by simp
qed

lemma b32_scan_chars:
  "length acc + length vs = 8 \<Longrightarrow> \<forall>v \<in> set vs. v < 32 \<Longrightarrow>
     b32_scan acc (map b32_char vs @ rest) = Some (acc @ vs, False, rest)"
proof (induction vs arbitrary: acc)
  case Nil
  then show ?case by (simp add: b32_scan.simps)
next
  case (Cons v vs)
  have "b32_char v \<noteq> CHR ''=''" using b32_char_code [of v] Cons.prems(2) by auto
  then show ?case
    using Cons b32_val_char [of v] by (simp add: b32_scan.simps [of acc])
qed

text \<open>Whole groups decode to the bytes they were made from.\<close>

fun whole_groups :: "byte list \<Rightarrow> bool" where
  "whole_groups [] = True"
| "whole_groups (a # b # c # d # f # bs) = whole_groups bs"
| "whole_groups _ = False"

lemma quantum_chars_scan:
  "b32_scan [] (quantum_chars 8 a b c d f @ rest) =
     Some (quantum_groups (unat a) (unat b) (unat c) (unat d) (unat f), False, rest)"
proof -
  let ?g = "quantum_groups (unat a) (unat b) (unat c) (unat d) (unat f)"
  have "length ?g = 8" by (simp add: quantum_groups_def)
  moreover have "\<forall>v \<in> set ?g. v < 32" using quantum_groups_small unat_byte by blast
  ultimately show ?thesis
    using b32_scan_chars [of "[]" ?g rest] by (simp add: quantum_chars_def)
qed

lemma b32_decode_encode: "whole_groups bs \<Longrightarrow> b32_decode_groups (b32_encode bs) = Some bs"
proof (induction bs rule: whole_groups.induct)
  case (2 a b c d f bs)
  have "quantum_chars 8 a b c d f \<noteq> []" by (simp add: quantum_chars_def quantum_groups_def)
  then show ?case
    using 2 by (simp add: b32_decode_groups.simps [of "quantum_chars 8 a b c d f @ b32_encode bs"]
        quantum_chars_scan pack_bytes_groups)
qed (simp_all add: b32_decode_groups.simps)

lemma b32_encode_chars:
  "whole_groups bs \<Longrightarrow> ch \<in> set (b32_encode bs) \<Longrightarrow>
     65 \<le> code ch \<and> code ch \<le> 90 \<or> 50 \<le> code ch \<and> code ch \<le> 55"
proof (induction bs rule: whole_groups.induct)
  case (2 a b c d f bs)
  have "\<forall>v \<in> set (quantum_groups (unat a) (unat b) (unat c) (unat d) (unat f)). v < 32"
    using quantum_groups_small unat_byte by blast
  then have "ch \<in> set (quantum_chars 8 a b c d f) \<Longrightarrow> ?case"
    using b32_char_code by (auto simp: quantum_chars_def dest!: in_set_takeD)
  then show ?case using 2 by auto
qed auto

lemma b32_encode_length: "whole_groups bs \<Longrightarrow> length (b32_encode bs) mod 8 = 0"
  by (induction bs rule: whole_groups.induct) (auto simp: quantum_chars_def quantum_groups_def)

lemma totp_key_encode:
  assumes "whole_groups bs"
  shows "totp_key e (b32_encode bs) = Some bs"
proof -
  note ch = b32_encode_chars [OF assms]
  have "TrimSpace (b32_encode bs) = b32_encode bs"
    by (cases "b32_encode bs = []") (use ch in \<open>force intro!: TrimSpace_plain\<close>)+
  moreover have "to_upper (e_lib e) (b32_encode bs) = b32_encode bs"
    using ch by (force simp: to_upper_def is_ascii_def upper_char_def intro!: map_idI)
  moreover have "filter (\<lambda>c. code c \<noteq> 10 \<and> code c \<noteq> 13) (b32_encode bs) = b32_encode bs"
    using ch by (force simp: filter_id_conv)
  ultimately show ?thesis
    using b32_encode_length [OF assms] b32_decode_encode [OF assms]
    by (simp add: totp_key_def b32_DecodeString_def Let_def)
qed

lemma demo_undecodable: "totp_key demo_env ''1'' = None"
proof -
  have t: "TrimSpace ''1'' = ''1''" by (rule TrimSpace_plain) simp_all
  show ?thesis
    by (simp add: totp_key_def t to_upper_def is_ascii_def upper_char_def b32_DecodeString_def
        b32_decode_groups.simps b32_scan.simps b32_val_def Let_def)
qed

section \<open>Properties\<close>

text \<open>
  Enrollment and login agree on the key: the base32 text that enrollment hands out decodes, in
  the check at login, to the very bytes that were drawn, so the code an authenticator computes
  from them for the current time step or a neighbouring one is accepted; and a code that is
  accepted is one of these three.  Every code has six decimal digits.
\<close>

theorem totp_enrolled_accepted:
  assumes "length bs = 20" and "0 \<le> i" and "time_step now = i"
    and "secret = TrimRightChars {CHR ''=''} (b32_encode bs)"
  shows "totp_key e secret = Some bs \<and>
         verifyTOTP e secret (six_digits (dynamic_truncation (g_hmac_sha1 (e_lib e) bs (big_endian64 i)) mod 1000000)) now 1 \<and>
         (verifyTOTP e secret otp now 1 \<longleftrightarrow> TrimSpace otp \<in> {totpCode e secret (i - 1), totpCode e secret i, totpCode e secret (i + 1)}) \<and>
         length (totpCode e secret j) = 6 \<and> (\<forall>c \<in> set (totpCode e secret j). is_digit c)"
proof -
  have wg: "whole_groups bs"
    using assms(1) by (auto simp: numeral_eq_Suc length_Suc_conv)
  have "CHR ''='' \<notin> set (b32_encode bs)" using b32_encode_chars [OF wg] by force
  then have sec: "secret = b32_encode bs"
    unfolding assms(4) TrimRightChars_def
    by (metis dropWhile_eq_self_iff empty_iff hd_in_set insert_iff rev_rev_ident set_rev)
  have key: "totp_key e secret = Some bs" using totp_key_encode [OF wg] sec by simp
  have cd: "totpCode e secret i =
      six_digits (dynamic_truncation (g_hmac_sha1 (e_lib e) bs (big_endian64 i)) mod 1000000)"
    using assms(2) key by (simp add: totpCode_def)
  have iv: "[- 1..1] = [- 1, 0, 1 :: int]" by (simp add: upto.simps)
  have acc: "verifyTOTP e secret otp now 1 \<longleftrightarrow>
      TrimSpace otp \<in> {totpCode e secret (i - 1), totpCode e secret i, totpCode e secret (i + 1)}" for otp
    using assms(3) totpCode_shape [of e secret "i - 1"] totpCode_shape [of e secret i] totpCode_shape [of e secret "i + 1"]
    by (auto simp: verifyTOTP_def Let_def iv)
  have "TrimSpace (totpCode e secret i) = totpCode e secret i"
    using totpCode_shape TrimSpace_digits by blast
  then show ?thesis using key acc [of "totpCode e secret i"] acc [of otp] totpCode_shape [of e secret j]
    by (simp add: cd)
qed

theorem totp_enrolled_accepted_witness:
  "verifyTOTP demo_env (TrimRightChars {CHR ''=''} (b32_encode (replicate 20 7)))
     (six_digits (dynamic_truncation (g_hmac_sha1 demo_lib (replicate 20 7) (big_endian64 33)) mod 1000000)) (1000 * Second) 1"
proof -
  have "time_step (1000 * Second) = 33" by (simp add: time_step_def Unix_def)
  from totp_enrolled_accepted [OF _ _ this refl, of "replicate 20 7" demo_env "[]" 0] show ?thesis by simp
qed

text \<open>
  A stored secret that is not base32 accepts the constant code: when the secret of a user does
  not decode, the code \<open>000000\<close> passes the check at every time, so the second factor of such a
  user is no factor at all.
\<close>

theorem totp_undecodable_accepts_zero:
  assumes "totp_key e secret = None"
  shows "verifyTOTP e secret ''000000'' now 1"
proof -
  have "TrimSpace ''000000'' = ''000000''" by (rule TrimSpace_plain) simp_all
  moreover have "totpCode e secret i = ''000000''" for i using assms by (simp add: totpCode_def)
  ultimately show ?thesis by (auto simp: verifyTOTP_def Let_def upto.simps)
qed

theorem totp_undecodable_accepts_zero_witness:
  "verifyTOTP demo_env ''1'' ''000000'' 0 1"
  by (rule totp_undecodable_accepts_zero [OF demo_undecodable])

section \<open>Changing the second factor\<close>

lemma login_allow_frame: "login_allow e k s = (x, s') \<Longrightarrow> st_db s' = st_db s"
  by (auto simp: login_allow_def split: prod.splits)

lemma login_failure_db [simp]: "st_db (login_failure e k s) = st_db s" "st_db (login_success k s) = st_db s"
  by (simp_all add: login_failure_def login_success_def)

lemma CommitPendingTOTP_Inr:
  assumes "CommitPendingTOTP n d = (Inr u, d')"
  shows "\<exists>user. bget n (db_users d) = Some (Json user) \<and> u_PendingTOTPSecretBase32 user \<noteq> [] \<and>
     d' = d\<lparr>db_users := bput n (user\<lparr>u_TOTPSecretBase32 := u_PendingTOTPSecretBase32 user,
        u_PendingTOTPSecretBase32 := []\<rparr>) (db_users d)\<rparr>"
  using assms
  by (auto simp: CommitPendingTOTP_def db_update_Inr getUserTx_def getJSON_Inr put_user_def putJSON_Inr
      split: sum.splits option.splits if_splits)

text \<open>
  The second factor changes only with proof of possession: when the verification endpoint
  changes a user record, the request had a valid session with its CSRF token and a recent
  re-authentication, the user is the session's user with a staged secret, the presented code is
  one of that secret, and exactly that secret becomes active; no other user changes.
\<close>

theorem totp_commit_guarded:
  assumes "handleTOTPEnrollVerify e r s = (resp, s')" and "db_users (st_db s') \<noteq> db_users (st_db s)"
  shows "\<exists>sess user otp.
     fst (validSession e r s) = Some sess \<and> sessionRecentlyReAuthenticated e sess \<and>
     verifyFormSessionCSRF r maxTOTPVerifyBodyBytes sess = None \<and>
     bget (s_UserID sess) (db_users (st_db s)) = Some (Json user) \<and>
     u_PendingTOTPSecretBase32 user \<noteq> [] \<and> readTOTPVerifyCode r = Inr otp \<and>
     verifyTOTP e (u_PendingTOTPSecretBase32 user) otp (e_now e) 1 \<and>
     db_users (st_db s') = bput (s_UserID sess)
       (user\<lparr>u_TOTPSecretBase32 := u_PendingTOTPSecretBase32 user, u_PendingTOTPSecretBase32 := []\<rparr>)
       (db_users (st_db s))"
proof -
  obtain o1 s1 where v: "validSession e r s = (o1, s1)" by fastforce
  note f1 = session_frameD(10) [OF validSession_frame [OF v]]
  from assms v f1 obtain sess where sess: "o1 = Some sess"
    and csrf: "verifyFormSessionCSRF r maxTOTPVerifyBodyBytes sess = None"
    and re: "sessionRecentlyReAuthenticated e sess"
    by (auto simp: handleTOTPEnrollVerify_def requireRecentReAuth_def split: option.splits if_splits)
  define s3 where "s3 = snd (maybeExtendSession e r s1)"
  have f3: "db_users (st_db s3) = db_users (st_db s1)"
    unfolding s3_def by (rule session_frameD(10) [OF maybeExtendSession_frame [OF surjective_pairing]])
  let ?k = "loginRateKey e r (s_UserID sess @ ''/totp_enroll_verify'')"
  obtain al retry s4 where a: "login_allow e ?k s3 = ((al, retry), s4)" by (metis surj_pair)
  have f4: "st_db s4 = st_db s3" using login_allow_frame [OF a] .
  have h: "handleTOTPEnrollVerify e r s = (resp, s')" by (rule assms(1))
  have al: "al"
    using h v sess csrf re a assms(2) f1 f3 f4
    by (cases al) (auto simp: handleTOTPEnrollVerify_def requireRecentReAuth_def s3_def [symmetric] Let_def)
  from h v sess csrf re a al assms(2) f1 f3 f4 obtain otp user where
    otp: "readTOTPVerifyCode r = Inr otp" and user: "GetUser (s_UserID sess) (st_db s4) = Some user"
    and pend: "u_PendingTOTPSecretBase32 user \<noteq> []"
    and ok: "verifyTOTP e (u_PendingTOTPSecretBase32 user) otp (e_now e) 1"
    by (auto simp: handleTOTPEnrollVerify_def requireRecentReAuth_def s3_def [symmetric] Let_def
        split: sum.splits option.splits if_splits)
  obtain c s5 where c: "on_db (CommitPendingTOTP (s_UserID sess)) s4 = (c, s5)" by fastforce
  have s': "st_db s' = st_db s5"
    using h v sess csrf re a al otp user pend ok c
    by (cases c) (auto simp: handleTOTPEnrollVerify_def requireRecentReAuth_def s3_def [symmetric] Let_def)
  have "\<exists>u. c = Inr u"
  proof (cases c)
    case (Inl err)
    then have "st_db s5 = st_db s4" using c by (auto simp: on_db_eq CommitPendingTOTP_def dest: db_update_Inl)
    then show ?thesis using assms(2) s' f1 f3 f4 by simp
  qed simp
  then obtain u where "CommitPendingTOTP (s_UserID sess) (st_db s4) = (Inr u, st_db s5)"
    using c by (auto simp: on_db_eq)
  from CommitPendingTOTP_Inr [OF this] obtain user' where
    b: "bget (s_UserID sess) (db_users (st_db s4)) = Some (Json user')"
    and d: "st_db s5 = (st_db s4)\<lparr>db_users := bput (s_UserID sess)
       (user'\<lparr>u_TOTPSecretBase32 := u_PendingTOTPSecretBase32 user', u_PendingTOTPSecretBase32 := []\<rparr>)
       (db_users (st_db s4))\<rparr>" by blast
  have "user' = user"
    using user b by (auto simp: GetUser_def db_view_def getUserTx_def getJSON_def split: if_splits)
  then show ?thesis
    using v sess re csrf otp pend ok b d s' f1 f3 f4 by auto
qed

definition demo_reauthed :: Session where
  "demo_reauthed = demo_session\<lparr>s_ReAuthAt := 999 * Second\<rparr>"

abbreviation demo_pending_user :: StoredUser where
  "demo_pending_user \<equiv> (new_StoredUser ''alice'')\<lparr>u_PendingTOTPSecretBase32 := ''1''\<rparr>"

definition demo_totp_db :: Store where
  "demo_totp_db = empty_Store\<lparr>
     db_sessions := [(''sid'', Json demo_reauthed)],
     db_users := [(''alice'', Json ((new_StoredUser ''alice'')\<lparr>u_PendingTOTPSecretBase32 := ''1''\<rparr>))]\<rparr>"

definition demo_totp_request :: http_request where
  "demo_totp_request = demo_request\<lparr>r_Cookie := [sessionCookieName \<mapsto> ''sid''],
     r_Header := (\<lambda>_. [])(''Content-Type'' := ''application/x-www-form-urlencoded''),
     r_Form := (\<lambda>_. (True, (\<lambda>_. [])(''csrf_token'' := ''tok'', ''otp'' := ''000000'')))\<rparr>"

lemma demo_totp_valid:
  "validSession demo_env demo_totp_request (demo_st\<lparr>st_db := demo_totp_db\<rparr>) =
     (Some demo_reauthed, demo_st\<lparr>st_db := demo_totp_db\<rparr>)"
  by (simp add: validSession_def session_id_def demo_totp_request_def load_session_def GetSession_def
      db_view_def getJSON_def bget_def demo_totp_db_def empty_Store_def session_expired_def
      demo_reauthed_def zero_Session_def IsZero_def sessionCookieName_def)

lemma demo_totp_guards:
  "verifyFormSessionCSRF demo_totp_request maxTOTPVerifyBodyBytes demo_reauthed = None"
  "sessionRecentlyReAuthenticated demo_env demo_reauthed"
  "readTOTPVerifyCode demo_totp_request = Inr ''000000''"
proof -
  have t: "TrimSpace ''application/x-www-form-urlencoded'' = ''application/x-www-form-urlencoded''"
    "TrimSpace ''000000'' = ''000000''" by (rule TrimSpace_plain; simp)+
  have m: "media_type demo_totp_request = ''application/x-www-form-urlencoded''"
    by (simp add: media_type_def demo_totp_request_def before_char_def t)
  show "verifyFormSessionCSRF demo_totp_request maxTOTPVerifyBodyBytes demo_reauthed = None"
    using m by (simp add: verifyFormSessionCSRF_def formURLEncoded_def requireSessionCSRF_def
        verifySessionCSRF_def csrfTokenMatches_def csrfFormField_def demo_totp_request_def demo_reauthed_def zero_Session_def Let_def)
  show "sessionRecentlyReAuthenticated demo_env demo_reauthed"
    by (simp add: sessionRecentlyReAuthenticated_def demo_reauthed_def zero_Session_def IsZero_def zero_time_def
        time_sub_def reAuthValidity_def)
  show "readTOTPVerifyCode demo_totp_request = Inr ''000000''"
    using m by (simp add: readTOTPVerifyCode_def demo_totp_request_def t)
qed

theorem totp_commit_guarded_witness:
  "\<exists>resp s'. handleTOTPEnrollVerify demo_env demo_totp_request (demo_st\<lparr>st_db := demo_totp_db\<rparr>) = (resp, s') \<and>
     (\<exists>otp. readTOTPVerifyCode demo_totp_request = Inr otp \<and> verifyTOTP demo_env ''1'' otp (1000 * Second) 1)"
proof -
  let ?s = "demo_st\<lparr>st_db := demo_totp_db\<rparr>"
  obtain resp s' where h: "handleTOTPEnrollVerify demo_env demo_totp_request ?s = (resp, s')" by fastforce
  define s3 where "s3 = snd (maybeExtendSession demo_env demo_totp_request ?s)"
  have "session_frame ?s s3" unfolding s3_def by (rule maybeExtendSession_frame [OF surjective_pairing])
  note fr = session_frameD [OF this]
  have z: "TrimSpace ''000000'' = ''000000''" by (rule TrimSpace_plain) simp_all
  have tc: "totpCode demo_env ''1'' i = ''000000''" for i using demo_undecodable by (simp add: totpCode_def)
  have vt: "verifyTOTP demo_env ''1'' ''000000'' t 1" for t
    using z tc by (auto simp: verifyTOTP_def Let_def upto.simps)
  have al: "login_allow demo_env key s3 = ((True, 0), s3)" for key
    using fr(2) by (simp add: login_allow_def allow_def demo_limiter_def newLoginRateLimiter_def)
  have us: "db_users (st_db s3) = [(''alice'', Json demo_pending_user)]" "db_open (st_db s3)"
    using fr(6,10) by (simp_all add: demo_totp_db_def empty_Store_def)
  have gu: "GetUser ''alice'' (st_db s3) = Some demo_pending_user"
    using us by (simp add: GetUser_def db_view_def getUserTx_def getJSON_def bget_def)
  obtain c s5 where c: "on_db (CommitPendingTOTP ''alice'') s3 = (c, s5)" by fastforce
  then have c': "c = Inr ()" "db_users (st_db s5) \<noteq> db_users (st_db ?s)"
    using us fr(10) by (auto simp: on_db_def CommitPendingTOTP_def getUserTx_def getJSON_def bget_def
        db_update_def put_user_def putJSON_def new_StoredUser_def)
  have u: "s_UserID demo_reauthed = ''alice''" by (simp add: demo_reauthed_def)
  have "st_db s' = st_db s5"
    using h c c'(1) vt unfolding handleTOTPEnrollVerify_def demo_totp_valid
    by (auto simp: demo_totp_guards requireRecentReAuth_def s3_def [symmetric] al Let_def gu u)
  then have ne: "db_users (st_db s') \<noteq> db_users (st_db ?s)" using c'(2) by simp
  show ?thesis
    using totp_commit_guarded [OF h ne] h demo_totp_guards(3) vt by auto
qed

end
