(* ===== verification/Login.thy ===== *)
theory Login
  imports Totp
begin

text \<open>
  Signing in and out (\<^verbatim>\<open>handlers_session.go\<close>): the login form and its submission, the
  re-authentication endpoint, local logout and RP-initiated logout.  The directory is the
  \<open>g_Authenticate\<close> of the library: \<open>None\<close> is an error of any kind.
\<close>

section \<open>Login\<close>

definition handleLoginGet :: "env \<Rightarrow> http_request \<Rightarrow> st \<Rightarrow> response \<times> st" where
  "handleLoginGet e r s =
     (let rid = r_Query r ''request_id'';
          page = (\<lambda>clientID s.
            let s1 = set_header ''Content-Type'' ''text/html; charset=utf-8'' s in
            (case anonymousCSRFToken e r True s1 of (token, s2) \<Rightarrow>
               (Resp 200 (Page ''login''
                  [(''DisplayName'', JStr (cf_DisplayName (e_cfg e))), (''RequestID'', JStr rid),
                   (''ClientID'', JStr clientID), (''TOTPHint'', JBool (cf_MFA_TOTPRequired (e_cfg e))),
                   (''CSRFToken'', JStr token)]), s2)))
      in if rid = [] then page ''authbroker'' s
         else case allowPreAuthWrite e r ''login_get'' s of
             (Some resp, s1) \<Rightarrow> (resp, s1)
           | (None, s1) \<Rightarrow>
               (case GetAuthRequest rid (st_db s1) of
                  Inl _ \<Rightarrow> (http_Error ''store error'' 500, s1)
                | Inr None \<Rightarrow> (http_Error ''login request expired'' 400, s1)
                | Inr (Some ar) \<Rightarrow>
                    if e_now e > ar_ExpiresAt ar then (http_Error ''login request expired'' 400, s1)
                    else page (ar_ClientID ar) s1))"

definition loginAuditClientID :: "AuthorizationRequest option \<Rightarrow> string" where
  "loginAuditClientID ar =
     (case ar of None \<Rightarrow> ''authbroker''
      | Some ar \<Rightarrow> if ar_ClientID ar \<noteq> [] then ar_ClientID ar else ''authbroker'')"

text \<open>A refused login: the failure is recorded, and the request that was consumed is put back.\<close>

definition login_refused ::
  "env \<Rightarrow> http_request \<Rightarrow> string \<Rightarrow> AuthorizationRequest option \<Rightarrow> string \<Rightarrow> st \<Rightarrow> response \<times> st" where
  "login_refused e r username ar reason s =
     (let s1 = recordCredentialLoginFailure e r username s;
          s2 = (case ar of None \<Rightarrow> s1 | Some ar \<Rightarrow> snd (on_db (PutAuthRequest ar) s1))
      in (http_Error ''invalid username or password'' 401,
          audit_fail e r ''login''
            [(''user_id'', Str username), (''client_id'', Str (loginAuditClientID ar)),
             (''reason'', Str reason)] s2))"

text \<open>From the directory's answer on; \<open>ar\<close> is the pending request of an OAuth login.\<close>

definition login_password ::
  "env \<Rightarrow> http_request \<Rightarrow> string \<Rightarrow> AuthorizationRequest option \<Rightarrow> st \<Rightarrow> response \<times> st" where
  "login_password e r username ar s =
     (let form = form_get r maxLoginBodyBytes in
      case g_Authenticate (e_lib e) username (form ''password'') of
        None \<Rightarrow> login_refused e r username ar ''invalid_credentials'' s
      | Some profile \<Rightarrow>
          (case on_db (UpsertProfile profile) s of
             (Inl _, s1) \<Rightarrow> (http_Error ''store error'' 500, s1)
           | (Inr user, s1) \<Rightarrow>
               if needsTOTP e user \<and> u_TOTPSecretBase32 user = []
               then login_refused e r (u_Username user) ar ''totp_not_enrolled'' s1
               else if needsTOTP e user \<and>
                 \<not> verifyTOTP e (u_TOTPSecretBase32 user) (TrimSpace (form ''otp'')) (e_now e) 1
               then login_refused e r (u_Username user) ar ''invalid_totp'' s1
               else
                 let s2 = recordCredentialLoginSuccess e r (u_Username user) s1;
                     amr = ''pwd'' # (if needsTOTP e user then [''otp'', ''mfa''] else [])
                 in (case createSession e (u_Username user) True amr s2 of
                       (Inl _, s3) \<Rightarrow> (http_Error ''store error'' 500, s3)
                     | (Inr sess, s3) \<Rightarrow>
                         let s4 = audit_ok e r ''login''
                               [(''user_id'', Str (u_Username user)),
                                (''client_id'', Str (case ar of None \<Rightarrow> [] | Some ar \<Rightarrow> ar_ClientID ar)),
                                (''oauth_flow'', Flag (ar \<noteq> None)), (''totp_used'', Flag (needsTOTP e user))] s3
                         in (case ar of
                               None \<Rightarrow> (http_Redirect ''/'', s4)
                             | Some ar \<Rightarrow> or_store_error (proceedAfterAuthn e r ar sess s4)))))"

definition handleLoginPost :: "env \<Rightarrow> http_request \<Rightarrow> st \<Rightarrow> response \<times> st" where
  "handleLoginPost e r s =
     (let form = form_get r maxLoginBodyBytes in
      if \<not> form_ok r maxLoginBodyBytes then (http_Error ''bad form'' 400, s)
      else if \<not> verifyAnonymousCSRF r form then (http_Error ''invalid csrf token'' 403, s)
      else
        let username = to_lower (e_lib e) (TrimSpace (form ''username'')) in
        case allowCredentialLoginAttempt e r username s of
          ((False, retry), s1) \<Rightarrow>
            (http_Error ''too many login attempts; try again later'' 429,
             audit_fail e r ''login'' [(''user_id'', Str username), (''reason'', Str ''rate_limited'')]
               (writeRetryAfter retry s1))
        | ((True, _), s1) \<Rightarrow>
            let rid = form ''request_id'' in
            if rid = [] then login_password e r username None s1
            else case on_db (ConsumeAuthRequest rid) s1 of
                (Inl _, s2) \<Rightarrow> (http_Error ''store error'' 500, s2)
              | (Inr None, s2) \<Rightarrow> (http_Error ''login request expired'' 400, s2)
              | (Inr (Some ar), s2) \<Rightarrow>
                  if e_now e > ar_ExpiresAt ar then (http_Error ''login request expired'' 400, s2)
                  else login_password e r username (Some ar) s2)"

section \<open>Re-authentication\<close>

definition handleReAuth :: "env \<Rightarrow> http_request \<Rightarrow> st \<Rightarrow> response \<times> st" where
  "handleReAuth e r s =
     (case validSession e r s of
        (None, s1) \<Rightarrow> (http_Error ''not authenticated'' 401, s1)
      | (Some sess, s1) \<Rightarrow>
          let form = form_get r maxLoginBodyBytes; who = (''user_id'', Str (s_UserID sess)) in
          if \<not> form_ok r maxLoginBodyBytes then (http_Error ''bad form'' 400, s1)
          else if \<not> verifySessionCSRF r form sess then (http_Error ''invalid csrf token'' 403, s1)
          else
            let rateKey = loginRateKey e r (s_UserID sess) in
            case login_allow e rateKey s1 of
              ((False, retry), s2) \<Rightarrow>
                (http_Error ''too many login attempts; try again later'' 429,
                 audit_fail e r ''reauth'' [who, (''reason'', Str ''rate_limited'')] (writeRetryAfter retry s2))
            | ((True, _), s2) \<Rightarrow>
                (case g_Authenticate (e_lib e) (s_UserID sess) (form ''password'') of
                   None \<Rightarrow>
                     (http_Error ''invalid password'' 401,
                      audit_fail e r ''reauth'' [who, (''reason'', Str ''invalid_credentials'')]
                        (login_failure e rateKey s2))
                 | Some _ \<Rightarrow>
                     (case markSessionReAuth e r (login_success rateKey s2) of
                        (Inl _, s3) \<Rightarrow> (http_Error ''store error'' 500, s3)
                      | (Inr _, s3) \<Rightarrow> (Resp 204 NoBody, audit_ok e r ''reauth'' [who] s3))))"

section \<open>Local logout\<close>

definition handleLocalLogoutGet :: "env \<Rightarrow> http_request \<Rightarrow> st \<Rightarrow> response \<times> st" where
  "handleLocalLogoutGet e r s =
     (case validSession e r s of
        (None, s1) \<Rightarrow> (http_Redirect ''/'', s1)
      | (Some sess, s1) \<Rightarrow>
          (Resp 200 (Page ''logout''
             [(''DisplayName'', JStr (cf_DisplayName (e_cfg e))), (''UserID'', JStr (s_UserID sess)),
              (''CSRFToken'', JStr (s_CSRFToken sess)), (''Action'', JStr ''/logout'')]),
           set_header ''Content-Type'' ''text/html; charset=utf-8'' s1))"

definition handleLocalLogoutPost :: "env \<Rightarrow> http_request \<Rightarrow> st \<Rightarrow> response \<times> st" where
  "handleLocalLogoutPost e r s =
     (if \<not> form_ok r maxLogoutBodyBytes then (http_Error ''bad form'' 400, s)
      else case validSession e r s of (osess, s1) \<Rightarrow>
        if (case osess of None \<Rightarrow> False
            | Some sess \<Rightarrow> \<not> verifySessionCSRF r (form_get r maxLogoutBodyBytes) sess)
        then (http_Error ''invalid csrf token'' 403, s1)
        else case clearSession e r s1 of
            (Inl _, s2) \<Rightarrow> (http_Error ''store error'' 500, s2)
          | (Inr _, s2) \<Rightarrow>
              (http_Redirect ''/'',
               case osess of None \<Rightarrow> s2
               | Some sess \<Rightarrow> audit_ok e r ''logout''
                   [(''user_id'', Str (s_UserID sess)), (''source'', Str ''local'')] s2))"

section \<open>RP-initiated logout\<close>

definition logoutParam :: "http_request \<Rightarrow> string \<Rightarrow> string" where
  "logoutParam r name =
     (if r_Method r = ''POST'' then form_get r maxLogoutBodyBytes name else r_Query r name)"

definition clientIDFromTokenClaims :: "claims \<Rightarrow> string" where
  "clientIDFromTokenClaims claims =
     (if str_claim claims ''azp'' \<noteq> [] then str_claim claims ''azp''
      else if str_claim claims ''client_id'' \<noteq> [] then str_claim claims ''client_id''
      else if str_claim claims ''aud'' \<noteq> [] then str_claim claims ''aud''
      else case claims ''aud'' of Some (JArr [JStr c]) \<Rightarrow> c | _ \<Rightarrow> [])"

definition logoutClientIDFromIDTokenHint :: "env \<Rightarrow> string \<Rightarrow> st \<Rightarrow> (jwt_error + string) \<times> st" where
  "logoutClientIDFromIDTokenHint e hint s =
     (case verifyJWTWithOptions e hint True s of
        (Inl err, s1) \<Rightarrow> (Inl err, s1)
      | (Inr claims, s1) \<Rightarrow> (Inr (clientIDFromTokenClaims claims), s1))"

definition resolveLogoutClientID :: "env \<Rightarrow> string \<Rightarrow> string \<Rightarrow> st \<Rightarrow> (response + string) \<times> st" where
  "resolveLogoutClientID e clientID hint s =
     (if hint = [] then (Inr clientID, s)
      else case logoutClientIDFromIDTokenHint e hint s of
          (Inl _, s1) \<Rightarrow>
            if clientID = [] then (Inl (http_Error ''invalid id_token_hint'' 400), s1) else (Inr clientID, s1)
        | (Inr hintClientID, s1) \<Rightarrow>
            if hintClientID = [] then (Inr clientID, s1)
            else if clientID \<noteq> [] \<and> clientID \<noteq> hintClientID
            then (Inl (http_Error ''client_id does not match id_token_hint'' 400), s1)
            else (Inr hintClientID, s1))"

definition clientAllowsPostLogoutRedirect :: "Client \<Rightarrow> string \<Rightarrow> bool" where
  "clientAllowsPostLogoutRedirect c uri = (uri \<in> set (c_PostLogoutRedirectURIs c))"

definition validPostLogoutRedirect :: "env \<Rightarrow> st \<Rightarrow> string \<Rightarrow> string \<Rightarrow> bool" where
  "validPostLogoutRedirect e s clientID uri =
     (case lookupClient e s clientID of None \<Rightarrow> False | Some c \<Rightarrow> clientAllowsPostLogoutRedirect c uri)"

definition audit_logout :: "env \<Rightarrow> http_request \<Rightarrow> string \<Rightarrow> Session option \<Rightarrow> st \<Rightarrow> st" where
  "audit_logout e r clientID osess s =
     (case osess of None \<Rightarrow> s
      | Some sess \<Rightarrow> audit_ok e r ''logout''
          [(''user_id'', Str (s_UserID sess)), (''client_id'', Str clientID),
           (''source'', Str ''rp_initiated'')] s)"

definition handlePostLogoutRedirect ::
  "env \<Rightarrow> http_request \<Rightarrow> string \<Rightarrow> string \<Rightarrow> string \<Rightarrow> st \<Rightarrow> response \<times> st" where
  "handlePostLogoutRedirect e r clientID uri state s =
     (if \<not> validPostLogoutRedirect e s clientID uri then (http_Error ''invalid post_logout_redirect_uri'' 400, s)
      else case validSession e r s of (osess, s1) \<Rightarrow>
        (case clearSession e r s1 of
           (Inl _, s2) \<Rightarrow> (http_Error ''store error'' 500, s2)
         | (Inr _, s2) \<Rightarrow>
             (case g_url_query (e_lib e) uri (if state = [] then [] else [(''state'', state)]) of
                None \<Rightarrow> (http_Error ''invalid post_logout_redirect_uri'' 400, s2)
              | Some u \<Rightarrow> (http_Redirect u, audit_logout e r clientID osess s2))))"

definition renderRPLogoutConfirm ::
  "env \<Rightarrow> Session \<Rightarrow> string \<Rightarrow> string \<Rightarrow> string \<Rightarrow> string \<Rightarrow> st \<Rightarrow> response \<times> st" where
  "renderRPLogoutConfirm e sess hint clientID uri state s =
     (Resp 200 (Page ''logout''
        [(''DisplayName'', JStr (cf_DisplayName (e_cfg e))), (''UserID'', JStr (s_UserID sess)),
         (''CSRFToken'', JStr (s_CSRFToken sess)), (''Action'', JStr ''/oauth2/logout''),
         (''IDTokenHint'', JStr hint), (''ClientID'', JStr clientID),
         (''PostLogoutRedirectURI'', JStr uri), (''State'', JStr state)]),
      set_header ''Content-Type'' ''text/html; charset=utf-8'' s)"

definition handleLogout :: "env \<Rightarrow> http_request \<Rightarrow> st \<Rightarrow> response \<times> st" where
  "handleLogout e r s =
     (if r_Method r = ''POST'' \<and> \<not> form_ok r maxLogoutBodyBytes then (http_Error ''bad form'' 400, s)
      else
        let hint = TrimSpace (logoutParam r ''id_token_hint'') in
        case resolveLogoutClientID e (TrimSpace (logoutParam r ''client_id'')) hint s of
          (Inl resp, s1) \<Rightarrow> (resp, s1)
        | (Inr clientID, s1) \<Rightarrow>
            let uri = TrimSpace (logoutParam r ''post_logout_redirect_uri''); state = logoutParam r ''state'' in
            case validSession e r s1 of (osess, s2) \<Rightarrow>
              if r_Method r = ''GET'' \<and> osess \<noteq> None
              then renderRPLogoutConfirm e (the osess) hint clientID uri state s2
              else if r_Method r = ''GET'' \<and> osess = None \<and> hint = [] \<and> uri \<noteq> []
              then (http_Error ''logout requires id_token_hint or an active session'' 400, s2)
              else if uri \<noteq> [] \<and> \<not> validPostLogoutRedirect e s2 clientID uri
              then (http_Error ''invalid post_logout_redirect_uri'' 400, s2)
              else if uri \<noteq> [] then handlePostLogoutRedirect e r clientID uri state s2
              else case validSession e r s2 of (prior, s3) \<Rightarrow>
                (case clearSession e r s3 of
                   (Inl _, s4) \<Rightarrow> (http_Error ''store error'' 500, s4)
                 | (Inr _, s4) \<Rightarrow>
                     (Resp 200 (Text ''logged out''),
                      set_header ''Content-Type'' ''text/plain; charset=utf-8''
                        (audit_logout e r clientID prior s4))))"

section \<open>Frames\<close>

lemma allow_keys_frame: "allow_keys e ks s = (x, s') \<Longrightarrow> st_db s' = st_db s \<and> st_clients s' = st_clients s"
proof (induction e ks s rule: allow_keys.induct)
  case (2 e key keys s)
  obtain ok retry s1 where a: "login_allow e key s = ((ok, retry), s1)" by (metis surj_pair)
  then have "st_db s1 = st_db s \<and> st_clients s1 = st_clients s"
    by (auto simp: login_allow_def split: prod.splits)
  then show ?case using 2 a by (cases ok) auto
qed simp

lemma fold_login_failure [simp]:
  "st_db (fold (login_failure e) ks s) = st_db s" "st_clients (fold (login_failure e) ks s) = st_clients s"
  by (induction ks arbitrary: s) (simp_all add: login_failure_def)

lemma record_frames [simp]:
  "st_db (recordCredentialLoginFailure e r u s) = st_db s"
  "st_db (recordCredentialLoginSuccess e r u s) = st_db s"
  by (simp_all add: recordCredentialLoginFailure_def recordCredentialLoginSuccess_def)

lemma login_refused_db:
  "st_db (snd (login_refused e r u ar reason s)) =
     (case ar of None \<Rightarrow> st_db s | Some ar \<Rightarrow> snd (PutAuthRequest ar (st_db s)))"
  by (simp add: login_refused_def Let_def split: option.split)

lemma PutAuthRequest_sessions [simp]: "db_sessions (snd (PutAuthRequest ar d)) = db_sessions d"
  by (auto simp: PutAuthRequest_def db_update_def putJSON_def)

lemma login_refused_sessions:
  "login_refused e r u ar reason s = (resp, s') \<Longrightarrow> db_sessions (st_db s') = db_sessions (st_db s)"
  using login_refused_db [of e r u ar reason s] by (auto split: option.splits)

lemma UpsertProfile_sessions:
  "on_db (UpsertProfile p) s = (x, s') \<Longrightarrow> db_sessions (st_db s') = db_sessions (st_db s)"
  by (auto simp: on_db_eq UpsertProfile_def db_update_def put_user_def putJSON_def Let_def
      split: sum.splits if_splits prod.splits)

lemma UpsertProfile_user:
  assumes "UpsertProfile p d = (Inr user, d')"
  shows "bget (p_Subject p) (db_users d') = Some (Json user)"
  using assms
  by (auto simp: UpsertProfile_def db_update_Inr put_user_def putJSON_Inr bget_bput Let_def
      split: sum.splits)

section \<open>Properties\<close>

lemma login_password_sound:
  assumes "login_password e r u ar s = (resp, s')" and "db_sessions (st_db s') \<noteq> db_sessions (st_db s)"
  shows "\<exists>profile user d. g_Authenticate (e_lib e) u (form_get r maxLoginBodyBytes ''password'') = Some profile \<and>
     UpsertProfile profile (st_db s) = (Inr user, d) \<and>
     (needsTOTP e user \<longrightarrow> u_TOTPSecretBase32 user \<noteq> [] \<and>
        verifyTOTP e (u_TOTPSecretBase32 user) (TrimSpace (form_get r maxLoginBodyBytes ''otp'')) (e_now e) 1)"
proof -
  let ?form = "form_get r maxLoginBodyBytes"
  from assms obtain profile where p: "g_Authenticate (e_lib e) u (?form ''password'') = Some profile"
    by (auto simp: login_password_def Let_def split: option.splits dest: login_refused_sessions)
  obtain x s1 where up: "on_db (UpsertProfile profile) s = (x, s1)" by fastforce
  note f = UpsertProfile_sessions [OF up]
  from assms p up f obtain user where x: "x = Inr user"
    by (auto simp: login_password_def Let_def split: sum.splits)
  have "needsTOTP e user \<longrightarrow> u_TOTPSecretBase32 user \<noteq> [] \<and>
      verifyTOTP e (u_TOTPSecretBase32 user) (TrimSpace (?form ''otp'')) (e_now e) 1"
    using assms p up x f
    by (auto simp: login_password_def Let_def split: if_splits dest: login_refused_sessions)
  then show ?thesis using p up x by (auto simp: on_db_eq)
qed

lemma login_post_authn:
  assumes "handleLoginPost e r s = (resp, s')" and "db_sessions (st_db s') \<noteq> db_sessions (st_db s)"
  shows "\<exists>profile user d d'.
     verifyAnonymousCSRF r (form_get r maxLoginBodyBytes) \<and>
     g_Authenticate (e_lib e) (to_lower (e_lib e) (TrimSpace (form_get r maxLoginBodyBytes ''username'')))
       (form_get r maxLoginBodyBytes ''password'') = Some profile \<and>
     UpsertProfile profile d = (Inr user, d') \<and> db_users d = db_users (st_db s) \<and>
     (needsTOTP e user \<longrightarrow> u_TOTPSecretBase32 user \<noteq> [] \<and>
        verifyTOTP e (u_TOTPSecretBase32 user) (TrimSpace (form_get r maxLoginBodyBytes ''otp'')) (e_now e) 1)"
proof -
  let ?form = "form_get r maxLoginBodyBytes"
  let ?u = "to_lower (e_lib e) (TrimSpace (?form ''username''))"
  obtain ok retry s1 where a: "allowCredentialLoginAttempt e r ?u s = ((ok, retry), s1)" by (metis surj_pair)
  have f1: "st_db s1 = st_db s" using a allow_keys_frame by (fastforce simp: allowCredentialLoginAttempt_def)
  obtain c s2 where c: "on_db (ConsumeAuthRequest (?form ''request_id'')) s1 = (c, s2)" by fastforce
  have f2: "db_sessions (st_db s2) = db_sessions (st_db s)" "db_users (st_db s2) = db_users (st_db s)"
    by (subst ConsumeAuthRequest_frame [OF c], simp add: f1)+
  have csrf: "verifyAnonymousCSRF r ?form"
    using assms by (auto simp: handleLoginPost_def Let_def split: if_splits)
  have "login_password e r ?u None s1 = (resp, s') \<or> (\<exists>ar. login_password e r ?u (Some ar) s2 = (resp, s'))"
    using assms a c f1 f2
    by (cases ok) (auto simp: handleLoginPost_def Let_def split: if_splits sum.splits option.splits)
  then obtain ar s0 where l: "login_password e r ?u ar s0 = (resp, s')"
    and f: "db_sessions (st_db s0) = db_sessions (st_db s)" "db_users (st_db s0) = db_users (st_db s)"
    using f1 f2 by metis
  from login_password_sound [OF l] assms(2) f show ?thesis using csrf by auto
qed

text \<open>
  C26. A login form gives a session only to who authenticates: when submitting the form changes the
  sessions at all, the anonymous CSRF token matched, the directory accepted the lowercased user
  name with the password, and if the user has a second factor, or one is required, the user's
  active secret exists and the presented code is one of it.
\<close>

theorem login_session_sound:
  assumes "handleLoginPost e r s = (resp, s')" and "db_sessions (st_db s') \<noteq> db_sessions (st_db s)"
  shows "\<exists>profile user d d'.
     verifyAnonymousCSRF r (form_get r maxLoginBodyBytes) \<and>
     g_Authenticate (e_lib e) (to_lower (e_lib e) (TrimSpace (form_get r maxLoginBodyBytes ''username'')))
       (form_get r maxLoginBodyBytes ''password'') = Some profile \<and>
     UpsertProfile profile d = (Inr user, d') \<and> db_users d = db_users (st_db s) \<and>
     (needsTOTP e user \<longrightarrow> u_TOTPSecretBase32 user \<noteq> [] \<and>
        verifyTOTP e (u_TOTPSecretBase32 user) (TrimSpace (form_get r maxLoginBodyBytes ''otp'')) (e_now e) 1)"
  using assms by (rule login_post_authn)

text \<open>
  A wrong password costs nothing but the attempt: when the directory refuses the credentials of
  an OAuth login, the answer is 401, the authorization request that the attempt had consumed is
  back in place, and the whole database is what it was.
\<close>

theorem failed_login_restores_request:
  assumes "store_ok (st_db s)" and "form_ok r maxLoginBodyBytes"
    and "verifyAnonymousCSRF r (form_get r maxLoginBodyBytes)"
    and "u = to_lower (e_lib e) (TrimSpace (form_get r maxLoginBodyBytes ''username''))"
    and "fst (fst (allowCredentialLoginAttempt e r u s))"
    and "rid = form_get r maxLoginBodyBytes ''request_id''" and "rid \<noteq> []" and "length rid \<le> 32768"
    and "db_open (st_db s)" and "request_at (st_db s) rid = Some (Json ar)" and "ar_ID ar = rid"
    and "e_now e \<le> ar_ExpiresAt ar"
    and "g_Authenticate (e_lib e) u (form_get r maxLoginBodyBytes ''password'') = None"
  shows "\<exists>s'. handleLoginPost e r s = (Resp 401 (Text ''invalid username or password''), s') \<and>
              st_db s' = st_db s"
proof -
  obtain retry s1 where a: "allowCredentialLoginAttempt e r u s = ((True, retry), s1)"
    using assms(5) by (cases "allowCredentialLoginAttempt e r u s") auto
  have f1: "st_db s1 = st_db s" using a allow_keys_frame by (fastforce simp: allowCredentialLoginAttempt_def)
  let ?d = "(st_db s)\<lparr>db_authRequests := bdel rid (db_authRequests (st_db s))\<rparr>"
  have c: "ConsumeAuthRequest rid (st_db s) = (Inr (Some ar), ?d)"
    using assms(9,10) by (simp add: db_simps)
  have p: "PutAuthRequest ar ?d = (Inr (), snd (PutAuthRequest ar ?d))"
    using assms(7,8,9,11) by (simp add: PutAuthRequest_def db_update_def putJSON_def)
  have same: "snd (PutAuthRequest ar ?d) = st_db s"
    using request_restore [OF assms(1) c assms(11) p] .
  have h: "handleLoginPost e r s = login_refused e r u (Some ar) ''invalid_credentials'' (s1\<lparr>st_db := ?d\<rparr>)"
    using assms(2,3,6,7,12,13) a c f1
    by (simp add: handleLoginPost_def assms(4) [symmetric] login_password_def on_db_def Let_def)
  obtain resp s' where lr: "login_refused e r u (Some ar) ''invalid_credentials'' (s1\<lparr>st_db := ?d\<rparr>) = (resp, s')"
    by fastforce
  have "st_db s' = st_db s"
    using login_refused_db [of e r u "Some ar" "''invalid_credentials''" "s1\<lparr>st_db := ?d\<rparr>"] lr same by simp
  moreover have "resp = Resp 401 (Text ''invalid username or password'')"
    using lr by (simp add: login_refused_def http_Error_def Let_def)
  ultimately show ?thesis using h lr by simp
qed

text \<open>
  RP-initiated logout redirects only to a registered address, and a GET with a live session
  ends nothing: it shows the confirmation page and leaves the session in place.
\<close>

theorem logout_guarded:
  assumes "handleLogout e r s = (resp, s')"
  shows "(\<forall>u. resp = Resp 302 (Location u) \<longrightarrow>
            (\<exists>clientID client uri qs. lookupClient e s clientID = Some client \<and>
               uri \<in> set (c_PostLogoutRedirectURIs client) \<and> g_url_query (e_lib e) uri qs = Some u)) \<and>
         (r_Method r = ''GET'' \<and> session_id r = Some sid \<and> session_at s sid = Some (Json sess) \<and>
          db_open (st_db s) \<and> \<not> session_expired (e_now e) sess \<and> s_CSRFToken sess \<noteq> [] \<longrightarrow>
            session_at s' sid = Some (Json sess))"
proof -
  let ?hint = "TrimSpace (logoutParam r ''id_token_hint'')" and ?cid = "TrimSpace (logoutParam r ''client_id'')"
  obtain x s1 where rs: "resolveLogoutClientID e ?cid ?hint s = (x, s1)" by fastforce
  have f1: "st_clients s1 = st_clients s" "db_sessions (st_db s1) = db_sessions (st_db s)" "db_open (st_db s1) = db_open (st_db s)"
    using rs verifyJWT_db [of e ?hint True s]
    by (fastforce simp: resolveLogoutClientID_def logoutClientIDFromIDTokenHint_def
        split: if_splits sum.splits prod.splits)+
  obtain os s2 where v: "validSession e r s1 = (os, s2)" by fastforce
  note f2 = session_frameD(1) [OF validSession_frame [OF v]]
  have lk: "lookupClient e s2 = lookupClient e s" using f1 f2 by (intro lookupClient_cong) simp
  have red: "(\<exists>clientID client uri qs. lookupClient e s clientID = Some client \<and>
     uri \<in> set (c_PostLogoutRedirectURIs client) \<and> g_url_query (e_lib e) uri qs = Some u)"
    if "resp = Resp 302 (Location u)" for u
    using assms that rs v lk
    by (fastforce simp: handleLogout_def resolveLogoutClientID_def handlePostLogoutRedirect_def
        validPostLogoutRedirect_def clientAllowsPostLogoutRedirect_def renderRPLogoutConfirm_def
        http_Error_def http_Redirect_def Let_def
        split: if_splits sum.splits option.splits prod.splits)
  have keep: "session_at s' sid = Some (Json sess)"
    if "r_Method r = ''GET''" "session_id r = Some sid" "session_at s sid = Some (Json sess)"
      "db_open (st_db s)" "\<not> session_expired (e_now e) sess" "s_CSRFToken sess \<noteq> []"
  proof -
    have "validSession e r s1 = (Some sess, s1)"
      using that f1 by (simp add: validSession_def load_session_def GetSession_def db_view_def getJSON_def)
    then show ?thesis
      using assms that(1,3) rs f1
      by (auto simp: handleLogout_def renderRPLogoutConfirm_def Let_def split: sum.splits)
  qed
  show ?thesis using red keep by blast
qed

section \<open>Evaluating the properties\<close>

definition demo_login_request :: "string \<Rightarrow> http_request" where
  "demo_login_request pw = demo_request\<lparr>r_Cookie := [csrfCookieName \<mapsto> ''tok''],
     r_Form := (\<lambda>_. (True, (\<lambda>_. [])(''csrf_token'' := ''tok'', ''request_id'' := ''rid'',
       ''username'' := ''alice'', ''password'' := pw)))\<rparr>"

lemma demo_login_user: "to_lower demo_lib (TrimSpace ''alice'') = ''alice''"
proof -
  have "TrimSpace ''alice'' = ''alice''" by (rule TrimSpace_plain) simp_all
  then show ?thesis by (simp add: to_lower_def ToLower_def is_ascii_def lower_char_def)
qed

lemma demo_login_csrf: "verifyAnonymousCSRF (demo_login_request pw) (form_get (demo_login_request pw) maxLoginBodyBytes)"
  by (simp add: verifyAnonymousCSRF_def demo_login_request_def csrfCookieName_def csrfFormField_def csrfTokenMatches_def)

lemma demo_login_allowed:
  "allowCredentialLoginAttempt demo_env r u (demo_st\<lparr>st_db := d\<rparr>) = ((True, 0), demo_st\<lparr>st_db := d\<rparr>)"
proof -
  have "login_allow demo_env k (demo_st\<lparr>st_db := d\<rparr>) = ((True, 0), demo_st\<lparr>st_db := d\<rparr>)" for k
    by (simp add: login_allow_def allow_def demo_limiter_def newLoginRateLimiter_def demo_st_def)
  then show ?thesis by (simp add: allowCredentialLoginAttempt_def credentialLoginRateKeys_def Let_def)
qed

definition demo_login_db :: Store where
  "demo_login_db = empty_Store\<lparr>db_authRequests := [(''rid'', Json demo_ar)]\<rparr>"

lemma demo_login_db_sel [simp]:
  "db_open demo_login_db" "db_authRequests demo_login_db = [(''rid'', Json demo_ar)]"
  "db_users demo_login_db = []" "db_sessions demo_login_db = []" "db_authCodes demo_login_db = []"
  by (simp_all add: demo_login_db_def empty_Store_def)

theorem failed_login_restores_request_witness:
  "\<exists>s'. handleLoginPost demo_env (demo_login_request ''bad'') (demo_st\<lparr>st_db := demo_login_db\<rparr>) =
       (Resp 401 (Text ''invalid username or password''), s') \<and> st_db s' = demo_login_db"
proof -
  let ?r = "demo_login_request ''bad''" and ?s = "demo_st\<lparr>st_db := demo_login_db\<rparr>"
  have ok: "store_ok (st_db ?s)" by (simp add: store_ok_def bucket_ok_def demo_login_db_def empty_Store_def)
  have u: "''alice'' = to_lower (e_lib demo_env) (TrimSpace (form_get ?r maxLoginBodyBytes ''username''))"
    using demo_login_user by (simp add: demo_login_request_def)
  have "\<exists>s'. handleLoginPost demo_env ?r ?s = (Resp 401 (Text ''invalid username or password''), s') \<and> st_db s' = st_db ?s"
    by (rule failed_login_restores_request [OF ok _ demo_login_csrf u, where rid = "''rid''" and ar = demo_ar])
      (simp_all add: demo_login_allowed demo_login_request_def bget_def)
  then show ?thesis by simp
qed

theorem login_session_sound_witness:
  "\<exists>resp s' profile. handleLoginPost demo_env (demo_login_request ''pw'') (demo_st\<lparr>st_db := demo_login_db\<rparr>) = (resp, s') \<and>
     g_Authenticate demo_lib ''alice'' ''pw'' = Some profile \<and> db_sessions (st_db s') \<noteq> []"
proof -
  let ?r = "demo_login_request ''pw''" and ?s = "demo_st\<lparr>st_db := demo_login_db\<rparr>"
  obtain resp s' where h: "handleLoginPost demo_env ?r ?s = (resp, s')" by fastforce
  have ne: "db_sessions (st_db s') \<noteq> db_sessions (st_db ?s)"
    using h unfolding handleLoginPost_def
    by (auto simp: demo_login_request_def demo_login_csrf [unfolded demo_login_request_def, simplified]
        demo_login_user demo_login_allowed on_db_def ConsumeAuthRequest_def consume_def db_update_def
        getJSON_def bget_def bdel_def login_password_def UpsertProfile_def getUserTx_def user_or_new_def put_user_def
        putJSON_def new_StoredUser_def needsTOTP_def demo_cfg_def recordCredentialLoginSuccess_def
        login_success_def createSession_def randomB64_def PutSession_def SetCookie_def session_cookie_def
        proceedAfterAuthn_def lookupClient_def issueCodeRedirect_def auditEvent_def PutAuthCode_def
        or_store_error_def zero_Session_def Let_def split: sum.splits prod.splits option.splits if_splits)
  show ?thesis using login_session_sound [OF h ne] h ne by auto
qed

theorem logout_guarded_witness:
  "session_at (snd (handleLogout demo_env (demo_consent_request\<lparr>r_Method := ''GET''\<rparr>)
     (demo_st\<lparr>st_db := demo_consent_db\<rparr>))) ''sid'' = Some (Json demo_session)"
proof -
  let ?r = "demo_consent_request\<lparr>r_Method := ''GET''\<rparr>" and ?s = "demo_st\<lparr>st_db := demo_consent_db\<rparr>"
  obtain resp s' where h: "handleLogout demo_env ?r ?s = (resp, s')" by fastforce
  have "session_id ?r = Some ''sid''" "session_at ?s ''sid'' = Some (Json demo_session)" "db_open (st_db ?s)"
    "\<not> session_expired (e_now demo_env) demo_session" "s_CSRFToken demo_session \<noteq> []"
    by (simp_all add: session_id_def demo_consent_request_def demo_consent_db_def empty_Store_def bget_def
        session_expired_def zero_Session_def IsZero_def sessionCookieName_def)
  then show ?thesis using logout_guarded [OF h, of "''sid''" demo_session] h by simp
qed

end
