(* ===== verification/Token.thy ===== *)
theory Token
  imports Login
begin

text \<open>
  The token endpoint (\<^verbatim>\<open>handlers_oauth.go\<close>): client authentication with its rate limit, the
  authorization code, refresh token and client credentials grants, and the claims of the tokens.
\<close>

section \<open>Responses\<close>

definition tokenErrorStatus :: "nat \<Rightarrow> string \<Rightarrow> string \<Rightarrow> response" where
  "tokenErrorStatus status errCode desc =
     writeJSON status [''error'' \<mapsto> JStr errCode, ''error_description'' \<mapsto> JStr desc]"

definition tokenError :: "string \<Rightarrow> string \<Rightarrow> response" where
  "tokenError errCode desc = tokenErrorStatus 400 errCode desc"

definition tokenServerError :: response where
  "tokenServerError = tokenErrorStatus 500 ''server_error'' ''internal error''"

section \<open>Client authentication\<close>

datatype client_auth_error = UnknownClient | BadClientCredentials | ClientAuthRateLimited duration

definition client_auth_text :: "client_auth_error \<Rightarrow> string" where
  "client_auth_text err =
     (case err of UnknownClient \<Rightarrow> ''unknown client'' | BadClientCredentials \<Rightarrow> ''bad client credentials''
      | ClientAuthRateLimited _ \<Rightarrow> ''client authentication rate limited'')"

definition clientSecretMatches :: "env \<Rightarrow> Client \<Rightarrow> string \<Rightarrow> bool" where
  "clientSecretMatches e client secret =
     (secret \<noteq> [] \<and>
      (case hex_decode (TrimSpace (c_ClientSecretSHA256 client)) of
         None \<Rightarrow> False
       | Some expected \<Rightarrow> length expected = 32 \<and> expected = sha_str e secret))"

definition clientIDFromRequest :: "http_request \<Rightarrow> (string \<Rightarrow> string) \<Rightarrow> string" where
  "clientIDFromRequest r form =
     (case r_BasicAuth r of Some (cid, _) \<Rightarrow> TrimSpace cid | None \<Rightarrow> TrimSpace (form ''client_id''))"

definition clientAuthRateKey :: "env \<Rightarrow> http_request \<Rightarrow> string \<Rightarrow> string" where
  "clientAuthRateKey e r clientID =
     ''ip:'' @ clientIP e r @ ''/client:'' @
     to_lower (e_lib e) (if clientID = [] then ''unknown'' else clientID)"

definition authenticateClient ::
  "env \<Rightarrow> http_request \<Rightarrow> (string \<Rightarrow> string) \<Rightarrow> st \<Rightarrow> client_auth_error + Client" where
  "authenticateClient e r form s =
     (let (cid, secret) = (case r_BasicAuth r of Some p \<Rightarrow> p
                             | None \<Rightarrow> (form ''client_id'', form ''client_secret'')) in
      case lookupClient e s cid of
        None \<Rightarrow> Inl UnknownClient
      | Some client \<Rightarrow>
          if cid = [] then Inl UnknownClient
          else if c_Public client then Inr client
          else if \<not> clientSecretMatches e client secret then Inl BadClientCredentials
          else Inr client)"

definition authenticateClientRateLimited ::
  "env \<Rightarrow> http_request \<Rightarrow> (string \<Rightarrow> string) \<Rightarrow> st \<Rightarrow> (client_auth_error + Client) \<times> st" where
  "authenticateClientRateLimited e r form s =
     (let key = clientAuthRateKey e r (clientIDFromRequest r form) in
      case allow (e_now e) key (st_token s) of
        ((allowed, retry), l) \<Rightarrow>
          let s1 = s\<lparr>st_token := l\<rparr> in
          if \<not> allowed then (Inl (ClientAuthRateLimited retry), s1)
          else case authenticateClient e r form s1 of
              Inl err \<Rightarrow> (Inl err, s1\<lparr>st_token := recordFailure (e_now e) key (st_token s1)\<rparr>)
            | Inr client \<Rightarrow> (Inr client, s1\<lparr>st_token := recordSuccess key (st_token s1)\<rparr>))"

section \<open>Claims\<close>

definition displayName :: "StoredUser \<Rightarrow> string" where
  "displayName u = (if u_Name u \<noteq> [] then u_Name u else u_Username u)"

definition mappedGroupsForClient :: "env \<Rightarrow> st \<Rightarrow> string \<Rightarrow> StoredUser \<Rightarrow> string list" where
  "mappedGroupsForClient e s clientID user =
     (case lookupClient e s clientID of
        None \<Rightarrow> [] | Some client \<Rightarrow> mappedClientGroups (e_lib e) client (u_Groups user))"

definition addScopedProfileClaims ::
  "env \<Rightarrow> st \<Rightarrow> StoredUser option \<Rightarrow> string \<Rightarrow> string \<Rightarrow> claims \<Rightarrow> claims" where
  "addScopedProfileClaims e s user scope clientID target =
     (case user of
        None \<Rightarrow> target
      | Some u \<Rightarrow>
          let t1 = (if scopeIncludes scope ''email'' then target(''email'' \<mapsto> JStr (u_Email u)) else target);
              t2 = (if scopeIncludes scope ''profile'' then t1(''name'' \<mapsto> JStr (displayName u)) else t1);
              groups = mappedGroupsForClient e s clientID u
          in if scopeIncludes scope ''groups'' \<and> groups \<noteq> [] then t2(''groups'' \<mapsto> json_strings groups) else t2)"

section \<open>Issuing tokens\<close>

datatype issue_error = IssueJwt jwt_error | IssueStore store_error

definition access_claims :: "env \<Rightarrow> string \<Rightarrow> string \<Rightarrow> string \<Rightarrow> string \<Rightarrow> claims" where
  "access_claims e userID clientID scope jti =
     [''iss'' \<mapsto> JStr (cf_Issuer (e_cfg e)), ''sub'' \<mapsto> JStr userID, ''aud'' \<mapsto> JStr clientID,
      ''iat'' \<mapsto> JInt (Unix (e_now e)), ''nbf'' \<mapsto> JInt (Unix (e_now e)),
      ''exp'' \<mapsto> JInt (Unix (e_now e + dur (cf_AccessTokenTTLMinutes (e_cfg e)) Minute)),
      ''jti'' \<mapsto> JStr jti, ''client_id'' \<mapsto> JStr clientID, ''scope'' \<mapsto> JStr scope,
      ''preferred_username'' \<mapsto> JStr userID, ''token_use'' \<mapsto> JStr ''access'']"

definition id_claims ::
  "env \<Rightarrow> string \<Rightarrow> string \<Rightarrow> string \<Rightarrow> time \<Rightarrow> string list \<Rightarrow> string \<Rightarrow> claims" where
  "id_claims e userID clientID nonce authTime amr access =
     (let c = [''iss'' \<mapsto> JStr (cf_Issuer (e_cfg e)), ''sub'' \<mapsto> JStr userID, ''aud'' \<mapsto> JStr clientID,
               ''iat'' \<mapsto> JInt (Unix (e_now e)),
               ''exp'' \<mapsto> JInt (Unix (e_now e + dur (cf_IDTokenTTLMinutes (e_cfg e)) Minute)),
               ''auth_time'' \<mapsto> JInt (Unix authTime), ''preferred_username'' \<mapsto> JStr userID,
               ''at_hash'' \<mapsto> JStr (base64RawURL (take 16 (sha_str e access)))];
          c = (if amr \<noteq> [] then c(''amr'' \<mapsto> json_strings amr) else c)
      in if nonce \<noteq> [] then c(''nonce'' \<mapsto> JStr nonce) else c)"

definition refresh_ttl :: "env \<Rightarrow> duration" where
  "refresh_ttl e = dur (cf_RefreshTokenTTLDays (e_cfg e) * 24) Hour"

definition issueUserTokens ::
  "env \<Rightarrow> string \<Rightarrow> string \<Rightarrow> string \<Rightarrow> string \<Rightarrow> time \<Rightarrow> string list \<Rightarrow> bool \<Rightarrow> st \<Rightarrow> (issue_error + claims) \<times> st" where
  "issueUserTokens e userID clientID scope nonce authTime amr includeRefresh s =
     (let user = GetUser userID (st_db s) in
      case randomB64 e 16 s of (accessJTI, s1) \<Rightarrow>
        (case signJWT e (addScopedProfileClaims e s1 user scope clientID
                           (access_claims e userID clientID scope accessJTI)) of
           Inl err \<Rightarrow> (Inl (IssueJwt err), s1)
         | Inr access \<Rightarrow>
             let resp = [''access_token'' \<mapsto> JStr access, ''token_type'' \<mapsto> JStr ''Bearer'',
                         ''expires_in'' \<mapsto> JInt (wrap64 (cf_AccessTokenTTLMinutes (e_cfg e) * 60)),
                         ''scope'' \<mapsto> JStr scope]
             in (case (if scopeIncludes scope scopeOpenID
                       then map_sum id (\<lambda>t. resp(''id_token'' \<mapsto> JStr t))
                              (signJWT e (addScopedProfileClaims e s1 user scope clientID
                                 (id_claims e userID clientID nonce authTime amr access)))
                       else Inr resp) of
                   Inl err \<Rightarrow> (Inl (IssueJwt err), s1)
                 | Inr resp \<Rightarrow>
                     if \<not> includeRefresh then (Inr resp, s1)
                     else case randomB64 e 32 s1 of (rt, s2) \<Rightarrow>
                       (case randomB64 e 16 s2 of (family, s3) \<Rightarrow>
                          (case on_db (PutRefreshToken (hash_secret e rt)
                                  \<lparr>rt_UserID = userID, rt_ClientID = clientID, rt_Scope = scope,
                                   rt_AuthTime = authTime, rt_ExpiresAt = e_now e + refresh_ttl e,
                                   rt_AMR = amr, rt_FamilyID = family, rt_Generation = 0\<rparr>) s3 of
                             (Inl err, s4) \<Rightarrow> (Inl (IssueStore err), s4)
                           | (Inr _, s4) \<Rightarrow> (Inr (resp(''refresh_token'' \<mapsto> JStr rt)), s4))))))"

section \<open>The authorization code grant\<close>

definition token_audit_fail :: "env \<Rightarrow> http_request \<Rightarrow> (string \<times> attr) list \<Rightarrow> st \<Rightarrow> st" where
  "token_audit_fail e r attrs s = audit_fail e r ''token_issue'' attrs s"

definition tokenAuthorizationCode :: "env \<Rightarrow> http_request \<Rightarrow> (string \<Rightarrow> string) \<Rightarrow> Client \<Rightarrow> st \<Rightarrow> response \<times> st" where
  "tokenAuthorizationCode e r form client s =
     (let redirectURI = form ''redirect_uri'';
          me = (''client_id'', Str (c_ClientID client)); grant = (''grant_type'', Str ''authorization_code'') in
      case on_db (ConsumeAuthCode (hash_secret e (form ''code''))) s of
        (Inl _, s1) \<Rightarrow> (tokenServerError, s1)
      | (Inr oac, s1) \<Rightarrow>
          (case (case oac of Some ac \<Rightarrow> if e_now e > ac_ExpiresAt ac then None else Some ac | None \<Rightarrow> None) of
             None \<Rightarrow>
               (tokenError ''invalid_grant'' ''invalid or expired code'',
                token_audit_fail e r [me, grant, (''reason'', Str ''invalid_or_expired_code'')] s1)
           | Some ac \<Rightarrow>
               let who = (''user_id'', Str (ac_UserID ac)) in
               if ac_ClientID ac \<noteq> c_ClientID client \<or> ac_RedirectURI ac \<noteq> redirectURI then
                 let mismatch = (if ac_ClientID ac \<noteq> c_ClientID client
                                 then (if ac_RedirectURI ac \<noteq> redirectURI then ''client_id_and_redirect_uri''
                                       else ''client_id'')
                                 else ''redirect_uri'')
                 in (tokenError ''invalid_grant'' ''client or redirect_uri mismatch'',
                     token_audit_fail e r
                       [me, who, grant, (''reason'', Str ''client_or_redirect_mismatch''),
                        (''mismatch'', Str mismatch), (''expected_client_id'', Str (ac_ClientID ac)),
                        (''expected_redirect_uri'', Str (ac_RedirectURI ac)),
                        (''presented_redirect_uri'', Str redirectURI)] s1)
               else if ac_CodeChallenge ac \<noteq> [] \<and>
                 \<not> verifyPKCE (g_sha256 (e_lib e)) (ac_CodeChallenge ac) (ac_CodeChallengeMethod ac) (form ''code_verifier'')
               then (tokenError ''invalid_grant'' ''PKCE verification failed'',
                     token_audit_fail e r [me, who, grant, (''reason'', Str ''pkce_failed'')] s1)
               else
                 let includeRefresh = (c_AllowOfflineAccess client \<and> scopeIncludes (ac_Scope ac) scopeOfflineAccess) in
                 (case issueUserTokens e (ac_UserID ac) (c_ClientID client) (ac_Scope ac) (ac_Nonce ac)
                         (ac_AuthTime ac) (ac_AMR ac) includeRefresh s1 of
                    (Inl _, s2) \<Rightarrow> (tokenServerError, s2)
                  | (Inr resp, s2) \<Rightarrow>
                      (writeJSON 200 resp,
                       audit_ok e r ''token_issue''
                         [me, who, grant, (''scope'', Str (ac_Scope ac)), (''refresh_token'', Flag includeRefresh)] s2))))"

section \<open>The refresh token grant\<close>

definition scopeSubset :: "string \<Rightarrow> string \<Rightarrow> bool" where
  "scopeSubset requested granted = (\<forall>p \<in> set (Fields requested). p \<in> set (Fields granted))"

record refreshRotation =
  rr_plain :: string
  rr_key :: string
  rr_next :: RefreshToken
  rr_consumed :: ConsumedRefreshToken

definition newRefreshRotation :: "env \<Rightarrow> RefreshToken \<Rightarrow> string \<Rightarrow> string \<Rightarrow> st \<Rightarrow> refreshRotation \<times> st" where
  "newRefreshRotation e old clientID scope s =
     (case (if rt_FamilyID old = [] then randomB64 e 16 s else (rt_FamilyID old, s)) of (familyID, s1) \<Rightarrow>
        (case randomB64 e 32 s1 of (plain, s2) \<Rightarrow>
           (\<lparr>rr_plain = plain, rr_key = hash_secret e plain,
             rr_next = \<lparr>rt_UserID = rt_UserID old, rt_ClientID = clientID, rt_Scope = scope,
                        rt_AuthTime = rt_AuthTime old, rt_ExpiresAt = e_now e + refresh_ttl e,
                        rt_AMR = rt_AMR old, rt_FamilyID = familyID,
                        rt_Generation = wrap64 (rt_Generation old + 1)\<rparr>,
             rr_consumed = \<lparr>crt_UserID = rt_UserID old, crt_ClientID = clientID,
                            crt_FamilyID = familyID, crt_ExpiresAt = rt_ExpiresAt old\<rparr>\<rparr>, s2)))"

definition handleRefreshTokenReuse ::
  "env \<Rightarrow> http_request \<Rightarrow> Client \<Rightarrow> ConsumedRefreshToken \<Rightarrow> st \<Rightarrow> response \<times> st" where
  "handleRefreshTokenReuse e r client consumed s =
     (if crt_ClientID consumed = c_ClientID client then
        (case on_db (RevokeRefreshTokenFamily (crt_FamilyID consumed)) s of
           (Inl _, s1) \<Rightarrow> (tokenServerError, s1)
         | (Inr _, s1) \<Rightarrow>
             (tokenError ''invalid_grant'' ''invalid refresh_token'',
              audit_fail e r ''refresh_token_reuse''
                [(''client_id'', Str (c_ClientID client)), (''user_id'', Str (crt_UserID consumed)),
                 (''family_id'', Str (crt_FamilyID consumed))] s1))
      else (tokenError ''invalid_grant'' ''invalid refresh_token'', s))"

definition rejectConsumedRefreshToken ::
  "env \<Rightarrow> http_request \<Rightarrow> Client \<Rightarrow> string \<Rightarrow> st \<Rightarrow> (store_error + response option) \<times> st" where
  "rejectConsumedRefreshToken e r client key s =
     (case GetConsumedRefreshToken key (st_db s) of
        Inl err \<Rightarrow> (Inl err, s)
      | Inr None \<Rightarrow> (Inr None, s)
      | Inr (Some consumed) \<Rightarrow>
          if \<not> e_now e > crt_ExpiresAt consumed
          then (case handleRefreshTokenReuse e r client consumed s of (resp, s1) \<Rightarrow> (Inr (Some resp), s1))
          else (Inr None, s))"

definition rejectExpiredOrMismatchedRefreshToken ::
  "env \<Rightarrow> http_request \<Rightarrow> Client \<Rightarrow> string \<Rightarrow> RefreshToken \<Rightarrow> st \<Rightarrow> (store_error + response option) \<times> st" where
  "rejectExpiredOrMismatchedRefreshToken e r client key old s =
     (let expired = (e_now e > rt_ExpiresAt old); other = (rt_ClientID old \<noteq> c_ClientID client);
          refuse = (\<lambda>reason s.
            (Inr (Some (tokenError ''invalid_grant'' ''invalid refresh_token'')),
             token_audit_fail e r
               [(''client_id'', Str (c_ClientID client)), (''user_id'', Str (rt_UserID old)),
                (''grant_type'', Str ''refresh_token''), (''reason'', Str reason)] s))
      in if \<not> expired \<and> \<not> other then (Inr None, s)
         else if expired then
           (case on_db (DeleteRefreshToken key) s of
              (Inl err, s1) \<Rightarrow> (Inl err, s1)
            | (Inr _, s1) \<Rightarrow> refuse (if other then ''expired_and_client_mismatch'' else ''expired'') s1)
         else refuse ''client_mismatch'' s)"

definition rejectRefreshScopeExpansion ::
  "env \<Rightarrow> http_request \<Rightarrow> Client \<Rightarrow> RefreshToken \<Rightarrow> string \<Rightarrow> st \<Rightarrow> response option \<times> st" where
  "rejectRefreshScopeExpansion e r client old requested s =
     (if requested = [] \<or> scopeSubset requested (rt_Scope old) then (None, s)
      else (Some (tokenError ''invalid_scope'' ''requested scope exceeds original grant''),
            token_audit_fail e r
              [(''client_id'', Str (c_ClientID client)), (''user_id'', Str (rt_UserID old)),
               (''grant_type'', Str ''refresh_token''), (''reason'', Str ''scope_expansion'')] s))"

text \<open>From the rotation on, for a token that was loaded and checked.\<close>

definition refresh_rotate ::
  "env \<Rightarrow> http_request \<Rightarrow> Client \<Rightarrow> string \<Rightarrow> RefreshToken \<Rightarrow> string \<Rightarrow> st \<Rightarrow> response \<times> st" where
  "refresh_rotate e r client rtKey old scope s =
     (let me = (''client_id'', Str (c_ClientID client)); who = (''user_id'', Str (rt_UserID old));
          grant = (''grant_type'', Str ''refresh_token'') in
      case newRefreshRotation e old (c_ClientID client) scope s of (rotation, s1) \<Rightarrow>
        (case on_db (RotateRefreshToken rtKey (rr_key rotation) (rr_next rotation) (rr_consumed rotation)) s1 of
           (Inl _, s2) \<Rightarrow> (tokenServerError, s2)
         | (Inr False, s2) \<Rightarrow>
             (tokenError ''invalid_grant'' ''invalid refresh_token'',
              token_audit_fail e r [me, who, grant, (''reason'', Str ''race_lost'')] s2)
         | (Inr True, s2) \<Rightarrow>
             (case issueUserTokens e (rt_UserID old) (c_ClientID client) scope [] (rt_AuthTime old) (rt_AMR old) False s2 of
                (Inl _, s3) \<Rightarrow> (tokenServerError, s3)
              | (Inr resp, s3) \<Rightarrow>
                  (writeJSON 200 (resp(''refresh_token'' \<mapsto> JStr (rr_plain rotation))),
                   audit_ok e r ''token_issue''
                     [me, who, grant, (''scope'', Str scope), (''refresh_token'', Flag True)] s3))))"

definition tokenRefresh :: "env \<Rightarrow> http_request \<Rightarrow> (string \<Rightarrow> string) \<Rightarrow> Client \<Rightarrow> st \<Rightarrow> response \<times> st" where
  "tokenRefresh e r form client s =
     (let rtKey = hash_secret e (form ''refresh_token''); requestedScope = TrimSpace (form ''scope'') in
      case rejectConsumedRefreshToken e r client rtKey s of
        (Inl _, s1) \<Rightarrow> (tokenServerError, s1)
      | (Inr (Some resp), s1) \<Rightarrow> (resp, s1)
      | (Inr None, s1) \<Rightarrow>
          (case GetRefreshToken rtKey (st_db s1) of
             Inl _ \<Rightarrow> (tokenServerError, s1)
           | Inr None \<Rightarrow>
               (tokenError ''invalid_grant'' ''invalid refresh_token'',
                token_audit_fail e r
                  [(''client_id'', Str (c_ClientID client)), (''grant_type'', Str ''refresh_token''),
                   (''reason'', Str ''unknown_refresh_token'')] s1)
           | Inr (Some old) \<Rightarrow>
               (case rejectExpiredOrMismatchedRefreshToken e r client rtKey old s1 of
                  (Inl _, s2) \<Rightarrow> (tokenServerError, s2)
                | (Inr (Some resp), s2) \<Rightarrow> (resp, s2)
                | (Inr None, s2) \<Rightarrow>
                    (case rejectRefreshScopeExpansion e r client old requestedScope s2 of
                       (Some resp, s3) \<Rightarrow> (resp, s3)
                     | (None, s3) \<Rightarrow>
                         refresh_rotate e r client rtKey old
                           (if requestedScope \<noteq> [] then requestedScope else rt_Scope old) s3))))"

section \<open>The client credentials grant\<close>

definition tokenClientCredentials :: "env \<Rightarrow> http_request \<Rightarrow> (string \<Rightarrow> string) \<Rightarrow> Client \<Rightarrow> st \<Rightarrow> response \<times> st" where
  "tokenClientCredentials e r form client s =
     (let me = (''client_id'', Str (c_ClientID client)); grant = (''grant_type'', Str ''client_credentials'') in
      if c_Public client then
        (tokenError ''unauthorized_client'' ''public clients cannot use client_credentials'',
         token_audit_fail e r [me, grant, (''reason'', Str ''public_client'')] s)
      else case validateClientCredentialsScope client (form ''scope'') of
          Inl err \<Rightarrow>
            (tokenError ''invalid_scope'' (scope_error_text (g_quote (e_lib e)) err),
             token_audit_fail e r [me, grant, (''reason'', Str ''invalid_scope'')] s)
        | Inr scope \<Rightarrow>
            (case randomB64 e 16 s of (jti, s1) \<Rightarrow>
               (case signJWT e ((access_claims e (c_ClientID client) (c_ClientID client) scope jti)
                                  (''preferred_username'' := None)) of
                  Inl _ \<Rightarrow> (tokenServerError, s1)
                | Inr access \<Rightarrow>
                    (writeJSON 200
                       [''access_token'' \<mapsto> JStr access, ''token_type'' \<mapsto> JStr ''Bearer'',
                        ''expires_in'' \<mapsto> JInt (wrap64 (cf_AccessTokenTTLMinutes (e_cfg e) * 60)),
                        ''scope'' \<mapsto> JStr scope],
                     audit_ok e r ''token_issue'' [me, grant, (''scope'', Str scope)] s1))))"

section \<open>The endpoint\<close>

definition handleToken :: "env \<Rightarrow> http_request \<Rightarrow> st \<Rightarrow> response \<times> st" where
  "handleToken e r s =
     (let form = form_get r maxTokenBodyBytes in
      if \<not> form_ok r maxTokenBodyBytes then (tokenError ''invalid_request'' ''bad form'', s)
      else case authenticateClientRateLimited e r form s of
          (Inl err, s1) \<Rightarrow>
            let s2 = set_header ''WWW-Authenticate'' ''Basic realm=\"token\"'' s1 in
            (case err of
               ClientAuthRateLimited retry \<Rightarrow>
                 (tokenErrorStatus 429 ''invalid_client'' ''too many client authentication attempts'',
                  writeRetryAfter retry s2)
             | _ \<Rightarrow> (tokenErrorStatus 401 ''invalid_client'' (client_auth_text err), s2))
        | (Inr client, s1) \<Rightarrow>
            if form ''grant_type'' = ''authorization_code'' then tokenAuthorizationCode e r form client s1
            else if form ''grant_type'' = ''refresh_token'' then tokenRefresh e r form client s1
            else if form ''grant_type'' = ''client_credentials'' then tokenClientCredentials e r form client s1
            else (tokenError ''unsupported_grant_type'' ''unsupported grant_type'', s1))"

section \<open>Facts\<close>

text \<open>The client that the endpoint authenticated; only the limiter of the endpoint changes.\<close>

definition authenticated :: "env \<Rightarrow> http_request \<Rightarrow> (string \<Rightarrow> string) \<Rightarrow> st \<Rightarrow> Client \<Rightarrow> bool" where
  "authenticated e r form s client =
     (\<exists>cid secret. (cid, secret) = (case r_BasicAuth r of Some p \<Rightarrow> p
                        | None \<Rightarrow> (form ''client_id'', form ''client_secret'')) \<and>
        cid \<noteq> [] \<and> lookupClient e s cid = Some client \<and>
        (c_Public client \<or> clientSecretMatches e client secret))"

lemma authenticateClientRateLimited_frame:
  "authenticateClientRateLimited e r form s = (x, s') \<Longrightarrow> s' = s\<lparr>st_token := st_token s'\<rparr>"
  by (auto simp: authenticateClientRateLimited_def Let_def split: prod.splits if_splits sum.splits)

lemma lookupClient_token [simp]: "lookupClient e (s\<lparr>st_token := l\<rparr>) = lookupClient e s"
  by (rule lookupClient_cong) simp

lemma authenticateClientRateLimited_sound:
  "authenticateClientRateLimited e r form s = (Inr client, s') \<Longrightarrow> authenticated e r form s client"
  by (auto simp: authenticateClientRateLimited_def authenticateClient_def authenticated_def Let_def
      split: prod.splits if_splits sum.splits option.splits)

text \<open>What issuing tokens stores, and which tokens the answer has.\<close>

lemma PutRefreshToken_db:
  "PutRefreshToken key rt d = (x, d') \<Longrightarrow> d' = d \<or> d' = d\<lparr>db_refreshTokens := bput key rt (db_refreshTokens d)\<rparr>"
  by (auto simp: PutRefreshToken_def db_update_def putJSON_def split: if_splits)

lemma issueUserTokens_db:
  assumes "issueUserTokens e u c sc nonce at amr inc s = (x, s')"
  shows "st_db s' = (st_db s)\<lparr>db_refreshTokens := db_refreshTokens (st_db s')\<rparr> \<and>
         (\<not> inc \<longrightarrow> st_db s' = st_db s)"
proof -
  have e: "\<And>n x s s1. randomB64 e n s = (x, s1) \<Longrightarrow> st_db s1 = st_db s"
    using effects_db(3) by (metis snd_conv)
  show ?thesis
    using assms
    by (auto simp: issueUserTokens_def Let_def on_db_eq dest!: e PutRefreshToken_db
        split: prod.splits sum.splits if_splits)
qed

lemma issueUserTokens_resp:
  assumes "issueUserTokens e u c sc nonce at amr inc s = (Inr resp, s')"
  shows "(resp ''id_token'' \<noteq> None \<longleftrightarrow> scopeIncludes sc scopeOpenID) \<and>
         (resp ''refresh_token'' \<noteq> None \<longleftrightarrow> inc) \<and> resp ''scope'' = Some (JStr sc)"
  using assms
  by (auto simp: issueUserTokens_def Let_def split: prod.splits sum.splits if_splits)

lemma status_codes [simp]:
  "tokenServerError \<noteq> Resp 200 b" "tokenError c d \<noteq> Resp 200 b"
  "Resp 200 b \<noteq> tokenServerError" "Resp 200 b \<noteq> tokenError c d"
  "writeJSON 200 m = Resp 200 (JsonBody m)"
  by (simp_all add: tokenServerError_def tokenError_def tokenErrorStatus_def writeJSON_def)

lemma handleToken_grant:
  assumes "handleToken e r s = (Resp 200 b, s')" and "form = form_get r maxTokenBodyBytes"
  obtains client s1 where "authenticated e r form s client" "s1 = s\<lparr>st_token := st_token s1\<rparr>"
    "form ''grant_type'' = ''authorization_code'' \<Longrightarrow> tokenAuthorizationCode e r form client s1 = (Resp 200 b, s')"
    "form ''grant_type'' = ''refresh_token'' \<Longrightarrow> tokenRefresh e r form client s1 = (Resp 200 b, s')"
    "form ''grant_type'' = ''client_credentials'' \<Longrightarrow> tokenClientCredentials e r form client s1 = (Resp 200 b, s')"
proof -
  obtain x s1 where a: "authenticateClientRateLimited e r form s = (x, s1)" by fastforce
  have "\<exists>client. x = Inr client"
    using assms a by (auto simp: handleToken_def tokenErrorStatus_def writeJSON_def Let_def
        split: if_splits sum.splits client_auth_error.splits)
  then obtain client where x: "x = Inr client" ..
  show thesis
    using that [OF authenticateClientRateLimited_sound authenticateClientRateLimited_frame] a x assms
    by (auto simp: handleToken_def Let_def split: if_splits)
qed

section \<open>Properties of the code grant\<close>

text \<open>
  C1. The code grant: the token endpoint answers 200 only to an authenticated client that presents
  a stored, unexpired code that was issued to it for the same redirect URI, with the verifier of
  the code's PKCE challenge if it has one.  The code is gone afterwards.  The answer has an ID
  token exactly for the scope \<open>openid\<close>, and a refresh token exactly for \<open>offline_access\<close> with a
  client that may have one; without one no refresh token is stored.
\<close>

theorem code_grant_sound:
  assumes "handleToken e r s = (Resp 200 b, s')" and "form = form_get r maxTokenBodyBytes"
    and "form ''grant_type'' = ''authorization_code''" and "key = hash_secret e (form ''code'')"
  shows "\<exists>client ac resp. authenticated e r form s client \<and> code_at (st_db s) key = Some (Json ac) \<and>
     e_now e \<le> ac_ExpiresAt ac \<and> ac_ClientID ac = c_ClientID client \<and>
     ac_RedirectURI ac = form ''redirect_uri'' \<and>
     (ac_CodeChallenge ac \<noteq> [] \<longrightarrow> verifyPKCE (g_sha256 (e_lib e)) (ac_CodeChallenge ac)
        (ac_CodeChallengeMethod ac) (form ''code_verifier'')) \<and>
     code_at (st_db s') key = None \<and> b = JsonBody resp \<and>
     (resp ''id_token'' \<noteq> None \<longleftrightarrow> scopeIncludes (ac_Scope ac) scopeOpenID) \<and>
     (resp ''refresh_token'' \<noteq> None \<longleftrightarrow>
        c_AllowOfflineAccess client \<and> scopeIncludes (ac_Scope ac) scopeOfflineAccess) \<and>
     (resp ''refresh_token'' = None \<longrightarrow> db_refreshTokens (st_db s') = db_refreshTokens (st_db s))"
proof -
  obtain client s1 where a: "authenticated e r form s client" and s1: "s1 = s\<lparr>st_token := st_token s1\<rparr>"
    and t: "tokenAuthorizationCode e r form client s1 = (Resp 200 b, s')"
    using handleToken_grant [OF assms(1,2)] assms(3) by metis
  have d1: "st_db s1 = st_db s" by (subst s1) simp
  obtain x s2 where c: "on_db (ConsumeAuthCode key) s1 = (x, s2)" by fastforce
  let ?inc = "\<lambda>ac. c_AllowOfflineAccess client \<and> scopeIncludes (ac_Scope ac) scopeOfflineAccess"
  from t c obtain ac resp s3 where ac: "x = Inr (Some ac)" "e_now e \<le> ac_ExpiresAt ac"
    "ac_ClientID ac = c_ClientID client" "ac_RedirectURI ac = form ''redirect_uri''"
    "ac_CodeChallenge ac \<noteq> [] \<longrightarrow> verifyPKCE (g_sha256 (e_lib e)) (ac_CodeChallenge ac)
        (ac_CodeChallengeMethod ac) (form ''code_verifier'')"
    and i: "issueUserTokens e (ac_UserID ac) (c_ClientID client) (ac_Scope ac) (ac_Nonce ac)
        (ac_AuthTime ac) (ac_AMR ac) (?inc ac) s2 = (Inr resp, s3)"
    and s': "st_db s' = st_db s3" and b: "b = JsonBody resp"
    by (auto simp: tokenAuthorizationCode_def assms(4) [symmetric] Let_def
        split: sum.splits prod.splits option.splits if_splits)
  have "code_at (st_db s) key = Some (Json ac)"
    and s2: "st_db s2 = (st_db s)\<lparr>db_authCodes := bdel key (db_authCodes (st_db s))\<rparr>"
    using c ac(1) d1 by (auto simp: on_db_eq db_simps)
  moreover have "code_at (st_db s') key = None"
    by (simp add: s', subst conjunct1 [OF issueUserTokens_db [OF i]], simp add: s2 bget_bdel)
  moreover note resp = issueUserTokens_resp [OF i]
  moreover have "resp ''refresh_token'' = None \<longrightarrow> db_refreshTokens (st_db s') = db_refreshTokens (st_db s)"
    using issueUserTokens_db [OF i] resp s2 s' by auto
  ultimately show ?thesis
    using a ac(2-5) b by (intro exI [of _ client] exI [of _ ac] exI [of _ resp]) simp
qed

text \<open>
  Any attempt to redeem a code uses it up: whoever presents an existing code, with the right
  client, redirect URI and verifier or not, leaves the store without it, and the same attempt
  made again is refused.
\<close>

theorem code_attempt_burns:
  assumes "tokenAuthorizationCode e r form client s = (resp, s')"
    and "code_at (st_db s) (hash_secret e (form ''code'')) = Some (Json ac)" and "db_open (st_db s)"
    and "e_lib e2 = e_lib e"
  shows "code_at (st_db s') (hash_secret e (form ''code'')) = None \<and>
         fst (tokenAuthorizationCode e2 r2 form client2 s') \<noteq> Resp 200 b"
proof -
  let ?key = "hash_secret e (form ''code'')"
  define s1 where "s1 = s\<lparr>st_db := (st_db s)\<lparr>db_authCodes := bdel ?key (db_authCodes (st_db s))\<rparr>\<rparr>"
  have c: "on_db (ConsumeAuthCode ?key) s = (Inr (Some ac), s1)"
    using assms(2,3) by (simp add: on_db_eq db_simps s1_def)
  have "db_authCodes (st_db s') = db_authCodes (st_db s1)"
    using assms(1) c
    by (auto simp: tokenAuthorizationCode_def token_audit_fail_def Let_def
        split: sum.splits prod.splits option.splits if_splits
        dest!: issueUserTokens_db [THEN conjunct1, THEN arg_cong, of _ _ _ _ _ _ _ _ _ _ _ db_authCodes])
  then have gone: "code_at (st_db s') ?key = None" by (simp add: s1_def bget_bdel)
  moreover have "hash_secret e2 (form ''code'') = ?key" using assms(4) by (simp add: hash_secret_def)
  moreover obtain y s2 where y: "on_db (ConsumeAuthCode ?key) s' = (y, s2)" by fastforce
  moreover have "y \<noteq> Inr (Some a)" for a using y gone by (auto simp: on_db_eq db_simps)
  ultimately show ?thesis
    by (auto simp: tokenAuthorizationCode_def Let_def split: sum.splits option.splits)
qed

section \<open>Properties of the refresh grant\<close>

abbreviation refresh_at :: "Store \<Rightarrow> string \<Rightarrow> RefreshToken cell option" where
  "refresh_at s k \<equiv> bget k (db_refreshTokens s)"

abbreviation tomb_at :: "Store \<Rightarrow> string \<Rightarrow> ConsumedRefreshToken cell option" where
  "tomb_at s k \<equiv> bget k (db_consumedRefreshTokens s)"

lemma newRefreshRotation_eq:
  assumes "newRefreshRotation e old cid sc s = (rot, s1)"
  shows "st_db s1 = st_db s \<and> rr_key rot = hash_secret e (rr_plain rot) \<and>
    rt_UserID (rr_next rot) = rt_UserID old \<and> rt_ClientID (rr_next rot) = cid \<and> rt_Scope (rr_next rot) = sc \<and>
    rt_AuthTime (rr_next rot) = rt_AuthTime old \<and> crt_ClientID (rr_consumed rot) = cid \<and>
    crt_FamilyID (rr_consumed rot) = rt_FamilyID (rr_next rot) \<and>
    crt_ExpiresAt (rr_consumed rot) = rt_ExpiresAt old \<and>
    (rt_FamilyID old \<noteq> [] \<longrightarrow> rt_FamilyID (rr_next rot) = rt_FamilyID old)"
  using assms by (auto simp: newRefreshRotation_def randomB64_def split: if_splits)

lemma rejectConsumed_None:
  assumes "rejectConsumedRefreshToken e r client key s = (Inr None, s1)"
  shows "s1 = s \<and> (\<forall>t. tomb_at (st_db s) key = Some (Json t) \<longrightarrow> crt_ExpiresAt t < e_now e)"
  using assms
  by (auto simp: rejectConsumedRefreshToken_def store_read split: sum.splits option.splits if_splits prod.splits)

lemma tokenRefresh_ok:
  assumes "tokenRefresh e r form client s = (Resp 200 b, s')" and "key = hash_secret e (form ''refresh_token'')"
  obtains old scope rot s1 resp where
    "\<forall>t. tomb_at (st_db s) key = Some (Json t) \<longrightarrow> crt_ExpiresAt t < e_now e"
    "refresh_at (st_db s) key = Some (Json old)" "e_now e \<le> rt_ExpiresAt old"
    "rt_ClientID old = c_ClientID client" "set (Fields scope) \<subseteq> set (Fields (rt_Scope old))"
    "newRefreshRotation e old (c_ClientID client) scope s = (rot, s1)"
    "RotateRefreshToken key (rr_key rot) (rr_next rot) (rr_consumed rot) (st_db s) = (Inr True, st_db s')"
    "b = JsonBody resp" "resp ''refresh_token'' = Some (JStr (rr_plain rot))" "resp ''scope'' = Some (JStr scope)"
proof -
  let ?req = "TrimSpace (form ''scope'')"
  from assms obtain s1 where j: "rejectConsumedRefreshToken e r client key s = (Inr None, s1)"
    by (auto simp: tokenRefresh_def rejectConsumedRefreshToken_def handleRefreshTokenReuse_def Let_def
        split: sum.splits option.splits if_splits prod.splits)
  note n = rejectConsumed_None [OF j]
  from assms(1) j n obtain old where g: "GetRefreshToken key (st_db s) = Inr (Some old)"
    by (auto simp: tokenRefresh_def assms(2) [symmetric] Let_def split: sum.splits option.splits)
  define scope where "scope = (if ?req \<noteq> [] then ?req else rt_Scope old)"
  from assms(1) j n g have ok: "e_now e \<le> rt_ExpiresAt old" "rt_ClientID old = c_ClientID client"
    "?req = [] \<or> scopeSubset ?req (rt_Scope old)"
    and rr: "refresh_rotate e r client key old scope s = (Resp 200 b, s')"
    by (auto simp: tokenRefresh_def assms(2) [symmetric] scope_def rejectExpiredOrMismatchedRefreshToken_def
        rejectRefreshScopeExpansion_def Let_def split: sum.splits option.splits if_splits prod.splits)
  obtain rot s2 where rot: "newRefreshRotation e old (c_ClientID client) scope s = (rot, s2)" by fastforce
  have s2: "st_db s2 = st_db s" using newRefreshRotation_eq [OF rot] by simp
  from rr rot obtain s3 resp s4 where
    w: "on_db (RotateRefreshToken key (rr_key rot) (rr_next rot) (rr_consumed rot)) s2 = (Inr True, s3)"
    and i: "issueUserTokens e (rt_UserID old) (c_ClientID client) scope [] (rt_AuthTime old) (rt_AMR old) False s3 = (Inr resp, s4)"
    and b: "b = JsonBody (resp(''refresh_token'' \<mapsto> JStr (rr_plain rot)))" and s4: "st_db s' = st_db s4"
    by (auto simp: refresh_rotate_def Let_def split: sum.splits bool.splits prod.splits)
  have "st_db s' = st_db s3" using issueUserTokens_db [OF i] s4 by simp
  then have "RotateRefreshToken key (rr_key rot) (rr_next rot) (rr_consumed rot) (st_db s) = (Inr True, st_db s')"
    using w s2 by (auto simp: on_db_eq)
  moreover have "set (Fields scope) \<subseteq> set (Fields (rt_Scope old))"
    using ok(3) by (auto simp: scope_def scopeSubset_def)
  ultimately show thesis
    using that [OF _ _ ok(1,2) _ rot _ b] n g issueUserTokens_resp [OF i] by (auto simp: store_read)
qed

text \<open>
  C33. The refresh grant: the endpoint answers 200 only to the authenticated owner of an active,
  unexpired token that is not known as used up.  The scope of the answer is within the scope of
  the old token, the new token belongs to the same user, client and family, the old one leaves a
  tombstone of that family with its own expiry and, unless the hash of the new token collides
  with it, is no longer active; no other active token changes.
\<close>

theorem refresh_grant_sound:
  assumes "handleToken e r s = (Resp 200 b, s')" and "form = form_get r maxTokenBodyBytes"
    and "form ''grant_type'' = ''refresh_token''" and "key = hash_secret e (form ''refresh_token'')"
  shows "\<exists>client old nxt tomb resp rt scope. authenticated e r form s client \<and>
     refresh_at (st_db s) key = Some (Json old) \<and> e_now e \<le> rt_ExpiresAt old \<and>
     rt_ClientID old = c_ClientID client \<and>
     (\<forall>t. tomb_at (st_db s) key = Some (Json t) \<longrightarrow> crt_ExpiresAt t < e_now e) \<and>
     b = JsonBody resp \<and> resp ''refresh_token'' = Some (JStr rt) \<and> resp ''scope'' = Some (JStr scope) \<and>
     set (Fields scope) \<subseteq> set (Fields (rt_Scope old)) \<and>
     refresh_at (st_db s') (hash_secret e rt) = Some (Json nxt) \<and> rt_Scope nxt = scope \<and>
     rt_UserID nxt = rt_UserID old \<and> rt_ClientID nxt = rt_ClientID old \<and>
     (rt_FamilyID old \<noteq> [] \<longrightarrow> rt_FamilyID nxt = rt_FamilyID old) \<and>
     tomb_at (st_db s') key = Some (Json tomb) \<and> crt_FamilyID tomb = rt_FamilyID nxt \<and>
     crt_ExpiresAt tomb = rt_ExpiresAt old \<and>
     (hash_secret e rt \<noteq> key \<longrightarrow> refresh_at (st_db s') key = None) \<and>
     (\<forall>k. k \<noteq> key \<and> k \<noteq> hash_secret e rt \<longrightarrow> refresh_at (st_db s') k = refresh_at (st_db s) k)"
proof -
  obtain client s1 where a: "authenticated e r form s client" and s1: "s1 = s\<lparr>st_token := st_token s1\<rparr>"
    and t: "tokenRefresh e r form client s1 = (Resp 200 b, s')"
    using handleToken_grant [OF assms(1,2)] assms(3) by metis
  have d: "st_db s1 = st_db s" by (subst s1) simp
  obtain old scope rot s2 resp where
    o: "\<forall>t. tomb_at (st_db s) key = Some (Json t) \<longrightarrow> crt_ExpiresAt t < e_now e"
      "refresh_at (st_db s) key = Some (Json old)" "e_now e \<le> rt_ExpiresAt old"
      "rt_ClientID old = c_ClientID client" "set (Fields scope) \<subseteq> set (Fields (rt_Scope old))"
    and rot: "newRefreshRotation e old (c_ClientID client) scope s1 = (rot, s2)"
    and w: "RotateRefreshToken key (rr_key rot) (rr_next rot) (rr_consumed rot) (st_db s) = (Inr True, st_db s')"
    and b: "b = JsonBody resp" "resp ''refresh_token'' = Some (JStr (rr_plain rot))" "resp ''scope'' = Some (JStr scope)"
    by (rule tokenRefresh_ok [OF t assms(4), unfolded d]) (rule that)
  note n = newRefreshRotation_eq [OF rot]
  note g = rotate_bget [OF w]
  show ?thesis
    using a o b n g
    by (intro exI [of _ client] exI [of _ old] exI [of _ "rr_next rot"] exI [of _ "rr_consumed rot"]
        exI [of _ resp] exI [of _ "rr_plain rot"] exI [of _ scope]) simp
qed

lemma reuse_revokes:
  assumes "store_ok d" and "db_open d" and "decode_all (db_refreshTokens d) \<noteq> None" and "d = st_db s"
    and "tomb_at d (hash_secret e (form ''refresh_token'')) = Some (Json t)"
    and "e_now e \<le> crt_ExpiresAt t" and "crt_ClientID t = c_ClientID client" and "crt_FamilyID t \<noteq> []"
  shows "\<exists>s'. tokenRefresh e r form client s = (tokenError ''invalid_grant'' ''invalid refresh_token'', s') \<and>
     (\<forall>k rt. refresh_at (st_db s') k = Some (Json rt) \<longleftrightarrow>
        refresh_at d k = Some (Json rt) \<and> rt_FamilyID rt \<noteq> crt_FamilyID t)"
proof -
  let ?f = "crt_FamilyID t"
  from assms(3) obtain es where es: "decode_all (db_refreshTokens d) = Some es" by blast
  obtain d' where d': "RevokeRefreshTokenFamily ?f d = (Inr (), d')"
    using assms(2,8) es by (simp add: RevokeRefreshTokenFamily_def db_update_def)
  have "refresh_at d' k = Some (Json rt) \<longleftrightarrow> refresh_at d k = Some (Json rt) \<and> rt_FamilyID rt \<noteq> ?f" for k rt
    using revoke_family_bget [OF assms(1) d' assms(8), of k]
    by (auto split: option.splits cell.splits if_splits)
  then show ?thesis
    using assms(2,4-7) d'
    by (simp add: tokenRefresh_def rejectConsumedRefreshToken_def GetConsumedRefreshToken_def db_view_def
        getJSON_def handleRefreshTokenReuse_def on_db_def Let_def)
qed

text \<open>
  C2. Token theft is detected: once a refresh token has been rotated, presenting it again, at any
  time until it expires, by its client, is refused and takes down its whole family, so that the
  token that the rotation handed out is dead too; tokens of other families stay.
\<close>

theorem refresh_theft_detected:
  assumes "tokenRefresh e r form client s = (Resp 200 (JsonBody resp), s1)"
    and "resp ''refresh_token'' = Some (JStr rt)" and "key = hash_secret e (form ''refresh_token'')"
    and "refresh_at (st_db s) key = Some (Json old)" and "rt_FamilyID old \<noteq> []"
    and "hash_secret e rt \<noteq> key"
    and "store_ok (st_db s1)" and "decode_all (db_refreshTokens (st_db s1)) \<noteq> None"
    and "e_lib e2 = e_lib e" and "e_now e2 \<le> rt_ExpiresAt old"
  shows "\<exists>s2. tokenRefresh e2 r2 form client s1 = (tokenError ''invalid_grant'' ''invalid refresh_token'', s2) \<and>
     (\<forall>k nxt. refresh_at (st_db s2) k = Some (Json nxt) \<longleftrightarrow>
        refresh_at (st_db s1) k = Some (Json nxt) \<and> rt_FamilyID nxt \<noteq> rt_FamilyID old) \<and>
     (\<exists>nxt. refresh_at (st_db s1) (hash_secret e rt) = Some (Json nxt) \<and> rt_FamilyID nxt = rt_FamilyID old)"
proof -
  obtain old' scope rot s0 resp' where o: "refresh_at (st_db s) key = Some (Json old')"
    "newRefreshRotation e old' (c_ClientID client) scope s = (rot, s0)"
    "JsonBody resp = JsonBody resp'" "resp' ''refresh_token'' = Some (JStr (rr_plain rot))"
    and w: "RotateRefreshToken key (rr_key rot) (rr_next rot) (rr_consumed rot) (st_db s) = (Inr True, st_db s1)"
    by (rule tokenRefresh_ok [OF assms(1,3)]) (rule that)
  have rot: "newRefreshRotation e old (c_ClientID client) scope s = (rot, s0)" and rt: "rr_plain rot = rt"
    using o assms(2,4) by simp_all
  note n = newRefreshRotation_eq [OF rot] and g = rotate_bget [OF w]
  have k2: "hash_secret e2 (form ''refresh_token'') = key" using assms(3,9) by (simp add: hash_secret_def)
  have open1: "db_open (st_db s1)" using w by (auto simp: db_simps)
  have fam: "crt_FamilyID (rr_consumed rot) = rt_FamilyID old" using n assms(5) by simp
  have "\<exists>s2. tokenRefresh e2 r2 form client s1 = (tokenError ''invalid_grant'' ''invalid refresh_token'', s2) \<and>
     (\<forall>k nxt. refresh_at (st_db s2) k = Some (Json nxt) \<longleftrightarrow>
        refresh_at (st_db s1) k = Some (Json nxt) \<and> rt_FamilyID nxt \<noteq> crt_FamilyID (rr_consumed rot))"
  proof (rule reuse_revokes [OF assms(7) open1 assms(8) refl])
    show "tomb_at (st_db s1) (hash_secret e2 (form ''refresh_token'')) = Some (Json (rr_consumed rot))"
      using g(2) [of key] unfolding k2 by simp
  qed (use n assms(5,10) in simp_all)
  moreover have "refresh_at (st_db s1) (hash_secret e rt) = Some (Json (rr_next rot))"
    using g(1) [of "rr_key rot"] n rt by simp
  moreover have "rt_FamilyID (rr_next rot) = rt_FamilyID old" using n assms(5) by simp
  ultimately show ?thesis unfolding fam by blast
qed

text \<open>
  A client cannot burn another client's refresh token: if the presented token, active or used
  up, belongs to another client and has not expired, the request is refused and the database
  stays exactly as it was, so neither the token nor its family is revoked.
\<close>

theorem refresh_wrong_client_harmless:
  assumes "db_open (st_db s)" and "key = hash_secret e (form ''refresh_token'')"
    and "(\<exists>t. tomb_at (st_db s) key = Some (Json t) \<and> e_now e \<le> crt_ExpiresAt t \<and> crt_ClientID t \<noteq> c_ClientID client) \<or>
         (\<exists>old. tomb_at (st_db s) key = None \<and> refresh_at (st_db s) key = Some (Json old) \<and>
            e_now e \<le> rt_ExpiresAt old \<and> rt_ClientID old \<noteq> c_ClientID client)"
  shows "\<exists>s'. tokenRefresh e r form client s = (tokenError ''invalid_grant'' ''invalid refresh_token'', s') \<and>
              st_db s' = st_db s"
  using assms(3)
proof (elim disjE exE conjE)
  fix t
  assume "tomb_at (st_db s) key = Some (Json t)" "e_now e \<le> crt_ExpiresAt t" "crt_ClientID t \<noteq> c_ClientID client"
  then show ?thesis
    using assms(1,2)
    by (simp add: tokenRefresh_def rejectConsumedRefreshToken_def GetConsumedRefreshToken_def db_view_def
        getJSON_def handleRefreshTokenReuse_def Let_def)
next
  fix old
  assume "tomb_at (st_db s) key = None" "refresh_at (st_db s) key = Some (Json old)"
    "e_now e \<le> rt_ExpiresAt old" "rt_ClientID old \<noteq> c_ClientID client"
  then show ?thesis
    using assms(1,2)
    by (simp add: tokenRefresh_def rejectConsumedRefreshToken_def GetConsumedRefreshToken_def
        GetRefreshToken_def db_view_def getJSON_def rejectExpiredOrMismatchedRefreshToken_def
        token_audit_fail_def Let_def)
qed

section \<open>Evaluating the properties\<close>

definition demo_token_request :: "string \<Rightarrow> string \<Rightarrow> http_request" where
  "demo_token_request grant secret = demo_request\<lparr>r_Form := (\<lambda>_. (True, (\<lambda>_. [])(''client_id'' := ''web'',
     ''grant_type'' := grant, ''code'' := secret, ''refresh_token'' := secret, ''redirect_uri'' := ''https://a/cb'')))\<rparr>"

abbreviation demo_token_form :: "string \<Rightarrow> string \<Rightarrow> string \<Rightarrow> string" where
  "demo_token_form grant secret \<equiv> form_get (demo_token_request grant secret) maxTokenBodyBytes"

definition demo_token_st :: st where
  "demo_token_st = demo_st\<lparr>st_db := empty_Store\<lparr>
     db_authCodes := [(''63'', Json (demo_code\<lparr>ac_ExpiresAt := 2000 * Second\<rparr>))],
     db_refreshTokens := [(''72'', Json ((demo_refresh ''f'')\<lparr>rt_ExpiresAt := 2000 * Second, rt_Scope := ''openid''\<rparr>))]\<rparr>\<rparr>"

lemma demo_token_form_sel [simp]:
  "form_ok (demo_token_request g c) n" "r_BasicAuth (demo_token_request g c) = None"
  "form_get (demo_token_request g c) n k = (if k = ''client_id'' then ''web'' else if k = ''grant_type'' then g
     else if k = ''code'' then c else if k = ''refresh_token'' then c
     else if k = ''redirect_uri'' then ''https://a/cb'' else [])"
  by (simp_all add: demo_token_request_def demo_request_def)

lemma demo_auth:
  "authenticateClientRateLimited demo_env (demo_token_request g c) (demo_token_form g c) (demo_st\<lparr>st_db := d\<rparr>) =
     (Inr demo_client, demo_st\<lparr>st_db := d\<rparr>)"
  by (simp add: authenticateClientRateLimited_def clientAuthRateKey_def clientIDFromRequest_def allow_def
      demo_limiter_def newLoginRateLimiter_def recordSuccess_def authenticateClient_def lookupClient_def
      demo_st_def fun_upd_idem Let_def)

lemma demo_signs: "\<exists>t. signJWT demo_env c = Inr t"
  by (simp add: signJWT_def Let_def)

lemma demo_keys: "hash_secret demo_env ''c'' = ''63''" "hash_secret demo_env ''r'' = ''72''"
  by (simp_all add: hash_secret_def) code_simp+

lemma demo_issue:
  "\<exists>resp s'. issueUserTokens demo_env u c sc nonce at amr False s = (Inr resp, s')"
proof -
  obtain a where a: "signJWT demo_env (addScopedProfileClaims demo_env (s\<lparr>st_drawn := st_drawn s + 1\<rparr>) (GetUser u (st_db s)) sc c
      (access_claims demo_env u c sc (base64RawURL [word_of_nat (st_drawn s), 16]))) = Inr a"
    using demo_signs by blast
  obtain t where "signJWT demo_env (addScopedProfileClaims demo_env (s\<lparr>st_drawn := st_drawn s + 1\<rparr>) (GetUser u (st_db s)) sc c
      (id_claims demo_env u c nonce at amr a)) = Inr t" using demo_signs by blast
  with a show ?thesis by (simp add: issueUserTokens_def randomB64_def Let_def)
qed

lemma demo_code_grant:
  "\<exists>b s'. tokenAuthorizationCode demo_env (demo_token_request ''authorization_code'' ''c'')
     (demo_token_form ''authorization_code'' ''c'') demo_client demo_token_st = (Resp 200 b, s')"
proof -
  let ?s = "demo_st\<lparr>st_db := (st_db demo_token_st)\<lparr>db_authCodes := []\<rparr>\<rparr>"
  have c: "on_db (ConsumeAuthCode ''63'') demo_token_st =
      (Inr (Some (demo_code\<lparr>ac_ExpiresAt := 2000 * Second\<rparr>)), ?s)"
    by (simp add: on_db_eq db_simps demo_token_st_def bget_def bdel_def empty_Store_def)
  obtain resp s' where "issueUserTokens demo_env ''alice'' ''web'' ''openid'' [] 0 [] False ?s = (Inr resp, s')"
    using demo_issue by blast
  then show ?thesis by (simp add: tokenAuthorizationCode_def demo_keys c Let_def)
qed

theorem code_grant_sound_witness:
  "\<exists>b s'. handleToken demo_env (demo_token_request ''authorization_code'' ''c'') demo_token_st = (Resp 200 b, s') \<and>
     code_at (st_db s') ''63'' = None"
proof -
  let ?r = "demo_token_request ''authorization_code'' ''c''"
  have "authenticateClientRateLimited demo_env ?r (demo_token_form ''authorization_code'' ''c'') demo_token_st =
      (Inr demo_client, demo_token_st)" unfolding demo_token_st_def by (rule demo_auth)
  then obtain b s' where h: "handleToken demo_env ?r demo_token_st = (Resp 200 b, s')"
    using demo_code_grant by (auto simp: handleToken_def Let_def)
  show ?thesis using code_grant_sound [OF h refl _ refl] h by (auto simp: demo_keys)
qed

theorem code_attempt_burns_witness:
  "\<exists>b s'. tokenAuthorizationCode demo_env (demo_token_request ''authorization_code'' ''c'')
       (demo_token_form ''authorization_code'' ''c'') demo_client demo_token_st = (Resp 200 b, s') \<and>
     code_at (st_db s') ''63'' = None \<and>
     fst (tokenAuthorizationCode demo_env demo_request (demo_token_form ''authorization_code'' ''c'') demo_client s') \<noteq> Resp 200 b"
proof -
  let ?f = "demo_token_form ''authorization_code'' ''c''"
  obtain b s' where h: "tokenAuthorizationCode demo_env (demo_token_request ''authorization_code'' ''c'') ?f
      demo_client demo_token_st = (Resp 200 b, s')" using demo_code_grant by blast
  have k: "hash_secret demo_env (?f ''code'') = ''63''" by (simp add: demo_keys)
  have "code_at (st_db demo_token_st) (hash_secret demo_env (?f ''code'')) =
      Some (Json (demo_code\<lparr>ac_ExpiresAt := 2000 * Second\<rparr>))" "db_open (st_db demo_token_st)"
    unfolding k by (simp_all add: demo_token_st_def bget_def empty_Store_def)
  from code_attempt_burns [OF h this refl, of demo_request demo_client b, unfolded k] h show ?thesis by blast
qed

abbreviation demo_old :: RefreshToken where
  "demo_old \<equiv> (demo_refresh ''f'')\<lparr>rt_ExpiresAt := 2000 * Second, rt_Scope := ''openid''\<rparr>"

lemma demo_refresh_grant:
  "\<exists>resp s1. tokenRefresh demo_env r (demo_token_form ''refresh_token'' ''r'') demo_client demo_token_st =
     (Resp 200 (JsonBody (resp(''refresh_token'' \<mapsto> JStr ''ACA''))), s1) \<and>
     st_db s1 = (st_db demo_token_st)\<lparr>
       db_refreshTokens := [(''414341'', Json (demo_old\<lparr>rt_ExpiresAt := 1000 * Second + refresh_ttl demo_env, rt_Generation := 1\<rparr>))],
       db_consumedRefreshTokens := [(''72'', Json (demo_tomb\<lparr>crt_ExpiresAt := 2000 * Second\<rparr>))]\<rparr>"
proof -
  have k: "base64RawURL [0, 32] = ''ACA''" "hash_secret demo_env ''ACA'' = ''414341''"
    by (simp_all add: hash_secret_def) code_simp+
  have db: "db_open (st_db demo_token_st)" "db_refreshTokens (st_db demo_token_st) = [(''72'', Json demo_old)]"
    "db_consumedRefreshTokens (st_db demo_token_st) = []" "st_drawn demo_token_st = 0"
    by (simp_all add: demo_token_st_def empty_Store_def)
  define s2 where "s2 = demo_token_st\<lparr>st_drawn := 1, st_db := (st_db demo_token_st)\<lparr>
       db_refreshTokens := [(''414341'', Json (demo_old\<lparr>rt_ExpiresAt := 1000 * Second + refresh_ttl demo_env, rt_Generation := 1\<rparr>))],
       db_consumedRefreshTokens := [(''72'', Json (demo_tomb\<lparr>crt_ExpiresAt := 2000 * Second\<rparr>))]\<rparr>\<rparr>"
  obtain resp s3 where i: "issueUserTokens demo_env ''alice'' ''web'' ''openid'' [] 0 [] False s2 = (Inr resp, s3)"
    using demo_issue by blast
  have w: "refresh_rotate demo_env r demo_client ''72'' demo_old ''openid'' demo_token_st =
     (writeJSON 200 (resp(''refresh_token'' \<mapsto> JStr ''ACA'')),
      audit_ok demo_env r ''token_issue'' [(''client_id'', Str ''web''), (''user_id'', Str ''alice''),
        (''grant_type'', Str ''refresh_token''), (''scope'', Str ''openid''), (''refresh_token'', Flag True)] s3)"
    supply base64RawURL.simps [simp del]
    using i
    by (simp add: refresh_rotate_def newRefreshRotation_def randomB64_def on_db_def RotateRefreshToken_def db_update_def
        putJSON_def bget_def bdel_def db k wrap64_def s2_def)
  have "st_db s3 = st_db s2" using issueUserTokens_db [OF i] by simp
  moreover have "TrimSpace [] = []" by code_simp
  ultimately show ?thesis
    using i w
    by (intro exI [of _ resp]) (simp add: tokenRefresh_def demo_keys rejectConsumedRefreshToken_def GetConsumedRefreshToken_def
        GetRefreshToken_def db_view_def getJSON_def bget_def db rejectExpiredOrMismatchedRefreshToken_def
        rejectRefreshScopeExpansion_def s2_def Let_def)
qed

theorem refresh_grant_sound_witness:
  "\<exists>b s'. handleToken demo_env (demo_token_request ''refresh_token'' ''r'') demo_token_st = (Resp 200 b, s') \<and>
     (\<exists>tomb. tomb_at (st_db s') ''72'' = Some (Json tomb) \<and> crt_ExpiresAt tomb = 2000 * Second)"
proof -
  let ?r = "demo_token_request ''refresh_token'' ''r''"
  have "authenticateClientRateLimited demo_env ?r (demo_token_form ''refresh_token'' ''r'') demo_token_st =
      (Inr demo_client, demo_token_st)" unfolding demo_token_st_def by (rule demo_auth)
  then obtain b s' where h: "handleToken demo_env ?r demo_token_st = (Resp 200 b, s')"
    using demo_refresh_grant [of ?r] by (auto simp: handleToken_def Let_def)
  have k: "''72'' = hash_secret demo_env (demo_token_form ''refresh_token'' ''r'' ''refresh_token'')"
    by (simp add: demo_keys)
  have "refresh_at (st_db demo_token_st) ''72'' = Some (Json demo_old)"
    by (simp add: demo_token_st_def bget_def empty_Store_def)
  then show ?thesis using refresh_grant_sound [OF h refl _ k] h by auto
qed

theorem refresh_theft_detected_witness:
  "\<exists>s1 s2. refresh_at (st_db s1) ''414341'' \<noteq> None \<and>
     tokenRefresh demo_env demo_request (demo_token_form ''refresh_token'' ''r'') demo_client s1 =
       (tokenError ''invalid_grant'' ''invalid refresh_token'', s2) \<and>
     (\<forall>nxt. refresh_at (st_db s2) ''414341'' \<noteq> Some (Json nxt))"
proof -
  let ?f = "demo_token_form ''refresh_token'' ''r''"
  from demo_refresh_grant [of demo_request] obtain resp s1 where
    t: "tokenRefresh demo_env demo_request ?f demo_client demo_token_st =
      (Resp 200 (JsonBody (resp(''refresh_token'' \<mapsto> JStr ''ACA''))), s1)"
    and d: "st_db s1 = (st_db demo_token_st)\<lparr>
       db_refreshTokens := [(''414341'', Json (demo_old\<lparr>rt_ExpiresAt := 1000 * Second + refresh_ttl demo_env, rt_Generation := 1\<rparr>))],
       db_consumedRefreshTokens := [(''72'', Json (demo_tomb\<lparr>crt_ExpiresAt := 2000 * Second\<rparr>))]\<rparr>"
    by blast
  have k: "''72'' = hash_secret demo_env (?f ''refresh_token'')" "hash_secret demo_env ''ACA'' = ''414341''"
    by (simp add: demo_keys) (simp add: hash_secret_def, code_simp)
  have old: "refresh_at (st_db demo_token_st) ''72'' = Some (Json demo_old)"
    by (simp add: demo_token_st_def bget_def empty_Store_def)
  have ok: "store_ok (st_db s1)" "decode_all (db_refreshTokens (st_db s1)) \<noteq> None"
    unfolding d by (simp_all add: store_ok_def bucket_ok_def demo_token_st_def empty_Store_def)
  from refresh_theft_detected [OF t _ k(1) old _ _ ok refl, of "''ACA''" demo_request, unfolded k(2)]
  obtain s2 where "tokenRefresh demo_env demo_request ?f demo_client s1 =
       (tokenError ''invalid_grant'' ''invalid refresh_token'', s2)"
    and "\<forall>k nxt. refresh_at (st_db s2) k = Some (Json nxt) \<longleftrightarrow>
        refresh_at (st_db s1) k = Some (Json nxt) \<and> rt_FamilyID nxt \<noteq> ''f''"
    by (auto simp del: demo_token_form_sel)
  then show ?thesis
    by (intro exI [of _ s1] exI [of _ s2]) (auto simp: d bget_def simp del: demo_token_form_sel)
qed

theorem refresh_wrong_client_harmless_witness:
  "\<exists>s'. tokenRefresh demo_env demo_request (demo_token_form ''refresh_token'' ''r'') (demo_client\<lparr>c_ClientID := ''evil''\<rparr>)
       demo_token_st = (tokenError ''invalid_grant'' ''invalid refresh_token'', s') \<and> st_db s' = st_db demo_token_st"
proof (rule refresh_wrong_client_harmless)
  show "(\<exists>t. tomb_at (st_db demo_token_st) ''72'' = Some (Json t) \<and> e_now demo_env \<le> crt_ExpiresAt t \<and>
      crt_ClientID t \<noteq> c_ClientID (demo_client\<lparr>c_ClientID := ''evil''\<rparr>)) \<or>
    (\<exists>old. tomb_at (st_db demo_token_st) ''72'' = None \<and> refresh_at (st_db demo_token_st) ''72'' = Some (Json old) \<and>
      e_now demo_env \<le> rt_ExpiresAt old \<and> rt_ClientID old \<noteq> c_ClientID (demo_client\<lparr>c_ClientID := ''evil''\<rparr>))"
    by (simp add: demo_token_st_def bget_def empty_Store_def)
qed (simp_all add: demo_keys demo_token_st_def empty_Store_def)

end
