(* ===== verification/OAuth.thy ===== *)
theory OAuth
  imports Token
begin

text \<open>
  The other endpoints of \<^verbatim>\<open>handlers_oauth.go\<close>: authorize with its prompt and max_age handling,
  userinfo, introspection, revocation, and the app tokens.
\<close>

section \<open>The authorize endpoint\<close>

definition clientAllowsRedirect :: "Client \<Rightarrow> string \<Rightarrow> bool" where
  "clientAllowsRedirect c redirectURI = (redirectURI \<in> set (c_RedirectURIs c))"

definition authTimeStale :: "env \<Rightarrow> Session option \<Rightarrow> string \<Rightarrow> string + bool" where
  "authTimeStale e sess maxAgeRaw =
     (let raw = TrimSpace maxAgeRaw; bad = Inl ''max_age must be a non-negative integer'' in
      if raw = [] then Inr False
      else case Atoi raw of
          None \<Rightarrow> bad
        | Some maxAge \<Rightarrow>
            if maxAge < 0 then bad
            else case sess of
                None \<Rightarrow> Inr False
              | Some sess \<Rightarrow> Inr (time_sub (e_now e) (s_AuthTime sess) > dur maxAge Second))"

definition consentMissingForRequest :: "string \<Rightarrow> Client \<Rightarrow> string \<Rightarrow> st \<Rightarrow> store_error + bool" where
  "consentMissingForRequest userID client scope s =
     (if \<not> c_RequireConsent client then Inr False
      else case GetConsent userID (c_ClientID client) (st_db s) of
          Inl err \<Rightarrow> Inl err
        | Inr None \<Rightarrow> Inr True
        | Inr (Some rec) \<Rightarrow> Inr (\<not> consentCovers rec (requestedScopeList scope)))"

text \<open>What \<^verbatim>\<open>checkPrompt\<close> decides: an OAuth error to redirect with, or to go on.\<close>

datatype prompt_decision = PromptError string string | GoOn (forceLogin: bool)

definition checkPrompt ::
  "env \<Rightarrow> string \<Rightarrow> string \<Rightarrow> Session option \<Rightarrow> Client \<Rightarrow> string \<Rightarrow> st \<Rightarrow> store_error + prompt_decision" where
  "checkPrompt e promptRaw maxAgeRaw sess client scope s =
     (let prompts = set (Fields promptRaw) in
      if ''none'' \<in> prompts \<and> card prompts > 1 then
        Inr (PromptError ''invalid_request'' ''prompt=none cannot be combined with other prompt values'')
      else case authTimeStale e sess maxAgeRaw of
          Inl err \<Rightarrow> Inr (PromptError ''invalid_request'' err)
        | Inr stale \<Rightarrow>
            if ''none'' \<in> prompts then
              (case sess of
                 None \<Rightarrow> Inr (PromptError ''login_required'' ''prompt=none but the user is not authenticated within max_age'')
               | Some se \<Rightarrow>
                   if stale then
                     Inr (PromptError ''login_required'' ''prompt=none but the user is not authenticated within max_age'')
                   else (case consentMissingForRequest (s_UserID se) client scope s of
                           Inl err \<Rightarrow> Inl err
                         | Inr True \<Rightarrow> Inr (PromptError ''consent_required'' ''prompt=none but consent has not been granted'')
                         | Inr False \<Rightarrow> Inr (GoOn False)))
            else Inr (GoOn (''login'' \<in> prompts \<or> stale)))"

definition authorizePKCEError :: "Client \<Rightarrow> string \<Rightarrow> string \<Rightarrow> string" where
  "authorizePKCEError client challenge meth =
     (if (c_RequirePKCE client \<or> c_Public client) \<and> (challenge = [] \<or> meth \<noteq> ''S256'') then ''PKCE S256 is required''
      else if challenge \<noteq> [] \<and> meth \<noteq> ''S256'' then ''only PKCE S256 is accepted''
      else [])"

definition putAuthRequest :: "AuthorizationRequest \<Rightarrow> st \<Rightarrow> (store_error + unit) \<times> st" where
  "putAuthRequest ar s = on_db (PutAuthRequest ar) s"

definition challenge_method :: "http_request \<Rightarrow> string" where
  "challenge_method r =
     (if r_Query r ''code_challenge_method'' = [] \<and> r_Query r ''code_challenge'' \<noteq> [] then ''S256''
      else r_Query r ''code_challenge_method'')"

definition new_auth_request :: "env \<Rightarrow> http_request \<Rightarrow> Client \<Rightarrow> string \<Rightarrow> string \<Rightarrow> AuthorizationRequest" where
  "new_auth_request e r client scope rid =
     \<lparr>ar_ID = rid, ar_ClientID = c_ClientID client, ar_RedirectURI = r_Query r ''redirect_uri'', ar_Scope = scope,
      ar_State = r_Query r ''state'', ar_Nonce = r_Query r ''nonce'', ar_CodeChallenge = r_Query r ''code_challenge'',
      ar_CodeChallengeMethod = challenge_method r, ar_CreatedAt = e_now e,
      ar_ExpiresAt = e_now e + dur (cf_AuthCodeTTLSeconds (e_cfg e)) Second\<rparr>"

text \<open>From the session on, for a validated request.\<close>

definition authorize_request :: "env \<Rightarrow> http_request \<Rightarrow> Client \<Rightarrow> AuthorizationRequest \<Rightarrow> st \<Rightarrow> response \<times> st" where
  "authorize_request e r client ar s =
     (case validSession e r s of (sess, s1) \<Rightarrow>
        (case checkPrompt e (r_Query r ''prompt'') (r_Query r ''max_age'') sess client (ar_Scope ar) s1 of
           Inl _ \<Rightarrow> (http_Error ''store error'' 500, s1)
         | Inr (PromptError errCode errDesc) \<Rightarrow>
             (redirectOAuthError e (r_Query r ''redirect_uri'') (r_Query r ''state'') errCode errDesc, s1)
         | Inr (GoOn force) \<Rightarrow>
             if sess \<noteq> None \<and> \<not> force
             then or_store_error (proceedAfterAuthn e r ar (the sess) (snd (maybeExtendSession e r s1)))
             else (case allowPreAuthWrite e r ''authorize'' s1 of
                     (Some resp, s2) \<Rightarrow> (resp, s2)
                   | (None, s2) \<Rightarrow>
                       (case putAuthRequest ar s2 of
                          (Inl _, s3) \<Rightarrow> (http_Error ''store error'' 500, s3)
                        | (Inr _, s3) \<Rightarrow> (http_Redirect (''/login?request_id='' @ QueryEscape (ar_ID ar)), s3)))))"

definition handleAuthorize :: "env \<Rightarrow> http_request \<Rightarrow> st \<Rightarrow> response \<times> st" where
  "handleAuthorize e r s =
     (let redirectURI = r_Query r ''redirect_uri''; state = r_Query r ''state'' in
      if \<not> requestHostMatchesIssuer e r then (http_Error ''host not allowed'' 400, s)
      else if r_Query r ''response_type'' \<noteq> ''code'' then (http_Error ''unsupported response_type'' 400, s)
      else case lookupClient e s (r_Query r ''client_id'') of
          None \<Rightarrow> (http_Error ''unknown client_id'' 400, s)
        | Some client \<Rightarrow>
            if \<not> clientAllowsRedirect client redirectURI then (http_Error ''invalid redirect_uri'' 400, s)
            else (case validateAuthorizationScope client (r_Query r ''scope'') of
                Inl err \<Rightarrow>
                  (redirectOAuthError e redirectURI state ''invalid_scope'' (scope_error_text (g_quote (e_lib e)) err), s)
              | Inr scope \<Rightarrow>
                  let msg = authorizePKCEError client (r_Query r ''code_challenge'') (challenge_method r) in
                  if msg \<noteq> [] then (redirectOAuthError e redirectURI state ''invalid_request'' msg, s)
                  else case randomB64 e 32 s of (rid, s1) \<Rightarrow>
                    authorize_request e r client (new_auth_request e r client scope rid) s1))"

section \<open>Userinfo\<close>

definition userInfoBearerToken :: "env \<Rightarrow> http_request \<Rightarrow> string" where
  "userInfoBearerToken e r =
     (let authz = r_Header r ''Authorization''; token = TrimSpace (TrimPrefix authz bearerPrefix) in
      if token \<noteq> [] \<and> token \<noteq> authz then token
      else if r_Method r \<noteq> ''POST'' then []
      else if to_lower (e_lib e) (TrimSpace (before_char (CHR '';'') (r_Header r ''Content-Type''))) \<noteq>
              ''application/x-www-form-urlencoded'' then []
      else case r_PostForm r maxUserInfoBodyBytes of (ok, get) \<Rightarrow>
        if \<not> ok then [] else TrimSpace (get ''access_token''))"

definition handleUserInfo :: "env \<Rightarrow> http_request \<Rightarrow> st \<Rightarrow> response \<times> st" where
  "handleUserInfo e r s =
     (let token = userInfoBearerToken e r in
      if token = [] then
        (http_Error ''missing bearer token'' 401, set_header ''WWW-Authenticate'' ''Bearer realm=\"userinfo\"'' s)
      else case verifyJWT e token s of
          (Inl _, s1) \<Rightarrow> (http_Error ''invalid token'' 401, s1)
        | (Inr claims, s1) \<Rightarrow>
            if str_claim claims ''token_use'' \<noteq> ''access'' then
              (http_Error ''invalid token'' 401,
               set_header ''WWW-Authenticate''
                 ''Bearer error=\"invalid_token\", error_description=\"userinfo requires an access token\"'' s1)
            else
              let sub = str_claim claims ''sub'';
                  clientID = (if str_claim claims ''client_id'' = [] then str_claim claims ''aud''
                              else str_claim claims ''client_id'');
                  resp = [''sub'' \<mapsto> JStr sub, ''preferred_username'' \<mapsto> JStr sub]
              in (writeJSON 200
                    (addScopedProfileClaims e s1 (GetUser sub (st_db s1)) (str_claim claims ''scope'') clientID resp), s1))"

section \<open>Introspection\<close>

definition introspectClientOwnsToken :: "claims \<Rightarrow> string \<Rightarrow> bool" where
  "introspectClientOwnsToken claims clientID =
     (clientID \<noteq> [] \<and>
      (str_claim claims ''client_id'' = clientID \<or>
       (case claims ''aud'' of
          Some (JStr aud) \<Rightarrow> aud \<noteq> [] \<and> aud = clientID
        | Some (JArr auds) \<Rightarrow> \<exists>v \<in> set auds. v \<noteq> JStr [] \<and> v = JStr clientID
        | _ \<Rightarrow> False)))"

definition introspectRefreshToken :: "env \<Rightarrow> string \<Rightarrow> Client \<Rightarrow> st \<Rightarrow> claims option" where
  "introspectRefreshToken e tok client s =
     (case GetRefreshToken (hash_secret e tok) (st_db s) of
        Inl _ \<Rightarrow> None
      | Inr None \<Rightarrow> None
      | Inr (Some rt) \<Rightarrow>
          if rt_ClientID rt \<noteq> c_ClientID client then None
          else if e_now e > rt_ExpiresAt rt then None
          else
            let resp = [''active'' \<mapsto> JBool True, ''token_type'' \<mapsto> JStr ''Bearer'',
                        ''client_id'' \<mapsto> JStr (rt_ClientID rt), ''sub'' \<mapsto> JStr (rt_UserID rt),
                        ''username'' \<mapsto> JStr (rt_UserID rt), ''aud'' \<mapsto> JStr (rt_ClientID rt),
                        ''iss'' \<mapsto> JStr (cf_Issuer (e_cfg e)), ''exp'' \<mapsto> JInt (Unix (rt_ExpiresAt rt))]
            in Some (if rt_Scope rt \<noteq> [] then resp(''scope'' \<mapsto> JStr (rt_Scope rt)) else resp))"

definition copy_claim :: "claims \<Rightarrow> string \<Rightarrow> claims \<Rightarrow> claims" where
  "copy_claim claims k resp = (case claims k of Some v \<Rightarrow> resp(k \<mapsto> v) | None \<Rightarrow> resp)"

definition copy_number :: "claims \<Rightarrow> string \<Rightarrow> claims \<Rightarrow> claims" where
  "copy_number claims k resp = (case numberClaim (claims k) of Some v \<Rightarrow> resp(k \<mapsto> JInt v) | None \<Rightarrow> resp)"

definition introspectJWT :: "env \<Rightarrow> string \<Rightarrow> Client \<Rightarrow> st \<Rightarrow> claims option \<times> st" where
  "introspectJWT e tok client s =
     (case verifyJWT e tok s of
        (Inl _, s1) \<Rightarrow> (None, s1)
      | (Inr claims, s1) \<Rightarrow>
          if \<not> introspectClientOwnsToken claims (c_ClientID client) then (None, s1)
          else
            let resp = [''active'' \<mapsto> JBool True, ''token_type'' \<mapsto> JStr ''Bearer''];
                resp = fold (copy_claim claims)
                  [''iss'', ''sub'', ''aud'', ''client_id'', ''scope'', ''jti'', ''token_use''] resp;
                resp = fold (copy_number claims) [''exp'', ''iat'', ''nbf'', ''auth_time''] resp
            in (Some (case claims ''sub'' of
                        Some (JStr sub) \<Rightarrow> resp(''username'' \<mapsto> JStr
                          (if str_claim claims ''preferred_username'' \<noteq> [] then str_claim claims ''preferred_username'' else sub))
                      | _ \<Rightarrow> resp), s1))"

definition introspectToken :: "env \<Rightarrow> string \<Rightarrow> string \<Rightarrow> Client \<Rightarrow> st \<Rightarrow> claims option \<times> st" where
  "introspectToken e tok hint client s =
     (if hint = ''refresh_token'' then
        (case introspectRefreshToken e tok client s of
           Some resp \<Rightarrow> (Some resp, s) | None \<Rightarrow> introspectJWT e tok client s)
      else (case introspectJWT e tok client s of
              (Some resp, s1) \<Rightarrow> (Some resp, s1)
            | (None, s1) \<Rightarrow> (introspectRefreshToken e tok client s1, s1)))"

definition handleIntrospect :: "env \<Rightarrow> http_request \<Rightarrow> st \<Rightarrow> response \<times> st" where
  "handleIntrospect e r s =
     (let form = form_get r maxIntrospectBodyBytes; inactive = writeJSON 200 [''active'' \<mapsto> JBool False] in
      if \<not> form_ok r maxIntrospectBodyBytes then (tokenError ''invalid_request'' ''bad form'', s)
      else case authenticateClientRateLimited e r form s of
          (Inl err, s1) \<Rightarrow>
            let s2 = audit_fail e r ''token_introspect'' [(''reason'', Str ''unauthenticated_client'')]
                       (set_header ''WWW-Authenticate'' ''Basic realm=\"introspect\"'' s1) in
            (case err of
               ClientAuthRateLimited retry \<Rightarrow>
                 (tokenErrorStatus 429 ''invalid_client'' ''too many client authentication attempts'',
                  writeRetryAfter retry s2)
             | _ \<Rightarrow> (tokenErrorStatus 401 ''invalid_client'' (client_auth_text err), s2))
        | (Inr client, s1) \<Rightarrow>
            let tok = TrimSpace (form ''token'') in
            if tok = [] then (inactive, s1)
            else (case introspectToken e tok (form ''token_type_hint'') client s1 of
                    (None, s2) \<Rightarrow> (inactive, s2)
                  | (Some resp, s2) \<Rightarrow>
                      (writeJSON 200 resp,
                       set_header ''Pragma'' ''no-cache'' (set_header ''Cache-Control'' ''no-store'' s2))))"

section \<open>Revocation\<close>

definition revokeRefreshToken :: "env \<Rightarrow> string \<Rightarrow> Client \<Rightarrow> st \<Rightarrow> (store_error + unit) \<times> st" where
  "revokeRefreshToken e tok client s =
     (if tok = [] then (Inr (), s)
      else let key = hash_secret e tok in
        case GetRefreshToken key (st_db s) of
          Inl err \<Rightarrow> (Inl err, s)
        | Inr None \<Rightarrow> (Inr (), s)
        | Inr (Some rt) \<Rightarrow>
            if rt_ClientID rt \<noteq> c_ClientID client then (Inr (), s)
            else case on_db (DeleteRefreshToken key) s of (x, s1) \<Rightarrow> (map_sum id (\<lambda>_. ()) x, s1))"

definition revokeJWT :: "env \<Rightarrow> string \<Rightarrow> Client \<Rightarrow> st \<Rightarrow> (store_error + unit) \<times> st" where
  "revokeJWT e tok client s =
     (case verifyJWT e tok s of
        (Inl _, s1) \<Rightarrow> (Inr (), s1)
      | (Inr claims, s1) \<Rightarrow>
          let jti = str_claim claims ''jti'' in
          (case numberClaim (claims ''exp'') of
             None \<Rightarrow> (Inr (), s1)
           | Some expUnix \<Rightarrow>
               if clientIDFromTokenClaims claims \<noteq> c_ClientID client \<or> jti = [] then (Inr (), s1)
               else on_db (PutRevokedJTI jti (unix_time expUnix + jwtClockSkew)) s1))"

definition handleRevoke :: "env \<Rightarrow> http_request \<Rightarrow> st \<Rightarrow> response \<times> st" where
  "handleRevoke e r s =
     (let form = form_get r maxRevokeBodyBytes in
      case authenticateClientRateLimited e r form s of
        (Inl err, s1) \<Rightarrow>
          let s2 = audit_fail e r ''token_revoke'' [(''reason'', Str ''unauthenticated_client'')] s1 in
          (case err of
             ClientAuthRateLimited retry \<Rightarrow> (Resp 429 NoBody, writeRetryAfter retry s2)
           | _ \<Rightarrow> (Resp 401 NoBody, s2))
      | (Inr client, s1) \<Rightarrow>
          (case revokeRefreshToken e (form ''token'') client s1 of
             (Inl _, s2) \<Rightarrow> (http_Error ''store error'' 500, s2)
           | (Inr _, s2) \<Rightarrow>
               (case revokeJWT e (form ''token'') client s2 of
                  (Inl _, s3) \<Rightarrow> (http_Error ''store error'' 500, s3)
                | (Inr _, s3) \<Rightarrow>
                    (Resp 200 NoBody, audit_ok e r ''token_revoke'' [(''client_id'', Str (c_ClientID client))] s3))))"

section \<open>App tokens\<close>

definition issueAppToken :: "env \<Rightarrow> Session \<Rightarrow> AppTokenConfig \<Rightarrow> st \<Rightarrow> (jwt_error + string) \<times> st" where
  "issueAppToken e sess tokenCfg s =
     (let user = GetUser (s_UserID sess) (st_db s); scope = TrimSpace (at_Scope tokenCfg) in
      case randomB64 e 16 s of (jti, s1) \<Rightarrow>
        let c = [''iss'' \<mapsto> JStr (cf_Issuer (e_cfg e)), ''sub'' \<mapsto> JStr (s_UserID sess),
                 ''aud'' \<mapsto> JStr (at_Audience tokenCfg), ''iat'' \<mapsto> JInt (Unix (e_now e)),
                 ''nbf'' \<mapsto> JInt (Unix (e_now e)),
                 ''exp'' \<mapsto> JInt (Unix (e_now e + dur (at_TokenTTLMinutes tokenCfg) Minute)),
                 ''jti'' \<mapsto> JStr jti, ''client_id'' \<mapsto> JStr (at_ClientID tokenCfg), ''scope'' \<mapsto> JStr scope,
                 ''auth_time'' \<mapsto> JInt (Unix (s_AuthTime sess)), ''preferred_username'' \<mapsto> JStr (s_UserID sess),
                 ''user_id'' \<mapsto> JStr (s_UserID sess), ''app_token_id'' \<mapsto> JStr (at_ID tokenCfg),
                 ''token_use'' \<mapsto> JStr ''access''];
            c = (case user of
                   None \<Rightarrow> c
                 | Some u \<Rightarrow>
                     let c = (if scopeIncludes scope ''email'' then
                                (if u_Email u \<noteq> [] then c(''email'' \<mapsto> JStr (u_Email u), ''user_email'' \<mapsto> JStr (u_Email u))
                                 else c(''email'' \<mapsto> JStr (u_Email u)))
                              else c);
                         c = (if scopeIncludes scope ''profile'' then c(''name'' \<mapsto> JStr (displayName u)) else c);
                         groups = mappedAppTokenGroups (e_lib e) (at_compiledMappings tokenCfg) (u_Groups u)
                     in if scopeIncludes scope ''groups'' \<and> groups \<noteq> [] then c(''groups'' \<mapsto> json_strings groups) else c)
        in (signJWT e c, s1))"

section \<open>What the authorize endpoint does\<close>

text \<open>A request that passed the checks before the session is looked at.\<close>

definition authorize_valid :: "env \<Rightarrow> http_request \<Rightarrow> st \<Rightarrow> Client \<Rightarrow> string \<Rightarrow> bool" where
  "authorize_valid e r s client scope =
     (lookupClient e s (r_Query r ''client_id'') = Some client \<and>
      r_Query r ''redirect_uri'' \<in> set (c_RedirectURIs client) \<and>
      validateAuthorizationScope client (r_Query r ''scope'') = Inr scope \<and>
      authorizePKCEError client (r_Query r ''code_challenge'') (challenge_method r) = [])"

abbreviation oauth_error :: "env \<Rightarrow> http_request \<Rightarrow> response \<Rightarrow> bool" where
  "oauth_error e r resp \<equiv>
     (\<exists>c d. resp = redirectOAuthError e (r_Query r ''redirect_uri'') (r_Query r ''state'') c d)"

lemma handleAuthorize_cases:
  assumes "handleAuthorize e r s = (resp, s')"
  obtains (refused) m where "s' = s" "resp = http_Error m 400"
  | (error) client where "s' = s" "lookupClient e s (r_Query r ''client_id'') = Some client"
      "r_Query r ''redirect_uri'' \<in> set (c_RedirectURIs client)" "oauth_error e r resp"
  | (accepted) client scope rid s1 where "authorize_valid e r s client scope" "randomB64 e 32 s = (rid, s1)"
      "authorize_request e r client (new_auth_request e r client scope rid) s1 = (resp, s')"
  using assms
  by (auto simp: handleAuthorize_def authorize_valid_def clientAllowsRedirect_def Let_def
      split: if_splits option.splits sum.splits prod.splits)

lemma authorize_request_cases:
  assumes "authorize_request e r client ar s = (resp, s')" and "validSession e r s = (sess, s1)"
  obtains (failed) m where "resp = http_Error m 500" "s' = s1"
  | (error) "oauth_error e r resp" "s' = s1"
  | (session) se x where "sess = Some se"
      "checkPrompt e (r_Query r ''prompt'') (r_Query r ''max_age'') sess client (ar_Scope ar) s1 = Inr (GoOn False)"
      "proceedAfterAuthn e r ar se (snd (maybeExtendSession e r s1)) = (x, s')"
      "or_store_error (x, s') = (resp, s')"
  | (login) force s2 where
      "checkPrompt e (r_Query r ''prompt'') (r_Query r ''max_age'') sess client (ar_Scope ar) s1 = Inr (GoOn force)"
      "sess = None \<or> force" "st_db s2 = st_db s1"
      "(\<exists>m n. resp = http_Error m n \<and> st_db s' = st_db s2) \<or>
       resp = http_Redirect (''/login?request_id='' @ QueryEscape (ar_ID ar)) \<and>
       (\<exists>u. putAuthRequest ar s2 = (Inr u, s'))"
proof -
  consider (a) err where "checkPrompt e (r_Query r ''prompt'') (r_Query r ''max_age'') sess client (ar_Scope ar) s1 = Inl err"
    | (b) c d where "checkPrompt e (r_Query r ''prompt'') (r_Query r ''max_age'') sess client (ar_Scope ar) s1 = Inr (PromptError c d)"
    | (c) force where "checkPrompt e (r_Query r ''prompt'') (r_Query r ''max_age'') sess client (ar_Scope ar) s1 = Inr (GoOn force)"
    by (metis old.sum.exhaust prompt_decision.exhaust)
  then show thesis
  proof cases
    case a
    then show thesis using assms failed by (auto simp: authorize_request_def)
  next
    case b
    then show thesis using assms error by (auto simp: authorize_request_def)
  next
    case c
    show thesis
    proof (cases "sess \<noteq> None \<and> \<not> force")
      case True
      then show thesis
        using assms c session
        by (auto simp: authorize_request_def or_store_error_def split: prod.splits sum.splits)
    next
      case False
      obtain x s2 where p: "allowPreAuthWrite e r ''authorize'' s1 = (x, s2)" by fastforce
      have s2: "st_db s2 = st_db s1"
        using p preauth_check_frame by (auto simp: allowPreAuthWrite_def)
      have x: "x = Some y \<Longrightarrow> \<exists>m n. y = http_Error m n" for y
        using p by (auto simp: allowPreAuthWrite_def preauth_check_def Let_def split: prod.splits if_splits)
      have keep: "putAuthRequest ar s2 = (Inl err, s3) \<Longrightarrow> st_db s3 = st_db s2" for err s3
        by (auto simp: putAuthRequest_def on_db_eq PutAuthRequest_def dest: db_update_Inl)
      have t: "(\<exists>m n. resp = http_Error m n \<and> st_db s' = st_db s2) \<or>
       resp = http_Redirect (''/login?request_id='' @ QueryEscape (ar_ID ar)) \<and> (\<exists>u. putAuthRequest ar s2 = (Inr u, s'))"
        using assms c False p x keep
        by (fastforce simp: authorize_request_def split: option.splits prod.splits sum.splits)
      from False have f: "sess = None \<or> force" by blast
      show thesis by (rule login [OF c f s2 t])
    qed
  qed
qed

lemma redirectOAuthError_target:
  "redirectOAuthError e uri state c d = Resp 302 (Location u) \<Longrightarrow> \<exists>qs. g_url_query (e_lib e) uri qs = Some u"
  by (auto simp: redirectOAuthError_def http_Error_def http_Redirect_def split: option.splits)

lemma proceedAfterAuthn_target:
  assumes "proceedAfterAuthn e r ar sess s = (Inr (Resp 302 (Location u)), s')"
  shows "(\<exists>qs. g_url_query (e_lib e) (ar_RedirectURI ar) qs = Some u) \<or> (\<exists>rid. u = ''/consent?request_id='' @ rid)"
  using assms
  by (auto simp: proceedAfterAuthn_def issueCodeRedirect_def allowConsentWrite_def preauth_check_def http_Redirect_def
      http_Error_def Let_def split: option.splits sum.splits prod.splits if_splits)

lemma authorize_code:
  assumes "handleAuthorize e r s = (resp, s')" and "db_authCodes (st_db s') \<noteq> db_authCodes (st_db s)"
  obtains client scope rid sess key where "authorize_valid e r s client scope"
    "fst (validSession e r (snd (randomB64 e 32 s))) = Some sess"
    "db_authCodes (st_db s') = bput key (code_for e (new_auth_request e r client scope rid) sess) (db_authCodes (st_db s))"
  using assms(1)
proof (cases rule: handleAuthorize_cases)
  case (accepted client scope rid s1)
  have s1: "st_db s1 = st_db s" "snd (randomB64 e 32 s) = s1"
    using accepted(2) effects_db(3) [of e 32 s] by simp_all
  obtain sess s2 where v: "validSession e r s1 = (sess, s2)" by fastforce
  note f2 = session_frameD [OF validSession_frame [OF v]]
  from accepted(3) v show thesis
  proof (cases rule: authorize_request_cases)
    case (session se x)
    let ?s3 = "snd (maybeExtendSession e r s2)"
    obtain y s3 where m: "maybeExtendSession e r s2 = (y, s3)" by fastforce
    note f3 = session_frameD [OF maybeExtendSession_frame [OF m]]
    have codes: "db_authCodes (st_db ?s3) = db_authCodes (st_db s)" using f3 f2 s1 m by simp
    have "db_authCodes (st_db s') \<noteq> db_authCodes (st_db ?s3)" using assms(2) codes by simp
    from proceedAfterAuthn_code [OF session(3) this] codes show thesis
      using accepted(1) s1(2) v session(1) by (auto intro: that)
  next
    case (login force s3)
    have "db_authCodes (st_db s') = db_authCodes (st_db s3)"
      using login(4) by (auto simp: putAuthRequest_def on_db_eq db_simps)
    then show thesis using login(3) f2 s1 assms(2) by simp
  qed (use f2 s1 assms(2) in auto)
qed (use assms(2) in auto)

lemma authorize_target:
  assumes "handleAuthorize e r s = (Resp 302 (Location u), s')"
  obtains client where "lookupClient e s (r_Query r ''client_id'') = Some client"
    "r_Query r ''redirect_uri'' \<in> set (c_RedirectURIs client)"
    "(\<exists>qs. g_url_query (e_lib e) (r_Query r ''redirect_uri'') qs = Some u) \<or>
     (\<exists>rid. u = ''/login?request_id='' @ rid \<or> u = ''/consent?request_id='' @ rid)"
  using assms
proof (cases rule: handleAuthorize_cases)
  case (refused m)
  then show thesis by (simp add: http_Error_def)
next
  case (error client)
  then show thesis by (auto dest!: redirectOAuthError_target [OF sym] intro: that)
next
  case (accepted client scope rid s1)
  let ?ar = "new_auth_request e r client scope rid"
  have ar: "ar_RedirectURI ?ar = r_Query r ''redirect_uri''" by (simp add: new_auth_request_def)
  have known: "lookupClient e s (r_Query r ''client_id'') = Some client"
    "r_Query r ''redirect_uri'' \<in> set (c_RedirectURIs client)"
    using accepted(1) by (simp_all add: authorize_valid_def)
  obtain sess s2 where v: "validSession e r s1 = (sess, s2)" by fastforce
  from accepted(3) v have "(\<exists>qs. g_url_query (e_lib e) (r_Query r ''redirect_uri'') qs = Some u) \<or>
     (\<exists>rid. u = ''/login?request_id='' @ rid \<or> u = ''/consent?request_id='' @ rid)"
  proof (cases rule: authorize_request_cases)
    case (session se x)
    have "x = Inr (Resp 302 (Location u))"
      using session(4) by (auto simp: or_store_error_def http_Error_def split: sum.splits)
    then show ?thesis using proceedAfterAuthn_target [of e r ?ar se "snd (maybeExtendSession e r s2)" u s'] session(3) ar by auto
  qed (auto dest!: redirectOAuthError_target [OF sym] simp: http_Error_def http_Redirect_def)
  with known show thesis by (rule that)
qed

lemma authorize_pkce:
  assumes "authorize_valid e r s client scope" and "c_Public client \<or> c_RequirePKCE client"
  shows "r_Query r ''code_challenge'' \<noteq> [] \<and> challenge_method r = ''S256''"
  using assms by (auto simp: authorize_valid_def authorizePKCEError_def split: if_splits)

section \<open>Properties of the authorize endpoint\<close>

text \<open>
  C3. The authorize endpoint: every redirect goes to a redirect URI registered for the known client
  of the request, or to the broker's own login or consent page.  A code is stored only for a
  request that passed all checks, with a live session; it is bound to that session's user, to
  the client, the registered redirect URI, the validated scope and the PKCE challenge of the
  request, which for a public client and for one that requires PKCE is an S256 challenge.
\<close>

theorem authorize_sound:
  assumes "handleAuthorize e r s = (resp, s')"
  shows "(\<forall>u. resp = Resp 302 (Location u) \<longrightarrow>
            (\<exists>client. lookupClient e s (r_Query r ''client_id'') = Some client \<and>
               r_Query r ''redirect_uri'' \<in> set (c_RedirectURIs client) \<and>
               ((\<exists>qs. g_url_query (e_lib e) (r_Query r ''redirect_uri'') qs = Some u) \<or>
                (\<exists>rid. u = ''/login?request_id='' @ rid \<or> u = ''/consent?request_id='' @ rid)))) \<and>
         (db_authCodes (st_db s') \<noteq> db_authCodes (st_db s) \<longrightarrow>
            (\<exists>client scope sess key ac. authorize_valid e r s client scope \<and>
               fst (validSession e r (snd (randomB64 e 32 s))) = Some sess \<and>
               db_authCodes (st_db s') = bput key ac (db_authCodes (st_db s)) \<and>
               ac_UserID ac = s_UserID sess \<and> ac_ClientID ac = c_ClientID client \<and>
               ac_RedirectURI ac = r_Query r ''redirect_uri'' \<and> ac_Scope ac = scope \<and>
               ac_CodeChallenge ac = r_Query r ''code_challenge'' \<and>
               (c_Public client \<or> c_RequirePKCE client \<longrightarrow>
                  ac_CodeChallenge ac \<noteq> [] \<and> ac_CodeChallengeMethod ac = ''S256'')))"
proof (intro conjI allI impI)
  fix u assume "resp = Resp 302 (Location u)"
  with assms authorize_target show "\<exists>client. lookupClient e s (r_Query r ''client_id'') = Some client \<and>
               r_Query r ''redirect_uri'' \<in> set (c_RedirectURIs client) \<and>
               ((\<exists>qs. g_url_query (e_lib e) (r_Query r ''redirect_uri'') qs = Some u) \<or>
                (\<exists>rid. u = ''/login?request_id='' @ rid \<or> u = ''/consent?request_id='' @ rid))" by metis
next
  assume "db_authCodes (st_db s') \<noteq> db_authCodes (st_db s)"
  with assms obtain client scope rid sess key where v: "authorize_valid e r s client scope"
    and "fst (validSession e r (snd (randomB64 e 32 s))) = Some sess"
    "db_authCodes (st_db s') = bput key (code_for e (new_auth_request e r client scope rid) sess) (db_authCodes (st_db s))"
    by (rule authorize_code)
  then show "\<exists>client scope sess key ac. authorize_valid e r s client scope \<and>
               fst (validSession e r (snd (randomB64 e 32 s))) = Some sess \<and>
               db_authCodes (st_db s') = bput key ac (db_authCodes (st_db s)) \<and>
               ac_UserID ac = s_UserID sess \<and> ac_ClientID ac = c_ClientID client \<and>
               ac_RedirectURI ac = r_Query r ''redirect_uri'' \<and> ac_Scope ac = scope \<and>
               ac_CodeChallenge ac = r_Query r ''code_challenge'' \<and>
               (c_Public client \<or> c_RequirePKCE client \<longrightarrow>
                  ac_CodeChallenge ac \<noteq> [] \<and> ac_CodeChallengeMethod ac = ''S256'')"
    using authorize_pkce [OF v]
    by (intro exI [of _ client] exI [of _ scope] exI [of _ sess] exI [of _ key]
        exI [of _ "code_for e (new_auth_request e r client scope rid) sess"])
      (simp add: code_for_def new_auth_request_def)
qed

text \<open>A registry under its own ids, as the configuration and \<^verbatim>\<open>reloadStoredRegistries\<close> build it.\<close>

definition registry_keyed :: "env \<Rightarrow> st \<Rightarrow> bool" where
  "registry_keyed e s = (\<forall>cid c. lookupClient e s cid = Some c \<longrightarrow> c_ClientID c = cid)"

lemma reload_clients_keyed:
  "reload_clients e cs m = Inr m' \<Longrightarrow> \<forall>cid c. m cid = Some c \<longrightarrow> c_ClientID c = cid \<Longrightarrow>
     \<forall>cid c. m' cid = Some c \<longrightarrow> c_ClientID c = cid"
proof (induction e cs m rule: reload_clients.induct)
  case (2 e c cs m)
  show ?case
  proof (cases "e_clients e (c_ClientID c)")
    case None
    with "2.prems"(1) obtain c' where n: "normalizeClientScopePolicy c = Inr c'"
      and r: "reload_clients e cs (m(c_ClientID c' \<mapsto>
            c'\<lparr>c_compiledMappings := compileGroupMappings (e_lib e) (c_GroupMappings c')\<rparr>)) = Inr m'"
      by (auto split: sum.splits)
    show ?thesis by (rule "2.IH"(2) [OF _ n r]) (use None "2.prems"(2) in auto)
  next
    case (Some x)
    then have r: "reload_clients e cs m = Inr m'" using "2.prems"(1) by simp
    show ?thesis by (rule "2.IH"(1) [OF _ r "2.prems"(2)]) (simp add: Some)
  qed
qed simp

lemma reload_keyed:
  assumes "reloadStoredRegistries e s = (Inr u, s')" and "\<forall>cid c. e_clients e cid = Some c \<longrightarrow> c_ClientID c = cid"
  shows "registry_keyed e s'"
proof -
  from assms(1) obtain cs where "reload_clients e cs Map.empty = Inr (st_clients s')"
    by (auto simp: reloadStoredRegistries_def split: sum.splits)
  from reload_clients_keyed [OF this] assms(2) show ?thesis
    by (auto simp: registry_keyed_def lookupClient_def split: option.splits)
qed

lemma checkPrompt_none:
  assumes "checkPrompt e p m sess client scope s = Inr (GoOn force)" and "''none'' \<in> set (Fields p)"
  shows "\<not> force \<and> (\<exists>se. sess = Some se \<and> authTimeStale e sess m = Inr False \<and>
           consentMissingForRequest (s_UserID se) client scope s = Inr False)"
  using assms
  by (auto simp: checkPrompt_def Let_def split: if_splits sum.splits option.splits bool.splits)

lemma proceedAfterAuthn_covered:
  assumes "lookupClient e s (ar_ClientID ar) = Some client"
    and "consentMissingForRequest (s_UserID sess) client (ar_Scope ar) s = Inr False"
  shows "proceedAfterAuthn e r ar sess s = issueCodeRedirect e ar sess s"
  using assms
  by (auto simp: proceedAfterAuthn_def consentMissingForRequest_def split: if_splits sum.splits option.splits)

lemma issueCodeRedirect_target:
  "issueCodeRedirect e ar sess s = (Inr (Resp 302 (Location u)), s') \<Longrightarrow>
     \<exists>qs. g_url_query (e_lib e) (ar_RedirectURI ar) qs = Some u"
  by (auto simp: issueCodeRedirect_def http_Redirect_def split: prod.splits sum.splits option.splits)

text \<open>
  A request with \<open>prompt=none\<close> never involves the user: no pending request is stored, every
  redirect goes to the registered redirect URI, with the code or an error, and a code is issued
  only for a live session whose authentication is within \<open>max_age\<close>.
\<close>

theorem prompt_none_silent:
  assumes "handleAuthorize e r s = (resp, s')" and "''none'' \<in> set (Fields (r_Query r ''prompt''))"
    and "registry_keyed e s"
  shows "db_authRequests (st_db s') = db_authRequests (st_db s) \<and>
         (\<forall>u. resp = Resp 302 (Location u) \<longrightarrow>
            (\<exists>qs. g_url_query (e_lib e) (r_Query r ''redirect_uri'') qs = Some u)) \<and>
         (db_authCodes (st_db s') \<noteq> db_authCodes (st_db s) \<longrightarrow>
            (\<exists>sess. fst (validSession e r (snd (randomB64 e 32 s))) = Some sess \<and>
               authTimeStale e (Some sess) (r_Query r ''max_age'') = Inr False))"
  using assms(1)
proof (cases rule: handleAuthorize_cases)
  case (refused m)
  then show ?thesis by (auto simp: http_Error_def)
next
  case (error client)
  then show ?thesis by (auto dest: redirectOAuthError_target)
next
  case (accepted client scope rid s1)
  let ?ar = "new_auth_request e r client scope rid"
  have ar: "ar_RedirectURI ?ar = r_Query r ''redirect_uri''" "ar_ClientID ?ar = c_ClientID client"
    by (simp_all add: new_auth_request_def)
  have s1: "snd (randomB64 e 32 s) = s1" using accepted(2) by simp
  note f1 = session_frameD [OF session_frame_random [OF accepted(2)]]
  obtain sess s2 where v: "validSession e r s1 = (sess, s2)" by fastforce
  note f2 = session_frameD [OF validSession_frame [OF v]]
  from accepted(3) v show ?thesis
  proof (cases rule: authorize_request_cases)
    case (failed m)
    then show ?thesis using f2 f1 by (auto simp: http_Error_def)
  next
    case error
    then show ?thesis using f2 f1 by (auto dest: redirectOAuthError_target)
  next
    case (session se x)
    obtain y s3 where m: "maybeExtendSession e r s2 = (y, s3)" by fastforce
    note f3 = session_frameD [OF maybeExtendSession_frame [OF m]]
    note pn = checkPrompt_none [OF session(2) assms(2)]
    have "lookupClient e s3 = lookupClient e s" using f1 f2 f3 by (intro lookupClient_cong) simp
    then have "lookupClient e s3 (ar_ClientID ?ar) = Some client"
      using accepted(1) assms(3) ar(2) by (auto simp: authorize_valid_def registry_keyed_def)
    moreover have "GetConsent u c (st_db s3) = GetConsent u c (st_db s2)" for u c
      using f3(6,9) by (simp add: GetConsent_def db_view_def)
    then have "consentMissingForRequest u client sc s3 = consentMissingForRequest u client sc s2" for u sc
      by (simp only: consentMissingForRequest_def)
    then have "consentMissingForRequest (s_UserID se) client (ar_Scope ?ar) s3 = Inr False"
      using pn session(1) by auto
    ultimately have i: "issueCodeRedirect e ?ar se s3 = (x, s')"
      using session(3) m proceedAfterAuthn_covered by simp
    have "db_authRequests (st_db s') = db_authRequests (st_db s)"
      using issueCodeRedirect_db [OF i] f1 f2 f3 by auto
    moreover have "\<exists>qs. g_url_query (e_lib e) (r_Query r ''redirect_uri'') qs = Some u" if "resp = Resp 302 (Location u)" for u
    proof -
      have "x = Inr (Resp 302 (Location u))"
        using session(4) that by (auto simp: or_store_error_def http_Error_def split: sum.splits)
      then show ?thesis using issueCodeRedirect_target i ar by metis
    qed
    ultimately show ?thesis using pn session(1) v s1 by auto
  next
    case (login force s3)
    then show ?thesis using checkPrompt_none [OF login(1) assms(2)] by auto
  qed
qed


section \<open>Properties of the token consumers\<close>

text \<open>
  Userinfo answers only for an access token: the token in the request is authentic, names this
  issuer, is not expired and says that its use is access.  The answer is about the subject of
  the token, and the e-mail address, the name and the groups are there only if the token's own
  scope has them.
\<close>

theorem userinfo_gated:
  assumes "handleUserInfo e r s = (Resp 200 b, s')"
  shows "\<exists>claims resp. authentic e (userInfoBearerToken e r) claims \<and>
     str_claim claims ''iss'' = cf_Issuer (e_cfg e) \<and> \<not> jwtExpired claims (e_now e) \<and>
     str_claim claims ''token_use'' = ''access'' \<and> b = JsonBody resp \<and>
     resp ''sub'' = Some (JStr (str_claim claims ''sub'')) \<and>
     (resp ''email'' \<noteq> None \<longrightarrow> scopeIncludes (str_claim claims ''scope'') ''email'') \<and>
     (resp ''name'' \<noteq> None \<longrightarrow> scopeIncludes (str_claim claims ''scope'') ''profile'') \<and>
     (resp ''groups'' \<noteq> None \<longrightarrow> scopeIncludes (str_claim claims ''scope'') ''groups'')"
proof -
  let ?tok = "userInfoBearerToken e r"
  from assms obtain claims s1 where v: "verifyJWT e ?tok s = (Inr claims, s1)"
    and u: "str_claim claims ''token_use'' = ''access''"
    by (auto simp: handleUserInfo_def http_Error_def Let_def split: if_splits sum.splits prod.splits)
  let ?cid = "if str_claim claims ''client_id'' = [] then str_claim claims ''aud'' else str_claim claims ''client_id''"
  define resp where "resp = addScopedProfileClaims e s1 (GetUser (str_claim claims ''sub'') (st_db s1))
    (str_claim claims ''scope'') ?cid
    [''sub'' \<mapsto> JStr (str_claim claims ''sub''), ''preferred_username'' \<mapsto> JStr (str_claim claims ''sub'')]"
  have b: "b = JsonBody resp"
    using assms v u by (auto simp: handleUserInfo_def http_Error_def resp_def Let_def split: if_splits)
  have "resp ''sub'' = Some (JStr (str_claim claims ''sub''))"
    "resp ''email'' \<noteq> None \<longrightarrow> scopeIncludes (str_claim claims ''scope'') ''email''"
    "resp ''name'' \<noteq> None \<longrightarrow> scopeIncludes (str_claim claims ''scope'') ''profile''"
    "resp ''groups'' \<noteq> None \<longrightarrow> scopeIncludes (str_claim claims ''scope'') ''groups''"
    by (auto simp: resp_def addScopedProfileClaims_def Let_def split: option.splits)
  then show ?thesis using verifyJWT_accepted [OF v] u b by blast
qed

lemma introspectJWT_Some:
  assumes "introspectJWT e tok client s = (Some resp, s')"
  shows "\<exists>claims. verifyJWT e tok s = (Inr claims, s') \<and> introspectClientOwnsToken claims (c_ClientID client)"
  using assms by (auto simp: introspectJWT_def Let_def split: prod.splits sum.splits if_splits)

lemma introspectRefreshToken_Some:
  assumes "introspectRefreshToken e tok client s = Some resp"
  shows "\<exists>rt. refresh_at (st_db s) (hash_secret e tok) = Some (Json rt) \<and> rt_ClientID rt = c_ClientID client \<and>
           e_now e \<le> rt_ExpiresAt rt"
  using assms
  by (auto simp: introspectRefreshToken_def store_read Let_def split: sum.splits option.splits if_splits)

text \<open>
  C37. Introspection is no oracle: the answer says active only to an authenticated client, and only
  for a token of its own, which is either one of its refresh tokens that is active and has not
  expired, or an authentic token of this issuer, neither expired nor revoked, that names the
  client as its client or its audience.
\<close>

theorem introspect_owner_only:
  assumes "handleIntrospect e r s = (Resp 200 (JsonBody resp), s')" and "resp ''active'' = Some (JBool True)"
    and "form = form_get r maxIntrospectBodyBytes" and "tok = TrimSpace (form ''token'')"
  shows "\<exists>client. authenticated e r form s client \<and>
     ((\<exists>rt. refresh_at (st_db s) (hash_secret e tok) = Some (Json rt) \<and> rt_ClientID rt = c_ClientID client \<and>
         e_now e \<le> rt_ExpiresAt rt) \<or>
      (\<exists>claims. authentic e tok claims \<and> introspectClientOwnsToken claims (c_ClientID client) \<and>
         str_claim claims ''iss'' = cf_Issuer (e_cfg e) \<and> \<not> jwtExpired claims (e_now e) \<and>
         (\<forall>t. str_claim claims ''jti'' \<noteq> [] \<and>
            bget (str_claim claims ''jti'') (db_revokedJTIs (st_db s)) = Some (Json t) \<longrightarrow> t < e_now e)))"
proof -
  obtain x s1 where a: "authenticateClientRateLimited e r form s = (x, s1)" by fastforce
  from assms a obtain client s2 where x: "x = Inr client"
    and t: "introspectToken e tok (form ''token_type_hint'') client s1 = (Some resp, s2)"
    by (auto simp: handleIntrospect_def tokenErrorStatus_def tokenError_def writeJSON_def Let_def
        split: if_splits sum.splits option.splits prod.splits client_auth_error.splits)
  have d: "st_db s1 = st_db s" by (subst authenticateClientRateLimited_frame [OF a]) simp
  have "(\<exists>s3. introspectJWT e tok client s1 = (Some resp, s3)) \<or>
      (\<exists>s3. db_refreshTokens (st_db s3) = db_refreshTokens (st_db s1) \<and> introspectRefreshToken e tok client s3 = Some resp)"
  proof -
    obtain y s3 where j: "introspectJWT e tok client s1 = (y, s3)" by fastforce
    have "db_refreshTokens (st_db s3) = db_refreshTokens (st_db s1)"
      using j verifyJWT_db [of e tok False s1]
      by (auto simp: introspectJWT_def verifyJWT_def Let_def split: prod.splits sum.splits if_splits)
    then show ?thesis
      using t j by (auto simp: introspectToken_def split: if_splits option.splits)
  qed
  then show ?thesis
  proof (elim disjE exE conjE)
    fix s3
    assume "introspectJWT e tok client s1 = (Some resp, s3)"
    from introspectJWT_Some [OF this] obtain claims where
      "verifyJWT e tok s1 = (Inr claims, s3)" and own: "introspectClientOwnsToken claims (c_ClientID client)" by blast
    from verifyJWT_accepted [OF this(1)] own a x d authenticateClientRateLimited_sound show ?thesis by metis
  next
    fix s3
    assume "db_refreshTokens (st_db s3) = db_refreshTokens (st_db s1)" "introspectRefreshToken e tok client s3 = Some resp"
    with introspectRefreshToken_Some a x d authenticateClientRateLimited_sound show ?thesis by metis
  qed
qed

text \<open>Verification reads only the revocation list.\<close>

lemma verifyJWT_fst_cong:
  assumes "db_open (st_db s2) = db_open (st_db s)" and "db_revokedJTIs (st_db s2) = db_revokedJTIs (st_db s)"
  shows "fst (verifyJWTWithOptions e tok ign s2) = fst (verifyJWTWithOptions e tok ign s)"
proof -
  have "fst (verifyTokenNotRevoked e c s2) = fst (verifyTokenNotRevoked e c s)" for c
    using assms
    by (auto simp: verifyTokenNotRevoked_def GetRevokedJTI_def db_view_def on_db_def DeleteRevokedJTI_def
        db_update_def Let_def split: sum.splits option.splits)
  then have "fst (validateJWTClaims e c ign s2) = fst (validateJWTClaims e c ign s)" for c
    by (simp add: validateJWTClaims_def)
  then have "fst (case validateJWTClaims e c ign s2 of (Some err, s1) \<Rightarrow> (Inl err, s1) | (None, s1) \<Rightarrow> (Inr c, s1)) =
      fst (case validateJWTClaims e c ign s of (Some err, s1) \<Rightarrow> (Inl err, s1) | (None, s1) \<Rightarrow> (Inr c, s1))" for c
    by (simp add: case_prod_beta split: option.split)
  then show ?thesis
    by (simp add: verifyJWTWithOptions_def split: list.split sum.split option.split)
qed

lemma revokeRefreshToken_frame:
  "revokeRefreshToken e tok client s = (x, s') \<Longrightarrow>
     db_open (st_db s') = db_open (st_db s) \<and> db_revokedJTIs (st_db s') = db_revokedJTIs (st_db s)"
  by (auto simp: revokeRefreshToken_def on_db_def DeleteRefreshToken_def db_update_def Let_def
      split: if_splits sum.splits option.splits prod.splits)

lemma sweep_revocation:
  assumes "store_ok (st_db s)" and "bget jti (db_revokedJTIs (st_db s)) = Some (Json dl) \<or> dl < T" and "t \<le> T"
  shows "bget jti (db_revokedJTIs (st_db (sweepExpired t s))) = Some (Json dl) \<or> dl < T"
proof (cases "SweepExpired t (st_db s)")
  case (Pair x d)
  have d: "st_db (sweepExpired t s) = d" using Pair by (simp add: sweepExpired_def Let_def)
  show ?thesis
  proof (cases x)
    case (Inl err)
    then have "d = st_db s" using Pair unfolding SweepExpired_def by (auto dest: db_update_Inl)
    then show ?thesis using assms(2) d by simp
  next
    case (Inr n)
    then obtain m where "sweepBucketTx (\<lambda>t. t) t (db_revokedJTIs (st_db s)) = Inr (m, db_revokedJTIs d)"
      using Pair unfolding SweepExpired_def by (auto simp: db_update_Inr split: sum.splits)
    then obtain es where "decode_all (db_revokedJTIs (st_db s)) = Some es"
      "db_revokedJTIs d = delete_where (\<lambda>v. v < t) es (db_revokedJTIs (st_db s))"
      by (auto simp: sweepBucketTx_def split: option.splits)
    moreover have "bucket_ok (db_revokedJTIs (st_db s))" using assms(1) by (simp add: store_ok_def)
    ultimately show ?thesis using assms(2,3) d by (auto simp: bget_delete_where)
  qed
qed

lemma sweeps_revocation:
  "store_ok (st_db s) \<Longrightarrow> bget jti (db_revokedJTIs (st_db s)) = Some (Json dl) \<or> dl < T \<Longrightarrow> \<forall>t \<in> set ts. t \<le> T \<Longrightarrow>
     bget jti (db_revokedJTIs (st_db (fold sweepExpired ts s))) = Some (Json dl) \<or> dl < T"
proof (induction ts arbitrary: s)
  case (Cons t ts)
  have "store_ok (st_db (sweepExpired t s))"
    using SweepExpired_ok [OF Cons.prems(1)] by (simp add: sweepExpired_def Let_def)
  moreover have "bget jti (db_revokedJTIs (st_db (sweepExpired t s))) = Some (Json dl) \<or> dl < T"
    using sweep_revocation [OF Cons.prems(1,2)] Cons.prems(3) by simp
  ultimately show ?case using Cons.IH [of "sweepExpired t s"] Cons.prems(3) by simp
qed simp

text \<open>A token that was accepted is accepted again: what verification removes is an entry past its deadline.\<close>

lemma verifyJWT_again:
  assumes "verifyJWT e tok s = (Inr c, s')"
  shows "fst (verifyJWT e tok s') = Inr c"
proof -
  have again: "fst (verifyTokenNotRevoked e c s1) = None" if "verifyTokenNotRevoked e c s = (None, s1)" for s s1
    using that
    by (auto simp: verifyTokenNotRevoked_def GetRevokedJTI_def DeleteRevokedJTI_def db_view_def db_update_def on_db_def getJSON_def
        bget_bdel Let_def split: if_splits sum.splits option.splits prod.splits)
  from verifyJWT_sound [OF assms [unfolded verifyJWT_def]] have v: "validateJWTClaims e c False s = (None, s')" by simp
  then have "fst (validateJWTClaims e c False s') = None"
    using again by (auto simp: validateJWTClaims_def split: if_splits)
  with assms v show ?thesis
    by (auto simp: verifyJWT_def verifyJWTWithOptions_def case_prod_beta split: list.splits sum.splits option.splits)
qed


section \<open>Evaluating the properties\<close>

definition demo_authorize_request :: http_request where
  "demo_authorize_request = demo_request\<lparr>r_Cookie := [sessionCookieName \<mapsto> ''sid''],
     r_Query := (\<lambda>_. [])(''response_type'' := ''code'', ''client_id'' := ''web'', ''redirect_uri'' := ''https://a/cb'',
       ''scope'' := ''openid email openid'', ''code_challenge'' := ''ch'', ''prompt'' := ''none'')\<rparr>"

lemma demo_authorize_request_sel [simp]:
  "r_Query demo_authorize_request k = (if k = ''prompt'' then ''none'' else if k = ''code_challenge'' then ''ch''
     else if k = ''scope'' then ''openid email openid'' else if k = ''redirect_uri'' then ''https://a/cb''
     else if k = ''client_id'' then ''web'' else if k = ''response_type'' then ''code'' else [])"
  by (simp add: demo_authorize_request_def)

abbreviation demo_authorize_st :: st where
  "demo_authorize_st \<equiv> demo_st\<lparr>st_db := demo_consent_db\<rparr>"

lemma demo_none: "Fields ''none'' = [''none'']"
  using Fields_Join [of "[''none'']"] by (simp add: plain_word_def)

lemma demo_authorize_valid:
  "validSession demo_env demo_authorize_request (demo_authorize_st\<lparr>st_drawn := n\<rparr>) =
     (Some demo_session, demo_authorize_st\<lparr>st_drawn := n\<rparr>)"
  by (simp add: validSession_def session_id_def demo_authorize_request_def load_session_def GetSession_def
      db_view_def getJSON_def bget_def demo_consent_db_def empty_Store_def session_expired_def
      zero_Session_def IsZero_def sessionCookieName_def)

lemma bput_not_Nil: "bput k v b \<noteq> []"
  by (induction k v b rule: bput.induct) auto

lemma demo_authorize:
  assumes "handleAuthorize demo_env demo_authorize_request demo_authorize_st = (resp, s')"
  shows "db_authCodes (st_db s') \<noteq> []"
proof -
  let ?r = demo_authorize_request
  have scope: "validateAuthorizationScope demo_client ''openid email openid'' = Inr ''openid email''"
    by (simp add: validateAuthorizationScope_def demo_scope clientAllowedScopeSet_def
        supportedAuthorizationScopes_def scope_names)
  have pre: "handleAuthorize demo_env ?r demo_authorize_st =
      authorize_request demo_env ?r demo_client (new_auth_request demo_env ?r demo_client ''openid email'' (base64RawURL [0, 32]))
        (demo_authorize_st\<lparr>st_drawn := 1\<rparr>)"
    by (simp add: handleAuthorize_def requestHostMatchesIssuer_def demo_cfg_def lookupClient_def clientAllowsRedirect_def
        scope authorizePKCEError_def challenge_method_def randomB64_def Let_def)
  have t: "TrimSpace [] = []" by code_simp
  have p: "checkPrompt demo_env ''none'' [] (Some se) demo_client sc s = Inr (GoOn False)" for se sc s
    by (simp add: checkPrompt_def demo_none authTimeStale_def t consentMissingForRequest_def Let_def)
  obtain y s3 where m: "maybeExtendSession demo_env ?r (demo_authorize_st\<lparr>st_drawn := 1\<rparr>) = (y, s3)" by fastforce
  note f = session_frameD [OF maybeExtendSession_frame [OF m]]
  let ?ar = "new_auth_request demo_env ?r demo_client ''openid email'' (base64RawURL [0, 32])"
  obtain x where i: "issueCodeRedirect demo_env ?ar demo_session s3 = (x, s')"
    using assms pre m f(1)
    by (auto simp: authorize_request_def demo_authorize_valid p proceedAfterAuthn_def lookupClient_def
        new_auth_request_def or_store_error_def split: sum.splits prod.splits)
  define acode where "acode = base64RawURL [word_of_nat (st_drawn s3), 32]"
  define d where "d = (st_db s3)\<lparr>db_authCodes :=
    bput (hash_secret demo_env acode) (code_for demo_env ?ar demo_session) (db_authCodes (st_db s3))\<rparr>"
  have "hash_secret demo_env acode \<noteq> []" "length (hash_secret demo_env acode) \<le> 32768"
    by (simp_all add: acode_def hash_secret_def hashSecret_def bytes_of_def)
  moreover have "db_open (st_db s3)" using f(6) by (simp add: demo_consent_db_def empty_Store_def)
  ultimately have "on_db (PutAuthCode (hash_secret demo_env acode) (code_for demo_env ?ar demo_session))
      (s3\<lparr>st_drawn := Suc (st_drawn s3)\<rparr>) = (Inr (), s3\<lparr>st_drawn := Suc (st_drawn s3), st_db := d\<rparr>)"
    by (simp add: on_db_eq db_simps d_def)
  moreover have "randomB64 demo_env 32 s3 = (acode, s3\<lparr>st_drawn := Suc (st_drawn s3)\<rparr>)"
    by (simp add: randomB64_def acode_def)
  ultimately have "st_db s' = d"
    using i unfolding issueCodeRedirect_def by (auto split: option.splits)
  then show ?thesis by (simp add: d_def bput_not_Nil)
qed

theorem authorize_sound_witness:
  "\<exists>resp s' key ac. handleAuthorize demo_env demo_authorize_request demo_authorize_st = (resp, s') \<and>
     db_authCodes (st_db s') = bput key ac [] \<and> ac_UserID ac = ''alice'' \<and> ac_RedirectURI ac = ''https://a/cb''"
proof -
  obtain resp s' where h: "handleAuthorize demo_env demo_authorize_request demo_authorize_st = (resp, s')" by fastforce
  have c: "db_authCodes (st_db demo_authorize_st) = []" by (simp add: demo_consent_db_def empty_Store_def)
  have s1: "snd (randomB64 demo_env 32 demo_authorize_st) = demo_authorize_st\<lparr>st_drawn := 1\<rparr>" by (simp add: randomB64_def)
  show ?thesis
    using conjunct2 [OF authorize_sound [OF h]] demo_authorize [OF h] h
    unfolding c s1 demo_authorize_valid by auto
qed

theorem prompt_none_silent_witness:
  "\<exists>resp s'. handleAuthorize demo_env demo_authorize_request demo_authorize_st = (resp, s') \<and>
     db_authRequests (st_db s') = [(''rid'', Json demo_ar)]"
proof -
  obtain resp s' where h: "handleAuthorize demo_env demo_authorize_request demo_authorize_st = (resp, s')" by fastforce
  have "''none'' \<in> set (Fields (r_Query demo_authorize_request ''prompt''))" by (simp add: demo_none)
  moreover have "registry_keyed demo_env demo_authorize_st" by (simp add: registry_keyed_def lookupClient_def)
  ultimately show ?thesis
    using prompt_none_silent [OF h] h by (auto simp: demo_consent_db_def)
qed


lemma demo_verify:
  assumes "db_open (st_db s)" and "bget ''j'' (db_revokedJTIs (st_db s)) = None"
  shows "verifyJWT demo_env_jwt demo_token s = (Inr demo_claims, s)"
proof -
  have d: "decodeB64URL ''AQ'' = Inr [1]" "decodeB64URL ''Ag'' = Inr [2]"
    "decodeB64URL ''AUFRLkFn'' = Inr (1 # bytes_of ''AQ.Ag'')" by code_simp+
  show ?thesis
    using assms demo_times
    by (simp add: verifyJWT_def verifyJWTWithOptions_def demo_token_def decodeJWTHeader_def d
        jwtVerifyKey_def str_claim_def verifyJWTSignature_def sha_str_def decodeJWTClaims_def
        validateJWTClaims_def verifyTokenNotRevoked_def GetRevokedJTI_def db_view_def getJSON_def
        demo_cfg_def demo_claims_def Let_def)
qed

lemma demo_auth_any:
  assumes "r_BasicAuth r = None" and "form ''client_id'' = ''web''" and "e_clients e = [''web'' \<mapsto> demo_client]"
  shows "authenticateClientRateLimited e r form (demo_st\<lparr>st_db := d\<rparr>) = (Inr demo_client, demo_st\<lparr>st_db := d\<rparr>)"
  using assms
  by (simp add: authenticateClientRateLimited_def clientAuthRateKey_def clientIDFromRequest_def allow_def
      demo_limiter_def newLoginRateLimiter_def recordSuccess_def authenticateClient_def lookupClient_def
      demo_st_def fun_upd_idem Let_def)

theorem userinfo_gated_witness:
  "\<exists>b s'. handleUserInfo demo_env_jwt (demo_request\<lparr>r_Header := (\<lambda>_. [])(''Authorization'' := ''Bearer AQ.Ag.AUFRLkFn'')\<rparr>)
       demo_st = (Resp 200 b, s') \<and> (\<exists>claims. authentic demo_env_jwt demo_token claims)"
proof -
  let ?r = "demo_request\<lparr>r_Header := (\<lambda>_. [])(''Authorization'' := ''Bearer AQ.Ag.AUFRLkFn'')\<rparr>"
  have "TrimSpace ''AQ.Ag.AUFRLkFn'' = ''AQ.Ag.AUFRLkFn''" by (rule TrimSpace_plain) simp_all
  then have t: "userInfoBearerToken demo_env_jwt ?r = demo_token"
    by (simp add: userInfoBearerToken_def TrimPrefix_def HasPrefix_def bearerPrefix_def demo_token_def Let_def)
  have v: "verifyJWT demo_env_jwt demo_token demo_st = (Inr demo_claims, demo_st)"
    by (rule demo_verify) (simp_all add: empty_Store_def)
  then obtain b where h: "handleUserInfo demo_env_jwt ?r demo_st = (Resp 200 b, demo_st)"
    by (simp add: handleUserInfo_def t demo_claims_def str_claim_def demo_token_def Let_def)
  show ?thesis using userinfo_gated [OF h] h unfolding t by blast
qed

theorem introspect_owner_only_witness:
  "\<exists>resp s'. handleIntrospect demo_env (demo_request\<lparr>r_Form := (\<lambda>_. (True, (\<lambda>_. [])(''client_id'' := ''web'',
        ''token'' := ''r'', ''token_type_hint'' := ''refresh_token'')))\<rparr>) demo_token_st = (Resp 200 (JsonBody resp), s') \<and>
     resp ''active'' = Some (JBool True) \<and> (\<exists>client form r. authenticated demo_env r form demo_token_st client)"
proof -
  let ?f = "(\<lambda>_. [])(''client_id'' := ''web'', ''token'' := ''r'', ''token_type_hint'' := ''refresh_token'')"
  let ?r = "demo_request\<lparr>r_Form := (\<lambda>_. (True, ?f))\<rparr>"
  have a: "authenticateClientRateLimited demo_env ?r ?f demo_token_st = (Inr demo_client, demo_token_st)"
    unfolding demo_token_st_def by (rule demo_auth_any) (simp_all add: demo_request_def)
  have t: "TrimSpace ''r'' = ''r''" by (rule TrimSpace_plain) simp_all
  obtain resp where i: "introspectRefreshToken demo_env ''r'' demo_client demo_token_st = Some resp"
    and act: "resp ''active'' = Some (JBool True)"
    by (simp add: introspectRefreshToken_def demo_keys GetRefreshToken_def db_view_def getJSON_def bget_def
        demo_token_st_def empty_Store_def Let_def)
  obtain s' where h: "handleIntrospect demo_env ?r demo_token_st = (Resp 200 (JsonBody resp), s')"
    using a i by (simp add: handleIntrospect_def introspectToken_def t Let_def)
  show ?thesis using introspect_owner_only [OF h act refl refl] h act by blast
qed


end
