(* ===== verification/Observability.thy ===== *)
theory Observability
  imports Broker "HOL-Library.Product_Lexorder"
begin

text \<open>
  Request identifiers, the metrics registry and the middleware around the routes
  (\<^verbatim>\<open>observability.go\<close>, \<^verbatim>\<open>securityHeaders\<close> of \<^verbatim>\<open>broker.go\<close>).  The registry is an argument and a
  result of the middleware; the request log is not modelled.  The sum of the durations is kept
  in whole nanoseconds, without the rounding of \<^verbatim>\<open>float64\<close>, and its printed form is an argument
  of \<open>render\<close>.  A slice expression whose bounds cross panics in Go; it is \<open>None\<close> here.
\<close>

section \<open>Request identifiers and status\<close>

definition cleanRequestID :: "string \<Rightarrow> string" where
  "cleanRequestID ident0 =
     (let ident = TrimSpace ident0 in
      if length ident > 128 \<or> (\<exists>c \<in> set ident. code c = 13 \<or> code c = 10 \<or> code c = 9) then [] else ident)"

text \<open>
  The recorder in front of the response writer; \<open>sr_sent\<close> is the list of statuses that
  reached the writer.  \<open>n\<close> is the number of bytes the writer reports for a \<^verbatim>\<open>Write\<close>.
\<close>

record statusRecorder =
  sr_status :: nat
  sr_bytes :: int
  sr_wrote :: bool
  sr_sent :: "nat list"

definition new_recorder :: statusRecorder where
  "new_recorder = \<lparr>sr_status = 200, sr_bytes = 0, sr_wrote = False, sr_sent = []\<rparr>"

definition WriteHeader :: "nat \<Rightarrow> statusRecorder \<Rightarrow> statusRecorder" where
  "WriteHeader status r =
     (if sr_wrote r then r else r\<lparr>sr_wrote := True, sr_status := status, sr_sent := sr_sent r @ [status]\<rparr>)"

definition Write :: "int \<Rightarrow> statusRecorder \<Rightarrow> statusRecorder" where
  "Write n r =
     (let r = (if \<not> sr_wrote r then WriteHeader 200 r else r) in r\<lparr>sr_bytes := sr_bytes r + n\<rparr>)"

section \<open>The registry\<close>

record metricKey =
  mx_method :: string
  mx_path :: string
  mx_status :: nat

record requestMetric =
  rm_count :: int
  rm_durationSum :: duration

type_synonym metricsRegistry = "(metricKey \<times> requestMetric) list"

definition newMetricsRegistry :: metricsRegistry where
  "newMetricsRegistry = []"

text \<open>\<^verbatim>\<open>count\<close> is an \<^verbatim>\<open>int64\<close>.\<close>

definition metric_hit :: "duration \<Rightarrow> requestMetric \<Rightarrow> requestMetric" where
  "metric_hit d m = \<lparr>rm_count = wrap64 (rm_count m + 1), rm_durationSum = rm_durationSum m + d\<rparr>"

definition new_metric :: requestMetric where
  "new_metric = \<lparr>rm_count = 0, rm_durationSum = 0\<rparr>"

fun upd_metric :: "metricKey \<Rightarrow> duration \<Rightarrow> metricsRegistry \<Rightarrow> metricsRegistry" where
  "upd_metric key d [] = [(key, metric_hit d new_metric)]"
| "upd_metric key d ((k, m) # ms) = (if k = key then (k, metric_hit d m) # ms else (k, m) # upd_metric key d ms)"

definition record_metric :: "string \<Rightarrow> string \<Rightarrow> nat \<Rightarrow> duration \<Rightarrow> metricsRegistry \<Rightarrow> metricsRegistry" where
  "record_metric rmethod rpath status d m =
     upd_metric \<lparr>mx_method = rmethod, mx_path = rpath, mx_status = status\<rparr> d m"

definition escapeMetricLabel :: "string \<Rightarrow> string" where
  "escapeMetricLabel value0 =
     (let value1 = Replace [([CHR 0x5C], [CHR 0x5C, CHR 0x5C])] value0;
          value2 = Replace [([CHR 0x0A], [CHR 0x5C, CHR ''n''])] value1
      in Replace [([CHR 0x22], [CHR 0x5C, CHR 0x22])] value2)"

definition metricLabels :: "golib \<Rightarrow> metricKey \<Rightarrow> string" where
  "metricLabels G key =
     ''method='' @ g_quote G (escapeMetricLabel (mx_method key)) @ '',path='' @
     g_quote G (escapeMetricLabel (mx_path key)) @ '',status='' @ g_quote G (Itoa (int (mx_status key)))"

definition render_header :: string where
  "render_header =
     ''# HELP authbroker_http_requests_total Total HTTP requests by method, path, and status.'' @ [CHR 0x0A] @
     ''# TYPE authbroker_http_requests_total counter'' @ [CHR 0x0A] @
     ''# HELP authbroker_http_request_duration_seconds_sum Total HTTP request duration by method, path, and status.'' @ [CHR 0x0A] @
     ''# TYPE authbroker_http_request_duration_seconds_sum counter'' @ [CHR 0x0A]"

definition render_metric :: "golib \<Rightarrow> (duration \<Rightarrow> string) \<Rightarrow> metricKey \<times> requestMetric \<Rightarrow> string" where
  "render_metric G fmt km =
     ''authbroker_http_requests_total{'' @ metricLabels G (fst km) @ ''} '' @ Itoa (rm_count (snd km)) @ [CHR 0x0A] @
     ''authbroker_http_request_duration_seconds_sum{'' @ metricLabels G (fst km) @ ''} '' @
     fmt (rm_durationSum (snd km)) @ [CHR 0x0A]"

definition metric_order :: "metricKey \<times> requestMetric \<Rightarrow> string \<times> string \<times> nat" where
  "metric_order km = (mx_path (fst km), mx_method (fst km), mx_status (fst km))"

definition render :: "golib \<Rightarrow> (duration \<Rightarrow> string) \<Rightarrow> metricsRegistry \<Rightarrow> string" where
  "render G fmt m = render_header @ concat (map (render_metric G fmt) (sort_key metric_order m))"

section \<open>Route patterns\<close>

definition dynamicRoutePatterns :: "string list" where
  "dynamicRoutePatterns = [''/admin/clients/{id}/delete'', ''/admin/app-tokens/{id}/delete'', ''/app-tokens/{id}'']"

definition routePatternSpecificity :: "string \<Rightarrow> nat \<times> nat" where
  "routePatternSpecificity pattern =
     (let segs = filter (\<lambda>seg. seg \<noteq> []) (Split (CHR ''/'') pattern)
      in (length segs, length (filter (\<lambda>seg. \<not> Contains seg ''{'') segs)))"

text \<open>The comparison is a total order, so every sorting algorithm gives the same list.\<close>

definition pattern_order :: "string \<Rightarrow> int \<times> int \<times> string" where
  "pattern_order pattern =
     (case routePatternSpecificity pattern of (segs, literals) \<Rightarrow> (- int segs, - int literals, pattern))"

definition sortDynamicRoutePatterns :: "string list \<Rightarrow> string list" where
  "sortDynamicRoutePatterns patterns = sort_key pattern_order patterns"

definition dynamicRoutePatternList :: "string list" where
  "dynamicRoutePatternList = sortDynamicRoutePatterns dynamicRoutePatterns"

text \<open>\<^verbatim>\<open>strings.Index\<close> and \<^verbatim>\<open>strings.HasSuffix\<close>.\<close>

fun Index :: "string \<Rightarrow> string \<Rightarrow> nat option" where
  "Index [] t = (if t = [] then Some 0 else None)"
| "Index (c # s) t = (if HasPrefix (c # s) t then Some 0 else map_option Suc (Index s t))"

definition HasSuffix :: "string \<Rightarrow> string \<Rightarrow> bool" where
  "HasSuffix s t = (length t \<le> length s \<and> drop (length s - length t) s = t)"

text \<open>\<open>None\<close> when the bounds of the slice cross.\<close>

definition matchDynamicPattern :: "string \<Rightarrow> string \<Rightarrow> bool option" where
  "matchDynamicPattern pattern path =
     (case Index pattern ''{id}'' of
        None \<Rightarrow> Some (pattern = path)
      | Some idx \<Rightarrow>
          let prefix = take idx pattern; suffix = drop (idx + 4) pattern in
          if \<not> HasPrefix path prefix \<or> \<not> HasSuffix path suffix then Some False
          else if length path - length suffix < length prefix then None
          else let middle = drop (length prefix) (take (length path - length suffix) path)
               in Some (\<not> (middle = [] \<or> Contains middle ''/'')))"

fun metric_loop :: "string list \<Rightarrow> string \<Rightarrow> string option" where
  "metric_loop [] path = Some path"
| "metric_loop (pattern # ps) path =
     (case matchDynamicPattern pattern path of
        None \<Rightarrow> None | Some True \<Rightarrow> Some pattern | Some False \<Rightarrow> metric_loop ps path)"

definition metricPath :: "string \<Rightarrow> string \<Rightarrow> string option" where
  "metricPath path metricsPath =
     (if path = [] then Some ''/''
      else if metricsPath \<noteq> [] \<and> path = metricsPath then Some metricsPath
      else metric_loop dynamicRoutePatternList path)"

section \<open>The middleware\<close>

definition authbrokerCSP :: string where
  "authbrokerCSP =
     ''default-src 'none'; base-uri 'none'; connect-src 'self'; font-src 'self'; form-action 'self'; '' @
     ''frame-ancestors 'none'; frame-src 'none'; img-src 'self'; manifest-src 'none'; object-src 'none'; '' @
     ''script-src 'self'; style-src 'self'' @ [CHR 0x27]"

type_synonym handler = "http_request \<Rightarrow> st \<Rightarrow> response \<times> st"

definition securityHeaders :: "env \<Rightarrow> handler \<Rightarrow> handler" where
  "securityHeaders e next r s =
     (let s1 = set_header ''X-Content-Type-Options'' ''nosniff'' s;
          s2 = set_header ''X-Frame-Options'' ''DENY'' s1;
          s3 = set_header ''Referrer-Policy'' ''no-referrer'' s2;
          s4 = set_header ''Content-Security-Policy'' authbrokerCSP s3;
          s5 = set_header ''Cache-Control'' ''no-store'' s4;
          s6 = (if cookieSecure e then set_header ''Strict-Transport-Security'' ''max-age=31536000; includeSubDomains'' s5
                else s5)
      in next r s6)"

text \<open>
  A handler that panics ends the middleware as well; the same happens when the path of the
  metrics cannot be computed.  \<open>d\<close> is the time the handler took.
\<close>

definition observability ::
  "env \<Rightarrow> duration \<Rightarrow> handler \<Rightarrow> http_request \<Rightarrow> st \<times> metricsRegistry \<Rightarrow> response \<times> st \<times> metricsRegistry" where
  "observability e d next r sm =
     (case sm of (s, m) \<Rightarrow>
        (case (let ident = cleanRequestID (r_Header r ''X-Request-ID'')
               in if ident = [] then randomB64 e 16 s else (ident, s)) of (requestID, s1) \<Rightarrow>
          (case next (r\<lparr>r_RequestID := requestID\<rparr>) (set_header ''X-Request-ID'' requestID s1) of
             (Panic, s2) \<Rightarrow> (Panic, s2, m)
           | (Resp status body, s2) \<Rightarrow>
               (case metricPath (r_Path r) (me_Path (cf_Metrics (e_cfg e))) of
                  None \<Rightarrow> (Panic, s2, m)
                | Some path \<Rightarrow> (Resp status body, s2, record_metric (r_Method r) path status d m)))))"

section \<open>The path of the metrics\<close>

lemma HasPrefix_append: "HasPrefix s p \<longleftrightarrow> (\<exists>r. s = p @ r)"
  by (metis HasPrefix_def append_eq_conv_conj append_take_drop_id)

lemma HasSuffix_append: "HasSuffix s t \<longleftrightarrow> (\<exists>r. s = r @ t)"
proof
  assume "HasSuffix s t"
  then have "s = take (length s - length t) s @ t" by (metis HasSuffix_def append_take_drop_id)
  then show "\<exists>r. s = r @ t" by blast
qed (auto simp: HasSuffix_def)

text \<open>The two literal parts of a pattern overlap in the path in one way only.\<close>

lemma literals_overlap:
  assumes "c \<notin> set t" and "length t < length p" and "last p = c"
  shows "HasPrefix path p \<and> HasSuffix path (c # t) \<and> length path - length (c # t) < length p \<longleftrightarrow> path = p @ t"
proof
  assume a: "HasPrefix path p \<and> HasSuffix path (c # t) \<and> length path - length (c # t) < length p"
  then obtain r u where r: "path = p @ r" and u: "path = u @ c # t" by (metis HasPrefix_append HasSuffix_append)
  from a u have "length u < length p" by simp
  with r u obtain v where v: "p = u @ v" "v \<noteq> []" by (auto simp: append_eq_append_conv2)
  with r u have vr: "v @ r = c # t" by simp
  have "last v = c" using v assms(3) by simp
  obtain w where w: "v = c # w" using vr v(2) by (cases v) auto
  with vr have t: "w @ r = t" by simp
  have "w = []"
  proof (rule ccontr)
    assume "w \<noteq> []"
    with w \<open>last v = c\<close> have "c \<in> set w" by (metis last_ConsR last_in_set)
    with t assms(1) show False by auto
  qed
  with t r show "path = p @ t" by simp
next
  assume path: "path = p @ t"
  have "p \<noteq> []" using assms(2) by auto
  then have "p = butlast p @ [c]" using assms(3) append_butlast_last_id by metis
  then have "path = butlast p @ c # t" using path by (metis append.assoc append_Cons append_Nil)
  then have "HasSuffix path (c # t)" by (auto simp: HasSuffix_append)
  with path \<open>p \<noteq> []\<close> show "HasPrefix path p \<and> HasSuffix path (c # t) \<and> length path - length (c # t) < length p"
    by (simp add: HasPrefix_append)
qed

lemma patterns_sorted:
  "dynamicRoutePatternList = [''/admin/app-tokens/{id}/delete'', ''/admin/clients/{id}/delete'', ''/app-tokens/{id}'']"
  by code_simp

lemma Index_id: "CHR ''{'' \<notin> set p \<Longrightarrow> Index (p @ ''{id}'' @ q) ''{id}'' = Some (length p)"
proof (induction p)
  case Nil
  then show ?case by (simp add: HasPrefix_def)
next
  case (Cons c p)
  then have "c \<noteq> CHR ''{''" by auto
  with Cons show ?case by (simp add: HasPrefix_def)
qed

lemma matchDynamicPattern_eq:
  assumes "pattern = p @ ''{id}'' @ q" and "CHR ''{'' \<notin> set p"
  shows "matchDynamicPattern pattern path =
    (if \<not> HasPrefix path p \<or> \<not> HasSuffix path q then Some False
     else if length path - length q < length p then None
     else let middle = drop (length p) (take (length path - length q) path)
          in Some (\<not> (middle = [] \<or> Contains middle ''/'')))"
  using Index_id [OF assms(2), of q] by (simp add: matchDynamicPattern_def Let_def assms(1))

lemma matchDynamicPattern_None:
  assumes "pattern = p @ ''{id}'' @ c # t" and "CHR ''{'' \<notin> set p"
    and "c \<notin> set t" and "length t < length p" and "last p = c"
  shows "matchDynamicPattern pattern path = None \<longleftrightarrow> path = p @ t"
  using literals_overlap [OF assms(3-5), of path] by (auto simp: matchDynamicPattern_eq [OF assms(1,2)] Let_def)

lemma Contains_char: "Contains s [c] \<longleftrightarrow> c \<in> set s"
  by (induction s) (auto simp: HasPrefix_def)

lemma matchDynamicPattern_id:
  assumes "pattern = p @ ''{id}'' @ q" and "CHR ''{'' \<notin> set p" and "ident \<noteq> []" and "CHR ''/'' \<notin> set ident"
  shows "matchDynamicPattern pattern (p @ ident @ q) = Some True"
proof -
  have "HasPrefix (p @ ident @ q) p" "HasSuffix (p @ ident @ q) q"
    by (auto simp: HasPrefix_append HasSuffix_append intro: exI [of _ "p @ ident"])
  then show ?thesis using assms(3,4) by (simp add: matchDynamicPattern_eq [OF assms(1,2)] Contains_char)
qed

lemma matchDynamicPattern_other:
  assumes "pattern = p @ ''{id}'' @ q" and "CHR ''{'' \<notin> set p" and "\<not> HasPrefix path p"
  shows "matchDynamicPattern pattern path = Some False"
  using assms(3) by (simp add: matchDynamicPattern_eq [OF assms(1,2)])

lemma delete_panics:
  "matchDynamicPattern ''/admin/app-tokens/{id}/delete'' path = None \<longleftrightarrow> path = ''/admin/app-tokens/'' @ ''delete''"
  "matchDynamicPattern ''/admin/clients/{id}/delete'' path = None \<longleftrightarrow> path = ''/admin/clients/'' @ ''delete''"
  by (rule matchDynamicPattern_None [where c = "CHR ''/''"]; simp)+

lemma app_token_no_panic: "matchDynamicPattern ''/app-tokens/{id}'' path \<noteq> None"
proof -
  have "matchDynamicPattern ''/app-tokens/{id}'' path =
    (if \<not> HasPrefix path ''/app-tokens/'' \<or> \<not> HasSuffix path [] then Some False
     else if length path - length ([] :: string) < length ''/app-tokens/'' then None
     else let middle = drop (length ''/app-tokens/'') (take (length path - length ([] :: string)) path)
          in Some (\<not> (middle = [] \<or> Contains middle ''/'')))"
    by (rule matchDynamicPattern_eq) simp_all
  moreover have "HasPrefix path ''/app-tokens/'' \<Longrightarrow> length ''/app-tokens/'' \<le> length path"
    by (metis HasPrefix_append le_add1 length_append)
  ultimately show ?thesis by (auto simp: Let_def)
qed

text \<open>
  C24. The path for the metrics cannot be computed exactly for the two paths in which the
  literal parts of a delete pattern overlap (unless that path is the one of the metrics): there
  the slice of the code has crossing bounds and the middleware panics, for every caller.
\<close>

theorem metric_path_panics:
  "metricPath path metricsPath = None \<longleftrightarrow>
     path \<noteq> metricsPath \<and> (path = ''/admin/clients/delete'' \<or> path = ''/admin/app-tokens/delete'')"
proof -
  have loop: "metric_loop dynamicRoutePatternList path = None \<longleftrightarrow>
      matchDynamicPattern ''/admin/app-tokens/{id}/delete'' path = None \<or>
      matchDynamicPattern ''/admin/app-tokens/{id}/delete'' path = Some False \<and>
      matchDynamicPattern ''/admin/clients/{id}/delete'' path = None"
    using app_token_no_panic [of path] by (auto simp: patterns_sorted split: option.splits bool.splits)
  have "matchDynamicPattern ''/admin/app-tokens/{id}/delete'' ''/admin/clients/delete'' = Some False"
    by (rule matchDynamicPattern_other [of _ "''/admin/app-tokens/''"]) (simp_all add: HasPrefix_def)
  with loop show ?thesis by (auto simp: metricPath_def delete_panics)
qed

text \<open>
  One series per route: whatever the identifier in the path of a dynamic route, the
  metrics have the pattern of the route as their path, unless the path is the one of the metrics.
\<close>

theorem metric_path_collapses:
  assumes "ident \<noteq> []" and "CHR ''/'' \<notin> set ident"
    and "metricsPath \<notin> {''/app-tokens/'' @ ident, ''/admin/clients/'' @ ident @ ''/delete'', ''/admin/app-tokens/'' @ ident @ ''/delete''}"
  shows "metricPath (''/app-tokens/'' @ ident) metricsPath = Some ''/app-tokens/{id}'' \<and>
    metricPath (''/admin/clients/'' @ ident @ ''/delete'') metricsPath = Some ''/admin/clients/{id}/delete'' \<and>
    metricPath (''/admin/app-tokens/'' @ ident @ ''/delete'') metricsPath = Some ''/admin/app-tokens/{id}/delete''"
proof -
  have "matchDynamicPattern ''/app-tokens/{id}'' (''/app-tokens/'' @ ident @ []) = Some True"
    "matchDynamicPattern ''/admin/clients/{id}/delete'' (''/admin/clients/'' @ ident @ ''/delete'') = Some True"
    "matchDynamicPattern ''/admin/app-tokens/{id}/delete'' (''/admin/app-tokens/'' @ ident @ ''/delete'') = Some True"
    by (rule matchDynamicPattern_id [OF _ _ assms(1,2)]; simp)+
  moreover have "matchDynamicPattern ''/admin/app-tokens/{id}/delete'' (''/admin/clients/'' @ ident @ ''/delete'') = Some False"
    "matchDynamicPattern ''/admin/app-tokens/{id}/delete'' (''/app-tokens/'' @ ident) = Some False"
    by (rule matchDynamicPattern_other [of _ "''/admin/app-tokens/''"]; simp add: HasPrefix_def)+
  moreover have "matchDynamicPattern ''/admin/clients/{id}/delete'' (''/app-tokens/'' @ ident) = Some False"
    by (rule matchDynamicPattern_other [of _ "''/admin/clients/''"]; simp add: HasPrefix_def)
  ultimately show ?thesis using assms(3) by (auto simp: metricPath_def patterns_sorted)
qed

theorem metric_path_collapses_witness:
  "metricPath ''/app-tokens/ci'' ''/metrics'' = Some ''/app-tokens/{id}''"
  using metric_path_collapses [of "''ci''" "''/metrics''"] by simp

section \<open>Counting\<close>

lemma upd_metric_map: "map_of (upd_metric key d m) =
    (map_of m)(key \<mapsto> metric_hit d (case map_of m key of None \<Rightarrow> new_metric | Some x \<Rightarrow> x))"
  by (induction m) (auto simp: fun_upd_twist)

lemma upd_metric_keys: "fst ` set (upd_metric key d m) = insert key (fst ` set m)"
proof (induction m)
  case (Cons km m)
  then show ?case by (cases km) auto
qed simp

lemma upd_metric_distinct: "distinct (map fst m) \<Longrightarrow> distinct (map fst (upd_metric key d m))"
  by (induction m) (auto simp: upd_metric_keys)

text \<open>A request as the registry sees it, and the effect of a sequence of them.\<close>

type_synonym metric_event = "metricKey \<times> duration"

definition record_all :: "metric_event list \<Rightarrow> metricsRegistry \<Rightarrow> metricsRegistry" where
  "record_all es m = fold (\<lambda>(k, d) m. record_metric (mx_method k) (mx_path k) (mx_status k) d m) es m"

definition event_count :: "metricKey \<Rightarrow> metric_event list \<Rightarrow> int" where
  "event_count key es = int (length (filter (\<lambda>e. fst e = key) es))"

definition event_time :: "metricKey \<Rightarrow> metric_event list \<Rightarrow> duration" where
  "event_time key es = sum_list (map snd (filter (\<lambda>e. fst e = key) es))"

lemma record_metric_key: "record_metric (mx_method k) (mx_path k) (mx_status k) d m = upd_metric k d m"
  by (cases k) (simp add: record_metric_def)

lemma record_all_snoc: "record_all (es @ [e]) m = upd_metric (fst e) (snd e) (record_all es m)"
  by (simp add: record_all_def record_metric_key case_prod_beta)

lemma wrap64_add_one: "wrap64 (wrap64 x + 1) = wrap64 (x + 1)"
  by (simp add: wrap64_def mod_simps algebra_simps)

text \<open>
  The registry counts exactly: after any sequence of requests it has one series for each
  combination of method, path and status that occurred, and none else; its counter is the number
  of the requests with that combination, as a 64-bit integer, and its duration their total time.
\<close>

theorem metrics_counts_exact:
  "distinct (map fst (record_all es newMetricsRegistry)) \<and>
   map_of (record_all es newMetricsRegistry) key =
     (if event_count key es = 0 then None
      else Some \<lparr>rm_count = wrap64 (event_count key es), rm_durationSum = event_time key es\<rparr>)"
proof (induction es rule: rev_induct)
  case Nil
  show ?case by (simp add: record_all_def newMetricsRegistry_def event_count_def)
next
  case (snoc e es)
  have w: "wrap64 0 = 0" "wrap64 1 = 1" by (simp_all add: wrap64_def)
  have c: "event_count key (es @ [e]) = event_count key es + (if fst e = key then 1 else 0)"
    "event_time key (es @ [e]) = event_time key es + (if fst e = key then snd e else 0)"
    by (simp_all add: event_count_def event_time_def)
  have z: "event_count key es = 0 \<Longrightarrow> event_time key es = 0" "0 \<le> event_count key es"
    by (simp_all add: event_count_def event_time_def)
  show ?case
  proof (cases "event_count key es = 0")
    case True
    with snoc z show ?thesis
      by (auto simp: record_all_snoc upd_metric_map upd_metric_distinct c metric_hit_def new_metric_def w)
  next
    case False
    with z(2) have "event_count key es + 1 \<noteq> 0" by simp
    with snoc False show ?thesis
      by (auto simp: record_all_snoc upd_metric_map upd_metric_distinct c metric_hit_def wrap64_add_one)
  qed
qed

section \<open>One status\<close>

datatype write_op = OpHeader nat | OpWrite int

fun write_step :: "write_op \<Rightarrow> statusRecorder \<Rightarrow> statusRecorder" where
  "write_step (OpHeader status) r = WriteHeader status r"
| "write_step (OpWrite n) r = Write n r"

definition op_status :: "write_op \<Rightarrow> nat" where
  "op_status oper = (case oper of OpHeader status \<Rightarrow> status | OpWrite _ \<Rightarrow> 200)"

lemma write_step_wrote:
  "sr_wrote r \<Longrightarrow> sr_wrote (write_step oper r) \<and> sr_status (write_step oper r) = sr_status r \<and>
     sr_sent (write_step oper r) = sr_sent r"
  by (cases oper) (simp_all add: WriteHeader_def Write_def)

lemma write_steps_wrote:
  "sr_wrote r \<Longrightarrow> sr_status (fold write_step ops r) = sr_status r \<and> sr_sent (fold write_step ops r) = sr_sent r"
  by (induction ops arbitrary: r) (simp_all add: write_step_wrote)

text \<open>
  The recorded status is the one the client got: whatever a handler writes, at most one
  status reaches the connection, that of the first call, and it is the status in the metrics.
\<close>

theorem recorder_faithful:
  "sr_sent (fold write_step ops new_recorder) = (case ops of [] \<Rightarrow> [] | oper # _ \<Rightarrow> [op_status oper]) \<and>
   (ops \<noteq> [] \<longrightarrow> sr_sent (fold write_step ops new_recorder) = [sr_status (fold write_step ops new_recorder)])"
proof (cases ops)
  case (Cons oper rest)
  have "sr_wrote (write_step oper new_recorder) \<and> sr_status (write_step oper new_recorder) = op_status oper \<and>
      sr_sent (write_step oper new_recorder) = [op_status oper]"
    by (cases oper) (simp_all add: WriteHeader_def Write_def new_recorder_def op_status_def)
  with write_steps_wrote [of "write_step oper new_recorder" rest] show ?thesis by (simp add: Cons)
qed (simp add: new_recorder_def)

theorem recorder_faithful_witness:
  "sr_sent (fold write_step [OpWrite 5, OpHeader 500] new_recorder) = [200]"
  using recorder_faithful [of "[OpWrite 5, OpHeader 500]"] by (simp add: op_status_def)

end
