(* ===== verification/Home.thy ===== *)
theory Home
  imports OAuth Totp Observability
begin

text \<open>
  The home page, app tokens and the static endpoints (\<^verbatim>\<open>handlers_home.go\<close>).  A template is its
  name and the data it is given; the structs of the views are JSON objects.  The texts of the
  style sheet and of the script (\<^verbatim>\<open>assets.go\<close>) are arguments of the handlers that serve them.
\<close>

section \<open>Static assets\<close>

definition computeAssetETag :: "golib \<Rightarrow> string \<Rightarrow> string" where
  "computeAssetETag G content = [CHR 0x22] @ base64RawURL (g_sha256 G (bytes_of content)) @ [CHR 0x22]"

definition etagMatches :: "string \<Rightarrow> string \<Rightarrow> bool" where
  "etagMatches header etag =
     (\<exists>raw \<in> set (Split (CHR '','') header).
        let candidate = TrimPrefix (TrimSpace raw) ''W/'' in candidate = ''*'' \<or> candidate = etag)"

definition serveStaticAsset :: "http_request \<Rightarrow> string \<Rightarrow> string \<Rightarrow> string \<Rightarrow> st \<Rightarrow> response \<times> st" where
  "serveStaticAsset r contentType content etag s =
     (let s1 = set_header ''ETag'' etag
            (set_header ''Cache-Control'' ''public, max-age=3600'' (set_header ''Content-Type'' contentType s));
          match = r_Header r ''If-None-Match''
      in if match \<noteq> [] \<and> etagMatches match etag then (Resp 304 NoBody, s1) else (Resp 200 (Text content), s1))"

definition handleStylesheet :: "string \<Rightarrow> env \<Rightarrow> http_request \<Rightarrow> st \<Rightarrow> response \<times> st" where
  "handleStylesheet css e r s =
     serveStaticAsset r ''text/css; charset=utf-8'' css (computeAssetETag (e_lib e) css) s"

definition handleScript :: "string \<Rightarrow> env \<Rightarrow> http_request \<Rightarrow> st \<Rightarrow> response \<times> st" where
  "handleScript js e r s =
     serveStaticAsset r ''application/javascript; charset=utf-8'' js (computeAssetETag (e_lib e) js) s"

section \<open>Health, metrics, discovery\<close>

definition handleHealth :: "env \<Rightarrow> http_request \<Rightarrow> st \<Rightarrow> response \<times> st" where
  "handleHealth e r s = (writeJSON 200 [''status'' \<mapsto> JStr ''ok''], s)"

definition handleLive :: "env \<Rightarrow> http_request \<Rightarrow> st \<Rightarrow> response \<times> st" where
  "handleLive e r s = (writeJSON 200 [''status'' \<mapsto> JStr ''ok''], s)"

text \<open>The buckets of an open store exist: \<^verbatim>\<open>NewStore\<close> has created them.\<close>

definition Ready :: "Store \<Rightarrow> store_error + unit" where
  "Ready d = db_view d (Inr ())"

definition handleReady :: "env \<Rightarrow> http_request \<Rightarrow> st \<Rightarrow> response \<times> st" where
  "handleReady e r s =
     (case Ready (st_db s) of
        Inl _ \<Rightarrow> (writeJSON 503 [''status'' \<mapsto> JStr ''error''], s)
      | Inr _ \<Rightarrow> (writeJSON 200 [''status'' \<mapsto> JStr ''ok''], s))"

definition bearerValue :: "string \<Rightarrow> string" where
  "bearerValue authz =
     (let value = TrimSpace (TrimPrefix authz bearerPrefix) in if value \<noteq> [] \<and> value \<noteq> authz then value else [])"

definition metricsRequestAuthorized :: "env \<Rightarrow> http_request \<Rightarrow> bool" where
  "metricsRequestAuthorized e r =
     (let expectedHex = TrimSpace (me_BearerSHA256 (cf_Metrics (e_cfg e))) in
      if expectedHex = [] then True
      else case hex_decode expectedHex of
          None \<Rightarrow> False
        | Some expected \<Rightarrow>
            if length expected \<noteq> 32 then False
            else let bearer = bearerValue (r_Header r ''Authorization'') in
              if bearer = [] then False else expected = g_sha256 (e_lib e) (bytes_of bearer))"

definition handleMetrics ::
  "(duration \<Rightarrow> string) \<Rightarrow> metricsRegistry \<Rightarrow> env \<Rightarrow> http_request \<Rightarrow> st \<Rightarrow> response \<times> st" where
  "handleMetrics fmt m e r s =
     (if \<not> metricsRequestAuthorized e r
      then (http_Error ''unauthorized'' 401,
            set_header ''WWW-Authenticate'' (''Bearer realm='' @ [CHR 0x22] @ ''metrics'' @ [CHR 0x22]) s)
      else (Resp 200 (Text (render (e_lib e) fmt m)),
            set_header ''Cache-Control'' ''no-store''
              (set_header ''Content-Type'' ''text/plain; version=0.0.4; charset=utf-8'' s)))"

definition handleDiscovery :: "env \<Rightarrow> http_request \<Rightarrow> st \<Rightarrow> response \<times> st" where
  "handleDiscovery e r s =
     (let issuer = cf_Issuer (e_cfg e) in
      (writeJSON 200
        [''issuer'' \<mapsto> JStr issuer,
         ''authorization_endpoint'' \<mapsto> JStr (issuer @ ''/oauth2/authorize''),
         ''token_endpoint'' \<mapsto> JStr (issuer @ ''/oauth2/token''),
         ''userinfo_endpoint'' \<mapsto> JStr (issuer @ ''/oauth2/userinfo''),
         ''jwks_uri'' \<mapsto> JStr (issuer @ ''/oauth2/jwks''),
         ''revocation_endpoint'' \<mapsto> JStr (issuer @ ''/oauth2/revoke''),
         ''introspection_endpoint'' \<mapsto> JStr (issuer @ ''/oauth2/introspect''),
         ''end_session_endpoint'' \<mapsto> JStr (issuer @ ''/oauth2/logout''),
         ''response_types_supported'' \<mapsto> json_strings [''code''],
         ''grant_types_supported'' \<mapsto> json_strings [''authorization_code'', ''refresh_token'', ''client_credentials''],
         ''subject_types_supported'' \<mapsto> json_strings [''public''],
         ''id_token_signing_alg_values_supported'' \<mapsto> json_strings [''RS256''],
         ''token_endpoint_auth_methods_supported'' \<mapsto> json_strings [''client_secret_basic'', ''client_secret_post'', ''none''],
         ''scopes_supported'' \<mapsto> json_strings [''openid'', ''profile'', ''email'', ''groups'', ''offline_access''],
         ''claims_supported'' \<mapsto> json_strings [''sub'', ''iss'', ''aud'', ''exp'', ''iat'', ''auth_time'', ''nonce'',
           ''preferred_username'', ''email'', ''name'', ''groups'', ''azp'', ''amr''],
         ''code_challenge_methods_supported'' \<mapsto> json_strings [''S256''],
         ''response_modes_supported'' \<mapsto> json_strings [''query'']],
       set_header ''Cache-Control'' ''public, max-age=300, must-revalidate'' s))"

definition handleJWKS :: "env \<Rightarrow> http_request \<Rightarrow> st \<Rightarrow> response \<times> st" where
  "handleJWKS e r s =
     (Resp 200 (JsonKeys (e_publicJWKs e)),
      set_header ''Cache-Control'' ''public, max-age=300, must-revalidate'' s)"

section \<open>The home page\<close>

definition pluralize :: "int \<Rightarrow> string \<Rightarrow> string" where
  "pluralize n unit = (if n = 1 then Itoa n @ '' '' @ unit else Itoa n @ '' '' @ unit @ ''s'')"

text \<open>The quotients are exact, so rounding plays no role.\<close>

definition formatTokenTTL :: "int \<Rightarrow> string" where
  "formatTokenTTL minutes =
     (if minutes mod 1440 = 0 then pluralize (minutes div 1440) ''day''
      else if minutes mod 60 = 0 then pluralize (minutes div 60) ''hour''
      else pluralize minutes ''minute'')"

record appTokenView =
  av_ID :: string
  av_DisplayName :: string
  av_Audience :: string
  av_ClientID :: string
  av_Scope :: string
  av_TokenTTLSeconds :: int
  av_TokenTTLLabel :: string
  av_JWKSURL :: string

definition appTokenView_of :: "env \<Rightarrow> AppTokenConfig \<Rightarrow> appTokenView" where
  "appTokenView_of e cfg =
     \<lparr>av_ID = at_ID cfg, av_DisplayName = at_DisplayName cfg, av_Audience = at_Audience cfg,
      av_ClientID = at_ClientID cfg, av_Scope = at_Scope cfg,
      av_TokenTTLSeconds = wrap64 (at_TokenTTLMinutes cfg * 60),
      av_TokenTTLLabel = formatTokenTTL (at_TokenTTLMinutes cfg),
      av_JWKSURL = cf_Issuer (e_cfg e) @ ''/oauth2/jwks''\<rparr>"

text \<open>The ids of a registry in the order of \<^verbatim>\<open>sort.Strings\<close>.\<close>

definition sorted_ids :: "(string \<rightharpoonup> 'a) \<Rightarrow> string list" where
  "sorted_ids m = sorted_list_of_set (dom m)"

definition appTokenViews :: "env \<Rightarrow> st \<Rightarrow> appTokenView list" where
  "appTokenViews e s =
     (let merged = snapshotAppTokens e s
      in map (\<lambda>ident. appTokenView_of e (the (merged ident))) (sorted_ids merged))"

definition view_json :: "appTokenView \<Rightarrow> (string \<times> json) list" where
  "view_json v =
     [(''ID'', JStr (av_ID v)), (''DisplayName'', JStr (av_DisplayName v)), (''Audience'', JStr (av_Audience v)),
      (''ClientID'', JStr (av_ClientID v)), (''Scope'', JStr (av_Scope v)),
      (''TokenTTLSeconds'', JInt (av_TokenTTLSeconds v)), (''TokenTTLLabel'', JStr (av_TokenTTLLabel v)),
      (''JWKSURL'', JStr (av_JWKSURL v))]"

definition rfc1123 :: string where "rfc1123 = ''Mon, 02 Jan 2006 15:04:05 MST''"

definition homeData ::
  "env \<Rightarrow> Session option \<Rightarrow> (appTokenView \<times> string) option \<Rightarrow> st \<Rightarrow> (string \<times> json) list" where
  "homeData e sess issued s =
     [(''DisplayName'', JStr (cf_DisplayName (e_cfg e))), (''Issuer'', JStr (cf_Issuer (e_cfg e))),
      (''AppTokens'', JArr (map (\<lambda>v. JObj (view_json v)) (appTokenViews e s)))] @
     (case sess of
        None \<Rightarrow> []
      | Some se \<Rightarrow>
          [(''Authenticated'', JBool True), (''UserID'', JStr (s_UserID se)),
           (''ExpiresAt'', JStr (g_Format (e_lib e) rfc1123 (s_ExpiresAt se))), (''CSRFToken'', JStr (s_CSRFToken se)),
           (''IsAdmin'', JBool (userIsAdmin e (GetUser (s_UserID se) (st_db s))))]) @
     (case issued of
        None \<Rightarrow> []
      | Some (v, token) \<Rightarrow> [(''IssuedAppToken'', JObj (view_json v @ [(''Token'', JStr token)]))])"

definition handleHome :: "env \<Rightarrow> http_request \<Rightarrow> st \<Rightarrow> response \<times> st" where
  "handleHome e r s =
     (if r_Path r \<noteq> ''/'' then (http_Error ''404 page not found'' 404, s)
      else case maybeExtendSession e r s of (sess, s1) \<Rightarrow>
        (Resp 200 (Page ''home'' (homeData e sess None s1)),
         set_header ''Content-Type'' ''text/html; charset=utf-8'' s1))"

section \<open>App tokens\<close>

text \<open>The part of \<^verbatim>\<open>handleAppToken\<close> after the session was extended.\<close>

definition issue_for :: "env \<Rightarrow> http_request \<Rightarrow> Session \<Rightarrow> st \<Rightarrow> response \<times> st" where
  "issue_for e r sess s =
     (let tokenID = r_PathValue r ''id'' in
      case lookupAppToken e s tokenID of
        None \<Rightarrow>
          (http_Error ''404 page not found'' 404,
           audit_fail e r ''app_token_issue''
             [(''user_id'', Str (s_UserID sess)), (''app_token_id'', Str tokenID), (''reason'', Str ''unknown_app_token'')] s)
      | Some tokenCfg \<Rightarrow>
          (case issueAppToken e sess tokenCfg s of
             (Inl _, s1) \<Rightarrow>
               (http_Error ''could not issue app token'' 500,
                audit_fail e r ''app_token_issue''
                  [(''user_id'', Str (s_UserID sess)), (''app_token_id'', Str (at_ID tokenCfg)), (''reason'', Str ''signing_error'')] s1)
           | (Inr token, s1) \<Rightarrow>
               let s2 = audit_ok e r ''app_token_issue''
                     [(''user_id'', Str (s_UserID sess)), (''app_token_id'', Str (at_ID tokenCfg)),
                      (''audience'', Str (at_Audience tokenCfg)), (''client_id'', Str (at_ClientID tokenCfg))] s1;
                   s3 = set_header ''Cache-Control'' ''no-store'' (set_header ''Content-Type'' ''text/html; charset=utf-8'' s2)
               in (Resp 200 (Page ''home'' (homeData e (Some sess) (Some (appTokenView_of e tokenCfg, token)) s3)), s3)))"

definition handleAppToken :: "env \<Rightarrow> http_request \<Rightarrow> st \<Rightarrow> response \<times> st" where
  "handleAppToken e r s =
     (case validSession e r s of
        (None, s1) \<Rightarrow> (http_Redirect ''/login'', s1)
      | (Some sess, s1) \<Rightarrow>
          if \<not> form_ok r maxAppTokenFormBodyBytes then (http_Error ''bad form'' 400, s1)
          else if \<not> verifySessionCSRF r (form_get r maxAppTokenFormBodyBytes) sess
          then (http_Error ''invalid csrf token'' 403, s1)
          else (case requireRecentReAuth e sess s1 of
              (Some resp, s2) \<Rightarrow> (resp, s2)
            | (None, s2) \<Rightarrow>
                (case maybeExtendSession e r s2 of
                   (Some extended, s3) \<Rightarrow> issue_for e r extended s3
                 | (None, s3) \<Rightarrow> issue_for e r sess s3)))"

section \<open>Who gets an app token\<close>

text \<open>Extending a session that was just loaded gives a session of the same login.\<close>

lemma extended_same_login:
  assumes "validSession e r s = (Some sess, s1)" and "maybeExtendSession e r s1 = (Some x, s2)"
  shows "s_UserID x = s_UserID sess \<and> s_AuthTime x = s_AuthTime sess"
proof -
  from assms(1) obtain sid where sid: "session_id r = Some sid" and l: "load_session e sid s = (Some sess, s1)"
    by (auto simp: validSession_def split: option.splits)
  from l obtain old where o: "session_at s sid = Some (Json old)"
    by (auto simp: load_session_def GetSession_def db_view_def getJSON_def split: sum.splits option.splits cell.splits if_splits)
  have h: "life.holds (s_UserID old) (s_AuthTime old) (s_AbsoluteExpiresAt old) (s_AMR old) sid s"
    using o by (simp add: life.holds_def born_def)
  from assms(2) sid obtain y s3 where y: "load_session e sid s1 = (Some y, s3)"
    "s_UserID x = s_UserID y" "s_AuthTime x = s_AuthTime y"
    by (auto simp: maybeExtendSession_def Let_def split: option.splits prod.splits if_splits sum.splits)
  from life.load_P [OF h l] life.load_P [OF life.holds_load [OF l h] y(1)] y show ?thesis
    by (simp add: born_def)
qed

text \<open>What an app token says of its user.\<close>

lemma issueAppToken_claims:
  assumes "issueAppToken e sess cfg s = (Inr token, s')"
  shows "\<exists>claims. signJWT e claims = Inr token \<and> claims ''sub'' = Some (JStr (s_UserID sess)) \<and>
    claims ''aud'' = Some (JStr (at_Audience cfg)) \<and> claims ''client_id'' = Some (JStr (at_ClientID cfg)) \<and>
    claims ''iss'' = Some (JStr (cf_Issuer (e_cfg e))) \<and>
    claims ''auth_time'' = Some (JInt (Unix (s_AuthTime sess))) \<and>
    claims ''exp'' = Some (JInt (Unix (e_now e + dur (at_TokenTTLMinutes cfg) Minute)))"
proof -
  from assms obtain claims where "signJWT e claims = Inr token" and
    "claims ''sub'' = Some (JStr (s_UserID sess)) \<and> claims ''aud'' = Some (JStr (at_Audience cfg)) \<and>
     claims ''client_id'' = Some (JStr (at_ClientID cfg)) \<and> claims ''iss'' = Some (JStr (cf_Issuer (e_cfg e))) \<and>
     claims ''auth_time'' = Some (JInt (Unix (s_AuthTime sess))) \<and>
     claims ''exp'' = Some (JInt (Unix (e_now e + dur (at_TokenTTLMinutes cfg) Minute)))"
    unfolding issueAppToken_def Let_def
    by (cases "GetUser (s_UserID sess) (st_db s)") (auto simp: split: prod.splits if_splits)
  then show ?thesis by blast
qed

lemma issue_for_page:
  assumes "issue_for e r sess s = (Resp 200 b, s')"
  obtains cfg token s1 where "lookupAppToken e s (r_PathValue r ''id'') = Some cfg"
    "issueAppToken e sess cfg s = (Inr token, s1)"
    "b = Page ''home'' (homeData e (Some sess) (Some (appTokenView_of e cfg, token)) s')"
  using assms by (auto simp: issue_for_def Let_def http_Error_def split: option.splits sum.splits prod.splits)

lemma requireRecentReAuth_None:
  "requireRecentReAuth e sess s = (None, s') \<longleftrightarrow> sessionRecentlyReAuthenticated e sess \<and> s' = s"
  by (auto simp: requireRecentReAuth_def)

lemma lookupAppToken_cong: "st_appTokens s = st_appTokens s' \<Longrightarrow> lookupAppToken e s = lookupAppToken e s'"
  by (rule ext) (simp add: lookupAppToken_def split: option.split)

text \<open>
  C23. An app token is issued only to a live session that re-authenticated recently and sent
  its CSRF token, for an app token the registry knows; the page shows the signed token, whose
  subject is the user of the session and whose audience, client and expiry are those of the
  registry entry.
\<close>

theorem app_token_guarded:
  assumes "handleAppToken e r s = (Resp 200 b, s')"
  shows "\<exists>sess s1 sess' cfg token claims.
    validSession e r s = (Some sess, s1) \<and> sessionRecentlyReAuthenticated e sess \<and>
    verifySessionCSRF r (form_get r maxAppTokenFormBodyBytes) sess \<and>
    lookupAppToken e s (r_PathValue r ''id'') = Some cfg \<and> s_UserID sess' = s_UserID sess \<and>
    b = Page ''home'' (homeData e (Some sess') (Some (appTokenView_of e cfg, token)) s') \<and>
    signJWT e claims = Inr token \<and> claims ''sub'' = Some (JStr (s_UserID sess)) \<and>
    claims ''aud'' = Some (JStr (at_Audience cfg)) \<and> claims ''client_id'' = Some (JStr (at_ClientID cfg)) \<and>
    claims ''exp'' = Some (JInt (Unix (e_now e + dur (at_TokenTTLMinutes cfg) Minute)))"
proof -
  obtain os s1 where v: "validSession e r s = (os, s1)" by fastforce
  with assms obtain sess where sess: "os = Some sess"
    by (cases os) (auto simp: handleAppToken_def http_Redirect_def)
  obtain rr s2 where rr: "requireRecentReAuth e sess s1 = (rr, s2)" by fastforce
  have g: "verifySessionCSRF r (form_get r maxAppTokenFormBodyBytes) sess" "rr = None"
    using assms v sess rr
    by (auto simp: handleAppToken_def http_Error_def requireRecentReAuth_def writeJSON_def split: if_splits option.splits)
  from rr g(2) have re: "sessionRecentlyReAuthenticated e sess" "s2 = s1" by (simp_all add: requireRecentReAuth_None)
  obtain ox s3 where x: "maybeExtendSession e r s1 = (ox, s3)" by fastforce
  define sess' where "sess' = (case ox of Some y \<Rightarrow> y | None \<Rightarrow> sess)"
  have same: "s_UserID sess' = s_UserID sess"
    using extended_same_login [of e r s sess s1] v sess x by (cases ox) (auto simp: sess'_def)
  have "issue_for e r sess' s3 = (Resp 200 b, s')"
    using assms v sess rr g re x
    by (cases ox) (auto simp: handleAppToken_def sess'_def http_Error_def split: if_splits)
  then obtain cfg token s4 where cfg: "lookupAppToken e s3 (r_PathValue r ''id'') = Some cfg"
    and t: "issueAppToken e sess' cfg s3 = (Inr token, s4)"
    and b: "b = Page ''home'' (homeData e (Some sess') (Some (appTokenView_of e cfg, token)) s')"
    by (rule issue_for_page)
  have "st_appTokens s3 = st_appTokens s"
    using validSession_frame [OF v] maybeExtendSession_frame [OF x] by (simp add: session_frameD)
  then have "lookupAppToken e s (r_PathValue r ''id'') = Some cfg" using cfg lookupAppToken_cong by metis
  with issueAppToken_claims [OF t] v sess re g same b show ?thesis by auto
qed

text \<open>
  Metrics are read only with the bearer token: with a digest configured, the registry is
  shown exactly to requests whose \<^verbatim>\<open>Authorization\<close> header has a bearer value with that SHA-256
  digest; a digest that does not decode to 32 bytes shuts everyone out.
\<close>

theorem metrics_bearer_required:
  assumes "TrimSpace (me_BearerSHA256 (cf_Metrics (e_cfg e))) \<noteq> []"
  shows "fst (handleMetrics fmt m e r s) = Resp 200 (Text (render (e_lib e) fmt m)) \<longleftrightarrow>
    (\<exists>digest. hex_decode (TrimSpace (me_BearerSHA256 (cf_Metrics (e_cfg e)))) = Some digest \<and> length digest = 32 \<and>
       bearerValue (r_Header r ''Authorization'') \<noteq> [] \<and>
       g_sha256 (e_lib e) (bytes_of (bearerValue (r_Header r ''Authorization''))) = digest)"
  using assms by (auto simp: handleMetrics_def metricsRequestAuthorized_def http_Error_def Let_def split: option.splits if_splits)

section \<open>Running the handlers\<close>

definition demo_app_token :: AppTokenConfig where
  "demo_app_token = \<lparr>at_ID = ''ci'', at_DisplayName = ''CI'', at_Audience = ''ci'', at_ClientID = ''ci'', at_Scope = ''openid'',
     at_TokenTTLMinutes = 60, at_GroupMappings = [], at_StoredAt = zero_time, at_compiledMappings = None\<rparr>"

definition demo_app_request :: http_request where
  "demo_app_request = demo_request\<lparr>r_Cookie := (\<lambda>n. if n = sessionCookieName then Some ''sid'' else None),
     r_Header := (\<lambda>n. if n = csrfHeaderName then ''tok'' else []), r_PathValue := (\<lambda>_. ''ci'')\<rparr>"

definition demo_app_db :: Store where
  "demo_app_db = empty_Store\<lparr>db_sessions := [(''sid'', Json demo_reauthed)]\<rparr>"

lemma demo_app_session:
  "validSession demo_env demo_app_request (demo_st\<lparr>st_db := demo_app_db, st_appTokens := m\<rparr>) =
     (Some demo_reauthed, demo_st\<lparr>st_db := demo_app_db, st_appTokens := m\<rparr>)"
  by (simp add: validSession_def session_id_def demo_app_request_def load_session_def GetSession_def
      db_view_def getJSON_def bget_def demo_app_db_def empty_Store_def session_expired_def
      demo_reauthed_def zero_Session_def IsZero_def sessionCookieName_def)

lemma demo_app_csrf: "verifySessionCSRF demo_app_request (form_get demo_app_request n) demo_reauthed"
  by (simp add: verifySessionCSRF_def csrfTokenMatches_def demo_app_request_def demo_request_def demo_reauthed_def
      zero_Session_def csrfHeaderName_def Let_def)

theorem app_token_guarded_witness:
  "\<exists>b s' claims token. handleAppToken demo_env demo_app_request
       (demo_st\<lparr>st_db := demo_app_db, st_appTokens := [''ci'' \<mapsto> demo_app_token]\<rparr>) = (Resp 200 b, s') \<and>
     signJWT demo_env claims = Inr token \<and> claims ''aud'' = Some (JStr ''ci'')"
proof -
  let ?s = "demo_st\<lparr>st_db := demo_app_db, st_appTokens := [''ci'' \<mapsto> demo_app_token]\<rparr>"
  obtain ox s3 where x: "maybeExtendSession demo_env demo_app_request ?s = (ox, s3)" by fastforce
  have st: "st_appTokens s3 = [''ci'' \<mapsto> demo_app_token]"
    using maybeExtendSession_frame [OF x] by (simp add: session_frameD)
  have "\<exists>b s'. issue_for demo_env demo_app_request se s3 = (Resp 200 b, s')" for se
  proof -
    obtain j s4 where j: "randomB64 demo_env 16 s3 = (j, s4)" by fastforce
    obtain r s5 where "issueAppToken demo_env se demo_app_token s3 = (r, s5)" by fastforce
    moreover from this j have "\<exists>t. r = Inr t" using demo_signs by (fastforce simp: issueAppToken_def Let_def)
    ultimately show ?thesis
      using st by (auto simp: issue_for_def lookupAppToken_def demo_app_request_def Let_def)
  qed
  moreover have "form_ok demo_app_request n" for n by (simp add: demo_app_request_def demo_request_def)
  ultimately have "\<exists>b s'. handleAppToken demo_env demo_app_request ?s = (Resp 200 b, s')"
    using demo_totp_guards(2) x by (cases ox) (simp_all add: handleAppToken_def demo_app_session demo_app_csrf requireRecentReAuth_def)
  then obtain b s' where h: "handleAppToken demo_env demo_app_request ?s = (Resp 200 b, s')" by blast
  from app_token_guarded [OF h] obtain cfg token claims where
    "lookupAppToken demo_env ?s (r_PathValue demo_app_request ''id'') = Some cfg"
    "signJWT demo_env claims = Inr token" "claims ''aud'' = Some (JStr (at_Audience cfg))" by blast
  with h show ?thesis by (auto simp: lookupAppToken_def demo_app_request_def demo_app_token_def)
qed

definition demo_env_metrics :: env where
  "demo_env_metrics = demo_env\<lparr>e_cfg := demo_cfg\<lparr>cf_Metrics := \<lparr>me_Enabled = True, me_Path = ''/metrics'', me_BearerSHA256 = ''00''\<rparr>\<rparr>\<rparr>"

theorem metrics_bearer_required_witness:
  "fst (handleMetrics (\<lambda>_. []) [] demo_env_metrics demo_request demo_st) \<noteq>
     Resp 200 (Text (render demo_lib (\<lambda>_. []) []))"
proof -
  have t: "TrimSpace ''00'' = ''00''" by (rule TrimSpace_plain) simp
  have "TrimSpace (me_BearerSHA256 (cf_Metrics (e_cfg demo_env_metrics))) \<noteq> []"
    by (simp add: demo_env_metrics_def t)
  moreover have "hex_decode ''00'' = Some [0]" by code_simp
  ultimately show ?thesis
    using metrics_bearer_required [of demo_env_metrics "\<lambda>_. []" "[]" demo_request demo_st]
    by (auto simp: demo_env_metrics_def t)
qed

end
