(* ===== verification/Config.thy ===== *)
theory Config
  imports Broker
begin

text \<open>
  The configuration (\<^verbatim>\<open>config.go\<close>): the defaults that start-up fills in and the checks it makes.
  The structs are in \<open>Model\<close>.  \<open>normalizeConfig\<close> is the value the code leaves in the struct; the
  URL of the certificate authority, a constant of another package, is its argument \<open>ca\<close>.  A check
  returns the text of its error, or \<open>None\<close> when it passes.  Reading the file is input and output
  and is not modelled; \<open>resolveDataDir\<close> takes what \<^verbatim>\<open>os.Stat\<close> and \<^verbatim>\<open>filepath.Clean\<close> answer.
\<close>

section \<open>Defaults\<close>

definition defaultMetricsPath :: string where "defaultMetricsPath = ''/metrics''"

text \<open>The assignments \<^verbatim>\<open>if x == 0 { x = d }\<close> and \<^verbatim>\<open>if s == \"\" { s = d }\<close>.\<close>

definition int_or :: "int \<Rightarrow> int \<Rightarrow> int" where
  "int_or d x = (if x = 0 then d else x)"

definition str_or :: "string \<Rightarrow> string \<Rightarrow> string" where
  "str_or d s = (if s = [] then d else s)"

definition normalizeRateLimitConfig :: "RateLimitConfig \<Rightarrow> RateLimitConfig" where
  "normalizeRateLimitConfig cfg =
     \<lparr>rl_LoginWindowSeconds = int_or (5 * 60) (rl_LoginWindowSeconds cfg),
      rl_LoginMaxAttempts = int_or 10 (rl_LoginMaxAttempts cfg),
      rl_LoginLockoutSeconds = int_or (15 * 60) (rl_LoginLockoutSeconds cfg),
      rl_TokenWindowSeconds = int_or (5 * 60) (rl_TokenWindowSeconds cfg),
      rl_TokenMaxAttempts = int_or 20 (rl_TokenMaxAttempts cfg),
      rl_TokenLockoutSeconds = int_or (15 * 60) (rl_TokenLockoutSeconds cfg),
      rl_PreAuthWindowSeconds = int_or 60 (rl_PreAuthWindowSeconds cfg),
      rl_PreAuthMaxAttempts = int_or 60 (rl_PreAuthMaxAttempts cfg),
      rl_PreAuthLockoutSeconds = int_or 60 (rl_PreAuthLockoutSeconds cfg)\<rparr>"

definition normalizeMetricsConfig :: "MetricsConfig \<Rightarrow> MetricsConfig" where
  "normalizeMetricsConfig cfg =
     (if TrimSpace (me_Path cfg) = [] then cfg\<lparr>me_Path := defaultMetricsPath\<rparr> else cfg)"

definition normalizeACMEConfig :: "string \<Rightarrow> ACMEConfig \<Rightarrow> ACMEConfig" where
  "normalizeACMEConfig ca acme =
     acme\<lparr>acme_Domains := filter (\<lambda>d. d \<noteq> []) (map TrimSpace (acme_Domains acme)),
          acme_HTTPAddr := str_or '':80'' (acme_HTTPAddr acme),
          acme_HTTPSAddr := str_or '':443'' (acme_HTTPSAddr acme),
          acme_CADirectory := (if TrimSpace (acme_CADirectory acme) = [] then ca else acme_CADirectory acme)\<rparr>"

definition normalize_app_token :: "AppTokenConfig \<Rightarrow> AppTokenConfig" where
  "normalize_app_token t =
     (let audience = str_or (at_ID t) (at_Audience t) in
      t\<lparr>at_DisplayName := str_or (at_ID t) (at_DisplayName t), at_Audience := audience,
        at_ClientID := str_or audience (at_ClientID t),
        at_Scope := str_or ''openid profile email groups'' (at_Scope t),
        at_TokenTTLMinutes := (if at_TokenTTLMinutes t \<le> 0 then 480 else at_TokenTTLMinutes t)\<rparr>)"

text \<open>The WebAuthn defaults come from the issuer, which has its own default by then.\<close>

definition normalize_webauthn :: "golib \<Rightarrow> string \<Rightarrow> WebAuthnConfig \<Rightarrow> WebAuthnConfig" where
  "normalize_webauthn G issuer w =
     \<lparr>wa_RPID = (if wa_RPID w = []
        then (case g_url_Parse G issuer of None \<Rightarrow> [] | Some u \<Rightarrow> url_Hostname u) else wa_RPID w),
      wa_RPDisplayName = str_or ''Go Auth Broker'' (wa_RPDisplayName w),
      wa_Origins = (if wa_Origins w = []
        then (case g_url_Parse G issuer of None \<Rightarrow> [] | Some u \<Rightarrow> [url_Scheme u @ ''://'' @ url_Host u])
        else wa_Origins w)\<rparr>"

definition normalizeConfig :: "golib \<Rightarrow> string \<Rightarrow> Config \<Rightarrow> Config" where
  "normalizeConfig G ca cfg =
     (let issuer = str_or ''http://localhost:8080'' (TrimRightChars {CHR ''/''} (cf_Issuer cfg));
          webauthn = normalize_webauthn G issuer (cf_WebAuthn cfg)
      in cfg\<lparr>
        cf_Listen := str_or '':8080'' (cf_Listen cfg),
        cf_Issuer := issuer,
        cf_KeyID := str_or ''broker-key-1'' (cf_KeyID cfg),
        cf_SigningKeyRotationDays := int_or 90 (cf_SigningKeyRotationDays cfg),
        cf_SigningKeyRetentionDays := int_or 30 (cf_SigningKeyRetentionDays cfg),
        cf_LDAP := (cf_LDAP cfg)\<lparr>ld_TimeoutSeconds := int_or 5 (ld_TimeoutSeconds (cf_LDAP cfg))\<rparr>,
        cf_AccessTokenTTLMinutes := int_or 15 (cf_AccessTokenTTLMinutes cfg),
        cf_IDTokenTTLMinutes := int_or 15 (cf_IDTokenTTLMinutes cfg),
        cf_RefreshTokenTTLDays := int_or 14 (cf_RefreshTokenTTLDays cfg),
        cf_AuthCodeTTLSeconds := int_or 120 (cf_AuthCodeTTLSeconds cfg),
        cf_SessionTTLHrs := int_or 8 (cf_SessionTTLHrs cfg),
        cf_ClientIPHeader := (if cf_ClientIPHeader cfg = [] \<and> cf_TrustedProxies cfg \<noteq> []
          then ''X-Forwarded-For'' else cf_ClientIPHeader cfg),
        cf_DisplayName := (if TrimSpace (cf_DisplayName cfg) = [] then wa_RPDisplayName webauthn
          else cf_DisplayName cfg),
        cf_WebAuthn := webauthn,
        cf_ACME := normalizeACMEConfig ca (cf_ACME cfg),
        cf_RateLimit := normalizeRateLimitConfig (cf_RateLimit cfg),
        cf_Metrics := normalizeMetricsConfig (cf_Metrics cfg),
        cf_AppTokens := map normalize_app_token (cf_AppTokens cfg)\<rparr>)"

section \<open>Small predicates\<close>

definition cookieSecureForConfig :: "Config \<Rightarrow> bool" where
  "cookieSecureForConfig cfg =
     (case cf_CookieSecure cfg of Some v \<Rightarrow> v | None \<Rightarrow> HasPrefix (cf_Issuer cfg) ''https://'')"

definition isHTTPSURL :: "golib \<Rightarrow> string \<Rightarrow> bool" where
  "isHTTPSURL G raw =
     (case g_url_Parse G (TrimSpace raw) of
        None \<Rightarrow> False | Some u \<Rightarrow> url_Scheme u = ''https'' \<and> url_Hostname u \<noteq> [])"

text \<open>\<^verbatim>\<open>net.IP.IsLoopback\<close>.\<close>

definition IsLoopback :: "byte list \<Rightarrow> bool" where
  "IsLoopback ip =
     (case To4 ip of Some ip4 \<Rightarrow> take 1 ip4 = [127] | None \<Rightarrow> ip = replicate 15 0 @ [1])"

definition localhostOrLoopback :: "golib \<Rightarrow> string \<Rightarrow> bool" where
  "localhostOrLoopback G host0 =
     (let host = TrimChars brackets (to_lower G (TrimSpace host0)) in
      if host = [] \<or> host = ''localhost'' then True
      else case g_ParseIP G host of None \<Rightarrow> False | Some ip \<Rightarrow> IsLoopback ip)"

definition hex_digit :: "char \<Rightarrow> bool" where
  "hex_digit c = ((48 \<le> code c \<and> code c \<le> 57) \<or> (97 \<le> code c \<and> code c \<le> 102) \<or> (65 \<le> code c \<and> code c \<le> 70))"

definition validSHA256Hex :: "string \<Rightarrow> bool" where
  "validSHA256Hex s0 = (let s = TrimSpace s0 in length s = 64 \<and> (\<forall>c \<in> set s. hex_digit c))"

definition validHTTPPath :: "string \<Rightarrow> bool" where
  "validHTTPPath path0 =
     (let path = TrimSpace path0 in
      HasPrefix path ''/'' \<and> \<not> (\<exists>c \<in> set path. c = CHR '' '' \<or> code c = 9 \<or> code c = 13 \<or> code c = 10))"

definition within :: "int \<Rightarrow> int \<Rightarrow> int \<Rightarrow> bool" where
  "within v minValue maxValue = (v \<ge> minValue \<and> v \<le> maxValue)"

definition nonEmptyStrings :: "string list \<Rightarrow> string list" where
  "nonEmptyStrings values = filter (\<lambda>v. TrimSpace v \<noteq> []) values"

section \<open>The shape of a configuration\<close>

text \<open>The text of an error of \<^verbatim>\<open>net.ParseCIDR\<close> belongs to the library, so that error is a constructor.\<close>

datatype config_error = ConfigError string | ConfigBadCIDR string

fun first_error :: "('a \<Rightarrow> 'e option) \<Rightarrow> 'a list \<Rightarrow> 'e option" where
  "first_error f [] = None"
| "first_error f (x # xs) = (case f x of Some e \<Rightarrow> Some e | None \<Rightarrow> first_error f xs)"

fun client_shape_error :: "golib \<Rightarrow> string set \<Rightarrow> Client list \<Rightarrow> string option" where
  "client_shape_error G seen [] = None"
| "client_shape_error G seen (c # cs) =
     (if TrimSpace (c_ClientID c) = [] then Some ''client_id is required''
      else if c_ClientID c \<in> seen then Some (''duplicate client_id '' @ g_quote G (c_ClientID c))
      else case validateClientScopeConfig c of
          Some err \<Rightarrow> Some (''client '' @ g_quote G (c_ClientID c) @ '': '' @ scope_error_text (g_quote G) err)
        | None \<Rightarrow> client_shape_error G (insert (c_ClientID c) seen) cs)"

fun token_shape_error :: "golib \<Rightarrow> string set \<Rightarrow> AppTokenConfig list \<Rightarrow> string option" where
  "token_shape_error G seen [] = None"
| "token_shape_error G seen (t # ts) =
     (if TrimSpace (at_ID t) = [] then Some ''app token id is required''
      else if at_ID t \<in> seen then Some (''duplicate app token id '' @ g_quote G (at_ID t))
      else token_shape_error G (insert (at_ID t) seen) ts)"

definition proxy_shape_error :: "golib \<Rightarrow> string \<Rightarrow> config_error option" where
  "proxy_shape_error G raw0 =
     (let raw = TrimSpace raw0 in
      if raw = [] then None
      else if Contains raw ''/'' then
        (if g_ParseCIDR G raw = None then Some (ConfigBadCIDR raw) else None)
      else if g_ParseIP G raw = None
      then Some (ConfigError (''trusted proxy '' @ g_quote G raw @ '' is not a valid IP or CIDR''))
      else None)"

definition validateTrustedProxyConfig :: "golib \<Rightarrow> Config \<Rightarrow> config_error option" where
  "validateTrustedProxyConfig G cfg =
     (case first_error (proxy_shape_error G) (cf_TrustedProxies cfg) of
        Some err \<Rightarrow> Some err
      | None \<Rightarrow>
          if \<exists>c \<in> set (cf_ClientIPHeader cfg). code c = 13 \<or> code c = 10
          then Some (ConfigError ''client_ip_header must not contain control characters'')
          else if cf_TrustedProxies cfg \<noteq> [] \<and> TrimSpace (cf_ClientIPHeader cfg) = []
          then Some (ConfigError ''client_ip_header is required when trusted_proxies is set'')
          else None)"

definition validateMetricsConfigShape :: "MetricsConfig \<Rightarrow> string option" where
  "validateMetricsConfigShape metrics =
     (if \<not> me_Enabled metrics then None
      else if \<not> validHTTPPath (me_Path metrics) then Some ''metrics.path must be an absolute path''
      else if TrimSpace (me_BearerSHA256 metrics) \<noteq> [] \<and> \<not> validSHA256Hex (me_BearerSHA256 metrics)
      then Some ''metrics.bearer_token_sha256 must be a SHA-256 hex digest''
      else None)"

definition validateConfigShape :: "golib \<Rightarrow> Config \<Rightarrow> config_error option" where
  "validateConfigShape G cfg =
     (case client_shape_error G {} (cf_Clients cfg) of
        Some err \<Rightarrow> Some (ConfigError err)
      | None \<Rightarrow>
          (case token_shape_error G {} (cf_AppTokens cfg) of
             Some err \<Rightarrow> Some (ConfigError err)
           | None \<Rightarrow>
               (case validateTrustedProxyConfig G cfg of
                  Some err \<Rightarrow> Some err
                | None \<Rightarrow>
                    (case validateMetricsConfigShape (cf_Metrics cfg) of
                       Some err \<Rightarrow> Some (ConfigError err)
                     | None \<Rightarrow>
                         if cf_SessionAbsoluteTTLHrs cfg > 0 \<and> cf_SessionAbsoluteTTLHrs cfg < cf_SessionTTLHrs cfg
                         then Some (ConfigError (''session_absolute_ttl_hours ('' @ Itoa (cf_SessionAbsoluteTTLHrs cfg) @
                           '') must be >= session_ttl_hours ('' @ Itoa (cf_SessionTTLHrs cfg) @ '')''))
                         else None))))"

section \<open>Production checks\<close>

definition validateProductionWebAuthn :: "golib \<Rightarrow> WebAuthnConfig \<Rightarrow> string option" where
  "validateProductionWebAuthn G cfg =
     (if localhostOrLoopback G (wa_RPID cfg)
      then Some ''production webauthn.rp_id must not be localhost or loopback''
      else first_error (\<lambda>origin.
        if \<not> isHTTPSURL G origin
        then Some (''production webauthn origin '' @ g_quote G origin @ '' must be https'')
        else if (case urlHostname G origin of None \<Rightarrow> True | Some host \<Rightarrow> localhostOrLoopback G host)
        then Some (''production webauthn origin '' @ g_quote G origin @ '' must not use localhost or loopback'')
        else None) (wa_Origins cfg))"

definition validateProductionBase :: "golib \<Rightarrow> Config \<Rightarrow> string option" where
  "validateProductionBase G cfg =
     (if \<not> isHTTPSURL G (cf_Issuer cfg) then Some ''production requires an https issuer''
      else if \<not> cookieSecureForConfig cfg then Some ''production requires secure cookies''
      else if nonEmptyStrings (cf_AdminGroups cfg) = [] then Some ''production requires at least one admin_group''
      else if \<not> cf_MFA_TOTPRequired cfg then Some ''production requires mfa.totp_required=true''
      else if me_Enabled (cf_Metrics cfg) \<and> \<not> validSHA256Hex (me_BearerSHA256 (cf_Metrics cfg))
      then Some ''production metrics requires metrics.bearer_token_sha256''
      else if \<not> within (cf_AccessTokenTTLMinutes cfg) 1 60
      then Some ''production access_token_ttl_minutes must be between 1 and 60''
      else if \<not> within (cf_IDTokenTTLMinutes cfg) 1 60
      then Some ''production id_token_ttl_minutes must be between 1 and 60''
      else if \<not> within (cf_RefreshTokenTTLDays cfg) 1 30
      then Some ''production refresh_token_ttl_days must be between 1 and 30''
      else if \<not> within (cf_AuthCodeTTLSeconds cfg) 30 300
      then Some ''production auth_code_ttl_seconds must be between 30 and 300''
      else if \<not> within (cf_SessionTTLHrs cfg) 1 24
      then Some ''production session_ttl_hours must be between 1 and 24''
      else if cf_SessionAbsoluteTTLHrs cfg \<le> 0
      then Some ''production requires session_absolute_ttl_hours to cap total session lifetime''
      else if \<not> within (cf_SessionAbsoluteTTLHrs cfg) (cf_SessionTTLHrs cfg) 168
      then Some ''production session_absolute_ttl_hours must be between session_ttl_hours and 168''
      else validateProductionWebAuthn G (cf_WebAuthn cfg))"

definition validateProductionLDAP :: "golib \<Rightarrow> LDAPConfig \<Rightarrow> string option" where
  "validateProductionLDAP G cfg =
     (case g_url_Parse G (TrimSpace (ld_URL cfg)) of
        None \<Rightarrow> Some ''production requires a valid ldap.url''
      | Some u \<Rightarrow>
          if url_Scheme u = [] then Some ''production requires a valid ldap.url''
          else if url_Scheme u \<noteq> ''ldaps'' \<and> \<not> ld_StartTLS cfg
          then Some ''production requires LDAPS or ldap.start_tls=true''
          else if ld_InsecureSkipVerify cfg then Some ''production forbids ldap.insecure_skip_verify''
          else None)"

definition validateProductionRedirectURI :: "golib \<Rightarrow> string \<Rightarrow> string \<Rightarrow> string option" where
  "validateProductionRedirectURI G clientID redirectURI =
     (if \<not> isHTTPSURL G redirectURI
      then Some (''production client '' @ g_quote G clientID @ '' redirect URI '' @ g_quote G redirectURI @
                 '' must be https'')
      else if (case urlHostname G redirectURI of None \<Rightarrow> True | Some host \<Rightarrow> localhostOrLoopback G host)
      then Some (''production client '' @ g_quote G clientID @ '' redirect URI '' @ g_quote G redirectURI @
                 '' must not use localhost or loopback'')
      else None)"

definition validateProductionClient :: "golib \<Rightarrow> Client \<Rightarrow> string option" where
  "validateProductionClient G c =
     (if \<not> c_RequirePKCE c
      then Some (''production client '' @ g_quote G (c_ClientID c) @ '' must require PKCE'')
      else if \<not> c_Public c \<and> \<not> validSHA256Hex (c_ClientSecretSHA256 c)
      then Some (''production confidential client '' @ g_quote G (c_ClientID c) @
                 '' requires a SHA-256 client secret hash'')
      else case first_error (validateProductionRedirectURI G (c_ClientID c)) (c_RedirectURIs c) of
          Some err \<Rightarrow> Some err
        | None \<Rightarrow> first_error (validateProductionRedirectURI G (c_ClientID c)) (c_PostLogoutRedirectURIs c))"

definition validateProductionClients :: "golib \<Rightarrow> Config \<Rightarrow> string option" where
  "validateProductionClients G cfg =
     (case first_error (validateProductionClient G) (cf_Clients cfg) of
        Some err \<Rightarrow> Some err
      | None \<Rightarrow> first_error (\<lambda>t.
          if \<not> within (at_TokenTTLMinutes t) 1 1440
          then Some (''production app token '' @ g_quote G (at_ID t) @ '' ttl must be between 1 and 1440 minutes'')
          else None) (cf_AppTokens cfg))"

definition validateConfig :: "golib \<Rightarrow> Config \<Rightarrow> config_error option" where
  "validateConfig G cfg =
     (case validateConfigShape G cfg of
        Some err \<Rightarrow> Some err
      | None \<Rightarrow>
          if \<not> cf_Production cfg then None
          else (case validateProductionBase G cfg of
              Some err \<Rightarrow> Some (ConfigError err)
            | None \<Rightarrow>
                (case validateProductionLDAP G (cf_LDAP cfg) of
                   Some err \<Rightarrow> Some (ConfigError err)
                 | None \<Rightarrow> map_option ConfigError (validateProductionClients G cfg))))"

section \<open>The data directory\<close>

datatype stat_result = StatDir | StatFile | StatNotExist | StatFailed string

definition resolveDataDir :: "(string \<Rightarrow> stat_result) \<Rightarrow> (string \<Rightarrow> string) \<Rightarrow> string \<Rightarrow> string + string" where
  "resolveDataDir stat clean path0 =
     (let path = TrimSpace path0 in
      if path = [] then Inr []
      else case stat path of
          StatFile \<Rightarrow> Inl (path @ '' must be a directory'')
        | StatFailed err \<Rightarrow> Inl err
        | StatDir \<Rightarrow> Inr (clean path)
        | StatNotExist \<Rightarrow> Inr (clean path))"

definition envOrDefault :: "(string \<Rightarrow> string) \<Rightarrow> string \<Rightarrow> string \<Rightarrow> string" where
  "envOrDefault getenv name fallback =
     (let value = TrimSpace (getenv name) in if value \<noteq> [] then value else fallback)"

section \<open>Normalizing twice\<close>

lemma space_width_prefix: "space_width (s @ t) = 0 \<Longrightarrow> space_width s = 0"
  by (cases s rule: space_width.cases) (auto simp: space_width.simps split: if_splits list.splits)

lemma trim_left_rev_stops: "space_width_rev (trim_left_rev s) = 0"
proof (induction s rule: trim_left_rev.induct)
  case (1 s)
  then show ?case by (subst trim_left_rev.simps) simp
qed

lemma trim_left_rev_suffix: "\<exists>u. s = u @ trim_left_rev s"
proof (induction s rule: trim_left_rev.induct)
  case (1 s)
  show ?case
  proof (cases "space_width_rev s = 0")
    case True
    then show ?thesis by (simp add: trim_left_rev.simps [of s])
  next
    case False
    with 1 obtain u where "drop (space_width_rev s) s = u @ trim_left_rev (drop (space_width_rev s) s)" by blast
    then have "s = (take (space_width_rev s) s @ u) @ trim_left_rev (drop (space_width_rev s) s)"
      by (metis append.assoc append_take_drop_id)
    moreover have "trim_left_rev s = trim_left_rev (drop (space_width_rev s) s)"
      using False by (simp add: trim_left_rev.simps [of s])
    ultimately show ?thesis by metis
  qed
qed

lemma TrimSpace_idem [simp]: "TrimSpace (TrimSpace s) = TrimSpace s"
proof -
  let ?t = "trim_left s"
  obtain u where u: "rev ?t = u @ trim_left_rev (rev ?t)" using trim_left_rev_suffix by blast
  then have "?t = TrimSpace s @ rev u" by (metis TrimSpace_def rev_append rev_rev_ident)
  with trim_left_stops [of s] have "space_width (TrimSpace s) = 0" using space_width_prefix by metis
  then have "trim_left (TrimSpace s) = TrimSpace s" by (simp add: trim_left.simps)
  moreover have "trim_left_rev (rev (TrimSpace s)) = rev (TrimSpace s)"
    using trim_left_rev_stops [of "rev ?t"] by (simp add: TrimSpace_def trim_left_rev.simps [of "trim_left_rev (rev ?t)"])
  ultimately show ?thesis by (simp add: TrimSpace_def [of "TrimSpace s"])
qed

lemma dropWhile_twice [simp]: "dropWhile P (dropWhile P xs) = dropWhile P xs"
  by (induction xs) auto

lemma defaults_idem [simp]: "int_or d (int_or d x) = int_or d x" "str_or t (str_or t s) = str_or t s"
  by (simp_all add: int_or_def str_or_def)

lemma rate_limits_idem [simp]: "normalizeRateLimitConfig (normalizeRateLimitConfig c) = normalizeRateLimitConfig c"
  by (simp add: normalizeRateLimitConfig_def)

lemma metrics_idem [simp]: "normalizeMetricsConfig (normalizeMetricsConfig c) = normalizeMetricsConfig c"
  by (simp add: normalizeMetricsConfig_def)

lemma filter_trim_idem [simp]:
  "filter (\<lambda>d. d \<noteq> []) (map TrimSpace (filter (\<lambda>d. d \<noteq> []) (map TrimSpace ds))) =
     filter (\<lambda>d. d \<noteq> []) (map TrimSpace ds)"
  by (induction ds) auto

lemma acme_idem [simp]: "normalizeACMEConfig ca (normalizeACMEConfig ca c) = normalizeACMEConfig ca c"
  by (simp add: normalizeACMEConfig_def)

lemma app_token_idem [simp]: "normalize_app_token (normalize_app_token t) = normalize_app_token t"
  by (simp add: normalize_app_token_def str_or_def Let_def)

lemma webauthn_idem [simp]: "normalize_webauthn G i (normalize_webauthn G i w) = normalize_webauthn G i w"
  by (simp add: normalize_webauthn_def split: option.split)

lemma TrimRightChars_idem [simp]: "TrimRightChars cs (TrimRightChars cs s) = TrimRightChars cs s"
  by (simp add: TrimRightChars_def)

lemma default_issuer_idem:
  assumes "TrimRightChars cs d = d"
  shows "str_or d (TrimRightChars cs (str_or d (TrimRightChars cs s))) = str_or d (TrimRightChars cs s)"
  using assms by (simp add: str_or_def)

lemma default_issuer: "TrimRightChars {CHR ''/''} ''http://localhost:8080'' = ''http://localhost:8080''"
  by (simp add: TrimRightChars_def)

text \<open>
  Filling in the defaults twice is filling them in once: start-up normalizes the
  configuration in \<^verbatim>\<open>main\<close> and again in \<^verbatim>\<open>NewBroker\<close>, and the second pass changes nothing.
\<close>

theorem config_normalize_idempotent:
  "normalizeConfig G ca (normalizeConfig G ca cfg) = normalizeConfig G ca cfg"
  by (simp add: normalizeConfig_def Let_def default_issuer_idem [OF default_issuer] o_def)

section \<open>What the checks guarantee\<close>

lemma first_error_None: "first_error f xs = None \<longleftrightarrow> (\<forall>x \<in> set xs. f x = None)"
  by (induction xs) (auto split: option.splits)

lemma client_shape_ok:
  "client_shape_error G seen cs = None \<Longrightarrow>
     distinct (map c_ClientID cs) \<and> c_ClientID ` set cs \<inter> seen = {} \<and>
     (\<forall>c \<in> set cs. TrimSpace (c_ClientID c) \<noteq> [] \<and> (\<exists>c'. normalizeClientScopePolicy c = Inr c'))"
proof (induction cs arbitrary: seen)
  case (Cons c cs)
  from Cons.prems have c: "TrimSpace (c_ClientID c) \<noteq> []" "c_ClientID c \<notin> seen"
    "\<exists>c'. normalizeClientScopePolicy c = Inr c'"
    and r: "client_shape_error G (insert (c_ClientID c) seen) cs = None"
    by (auto simp: validateClientScopeConfig_def split: if_splits option.splits sum.splits)
  from Cons.IH [OF r] c show ?case by auto
qed simp

lemma token_shape_ok:
  "token_shape_error G seen ts = None \<Longrightarrow>
     distinct (map at_ID ts) \<and> at_ID ` set ts \<inter> seen = {} \<and> (\<forall>t \<in> set ts. TrimSpace (at_ID t) \<noteq> [])"
proof (induction ts arbitrary: seen)
  case (Cons t ts)
  from Cons.prems have t: "TrimSpace (at_ID t) \<noteq> []" "at_ID t \<notin> seen"
    and r: "token_shape_error G (insert (at_ID t) seen) ts = None" by (auto split: if_splits)
  from Cons.IH [OF r] t show ?case by auto
qed simp

lemma validateConfig_shape: "validateConfig G cfg = None \<Longrightarrow> validateConfigShape G cfg = None"
  by (simp add: validateConfig_def split: option.splits)

lemma shape_clients: "validateConfigShape G cfg = None \<Longrightarrow> client_shape_error G {} (cf_Clients cfg) = None"
  and shape_tokens: "validateConfigShape G cfg = None \<Longrightarrow> token_shape_error G {} (cf_AppTokens cfg) = None"
  and shape_proxies: "validateConfigShape G cfg = None \<Longrightarrow> validateTrustedProxyConfig G cfg = None"
  by (simp_all add: validateConfigShape_def split: option.splits)

lemma proxies_accepted:
  "\<forall>v \<in> set vs. proxy_shape_error G v = None \<Longrightarrow> \<exists>ns. newTrustedProxySet G vs = Inr ns"
proof (induction vs)
  case (Cons v vs)
  then obtain ns where "newTrustedProxySet G vs = Inr ns" by auto
  with Cons.prems show ?case by (auto simp: proxy_shape_error_def Let_def split: if_splits option.splits)
qed simp

lemma validated_proxies:
  "validateTrustedProxyConfig G cfg = None \<Longrightarrow> \<exists>ns. newTrustedProxySet G (cf_TrustedProxies cfg) = Inr ns"
  by (intro proxies_accepted) (simp add: validateTrustedProxyConfig_def first_error_None split: option.splits)

text \<open>A URI that production accepts: \<^verbatim>\<open>https\<close>, with a host that is neither empty nor local.\<close>

definition public_https :: "golib \<Rightarrow> string \<Rightarrow> bool" where
  "public_https G uri \<longleftrightarrow> isHTTPSURL G uri \<and>
     (\<exists>host. urlHostname G uri = Some host \<and> \<not> localhostOrLoopback G host)"

lemma validateProductionRedirectURI_None: "validateProductionRedirectURI G cid uri = None \<longleftrightarrow> public_https G uri"
  by (auto simp: validateProductionRedirectURI_def public_https_def split: if_splits option.splits)

lemma validateProductionClient_None:
  "validateProductionClient G c = None \<longleftrightarrow>
     c_RequirePKCE c \<and> (c_Public c \<or> validSHA256Hex (c_ClientSecretSHA256 c)) \<and>
     (\<forall>uri \<in> set (c_RedirectURIs c) \<union> set (c_PostLogoutRedirectURIs c). public_https G uri)"
proof -
  have "(case x of Some err \<Rightarrow> Some err | None \<Rightarrow> y) = None \<longleftrightarrow> x = None \<and> y = None" for x y :: "string option"
    by (cases x) simp_all
  then show ?thesis
    by (auto simp: validateProductionClient_def first_error_None validateProductionRedirectURI_None)
qed

lemma validateProductionBase_None:
  assumes "validateProductionBase G cfg = None"
  shows "isHTTPSURL G (cf_Issuer cfg)" "cookieSecureForConfig cfg" "cf_MFA_TOTPRequired cfg"
    "\<exists>g \<in> set (cf_AdminGroups cfg). TrimSpace g \<noteq> []"
    "1 \<le> cf_AccessTokenTTLMinutes cfg" "cf_AccessTokenTTLMinutes cfg \<le> 60"
    "1 \<le> cf_IDTokenTTLMinutes cfg" "cf_IDTokenTTLMinutes cfg \<le> 60"
    "1 \<le> cf_RefreshTokenTTLDays cfg" "cf_RefreshTokenTTLDays cfg \<le> 30"
    "30 \<le> cf_AuthCodeTTLSeconds cfg" "cf_AuthCodeTTLSeconds cfg \<le> 300"
    "1 \<le> cf_SessionTTLHrs cfg" "cf_SessionTTLHrs cfg \<le> cf_SessionAbsoluteTTLHrs cfg" "cf_SessionAbsoluteTTLHrs cfg \<le> 168"
    "\<forall>origin \<in> set (wa_Origins (cf_WebAuthn cfg)). public_https G origin"
    "me_Enabled (cf_Metrics cfg) \<longrightarrow> validSHA256Hex (me_BearerSHA256 (cf_Metrics cfg))"
  using assms
  by (simp_all add: validateProductionBase_def within_def nonEmptyStrings_def validateProductionWebAuthn_def
      first_error_None filter_empty_conv public_https_def split: if_split_asm)
     (auto split: option.splits if_splits)

lemma validateConfig_production:
  assumes "validateConfig G cfg = None" and "cf_Production cfg"
  shows "validateProductionBase G cfg = None" "validateProductionLDAP G (cf_LDAP cfg) = None"
    "validateProductionClients G cfg = None"
  using assms by (simp_all add: validateConfig_def split: option.splits)

text \<open>
  C22. A production configuration that passes the checks is a safe one: the issuer is an
  \<^verbatim>\<open>https\<close> URL, cookies are secure, a second factor is required; the lifetimes the handlers compute
  from it do not overflow and are positive and bounded (an access token one hour, a code five
  minutes, a refresh token 30 days, a session seven days); every configured client requires PKCE,
  has a secret hash unless it is public, and redirects only to \<^verbatim>\<open>https\<close> hosts that are not local.
\<close>

theorem production_config_safe:
  assumes "validateConfig G cfg = None" and "cf_Production cfg"
  shows "isHTTPSURL G (cf_Issuer cfg) \<and> cookieSecureForConfig cfg \<and> cf_MFA_TOTPRequired cfg \<and>
    0 < dur (cf_AccessTokenTTLMinutes cfg) Minute \<and> dur (cf_AccessTokenTTLMinutes cfg) Minute \<le> Hour \<and>
    30 * Second \<le> dur (cf_AuthCodeTTLSeconds cfg) Second \<and> dur (cf_AuthCodeTTLSeconds cfg) Second \<le> 5 * Minute \<and>
    0 < dur (cf_RefreshTokenTTLDays cfg * 24) Hour \<and> dur (cf_RefreshTokenTTLDays cfg * 24) Hour \<le> 30 * (24 * Hour) \<and>
    0 < dur (cf_SessionTTLHrs cfg) Hour \<and> dur (cf_SessionTTLHrs cfg) Hour \<le> dur (cf_SessionAbsoluteTTLHrs cfg) Hour \<and>
    dur (cf_SessionAbsoluteTTLHrs cfg) Hour \<le> 7 * (24 * Hour) \<and>
    (\<forall>c \<in> set (cf_Clients cfg). c_RequirePKCE c \<and> (c_Public c \<or> validSHA256Hex (c_ClientSecretSHA256 c)) \<and>
       (\<forall>uri \<in> set (c_RedirectURIs c) \<union> set (c_PostLogoutRedirectURIs c). public_https G uri))"
proof -
  note p = validateConfig_production [OF assms]
  note b = validateProductionBase_None [OF p(1)]
  have d: "dur n u = n * u" if "0 \<le> n" "n \<le> 720" "0 \<le> u" "u \<le> Hour" for n u :: int
  proof (rule dur_exact [OF that(1,3)])
    have "n * u \<le> 720 * Hour" using that by (intro mult_mono) auto
    then show "n * u < 2 ^ 63" by simp
  qed
  have "\<forall>c \<in> set (cf_Clients cfg). validateProductionClient G c = None"
    using p(3) by (simp add: validateProductionClients_def first_error_None split: option.splits)
  then have "\<forall>c \<in> set (cf_Clients cfg). c_RequirePKCE c \<and> (c_Public c \<or> validSHA256Hex (c_ClientSecretSHA256 c)) \<and>
       (\<forall>uri \<in> set (c_RedirectURIs c) \<union> set (c_PostLogoutRedirectURIs c). public_https G uri)"
    by (simp add: validateProductionClient_None)
  moreover have "dur (cf_AccessTokenTTLMinutes cfg) Minute = cf_AccessTokenTTLMinutes cfg * Minute"
    "dur (cf_AuthCodeTTLSeconds cfg) Second = cf_AuthCodeTTLSeconds cfg * Second"
    "dur (cf_RefreshTokenTTLDays cfg * 24) Hour = cf_RefreshTokenTTLDays cfg * 24 * Hour"
    "dur (cf_SessionTTLHrs cfg) Hour = cf_SessionTTLHrs cfg * Hour"
    "dur (cf_SessionAbsoluteTTLHrs cfg) Hour = cf_SessionAbsoluteTTLHrs cfg * Hour"
    using b by (intro d; simp)+
  ultimately show ?thesis using b by simp
qed

definition demo_production :: Config where
  "demo_production = demo_cfg\<lparr>cf_Production := True, cf_AdminGroups := [''admins''], cf_MFA_TOTPRequired := True,
     cf_LDAP := demo_ldap\<lparr>ld_StartTLS := True\<rparr>,
     cf_WebAuthn := \<lparr>wa_RPID = ''b'', wa_RPDisplayName = [], wa_Origins = []\<rparr>\<rparr>"

lemma demo_production_valid: "validateConfig demo_lib demo_production = None"
proof -
  have t: "TrimSpace ''https://b'' = ''https://b''" "TrimSpace ''admins'' = ''admins''" "TrimSpace ''b'' = ''b''"
    "TrimSpace ''ldaps://d'' = ''ldaps://d''"
    by (rule TrimSpace_plain; simp add: plain_word_def)+
  have "validateConfigShape demo_lib demo_production = None"
    by (simp add: validateConfigShape_def demo_production_def demo_cfg_def validateTrustedProxyConfig_def
        validateMetricsConfigShape_def)
  moreover have "validateProductionBase demo_lib demo_production = None"
    by (simp add: validateProductionBase_def demo_production_def demo_cfg_def isHTTPSURL_def t cookieSecureForConfig_def
        HasPrefix_def nonEmptyStrings_def within_def validateProductionWebAuthn_def localhostOrLoopback_def Let_def
        to_lower_def ToLower_def is_ascii_def lower_char_def TrimChars_def TrimRightChars_def brackets_def)
  moreover have "validateProductionLDAP demo_lib (cf_LDAP demo_production) = None"
    by (simp add: validateProductionLDAP_def demo_production_def demo_cfg_def demo_ldap_def t)
  moreover have "validateProductionClients demo_lib demo_production = None"
    by (simp add: validateProductionClients_def demo_production_def demo_cfg_def)
  ultimately show ?thesis by (simp add: validateConfig_def)
qed

theorem production_config_safe_witness:
  "cf_Production demo_production \<and> isHTTPSURL demo_lib (cf_Issuer demo_production)"
  using production_config_safe [OF demo_production_valid] by (simp add: demo_production_def)

end
