(* ===== verification/Admin.thy ===== *)
theory Admin
  imports Home Config
begin

text \<open>
  The administration pages (\<^verbatim>\<open>admin.go\<close>): creating and deleting clients and app tokens that live
  in the database beside the configured ones.  A template is its name and the data it is given.
\<close>

section \<open>Forms\<close>

definition maxAdminFormBodyBytes :: nat where "maxAdminFormBodyBytes = 16 * 1024"

definition validClientID :: "string \<Rightarrow> bool" where
  "validClientID ident = validIdentifier ident 64"

definition splitFormLines :: "string \<Rightarrow> string list" where
  "splitFormLines input = filter (\<lambda>line. line \<noteq> []) (map TrimSpace (Split (CHR 0x0A) input))"

definition splitScopeForm :: "string \<Rightarrow> string list" where
  "splitScopeForm input = Fields input"

definition parseAdminAppTokenScope :: "(string \<Rightarrow> string) \<Rightarrow> scope_error + string" where
  "parseAdminAppTokenScope form =
     (let scope = TrimSpace (form ''scope'')
      in normalizeAppTokenScope (if scope = [] then Join defaultClientAllowedScopes '' '' else scope))"

text \<open>
  The loop runs over runes; a byte beyond ASCII is part of a rune that is no digit, and the
  digits before it are read the same way.
\<close>

fun ttl_loop :: "int \<Rightarrow> string \<Rightarrow> string + int" where
  "ttl_loop n [] = Inr n"
| "ttl_loop n (c # s) =
     (if \<not> is_digit c then Inl ''token_ttl_minutes must be a positive integer''
      else let n' = n * 10 + (int (code c) - 48) in
        if n' > 60 * 24 * 30 then Inl ''token_ttl_minutes too large (max 30 days)'' else ttl_loop n' s)"

definition parseAdminTokenTTL :: "string \<Rightarrow> string + int" where
  "parseAdminTokenTTL input0 =
     (let input = TrimSpace input0 in
      if input = [] then Inr 480
      else case ttl_loop 0 input of
          Inl err \<Rightarrow> Inl err
        | Inr n \<Rightarrow> if n = 0 then Inl ''token_ttl_minutes must be greater than zero'' else Inr n)"

definition validateAdminClientRedirects :: "env \<Rightarrow> string \<Rightarrow> string list \<Rightarrow> string list \<Rightarrow> string option" where
  "validateAdminClientRedirects e clientID redirectURIs postLogoutRedirectURIs =
     (case first_error (\<lambda>u. if g_ParseRequestURI (e_lib e) u then None else Some (''invalid redirect_uri: '' @ u)) redirectURIs of
        Some err \<Rightarrow> Some err
      | None \<Rightarrow>
          if \<not> cf_Production (e_cfg e) then None
          else (case first_error (validateProductionRedirectURI (e_lib e) clientID) redirectURIs of
              Some err \<Rightarrow> Some err
            | None \<Rightarrow> first_error (validateProductionRedirectURI (e_lib e) clientID) postLogoutRedirectURIs))"

definition adminClientsFormRedirect :: "string \<Rightarrow> response" where
  "adminClientsFormRedirect msg = http_Redirect (''/admin/clients/new?error='' @ QueryEscape msg)"

definition adminAppTokensFormRedirect :: "string \<Rightarrow> response" where
  "adminAppTokensFormRedirect msg = http_Redirect (''/admin/app-tokens/new?error='' @ QueryEscape msg)"

section \<open>Authorization\<close>

definition adminAuth :: "env \<Rightarrow> http_request \<Rightarrow> st \<Rightarrow> (response + Session) \<times> st" where
  "adminAuth e r s =
     (case validSession e r s of
        (None, s1) \<Rightarrow> (Inl (http_Redirect ''/login''), s1)
      | (Some sess, s1) \<Rightarrow>
          if \<not> userIsAdmin e (GetUser (s_UserID sess) (st_db s1))
          then (Inl (http_Error ''forbidden: admin group required'' 403),
                audit_fail e r ''admin_mutation'' [(''user_id'', Str (s_UserID sess)), (''reason'', Str ''not_admin'')] s1)
          else (Inr sess, snd (maybeExtendSession e r s1)))"

text \<open>The checks the four mutating handlers start with.\<close>

definition admin_form :: "env \<Rightarrow> http_request \<Rightarrow> st \<Rightarrow> (response + Session) \<times> st" where
  "admin_form e r s =
     (case adminAuth e r s of
        (Inl resp, s1) \<Rightarrow> (Inl resp, s1)
      | (Inr sess, s1) \<Rightarrow>
          if \<not> form_ok r maxAdminFormBodyBytes then (Inl (http_Error ''bad form'' 400), s1)
          else if \<not> verifySessionCSRF r (form_get r maxAdminFormBodyBytes) sess
          then (Inl (http_Error ''invalid csrf token'' 403), s1)
          else (Inr sess, s1))"

section \<open>Pages\<close>

record adminClientView =
  cv_ClientID :: string
  cv_RedirectURIs :: "string list"
  cv_Public :: bool
  cv_RequirePKCE :: bool
  cv_RequireConsent :: bool
  cv_AllowedScopes :: "string list"
  cv_ClientCredentialsScopes :: "string list"
  cv_AllowOfflineAccess :: bool
  cv_ReadOnly :: bool

definition adminClientViews :: "env \<Rightarrow> st \<Rightarrow> adminClientView list" where
  "adminClientViews e s =
     (let merged = snapshotClients e s in
      map (\<lambda>ident. let c = the (merged ident) in
        \<lparr>cv_ClientID = c_ClientID c, cv_RedirectURIs = c_RedirectURIs c, cv_Public = c_Public c,
         cv_RequirePKCE = c_RequirePKCE c, cv_RequireConsent = c_RequireConsent c, cv_AllowedScopes = c_AllowedScopes c,
         cv_ClientCredentialsScopes = c_ClientCredentialsScopes c, cv_AllowOfflineAccess = c_AllowOfflineAccess c,
         cv_ReadOnly = (e_clients e ident \<noteq> None)\<rparr>) (sorted_ids merged))"

record adminAppTokenView =
  tv_ID :: string
  tv_DisplayName :: string
  tv_Audience :: string
  tv_ClientID :: string
  tv_Scope :: string
  tv_TTLLabel :: string
  tv_ReadOnly :: bool

definition adminAppTokenViews :: "env \<Rightarrow> st \<Rightarrow> adminAppTokenView list" where
  "adminAppTokenViews e s =
     (let merged = snapshotAppTokens e s in
      map (\<lambda>ident. let t = the (merged ident) in
        \<lparr>tv_ID = at_ID t, tv_DisplayName = at_DisplayName t, tv_Audience = at_Audience t, tv_ClientID = at_ClientID t,
         tv_Scope = at_Scope t, tv_TTLLabel = formatTokenTTL (at_TokenTTLMinutes t),
         tv_ReadOnly = (e_appTokens e ident \<noteq> None)\<rparr>) (sorted_ids merged))"

definition client_view_json :: "adminClientView \<Rightarrow> json" where
  "client_view_json v = JObj
     [(''ClientID'', JStr (cv_ClientID v)), (''RedirectURIs'', json_strings (cv_RedirectURIs v)),
      (''Public'', JBool (cv_Public v)), (''RequirePKCE'', JBool (cv_RequirePKCE v)),
      (''RequireConsent'', JBool (cv_RequireConsent v)), (''AllowedScopes'', json_strings (cv_AllowedScopes v)),
      (''ClientCredentialsScopes'', json_strings (cv_ClientCredentialsScopes v)),
      (''AllowOfflineAccess'', JBool (cv_AllowOfflineAccess v)), (''ReadOnly'', JBool (cv_ReadOnly v))]"

definition token_view_json :: "adminAppTokenView \<Rightarrow> json" where
  "token_view_json v = JObj
     [(''ID'', JStr (tv_ID v)), (''DisplayName'', JStr (tv_DisplayName v)), (''Audience'', JStr (tv_Audience v)),
      (''ClientID'', JStr (tv_ClientID v)), (''Scope'', JStr (tv_Scope v)), (''TTLLabel'', JStr (tv_TTLLabel v)),
      (''ReadOnly'', JBool (tv_ReadOnly v))]"

definition html_page :: "string \<Rightarrow> (string \<times> json) list \<Rightarrow> st \<Rightarrow> response \<times> st" where
  "html_page name data s = (Resp 200 (Page name data), set_header ''Content-Type'' ''text/html; charset=utf-8'' s)"

definition page_head :: "env \<Rightarrow> Session \<Rightarrow> (string \<times> json) list" where
  "page_head e sess = [(''DisplayName'', JStr (cf_DisplayName (e_cfg e))), (''UserID'', JStr (s_UserID sess))]"

definition handleAdminHome :: "env \<Rightarrow> http_request \<Rightarrow> st \<Rightarrow> response \<times> st" where
  "handleAdminHome e r s =
     (case adminAuth e r s of
        (Inl resp, s1) \<Rightarrow> (resp, s1)
      | (Inr sess, s1) \<Rightarrow>
          html_page ''admin_home'' (page_head e sess @
            [(''CSRFToken'', JStr (s_CSRFToken sess)), (''Clients'', JArr (map client_view_json (adminClientViews e s1))),
             (''AppTokens'', JArr (map token_view_json (adminAppTokenViews e s1))), (''Flash'', JStr (r_Query r ''flash''))]) s1)"

definition admin_form_page :: "string \<Rightarrow> env \<Rightarrow> http_request \<Rightarrow> st \<Rightarrow> response \<times> st" where
  "admin_form_page name e r s =
     (case adminAuth e r s of
        (Inl resp, s1) \<Rightarrow> (resp, s1)
      | (Inr sess, s1) \<Rightarrow>
          html_page name (page_head e sess @
            [(''CSRFToken'', JStr (s_CSRFToken sess)), (''Error'', JStr (r_Query r ''error''))]) s1)"

definition handleAdminClientsNew :: "env \<Rightarrow> http_request \<Rightarrow> st \<Rightarrow> response \<times> st" where
  "handleAdminClientsNew = admin_form_page ''admin_client_form''"

definition handleAdminAppTokensNew :: "env \<Rightarrow> http_request \<Rightarrow> st \<Rightarrow> response \<times> st" where
  "handleAdminAppTokensNew = admin_form_page ''admin_app_token_form''"

section \<open>Creating a client\<close>

text \<open>The client of the form, before its scopes are normalized and its secret is drawn.\<close>

definition form_client :: "env \<Rightarrow> (string \<Rightarrow> string) \<Rightarrow> string \<Rightarrow> string list \<Rightarrow> string list \<Rightarrow> Client" where
  "form_client e form clientID redirectURIs postLogoutRedirectURIs =
     \<lparr>c_ClientID = clientID, c_ClientSecretSHA256 = [], c_RedirectURIs = redirectURIs,
      c_PostLogoutRedirectURIs = postLogoutRedirectURIs, c_Public = (form ''public'' = ''on''),
      c_RequirePKCE = (form ''require_pkce'' = ''on''), c_AllowedScopes = splitScopeForm (form ''allowed_scopes''),
      c_ClientCredentialsScopes = splitScopeForm (form ''client_credentials_scopes''),
      c_AllowOfflineAccess = (form ''allow_offline_access'' = ''on''), c_GroupMappings = [],
      c_RequireConsent = (form ''require_consent'' = ''on''), c_StoredAt = e_now e, c_compiledMappings = None,
      c_allowedScopeSet = {}, c_clientCredentialsAllowedScopes = {}\<rparr>"

definition new_client :: "env \<Rightarrow> (string \<Rightarrow> string) \<Rightarrow> st \<Rightarrow> string + Client" where
  "new_client e form s =
     (let clientID = TrimSpace (form ''client_id'');
          redirectURIs = splitFormLines (form ''redirect_uris'');
          postLogoutRedirectURIs = splitFormLines (form ''post_logout_redirect_uris'')
      in if \<not> validClientID clientID
         then Inl ''client_id must be 1-64 chars of letters, digits, dot, underscore, or hyphen''
         else if lookupClient e s clientID \<noteq> None then Inl ''client_id already exists''
         else if redirectURIs = [] then Inl ''at least one redirect_uri is required''
         else case validateAdminClientRedirects e clientID redirectURIs postLogoutRedirectURIs of
             Some err \<Rightarrow> Inl err
           | None \<Rightarrow>
               if cf_Production (e_cfg e) \<and> form ''require_pkce'' \<noteq> ''on'' then Inl ''production clients must require PKCE''
               else (case normalizeClientScopePolicy (form_client e form clientID redirectURIs postLogoutRedirectURIs) of
                   Inl err \<Rightarrow> Inl (scope_error_text (g_quote (e_lib e)) err)
                 | Inr client \<Rightarrow> Inr client))"

definition draw_secret :: "env \<Rightarrow> Client \<Rightarrow> st \<Rightarrow> (string \<times> Client) \<times> st" where
  "draw_secret e client s =
     (if c_Public client then (([], client), s)
      else case randomB64 e 24 s of (secretPlain, s1) \<Rightarrow>
        ((secretPlain, client\<lparr>c_ClientSecretSHA256 := hex_encode (g_sha256 (e_lib e) (bytes_of secretPlain))\<rparr>), s1))"

definition handleAdminClientsCreate :: "env \<Rightarrow> http_request \<Rightarrow> st \<Rightarrow> response \<times> st" where
  "handleAdminClientsCreate e r s =
     (case admin_form e r s of
        (Inl resp, s1) \<Rightarrow> (resp, s1)
      | (Inr sess, s1) \<Rightarrow>
          (case new_client e (form_get r maxAdminFormBodyBytes) s1 of
             Inl err \<Rightarrow> (adminClientsFormRedirect err, s1)
           | Inr client0 \<Rightarrow>
               (case draw_secret e client0 s1 of ((secretPlain, client), s2) \<Rightarrow>
                  (case on_db (PutStoredClient client) s2 of
                     (Inl _, s3) \<Rightarrow> (http_Error ''store error'' 500, s3)
                   | (Inr _, s3) \<Rightarrow>
                       (case reloadStoredRegistries e s3 of
                          (Inl _, s4) \<Rightarrow> (http_Error ''registry reload error'' 500, s4)
                        | (Inr _, s4) \<Rightarrow>
                            html_page ''admin_client_created'' (page_head e sess @
                              [(''ClientID'', JStr (c_ClientID client)), (''ClientSecret'', JStr secretPlain),
                               (''Public'', JBool (c_Public client))])
                              (audit_ok e r ''admin_mutation'' [(''user_id'', Str (s_UserID sess)), (''entity'', Str ''client''),
                                (''action'', Str ''create''), (''client_id'', Str (c_ClientID client))] s4))))))"

section \<open>Deleting a client\<close>

definition handleAdminClientsDelete :: "env \<Rightarrow> http_request \<Rightarrow> st \<Rightarrow> response \<times> st" where
  "handleAdminClientsDelete e r s =
     (case admin_form e r s of
        (Inl resp, s1) \<Rightarrow> (resp, s1)
      | (Inr sess, s1) \<Rightarrow>
          let ident = TrimSpace (r_PathValue r ''id'') in
          if ident = [] then (http_Error ''missing client_id'' 400, s1)
          else if e_clients e ident \<noteq> None then (http_Error ''config-defined clients are read-only'' 403, s1)
          else (case on_db (DeleteStoredClient ident) s1 of
              (Inl _, s2) \<Rightarrow> (http_Error ''store error'' 500, s2)
            | (Inr _, s2) \<Rightarrow>
                (case on_db (DeleteConsentsForClient ident) s2 of
                   (Inl _, s3) \<Rightarrow> (http_Error ''store error'' 500, s3)
                 | (Inr _, s3) \<Rightarrow>
                     (case reloadStoredRegistries e s3 of
                        (Inl _, s4) \<Rightarrow> (http_Error ''registry reload error'' 500, s4)
                      | (Inr _, s4) \<Rightarrow>
                          (http_Redirect ''/admin?flash=client+deleted'',
                           audit_ok e r ''admin_mutation'' [(''user_id'', Str (s_UserID sess)), (''entity'', Str ''client''),
                             (''action'', Str ''delete''), (''client_id'', Str ident)] s4)))))"

section \<open>App tokens\<close>

definition new_app_token :: "env \<Rightarrow> (string \<Rightarrow> string) \<Rightarrow> st \<Rightarrow> string + AppTokenConfig" where
  "new_app_token e form s =
     (let ident = TrimSpace (form ''id'') in
      if \<not> validAppTokenID ident then Inl ''id must be 1-64 chars of letters, digits, dot, underscore, or hyphen''
      else if lookupAppToken e s ident \<noteq> None then Inl ''id already exists''
      else case parseAdminTokenTTL (form ''token_ttl_minutes'') of
          Inl err \<Rightarrow> Inl err
        | Inr ttl \<Rightarrow>
            if cf_Production (e_cfg e) \<and> \<not> within ttl 1 1440
            then Inl ''production app-token ttl must be between 1 and 1440 minutes''
            else
              let displayName = str_or ident (TrimSpace (form ''display_name''));
                  audience = str_or ident (TrimSpace (form ''audience''));
                  clientID = str_or audience (TrimSpace (form ''client_id''))
              in (case parseAdminAppTokenScope form of
                    Inl err \<Rightarrow> Inl (scope_error_text (g_quote (e_lib e)) err)
                  | Inr scope \<Rightarrow>
                      Inr \<lparr>at_ID = ident, at_DisplayName = displayName, at_Audience = audience, at_ClientID = clientID,
                           at_Scope = scope, at_TokenTTLMinutes = ttl, at_GroupMappings = [], at_StoredAt = e_now e,
                           at_compiledMappings = None\<rparr>))"

definition handleAdminAppTokensCreate :: "env \<Rightarrow> http_request \<Rightarrow> st \<Rightarrow> response \<times> st" where
  "handleAdminAppTokensCreate e r s =
     (case admin_form e r s of
        (Inl resp, s1) \<Rightarrow> (resp, s1)
      | (Inr sess, s1) \<Rightarrow>
          (case new_app_token e (form_get r maxAdminFormBodyBytes) s1 of
             Inl err \<Rightarrow> (adminAppTokensFormRedirect err, s1)
           | Inr token \<Rightarrow>
               (case on_db (PutStoredAppToken token) s1 of
                  (Inl _, s2) \<Rightarrow> (http_Error ''store error'' 500, s2)
                | (Inr _, s2) \<Rightarrow>
                    (case reloadStoredRegistries e s2 of
                       (Inl _, s3) \<Rightarrow> (http_Error ''registry reload error'' 500, s3)
                     | (Inr _, s3) \<Rightarrow>
                         (http_Redirect ''/admin?flash=app+token+created'',
                          audit_ok e r ''admin_mutation'' [(''user_id'', Str (s_UserID sess)), (''entity'', Str ''app_token''),
                            (''action'', Str ''create''), (''app_token_id'', Str (at_ID token))] s3)))))"

definition handleAdminAppTokensDelete :: "env \<Rightarrow> http_request \<Rightarrow> st \<Rightarrow> response \<times> st" where
  "handleAdminAppTokensDelete e r s =
     (case admin_form e r s of
        (Inl resp, s1) \<Rightarrow> (resp, s1)
      | (Inr sess, s1) \<Rightarrow>
          let ident = TrimSpace (r_PathValue r ''id'') in
          if ident = [] then (http_Error ''missing app_token_id'' 400, s1)
          else if e_appTokens e ident \<noteq> None then (http_Error ''config-defined app tokens are read-only'' 403, s1)
          else (case on_db (DeleteStoredAppToken ident) s1 of
              (Inl _, s2) \<Rightarrow> (http_Error ''store error'' 500, s2)
            | (Inr _, s2) \<Rightarrow>
                (case reloadStoredRegistries e s2 of
                   (Inl _, s3) \<Rightarrow> (http_Error ''registry reload error'' 500, s3)
                 | (Inr _, s3) \<Rightarrow>
                     (http_Redirect ''/admin?flash=app+token+deleted'',
                      audit_ok e r ''admin_mutation'' [(''user_id'', Str (s_UserID sess)), (''entity'', Str ''app_token''),
                        (''action'', Str ''delete''), (''app_token_id'', Str ident)] s3))))"

section \<open>The lifetime of an app token\<close>

lemma ttl_loop_Inr:
  "ttl_loop n s = Inr m \<longleftrightarrow> (\<forall>c \<in> set s. is_digit c) \<and>
     m = foldl (\<lambda>v c. v * 10 + (int (code c) - 48)) n s \<and> (s = [] \<or> m \<le> 43200)"
  if "0 \<le> n" for n m
  using that
proof (induction s arbitrary: n)
  case (Cons c s)
  let ?f = "\<lambda>v c. v * 10 + (int (code c) - 48)"
  show ?case
  proof (cases "is_digit c")
    case True
    then have n': "0 \<le> ?f n c" using Cons.prems by (simp add: is_digit_def)
    have mono: "v \<le> foldl ?f v xs" if "0 \<le> v" "\<forall>c \<in> set xs. is_digit c" for v xs
      using that
    proof (induction xs arbitrary: v)
      case (Cons x xs)
      then have v: "v \<le> ?f v x" by (simp add: is_digit_def)
      also have "\<dots> \<le> foldl ?f (?f v x) xs" using Cons.prems v by (intro Cons.IH) auto
      finally show ?case by simp
    qed simp
    show ?thesis
    proof (cases "?f n c > 43200")
      case big: True
      then show ?thesis using True mono [OF n', of s] by (auto simp: Let_def)
    next
      case small: False
      then show ?thesis using True Cons.IH [OF n'] by (cases s) (auto simp: Let_def)
    qed
  qed (simp add: Let_def)
qed auto

lemma digits_value_int:
  "\<forall>c \<in> set s. is_digit c \<Longrightarrow> foldl (\<lambda>v c. v * 10 + (int (code c) - 48)) (int n) s = int (foldl (\<lambda>v c. 10 * v + (code c - 48)) n s)"
proof (induction s arbitrary: n)
  case (Cons c s)
  then have "int n * 10 + (int (code c) - 48) = int (10 * n + (code c - 48))" by (simp add: is_digit_def)
  then have "foldl (\<lambda>v c. v * 10 + (int (code c) - 48)) (int n) (c # s) =
      foldl (\<lambda>v c. v * 10 + (int (code c) - 48)) (int (10 * n + (code c - 48))) s" by (simp only: foldl_Cons)
  also have "\<dots> = int (foldl (\<lambda>v c. 10 * v + (code c - 48)) (10 * n + (code c - 48)) s)"
    using Cons.prems by (intro Cons.IH) simp
  finally show ?case by (simp only: foldl_Cons)
qed simp

text \<open>
  The lifetime an administrator may give an app token: a blank field means 480 minutes;
  otherwise the field must be a decimal number, and its value is accepted exactly if it is between
  one minute and 30 days.
\<close>

theorem admin_ttl_exact:
  "parseAdminTokenTTL input = Inr n \<longleftrightarrow>
     (TrimSpace input = [] \<and> n = 480 \<or>
      TrimSpace input \<noteq> [] \<and> (\<forall>c \<in> set (TrimSpace input). is_digit c) \<and>
        n = int (digits_value (TrimSpace input)) \<and> 1 \<le> n \<and> n \<le> 43200)"
proof -
  have l: "ttl_loop 0 s = Inr m \<longleftrightarrow> (\<forall>c \<in> set s. is_digit c) \<and> m = int (digits_value s) \<and> (s = [] \<or> m \<le> 43200)" for s m
    using digits_value_int [of s 0] by (auto simp: ttl_loop_Inr digits_value_def)
  show ?thesis
    using l [of "TrimSpace input"] by (cases "ttl_loop 0 (TrimSpace input)") (auto simp: parseAdminTokenTTL_def Let_def)
qed

section \<open>Only administrators\<close>

text \<open>Everything an administrator can change.\<close>

definition admin_state :: "st \<Rightarrow> (string \<rightharpoonup> Client) \<times> (string \<rightharpoonup> AppTokenConfig) \<times> Client bucket \<times> AppTokenConfig bucket \<times> ConsentRecord bucket" where
  "admin_state s =
     (st_clients s, st_appTokens s, db_clients (st_db s), db_appTokens (st_db s), db_consents (st_db s))"

lemma session_frame_admin: "session_frame s s' \<Longrightarrow> admin_state s' = admin_state s \<and> db_users (st_db s') = db_users (st_db s)
    \<and> db_open (st_db s') = db_open (st_db s)"
  by (auto simp: session_frame_ex admin_state_def)

lemma admin_state_audit [simp]:
  "admin_state (auditEvent e r ev oc at s) = admin_state s" "admin_state (set_header k v s) = admin_state s"
  by (simp_all add: admin_state_def auditEvent_def set_header_def)

lemma GetUser_users: "db_users d' = db_users d \<Longrightarrow> db_open d' = db_open d \<Longrightarrow> GetUser u d' = GetUser u d"
  by (simp add: GetUser_def db_view_def)

text \<open>What a request that passes the first checks of a mutating handler has shown.\<close>

definition admin_ok :: "env \<Rightarrow> http_request \<Rightarrow> st \<Rightarrow> bool" where
  "admin_ok e r s \<longleftrightarrow>
     (\<exists>sess s1. validSession e r s = (Some sess, s1) \<and> userIsAdmin e (GetUser (s_UserID sess) (st_db s)) \<and>
        verifySessionCSRF r (form_get r maxAdminFormBodyBytes) sess)"

lemma admin_form_cases:
  assumes "admin_form e r s = (x, s1)"
  shows "admin_state s1 = admin_state s \<and> (\<forall>sess. x = Inr sess \<longrightarrow> admin_ok e r s \<and> session_frame s s1)"
proof -
  obtain os s0 where v: "validSession e r s = (os, s0)" by fastforce
  note f0 = session_frame_admin [OF validSession_frame [OF v]]
  obtain y s2 where m: "maybeExtendSession e r s0 = (y, s2)" by fastforce
  have f2: "session_frame s s2" by (rule session_frame_trans [OF validSession_frame [OF v] maybeExtendSession_frame [OF m]])
  show ?thesis
  proof (cases os)
    case (Some sess)
    have "GetUser (s_UserID sess) (st_db s0) = GetUser (s_UserID sess) (st_db s)" using f0 by (intro GetUser_users) auto
    then show ?thesis
      using assms v m f0 f2 session_frame_admin [OF f2] Some
      by (auto simp: admin_form_def adminAuth_def admin_ok_def split: if_splits)
  qed (use assms v f0 in \<open>auto simp: admin_form_def adminAuth_def\<close>)
qed

text \<open>
  Only administrators change the registries: when one of the four mutating handlers
  changes the clients, the app tokens or the consents, in memory or in the database, the request
  has a live session of a user in an administrator group and carries the CSRF token of the session.
\<close>

theorem admin_mutation_guarded:
  assumes "h \<in> {handleAdminClientsCreate, handleAdminClientsDelete, handleAdminAppTokensCreate, handleAdminAppTokensDelete}"
    and "h e r s = (resp, s')" and "admin_state s' \<noteq> admin_state s"
  shows "\<exists>sess s1. validSession e r s = (Some sess, s1) \<and> userIsAdmin e (GetUser (s_UserID sess) (st_db s)) \<and>
           verifySessionCSRF r (form_get r maxAdminFormBodyBytes) sess"
proof -
  obtain x s1 where f: "admin_form e r s = (x, s1)" by fastforce
  note c = admin_form_cases [OF f]
  have "\<exists>sess. x = Inr sess"
  proof (rule ccontr)
    assume "\<nexists>sess. x = Inr sess"
    then obtain y where "x = Inl y" by (cases x) auto
    with assms(1,2) f have "s' = s1"
      by (auto simp: handleAdminClientsCreate_def handleAdminClientsDelete_def handleAdminAppTokensCreate_def handleAdminAppTokensDelete_def)
    with c assms(3) show False by simp
  qed
  with c show ?thesis by (auto simp: admin_ok_def)
qed

section \<open>The registry is the database\<close>

text \<open>
  The abstract view: the stored client of an id, and what the broker makes of it when it loads
  it.  Every transaction that writes a client writes it under its own id.
\<close>

definition stored_client :: "Store \<Rightarrow> string \<Rightarrow> Client option" where
  "stored_client d cid = (case bget cid (db_clients d) of Some (Json c) \<Rightarrow> Some c | _ \<Rightarrow> None)"

definition loaded_client :: "env \<Rightarrow> Client \<Rightarrow> Client option" where
  "loaded_client e c =
     (case normalizeClientScopePolicy c of
        Inl _ \<Rightarrow> None
      | Inr c' \<Rightarrow> Some (c'\<lparr>c_compiledMappings := compileGroupMappings (e_lib e) (c_GroupMappings c')\<rparr>))"

definition clients_keyed :: "Client bucket \<Rightarrow> bool" where
  "clients_keyed b = (\<forall>k c. (k, Json c) \<in> set b \<longrightarrow> c_ClientID c = k)"

definition clients_ok :: "Client bucket \<Rightarrow> bool" where
  "clients_ok b = (bucket_ok b \<and> clients_keyed b)"

lemma normalize_keeps:
  "normalizeClientScopePolicy c = Inr c' \<Longrightarrow> c_ClientID c' = c_ClientID c \<and> c_GroupMappings c' = c_GroupMappings c \<and>
     c_RedirectURIs c' = c_RedirectURIs c \<and> c_PostLogoutRedirectURIs c' = c_PostLogoutRedirectURIs c \<and>
     c_Public c' = c_Public c \<and> c_RequirePKCE c' = c_RequirePKCE c \<and> c_ClientSecretSHA256 c' = c_ClientSecretSHA256 c \<and>
     c_RequireConsent c' = c_RequireConsent c"
  by (auto simp: normalizeClientScopePolicy_def split: sum.splits)

lemma reload_clients_lookup:
  "reload_clients e cs m = Inr m' \<Longrightarrow> distinct (map c_ClientID cs) \<Longrightarrow> e_clients e cid = None \<Longrightarrow>
     m' cid = (case List.find (\<lambda>c. c_ClientID c = cid) cs of None \<Rightarrow> m cid | Some c \<Rightarrow> loaded_client e c)"
proof (induction cs arbitrary: m)
  case (Cons c cs)
  show ?case
  proof (cases "e_clients e (c_ClientID c)")
    case None
    with Cons.prems(1) obtain c' where n: "normalizeClientScopePolicy c = Inr c'"
      and r: "reload_clients e cs (m(c_ClientID c' \<mapsto>
            c'\<lparr>c_compiledMappings := compileGroupMappings (e_lib e) (c_GroupMappings c')\<rparr>)) = Inr m'"
      by (auto split: sum.splits)
    have cid: "c_ClientID c' = c_ClientID c" using normalize_keeps [OF n] by simp
    have "List.find (\<lambda>x. c_ClientID x = c_ClientID c) cs = None"
      using Cons.prems(2) unfolding find_None_iff_all by (metis distinct.simps(2) image_eqI list.set_map list.simps(9))
    with Cons.IH [OF r] Cons.prems(2,3) cid n show ?thesis
      by (cases "c_ClientID c = cid") (auto simp: loaded_client_def split: option.splits)
  next
    case (Some x)
    with Cons.prems have "c_ClientID c \<noteq> cid" by auto
    with Cons Some show ?thesis by simp
  qed
qed simp

lemma find_unique:
  assumes "c \<in> set xs" and "P c" and "\<And>y. y \<in> set xs \<Longrightarrow> P y \<Longrightarrow> y = c"
  shows "List.find P xs = Some c"
proof (cases "List.find P xs")
  case None
  with assms(1,2) show ?thesis by (simp add: find_None_iff_all)
next
  case (Some d)
  then have "d \<in> set xs" "P d" by (auto simp: find_Some_iff)
  with assms(3) Some show ?thesis by simp
qed

lemma decoded_clients:
  assumes "decode_all b = Some es" and "bucket_ok b" and "clients_keyed b"
  shows "distinct (map c_ClientID (sort_key c_ClientID (map snd es)))"
    and "List.find (\<lambda>c. c_ClientID c = cid) (sort_key c_ClientID (map snd es)) =
           (case bget cid b of Some (Json c) \<Rightarrow> Some c | _ \<Rightarrow> None)"
proof -
  note b = assms(1) [unfolded decode_all_Some_iff]
  have k: "c_ClientID c = k" if "(k, c) \<in> set es" for k c
    using assms(3) that unfolding clients_keyed_def b by force
  have keys: "map fst b = map fst es" by (subst b) auto
  have d: "distinct (map fst es)" using bucket_ok_distinct [OF assms(2)] keys by simp
  have "map c_ClientID (map snd es) = map fst es" using k by auto
  with d have ds: "distinct (map c_ClientID (map snd es))" by (simp only:)
  then show "distinct (map c_ClientID (sort_key c_ClientID (map snd es)))"
    by (metis distinct_map distinct_sort set_sort)
  have g: "bget cid b = map_option Json (map_of es cid)"
    by (subst b) (simp add: bget_def map_of_map)
  show "List.find (\<lambda>c. c_ClientID c = cid) (sort_key c_ClientID (map snd es)) =
           (case bget cid b of Some (Json c) \<Rightarrow> Some c | _ \<Rightarrow> None)"
  proof (cases "map_of es cid")
    case None
    then have "cid \<notin> fst ` set es" by (simp add: map_of_eq_None_iff)
    then have "\<forall>c \<in> set (map snd es). c_ClientID c \<noteq> cid" using k by force
    then show ?thesis using g None by (simp add: find_None_iff)
  next
    case (Some c)
    then have c: "(cid, c) \<in> set es" by (rule map_of_SomeD)
    have u: "y = c" if "y \<in> set (map snd es)" "c_ClientID y = cid" for y
      using that k c d by (auto dest: eq_key_imp_eq_value)
    have "List.find (\<lambda>c. c_ClientID c = cid) (sort_key c_ClientID (map snd es)) = Some c"
    proof (rule find_unique)
      show "c \<in> set (sort_key c_ClientID (map snd es))" using c by force
      show "c_ClientID c = cid" by (rule k [OF c])
    qed (rule u, simp_all)
    then show ?thesis using g Some by simp
  qed
qed

lemma registry_lookup:
  assumes "reloadStoredRegistries e s = (Inr u, s')" and "clients_ok (db_clients (st_db s))"
  shows "st_db s' = st_db s"
    and "lookupClient e s' cid =
       (case e_clients e cid of Some c \<Rightarrow> Some c | None \<Rightarrow> Option.bind (stored_client (st_db s) cid) (loaded_client e))"
proof -
  from assms(1) obtain cs where l: "ListStoredClients (st_db s) = Inr cs"
    and r: "reload_clients e cs Map.empty = Inr (st_clients s')" and s': "st_db s' = st_db s"
    by (auto simp: reloadStoredRegistries_def split: sum.splits)
  show "st_db s' = st_db s" by (rule s')
  from l obtain es where es: "decode_all (db_clients (st_db s)) = Some es"
    and cs: "cs = sort_key c_ClientID (map snd es)"
    by (auto simp: ListStoredClients_def db_view_def split: if_splits option.splits)
  have ok: "bucket_ok (db_clients (st_db s))" "clients_keyed (db_clients (st_db s))"
    using assms(2) by (simp_all add: clients_ok_def)
  note d = decoded_clients [OF es ok]
  show "lookupClient e s' cid =
       (case e_clients e cid of Some c \<Rightarrow> Some c | None \<Rightarrow> Option.bind (stored_client (st_db s) cid) (loaded_client e))"
    using reload_clients_lookup [OF r, of cid] d(1) d(2) [of cid]
    by (auto simp: lookupClient_def cs stored_client_def split: option.splits cell.splits)
qed

text \<open>
  C20. The registry is the database: after the stored registries are reloaded, a client id
  resolves to the configured client if there is one, and otherwise exactly to the stored client
  with its scope policy normalized; ids without either resolve to nothing.
\<close>

theorem registry_refines_store:
  assumes "reloadStoredRegistries e s = (Inr u, s')" and "clients_ok (db_clients (st_db s))"
  shows "lookupClient e s' cid =
    (case e_clients e cid of Some c \<Rightarrow> Some c | None \<Rightarrow> Option.bind (stored_client (st_db s) cid) (loaded_client e))"
  by (rule registry_lookup(2) [OF assms])

section \<open>Creating a client\<close>

lemma Fields_not_empty:
  assumes "t \<in> set (Fields s)"
  shows "Fields t \<noteq> []"
  using assms
proof (induction s rule: Fields.induct)
  case (1 s)
  let ?t = "trim_left s" and ?w = "nonspace_prefix (trim_left s)"
  have w: "\<exists>u. v = nonspace_prefix v @ u" for v by (induction v) auto
  from "1.prems" have ne: "?t \<noteq> []" and m: "t = ?w \<or> t \<in> set (Fields (drop (length ?w) ?t))"
    by (subst (asm) Fields.simps; simp add: Let_def split: if_splits)+
  show ?case
  proof (cases "t = ?w")
    case True
    obtain u where "?t = t @ u" using w [of ?t] True by blast
    with trim_left_stops [of s] have "space_width t = 0" using space_width_prefix by metis
    then have "trim_left t = t" by (simp add: trim_left.simps)
    moreover have "t \<noteq> []"
      using ne trim_left_stops [of s] True by (cases ?t) (auto simp: space_width.simps)
    ultimately show ?thesis by (subst Fields.simps) (simp add: Let_def)
  next
    case False
    with m have "t \<in> set (Fields (drop (length ?w) ?t))" by simp
    with "1.IH" [OF refl refl ne] show ?thesis by blast
  qed
qed

lemma dedup_not_empty: "xs \<noteq> [] \<Longrightarrow> dedup xs \<noteq> []"
  by (cases xs) auto

lemma concat_fields_not_empty: "raw \<noteq> [] \<Longrightarrow> raw = Fields x \<Longrightarrow> concat (map Fields raw) \<noteq> []"
  using Fields_not_empty [of "hd raw" x] by (cases raw) auto

lemma form_scopes_not_empty:
  assumes "normalizeClientScopePolicy c = Inr c'" and "c_AllowedScopes c = Fields x"
  shows "c_AllowedScopes c' \<noteq> []"
proof -
  from assms(1) obtain al where n: "normalizeClientAllowedScopes (c_AllowedScopes c) (c_AllowOfflineAccess c) = Inr al"
    and c': "c_AllowedScopes c' = al"
    by (auto simp: normalizeClientScopePolicy_def split: sum.splits)
  from n obtain ts where t: "normalizeScopeTokens (if c_AllowedScopes c = [] then defaultClientAllowedScopes else c_AllowedScopes c) = Inr ts"
    and al: "ts \<noteq> [] \<Longrightarrow> al \<noteq> []"
    by (auto simp: normalizeClientAllowedScopes_def Let_def split: sum.splits option.splits if_splits)
  show ?thesis
  proof (cases "c_AllowedScopes c = []")
    case True
    have "normalizeScopeTokens defaultClientAllowedScopes = Inr defaultClientAllowedScopes" by code_simp
    with t True al c' show ?thesis by (simp add: defaultClientAllowedScopes_def)
  next
    case False
    with t al c' show ?thesis
      using dedup_not_empty [OF concat_fields_not_empty [OF False assms(2)]] by (auto simp: normalizeScopeTokens_Inr)
  qed
qed

lemma normalize_secret:
  "normalizeClientScopePolicy (c\<lparr>c_ClientSecretSHA256 := h\<rparr>) =
     map_sum id (\<lambda>c'. c'\<lparr>c_ClientSecretSHA256 := h\<rparr>) (normalizeClientScopePolicy c)"
  by (simp add: normalizeClientScopePolicy_def split: sum.split)

lemma persist_secret: "persist_Client (c\<lparr>c_ClientSecretSHA256 := h\<rparr>) = (persist_Client c)\<lparr>c_ClientSecretSHA256 := h\<rparr>"
  by (simp add: persist_Client_def)

text \<open>A client from the form is loaded back as it was written.\<close>

lemma loaded_new_client:
  assumes "normalizeClientScopePolicy c = Inr c'" and "c_AllowedScopes c = Fields x"
    and "client = c'\<or> client = c'\<lparr>c_ClientSecretSHA256 := h\<rparr>"
  shows "loaded_client e (persist_Client client) =
    Some (client\<lparr>c_compiledMappings := compileGroupMappings (e_lib e) (c_GroupMappings c)\<rparr>)"
proof -
  from scope_policy_idempotent [OF assms(1) form_scopes_not_empty [OF assms(1,2)]]
  have "normalizeClientScopePolicy (persist_Client c') = Inr (c'\<lparr>c_compiledMappings := None\<rparr>)" by simp
  with assms(3) normalize_keeps [OF assms(1)] show ?thesis
    by (auto simp: loaded_client_def normalize_secret persist_secret)
qed

lemma new_client_Inr:
  assumes "new_client e form s = Inr c"
  obtains c0 where "c0 = form_client e form (TrimSpace (form ''client_id'')) (splitFormLines (form ''redirect_uris''))
        (splitFormLines (form ''post_logout_redirect_uris''))"
    "normalizeClientScopePolicy c0 = Inr c" "validClientID (c_ClientID c0)" "lookupClient e s (c_ClientID c0) = None"
    "c_RedirectURIs c0 \<noteq> []"
    "cf_Production (e_cfg e) \<Longrightarrow> c_RequirePKCE c0 \<and>
       (\<forall>uri \<in> set (c_RedirectURIs c0) \<union> set (c_PostLogoutRedirectURIs c0). public_https (e_lib e) uri)"
proof -
  let ?c0 = "form_client e form (TrimSpace (form ''client_id'')) (splitFormLines (form ''redirect_uris''))
        (splitFormLines (form ''post_logout_redirect_uris''))"
  have or: "(case x of Some err \<Rightarrow> Some err | None \<Rightarrow> y) = None \<longleftrightarrow> x = None \<and> y = None" for x y :: "string option"
    by (cases x) simp_all
  show thesis
  proof (rule that [of ?c0])
    show "normalizeClientScopePolicy ?c0 = Inr c" "validClientID (c_ClientID ?c0)"
      "lookupClient e s (c_ClientID ?c0) = None" "c_RedirectURIs ?c0 \<noteq> []"
      using assms by (auto simp: new_client_def form_client_def Let_def split: if_splits option.splits sum.splits)
    assume p: "cf_Production (e_cfg e)"
    from assms have "validateAdminClientRedirects e (TrimSpace (form ''client_id'')) (splitFormLines (form ''redirect_uris''))
        (splitFormLines (form ''post_logout_redirect_uris'')) = None" and "form ''require_pkce'' = ''on''"
      using p by (auto simp: new_client_def Let_def split: if_splits option.splits)
    with p show "c_RequirePKCE ?c0 \<and> (\<forall>uri \<in> set (c_RedirectURIs ?c0) \<union> set (c_PostLogoutRedirectURIs ?c0). public_https (e_lib e) uri)"
      by (auto simp: validateAdminClientRedirects_def or first_error_None validateProductionRedirectURI_None form_client_def)
  qed simp
qed

lemma PutStoredClient_Inr:
  "PutStoredClient c d = (Inr u, d') \<longleftrightarrow> db_open d \<and> c_ClientID c \<noteq> [] \<and> length (c_ClientID c) \<le> 32768 \<and>
     d' = d\<lparr>db_clients := bput (c_ClientID c) (persist_Client c) (db_clients d)\<rparr>"
  by (auto simp: PutStoredClient_def db_update_def putJSON_def)

lemma clients_ok_bput: "clients_ok b \<Longrightarrow> clients_ok (bput (c_ClientID c) (persist_Client c) b)"
proof -
  have "set (bput k v b) \<subseteq> insert (k, Json v) (set b)" for k v
    by (induction k v b rule: bput.induct) auto
  then show "clients_ok b \<Longrightarrow> clients_ok (bput (c_ClientID c) (persist_Client c) b)"
    unfolding clients_ok_def clients_keyed_def by (fastforce simp: persist_Client_def bucket_ok_bput)
qed

lemma clients_ok_bdel: "clients_ok b \<Longrightarrow> clients_ok (bdel k b)"
  by (auto simp: clients_ok_def clients_keyed_def bdel_def bucket_ok_bdel [unfolded bdel_def])

lemma draw_secret_Inr:
  assumes "draw_secret e c s = ((secret, client), s')"
  shows "st_db s' = st_db s" and "st_clients s' = st_clients s"
    and "c_Public c \<and> client = c \<or> \<not> c_Public c \<and>
      client = c\<lparr>c_ClientSecretSHA256 := hex_encode (g_sha256 (e_lib e) (bytes_of secret))\<rparr> \<and>
      secret = base64RawURL (g_entropy (e_lib e) (st_drawn s) 24)"
  using assms by (auto simp: draw_secret_def randomB64_def split: if_splits prod.splits)

lemma admin_form_refuses: "admin_form e r s \<noteq> (Inl (Resp 200 b), s')"
  by (auto simp: admin_form_def adminAuth_def http_Error_def http_Redirect_def split: prod.splits option.splits if_splits)

text \<open>The steps of a creation that reports success.\<close>

lemma create_steps:
  assumes "handleAdminClientsCreate e r s = (Resp 200 b, s')"
  obtains sess s1 c client secret s2 s3 s4 where "admin_form e r s = (Inr sess, s1)"
    "new_client e (form_get r maxAdminFormBodyBytes) s1 = Inr c" "draw_secret e c s1 = ((secret, client), s2)"
    "on_db (PutStoredClient client) s2 = (Inr (), s3)" "reloadStoredRegistries e s3 = (Inr (), s4)"
    "st_db s' = st_db s4" "st_clients s' = st_clients s4"
    "b = Page ''admin_client_created'' (page_head e sess @
           [(''ClientID'', JStr (c_ClientID client)), (''ClientSecret'', JStr secret), (''Public'', JBool (c_Public client))])"
proof -
  obtain x s1 where f: "admin_form e r s = (x, s1)" by fastforce
  have "x \<noteq> Inl resp" for resp
    using assms f admin_form_refuses [of e r s b s1] by (auto simp: handleAdminClientsCreate_def)
  then obtain sess where x: "x = Inr sess" by (cases x) auto
  from assms f x obtain c where c: "new_client e (form_get r maxAdminFormBodyBytes) s1 = Inr c"
    by (auto simp: handleAdminClientsCreate_def adminClientsFormRedirect_def http_Redirect_def split: sum.splits)
  obtain secret client s2 where d: "draw_secret e c s1 = ((secret, client), s2)" by (metis prod.exhaust)
  obtain y s3 where p: "on_db (PutStoredClient client) s2 = (y, s3)" by fastforce
  with assms f x c d have y: "y = Inr ()"
    by (cases y) (auto simp: handleAdminClientsCreate_def http_Error_def)
  obtain z s4 where rl: "reloadStoredRegistries e s3 = (z, s4)" by fastforce
  with assms f x c d p y have z: "z = Inr ()"
    by (cases z) (auto simp: handleAdminClientsCreate_def http_Error_def)
  show thesis
    using assms f x c d p y rl z
    by (intro that [OF f [unfolded x] c d p [unfolded y] rl [unfolded z]])
       (auto simp: handleAdminClientsCreate_def html_page_def)
qed

lemma create_effect:
  assumes "handleAdminClientsCreate e r s = (Resp 200 b, s')" and "clients_ok (db_clients (st_db s))"
  obtains sess client secret where
    "b = Page ''admin_client_created'' (page_head e sess @
       [(''ClientID'', JStr (c_ClientID client)), (''ClientSecret'', JStr secret), (''Public'', JBool (c_Public client))])"
    "c_ClientID client = TrimSpace (form_get r maxAdminFormBodyBytes ''client_id'')" "validClientID (c_ClientID client)"
    "lookupClient e s (c_ClientID client) = None"
    "c_RedirectURIs client = splitFormLines (form_get r maxAdminFormBodyBytes ''redirect_uris'')" "c_RedirectURIs client \<noteq> []"
    "cf_Production (e_cfg e) \<longrightarrow> c_RequirePKCE client \<and>
       (\<forall>uri \<in> set (c_RedirectURIs client) \<union> set (c_PostLogoutRedirectURIs client). public_https (e_lib e) uri)"
    "db_clients (st_db s') = bput (c_ClientID client) (persist_Client client) (db_clients (st_db s))"
    "clients_ok (db_clients (st_db s'))" "lookupClient e s' (c_ClientID client) = Some client"
    "\<not> c_Public client \<longrightarrow> c_ClientSecretSHA256 client = hex_encode (g_sha256 (e_lib e) (bytes_of secret))"
proof -
  from assms(1) obtain sess s1 c client secret s2 s3 s4 where f: "admin_form e r s = (Inr sess, s1)"
    and c: "new_client e (form_get r maxAdminFormBodyBytes) s1 = Inr c" and d: "draw_secret e c s1 = ((secret, client), s2)"
    and p: "on_db (PutStoredClient client) s2 = (Inr (), s3)" and rl: "reloadStoredRegistries e s3 = (Inr (), s4)"
    and s': "st_db s' = st_db s4" "st_clients s' = st_clients s4"
    and b: "b = Page ''admin_client_created'' (page_head e sess @
           [(''ClientID'', JStr (c_ClientID client)), (''ClientSecret'', JStr secret), (''Public'', JBool (c_Public client))])"
    by (rule create_steps)
  from c obtain c0 where c0: "c0 = form_client e (form_get r maxAdminFormBodyBytes) (TrimSpace (form_get r maxAdminFormBodyBytes ''client_id''))
      (splitFormLines (form_get r maxAdminFormBodyBytes ''redirect_uris'')) (splitFormLines (form_get r maxAdminFormBodyBytes ''post_logout_redirect_uris''))"
    and n: "normalizeClientScopePolicy c0 = Inr c" and v: "validClientID (c_ClientID c0)"
    and free: "lookupClient e s1 (c_ClientID c0) = None" and ne: "c_RedirectURIs c0 \<noteq> []"
    and prod: "cf_Production (e_cfg e) \<Longrightarrow> c_RequirePKCE c0 \<and>
       (\<forall>uri \<in> set (c_RedirectURIs c0) \<union> set (c_PostLogoutRedirectURIs c0). public_https (e_lib e) uri)"
    by (rule new_client_Inr) blast
  have eq: "c_ClientID client = c_ClientID c0" "c_RedirectURIs client = c_RedirectURIs c0" "c_RequirePKCE client = c_RequirePKCE c0"
    "c_PostLogoutRedirectURIs client = c_PostLogoutRedirectURIs c0" "c_Public client = c_Public c"
    using normalize_keeps [OF n] draw_secret_Inr(3) [OF d] by auto
  have as: "admin_state s1 = admin_state s" using admin_form_cases [OF f] by simp
  then have s1: "db_clients (st_db s1) = db_clients (st_db s)" "st_clients s1 = st_clients s" by (simp_all add: admin_state_def)
  have db3: "db_clients (st_db s3) = bput (c_ClientID client) (persist_Client client) (db_clients (st_db s))"
    using p draw_secret_Inr(1) [OF d] s1 by (auto simp: on_db_eq PutStoredClient_Inr)
  then have ok3: "clients_ok (db_clients (st_db s3))" using assms(2) by (simp add: clients_ok_bput)
  note rg = registry_lookup [OF rl ok3]
  have ld: "loaded_client e (persist_Client client) = Some (client\<lparr>c_compiledMappings := compileGroupMappings (e_lib e) (c_GroupMappings c0)\<rparr>)"
    using draw_secret_Inr(3) [OF d] by (intro loaded_new_client [OF n]) (auto simp: c0 form_client_def splitScopeForm_def)
  have cg: "compileGroupMappings (e_lib e) [] = None" by (simp add: compileGroupMappings_def)
  have cm: "client\<lparr>c_compiledMappings := None\<rparr> = client"
    using n draw_secret_Inr(3) [OF d] by (auto simp: c0 form_client_def normalizeClientScopePolicy_def split: sum.splits)
  have "e_clients e (c_ClientID client) = None"
    using free eq(1) by (auto simp: lookupClient_def split: option.splits)
  then have "lookupClient e s4 (c_ClientID client) = Some client"
    using rg(2) [of "c_ClientID client"] ld cg cm by (simp add: stored_client_def db3 bget_bput c0 form_client_def)
  then have "lookupClient e s' (c_ClientID client) = Some client" using lookupClient_cong [OF s'(2)] by metis
  moreover have "lookupClient e s (c_ClientID client) = None"
    using free eq(1) lookupClient_cong [OF s1(2)] by metis
  moreover have "db_clients (st_db s') = bput (c_ClientID client) (persist_Client client) (db_clients (st_db s))"
    "clients_ok (db_clients (st_db s'))" using s'(1) rg(1) db3 ok3 by simp_all
  moreover have "\<not> c_Public client \<longrightarrow> c_ClientSecretSHA256 client = hex_encode (g_sha256 (e_lib e) (bytes_of secret))"
    using draw_secret_Inr(3) [OF d] eq(5) by auto
  moreover have "c_ClientID c0 = TrimSpace (form_get r maxAdminFormBodyBytes ''client_id'')"
    "c_RedirectURIs c0 = splitFormLines (form_get r maxAdminFormBodyBytes ''redirect_uris'')"
    by (simp_all add: c0 form_client_def)
  ultimately show thesis
    using b v ne prod eq by (intro that [of sess client secret]) auto
qed

text \<open>
  A client is created as the form says: when the page with the secret is shown, the id is
  valid and was not in use; the redirect URIs are those of the form, and in production they are
  public \<^verbatim>\<open>https\<close> URIs and the client requires PKCE; the database has gained exactly this client;
  the id resolves to it at once; and a confidential client has the hash of the secret that the page
  shows.
\<close>

theorem client_create_sound:
  assumes "handleAdminClientsCreate e r s = (Resp 200 b, s')" and "clients_ok (db_clients (st_db s))"
  shows "\<exists>client secret data. b = Page ''admin_client_created'' data \<and>
    (''ClientID'', JStr (c_ClientID client)) \<in> set data \<and> (''ClientSecret'', JStr secret) \<in> set data \<and>
    c_ClientID client = TrimSpace (form_get r maxAdminFormBodyBytes ''client_id'') \<and>
    validClientID (c_ClientID client) \<and> lookupClient e s (c_ClientID client) = None \<and>
    c_RedirectURIs client = splitFormLines (form_get r maxAdminFormBodyBytes ''redirect_uris'') \<and> c_RedirectURIs client \<noteq> [] \<and>
    (cf_Production (e_cfg e) \<longrightarrow> c_RequirePKCE client \<and>
       (\<forall>uri \<in> set (c_RedirectURIs client) \<union> set (c_PostLogoutRedirectURIs client). public_https (e_lib e) uri)) \<and>
    db_clients (st_db s') = bput (c_ClientID client) (persist_Client client) (db_clients (st_db s)) \<and>
    clients_ok (db_clients (st_db s')) \<and> lookupClient e s' (c_ClientID client) = Some client \<and>
    (\<not> c_Public client \<longrightarrow> c_ClientSecretSHA256 client = hex_encode (g_sha256 (e_lib e) (bytes_of secret)))"
  by (rule create_effect [OF assms]) (auto simp: page_head_def)

lemma hex_char_plain: "n < 16 \<Longrightarrow> 33 \<le> code (hex_char n) \<and> code (hex_char n) \<le> 126"
  by (auto simp: hex_char_def)

lemma TrimSpace_hex [simp]: "TrimSpace (hex_encode bs) = hex_encode bs"
proof (rule TrimSpace_plain)
  have u: "unat b div 16 < 16" for b :: byte using unat_byte [of b] by linarith
  show "\<forall>c \<in> set (hex_encode bs). 33 \<le> code c \<and> code c \<le> 126"
    by (induction bs) (use u in \<open>auto simp: hex_char_plain\<close>)
qed

text \<open>
  C18. The secret on the page works: a confidential client that was just created authenticates
  at the token endpoint with its id and that secret.  SHA-256 gives 32 bytes, and the secret drawn is
  not empty.
\<close>

theorem created_client_authenticates:
  assumes "handleAdminClientsCreate e r s = (Resp 200 b, s')" and "clients_ok (db_clients (st_db s))"
    and "b = Page ''admin_client_created'' data" and "(''ClientSecret'', JStr secret) \<in> set data"
    and "(''ClientID'', JStr cid) \<in> set data" and "r_BasicAuth r2 = Some (cid, secret)"
    and "secret \<noteq> []" and "\<And>x. length (g_sha256 (e_lib e) x) = 32"
  shows "\<exists>client. authenticateClient e r2 form s' = Inr client \<and> c_ClientID client = cid"
proof -
  from assms(1,2) obtain sess client secret' where
    b: "b = Page ''admin_client_created'' (page_head e sess @
       [(''ClientID'', JStr (c_ClientID client)), (''ClientSecret'', JStr secret'), (''Public'', JBool (c_Public client))])"
    and l: "lookupClient e s' (c_ClientID client) = Some client" and v: "validClientID (c_ClientID client)"
    and h: "\<not> c_Public client \<longrightarrow> c_ClientSecretSHA256 client = hex_encode (g_sha256 (e_lib e) (bytes_of secret'))"
    by (rule create_effect) blast
  have eq: "secret' = secret" "c_ClientID client = cid" using assms(3-5) b by (auto simp: page_head_def)
  have "clientSecretMatches e client secret" if "\<not> c_Public client"
    using h that assms(7,8) eq by (simp add: clientSecretMatches_def sha_str_def)
  moreover have "cid \<noteq> []" using v eq by (auto simp: validClientID_def validIdentifier_def)
  ultimately show ?thesis using l eq assms(6) by (auto simp: authenticateClient_def)
qed

section \<open>Deleting a client\<close>

text \<open>
  C19. A client is deleted completely: when the deletion is reported, the id is not one of the
  configuration, the database has lost exactly that client and all consents for it, and the id
  resolves to nothing any more; the other stored clients are untouched.  The refresh tokens of the
  client stay, so that a client created later with the same id owns them.
\<close>

theorem client_delete_sound:
  assumes "handleAdminClientsDelete e r s = (http_Redirect ''/admin?flash=client+deleted'', s')"
    and "clients_ok (db_clients (st_db s))" and "bucket_ok (db_consents (st_db s))"
    and "ident = TrimSpace (r_PathValue r ''id'')"
  shows "e_clients e ident = None \<and> lookupClient e s' ident = None \<and>
    db_clients (st_db s') = bdel ident (db_clients (st_db s)) \<and>
    (\<forall>cid. cid \<noteq> ident \<longrightarrow> stored_client (st_db s') cid = stored_client (st_db s) cid) \<and>
    (bget k (db_consents (st_db s')) = Some cell \<longleftrightarrow>
       bget k (db_consents (st_db s)) = Some cell \<and> (\<forall>rec. cell = Json rec \<longrightarrow> cr_ClientID rec \<noteq> ident)) \<and>
    db_refreshTokens (st_db s') = db_refreshTokens (st_db s)"
proof -
  obtain x s1 where f: "admin_form e r s = (x, s1)" by fastforce
  have nr: "admin_form e r s \<noteq> (Inl (http_Redirect ''/admin?flash=client+deleted''), s1)"
    by (auto simp: admin_form_def adminAuth_def http_Error_def http_Redirect_def split: prod.splits option.splits if_splits)
  from assms(1) f nr obtain sess where x: "x = Inr sess" by (cases x) (auto simp: handleAdminClientsDelete_def)
  from assms(1,4) f x obtain s2 s3 s4 where none: "e_clients e ident = None"
    and d: "on_db (DeleteStoredClient ident) s1 = (Inr (), s2)" and dc: "on_db (DeleteConsentsForClient ident) s2 = (Inr (), s3)"
    and rl: "reloadStoredRegistries e s3 = (Inr (), s4)" and s': "st_db s' = st_db s4" "st_clients s' = st_clients s4"
    by (auto simp: handleAdminClientsDelete_def Let_def http_Error_def http_Redirect_def split: if_splits sum.splits prod.splits)
  have s1: "db_clients (st_db s1) = db_clients (st_db s)" "db_consents (st_db s1) = db_consents (st_db s)"
    "db_refreshTokens (st_db s1) = db_refreshTokens (st_db s)"
    using admin_form_cases [OF f] x session_frameD(11) [of s s1] by (simp_all add: admin_state_def)
  have db3: "db_clients (st_db s3) = bdel ident (db_clients (st_db s))"
    "db_refreshTokens (st_db s3) = db_refreshTokens (st_db s)"
    "db_consents (st_db s3) = delete_where (\<lambda>rec. cr_ClientID rec = ident) (decode_some (db_consents (st_db s))) (db_consents (st_db s))"
    using d dc s1 by (auto simp: on_db_eq DeleteStoredClient_def DeleteConsentsForClient_def db_update_def split: if_splits)
  then have ok: "clients_ok (db_clients (st_db s3))" using assms(2) by (simp add: clients_ok_bdel)
  note rg = registry_lookup [OF rl ok]
  have "lookupClient e s4 ident = None"
    using rg(2) [of ident] none by (simp add: stored_client_def db3(1) bget_bdel)
  then have "lookupClient e s' ident = None" using lookupClient_cong [OF s'(2)] by metis
  moreover have "bget k (db_consents (st_db s')) = Some cell \<longleftrightarrow>
       bget k (db_consents (st_db s)) = Some cell \<and> (\<forall>rec. cell = Json rec \<longrightarrow> cr_ClientID rec \<noteq> ident)"
    by (auto simp: s'(1) rg(1) db3(3) bget_delete_some [OF assms(3)] split: option.splits cell.splits if_splits)
  ultimately show ?thesis
    using none s'(1) rg(1) db3(1,2) by (auto simp: stored_client_def bget_bdel)
qed

section \<open>An administrator at work\<close>

definition demo_env_admin :: env where
  "demo_env_admin = demo_env\<lparr>e_lib := demo_lib\<lparr>g_sha256 := (\<lambda>_. replicate 32 0)\<rparr>,
     e_cfg := demo_cfg\<lparr>cf_AdminGroups := [''admins'']\<rparr>\<rparr>"

definition demo_admin_db :: Store where
  "demo_admin_db = empty_Store\<lparr>db_sessions := [(''sid'', Json demo_reauthed)],
     db_users := [(''alice'', Json ((new_StoredUser ''alice'')\<lparr>u_Groups := [''admins'']\<rparr>))]\<rparr>"

definition demo_admin_request :: http_request where
  "demo_admin_request = demo_app_request\<lparr>r_Form := (\<lambda>_. (True, \<lambda>k. if k = ''client_id'' then ''app''
     else if k = ''redirect_uris'' then ''https://a'' else []))\<rparr>"

lemma demo_admin_user: "userIsAdmin demo_env_admin (GetUser ''alice'' demo_admin_db)"
proof -
  have t: "TrimSpace ''admins'' = ''admins''" by (rule TrimSpace_plain) simp
  show ?thesis
    by (simp add: userIsAdmin_def GetUser_def db_view_def getUserTx_def getJSON_def bget_def demo_admin_db_def empty_Store_def
        demo_env_admin_def admin_allowed_def t ldapGroupName_def to_lower_def ToLower_def is_ascii_def lower_char_def
        HasPrefix_def new_StoredUser_def Let_def)
qed

lemma demo_admin_form:
  "\<exists>s1. admin_form demo_env_admin demo_admin_request (demo_st\<lparr>st_db := demo_admin_db\<rparr>) = (Inr demo_reauthed, s1) \<and>
     session_frame (demo_st\<lparr>st_db := demo_admin_db\<rparr>) s1"
proof -
  let ?s = "demo_st\<lparr>st_db := demo_admin_db\<rparr>"
  have v: "validSession demo_env_admin demo_admin_request ?s = (Some demo_reauthed, ?s)"
    by (simp add: validSession_def session_id_def demo_admin_request_def demo_app_request_def load_session_def GetSession_def
      db_view_def getJSON_def bget_def demo_admin_db_def empty_Store_def session_expired_def demo_env_admin_def
      demo_reauthed_def zero_Session_def IsZero_def sessionCookieName_def)
  have u: "s_UserID demo_reauthed = ''alice''" by (simp add: demo_reauthed_def)
  have c: "verifySessionCSRF demo_admin_request (form_get demo_admin_request n) demo_reauthed" "form_ok demo_admin_request n" for n
    by (simp_all add: verifySessionCSRF_def csrfTokenMatches_def demo_admin_request_def demo_app_request_def demo_reauthed_def
        zero_Session_def csrfHeaderName_def csrfFormField_def Let_def)
  have "session_frame ?s (snd (maybeExtendSession demo_env_admin demo_admin_request ?s))"
    by (rule maybeExtendSession_frame [OF surjective_pairing])
  then show ?thesis
    using demo_admin_user v c
    by (simp add: admin_form_def adminAuth_def u)
qed

lemma demo_admin_client:
  "\<exists>c. new_client demo_env_admin (form_get demo_admin_request n) s1 = Inr c \<and> c_ClientID c = ''app'' \<and> \<not> c_Public c"
  if "st_clients s1 = Map.empty"
proof -
  let ?c = "form_client demo_env_admin (form_get demo_admin_request n) ''app'' [''https://a''] []"
  have t: "TrimSpace ''app'' = ''app''" "TrimSpace ''https://a'' = ''https://a''" "TrimSpace [] = []"
    by (rule TrimSpace_plain; simp)+
  have sp: "splitFormLines ''https://a'' = [''https://a'']" "splitFormLines [] = []"
    by (simp_all add: splitFormLines_def t)
  have "normalizeClientAllowedScopes [] False = Inr defaultClientAllowedScopes"
    "normalizeClientCredentialsScopes [] = Inr []" by code_simp+
  then have "\<exists>c. normalizeClientScopePolicy ?c = Inr c"
    by (simp add: normalizeClientScopePolicy_def form_client_def demo_admin_request_def splitScopeForm_def)
  then obtain c where c: "normalizeClientScopePolicy ?c = Inr c" by blast
  have "new_client demo_env_admin (form_get demo_admin_request n) s1 = Inr c"
    using c that
    by (simp add: new_client_def Let_def demo_admin_request_def t sp validClientID_def validIdentifier_def
        lookupClient_def demo_env_admin_def validateAdminClientRedirects_def demo_cfg_def)
  with normalize_keeps [OF c] show ?thesis by (simp add: form_client_def demo_admin_request_def)
qed

lemma demo_client_create:
  obtains b s' where "handleAdminClientsCreate demo_env_admin demo_admin_request (demo_st\<lparr>st_db := demo_admin_db\<rparr>) = (Resp 200 b, s')"
proof -
  let ?s = "demo_st\<lparr>st_db := demo_admin_db\<rparr>" and ?form = "form_get demo_admin_request maxAdminFormBodyBytes"
  obtain s1 where f: "admin_form demo_env_admin demo_admin_request ?s = (Inr demo_reauthed, s1)"
    and fr: "session_frame ?s s1" using demo_admin_form by blast
  have db1: "db_open (st_db s1)" "db_clients (st_db s1) = []" "db_appTokens (st_db s1) = []" "st_clients s1 = Map.empty"
    using fr by (auto simp: session_frame_ex demo_admin_db_def empty_Store_def)
  obtain c where c: "new_client demo_env_admin ?form s1 = Inr c" and cid: "c_ClientID c = ''app''"
    using demo_admin_client [OF db1(4)] by blast
  obtain secret client s2 where d: "draw_secret demo_env_admin c s1 = ((secret, client), s2)" by (metis prod.exhaust)
  have cid2: "c_ClientID client = ''app''" using draw_secret_Inr(3) [OF d] cid by auto
  obtain s3 where p: "on_db (PutStoredClient client) s2 = (Inr (), s3)"
    and db3: "db_clients (st_db s3) = [(''app'', Json (persist_Client client))]" "db_appTokens (st_db s3) = []" "db_open (st_db s3)"
    using db1 draw_secret_Inr(1) [OF d] cid2 by (simp add: on_db_eq PutStoredClient_Inr)
  from c obtain c0 where c0: "c0 = form_client demo_env_admin ?form (TrimSpace (?form ''client_id''))
      (splitFormLines (?form ''redirect_uris'')) (splitFormLines (?form ''post_logout_redirect_uris''))"
    and n: "normalizeClientScopePolicy c0 = Inr c" by (rule new_client_Inr) blast
  have "\<exists>x. loaded_client demo_env_admin (persist_Client client) = Some x"
    using loaded_new_client [OF n _, of "?form ''allowed_scopes''" client] draw_secret_Inr(3) [OF d]
    by (auto simp: c0 form_client_def splitScopeForm_def)
  then obtain y where "normalizeClientScopePolicy (persist_Client client) = Inr y"
    by (auto simp: loaded_client_def split: sum.splits)
  moreover have "c_ClientID (persist_Client client) = ''app''" using cid2 by (simp add: persist_Client_def)
  ultimately obtain s4 where "reloadStoredRegistries demo_env_admin s3 = (Inr (), s4)"
    using db3 by (simp add: reloadStoredRegistries_def ListStoredClients_def ListStoredAppTokens_def db_view_def demo_env_admin_def)
  then show thesis
    using f c d p by (intro that) (simp add: handleAdminClientsCreate_def html_page_def)
qed

lemma demo_clients_ok: "clients_ok (db_clients (st_db (demo_st\<lparr>st_db := demo_admin_db\<rparr>)))"
  by (simp add: clients_ok_def clients_keyed_def bucket_ok_def demo_admin_db_def empty_Store_def)

theorem client_create_sound_witness:
  "\<exists>b s' client. handleAdminClientsCreate demo_env_admin demo_admin_request (demo_st\<lparr>st_db := demo_admin_db\<rparr>) = (Resp 200 b, s') \<and>
     lookupClient demo_env_admin s' (c_ClientID client) = Some client"
proof -
  obtain b s' where h: "handleAdminClientsCreate demo_env_admin demo_admin_request (demo_st\<lparr>st_db := demo_admin_db\<rparr>) = (Resp 200 b, s')"
    by (rule demo_client_create)
  from client_create_sound [OF h demo_clients_ok] h show ?thesis by blast
qed

theorem created_client_authenticates_witness:
  "\<exists>r2 s' client. authenticateClient demo_env_admin r2 (\<lambda>_. []) s' = Inr client \<and> r_BasicAuth r2 \<noteq> None"
proof -
  obtain b s' where h: "handleAdminClientsCreate demo_env_admin demo_admin_request (demo_st\<lparr>st_db := demo_admin_db\<rparr>) = (Resp 200 b, s')"
    by (rule demo_client_create)
  from h obtain sess s1 c client secret s2 s3 s4 where f: "admin_form demo_env_admin demo_admin_request (demo_st\<lparr>st_db := demo_admin_db\<rparr>) = (Inr sess, s1)"
    and c: "new_client demo_env_admin (form_get demo_admin_request maxAdminFormBodyBytes) s1 = Inr c"
    and d: "draw_secret demo_env_admin c s1 = ((secret, client), s2)"
    and b: "b = Page ''admin_client_created'' (page_head demo_env_admin sess @
       [(''ClientID'', JStr (c_ClientID client)), (''ClientSecret'', JStr secret), (''Public'', JBool (c_Public client))])"
    by (rule create_steps)
  have "st_clients s1 = Map.empty" using admin_form_cases [OF f] by (auto simp: session_frame_ex)
  from demo_admin_client [OF this, of maxAdminFormBodyBytes] c have "\<not> c_Public c" by auto
  then have "secret \<noteq> []" using draw_secret_Inr(3) [OF d] by (auto simp: demo_env_admin_def)
  moreover have "length (g_sha256 (e_lib demo_env_admin) x) = 32" for x by (simp add: demo_env_admin_def)
  ultimately have "\<exists>cl. authenticateClient demo_env_admin (demo_request\<lparr>r_BasicAuth := Some (c_ClientID client, secret)\<rparr>) (\<lambda>_. []) s' = Inr cl \<and>
      c_ClientID cl = c_ClientID client"
    by (intro created_client_authenticates [OF h demo_clients_ok b]) simp_all
  then show ?thesis
    by (intro exI [of _ "demo_request\<lparr>r_BasicAuth := Some (c_ClientID client, secret)\<rparr>"] exI [of _ s']) auto
qed

theorem admin_mutation_guarded_witness:
  "\<exists>sess s1. validSession demo_env_admin demo_admin_request (demo_st\<lparr>st_db := demo_admin_db\<rparr>) = (Some sess, s1) \<and>
     userIsAdmin demo_env_admin (GetUser (s_UserID sess) demo_admin_db)"
proof -
  obtain b s' where h: "handleAdminClientsCreate demo_env_admin demo_admin_request (demo_st\<lparr>st_db := demo_admin_db\<rparr>) = (Resp 200 b, s')"
    by (rule demo_client_create)
  from h demo_clients_ok obtain client where
    "db_clients (st_db s') = bput (c_ClientID client) (persist_Client client) (db_clients (st_db (demo_st\<lparr>st_db := demo_admin_db\<rparr>)))"
    by (rule create_effect) blast
  then have "db_clients (st_db s') \<noteq> db_clients (st_db (demo_st\<lparr>st_db := demo_admin_db\<rparr>))"
    by (simp add: demo_admin_db_def empty_Store_def)
  then have "admin_state s' \<noteq> admin_state (demo_st\<lparr>st_db := demo_admin_db\<rparr>)" by (auto simp: admin_state_def)
  from admin_mutation_guarded [of handleAdminClientsCreate, OF _ h this] show ?thesis by auto
qed

theorem registry_refines_store_witness: "lookupClient demo_env demo_st ''web'' = Some demo_client"
proof -
  have r: "reloadStoredRegistries demo_env demo_st = (Inr (), demo_st)"
    by (simp add: reloadStoredRegistries_def ListStoredClients_def ListStoredAppTokens_def db_view_def
        empty_Store_def demo_st_def)
  have "clients_ok (db_clients (st_db demo_st))" by (simp add: clients_ok_def clients_keyed_def bucket_ok_def empty_Store_def)
  from registry_refines_store [OF r this, of "''web''"] show ?thesis by simp
qed

theorem client_delete_sound_witness:
  "\<exists>s'. handleAdminClientsDelete demo_env_admin demo_admin_request (demo_st\<lparr>st_db := demo_admin_db\<rparr>) =
       (http_Redirect ''/admin?flash=client+deleted'', s') \<and> lookupClient demo_env_admin s' ''ci'' = None"
proof -
  let ?s = "demo_st\<lparr>st_db := demo_admin_db\<rparr>"
  obtain s1 where f: "admin_form demo_env_admin demo_admin_request ?s = (Inr demo_reauthed, s1)"
    and fr: "session_frame ?s s1" using demo_admin_form by blast
  have db1: "db_open (st_db s1)" "db_clients (st_db s1) = []" "db_appTokens (st_db s1) = []" "db_consents (st_db s1) = []"
    using fr by (auto simp: session_frame_ex demo_admin_db_def empty_Store_def)
  have t: "TrimSpace (r_PathValue demo_admin_request ''id'') = ''ci''"
    using TrimSpace_plain [of "''ci''"] by (simp add: demo_admin_request_def demo_app_request_def)
  have "\<exists>s'. handleAdminClientsDelete demo_env_admin demo_admin_request ?s = (http_Redirect ''/admin?flash=client+deleted'', s')"
    using f db1
    by (simp add: handleAdminClientsDelete_def t Let_def on_db_def DeleteStoredClient_def DeleteConsentsForClient_def db_update_def
        bdel_def delete_where_def reloadStoredRegistries_def ListStoredClients_def ListStoredAppTokens_def db_view_def demo_env_admin_def)
  then obtain s' where h: "handleAdminClientsDelete demo_env_admin demo_admin_request ?s = (http_Redirect ''/admin?flash=client+deleted'', s')"
    by blast
  have "bucket_ok (db_consents (st_db ?s))" by (simp add: bucket_ok_def demo_admin_db_def empty_Store_def)
  from client_delete_sound [OF h demo_clients_ok this t [symmetric]] h show ?thesis by blast
qed

end
