(* ===== verification/Cbor.thy ===== *)
theory Cbor
  imports Codec "HOL-Library.AList"
begin

text \<open>
  The CBOR decoder of \<^verbatim>\<open>cbor.go\<close>, which reads attestation objects and COSE keys: definite
  lengths only, nesting bounded by \<^verbatim>\<open>maxCBORDepth\<close>.  The struct \<^verbatim>\<open>cborValue\<close> with its tag
  is a datatype; reading a field that another kind leaves at its zero value is written out in
  the functions \<open>cbor_int\<close>, \<open>cbor_str\<close>, \<open>cbor_bytes\<close> and \<open>cbor_map\<close>.  A map is the list of its
  entries with distinct keys: storing under a key that is present replaces the value.  The
  recursion ends because every nested call is one level deeper and the depth is capped.
\<close>

section \<open>Values\<close>

datatype cborKey = IntKey int | StrKey string

datatype cborValue =
    CInt int
  | CBytes "byte list"
  | CString string
  | CArray "cborValue list"
  | CMap "(cborKey \<times> cborValue) list"

datatype cbor_error =
    CborTooDeep | CborEOF | CborIntTooLarge | CborBadKey | CborMajorType nat | CborBadLength

definition cbor_int :: "cborValue \<Rightarrow> int" where
  "cbor_int v = (case v of CInt i \<Rightarrow> i | _ \<Rightarrow> 0)"

definition cbor_str :: "cborValue \<Rightarrow> string" where
  "cbor_str v = (case v of CString s \<Rightarrow> s | _ \<Rightarrow> [])"

definition cbor_bytes :: "cborValue \<Rightarrow> byte list option" where
  "cbor_bytes v = (case v of CBytes b \<Rightarrow> Some b | _ \<Rightarrow> None)"

definition cbor_map :: "cborValue \<Rightarrow> (cborKey \<times> cborValue) list" where
  "cbor_map v = (case v of CMap m \<Rightarrow> m | _ \<Rightarrow> [])"

definition cborGetString :: "(cborKey \<times> cborValue) list \<Rightarrow> string \<Rightarrow> cborValue option" where
  "cborGetString m key = map_of m (StrKey key)"

definition cborGetInt :: "(cborKey \<times> cborValue) list \<Rightarrow> int \<Rightarrow> cborValue option" where
  "cborGetInt m key = map_of m (IntKey key)"

section \<open>The decoder\<close>

definition maxCBORDepth :: nat where
  "maxCBORDepth = 32"

text \<open>\<^verbatim>\<open>binary.BigEndian\<close>.\<close>

definition be_nat :: "byte list \<Rightarrow> nat" where
  "be_nat bs = foldl (\<lambda>v b. v * 256 + unat b) 0 bs"

definition read_be :: "nat \<Rightarrow> byte list \<Rightarrow> cbor_error + (nat \<times> byte list)" where
  "read_be k data = (if length data < k then Inl CborEOF else Inr (be_nat (take k data), drop k data))"

text \<open>The length is a \<^verbatim>\<open>uint64\<close>: at most eight bytes are read for it.\<close>

definition cborReadLen :: "nat \<Rightarrow> byte list \<Rightarrow> cbor_error + (nat \<times> byte list)" where
  "cborReadLen ai data =
     (if ai < 24 then Inr (ai, data)
      else if ai = 24 then read_be 1 data
      else if ai = 25 then read_be 2 data
      else if ai = 26 then read_be 4 data
      else if ai = 27 then read_be 8 data
      else Inl CborBadLength)"

definition key_of :: "cborValue \<Rightarrow> cborKey option" where
  "key_of v = (case v of CInt i \<Rightarrow> Some (IntKey i) | CString s \<Rightarrow> Some (StrKey s) | _ \<Rightarrow> None)"

function (sequential)
  parseCBORDepth :: "byte list \<Rightarrow> nat \<Rightarrow> cbor_error + (cborValue \<times> byte list)" and
  parse_elements :: "nat \<Rightarrow> byte list \<Rightarrow> nat \<Rightarrow> cbor_error + (cborValue list \<times> byte list)" and
  parse_entries :: "nat \<Rightarrow> byte list \<Rightarrow> nat \<Rightarrow> (cborKey \<times> cborValue) list \<Rightarrow>
    cbor_error + ((cborKey \<times> cborValue) list \<times> byte list)"
where
  "parseCBORDepth data depth =
     (if depth > maxCBORDepth then Inl CborTooDeep
      else case data of
        [] \<Rightarrow> Inl CborEOF
      | b # more \<Rightarrow>
          let major = unat b div 32; ai = unat b mod 32 in
          (case cborReadLen ai more of
             Inl err \<Rightarrow> Inl err
           | Inr (n, rest) \<Rightarrow>
               if major = 0 then (if n > 2 ^ 63 - 1 then Inl CborIntTooLarge else Inr (CInt (int n), rest))
               else if major = 1 then
                 (if n > 2 ^ 63 - 1 then Inl CborIntTooLarge else Inr (CInt (- 1 - int n), rest))
               else if major = 2 then
                 (if length rest < n then Inl CborEOF else Inr (CBytes (take n rest), drop n rest))
               else if major = 3 then
                 (if length rest < n then Inl CborEOF
                  else Inr (CString (string_of (take n rest)), drop n rest))
               else if major = 4 then
                 (if n > length rest then Inl CborEOF
                  else case parse_elements n rest (depth + 1) of
                      Inl err \<Rightarrow> Inl err | Inr (vs, cur) \<Rightarrow> Inr (CArray vs, cur))
               else if major = 5 then
                 (if n > length rest div 2 then Inl CborEOF
                  else case parse_entries n rest (depth + 1) [] of
                      Inl err \<Rightarrow> Inl err | Inr (m, cur) \<Rightarrow> Inr (CMap m, cur))
               else Inl (CborMajorType major)))"
| "parse_elements 0 cur depth = Inr ([], cur)"
| "parse_elements (Suc n) cur depth =
     (case parseCBORDepth cur depth of
        Inl err \<Rightarrow> Inl err
      | Inr (v, r) \<Rightarrow>
          (case parse_elements n r depth of Inl err \<Rightarrow> Inl err | Inr (vs, r') \<Rightarrow> Inr (v # vs, r')))"
| "parse_entries 0 cur depth m = Inr (m, cur)"
| "parse_entries (Suc n) cur depth m =
     (case parseCBORDepth cur depth of
        Inl err \<Rightarrow> Inl err
      | Inr (k, r) \<Rightarrow>
          (case parseCBORDepth r depth of
             Inl err \<Rightarrow> Inl err
           | Inr (v, r') \<Rightarrow>
               (case key_of k of
                  None \<Rightarrow> Inl CborBadKey
                | Some key \<Rightarrow> parse_entries n r' depth (AList.update key v m))))"
  by pat_completeness auto
termination
  by (relation "measures [\<lambda>x. maxCBORDepth + 1 - (case x of Inl (_, d) \<Rightarrow> d
                                 | Inr (Inl (_, _, d)) \<Rightarrow> d | Inr (Inr (_, _, d, _)) \<Rightarrow> d),
                          \<lambda>x. case x of Inl _ \<Rightarrow> 0 | Inr (Inl (n, _)) \<Rightarrow> n | Inr (Inr (n, _)) \<Rightarrow> n]") auto

definition parseCBOR :: "byte list \<Rightarrow> cbor_error + (cborValue \<times> byte list)" where
  "parseCBOR data = parseCBORDepth data 0"

declare parseCBORDepth.simps [simp del]

section \<open>What the decoder returns\<close>

text \<open>
  A value with at most \<open>k\<close> levels of nesting below it, integers that fit a signed 64-bit
  number and maps with distinct keys.
\<close>

primrec cbor_wf :: "nat \<Rightarrow> cborValue \<Rightarrow> bool" where
  "cbor_wf 0 v =
     (case v of CInt i \<Rightarrow> - (2 ^ 63) \<le> i \<and> i < 2 ^ 63 | CArray vs \<Rightarrow> vs = [] | CMap m \<Rightarrow> m = [] | _ \<Rightarrow> True)"
| "cbor_wf (Suc k) v =
     (case v of CInt i \<Rightarrow> - (2 ^ 63) \<le> i \<and> i < 2 ^ 63
      | CArray vs \<Rightarrow> (\<forall>x \<in> set vs. cbor_wf k x)
      | CMap m \<Rightarrow> distinct (map fst m) \<and> (\<forall>x \<in> set m. cbor_wf k (snd x))
      | _ \<Rightarrow> True)"

text \<open>The number of nodes and payload bytes of a value.\<close>

primrec cbor_size :: "cborValue \<Rightarrow> nat" where
  "cbor_size (CInt i) = 1"
| "cbor_size (CBytes b) = 1 + length b"
| "cbor_size (CString s) = 1 + length s"
| "cbor_size (CArray vs) = 1 + sum_list (map cbor_size vs)"
| "cbor_size (CMap m) = 1 + sum_list (map (Suc \<circ> snd) (map (map_prod (\<lambda>k. k) cbor_size) m))"

definition entries_size :: "(cborKey \<times> cborValue) list \<Rightarrow> nat" where
  "entries_size m = sum_list (map (Suc \<circ> snd) (map (map_prod (\<lambda>k. k) cbor_size) m))"

lemma cbor_size_map: "cbor_size (CMap m) = Suc (entries_size m)"
  by (simp add: entries_size_def)

lemma entries_size_Nil [simp]: "entries_size [] = 0"
  by (simp add: entries_size_def)

declare cbor_size.simps(5) [simp del] cbor_size_map [simp]

lemma entries_size_update: "entries_size (AList.update k v m) \<le> entries_size m + Suc (cbor_size v)"
  by (induction m) (auto simp: entries_size_def)

lemma set_update_snd: "x \<in> set (AList.update k v m) \<Longrightarrow> x = (k, v) \<or> x \<in> set m"
  by (induction m) (auto split: if_splits)

text \<open>\<open>data\<close> is what was read followed by \<open>rest\<close>.\<close>

definition consumed :: "byte list \<Rightarrow> byte list \<Rightarrow> nat \<Rightarrow> bool" where
  "consumed data rest n \<longleftrightarrow> n \<le> length data \<and> rest = drop n data"

lemma read_be_Inr:
  "read_be k data = Inr (n, rest) \<longleftrightarrow> k \<le> length data \<and> n = be_nat (take k data) \<and> rest = drop k data"
  by (auto simp: read_be_def)

lemma cborReadLen_suffix:
  "cborReadLen ai data = Inr (n, rest) \<Longrightarrow> \<exists>k. consumed data rest k"
  by (auto simp: cborReadLen_def read_be_Inr consumed_def split: if_splits
      intro: exI [of _ 0] exI [of _ 1] exI [of _ 2] exI [of _ 4] exI [of _ 8])

lemma consumed_trans: "consumed a b n \<Longrightarrow> consumed b c m \<Longrightarrow> consumed a c (n + m)"
  by (auto simp: consumed_def add.commute)

lemma consumed_Cons: "consumed data rest n \<Longrightarrow> consumed (b # data) rest (Suc n)"
  by (auto simp: consumed_def)

lemma consumed_drop: "n \<le> length rest \<Longrightarrow> consumed rest (drop n rest) n"
  by (simp add: consumed_def)

text \<open>
  One induction over the three parsers: they consume at least as many bytes as the size of what
  they build, and what they build is well formed.
\<close>

definition read_ok :: "nat \<Rightarrow> byte list \<Rightarrow> cborValue \<Rightarrow> byte list \<Rightarrow> bool" where
  "read_ok depth data v rest \<longleftrightarrow>
     depth \<le> maxCBORDepth \<and> cbor_wf (maxCBORDepth - depth) v \<and> (\<exists>n \<ge> cbor_size v. consumed data rest n)"

lemma cbor_wf_leaf [simp]:
  "cbor_wf k (CBytes b)" "cbor_wf k (CString s)" "cbor_wf k (CInt i) = (- (2 ^ 63) \<le> i \<and> i < 2 ^ 63)"
  by (cases k; simp)+

lemma cbor_wf_level:
  assumes "d \<le> maxCBORDepth"
  shows "(\<forall>x \<in> set vs. Suc d \<le> maxCBORDepth \<and> cbor_wf (maxCBORDepth - Suc d) x) \<Longrightarrow>
           cbor_wf (maxCBORDepth - d) (CArray vs)"
    and "distinct (map fst m) \<Longrightarrow>
         (\<forall>x \<in> set m. Suc d \<le> maxCBORDepth \<and> cbor_wf (maxCBORDepth - Suc d) (snd x)) \<Longrightarrow>
           cbor_wf (maxCBORDepth - d) (CMap m)"
proof -
  have k: "maxCBORDepth - d = Suc j \<Longrightarrow> j = maxCBORDepth - Suc d" for j by simp
  show "(\<forall>x \<in> set vs. Suc d \<le> maxCBORDepth \<and> cbor_wf (maxCBORDepth - Suc d) x) \<Longrightarrow>
           cbor_wf (maxCBORDepth - d) (CArray vs)"
    by (cases "maxCBORDepth - d"; cases vs) (auto dest!: k)
  show "distinct (map fst m) \<Longrightarrow>
         (\<forall>x \<in> set m. Suc d \<le> maxCBORDepth \<and> cbor_wf (maxCBORDepth - Suc d) (snd x)) \<Longrightarrow>
           cbor_wf (maxCBORDepth - d) (CMap m)"
    by (cases "maxCBORDepth - d"; cases m) (auto dest!: k)
qed

text \<open>The ways the decoder succeeds.\<close>

lemma parseCBORDepth_Inr:
  assumes "parseCBORDepth data d = Inr (v, rest)"
  obtains b more n r where "d \<le> maxCBORDepth" and "data = b # more" and "cborReadLen (unat b mod 32) more = Inr (n, r)"
    and "(\<exists>i. v = CInt i \<and> - (2 ^ 63) \<le> i \<and> i < 2 ^ 63 \<and> rest = r) \<or>
         n \<le> length r \<and> rest = drop n r \<and> (v = CBytes (take n r) \<or> v = CString (string_of (take n r))) \<or>
         unat b div 32 = 4 \<and> n \<le> length r \<and> (\<exists>vs. parse_elements n r (d + 1) = Inr (vs, rest) \<and> v = CArray vs) \<or>
         unat b div 32 = 5 \<and> n \<le> length r div 2 \<and> (\<exists>m. parse_entries n r (d + 1) [] = Inr (m, rest) \<and> v = CMap m)"
proof -
  from assms have d: "d \<le> maxCBORDepth" by (auto simp: parseCBORDepth.simps split: if_splits)
  with assms obtain b more n r where data: "data = b # more"
    and n: "cborReadLen (unat b mod 32) more = Inr (n, r)"
    by (auto simp: parseCBORDepth.simps Let_def split: list.splits sum.splits)
  show thesis
    by (rule that [OF d data n])
      (use assms d data n in \<open>auto simp: parseCBORDepth.simps Let_def not_less split: if_splits sum.splits\<close>)
qed

lemma parse_read_ok:
  "parseCBORDepth data d = Inr (v, rest) \<Longrightarrow> read_ok d data v rest"
  "parse_elements n data d = Inr (vs, rest) \<Longrightarrow>
     (\<forall>x \<in> set vs. d \<le> maxCBORDepth \<and> cbor_wf (maxCBORDepth - d) x) \<and>
     (\<exists>k \<ge> sum_list (map cbor_size vs). consumed data rest k)"
  "parse_entries n data d m = Inr (m', rest) \<Longrightarrow> distinct (map fst m) \<Longrightarrow>
     distinct (map fst m') \<and>
     (\<forall>x \<in> set m'. x \<in> set m \<or> d \<le> maxCBORDepth \<and> cbor_wf (maxCBORDepth - d) (snd x)) \<and>
     (\<exists>k. entries_size m' \<le> entries_size m + k \<and> consumed data rest k)"
proof (induction data d and n data d and n data d m
    arbitrary: v rest and vs rest and m' rest rule: parseCBORDepth_parse_elements_parse_entries.induct)
  case (1 data d)
  from "1.prems" obtain b more n r where d: "d \<le> maxCBORDepth" and data: "data = b # more"
    and n: "cborReadLen (unat b mod 32) more = Inr (n, r)"
    and v: "(\<exists>i. v = CInt i \<and> - (2 ^ 63) \<le> i \<and> i < 2 ^ 63 \<and> rest = r) \<or>
         n \<le> length r \<and> rest = drop n r \<and> (v = CBytes (take n r) \<or> v = CString (string_of (take n r))) \<or>
         unat b div 32 = 4 \<and> n \<le> length r \<and> (\<exists>vs. parse_elements n r (d + 1) = Inr (vs, rest) \<and> v = CArray vs) \<or>
         unat b div 32 = 5 \<and> n \<le> length r div 2 \<and> (\<exists>m. parse_entries n r (d + 1) [] = Inr (m, rest) \<and> v = CMap m)"
    by (rule parseCBORDepth_Inr)
  from cborReadLen_suffix [OF n] obtain j where "consumed data r (Suc j)"
    by (auto simp: data dest: consumed_Cons)
  then have upto: "\<exists>k \<ge> Suc l. consumed data rest k" if "consumed r rest l" for l
    using consumed_trans [OF _ that] by (metis add_Suc le_add2 add_Suc_right)
  from v consider (int) i where "v = CInt i" "- (2 ^ 63) \<le> i" "i < 2 ^ 63" "rest = r"
    | (str) "n \<le> length r" "rest = drop n r" "v = CBytes (take n r) \<or> v = CString (string_of (take n r))"
    | (arr) vs where "unat b div 32 = 4" "n \<le> length r" "parse_elements n r (d + 1) = Inr (vs, rest)" "v = CArray vs"
    | (map) m where "unat b div 32 = 5" "n \<le> length r div 2" "parse_entries n r (d + 1) [] = Inr (m, rest)" "v = CMap m"
    by blast
  then show ?case
  proof cases
    case int
    with d upto [of 0] show ?thesis by (auto simp: read_ok_def consumed_def)
  next
    case str
    with d upto [of n] consumed_drop [of n r] show ?thesis by (auto simp: read_ok_def string_of_def)
  next
    case arr
    have "(\<forall>x \<in> set vs. d + 1 \<le> maxCBORDepth \<and> cbor_wf (maxCBORDepth - (d + 1)) x) \<and>
        (\<exists>k \<ge> sum_list (map cbor_size vs). consumed r rest k)"
      by (rule "1.IH"(1) [OF _ data refl refl n refl]) (use d arr in auto)
    then obtain k where vs: "\<forall>x \<in> set vs. Suc d \<le> maxCBORDepth \<and> cbor_wf (maxCBORDepth - Suc d) x"
      and k: "k \<ge> sum_list (map cbor_size vs)" "consumed r rest k" by auto
    from upto [OF k(2)] k(1) have "\<exists>l \<ge> cbor_size v. consumed data rest l"
      by (auto simp: arr(4) intro: le_trans)
    then show ?thesis using d cbor_wf_level(1) [OF d vs] by (simp add: read_ok_def arr(4))
  next
    case map
    have "distinct (map fst m) \<and>
        (\<forall>x \<in> set m. x \<in> set [] \<or> d + 1 \<le> maxCBORDepth \<and> cbor_wf (maxCBORDepth - (d + 1)) (snd x)) \<and>
        (\<exists>k. entries_size m \<le> entries_size [] + k \<and> consumed r rest k)"
      by (rule "1.IH"(2) [OF _ data refl refl n refl]) (use d map in auto)
    then obtain k where m: "distinct (map fst m)"
        "\<forall>x \<in> set m. Suc d \<le> maxCBORDepth \<and> cbor_wf (maxCBORDepth - Suc d) (snd x)"
      and k: "entries_size m \<le> k" "consumed r rest k" by auto
    from upto [OF k(2)] k(1) have "\<exists>l \<ge> cbor_size v. consumed data rest l"
      by (auto simp: map(4) intro: le_trans)
    then show ?thesis using d cbor_wf_level(2) [OF d m] by (simp add: read_ok_def map(4))
  qed
next
  case (2 cur d)
  then show ?case by (auto simp: consumed_def)
next
  case (3 n cur d)
  then obtain v r vs' where p: "parseCBORDepth cur d = Inr (v, r)" "parse_elements n r d = Inr (vs', rest)"
    "vs = v # vs'"
    by (auto split: sum.splits prod.splits)
  from "3.IH"(1) [OF p(1)] obtain k where k: "k \<ge> cbor_size v" "consumed cur r k" and
    v: "d \<le> maxCBORDepth" "cbor_wf (maxCBORDepth - d) v"
    by (auto simp: read_ok_def)
  from "3.IH"(2) [OF p(1) refl p(2)] obtain k' where k': "k' \<ge> sum_list (map cbor_size vs')" "consumed r rest k'"
    and vs': "\<forall>x \<in> set vs'. d \<le> maxCBORDepth \<and> cbor_wf (maxCBORDepth - d) x" by auto
  from k k' consumed_trans [OF k(2) k'(2)] v vs' p(3) show ?case
    by (auto intro!: exI [of _ "k + k'"])
next
  case (4 cur d m)
  then show ?case by (auto simp: consumed_def)
next
  case (5 n cur d m)
  then obtain kv r v r' key where p: "parseCBORDepth cur d = Inr (kv, r)" "parseCBORDepth r d = Inr (v, r')"
    "key_of kv = Some key" "parse_entries n r' d (AList.update key v m) = Inr (m', rest)"
    by (auto split: sum.splits prod.splits option.splits)
  from "5.IH"(1) [OF p(1)] "5.IH"(2) [OF p(1) refl p(2)] obtain k1 k2 where
    k1: "consumed cur r k1" "k1 \<ge> cbor_size kv" and k2: "consumed r r' k2" "k2 \<ge> cbor_size v"
    and v: "d \<le> maxCBORDepth" "cbor_wf (maxCBORDepth - d) v"
    by (auto simp: read_ok_def)
  have "0 < cbor_size kv" by (cases kv) auto
  from "5.IH"(3) [OF p(1) refl p(2) refl p(3,4)] "5.prems"(2) obtain k3 where
    k3: "entries_size m' \<le> entries_size (AList.update key v m) + k3" "consumed r' rest k3"
    and m': "distinct (map fst m')"
      "\<forall>x \<in> set m'. x \<in> set (AList.update key v m) \<or> d \<le> maxCBORDepth \<and> cbor_wf (maxCBORDepth - d) (snd x)"
    by (auto simp: distinct_update)
  have "\<forall>x \<in> set m'. x \<in> set m \<or> d \<le> maxCBORDepth \<and> cbor_wf (maxCBORDepth - d) (snd x)"
    using m'(2) v set_update_snd [of _ key v m] by (metis snd_conv)
  moreover have "entries_size m' \<le> entries_size m + (k1 + k2 + k3)"
    using k3(1) entries_size_update [of key v m] k1(2) k2(2) \<open>0 < cbor_size kv\<close> by linarith
  ultimately show ?case
    using m'(1) consumed_trans [OF consumed_trans [OF k1(1) k2(1)] k3(2)] by blast
qed

text \<open>
  The decoder is safe on any input: when it accepts, it has read a non-empty prefix of the
  input, which it removes exactly; the value it builds is no larger than the bytes read for it,
  so no declared length makes it allocate more than the caller sent; the value has at most 32
  levels of nesting, integers within 64 bits and no duplicate keys.
\<close>

theorem cbor_bounded:
  assumes "parseCBOR data = Inr (v, rest)"
  shows "cbor_wf maxCBORDepth v \<and>
         (\<exists>pre. data = pre @ rest \<and> pre \<noteq> [] \<and> cbor_size v \<le> length pre)"
proof -
  from parse_read_ok(1) [OF assms [unfolded parseCBOR_def]]
  obtain n where wf: "cbor_wf maxCBORDepth v" and n: "n \<ge> cbor_size v" "consumed data rest n"
    by (auto simp: read_ok_def)
  have "0 < cbor_size v" by (cases v) auto
  with n have "data = take n data @ rest \<and> take n data \<noteq> [] \<and> cbor_size v \<le> length (take n data)"
    by (auto simp: consumed_def)
  with wf show ?thesis by blast
qed

theorem cbor_bounded_witness:
  "parseCBOR [0x81, 0x05, 0x07] = Inr (CArray [CInt 5], [7]) \<and>
   (\<exists>pre. [0x81, 0x05, 0x07] = pre @ [7 :: byte] \<and> pre \<noteq> [] \<and> cbor_size (CArray [CInt 5]) \<le> length pre)"
proof -
  have p: "parseCBOR [0x81, 0x05, 0x07] = Inr (CArray [CInt 5], [7])"
    by (simp add: parseCBOR_def parseCBORDepth.simps maxCBORDepth_def cborReadLen_def Let_def)
  show ?thesis using cbor_bounded [OF p] p by blast
qed

section \<open>Reading back an encoding\<close>

text \<open>
  The shortest definite-length encoding (RFC 8949), as authenticators send it.  It is the
  reference the decoder is compared with; the program has no encoder.
\<close>

primrec be_bytes :: "nat \<Rightarrow> nat \<Rightarrow> byte list" where
  "be_bytes 0 n = []"
| "be_bytes (Suc k) n = be_bytes k (n div 256) @ [word_of_nat (n mod 256)]"

definition item_byte :: "nat \<Rightarrow> nat \<Rightarrow> byte" where
  "item_byte major ai = word_of_nat (major * 32 + ai)"

definition cbor_head :: "nat \<Rightarrow> nat \<Rightarrow> byte list" where
  "cbor_head major n =
     (if n < 24 then [item_byte major n]
      else if n < 2 ^ 8 then item_byte major 24 # be_bytes 1 n
      else if n < 2 ^ 16 then item_byte major 25 # be_bytes 2 n
      else if n < 2 ^ 32 then item_byte major 26 # be_bytes 4 n
      else item_byte major 27 # be_bytes 8 n)"

definition encode_int :: "int \<Rightarrow> byte list" where
  "encode_int i = (if 0 \<le> i then cbor_head 0 (nat i) else cbor_head 1 (nat (- 1 - i)))"

definition encode_string :: "string \<Rightarrow> byte list" where
  "encode_string s = cbor_head 3 (length s) @ bytes_of s"

definition encode_key :: "cborKey \<Rightarrow> byte list" where
  "encode_key k = (case k of IntKey i \<Rightarrow> encode_int i | StrKey s \<Rightarrow> encode_string s)"

primrec encodeCBOR :: "cborValue \<Rightarrow> byte list" where
  "encodeCBOR (CInt i) = encode_int i"
| "encodeCBOR (CBytes b) = cbor_head 2 (length b) @ b"
| "encodeCBOR (CString s) = encode_string s"
| "encodeCBOR (CArray vs) = cbor_head 4 (length vs) @ concat (map encodeCBOR vs)"
| "encodeCBOR (CMap m) =
     cbor_head 5 (length m) @
     concat (map (\<lambda>(k, bs). encode_key k @ bs) (map (map_prod (\<lambda>k. k) encodeCBOR) m))"

text \<open>
  A value with \<open>k\<close> levels of nesting left whose integers (also as keys) fit 64 bits and whose
  lengths fit a \<^verbatim>\<open>uint64\<close>; an entry of a map needs one level for its key as well.
\<close>

definition int64 :: "int \<Rightarrow> bool" where
  "int64 i \<longleftrightarrow> - (2 ^ 63) \<le> i \<and> i < 2 ^ 63"

definition encodable_key :: "cborKey \<Rightarrow> bool" where
  "encodable_key k = (case k of IntKey i \<Rightarrow> int64 i | StrKey s \<Rightarrow> length s < 2 ^ 64)"

primrec encodable :: "nat \<Rightarrow> cborValue \<Rightarrow> bool" where
  "encodable 0 v =
     (case v of CInt i \<Rightarrow> int64 i | CBytes b \<Rightarrow> length b < 2 ^ 64 | CString s \<Rightarrow> length s < 2 ^ 64
      | CArray vs \<Rightarrow> vs = [] | CMap m \<Rightarrow> m = [])"
| "encodable (Suc k) v =
     (case v of CInt i \<Rightarrow> int64 i | CBytes b \<Rightarrow> length b < 2 ^ 64 | CString s \<Rightarrow> length s < 2 ^ 64
      | CArray vs \<Rightarrow> length vs < 2 ^ 64 \<and> (\<forall>x \<in> set vs. encodable k x)
      | CMap m \<Rightarrow> length m < 2 ^ 64 \<and> distinct (map fst m) \<and>
          (\<forall>x \<in> set m. encodable_key (fst x) \<and> encodable k (snd x)))"

lemma be_bytes_length [simp]: "length (be_bytes k n) = k"
  by (induction k arbitrary: n) auto

lemma be_nat_snoc: "be_nat (bs @ [b]) = be_nat bs * 256 + unat b"
  by (simp add: be_nat_def)

lemma unat_of_small: "n < 256 \<Longrightarrow> unat (word_of_nat n :: byte) = n"
  by (simp add: unat_of_nat)

lemma be_nat_be_bytes: "n < 256 ^ k \<Longrightarrow> be_nat (be_bytes k n) = n"
proof (induction k arbitrary: n)
  case 0
  then show ?case by (simp add: be_nat_def)
next
  case (Suc k)
  then have "n div 256 < 256 ^ k" by (simp add: less_mult_imp_div_less mult.commute)
  with Suc.IH show ?case by (simp add: be_nat_snoc unat_of_small)
qed

lemma read_be_bytes: "n < 256 ^ k \<Longrightarrow> read_be k (be_bytes k n @ rest) = Inr (n, rest)"
  by (simp add: read_be_def be_nat_be_bytes)

text \<open>The head of an item is read back as its major type and its length.\<close>

lemma cbor_head_read:
  assumes "major < 8" and "n < 2 ^ 64"
  obtains b more where "cbor_head major n @ rest = b # more" and "unat b div 32 = major"
    and "cborReadLen (unat b mod 32) more = Inr (n, rest)"
proof -
  have u: "unat (item_byte major a) = major * 32 + a" if "a < 32" for a
    unfolding item_byte_def using that assms(1) by (intro unat_of_small) simp
  show thesis
  proof (cases "n < 24")
    case True
    then show thesis
      by (intro that [of "item_byte major n" rest]) (simp_all add: cbor_head_def u cborReadLen_def)
  next
    case False
    have "\<exists>a k. (a, k) \<in> {(24, 1), (25, 2), (26, 4), (27, 8)} \<and> n < 256 ^ k \<and>
        cbor_head major n = item_byte major a # be_bytes k n"
    proof -
      have pow: "(256 :: nat) ^ 1 = 2 ^ 8" "(256 :: nat) ^ 2 = 2 ^ 16" "(256 :: nat) ^ 4 = 2 ^ 32"
        "(256 :: nat) ^ 8 = 2 ^ 64" by simp_all
      consider "n < 2 ^ 8" | "\<not> n < 2 ^ 8" "n < 2 ^ 16" | "\<not> n < 2 ^ 8" "\<not> n < 2 ^ 16" "n < 2 ^ 32"
        | "\<not> n < 2 ^ 8" "\<not> n < 2 ^ 16" "\<not> n < 2 ^ 32" by blast
      then show ?thesis
      proof cases
        case 1
        then show ?thesis using False pow
          by (intro exI [of _ 24] exI [of _ 1]) (simp only: cbor_head_def if_False if_True, simp)
      next
        case 2
        then show ?thesis using False pow
          by (intro exI [of _ 25] exI [of _ 2]) (simp only: cbor_head_def if_False if_True, simp)
      next
        case 3
        then show ?thesis using False pow
          by (intro exI [of _ 26] exI [of _ 4]) (simp only: cbor_head_def if_False if_True, simp)
      next
        case 4
        then show ?thesis using False assms(2) pow
          by (intro exI [of _ 27] exI [of _ 8]) (simp only: cbor_head_def if_False if_True, simp)
      qed
    qed
    then obtain a k where ak: "(a, k) \<in> {(24, 1), (25, 2), (26, 4), (27, 8)}" and lt: "n < 256 ^ k"
      and h: "cbor_head major n = item_byte major a # be_bytes k n" by blast
    have "a < 32" and "cborReadLen a (be_bytes k n @ rest) = Inr (n, rest)"
      using ak read_be_bytes [OF lt] by (auto simp: cborReadLen_def)
    then show thesis
      by (intro that [of "item_byte major a" "be_bytes k n @ rest"]) (simp_all add: h u)
  qed
qed

text \<open>One item is read as its major type says.\<close>

lemma parse_item:
  assumes "d \<le> maxCBORDepth" and "major < 8" and "n < 2 ^ 64"
  shows "parseCBORDepth (cbor_head major n @ rest) d =
     (if major = 0 then (if n > 2 ^ 63 - 1 then Inl CborIntTooLarge else Inr (CInt (int n), rest))
      else if major = 1 then (if n > 2 ^ 63 - 1 then Inl CborIntTooLarge else Inr (CInt (- 1 - int n), rest))
      else if major = 2 then (if length rest < n then Inl CborEOF else Inr (CBytes (take n rest), drop n rest))
      else if major = 3 then
        (if length rest < n then Inl CborEOF else Inr (CString (string_of (take n rest)), drop n rest))
      else if major = 4 then
        (if n > length rest then Inl CborEOF
         else case parse_elements n rest (d + 1) of Inl err \<Rightarrow> Inl err | Inr (vs, cur) \<Rightarrow> Inr (CArray vs, cur))
      else if major = 5 then
        (if n > length rest div 2 then Inl CborEOF
         else case parse_entries n rest (d + 1) [] of Inl err \<Rightarrow> Inl err | Inr (m, cur) \<Rightarrow> Inr (CMap m, cur))
      else Inl (CborMajorType major))"
proof -
  obtain b more where b: "cbor_head major n @ rest = b # more" "unat b div 32 = major"
    "cborReadLen (unat b mod 32) more = Inr (n, rest)"
    using cbor_head_read [OF assms(2,3)] .
  have d: "\<not> maxCBORDepth < d" using assms(1) by simp
  show ?thesis
    unfolding b(1) parseCBORDepth.simps [of "b # more"]
    by (simp only: d if_False list.case Let_def b(2,3) sum.case prod.case)
qed

lemma parse_encode_int:
  assumes "d \<le> maxCBORDepth" and "int64 i"
  shows "parseCBORDepth (encode_int i @ rest) d = Inr (CInt i, rest)"
proof (cases "0 \<le> i")
  case True
  with assms(2) have "nat i \<le> 2 ^ 63 - 1" "nat i < 2 ^ 64" by (auto simp: int64_def)
  with True show ?thesis by (simp add: encode_int_def parse_item [OF assms(1)])
next
  case False
  with assms(2) have "nat (- 1 - i) \<le> 2 ^ 63 - 1" "nat (- 1 - i) < 2 ^ 64" by (auto simp: int64_def)
  with False show ?thesis by (simp add: encode_int_def parse_item [OF assms(1)])
qed

lemma length_bytes_of: "length (bytes_of s) = length s"
  by (simp add: bytes_of_def)

lemma parse_encode_string:
  "d \<le> maxCBORDepth \<Longrightarrow> length s < 2 ^ 64 \<Longrightarrow>
     parseCBORDepth (encode_string s @ rest) d = Inr (CString s, rest)"
  by (simp add: encode_string_def parse_item length_bytes_of)

lemma parse_encode_key:
  "d \<le> maxCBORDepth \<Longrightarrow> encodable_key k \<Longrightarrow>
     \<exists>kv. parseCBORDepth (encode_key k @ rest) d = Inr (kv, rest) \<and> key_of kv = Some k"
  by (cases k) (auto simp: encode_key_def encodable_key_def parse_encode_int parse_encode_string key_of_def)

lemma parse_encode_elements:
  "(\<And>v rest. v \<in> set vs \<Longrightarrow> parseCBORDepth (encodeCBOR v @ rest) d = Inr (v, rest)) \<Longrightarrow>
     parse_elements (length vs) (concat (map encodeCBOR vs) @ rest) d = Inr (vs, rest)"
  by (induction vs) simp_all

lemma update_fresh: "k \<notin> fst ` set m \<Longrightarrow> AList.update k v m = m @ [(k, v)]"
  by (induction m) auto

abbreviation encode_entries :: "(cborKey \<times> cborValue) list \<Rightarrow> byte list" where
  "encode_entries m \<equiv> concat (map (\<lambda>(k, bs). encode_key k @ bs) (map (map_prod (\<lambda>k. k) encodeCBOR) m))"

lemma parse_encode_entries:
  "(\<And>x rest. x \<in> set kvs \<Longrightarrow> parseCBORDepth (encodeCBOR (snd x) @ rest) d = Inr (snd x, rest)) \<Longrightarrow>
   (\<And>x. x \<in> set kvs \<Longrightarrow> encodable_key (fst x)) \<Longrightarrow> d \<le> maxCBORDepth \<Longrightarrow>
   distinct (map fst (m @ kvs)) \<Longrightarrow>
     parse_entries (length kvs) (encode_entries kvs @ rest) d m = Inr (m @ kvs, rest)"
proof (induction kvs arbitrary: m)
  case Nil
  then show ?case by simp
next
  case (Cons x kvs)
  obtain k v where x: "x = (k, v)" by (cases x)
  obtain kv where kv: "parseCBORDepth (encode_key k @ encodeCBOR v @ encode_entries kvs @ rest) d =
      Inr (kv, encodeCBOR v @ encode_entries kvs @ rest)" "key_of kv = Some k"
    using parse_encode_key [OF Cons.prems(3)] Cons.prems(2) [of x] x by force
  have v: "parseCBORDepth (encodeCBOR v @ encode_entries kvs @ rest) d = Inr (v, encode_entries kvs @ rest)"
    using Cons.prems(1) [of x] x by simp
  have "AList.update k v m = m @ [(k, v)]" using Cons.prems(4) x by (auto intro: update_fresh)
  moreover have "parse_entries (length kvs) (encode_entries kvs @ rest) d (m @ [(k, v)]) = Inr ((m @ [(k, v)]) @ kvs, rest)"
    by (rule Cons.IH [OF Cons.prems(1,2)]) (use Cons.prems(3,4) x in auto)
  ultimately show ?case using kv v by (simp add: x)
qed

lemma encodeCBOR_pos: "1 \<le> length (encodeCBOR v)"
  by (cases v) (simp_all add: encode_int_def encode_string_def cbor_head_def)

lemma elements_length: "length vs \<le> length (concat (map encodeCBOR vs))"
proof (induction vs)
  case (Cons v vs)
  then show ?case using encodeCBOR_pos [of v] by (simp del: length_concat One_nat_def)
qed simp

lemma encode_key_pos: "1 \<le> length (encode_key k)"
  by (cases k) (simp_all add: encode_key_def encode_int_def encode_string_def cbor_head_def)

lemma entries_length: "2 * length m \<le> length (encode_entries m)"
proof (induction m)
  case (Cons x m)
  then show ?case using encodeCBOR_pos [of "snd x"] encode_key_pos [of "fst x"]
    by (cases x) (simp del: length_concat One_nat_def)
qed simp

lemma parse_encode:
  "d + k = maxCBORDepth \<Longrightarrow> encodable k v \<Longrightarrow> parseCBORDepth (encodeCBOR v @ rest) d = Inr (v, rest)"
proof (induction k arbitrary: d v rest)
  case 0
  then show ?case
    by (cases v) (auto simp: parse_encode_int parse_encode_string parse_item)
next
  case (Suc k)
  then have d: "d \<le> maxCBORDepth" "Suc d \<le> maxCBORDepth" "Suc d + k = maxCBORDepth" by auto
  show ?case
  proof (cases v)
    case (CArray vs)
    have "parse_elements (length vs) (concat (map encodeCBOR vs) @ rest) (Suc d) = Inr (vs, rest)"
      using Suc.IH [OF d(3)] Suc.prems(2) CArray by (intro parse_encode_elements) auto
    then show ?thesis
      using CArray Suc.prems(2) d elements_length [of vs] by (simp add: parse_item)
  next
    case (CMap m)
    have "parse_entries (length m) (encode_entries m @ rest) (Suc d) [] = Inr ([] @ m, rest)"
      using Suc.IH [OF d(3)] Suc.prems(2) CMap d by (intro parse_encode_entries) auto
    moreover have "length m \<le> (length (encode_entries m) + length rest) div 2"
      using entries_length [of m] by linarith
    ultimately show ?thesis
      using CMap Suc.prems(2) d by (simp add: parse_item del: map_map)
  qed (use Suc.prems d in \<open>auto simp: parse_encode_int parse_encode_string parse_item\<close>)
qed

text \<open>
  C32. Decoding inverts encoding: every value with at most 32 levels of nesting, integers within
  64 bits and distinct keys, written in the shortest CBOR form and followed by any bytes, is read
  back exactly, and those bytes are returned untouched.
\<close>

theorem cbor_roundtrip:
  assumes "encodable maxCBORDepth v"
  shows "parseCBOR (encodeCBOR v @ rest) = Inr (v, rest)"
  unfolding parseCBOR_def by (rule parse_encode [OF _ assms]) simp

definition demo_cose :: cborValue where
  "demo_cose = CMap [(IntKey 1, CInt 2), (IntKey 3, CInt (- 7)), (IntKey (- 1), CInt 1),
     (IntKey (- 2), CBytes [1]), (IntKey (- 3), CBytes [2])]"

theorem cbor_roundtrip_witness:
  "parseCBOR (encodeCBOR demo_cose @ [9]) = Inr (demo_cose, [9])"
proof (rule cbor_roundtrip)
  have m: "maxCBORDepth = Suc (Suc 30)" by (simp add: maxCBORDepth_def)
  show "encodable maxCBORDepth demo_cose"
    unfolding m encodable.simps(2)
    by (simp add: demo_cose_def encodable_key_def int64_def)
qed

end
