(* ===== verification/Webauthn.thy ===== *)
theory Webauthn
  imports OAuth Totp Cbor
begin

unbundle bit_operations_syntax

text \<open>
  Passkeys (\<^verbatim>\<open>handlers_webauthn.go\<close>): the registration and the login ceremony, the checks of
  attestation and assertion, and the public keys.  ECDSA verification, the curve test and the
  JSON of the client data are fields of \<open>golib\<close>; CBOR is decoded by the functions of \<open>Cbor\<close>.
  The errors of the checks are their texts.
\<close>

section \<open>Authenticator data\<close>

definition authDataFlagUP :: byte where "authDataFlagUP = 0x01"
definition authDataFlagUV :: byte where "authDataFlagUV = 0x04"
definition authDataFlagAT :: byte where "authDataFlagAT = 0x40"

record parsedAttestationData =
  pa_SignCount :: "32 word"
  pa_CredentialID :: "byte list"
  pa_COSEPublicKey :: "byte list"

text \<open>\<^verbatim>\<open>binary.BigEndian.Uint32(data[33:37])\<close>.\<close>

definition sign_count_of :: "byte list \<Rightarrow> 32 word" where
  "sign_count_of data = word_of_nat (be_nat (take 4 (drop 33 data)))"

definition rp_hash_matches :: "golib \<Rightarrow> byte list \<Rightarrow> string \<Rightarrow> bool" where
  "rp_hash_matches G data rpID = (take 32 data = g_sha256 G (bytes_of rpID))"

definition parseAttestedAuthData :: "golib \<Rightarrow> byte list \<Rightarrow> string \<Rightarrow> string + parsedAttestationData" where
  "parseAttestedAuthData G data rpID =
     (if length data < 37 then Inl ''authData too short''
      else if \<not> rp_hash_matches G data rpID then Inl ''rpId hash mismatch''
      else let flags = data ! 32 in
        if flags AND authDataFlagUP = 0 then Inl ''user presence flag missing''
        else if flags AND authDataFlagUV = 0 then Inl ''user verification flag missing''
        else if flags AND authDataFlagAT = 0 then Inl ''attested credential data flag missing''
        else let signCount = sign_count_of data; off = 37 + 16 in
          if length data < off + 2 then Inl ''missing credential id length''
          else let credLen = be_nat (take 2 (drop off data)); off = off + 2 in
            if length data < off + credLen then Inl ''credential id truncated''
            else let credID = take credLen (drop off data); off = off + credLen in
              if length data \<le> off then Inl ''missing credential public key''
              else Inr \<lparr>pa_SignCount = signCount, pa_CredentialID = credID, pa_COSEPublicKey = drop off data\<rparr>)"

definition verifyAssertionAuthData :: "golib \<Rightarrow> byte list \<Rightarrow> string \<Rightarrow> string + 32 word" where
  "verifyAssertionAuthData G data rpID =
     (if length data < 37 then Inl ''authenticatorData too short''
      else if \<not> rp_hash_matches G data rpID then Inl ''rpId hash mismatch''
      else let flags = data ! 32 in
        if flags AND authDataFlagUP = 0 then Inl ''user presence flag missing''
        else if flags AND authDataFlagUV = 0 then Inl ''user verification flag missing''
        else Inr (sign_count_of data))"

section \<open>Public keys\<close>

text \<open>A P-256 public key is its pair of coordinates.\<close>

definition parseCOSEES256PublicKey :: "golib \<Rightarrow> byte list \<Rightarrow> string + nat \<times> nat" where
  "parseCOSEES256PublicKey G data =
     (case parseCBOR data of
        Inl _ \<Rightarrow> Inl ''bad COSE key''
      | Inr (val, rest) \<Rightarrow>
          if rest \<noteq> [] then Inl ''bad COSE key''
          else (case val of
            CMap m \<Rightarrow>
              if map_option cbor_int (cborGetInt m 1) \<noteq> Some 2 then Inl ''COSE kty is not EC2''
              else if map_option cbor_int (cborGetInt m 3) \<noteq> Some (- 7) then Inl ''COSE alg is not ES256''
              else if map_option cbor_int (cborGetInt m (- 1)) \<noteq> Some 1 then Inl ''COSE curve is not P-256''
              else (case Option.bind (cborGetInt m (- 2)) cbor_bytes of
                  None \<Rightarrow> Inl ''missing x coordinate''
                | Some xb \<Rightarrow>
                    (case Option.bind (cborGetInt m (- 3)) cbor_bytes of
                       None \<Rightarrow> Inl ''missing y coordinate''
                     | Some yb \<Rightarrow>
                         let x = be_nat xb; y = be_nat yb in
                         if \<not> g_P256_IsOnCurve G x y then Inl ''public key point is not on P-256''
                         else Inr (x, y)))
          | _ \<Rightarrow> Inl ''COSE key is not a map''))"

definition publicKeyFromStored :: "golib \<Rightarrow> WebAuthnCredential \<Rightarrow> string + nat \<times> nat" where
  "publicKeyFromStored G c =
     (if wc_Alg c \<noteq> ''ES256'' then Inl ''unsupported credential alg''
      else case decodeB64URL (wc_XBase64URL c) of
          Inl _ \<Rightarrow> Inl ''bad x coordinate''
        | Inr xb \<Rightarrow>
            (case decodeB64URL (wc_YBase64URL c) of
               Inl _ \<Rightarrow> Inl ''bad y coordinate''
             | Inr yb \<Rightarrow>
                 let x = be_nat xb; y = be_nat yb in
                 if \<not> g_P256_IsOnCurve G x y then Inl ''stored public key is not on P-256''
                 else Inr (x, y)))"

section \<open>The checks of the two ceremonies\<close>

definition trim_slashes :: "string \<Rightarrow> string" where
  "trim_slashes s = TrimRightChars {CHR ''/''} s"

definition allowedOrigin :: "env \<Rightarrow> string \<Rightarrow> bool" where
  "allowedOrigin e origin =
     (\<exists>allowed \<in> set (wa_Origins (cf_WebAuthn (e_cfg e))). trim_slashes origin = trim_slashes allowed)"

definition rp_id :: "env \<Rightarrow> string" where
  "rp_id e = wa_RPID (cf_WebAuthn (e_cfg e))"

definition attestation_auth_data :: "byte list \<Rightarrow> string + byte list" where
  "attestation_auth_data att =
     (case parseCBOR att of
        Inl _ \<Rightarrow> Inl ''bad cbor attestation''
      | Inr (val, rest) \<Rightarrow>
          if rest \<noteq> [] then Inl ''bad cbor attestation''
          else let m = cbor_map val in
            if map_option cbor_str (cborGetString m ''fmt'') \<noteq> Some ''none''
            then Inl ''only attestation fmt 'none' is accepted''
            else (case Option.bind (cborGetString m ''authData'') cbor_bytes of
                    None \<Rightarrow> Inl ''missing authData'' | Some b \<Rightarrow> Inr b))"

definition attested_credential :: "env \<Rightarrow> byte list \<Rightarrow> byte list \<Rightarrow> string + WebAuthnCredential" where
  "attested_credential e rawID authData =
     (case parseAttestedAuthData (e_lib e) authData (rp_id e) of
        Inl err \<Rightarrow> Inl err
      | Inr parsed \<Rightarrow>
          if pa_CredentialID parsed \<noteq> rawID then Inl ''credential id mismatch''
          else (case parseCOSEES256PublicKey (e_lib e) (pa_COSEPublicKey parsed) of
              Inl err \<Rightarrow> Inl err
            | Inr (x, y) \<Rightarrow>
                Inr \<lparr>wc_IDBase64URL = base64RawURL rawID, wc_Alg = ''ES256'',
                     wc_XBase64URL = base64RawURL (big_bytes x), wc_YBase64URL = base64RawURL (big_bytes y),
                     wc_SignCount = pa_SignCount parsed, wc_CreatedAt = Unix (e_now e)\<rparr>))"

definition verifyWebAuthnAttestation ::
  "env \<Rightarrow> webauthnAttestationResponse \<Rightarrow> string \<Rightarrow> string + WebAuthnCredential" where
  "verifyWebAuthnAttestation e req expectedChallenge =
     (case decodeB64URL (wr_RawID req) of
        Inl _ \<Rightarrow> Inl ''bad rawId''
      | Inr rawID \<Rightarrow>
          if rawID = [] then Inl ''bad rawId''
          else (case decodeB64URL (wr_ClientDataJSON req) of
              Inl _ \<Rightarrow> Inl ''bad clientDataJSON''
            | Inr clientDataBytes \<Rightarrow>
                (case g_json_clientData (e_lib e) clientDataBytes of
                   None \<Rightarrow> Inl ''bad client data''
                 | Some cd \<Rightarrow>
                     if cd_Type cd \<noteq> ''webauthn.create'' then Inl ''wrong clientData type''
                     else if normalizeChallenge (cd_Challenge cd) \<noteq> expectedChallenge then Inl ''challenge mismatch''
                     else if \<not> allowedOrigin e (cd_Origin cd) then Inl ''origin not allowed''
                     else if cd_CrossOrigin cd then Inl ''cross-origin clientData rejected''
                     else (case decodeB64URL (wr_AttestationObject req) of
                         Inl _ \<Rightarrow> Inl ''bad attestationObject''
                       | Inr attBytes \<Rightarrow>
                           (case attestation_auth_data attBytes of
                              Inl err \<Rightarrow> Inl err
                            | Inr authData \<Rightarrow> attested_credential e rawID authData)))))"

datatype assertion_error = BadAssertion string | AssertionStore store_error

text \<open>\<^verbatim>\<open>userHandle\<close>, when the authenticator sent one.\<close>

definition user_handle_error :: "webauthnAssertionResponse \<Rightarrow> string \<Rightarrow> string option" where
  "user_handle_error req username =
     (let handle = TrimSpace (wl_UserHandle req) in
      if handle = [] then None
      else case decodeB64URL handle of
          Inl _ \<Rightarrow> Some ''bad userHandle''
        | Inr h \<Rightarrow> if string_of h \<noteq> username then Some ''userHandle does not match expected user'' else None)"

definition assertion_digest :: "env \<Rightarrow> byte list \<Rightarrow> byte list \<Rightarrow> byte list" where
  "assertion_digest e authData clientDataBytes =
     g_sha256 (e_lib e) (authData @ g_sha256 (e_lib e) clientDataBytes)"

text \<open>The part of \<^verbatim>\<open>verifyWebAuthnAssertion\<close> after the credential is found.\<close>

definition verify_with_credential ::
  "env \<Rightarrow> webauthnAssertionResponse \<Rightarrow> byte list \<Rightarrow> WebAuthnCredential \<Rightarrow> string + 32 word" where
  "verify_with_credential e req clientDataBytes cred =
     (case decodeB64URL (wl_AuthenticatorData req) of
        Inl _ \<Rightarrow> Inl ''bad authenticatorData''
      | Inr authData \<Rightarrow>
          (case verifyAssertionAuthData (e_lib e) authData (rp_id e) of
             Inl err \<Rightarrow> Inl err
           | Inr signCount \<Rightarrow>
               if wc_SignCount cred > 0 \<and> signCount \<le> wc_SignCount cred
               then Inl ''signature counter did not increase''
               else (case decodeB64URL (wl_Signature req) of
                   Inl _ \<Rightarrow> Inl ''bad signature''
                 | Inr signature \<Rightarrow>
                     (case publicKeyFromStored (e_lib e) cred of
                        Inl err \<Rightarrow> Inl err
                      | Inr pub \<Rightarrow>
                          if \<not> g_ecdsa_verify (e_lib e) pub (assertion_digest e authData clientDataBytes) signature
                          then Inl ''signature verification failed''
                          else Inr signCount))))"

definition verifyWebAuthnAssertion ::
  "env \<Rightarrow> webauthnAssertionResponse \<Rightarrow> string \<Rightarrow> string \<Rightarrow> byte list \<Rightarrow> webauthnClientData \<Rightarrow> st \<Rightarrow>
    (assertion_error + unit) \<times> st" where
  "verifyWebAuthnAssertion e req username expectedChallenge clientDataBytes cd s =
     (let bad = (\<lambda>msg. (Inl (BadAssertion msg), s)) in
      if cd_Type cd \<noteq> ''webauthn.get'' then bad ''wrong clientData type''
      else if normalizeChallenge (cd_Challenge cd) \<noteq> expectedChallenge then bad ''challenge mismatch''
      else if \<not> allowedOrigin e (cd_Origin cd) then bad ''origin not allowed''
      else if cd_CrossOrigin cd then bad ''cross-origin clientData rejected''
      else (case decodeB64URL (wl_RawID req) of
          Inl _ \<Rightarrow> bad ''bad rawId''
        | Inr rawID \<Rightarrow>
            if rawID = [] then bad ''bad rawId''
            else (case user_handle_error req username of
                Some msg \<Rightarrow> bad msg
              | None \<Rightarrow>
                  let credID = base64RawURL rawID in
                  (case GetUser username (st_db s) of
                     None \<Rightarrow> bad ''user not found''
                   | Some user \<Rightarrow>
                       (case List.find (\<lambda>c. wc_IDBase64URL c = credID) (u_WebAuthnCredentials user) of
                          None \<Rightarrow> bad ''credential not registered''
                        | Some cred \<Rightarrow>
                            (case verify_with_credential e req clientDataBytes cred of
                               Inl msg \<Rightarrow> bad msg
                             | Inr signCount \<Rightarrow>
                                 (case on_db (UpdateWebAuthnSignCount username credID signCount) s of
                                    (Inl err, s1) \<Rightarrow> (Inl (AssertionStore err), s1)
                                  | (Inr _, s1) \<Rightarrow> (Inr (), s1))))))))"

section \<open>The handlers\<close>

definition jstrs :: "(string \<times> string) list \<Rightarrow> json" where
  "jstrs kvs = JObj (map (\<lambda>(k, v). (k, JStr v)) kvs)"

definition credential_refs :: "WebAuthnCredential list \<Rightarrow> json" where
  "credential_refs cs = JArr (map (\<lambda>c. jstrs [(''type'', ''public-key''), (''id'', wc_IDBase64URL c)]) cs)"

definition challenge_record :: "env \<Rightarrow> string \<Rightarrow> string \<Rightarrow> ChallengeRecord" where
  "challenge_record e userID challenge =
     \<lparr>ch_UserID = userID, ch_Challenge = challenge, ch_ExpiresAt = e_now e + 5 * Minute\<rparr>"

definition handleWebAuthnRegisterBegin :: "env \<Rightarrow> http_request \<Rightarrow> st \<Rightarrow> response \<times> st" where
  "handleWebAuthnRegisterBegin e r s =
     (case validSession e r s of
        (None, s1) \<Rightarrow> (http_Error ''not authenticated'' 401, s1)
      | (Some sess, s1) \<Rightarrow>
          (case requireSessionCSRF r (\<lambda>_. []) sess of
             Some resp \<Rightarrow> (resp, s1)
           | None \<Rightarrow>
               (case requireRecentReAuth e sess s1 of
                  (Some resp, s2) \<Rightarrow> (resp, s2)
                | (None, s2) \<Rightarrow>
                    let s3 = snd (maybeExtendSession e r s2);
                        user = (case GetUser (s_UserID sess) (st_db s3) of
                                  Some u \<Rightarrow> u | None \<Rightarrow> new_StoredUser (s_UserID sess))
                    in (case randomB64 e 32 s3 of (challenge, s4) \<Rightarrow>
                          (case on_db (PutWebAuthnRegistration challenge (challenge_record e (s_UserID sess) challenge)) s4 of
                             (Inl _, s5) \<Rightarrow> (http_Error ''store error'' 500, s5)
                           | (Inr _, s5) \<Rightarrow>
                               (writeJSON 200 [''publicKey'' \<mapsto> JObj
                                  [(''challenge'', JStr challenge),
                                   (''rp'', jstrs [(''name'', wa_RPDisplayName (cf_WebAuthn (e_cfg e))), (''id'', rp_id e)]),
                                   (''user'', jstrs [(''id'', base64RawURL (bytes_of (s_UserID sess))),
                                                   (''name'', s_UserID sess), (''displayName'', displayName user)]),
                                   (''pubKeyCredParams'', JArr [JObj [(''type'', JStr ''public-key''), (''alg'', JInt (- 7))]]),
                                   (''timeout'', JInt 60000), (''attestation'', JStr ''none''),
                                   (''excludeCredentials'', credential_refs (u_WebAuthnCredentials user)),
                                   (''authenticatorSelection'', jstrs [(''userVerification'', ''required'')])]],
                                s5))))))"

definition handleWebAuthnRegisterFinish :: "env \<Rightarrow> http_request \<Rightarrow> st \<Rightarrow> response \<times> st" where
  "handleWebAuthnRegisterFinish e r s =
     (case validSession e r s of
        (None, s1) \<Rightarrow> (http_Error ''not authenticated'' 401, s1)
      | (Some sess, s1) \<Rightarrow>
          (case requireSessionCSRF r (\<lambda>_. []) sess of
             Some resp \<Rightarrow> (resp, s1)
           | None \<Rightarrow>
               (case requireRecentReAuth e sess s1 of
                  (Some resp, s2) \<Rightarrow> (resp, s2)
                | (None, s2) \<Rightarrow>
                    let s3 = snd (maybeExtendSession e r s2);
                        who = (''user_id'', Str (s_UserID sess)) in
                    (case decodeSingleJSON (r_JSON_attestation r maxWebAuthnBodyBytes) of
                       None \<Rightarrow> (http_Error ''bad json'' 400, s3)
                     | Some req \<Rightarrow>
                         (case decodeB64URL (wr_ClientDataJSON req) of
                            Inl _ \<Rightarrow> (http_Error ''bad clientDataJSON'' 400, s3)
                          | Inr clientDataBytes \<Rightarrow>
                              (case g_json_clientData (e_lib e) clientDataBytes of
                                 None \<Rightarrow> (http_Error ''bad client data'' 400, s3)
                               | Some cd \<Rightarrow>
                                   (case on_db (ConsumeWebAuthnRegistration (normalizeChallenge (cd_Challenge cd))) s3 of
                                      (Inl _, s4) \<Rightarrow> (http_Error ''store error'' 500, s4)
                                    | (Inr None, s4) \<Rightarrow> (http_Error ''registration challenge expired'' 400, s4)
                                    | (Inr (Some ch), s4) \<Rightarrow>
                                        if e_now e > ch_ExpiresAt ch \<or> ch_UserID ch \<noteq> s_UserID sess
                                        then (http_Error ''registration challenge expired'' 400, s4)
                                        else (case verifyWebAuthnAttestation e req (ch_Challenge ch) of
                                            Inl err \<Rightarrow>
                                              (http_Error (''invalid attestation: '' @ err) 400,
                                               audit_fail e r ''webauthn_register''
                                                 [who, (''reason'', Str ''invalid_attestation'')] s4)
                                          | Inr cred \<Rightarrow>
                                              (case on_db (AddWebAuthnCredential (s_UserID sess) cred) s4 of
                                                 (Inl err, s5) \<Rightarrow>
                                                   (http_Error (''store error: '' @
                                                      (if err = CredentialAlreadyRegistered
                                                       then ''credential already registered''
                                                       else e_error_text e err)) 400,
                                                    audit_fail e r ''webauthn_register''
                                                      [who, (''reason'', Str ''store_error'')] s5)
                                               | (Inr _, s5) \<Rightarrow>
                                                   (writeJSON 200 [''status'' \<mapsto> JStr ''registered''],
                                                    audit_ok e r ''webauthn_register''
                                                      [who, (''credential_id'', Str (wc_IDBase64URL cred))] s5))))))))))"

definition handleWebAuthnLoginBegin :: "env \<Rightarrow> http_request \<Rightarrow> st \<Rightarrow> response \<times> st" where
  "handleWebAuthnLoginBegin e r s =
     (let username = to_lower (e_lib e) (TrimSpace (r_JSON_username r maxWebAuthnBodyBytes)) in
      if username = [] then (http_Error ''username is required'' 400, s)
      else (case allowPreAuthWrite e r ''webauthn_login_begin'' s of
          (Some resp, s1) \<Rightarrow> (resp, s1)
        | (None, s1) \<Rightarrow>
            let (creds, userID) =
                  (case GetUser username (st_db s1) of
                     None \<Rightarrow> ([], [])
                   | Some user \<Rightarrow>
                       (u_WebAuthnCredentials user,
                        if u_WebAuthnCredentials user \<noteq> [] then u_Username user else []))
            in (case randomB64 e 32 s1 of (challenge, s2) \<Rightarrow>
                  (case on_db (PutWebAuthnLogin challenge (challenge_record e userID challenge)) s2 of
                     (Inl _, s3) \<Rightarrow> (http_Error ''store error'' 500, s3)
                   | (Inr _, s3) \<Rightarrow>
                       (writeJSON 200 [''publicKey'' \<mapsto> JObj
                          [(''challenge'', JStr challenge), (''timeout'', JInt 60000), (''rpId'', JStr (rp_id e)),
                           (''allowCredentials'', credential_refs creds),
                           (''userVerification'', JStr ''required'')]], s3)))))"

definition webAuthnLoginError :: response where
  "webAuthnLoginError = http_Error ''invalid webauthn login'' 400"

text \<open>
  What follows the consumption of the challenge in \<^verbatim>\<open>handleWebAuthnLoginFinish\<close>; the record is
  \<open>None\<close> when there was none, and its user is then the empty string.
\<close>

definition webauthn_login_with ::
  "env \<Rightarrow> http_request \<Rightarrow> webauthnAssertionResponse \<Rightarrow> byte list \<Rightarrow> webauthnClientData \<Rightarrow>
    ChallengeRecord option \<Rightarrow> st \<Rightarrow> response \<times> st" where
  "webauthn_login_with e r req clientDataBytes cd chal s =
     (let userID = (case chal of None \<Rightarrow> [] | Some ch \<Rightarrow> ch_UserID ch);
          rateKey = loginRateKey e r userID;
          who = (''user_id'', Str userID) in
      (case login_allow e rateKey s of
         ((False, retry), s1) \<Rightarrow>
           (http_Error ''too many login attempts; try again later'' 429,
            audit_fail e r ''webauthn_login'' [who, (''reason'', Str ''rate_limited'')] (writeRetryAfter retry s1))
       | ((True, _), s1) \<Rightarrow>
           (case (case chal of None \<Rightarrow> None
                  | Some ch \<Rightarrow> if e_now e > ch_ExpiresAt ch \<or> ch_UserID ch = [] then None else Some ch) of
              None \<Rightarrow>
                (webAuthnLoginError,
                 audit_fail e r ''webauthn_login'' [who, (''reason'', Str ''challenge_expired'')]
                   (login_failure e rateKey s1))
            | Some ch \<Rightarrow>
                (case verifyWebAuthnAssertion e req (ch_UserID ch) (ch_Challenge ch) clientDataBytes cd s1 of
                   (Inl _, s2) \<Rightarrow>
                     (webAuthnLoginError,
                      audit_fail e r ''webauthn_login'' [who, (''reason'', Str ''invalid_assertion'')]
                        (login_failure e rateKey s2))
                 | (Inr _, s2) \<Rightarrow>
                     (case createSession e (ch_UserID ch) True [''hwk'', ''mfa''] (login_success rateKey s2) of
                        (Inl _, s3) \<Rightarrow> (http_Error ''store error'' 500, s3)
                      | (Inr _, s3) \<Rightarrow>
                          (writeJSON 200 [''status'' \<mapsto> JStr ''authenticated''],
                           audit_ok e r ''webauthn_login'' [who] s3))))))"

definition handleWebAuthnLoginFinish :: "env \<Rightarrow> http_request \<Rightarrow> st \<Rightarrow> response \<times> st" where
  "handleWebAuthnLoginFinish e r s =
     (case decodeSingleJSON (r_JSON_assertion r maxWebAuthnBodyBytes) of
        None \<Rightarrow> (http_Error ''bad json'' 400, s)
      | Some req \<Rightarrow>
          (case decodeB64URL (wl_ClientDataJSON req) of
             Inl _ \<Rightarrow> (http_Error ''bad clientDataJSON'' 400, s)
           | Inr clientDataBytes \<Rightarrow>
               (case g_json_clientData (e_lib e) clientDataBytes of
                  None \<Rightarrow> (http_Error ''bad client data'' 400, s)
                | Some cd \<Rightarrow>
                    (case on_db (ConsumeWebAuthnLogin (normalizeChallenge (cd_Challenge cd))) s of
                       (Inl _, s1) \<Rightarrow> (http_Error ''store error'' 500, s1)
                     | (Inr chal, s1) \<Rightarrow> webauthn_login_with e r req clientDataBytes cd chal s1))))"

section \<open>Facts\<close>

lemma createSession_db:
  assumes "createSession e u f amr s = (x, s')"
  shows "case x of
       Inl _ \<Rightarrow> st_db s' = st_db s
     | Inr sess \<Rightarrow> s_UserID sess = u \<and> s_AuthTime sess = e_now e \<and> s_AMR sess = amr \<and>
         (\<exists>sid. st_db s' = (st_db s)\<lparr>db_sessions := bput sid sess (db_sessions (st_db s))\<rparr>)"
proof -
  obtain k s1 c s2 where k: "randomB64 e 32 s = (k, s1)" and c: "randomB64 e 32 s1 = (c, s2)" by fastforce
  have d: "st_db s2 = st_db s" using k c by (auto simp: randomB64_def)
  obtain sess where s: "(case on_db (PutSession k sess) s2 of
      (Inl err, s3) \<Rightarrow> (Inl err, s3)
    | (Inr _, s3) \<Rightarrow> (Inr sess, SetCookie (session_cookie e k (Some (s_ExpiresAt sess)) 0) s3)) = (x, s')"
    and sess: "s_UserID sess = u" "s_AuthTime sess = e_now e" "s_AMR sess = amr"
    using assms by (force simp: createSession_def k c Let_def)
  obtain y s3 where p: "on_db (PutSession k sess) s2 = (y, s3)" by fastforce
  show ?thesis
  proof (cases y)
    case (Inl err)
    then have "st_db s3 = st_db s2" using p by (auto simp: on_db_eq PutSession_def dest: db_update_Inl)
    then show ?thesis using s p Inl d by auto
  next
    case (Inr u)
    then have "st_db s3 = (st_db s)\<lparr>db_sessions := bput k sess (db_sessions (st_db s))\<rparr>"
      using p d by (auto simp: on_db_eq db_simps)
    then show ?thesis using s p Inr sess by auto
  qed
qed

lemma GetUser_Some: "GetUser n d = Some u \<Longrightarrow> db_open d \<and> bget n (db_users d) = Some (Json u)"
  by (auto simp: GetUser_def db_view_def getUserTx_def getJSON_def split: if_splits option.splits cell.splits)

lemma GetUser_cong:
  "db_users d' = db_users d \<Longrightarrow> db_open d' = db_open d \<Longrightarrow> GetUser n d' = GetUser n d"
  by (simp add: GetUser_def db_view_def)

lemma ConsumeWebAuthnLogin_frame:
  "on_db (ConsumeWebAuthnLogin k) s = (x, s') \<Longrightarrow>
     \<exists>b. st_db s' = (st_db s)\<lparr>db_webauthnLog := b\<rparr>"
  by (auto simp: on_db_eq ConsumeWebAuthnLogin_def consume_def db_update_def
      split: if_splits sum.splits option.splits intro: exI [of _ "db_webauthnLog (st_db s)"])

lemma UpdateWebAuthnSignCount_frame:
  "on_db (UpdateWebAuthnSignCount n c k) s = (x, s') \<Longrightarrow> \<exists>b. st_db s' = (st_db s)\<lparr>db_users := b\<rparr>"
  by (auto simp: on_db_eq UpdateWebAuthnSignCount_def db_update_def put_user_def putJSON_def
      split: if_splits sum.splits option.splits intro: exI [of _ "db_users (st_db s)"])

text \<open>What an accepted assertion is: the authenticator data and the signature over it.\<close>

definition assertion_genuine ::
  "env \<Rightarrow> webauthnAssertionResponse \<Rightarrow> byte list \<Rightarrow> WebAuthnCredential \<Rightarrow> 32 word \<Rightarrow> bool" where
  "assertion_genuine e req clientDataBytes cred n \<longleftrightarrow>
     (\<exists>authData signature pub.
        decodeB64URL (wl_AuthenticatorData req) = Inr authData \<and> 37 \<le> length authData \<and>
        take 32 authData = g_sha256 (e_lib e) (bytes_of (rp_id e)) \<and>
        authData ! 32 AND authDataFlagUP \<noteq> 0 \<and> authData ! 32 AND authDataFlagUV \<noteq> 0 \<and>
        n = sign_count_of authData \<and>
        decodeB64URL (wl_Signature req) = Inr signature \<and> publicKeyFromStored (e_lib e) cred = Inr pub \<and>
        g_ecdsa_verify (e_lib e) pub
          (g_sha256 (e_lib e) (authData @ g_sha256 (e_lib e) clientDataBytes)) signature)"

lemma verifyAssertionAuthData_Inr:
  "verifyAssertionAuthData G data rp = Inr n \<longleftrightarrow>
     37 \<le> length data \<and> take 32 data = g_sha256 G (bytes_of rp) \<and>
     data ! 32 AND authDataFlagUP \<noteq> 0 \<and> data ! 32 AND authDataFlagUV \<noteq> 0 \<and> n = sign_count_of data"
  by (auto simp: verifyAssertionAuthData_def rp_hash_matches_def Let_def)

lemma verify_with_credential_Inr:
  assumes "verify_with_credential e req cdb cred = Inr n"
  shows "assertion_genuine e req cdb cred n \<and> (wc_SignCount cred > 0 \<longrightarrow> n > wc_SignCount cred)"
proof -
  from assms obtain authData where a: "decodeB64URL (wl_AuthenticatorData req) = Inr authData"
    by (auto simp: verify_with_credential_def split: sum.splits)
  with assms obtain k where k: "verifyAssertionAuthData (e_lib e) authData (rp_id e) = Inr k"
    by (auto simp: verify_with_credential_def split: sum.splits)
  with assms a have c: "\<not> (wc_SignCount cred > 0 \<and> k \<le> wc_SignCount cred)"
    by (auto simp: verify_with_credential_def split: if_splits)
  with assms a k obtain sg where sg: "decodeB64URL (wl_Signature req) = Inr sg"
    by (auto simp: verify_with_credential_def split: sum.splits if_splits)
  with assms a k c obtain pub where pub: "publicKeyFromStored (e_lib e) cred = Inr pub"
    by (cases "publicKeyFromStored (e_lib e) cred") (auto simp: verify_with_credential_def)
  with assms a k c sg have v: "g_ecdsa_verify (e_lib e) pub (assertion_digest e authData cdb) sg" "k = n"
    by (auto simp: verify_with_credential_def split: if_splits)
  have "assertion_genuine e req cdb cred n"
    unfolding assertion_genuine_def
    by (intro exI [of _ authData] exI [of _ sg] exI [of _ pub])
      (use a k sg pub v in \<open>simp add: verifyAssertionAuthData_Inr assertion_digest_def\<close>)
  with c v(2) show ?thesis by auto
qed

lemma verifyWebAuthnAssertion_steps:
  assumes "verifyWebAuthnAssertion e req u chal cdb cd s = (Inr x, s')"
  obtains rawID user cred n where "cd_Type cd = ''webauthn.get''" and "normalizeChallenge (cd_Challenge cd) = chal"
    and "allowedOrigin e (cd_Origin cd)" and "\<not> cd_CrossOrigin cd"
    and "decodeB64URL (wl_RawID req) = Inr rawID" and "GetUser u (st_db s) = Some user"
    and "List.find (\<lambda>c. wc_IDBase64URL c = base64RawURL rawID) (u_WebAuthnCredentials user) = Some cred"
    and "verify_with_credential e req cdb cred = Inr n"
    and "on_db (UpdateWebAuthnSignCount u (base64RawURL rawID) n) s = (Inr (), s')"
proof -
  from assms have g: "cd_Type cd = ''webauthn.get''" "normalizeChallenge (cd_Challenge cd) = chal"
    "allowedOrigin e (cd_Origin cd)" "\<not> cd_CrossOrigin cd"
    by (auto simp: verifyWebAuthnAssertion_def Let_def split: if_splits)
  with assms obtain rawID where raw: "decodeB64URL (wl_RawID req) = Inr rawID" "rawID \<noteq> []"
    by (auto simp: verifyWebAuthnAssertion_def Let_def split: if_splits sum.splits)
  with assms g have h: "user_handle_error req u = None"
    by (auto simp: verifyWebAuthnAssertion_def Let_def split: option.splits)
  with assms g raw obtain user where user: "GetUser u (st_db s) = Some user"
    by (auto simp: verifyWebAuthnAssertion_def Let_def split: option.splits)
  with assms g raw h obtain cred where
    cred: "List.find (\<lambda>c. wc_IDBase64URL c = base64RawURL rawID) (u_WebAuthnCredentials user) = Some cred"
    by (auto simp: verifyWebAuthnAssertion_def Let_def split: option.splits)
  with assms g raw h user obtain n where n: "verify_with_credential e req cdb cred = Inr n"
    by (auto simp: verifyWebAuthnAssertion_def Let_def split: sum.splits)
  with assms g raw h user cred have up: "on_db (UpdateWebAuthnSignCount u (base64RawURL rawID) n) s = (Inr (), s')"
    by (auto simp: verifyWebAuthnAssertion_def Let_def split: sum.splits prod.splits)
  with that g raw(1) user cred n show thesis by blast
qed

lemma verifyWebAuthnAssertion_Inr:
  assumes "verifyWebAuthnAssertion e req u chal cdb cd s = (Inr x, s')"
  obtains rawID user cred n where "cd_Type cd = ''webauthn.get''" and "normalizeChallenge (cd_Challenge cd) = chal"
    and "allowedOrigin e (cd_Origin cd)" and "\<not> cd_CrossOrigin cd"
    and "decodeB64URL (wl_RawID req) = Inr rawID"
    and "bget u (db_users (st_db s)) = Some (Json user)" and "cred \<in> set (u_WebAuthnCredentials user)"
    and "wc_IDBase64URL cred = base64RawURL rawID"
    and "assertion_genuine e req cdb cred n" and "wc_SignCount cred > 0 \<longrightarrow> n > wc_SignCount cred"
    and "on_db (UpdateWebAuthnSignCount u (base64RawURL rawID) n) s = (Inr (), s')"
  using assms
proof (rule verifyWebAuthnAssertion_steps)
  fix rawID user cred n
  assume "cd_Type cd = ''webauthn.get''" "normalizeChallenge (cd_Challenge cd) = chal"
    "allowedOrigin e (cd_Origin cd)" "\<not> cd_CrossOrigin cd" "decodeB64URL (wl_RawID req) = Inr rawID"
    and user: "GetUser u (st_db s) = Some user"
    and cred: "List.find (\<lambda>c. wc_IDBase64URL c = base64RawURL rawID) (u_WebAuthnCredentials user) = Some cred"
    and n: "verify_with_credential e req cdb cred = Inr n"
    and "on_db (UpdateWebAuthnSignCount u (base64RawURL rawID) n) s = (Inr (), s')"
  moreover have "cred \<in> set (u_WebAuthnCredentials user)" "wc_IDBase64URL cred = base64RawURL rawID"
    using cred by (auto simp: find_Some_iff)
  ultimately show thesis
    using that GetUser_Some [OF user] verify_with_credential_Inr [OF n] by blast
qed

lemma verifyWebAuthnAssertion_frame:
  "verifyWebAuthnAssertion e req u chal cdb cd s = (x, s') \<Longrightarrow> \<exists>b. st_db s' = (st_db s)\<lparr>db_users := b\<rparr>"
  by (auto simp: verifyWebAuthnAssertion_def Let_def dest: UpdateWebAuthnSignCount_frame
      split: if_splits sum.splits option.splits prod.splits intro: exI [of _ "db_users (st_db s)"])

text \<open>How a login ceremony comes to store a session.\<close>

definition session_from ::
  "env \<Rightarrow> webauthnAssertionResponse \<Rightarrow> byte list \<Rightarrow> webauthnClientData \<Rightarrow> ChallengeRecord option \<Rightarrow> st \<Rightarrow> st \<Rightarrow> bool" where
  "session_from e req cdb cd chal s s' \<longleftrightarrow>
     (\<exists>ch s1 s2 sid sess. chal = Some ch \<and> e_now e \<le> ch_ExpiresAt ch \<and> ch_UserID ch \<noteq> [] \<and> st_db s1 = st_db s \<and>
        verifyWebAuthnAssertion e req (ch_UserID ch) (ch_Challenge ch) cdb cd s1 = (Inr (), s2) \<and>
        st_db s' = (st_db s2)\<lparr>db_sessions := bput sid sess (db_sessions (st_db s))\<rparr> \<and>
        s_UserID sess = ch_UserID ch \<and> s_AuthTime sess = e_now e \<and> s_AMR sess = [''hwk'', ''mfa''])"

lemma webauthn_login_with_db:
  assumes "webauthn_login_with e r req cdb cd chal s = (resp, s')"
  shows "db_webauthnLog (st_db s') = db_webauthnLog (st_db s) \<and>
    (db_sessions (st_db s') = db_sessions (st_db s) \<or> session_from e req cdb cd chal s s')"
proof -
  let ?key = "loginRateKey e r (case chal of None \<Rightarrow> [] | Some ch \<Rightarrow> ch_UserID ch)"
  obtain ok retry s1 where a: "login_allow e ?key s = ((ok, retry), s1)" by (metis surj_pair)
  have d1: "st_db s1 = st_db s" by (rule login_allow_frame [OF a])
  show ?thesis
  proof (cases "ok \<and> (\<exists>ch. chal = Some ch \<and> e_now e \<le> ch_ExpiresAt ch \<and> ch_UserID ch \<noteq> [])")
    case False
    then have "st_db s' = st_db s"
      using assms a d1
      by (cases ok; cases chal) (auto simp: webauthn_login_with_def Let_def split: if_splits)
    then show ?thesis by simp
  next
    case True
    then obtain ch where ok: ok and ch: "chal = Some ch" "e_now e \<le> ch_ExpiresAt ch" "ch_UserID ch \<noteq> []" by blast
    obtain x s2 where v: "verifyWebAuthnAssertion e req (ch_UserID ch) (ch_Challenge ch) cdb cd s1 = (x, s2)"
      by fastforce
    from verifyWebAuthnAssertion_frame [OF v] obtain b where b: "st_db s2 = (st_db s)\<lparr>db_users := b\<rparr>"
      using d1 by auto
    show ?thesis
    proof (cases x)
      case (Inl err)
      then have "st_db s' = st_db s2"
        using assms a ok ch v by (auto simp: webauthn_login_with_def Let_def)
      then show ?thesis using b by simp
    next
      case (Inr u)
      obtain y s3 where c: "createSession e (ch_UserID ch) True [''hwk'', ''mfa''] (login_success ?key s2) = (y, s3)"
        by fastforce
      then have s': "st_db s' = st_db s3"
        using assms a ok ch v Inr by (auto simp: webauthn_login_with_def Let_def split: sum.splits)
      show ?thesis
      proof (cases y)
        case (Inl err)
        then show ?thesis using createSession_db [OF c] s' b by auto
      next
        case (Inr sess)
        with createSession_db [OF c] obtain sid where
          "st_db s3 = (st_db s2)\<lparr>db_sessions := bput sid sess (db_sessions (st_db s2))\<rparr>"
          and sess: "s_UserID sess = ch_UserID ch" "s_AuthTime sess = e_now e" "s_AMR sess = [''hwk'', ''mfa'']"
          by auto
        with s' b have d: "st_db s' = (st_db s2)\<lparr>db_sessions := bput sid sess (db_sessions (st_db s))\<rparr>" by simp
        have "session_from e req cdb cd chal s s'"
          unfolding session_from_def
          by (intro exI [of _ ch] exI [of _ s1] exI [of _ s2] exI [of _ sid] exI [of _ sess])
            (use ch d1 v \<open>x = Inr u\<close> d sess in simp)
        then show ?thesis using d b by simp
      qed
    qed
  qed
qed

lemma handleWebAuthnLoginFinish_changes:
  assumes "handleWebAuthnLoginFinish e r s = (resp, s')" and "db_sessions (st_db s') \<noteq> db_sessions (st_db s)"
  obtains req cdb cd chal s1 where "decodeSingleJSON (r_JSON_assertion r maxWebAuthnBodyBytes) = Some req"
    and "decodeB64URL (wl_ClientDataJSON req) = Inr cdb" and "g_json_clientData (e_lib e) cdb = Some cd"
    and "on_db (ConsumeWebAuthnLogin (normalizeChallenge (cd_Challenge cd))) s = (Inr chal, s1)"
    and "webauthn_login_with e r req cdb cd chal s1 = (resp, s')"
proof -
  from assms obtain req cdb cd where g: "decodeSingleJSON (r_JSON_assertion r maxWebAuthnBodyBytes) = Some req"
    "decodeB64URL (wl_ClientDataJSON req) = Inr cdb" "g_json_clientData (e_lib e) cdb = Some cd"
    by (auto simp: handleWebAuthnLoginFinish_def split: option.splits sum.splits)
  obtain x s1 where c: "on_db (ConsumeWebAuthnLogin (normalizeChallenge (cd_Challenge cd))) s = (x, s1)" by fastforce
  show thesis
  proof (cases x)
    case (Inl err)
    then have "st_db s' = st_db s1" using assms(1) g c by (auto simp: handleWebAuthnLoginFinish_def)
    with ConsumeWebAuthnLogin_frame [OF c] assms(2) show thesis by auto
  next
    case (Inr chal)
    then have "webauthn_login_with e r req cdb cd chal s1 = (resp, s')"
      using assms(1) g c by (auto simp: handleWebAuthnLoginFinish_def)
    with that g c Inr show thesis by blast
  qed
qed


text \<open>
  A passkey login cannot be replayed: the same request, sent again after it gave a session,
  changes no session, at any later time.
\<close>

theorem webauthn_replay_refused:
  assumes "handleWebAuthnLoginFinish e r s = (resp, s1)" and "db_sessions (st_db s1) \<noteq> db_sessions (st_db s)"
    and "handleWebAuthnLoginFinish (e\<lparr>e_now := t\<rparr>) r s1 = (resp2, s2)"
  shows "db_sessions (st_db s2) = db_sessions (st_db s1)"
proof (rule ccontr)
  assume ne: "db_sessions (st_db s2) \<noteq> db_sessions (st_db s1)"
  from assms(1,2) obtain req cdb cd chal s3 where
    g: "decodeSingleJSON (r_JSON_assertion r maxWebAuthnBodyBytes) = Some req"
    "decodeB64URL (wl_ClientDataJSON req) = Inr cdb" "g_json_clientData (e_lib e) cdb = Some cd"
    and c: "on_db (ConsumeWebAuthnLogin (normalizeChallenge (cd_Challenge cd))) s = (Inr chal, s3)"
    and w: "webauthn_login_with e r req cdb cd chal s3 = (resp, s1)"
    by (rule handleWebAuthnLoginFinish_changes)
  from ne assms(3) obtain chal2 s4 where
    c2: "on_db (ConsumeWebAuthnLogin (normalizeChallenge (cd_Challenge cd))) s1 = (Inr chal2, s4)"
    and w2: "webauthn_login_with (e\<lparr>e_now := t\<rparr>) r req cdb cd chal2 s4 = (resp2, s2)"
    using g by (auto elim!: handleWebAuthnLoginFinish_changes)
  have "log_challenge_at (st_db s3) (normalizeChallenge (cd_Challenge cd)) = None"
    using c by (cases chal) (auto simp: on_db_eq ConsumeWebAuthnLogin_def consume_Inr_Some consume_Inr_None bget_bdel)
  then have "chal2 = None"
    using c2 webauthn_login_with_db [OF w]
    by (cases chal2) (auto simp: on_db_eq ConsumeWebAuthnLogin_def consume_Inr_Some)
  then show False
    using webauthn_login_with_db [OF w2] ne ConsumeWebAuthnLogin_frame [OF c2] by (auto simp: session_from_def)
qed

lemma set_sign_count_find:
  "set_sign_count i n cs = Some cs' \<Longrightarrow>
     \<exists>c. List.find (\<lambda>c. wc_IDBase64URL c = i) cs' = Some c \<and> wc_SignCount c = n"
  by (induction cs arbitrary: cs') (auto split: if_splits)

lemma UpdateWebAuthnSignCount_Inr:
  assumes "on_db (UpdateWebAuthnSignCount u i n) s = (Inr x, s')"
  shows "\<exists>user c. GetUser u (st_db s') = Some user \<and>
     List.find (\<lambda>c. wc_IDBase64URL c = i) (u_WebAuthnCredentials user) = Some c \<and> wc_SignCount c = n"
  using assms
  by (auto simp: on_db_eq UpdateWebAuthnSignCount_def db_update_Inr put_user_def putJSON_Inr GetUser_def db_view_def
      getUserTx_def split: sum.splits option.splits dest: set_sign_count_find)

lemma verify_with_credential_count:
  "verify_with_credential e req cdb cred = Inr n \<Longrightarrow> decodeB64URL (wl_AuthenticatorData req) = Inr a \<Longrightarrow>
     n = sign_count_of a"
  using verify_with_credential_Inr [of e req cdb cred n] by (auto simp: assertion_genuine_def)

text \<open>
  The signature counter detects a cloned key: when two assertions of the same credential of a
  user are accepted one after the other, with no change to the users in between, and the first
  reported a nonzero counter, the second reports a strictly larger one.
\<close>

theorem webauthn_counter_increases:
  assumes "verifyWebAuthnAssertion e req1 u c1 cdb1 cd1 s = (Inr x, s1)"
    and "db_users (st_db s2) = db_users (st_db s1)"
    and "verifyWebAuthnAssertion e' req2 u c2 cdb2 cd2 s2 = (Inr y, s3)"
    and "decodeB64URL (wl_RawID req2) = decodeB64URL (wl_RawID req1)"
    and "decodeB64URL (wl_AuthenticatorData req1) = Inr a1" and "decodeB64URL (wl_AuthenticatorData req2) = Inr a2"
    and "sign_count_of a1 > 0"
  shows "sign_count_of a2 > sign_count_of a1"
proof -
  from assms(1) obtain rawID user cred n where raw: "decodeB64URL (wl_RawID req1) = Inr rawID"
    and v: "verify_with_credential e req1 cdb1 cred = Inr n"
    and up: "on_db (UpdateWebAuthnSignCount u (base64RawURL rawID) n) s = (Inr (), s1)"
    by (rule verifyWebAuthnAssertion_steps)
  from assms(3) obtain rawID2 user2 cred2 n2 where raw2: "decodeB64URL (wl_RawID req2) = Inr rawID2"
    and user2: "GetUser u (st_db s2) = Some user2"
    and cred2: "List.find (\<lambda>c. wc_IDBase64URL c = base64RawURL rawID2) (u_WebAuthnCredentials user2) = Some cred2"
    and v2: "verify_with_credential e' req2 cdb2 cred2 = Inr n2"
    by (rule verifyWebAuthnAssertion_steps)
  from UpdateWebAuthnSignCount_Inr [OF up] obtain user1 c where user1: "GetUser u (st_db s1) = Some user1"
    and c: "List.find (\<lambda>c. wc_IDBase64URL c = base64RawURL rawID) (u_WebAuthnCredentials user1) = Some c"
    and n: "wc_SignCount c = n" by blast
  have "user2 = user1" using GetUser_Some [OF user1] GetUser_Some [OF user2] assms(2) by simp
  with c cred2 raw raw2 assms(4) have "cred2 = c" by simp
  moreover have "n = sign_count_of a1" "n2 = sign_count_of a2"
    using verify_with_credential_count v v2 assms(5,6) by blast+
  ultimately show ?thesis using verify_with_credential_Inr [OF v2] n assms(7) by auto
qed

lemma be_nat_big_bytes: "be_nat (big_bytes n) = n"
proof (induction n rule: big_bytes.induct)
  case (1 n)
  show ?case
  proof (cases "n = 0")
    case True
    then show ?thesis by (subst big_bytes.simps) (simp add: be_nat_def)
  next
    case False
    with 1 show ?thesis by (subst big_bytes.simps) (simp add: be_nat_snoc unat_of_nat)
  qed
qed

lemma big_bytes_Nil: "big_bytes n = [] \<longleftrightarrow> n = 0"
  by (subst big_bytes.simps) simp

text \<open>
  A registered key is the key that is checked later: the public key read back from a
  credential that an attestation produced is the point of the attestation, which lies on P-256,
  unless one of its coordinates is 0.
\<close>

theorem webauthn_key_roundtrip:
  assumes "attested_credential e rawID authData = Inr cred"
    and "parseAttestedAuthData (e_lib e) authData (rp_id e) = Inr parsed"
    and "parseCOSEES256PublicKey (e_lib e) (pa_COSEPublicKey parsed) = Inr (x, y)" and "x \<noteq> 0" and "y \<noteq> 0"
  shows "publicKeyFromStored (e_lib e) cred = Inr (x, y) \<and> g_P256_IsOnCurve (e_lib e) x y"
proof -
  have on: "g_P256_IsOnCurve (e_lib e) x y"
    using assms(3) by (auto simp: parseCOSEES256PublicKey_def Let_def
        split: sum.splits prod.splits cborValue.splits if_splits option.splits)
  have "wc_Alg cred = ''ES256''" "wc_XBase64URL cred = base64RawURL (big_bytes x)"
    "wc_YBase64URL cred = base64RawURL (big_bytes y)"
    using assms(1-3) by (auto simp: attested_credential_def split: if_splits)
  then show ?thesis
    using on assms(4,5) by (simp add: publicKeyFromStored_def decodeB64URL_base64 big_bytes_Nil be_nat_big_bytes Let_def)
qed

section \<open>Registration\<close>

text \<open>What an accepted attestation vouches for.\<close>

definition credential_attested :: "env \<Rightarrow> webauthnAttestationResponse \<Rightarrow> WebAuthnCredential \<Rightarrow> bool" where
  "credential_attested e req cred \<longleftrightarrow>
     (\<exists>rawID attBytes authData x y.
        decodeB64URL (wr_RawID req) = Inr rawID \<and> wc_IDBase64URL cred = base64RawURL rawID \<and>
        decodeB64URL (wr_AttestationObject req) = Inr attBytes \<and> attestation_auth_data attBytes = Inr authData \<and>
        37 \<le> length authData \<and> take 32 authData = g_sha256 (e_lib e) (bytes_of (rp_id e)) \<and>
        authData ! 32 AND authDataFlagUP \<noteq> 0 \<and> authData ! 32 AND authDataFlagUV \<noteq> 0 \<and>
        authData ! 32 AND authDataFlagAT \<noteq> 0 \<and> wc_SignCount cred = sign_count_of authData \<and>
        take (be_nat (take 2 (drop 53 authData))) (drop 55 authData) = rawID \<and>
        g_P256_IsOnCurve (e_lib e) x y \<and> wc_Alg cred = ''ES256'' \<and>
        wc_XBase64URL cred = base64RawURL (big_bytes x) \<and> wc_YBase64URL cred = base64RawURL (big_bytes y))"

lemma parseAttestedAuthData_Inr:
  assumes "parseAttestedAuthData G data rp = Inr parsed"
  shows "37 \<le> length data \<and> take 32 data = g_sha256 G (bytes_of rp) \<and> data ! 32 AND authDataFlagUP \<noteq> 0 \<and>
    data ! 32 AND authDataFlagUV \<noteq> 0 \<and> data ! 32 AND authDataFlagAT \<noteq> 0 \<and>
    pa_SignCount parsed = sign_count_of data \<and>
    pa_CredentialID parsed = take (be_nat (take 2 (drop 53 data))) (drop 55 data)"
  using assms unfolding parseAttestedAuthData_def rp_hash_matches_def Let_def
  by (simp only: split: if_split_asm) (simp_all only: sum.simps, auto)

lemma parseCOSE_on_curve: "parseCOSEES256PublicKey G data = Inr (x, y) \<Longrightarrow> g_P256_IsOnCurve G x y"
  by (auto simp: parseCOSEES256PublicKey_def Let_def
      split: sum.splits prod.splits cborValue.splits if_splits option.splits)

lemma attested_credential_Inr:
  assumes "attested_credential e rawID authData = Inr cred"
  obtains parsed x y where "parseAttestedAuthData (e_lib e) authData (rp_id e) = Inr parsed"
    and "pa_CredentialID parsed = rawID" and "g_P256_IsOnCurve (e_lib e) x y"
    and "cred = \<lparr>wc_IDBase64URL = base64RawURL rawID, wc_Alg = ''ES256'',
                     wc_XBase64URL = base64RawURL (big_bytes x), wc_YBase64URL = base64RawURL (big_bytes y),
                     wc_SignCount = pa_SignCount parsed, wc_CreatedAt = Unix (e_now e)\<rparr>"
proof -
  from assms obtain parsed where p: "parseAttestedAuthData (e_lib e) authData (rp_id e) = Inr parsed"
    "pa_CredentialID parsed = rawID"
    by (auto simp: attested_credential_def split: sum.splits if_splits)
  with assms obtain x y where xy: "parseCOSEES256PublicKey (e_lib e) (pa_COSEPublicKey parsed) = Inr (x, y)"
    by (auto simp: attested_credential_def split: sum.splits)
  show thesis
    by (rule that [OF p parseCOSE_on_curve [OF xy]]) (use assms p xy in \<open>simp add: attested_credential_def\<close>)
qed

lemma verifyWebAuthnAttestation_Inr:
  assumes "verifyWebAuthnAttestation e req chal = Inr cred"
    and "decodeB64URL (wr_ClientDataJSON req) = Inr cdb" and "g_json_clientData (e_lib e) cdb = Some cd"
  shows "cd_Type cd = ''webauthn.create''" "normalizeChallenge (cd_Challenge cd) = chal"
    "allowedOrigin e (cd_Origin cd)" "\<not> cd_CrossOrigin cd" "credential_attested e req cred"
proof -
  from assms show "cd_Type cd = ''webauthn.create''" "normalizeChallenge (cd_Challenge cd) = chal"
    "allowedOrigin e (cd_Origin cd)" "\<not> cd_CrossOrigin cd"
    by (auto simp: verifyWebAuthnAttestation_def split: sum.splits if_splits)
  from assms obtain rawID attBytes authData where d: "decodeB64URL (wr_RawID req) = Inr rawID"
    "decodeB64URL (wr_AttestationObject req) = Inr attBytes" "attestation_auth_data attBytes = Inr authData"
    and c: "attested_credential e rawID authData = Inr cred"
    by (auto simp: verifyWebAuthnAttestation_def split: sum.splits if_splits)
  from c obtain parsed x y where p: "parseAttestedAuthData (e_lib e) authData (rp_id e) = Inr parsed"
    and i: "pa_CredentialID parsed = rawID" and on: "g_P256_IsOnCurve (e_lib e) x y"
    and cred: "cred = \<lparr>wc_IDBase64URL = base64RawURL rawID, wc_Alg = ''ES256'',
                     wc_XBase64URL = base64RawURL (big_bytes x), wc_YBase64URL = base64RawURL (big_bytes y),
                     wc_SignCount = pa_SignCount parsed, wc_CreatedAt = Unix (e_now e)\<rparr>"
    by (rule attested_credential_Inr)
  show "credential_attested e req cred"
    unfolding credential_attested_def
    by (intro exI [of _ rawID] exI [of _ attBytes] exI [of _ authData] exI [of _ x] exI [of _ y])
      (use d i on parseAttestedAuthData_Inr [OF p] in \<open>simp add: cred\<close>)
qed

lemma ConsumeWebAuthnRegistration_frame:
  "on_db (ConsumeWebAuthnRegistration k) s = (x, s') \<Longrightarrow> \<exists>b. st_db s' = (st_db s)\<lparr>db_webauthnReg := b\<rparr>"
  by (auto simp: on_db_eq ConsumeWebAuthnRegistration_def consume_def db_update_def
      split: if_splits sum.splits option.splits intro: exI [of _ "db_webauthnReg (st_db s)"])

lemma AddWebAuthnCredential_Inr:
  assumes "on_db (AddWebAuthnCredential n cred) s = (Inr x, s')"
  shows "\<exists>u old. getUserTx (db_users (st_db s)) n = Inr u \<and> old = user_or_new n u \<and>
     (\<forall>c \<in> set (u_WebAuthnCredentials old). wc_IDBase64URL c \<noteq> wc_IDBase64URL cred) \<and>
     st_db s' = (st_db s)\<lparr>db_users := bput n (old\<lparr>u_WebAuthnCredentials := u_WebAuthnCredentials old @ [cred]\<rparr>)
       (db_users (st_db s))\<rparr>"
  using assms
  by (auto simp: on_db_eq AddWebAuthnCredential_def db_update_Inr put_user_def putJSON_Inr Let_def
      split: sum.splits if_splits)

text \<open>
  C29. A passkey is registered only by its owner: when the finish endpoint of the registration
  changes any user, the request belongs to a live session that re-authenticated recently and
  carries its CSRF token; the challenge was issued to the same user, is unexpired and gone
  afterwards; the client data is of a registration at an allowed origin and names that challenge;
  the attestation vouches for the credential (relying party, user present and verified, matching
  identifier, a key on P-256); and the only change is that the credential, with an identifier new
  to the user, is appended to the user's list.
\<close>

theorem webauthn_register_sound:
  assumes "handleWebAuthnRegisterFinish e r s = (resp, s')" and "db_users (st_db s') \<noteq> db_users (st_db s)"
  shows "\<exists>sess s1 req cdb cd ch cred u old.
    validSession e r s = (Some sess, s1) \<and> sessionRecentlyReAuthenticated e sess \<and>
    csrfTokenMatches (r_Header r csrfHeaderName) (s_CSRFToken sess) \<and>
    decodeSingleJSON (r_JSON_attestation r maxWebAuthnBodyBytes) = Some req \<and>
    decodeB64URL (wr_ClientDataJSON req) = Inr cdb \<and> g_json_clientData (e_lib e) cdb = Some cd \<and>
    reg_challenge_at (st_db s) (normalizeChallenge (cd_Challenge cd)) = Some (Json ch) \<and>
    reg_challenge_at (st_db s') (normalizeChallenge (cd_Challenge cd)) = None \<and>
    ch_Challenge ch = normalizeChallenge (cd_Challenge cd) \<and> e_now e \<le> ch_ExpiresAt ch \<and>
    ch_UserID ch = s_UserID sess \<and> cd_Type cd = ''webauthn.create'' \<and> allowedOrigin e (cd_Origin cd) \<and>
    \<not> cd_CrossOrigin cd \<and> credential_attested e req cred \<and>
    getUserTx (db_users (st_db s)) (s_UserID sess) = Inr u \<and> old = user_or_new (s_UserID sess) u \<and>
    (\<forall>c \<in> set (u_WebAuthnCredentials old). wc_IDBase64URL c \<noteq> wc_IDBase64URL cred) \<and>
    db_users (st_db s') = bput (s_UserID sess)
      (old\<lparr>u_WebAuthnCredentials := u_WebAuthnCredentials old @ [cred]\<rparr>) (db_users (st_db s))"
proof -
  obtain os s1 where v: "validSession e r s = (os, s1)" by fastforce
  note f1 = session_frameD [OF validSession_frame [OF v]]
  from assms v f1 obtain sess where sess: "os = Some sess"
    by (cases os) (auto simp: handleWebAuthnRegisterFinish_def)
  from assms v sess f1 have csrf: "requireSessionCSRF r (\<lambda>_. []) sess = None"
    by (auto simp: handleWebAuthnRegisterFinish_def split: option.splits)
  then have csrf': "csrfTokenMatches (r_Header r csrfHeaderName) (s_CSRFToken sess)"
    by (auto simp: requireSessionCSRF_def verifySessionCSRF_def split: if_splits)
  from assms v sess f1 csrf have re: "sessionRecentlyReAuthenticated e sess"
    by (auto simp: handleWebAuthnRegisterFinish_def requireRecentReAuth_def split: if_splits)
  define s3 where "s3 = snd (maybeExtendSession e r s1)"
  have "session_frame s1 s3" unfolding s3_def by (rule maybeExtendSession_frame [OF surjective_pairing])
  then have "session_frame s s3" by (rule session_frame_trans [OF validSession_frame [OF v]])
  then obtain bs where f3: "st_db s3 = (st_db s)\<lparr>db_sessions := bs\<rparr>" by (auto simp: session_frame_ex)
  note unf = handleWebAuthnRegisterFinish_def requireRecentReAuth_def s3_def [symmetric]
  from assms v sess csrf re f3 obtain req cdb cd where g:
    "decodeSingleJSON (r_JSON_attestation r maxWebAuthnBodyBytes) = Some req"
    "decodeB64URL (wr_ClientDataJSON req) = Inr cdb" "g_json_clientData (e_lib e) cdb = Some cd"
    by (auto simp: unf Let_def split: option.splits sum.splits)
  let ?k = "normalizeChallenge (cd_Challenge cd)"
  obtain x s4 where c: "on_db (ConsumeWebAuthnRegistration ?k) s3 = (x, s4)" by fastforce
  from ConsumeWebAuthnRegistration_frame [OF c] obtain br where f4: "st_db s4 = (st_db s3)\<lparr>db_webauthnReg := br\<rparr>" by blast
  from assms v sess csrf re f3 f4 g c obtain ch where ch: "x = Inr (Some ch)"
    by (auto simp: unf Let_def split: option.splits sum.splits)
  from assms v sess csrf re f3 f4 g c ch have ex: "e_now e \<le> ch_ExpiresAt ch" "ch_UserID ch = s_UserID sess"
    by (auto simp: unf Let_def split: if_splits)
  from assms v sess csrf re f3 f4 g c ch ex obtain cred where cred: "verifyWebAuthnAttestation e req (ch_Challenge ch) = Inr cred"
    by (auto simp: unf Let_def split: sum.splits)
  obtain y s5 where a: "on_db (AddWebAuthnCredential (s_UserID sess) cred) s4 = (y, s5)" by fastforce
  from assms(1) v sess csrf re g c ch ex cred a have s': "st_db s' = st_db s5"
    by (auto simp: unf Let_def split: sum.splits)
  have "\<exists>z. y = Inr z"
  proof (cases y)
    case (Inl err)
    then have "st_db s5 = st_db s4" using a by (auto simp: on_db_eq AddWebAuthnCredential_def dest: db_update_Inl)
    then show ?thesis using assms(2) s' f3 f4 by simp
  qed simp
  then obtain z where "y = Inr z" by blast
  from AddWebAuthnCredential_Inr [OF a [unfolded this]] obtain u old where
    u: "getUserTx (db_users (st_db s)) (s_UserID sess) = Inr u" "old = user_or_new (s_UserID sess) u"
      "\<forall>c \<in> set (u_WebAuthnCredentials old). wc_IDBase64URL c \<noteq> wc_IDBase64URL cred"
    and d: "st_db s5 = (st_db s4)\<lparr>db_users := bput (s_UserID sess)
       (old\<lparr>u_WebAuthnCredentials := u_WebAuthnCredentials old @ [cred]\<rparr>) (db_users (st_db s4))\<rparr>"
    using f3 f4 by auto
  have "reg_challenge_at (st_db s3) ?k = Some (Json ch)" "reg_challenge_at (st_db s4) ?k = None"
    using c ch by (auto simp: on_db_eq ConsumeWebAuthnRegistration_def consume_Inr_Some bget_bdel)
  then show ?thesis
    using v sess csrf' re g ex u d f3 f4 s' verifyWebAuthnAttestation_Inr [OF cred g(2,3)]
    by (intro exI [of _ sess] exI [of _ s1] exI [of _ req] exI [of _ cdb] exI [of _ cd] exI [of _ ch]
        exI [of _ cred] exI [of _ u] exI [of _ old]) simp
qed

section \<open>Running the ceremonies\<close>

definition demo_rp :: string where
  "demo_rp = replicate 32 CHR ''b''"

definition demo_env_wa :: env where
  "demo_env_wa = demo_env\<lparr>e_cfg := demo_cfg\<lparr>cf_WebAuthn :=
     \<lparr>wa_RPID = demo_rp, wa_RPDisplayName = [], wa_Origins = [''https://b'']\<rparr>\<rparr>\<rparr>"

definition demo_auth_data :: "byte \<Rightarrow> byte \<Rightarrow> byte list \<Rightarrow> byte list" where
  "demo_auth_data flags n attested = bytes_of demo_rp @ [flags, 0, 0, 0, n] @ attested"

definition demo_assertion :: "byte \<Rightarrow> webauthnAssertionResponse" where
  "demo_assertion n = \<lparr>wl_ID = [], wl_RawID = base64RawURL [9], wl_Type = [], wl_ClientDataJSON = base64RawURL [2],
     wl_AuthenticatorData = base64RawURL (demo_auth_data 5 n []),
     wl_Signature = base64RawURL (1 # demo_auth_data 5 n [] @ [2]), wl_UserHandle = []\<rparr>"

definition demo_passkey :: "32 word \<Rightarrow> WebAuthnCredential" where
  "demo_passkey n = \<lparr>wc_IDBase64URL = base64RawURL [9], wc_Alg = ''ES256'', wc_XBase64URL = base64RawURL [1],
     wc_YBase64URL = base64RawURL [2], wc_SignCount = n, wc_CreatedAt = 0\<rparr>"

definition demo_wa_db :: "32 word \<Rightarrow> Store" where
  "demo_wa_db n = empty_Store\<lparr>
     db_users := [(''alice'', Json ((new_StoredUser ''alice'')\<lparr>u_WebAuthnCredentials := [demo_passkey n]\<rparr>))],
     db_webauthnLog := [(''AAAA'', Json (challenge_record demo_env ''alice'' ''AAAA''))]\<rparr>"

lemma demo_wa_sel [simp]:
  "e_lib demo_env_wa = demo_lib" "e_now demo_env_wa = 1000 * Second" "rp_id demo_env_wa = demo_rp"
  "wa_Origins (cf_WebAuthn (e_cfg demo_env_wa)) = [''https://b'']" "e_proxies demo_env_wa = []"
  by (simp_all add: demo_env_wa_def rp_id_def)

lemma demo_rp_length [simp]: "length (bytes_of demo_rp) = 32"
  by (simp add: bytes_of_def demo_rp_def)

lemma demo_challenge: "normalizeChallenge ''AAAA'' = ''AAAA''"
proof -
  have "base64RawURL [0, 0, 0] = ''AAAA''" by code_simp
  then show ?thesis using decodeB64URL_base64 [of "[0, 0, 0]"] by (simp add: normalizeChallenge_def)
qed

lemma demo_origin: "allowedOrigin demo_env_wa ''https://b/''"
  by (simp add: allowedOrigin_def trim_slashes_def TrimRightChars_def)

lemma demo_auth_data_facts:
  "37 \<le> length (demo_auth_data f n m)" "take 32 (demo_auth_data f n m) = bytes_of demo_rp"
  "demo_auth_data f n m ! 32 = f" "sign_count_of (demo_auth_data f n m) = word_of_nat (unat n)"
  by (simp_all add: demo_auth_data_def sign_count_of_def nth_append be_nat_def)

lemma demo_verify_credential:
  assumes "k < unat n" 
  shows "verify_with_credential demo_env_wa (demo_assertion n) [2] (demo_passkey (word_of_nat k)) = Inr (word_of_nat (unat n))"
proof -
  have d: "demo_auth_data 5 n [] \<noteq> []" using demo_auth_data_facts(1) [of 5 n "[]"] by auto
  have "verifyAssertionAuthData demo_lib (demo_auth_data 5 n []) demo_rp = Inr (word_of_nat (unat n))"
    using demo_auth_data_facts [of 5 n "[]"]
    by (simp add: verifyAssertionAuthData_Inr authDataFlagUP_def authDataFlagUV_def)
  moreover have "unat n < 256" using unat_byte .
  then have "(word_of_nat k :: 32 word) < word_of_nat (unat n)"
    using assms by (simp add: word_less_nat_alt unat_of_nat unsigned_ucast_eq take_bit_eq_mod)
  moreover have "publicKeyFromStored demo_lib (demo_passkey (word_of_nat k)) = Inr (1, 2)"
    by (simp add: publicKeyFromStored_def demo_passkey_def decodeB64URL_base64 be_nat_def Let_def
        del: base64RawURL.simps)
  ultimately show ?thesis
    using d by (simp add: verify_with_credential_def demo_assertion_def decodeB64URL_base64 assertion_digest_def
        demo_passkey_def not_le del: base64RawURL.simps)
qed

lemma demo_assert:
  assumes "GetUser ''alice'' (st_db s) = Some user" and "u_WebAuthnCredentials user = [demo_passkey (word_of_nat k)]"
    and "k < unat n" and "g_json_clientData demo_lib [2] = Some cd"
    and "on_db (UpdateWebAuthnSignCount ''alice'' (base64RawURL [9]) (word_of_nat (unat n))) s = (Inr u, s')"
  shows "verifyWebAuthnAssertion demo_env_wa (demo_assertion n) ''alice'' ''AAAA'' [2] cd s = (Inr (), s')"
proof -
  have cd: "cd_Type cd = ''webauthn.get''" "cd_Challenge cd = ''AAAA''" "cd_Origin cd = ''https://b/''" "\<not> cd_CrossOrigin cd"
    using assms(4) by auto
  have sel: "wl_RawID (demo_assertion n) = base64RawURL [9]" "wl_UserHandle (demo_assertion n) = []"
    "wc_IDBase64URL (demo_passkey m) = base64RawURL [9]" for m
    by (simp_all add: demo_assertion_def demo_passkey_def)
  have h: "user_handle_error (demo_assertion n) ''alice'' = None"
    by (simp add: user_handle_error_def sel TrimSpace_plain)
  show ?thesis
    using assms(1,2,5) demo_verify_credential [OF assms(3)]
    by (simp add: verifyWebAuthnAssertion_def cd demo_challenge demo_origin sel h decodeB64URL_base64 Let_def
        del: base64RawURL.simps)
qed

definition demo_wa_request :: http_request where
  "demo_wa_request = demo_request\<lparr>r_JSON_assertion := \<lambda>_. (Some (demo_assertion 7), AtEOF)\<rparr>"

lemma demo_wa_login:
  obtains resp s' where "handleWebAuthnLoginFinish demo_env_wa demo_wa_request (demo_st\<lparr>st_db := demo_wa_db 6\<rparr>) = (resp, s')"
    and "db_sessions (st_db s') \<noteq> []"
proof -
  let ?s = "demo_st\<lparr>st_db := demo_wa_db 6\<rparr>"
  let ?ch = "challenge_record demo_env ''alice'' ''AAAA''"
  let ?user = "(new_StoredUser ''alice'')\<lparr>u_WebAuthnCredentials := [demo_passkey 6]\<rparr>"
  obtain cd where cd: "g_json_clientData demo_lib [2] = Some cd" "cd_Challenge cd = ''AAAA''" by simp
  define s1 where "s1 = ?s\<lparr>st_db := (demo_wa_db 6)\<lparr>db_webauthnLog := []\<rparr>\<rparr>"
  have c: "on_db (ConsumeWebAuthnLogin ''AAAA'') ?s = (Inr (Some ?ch), s1)"
    by (simp add: on_db_eq ConsumeWebAuthnLogin_def consume_Inr_Some demo_wa_db_def bget_def bdel_def empty_Store_def s1_def)
  have al: "login_allow demo_env_wa key s1 = ((True, 0), s1)" for key
    by (simp add: login_allow_def allow_def demo_limiter_def newLoginRateLimiter_def s1_def)
  have u: "GetUser ''alice'' (st_db s1) = Some ?user"
    by (simp add: s1_def demo_wa_db_def GetUser_def db_view_def getUserTx_def getJSON_def bget_def empty_Store_def)
  have id: "wc_IDBase64URL (demo_passkey 6) = base64RawURL [9]" by (simp add: demo_passkey_def)
  have "fst (on_db (UpdateWebAuthnSignCount ''alice'' (base64RawURL [9]) (word_of_nat (unat (7 :: byte)))) s1) = Inr ()"
    by (simp add: s1_def demo_wa_db_def UpdateWebAuthnSignCount_def db_update_def getUserTx_def getJSON_def
        bget_def empty_Store_def put_user_def putJSON_def id del: base64RawURL.simps)
  then obtain s2 where up: "on_db (UpdateWebAuthnSignCount ''alice'' (base64RawURL [9]) (word_of_nat (unat (7 :: byte)))) s1 = (Inr (), s2)"
    by (metis prod.collapse)
  have "verifyWebAuthnAssertion demo_env_wa (demo_assertion 7) ''alice'' ''AAAA'' [2] cd s1 = (Inr (), s2)"
    by (rule demo_assert [of _ _ 6, OF u _ _ cd(1) up]) simp_all
  note v = this
  let ?key = "loginRateKey demo_env_wa demo_wa_request ''alice''"
  have "db_open (st_db s2)"
    using UpdateWebAuthnSignCount_frame [OF up] by (auto simp: s1_def demo_wa_db_def empty_Store_def)
  then have "\<exists>sess s3. createSession demo_env_wa ''alice'' True [''hwk'', ''mfa''] (login_success ?key s2) = (Inr sess, s3)"
    by (simp add: createSession_def randomB64_def on_db_def PutSession_def db_update_def putJSON_def Let_def
        login_success_def demo_env_wa_def)
  then obtain sess s3 where cs: "createSession demo_env_wa ''alice'' True [''hwk'', ''mfa''] (login_success ?key s2) = (Inr sess, s3)"
    by blast
  obtain resp s' where h: "handleWebAuthnLoginFinish demo_env_wa demo_wa_request ?s = (resp, s')" by fastforce
  have j: "decodeSingleJSON (r_JSON_assertion demo_wa_request m) = Some (demo_assertion 7)" for m
    by (simp add: demo_wa_request_def decodeSingleJSON_def)
  have k: "wl_ClientDataJSON (demo_assertion 7) = base64RawURL [2]" by (simp add: demo_assertion_def)
  have chs: "ch_UserID ?ch = ''alice''" "ch_Challenge ?ch = ''AAAA''" "e_now demo_env_wa \<le> ch_ExpiresAt ?ch"
    by (simp_all add: challenge_record_def)
  have "webauthn_login_with demo_env_wa demo_wa_request (demo_assertion 7) [2] cd (Some ?ch) s1 = (resp, s')"
    using h cd c
    by (simp add: handleWebAuthnLoginFinish_def j k decodeB64URL_base64 demo_challenge del: base64RawURL.simps)
  then have "st_db s' = st_db s3"
    using chs v cs by (auto simp: webauthn_login_with_def Let_def al)
  then have "db_sessions (st_db s') \<noteq> []"
    using createSession_db [OF cs] by (auto simp: bput_not_Nil)
  with h show thesis by (rule that)
qed


theorem webauthn_replay_refused_witness:
  "\<exists>resp s1 resp2 s2.
     handleWebAuthnLoginFinish demo_env_wa demo_wa_request (demo_st\<lparr>st_db := demo_wa_db 6\<rparr>) = (resp, s1) \<and>
     db_sessions (st_db s1) \<noteq> [] \<and>
     handleWebAuthnLoginFinish (demo_env_wa\<lparr>e_now := 1001 * Second\<rparr>) demo_wa_request s1 = (resp2, s2) \<and>
     db_sessions (st_db s2) = db_sessions (st_db s1)"
proof -
  obtain resp s1 where h: "handleWebAuthnLoginFinish demo_env_wa demo_wa_request (demo_st\<lparr>st_db := demo_wa_db 6\<rparr>) = (resp, s1)"
    and n: "db_sessions (st_db s1) \<noteq> []" by (rule demo_wa_login)
  obtain resp2 s2 where h2: "handleWebAuthnLoginFinish (demo_env_wa\<lparr>e_now := 1001 * Second\<rparr>) demo_wa_request s1 = (resp2, s2)"
    by fastforce
  have "db_sessions (st_db s1) \<noteq> db_sessions (st_db (demo_st\<lparr>st_db := demo_wa_db 6\<rparr>))"
    using n by (simp add: demo_wa_db_def empty_Store_def)
  from webauthn_replay_refused [OF h this h2] h n h2 show ?thesis by blast
qed

theorem webauthn_counter_increases_witness:
  "sign_count_of (demo_auth_data 5 8 []) > sign_count_of (demo_auth_data 5 7 [])"
proof -
  let ?s = "demo_st\<lparr>st_db := demo_wa_db 6\<rparr>"
  obtain cd where cd: "g_json_clientData demo_lib [2] = Some cd" by simp
  have id: "wc_IDBase64URL (demo_passkey n) = base64RawURL [9]" for n by (simp add: demo_passkey_def)
  have set: "(demo_passkey m)\<lparr>wc_SignCount := n\<rparr> = demo_passkey n" for n m
    by (simp add: demo_passkey_def)
  have db: "on_db (UpdateWebAuthnSignCount ''alice'' (base64RawURL [9]) n) (demo_st\<lparr>st_db := demo_wa_db m\<rparr>) =
      (Inr (), demo_st\<lparr>st_db := demo_wa_db n\<rparr>)" for n m
    by (simp add: demo_wa_db_def UpdateWebAuthnSignCount_def on_db_eq db_update_def getUserTx_def getJSON_def
        bget_def empty_Store_def put_user_def putJSON_def id set del: base64RawURL.simps)
  have u: "GetUser ''alice'' (st_db (demo_st\<lparr>st_db := demo_wa_db m\<rparr>)) =
      Some ((new_StoredUser ''alice'')\<lparr>u_WebAuthnCredentials := [demo_passkey m]\<rparr>)" for m
    by (simp add: demo_wa_db_def GetUser_def db_view_def getUserTx_def getJSON_def bget_def empty_Store_def)
  have v: "verifyWebAuthnAssertion demo_env_wa (demo_assertion n) ''alice'' ''AAAA'' [2] cd
      (demo_st\<lparr>st_db := demo_wa_db (word_of_nat k)\<rparr>) = (Inr (), demo_st\<lparr>st_db := demo_wa_db (word_of_nat (unat n))\<rparr>)"
    if "k < unat n" for n k
    by (rule demo_assert [OF u _ that cd db]) simp
  have d: "decodeB64URL (wl_AuthenticatorData (demo_assertion n)) = Inr (demo_auth_data 5 n [])" for n
    using demo_auth_data_facts(1) [of 5 n "[]"] by (auto simp: demo_assertion_def intro!: decodeB64URL_base64)
  have r: "decodeB64URL (wl_RawID (demo_assertion 8)) = decodeB64URL (wl_RawID (demo_assertion 7))"
    by (simp add: demo_assertion_def)
  have v1: "verifyWebAuthnAssertion demo_env_wa (demo_assertion 7) ''alice'' ''AAAA'' [2] cd
      (demo_st\<lparr>st_db := demo_wa_db (word_of_nat 6)\<rparr>) = (Inr (), demo_st\<lparr>st_db := demo_wa_db (word_of_nat 7)\<rparr>)"
    and v2: "verifyWebAuthnAssertion demo_env_wa (demo_assertion 8) ''alice'' ''AAAA'' [2] cd
      (demo_st\<lparr>st_db := demo_wa_db (word_of_nat 7)\<rparr>) = (Inr (), demo_st\<lparr>st_db := demo_wa_db (word_of_nat 8)\<rparr>)"
    using v [of 6 7] v [of 7 8] by simp_all
  show ?thesis
    by (rule webauthn_counter_increases [OF v1 refl v2 r d d]) (simp add: demo_auth_data_facts)
qed

text \<open>Attested data with the key (1, 2), which the demo curve accepts.\<close>

definition demo_attested :: "byte list" where
  "demo_attested = demo_auth_data 0x45 0 (replicate 16 0 @ [0, 1, 9] @ encodeCBOR demo_cose)"

lemma demo_cose_parse: "parseCBOR (encodeCBOR demo_cose) = Inr (demo_cose, [])"
proof -
  have m: "maxCBORDepth = Suc (Suc 30)" by (simp add: maxCBORDepth_def)
  have "encodable maxCBORDepth demo_cose"
    unfolding m encodable.simps(2) by (simp add: demo_cose_def encodable_key_def int64_def)
  then have "parseCBORDepth (encodeCBOR demo_cose @ []) 0 = Inr (demo_cose, [])"
    by (intro parse_encode) simp
  then show ?thesis by (simp add: parseCBOR_def)
qed

lemma demo_cose_key: "parseCOSEES256PublicKey demo_lib (encodeCBOR demo_cose) = Inr (1, 2)"
  by (simp add: parseCOSEES256PublicKey_def demo_cose_parse)
    (simp add: demo_cose_def cborGetInt_def cbor_int_def cbor_bytes_def be_nat_def Let_def)

lemma demo_attested_parse:
  "parseAttestedAuthData demo_lib demo_attested demo_rp =
     Inr \<lparr>pa_SignCount = 0, pa_CredentialID = [9], pa_COSEPublicKey = encodeCBOR demo_cose\<rparr>"
proof -
  have "encodeCBOR demo_cose \<noteq> []" using encodeCBOR_pos [of demo_cose] by auto
  then show ?thesis
    using demo_auth_data_facts [of "0x45" 0 "replicate 16 0 @ [0, 1, 9] @ encodeCBOR demo_cose"]
    by (simp add: parseAttestedAuthData_def rp_hash_matches_def demo_attested_def Let_def
        authDataFlagUP_def authDataFlagUV_def authDataFlagAT_def demo_auth_data_def be_nat_def)
qed

theorem webauthn_key_roundtrip_witness:
  "\<exists>cred. attested_credential demo_env_wa [9] demo_attested = Inr cred \<and>
     publicKeyFromStored demo_lib cred = Inr (1, 2)"
proof -
  obtain cred where c: "attested_credential demo_env_wa [9] demo_attested = Inr cred"
    by (simp add: attested_credential_def demo_attested_parse demo_cose_key)
  have p: "parseAttestedAuthData (e_lib demo_env_wa) demo_attested (rp_id demo_env_wa) =
     Inr \<lparr>pa_SignCount = 0, pa_CredentialID = [9], pa_COSEPublicKey = encodeCBOR demo_cose\<rparr>"
    by (simp add: demo_attested_parse)
  have "parseCOSEES256PublicKey (e_lib demo_env_wa)
      (pa_COSEPublicKey \<lparr>pa_SignCount = 0, pa_CredentialID = [9], pa_COSEPublicKey = encodeCBOR demo_cose\<rparr>) = Inr (1, 2)"
    by (simp add: demo_cose_key)
  from webauthn_key_roundtrip [OF c p this] c show ?thesis by simp
qed

definition demo_att_object :: cborValue where
  "demo_att_object = CMap [(StrKey ''fmt'', CString ''none''), (StrKey ''authData'', CBytes demo_attested)]"

definition demo_attestation :: webauthnAttestationResponse where
  "demo_attestation = \<lparr>wr_ID = [], wr_RawID = base64RawURL [9], wr_Type = [], wr_ClientDataJSON = base64RawURL [1],
     wr_AttestationObject = base64RawURL (encodeCBOR demo_att_object)\<rparr>"

definition demo_reg_request :: http_request where
  "demo_reg_request = demo_request\<lparr>r_Cookie := [sessionCookieName \<mapsto> ''sid''],
     r_Header := (\<lambda>_. [])(csrfHeaderName := ''tok''),
     r_JSON_attestation := \<lambda>_. (Some demo_attestation, AtEOF)\<rparr>"

definition demo_reg_db :: Store where
  "demo_reg_db = empty_Store\<lparr>db_sessions := [(''sid'', Json demo_reauthed)],
     db_webauthnReg := [(''AAAA'', Json (challenge_record demo_env ''alice'' ''AAAA''))]\<rparr>"

lemma demo_att_parse: "attestation_auth_data (encodeCBOR demo_att_object) = Inr demo_attested"
proof -
  have m: "maxCBORDepth = Suc (Suc 30)" by (simp add: maxCBORDepth_def)
  have "length (encodeCBOR demo_cose) < 1000"
    by (simp add: demo_cose_def encode_key_def encode_int_def cbor_head_def)
  then have "length demo_attested < 2 ^ 64"
    by (simp add: demo_attested_def demo_auth_data_def)
  then have "encodable maxCBORDepth demo_att_object"
    unfolding m encodable.simps(2) by (simp add: demo_att_object_def encodable_key_def)
  then have "parseCBORDepth (encodeCBOR demo_att_object @ []) 0 = Inr (demo_att_object, [])"
    by (intro parse_encode) simp
  then have "parseCBOR (encodeCBOR demo_att_object) = Inr (demo_att_object, [])" by (simp add: parseCBOR_def)
  then show ?thesis
    by (simp add: attestation_auth_data_def Let_def)
      (simp add: demo_att_object_def cbor_map_def cborGetString_def cbor_str_def cbor_bytes_def)
qed

lemma demo_reg_attestation: "\<exists>cred. verifyWebAuthnAttestation demo_env_wa demo_attestation ''AAAA'' = Inr cred"
proof -
  have ne: "encodeCBOR demo_att_object \<noteq> []" using encodeCBOR_pos [of demo_att_object] by auto
  have sel: "wr_RawID demo_attestation = base64RawURL [9]" "wr_ClientDataJSON demo_attestation = base64RawURL [1]"
    "wr_AttestationObject demo_attestation = base64RawURL (encodeCBOR demo_att_object)"
    by (simp_all add: demo_attestation_def)
  have "\<exists>cred. attested_credential demo_env_wa [9] demo_attested = Inr cred"
    by (simp add: attested_credential_def demo_attested_parse demo_cose_key)
  then show ?thesis
    using ne by (simp add: verifyWebAuthnAttestation_def sel decodeB64URL_base64 demo_challenge demo_origin demo_att_parse
        del: base64RawURL.simps)
qed

theorem webauthn_register_sound_witness:
  "\<exists>resp s' cred. handleWebAuthnRegisterFinish demo_env_wa demo_reg_request (demo_st\<lparr>st_db := demo_reg_db\<rparr>) = (resp, s') \<and>
     credential_attested demo_env_wa demo_attestation cred"
proof -
  let ?s = "demo_st\<lparr>st_db := demo_reg_db\<rparr>"
  let ?ch = "challenge_record demo_env ''alice'' ''AAAA''"
  obtain resp s' where h: "handleWebAuthnRegisterFinish demo_env_wa demo_reg_request ?s = (resp, s')" by fastforce
  obtain cred where cred: "verifyWebAuthnAttestation demo_env_wa demo_attestation ''AAAA'' = Inr cred"
    using demo_reg_attestation by blast
  have v: "validSession demo_env_wa demo_reg_request ?s = (Some demo_reauthed, ?s)"
    by (simp add: validSession_def session_id_def demo_reg_request_def load_session_def GetSession_def
        db_view_def getJSON_def bget_def demo_reg_db_def empty_Store_def session_expired_def
        demo_reauthed_def zero_Session_def IsZero_def sessionCookieName_def)
  have csrf: "requireSessionCSRF demo_reg_request (\<lambda>_. []) demo_reauthed = None"
    by (simp add: requireSessionCSRF_def verifySessionCSRF_def csrfTokenMatches_def demo_reg_request_def
        demo_reauthed_def zero_Session_def Let_def)
  have re: "sessionRecentlyReAuthenticated demo_env_wa demo_reauthed"
    using demo_totp_guards(2) by (simp add: sessionRecentlyReAuthenticated_def)
  define s3 where "s3 = snd (maybeExtendSession demo_env_wa demo_reg_request ?s)"
  have "session_frame ?s s3" unfolding s3_def by (rule maybeExtendSession_frame [OF surjective_pairing])
  then obtain bs where f3: "st_db s3 = demo_reg_db\<lparr>db_sessions := bs\<rparr>" by (auto simp: session_frame_ex)
  have j: "decodeSingleJSON (r_JSON_attestation demo_reg_request m) = Some demo_attestation" for m
    by (simp add: demo_reg_request_def decodeSingleJSON_def)
  have k: "wr_ClientDataJSON demo_attestation = base64RawURL [1]" by (simp add: demo_attestation_def)
  obtain cd where cd: "g_json_clientData demo_lib [1] = Some cd" "cd_Challenge cd = ''AAAA''" by simp
  define s4 where "s4 = s3\<lparr>st_db := (st_db s3)\<lparr>db_webauthnReg := []\<rparr>\<rparr>"
  have c: "on_db (ConsumeWebAuthnRegistration ''AAAA'') s3 = (Inr (Some ?ch), s4)"
    by (simp add: on_db_eq ConsumeWebAuthnRegistration_def consume_Inr_Some f3 demo_reg_db_def bget_def bdel_def
        empty_Store_def s4_def)
  obtain s5 where a: "on_db (AddWebAuthnCredential ''alice'' cred) s4 = (Inr (), s5)"
    by (simp add: on_db_eq AddWebAuthnCredential_def db_update_def getUserTx_def getJSON_def bget_def s4_def f3
        demo_reg_db_def empty_Store_def user_or_new_def new_StoredUser_def put_user_def putJSON_def Let_def)
  have u: "s_UserID demo_reauthed = ''alice''" "ch_UserID ?ch = ''alice''" "ch_Challenge ?ch = ''AAAA''"
    "ch_ExpiresAt ?ch = 1300 * Second"
    by (simp_all add: demo_reauthed_def challenge_record_def)
  have "st_db s' = st_db s5"
    using h cd c a cred
    by (auto simp: handleWebAuthnRegisterFinish_def v csrf requireRecentReAuth_def re s3_def [symmetric] j k
        decodeB64URL_base64 demo_challenge u Let_def simp del: base64RawURL.simps)
  moreover have "db_users (st_db s5) \<noteq> []"
    using AddWebAuthnCredential_Inr [OF a] by (auto simp: bput_not_Nil)
  ultimately have "db_users (st_db s') \<noteq> db_users (st_db ?s)" by (simp add: demo_reg_db_def empty_Store_def)
  from webauthn_register_sound [OF h this] h show ?thesis using j by auto
qed

end
