(* ===== verification/SigningKeys.thy ===== *)
theory SigningKeys
  imports Jwt
begin

text \<open>
  The RSA signing keys (\<^verbatim>\<open>signing_keys.go\<close>): the key set built from the configuration, and the
  managed key set in the store with its rotation and pruning.  PEM, PKCS and key generation are
  fields of \<open>golib\<close>, and so is \<^verbatim>\<open>AddDate\<close>, which follows the local time zone.  What is random
  is drawn with a counter, as elsewhere.  A method that changes its receiver returns the changed
  value.
\<close>

section \<open>Errors\<close>

datatype key_error =
    KeyGeneration | NoPEMBlock | BadPKCS1 | BadPKCS8 | NotRSA
  | ActiveIDRequired | KeyIDRequired nat | KeyPEMRequired string | DuplicateKeyID string
  | UnparsableKey string key_error | ActiveRetired string | ActiveNotFound string
  | TooManyActive nat | NoneActive nat | NoKeyMatches string | NotOneActive nat
  | KeyStore store_error | LegacyRead | LegacyJSON | LegacyRename

section \<open>Keys as PEM\<close>

definition parseRSAPrivateKeyPEM :: "golib \<Rightarrow> byte list \<Rightarrow> key_error + rsa_PrivateKey" where
  "parseRSAPrivateKeyPEM G b =
     (case g_pem_Decode G b of
        None \<Rightarrow> Inl NoPEMBlock
      | Some (typ, der) \<Rightarrow>
          if typ = ''RSA PRIVATE KEY''
          then (case g_ParsePKCS1 G der of None \<Rightarrow> Inl BadPKCS1 | Some k \<Rightarrow> Inr k)
          else (case g_ParsePKCS8 G der of
                  None \<Rightarrow> Inl BadPKCS8 | Some None \<Rightarrow> Inl NotRSA | Some (Some k) \<Rightarrow> Inr k))"

definition marshalRSAPrivateKeyPEM :: "golib \<Rightarrow> rsa_PrivateKey \<Rightarrow> byte list option" where
  "marshalRSAPrivateKeyPEM G key = g_pem_Encode G (''RSA PRIVATE KEY'', g_MarshalPKCS1 G key)"

section \<open>Key identifiers\<close>

text \<open>A byte beyond ASCII belongs to a rune that is none of the kept ones.\<close>

definition key_id_char :: "char \<Rightarrow> bool" where
  "key_id_char c =
     (97 \<le> code c \<and> code c \<le> 122 \<or> 65 \<le> code c \<and> code c \<le> 90 \<or> 48 \<le> code c \<and> code c \<le> 57 \<or>
      c = CHR ''-'' \<or> c = CHR ''_'')"

definition sanitizeKeyIDPrefix :: "string \<Rightarrow> string" where
  "sanitizeKeyIDPrefix prefix = TrimChars {CHR ''-'', CHR ''_''} (filter key_id_char (TrimSpace prefix))"

definition newSigningKeyID :: "golib \<Rightarrow> string \<Rightarrow> time \<Rightarrow> nat \<Rightarrow> string \<times> nat" where
  "newSigningKeyID G prefix now n =
     (let prefix = sanitizeKeyIDPrefix prefix;
          prefix = (if prefix = [] then ''broker-key'' else prefix)
      in (prefix @ ''-'' @ g_Format G ''20060102T150405Z'' now @ ''-'' @ base64RawURL (g_entropy G n 6), n + 1))"

definition newManagedSigningKey ::
  "golib \<Rightarrow> string \<Rightarrow> time \<Rightarrow> nat \<Rightarrow> (key_error + managedSigningKey) \<times> nat" where
  "newManagedSigningKey G keyIDPrefix now n =
     (case g_GenerateKey G n of
        None \<Rightarrow> (Inl KeyGeneration, n + 1)
      | Some key \<Rightarrow>
          (case marshalRSAPrivateKeyPEM G key of
             None \<Rightarrow> (Inl KeyGeneration, n + 1)
           | Some keyPEM \<Rightarrow>
               (case newSigningKeyID G keyIDPrefix now (n + 1) of (keyID, n') \<Rightarrow>
                  (Inr \<lparr>mk_KeyID = keyID, mk_SigningKeyPEM = string_of keyPEM, mk_CreatedAt = Unix now,
                        mk_RetiredAt = 0\<rparr>, n'))))"

section \<open>The managed key set\<close>

definition validateManagedSigningKey ::
  "golib \<Rightarrow> managedSigningKey \<Rightarrow> nat \<Rightarrow> string set \<Rightarrow> key_error option \<times> string set" where
  "validateManagedSigningKey G key index seen =
     (if TrimSpace (mk_KeyID key) = [] then (Some (KeyIDRequired index), seen)
      else if mk_KeyID key \<in> seen then (Some (DuplicateKeyID (mk_KeyID key)), seen)
      else let seen = insert (mk_KeyID key) seen in
        if TrimSpace (mk_SigningKeyPEM key) = [] then (Some (KeyPEMRequired (mk_KeyID key)), seen)
        else (case parseRSAPrivateKeyPEM G (bytes_of (mk_SigningKeyPEM key)) of
                Inl err \<Rightarrow> (Some (UnparsableKey (mk_KeyID key) err), seen)
              | Inr _ \<Rightarrow> (None, seen)))"

fun validate_keys ::
  "golib \<Rightarrow> string \<Rightarrow> managedSigningKey list \<Rightarrow> nat \<Rightarrow> string set \<Rightarrow> bool \<Rightarrow> key_error + bool" where
  "validate_keys G active [] i seen activeSeen = Inr activeSeen"
| "validate_keys G active (key # keys) i seen activeSeen =
     (case validateManagedSigningKey G key i seen of
        (Some err, _) \<Rightarrow> Inl err
      | (None, seen') \<Rightarrow>
          if mk_KeyID key = active then
            (if mk_RetiredAt key \<noteq> 0 then Inl (ActiveRetired (mk_KeyID key))
             else validate_keys G active keys (i + 1) seen' True)
          else validate_keys G active keys (i + 1) seen' activeSeen)"

definition validate :: "golib \<Rightarrow> managedSigningKeySet \<Rightarrow> key_error option" where
  "validate G s =
     (if TrimSpace (ks_ActiveKeyID s) = [] then Some ActiveIDRequired
      else case validate_keys G (ks_ActiveKeyID s) (ks_Keys s) 0 {} False of
          Inl err \<Rightarrow> Some err
        | Inr activeSeen \<Rightarrow> if \<not> activeSeen then Some (ActiveNotFound (ks_ActiveKeyID s)) else None)"

text \<open>The index of the first key with the active identifier; -1 is \<open>None\<close>.\<close>

fun index_of :: "('a \<Rightarrow> bool) \<Rightarrow> 'a list \<Rightarrow> nat option" where
  "index_of P [] = None"
| "index_of P (x # xs) = (if P x then Some 0 else map_option Suc (index_of P xs))"

definition activeIndex :: "managedSigningKeySet \<Rightarrow> nat option" where
  "activeIndex s = index_of (\<lambda>key. mk_KeyID key = ks_ActiveKeyID s) (ks_Keys s)"

definition shouldRotateSigningKey :: "golib \<Rightarrow> managedSigningKey \<Rightarrow> int \<Rightarrow> bool \<Rightarrow> time \<Rightarrow> bool" where
  "shouldRotateSigningKey G key rotationDays forceRotate now =
     (if forceRotate then True
      else if rotationDays \<le> 0 then False
      else if mk_CreatedAt key \<le> 0 then False
      else \<not> now < g_AddDays G (unix_time (mk_CreatedAt key)) rotationDays)"

definition prunable :: "string \<Rightarrow> int \<Rightarrow> managedSigningKey \<Rightarrow> bool" where
  "prunable active cutoff key = (mk_KeyID key \<noteq> active \<and> mk_RetiredAt key \<noteq> 0 \<and> mk_RetiredAt key < cutoff)"

definition prune :: "golib \<Rightarrow> int \<Rightarrow> time \<Rightarrow> managedSigningKeySet \<Rightarrow> bool \<times> managedSigningKeySet" where
  "prune G retentionDays now s =
     (if retentionDays < 0 then (False, s)
      else let cutoff = Unix (g_AddDays G now (- retentionDays));
               gone = prunable (ks_ActiveKeyID s) cutoff
           in (\<exists>key \<in> set (ks_Keys s). gone key, s\<lparr>ks_Keys := filter (\<lambda>key. \<not> gone key) (ks_Keys s)\<rparr>))"

text \<open>Retiring the active key and appending a new one.\<close>

definition rotate_keys :: "nat \<Rightarrow> time \<Rightarrow> managedSigningKey \<Rightarrow> managedSigningKeySet \<Rightarrow> managedSigningKeySet" where
  "rotate_keys i now key s =
     s\<lparr>ks_ActiveKeyID := mk_KeyID key,
       ks_Keys := (ks_Keys s)[i := (ks_Keys s ! i)\<lparr>mk_RetiredAt := Unix now\<rparr>] @ [key]\<rparr>"

definition rotateAndPrune ::
  "golib \<Rightarrow> string \<Rightarrow> int \<Rightarrow> int \<Rightarrow> bool \<Rightarrow> time \<Rightarrow> managedSigningKeySet \<Rightarrow> nat \<Rightarrow>
    (key_error + bool \<times> managedSigningKeySet) \<times> nat" where
  "rotateAndPrune G keyIDPrefix rotationDays retentionDays forceRotate now s n =
     (let createdInitial = (ks_Keys s = []) in
      case (if createdInitial
            then (case newManagedSigningKey G keyIDPrefix now n of
                    (Inl err, n1) \<Rightarrow> (Inl err, n1)
                  | (Inr key, n1) \<Rightarrow> (Inr (s\<lparr>ks_ActiveKeyID := mk_KeyID key, ks_Keys := [key]\<rparr>), n1))
            else (Inr s, n)) of
        (Inl err, n1) \<Rightarrow> (Inl err, n1)
      | (Inr s1, n1) \<Rightarrow>
          (case validate G s1 of
             Some err \<Rightarrow> (Inl err, n1)
           | None \<Rightarrow>
               (case activeIndex s1 of
                  None \<Rightarrow> (Inl (ActiveNotFound (ks_ActiveKeyID s1)), n1)
                | Some i \<Rightarrow>
                    (case (if \<not> createdInitial \<and>
                              shouldRotateSigningKey G (ks_Keys s1 ! i) rotationDays forceRotate now
                           then (case newManagedSigningKey G keyIDPrefix now n1 of
                                   (Inl err, n2) \<Rightarrow> (Inl err, n2)
                                 | (Inr key, n2) \<Rightarrow> (Inr (True, rotate_keys i now key s1), n2))
                           else (Inr (createdInitial, s1), n1)) of
                       (Inl err, n2) \<Rightarrow> (Inl err, n2)
                     | (Inr (changed, s2), n2) \<Rightarrow>
                         (case prune G retentionDays now s2 of (pruned, s3) \<Rightarrow>
                            (case validate G s3 of
                               Some err \<Rightarrow> (Inl err, n2)
                             | None \<Rightarrow> (Inr (changed \<or> pruned, s3), n2)))))))"

definition signingKeyConfigs :: "managedSigningKeySet \<Rightarrow> SigningKeyConfig list" where
  "signingKeyConfigs s =
     map (\<lambda>key. \<lparr>sk_KeyID = mk_KeyID key, sk_SigningKeyPEM = mk_SigningKeyPEM key,
                sk_Active = (mk_KeyID key = ks_ActiveKeyID s)\<rparr>) (ks_Keys s)"

section \<open>Preparing the keys at start-up\<close>

datatype signingKeySetSource = sourceGenerated | sourceMigrated | sourceStore

text \<open>
  The legacy key file: what reading it gives (the decoded key set, if it is valid JSON), and whether
  renaming it succeeds.
\<close>

datatype file_read = NotExist | ReadError | FileBytes "managedSigningKeySet option"

record legacy_file =
  lf_read :: file_read
  lf_rename_ok :: bool

definition migrateLegacySigningKeyFile ::
  "string \<Rightarrow> legacy_file \<Rightarrow> key_error + managedSigningKeySet option" where
  "migrateLegacySigningKeyFile dataDir f =
     (if dataDir = [] then Inr None
      else case lf_read f of
          NotExist \<Rightarrow> Inr None
        | ReadError \<Rightarrow> Inl LegacyRead
        | FileBytes None \<Rightarrow> Inl LegacyJSON
        | FileBytes (Some keySet) \<Rightarrow> if lf_rename_ok f then Inr (Some keySet) else Inl LegacyRename)"

definition initialManagedSigningKeySet ::
  "golib \<Rightarrow> string \<Rightarrow> time \<Rightarrow> nat \<Rightarrow> (key_error + managedSigningKeySet) \<times> nat" where
  "initialManagedSigningKeySet G keyIDPrefix now n =
     (case newManagedSigningKey G keyIDPrefix now n of
        (Inl err, n1) \<Rightarrow> (Inl err, n1)
      | (Inr key, n1) \<Rightarrow> (Inr \<lparr>ks_ActiveKeyID = mk_KeyID key, ks_Keys = [key]\<rparr>, n1))"

text \<open>The key set to start from, and where it came from.\<close>

definition load_key_set ::
  "golib \<Rightarrow> legacy_file \<Rightarrow> string \<Rightarrow> Config \<Rightarrow> time \<Rightarrow> Store \<Rightarrow> nat \<Rightarrow>
    (key_error + managedSigningKeySet \<times> signingKeySetSource) \<times> nat" where
  "load_key_set G f dataDir cfg now d n =
     (case GetSigningKeySet d of
        Inl err \<Rightarrow> (Inl (KeyStore err), n)
      | Inr (Some keySet) \<Rightarrow> (Inr (keySet, sourceStore), n)
      | Inr None \<Rightarrow>
          (case migrateLegacySigningKeyFile dataDir f of
             Inl err \<Rightarrow> (Inl err, n)
           | Inr (Some migrated) \<Rightarrow> (Inr (migrated, sourceMigrated), n)
           | Inr None \<Rightarrow>
               (case initialManagedSigningKeySet G (cf_KeyID cfg) now n of
                  (Inl err, n1) \<Rightarrow> (Inl err, n1)
                | (Inr keySet, n1) \<Rightarrow> (Inr (keySet, sourceGenerated), n1))))"

definition prepareManagedSigningKeySet ::
  "golib \<Rightarrow> legacy_file \<Rightarrow> string \<Rightarrow> Config \<Rightarrow> bool \<Rightarrow> time \<Rightarrow> Store \<Rightarrow> nat \<Rightarrow>
    (key_error + managedSigningKeySet \<times> signingKeySetSource \<times> bool) \<times> Store \<times> nat" where
  "prepareManagedSigningKeySet G f dataDir cfg forceRotate now d n =
     (case load_key_set G f dataDir cfg now d n of
        (Inl err, n1) \<Rightarrow> (Inl err, d, n1)
      | (Inr (keySet, source), n1) \<Rightarrow>
          (case rotateAndPrune G (cf_KeyID cfg) (cf_SigningKeyRotationDays cfg) (cf_SigningKeyRetentionDays cfg)
                  (forceRotate \<and> source \<noteq> sourceGenerated) now keySet n1 of
             (Inl err, n2) \<Rightarrow> (Inl err, d, n2)
           | (Inr (changed, keySet'), n2) \<Rightarrow>
               if source \<noteq> sourceStore \<or> changed then
                 (case PutSigningKeySet keySet' d of
                    (Inl err, d1) \<Rightarrow> (Inl (KeyStore err), d1, n2)
                  | (Inr _, d1) \<Rightarrow> (Inr (keySet', source, changed), d1, n2))
               else (Inr (keySet', source, changed), d, n2)))"

text \<open>The store is \<open>None\<close> for a nil pointer; the log line is left out.\<close>

definition prepareSigningKeys ::
  "golib \<Rightarrow> legacy_file \<Rightarrow> string \<Rightarrow> bool \<Rightarrow> time \<Rightarrow> Config \<Rightarrow> Store option \<Rightarrow> nat \<Rightarrow>
    (key_error + Config) \<times> Store option \<times> nat" where
  "prepareSigningKeys G f dataDir forceRotate now cfg store n =
     (if TrimSpace (cf_SigningKeyPEM cfg) \<noteq> [] \<or> cf_SigningKeys cfg \<noteq> [] then (Inr cfg, store, n)
      else case store of
          None \<Rightarrow> (Inr cfg, None, n)
        | Some d \<Rightarrow>
            (case prepareManagedSigningKeySet G f dataDir cfg forceRotate now d n of
               (Inl err, d1, n1) \<Rightarrow> (Inl err, Some d1, n1)
             | (Inr (keySet, _, _), d1, n1) \<Rightarrow>
                 (Inr (cfg\<lparr>cf_SigningKeys := signingKeyConfigs keySet, cf_KeyID := ks_ActiveKeyID keySet\<rparr>),
                  Some d1, n1)))"

section \<open>The key set of the broker\<close>

definition effectiveSigningKeyConfigs :: "Config \<Rightarrow> SigningKeyConfig list" where
  "effectiveSigningKeyConfigs cfg =
     (if cf_SigningKeys cfg \<noteq> [] \<or> TrimSpace (cf_SigningKeyPEM cfg) = [] then cf_SigningKeys cfg
      else [\<lparr>sk_KeyID = cf_KeyID cfg, sk_SigningKeyPEM = cf_SigningKeyPEM cfg, sk_Active = True\<rparr>])"

definition countActiveSigningKeyConfigs :: "SigningKeyConfig list \<Rightarrow> nat" where
  "countActiveSigningKeyConfigs cs = length (filter sk_Active cs)"

definition parseSigningKeyConfig ::
  "golib \<Rightarrow> SigningKeyConfig \<Rightarrow> nat \<Rightarrow> key_error + string \<times> rsa_PrivateKey \<times> claims" where
  "parseSigningKeyConfig G c index =
     (let keyID = TrimSpace (sk_KeyID c); keyPEM = TrimSpace (sk_SigningKeyPEM c) in
      if keyID = [] then Inl (KeyIDRequired index)
      else if keyPEM = [] then Inl (KeyPEMRequired keyID)
      else (case parseRSAPrivateKeyPEM G (bytes_of keyPEM) of
              Inl err \<Rightarrow> Inl (UnparsableKey keyID err)
            | Inr key \<Rightarrow> Inr (keyID, key, makePublicJWK keyID (prv_Public key))))"

definition signingKeyConfigIsActive :: "SigningKeyConfig \<Rightarrow> nat \<Rightarrow> nat \<Rightarrow> string \<Rightarrow> string \<Rightarrow> bool" where
  "signingKeyConfigIsActive c activeFlags keyCount cfgKeyID keyID =
     (if activeFlags > 0 then sk_Active c
      else keyCount = 1 \<or> (cfgKeyID \<noteq> [] \<and> keyID = cfgKeyID))"

definition signingKeySelectionError :: "nat \<Rightarrow> nat \<Rightarrow> string \<Rightarrow> nat \<Rightarrow> key_error" where
  "signingKeySelectionError activeFlags activeCount cfgKeyID keyCount =
     (if activeFlags > 1 then TooManyActive activeFlags
      else if activeFlags = 0 \<and> keyCount > 1 then
        (if TrimSpace cfgKeyID = [] then NoneActive keyCount else NoKeyMatches cfgKeyID)
      else NotOneActive activeCount)"

text \<open>The accumulators of the loop: verification keys, public keys, active key and count.\<close>

fun build_loop ::
  "golib \<Rightarrow> string \<Rightarrow> nat \<Rightarrow> nat \<Rightarrow> SigningKeyConfig list \<Rightarrow> nat \<Rightarrow>
    (string \<rightharpoonup> rsa_PublicKey) \<Rightarrow> claims list \<Rightarrow> signingKey option \<Rightarrow> nat \<Rightarrow>
    key_error + (string \<rightharpoonup> rsa_PublicKey) \<times> claims list \<times> signingKey option \<times> nat" where
  "build_loop G cfgKeyID flags count [] i keys jwks active n = Inr (keys, jwks, active, n)"
| "build_loop G cfgKeyID flags count (c # cs) i keys jwks active n =
     (case parseSigningKeyConfig G c i of
        Inl err \<Rightarrow> Inl err
      | Inr (keyID, key, jwk) \<Rightarrow>
          if keys keyID \<noteq> None then Inl (DuplicateKeyID keyID)
          else let keys' = keys(keyID \<mapsto> prv_Public key); jwks' = jwks @ [jwk] in
            if signingKeyConfigIsActive c flags count cfgKeyID keyID
            then build_loop G cfgKeyID flags count cs (i + 1) keys' jwks'
                   (Some \<lparr>key_ID = keyID, key_Private = key, key_JWK = jwk\<rparr>) (n + 1)
            else build_loop G cfgKeyID flags count cs (i + 1) keys' jwks' active n)"

definition buildSigningKeySet ::
  "golib \<Rightarrow> Config \<Rightarrow> key_error + signingKey option \<times> (string \<rightharpoonup> rsa_PublicKey) \<times> claims list" where
  "buildSigningKeySet G cfg =
     (let cs = effectiveSigningKeyConfigs cfg in
      if cs = [] then Inr (None, Map.empty, [])
      else let flags = countActiveSigningKeyConfigs cs in
        (case build_loop G (cf_KeyID cfg) flags (length cs) cs 0 Map.empty [] None 0 of
           Inl err \<Rightarrow> Inl err
         | Inr (keys, jwks, active, n) \<Rightarrow>
             if n \<noteq> 1 then Inl (signingKeySelectionError flags n (cf_KeyID cfg) (length cs))
             else Inr (active, keys, jwks)))"

section \<open>What a valid key set is\<close>

definition key_ok :: "golib \<Rightarrow> managedSigningKey \<Rightarrow> bool" where
  "key_ok G key \<longleftrightarrow>
     TrimSpace (mk_KeyID key) \<noteq> [] \<and> TrimSpace (mk_SigningKeyPEM key) \<noteq> [] \<and>
     (\<exists>sk. parseRSAPrivateKeyPEM G (bytes_of (mk_SigningKeyPEM key)) = Inr sk)"

definition keyset_ok :: "golib \<Rightarrow> managedSigningKeySet \<Rightarrow> bool" where
  "keyset_ok G s \<longleftrightarrow>
     TrimSpace (ks_ActiveKeyID s) \<noteq> [] \<and> distinct (map mk_KeyID (ks_Keys s)) \<and> (\<forall>key \<in> set (ks_Keys s). key_ok G key) \<and>
     (\<exists>key \<in> set (ks_Keys s). mk_KeyID key = ks_ActiveKeyID s \<and> mk_RetiredAt key = 0)"

lemma validateManagedSigningKey_None:
  "validateManagedSigningKey G key i seen = (None, seen') \<longleftrightarrow>
     key_ok G key \<and> mk_KeyID key \<notin> seen \<and> seen' = insert (mk_KeyID key) seen"
  by (auto simp: validateManagedSigningKey_def key_ok_def Let_def split: sum.splits)

lemma validate_keys_Inr:
  "validate_keys G a keys i seen b = Inr r \<longleftrightarrow>
     (\<forall>key \<in> set keys. key_ok G key \<and> (mk_KeyID key = a \<longrightarrow> mk_RetiredAt key = 0)) \<and>
     distinct (map mk_KeyID keys) \<and> mk_KeyID ` set keys \<inter> seen = {} \<and> r = (b \<or> a \<in> mk_KeyID ` set keys)"
proof (induction G a keys i seen b rule: validate_keys.induct)
  case (2 G a key keys i seen b)
  show ?case
  proof (cases "validateManagedSigningKey G key i seen")
    case (Pair e seen')
    show ?thesis
    proof (cases e)
      case (Some err)
      with Pair have "\<not> (key_ok G key \<and> mk_KeyID key \<notin> seen)"
        using validateManagedSigningKey_None [of G key i seen "insert (mk_KeyID key) seen"] by auto
      with Pair Some show ?thesis by auto
    next
      case None
      with Pair have v: "key_ok G key" "mk_KeyID key \<notin> seen" "seen' = insert (mk_KeyID key) seen"
        by (auto simp: validateManagedSigningKey_None)
      show ?thesis
      proof (cases "mk_KeyID key = a")
        case True
        with Pair None v "2.IH"(1) [OF Pair [symmetric] None] show ?thesis by (auto simp: image_iff)
      next
        case False
        with Pair None v "2.IH"(2) [OF Pair [symmetric] None] show ?thesis by (auto simp: image_iff)
      qed
    qed
  qed
qed auto

text \<open>The check of a key set accepts the valid ones and no others.\<close>

lemma validate_None: "validate G s = None \<longleftrightarrow> keyset_ok G s"
proof -
  let ?a = "ks_ActiveKeyID s" and ?ks = "ks_Keys s"
  have u: "(\<forall>key \<in> set ?ks. mk_KeyID key = ?a \<longrightarrow> mk_RetiredAt key = 0) \<longleftrightarrow>
      (\<exists>key \<in> set ?ks. mk_KeyID key = ?a \<and> mk_RetiredAt key = 0)"
    if "distinct (map mk_KeyID ?ks)" "?a \<in> mk_KeyID ` set ?ks"
    using that by (metis (no_types, lifting) distinct_map imageE inj_onD)
  have "?a \<in> mk_KeyID ` set ?ks" if "keyset_ok G s"
    using that unfolding keyset_ok_def by (metis image_eqI)
  then have "validate_keys G ?a ?ks 0 {} False = Inr True" if "keyset_ok G s"
    using that u unfolding validate_keys_Inr keyset_ok_def by simp
  moreover have "keyset_ok G s" if "validate_keys G ?a ?ks 0 {} False = Inr True" "TrimSpace ?a \<noteq> []"
    using that u by (auto simp: validate_keys_Inr keyset_ok_def)
  moreover have "TrimSpace ?a \<noteq> []" if "keyset_ok G s" using that by (simp add: keyset_ok_def)
  moreover have "validate G s = None \<longleftrightarrow> TrimSpace ?a \<noteq> [] \<and> validate_keys G ?a ?ks 0 {} False = Inr True"
    by (simp add: validate_def split: sum.split)
  ultimately show ?thesis by blast
qed

lemma index_of_Some: "index_of P xs = Some i \<Longrightarrow> i < length xs \<and> P (xs ! i)"
  by (induction xs arbitrary: i) (auto split: if_splits)

lemma index_of_None: "index_of P xs = None \<longleftrightarrow> (\<forall>x \<in> set xs. \<not> P x)"
  by (induction xs) auto

section \<open>Rotation\<close>

text \<open>A run of \<^verbatim>\<open>rotateAndPrune\<close> that succeeds on a set that has keys.\<close>

lemma rotateAndPrune_Inr:
  assumes "rotateAndPrune G p rot ret force now s n = (Inr (changed, s'), n')" and "ks_Keys s \<noteq> []"
  obtains i s2 r where "keyset_ok G s" and "keyset_ok G s'" and "activeIndex s = Some i"
    and "if shouldRotateSigningKey G (ks_Keys s ! i) rot force now
         then \<exists>key. newManagedSigningKey G p now n = (Inr key, n') \<and> r \<and> s2 = rotate_keys i now key s
         else \<not> r \<and> s2 = s \<and> n' = n"
    and "changed = (r \<or> fst (prune G ret now s2))" and "s' = snd (prune G ret now s2)"
proof -
  from assms obtain i where ok: "keyset_ok G s" and i: "activeIndex s = Some i"
    by (auto simp: rotateAndPrune_def validate_None [symmetric] Let_def split: option.splits)
  then have v: "validate G s = None" by (simp add: validate_None)
  show thesis
  proof (cases "shouldRotateSigningKey G (ks_Keys s ! i) rot force now")
    case True
    then obtain key where k: "newManagedSigningKey G p now n = (Inr key, n')"
      using assms v i by (auto simp: rotateAndPrune_def split: prod.splits sum.splits option.splits)
    with True assms v i have "changed" "s' = snd (prune G ret now (rotate_keys i now key s))" "keyset_ok G s'"
      by (auto simp: rotateAndPrune_def validate_None [symmetric] split: prod.splits option.splits)
    with that [of i True "rotate_keys i now key s"] ok i True k show thesis by auto
  next
    case False
    with assms v i have "changed = fst (prune G ret now s)" "s' = snd (prune G ret now s)" "keyset_ok G s'" "n' = n"
      by (auto simp: rotateAndPrune_def validate_None [symmetric] split: prod.splits option.splits)
    with that [of i False s] ok i False show thesis by auto
  qed
qed

lemma prune_keeps:
  assumes "key \<in> set (ks_Keys s)" and "mk_RetiredAt key = 0 \<or> Unix (g_AddDays G now (- ret)) \<le> mk_RetiredAt key"
  shows "key \<in> set (ks_Keys (snd (prune G ret now s)))"
  using assms by (auto simp: prune_def prunable_def Let_def)

lemma Unix_mono: "t \<le> t' \<Longrightarrow> Unix t \<le> Unix t'"
  unfolding Unix_def by (rule zdiv_mono1) simp_all

lemma rotate_keys_old:
  assumes "key \<in> set (ks_Keys s)" and "i < length (ks_Keys s)"
  shows "\<exists>k' \<in> set (ks_Keys (rotate_keys i now new s)). mk_KeyID k' = mk_KeyID key \<and>
     mk_SigningKeyPEM k' = mk_SigningKeyPEM key \<and> (mk_RetiredAt k' = mk_RetiredAt key \<or> mk_RetiredAt k' = Unix now)"
proof -
  from assms(1) obtain j where j: "j < length (ks_Keys s)" "ks_Keys s ! j = key" by (auto simp: in_set_conv_nth)
  let ?ks = "(ks_Keys s)[i := (ks_Keys s ! i)\<lparr>mk_RetiredAt := Unix now\<rparr>]"
  have "?ks ! j \<in> set (ks_Keys (rotate_keys i now new s))"
    using j(1) by (simp add: rotate_keys_def)
  moreover have "mk_KeyID (?ks ! j) = mk_KeyID key \<and> mk_SigningKeyPEM (?ks ! j) = mk_SigningKeyPEM key \<and>
     (mk_RetiredAt (?ks ! j) = mk_RetiredAt key \<or> mk_RetiredAt (?ks ! j) = Unix now)"
    using j by (cases "i = j") auto
  ultimately show ?thesis by blast
qed

text \<open>
  C30. Rotation does not cut off tokens that are still in use: it leaves a valid key set, in which
  every key that was not retired, or was retired no longer ago than the retention period, is still
  present with the same identifier and private key; the key it retires is among them.  The
  calendar must not run forwards when days are subtracted.
\<close>

theorem rotation_continuity:
  assumes "rotateAndPrune G p rot ret force now s n = (Inr (changed, s'), n')" and "key \<in> set (ks_Keys s)"
    and "mk_RetiredAt key = 0 \<or> Unix (g_AddDays G now (- ret)) \<le> mk_RetiredAt key"
    and "0 \<le> ret \<Longrightarrow> g_AddDays G now (- ret) \<le> now"
  shows "keyset_ok G s' \<and>
    (\<exists>k' \<in> set (ks_Keys s'). mk_KeyID k' = mk_KeyID key \<and> mk_SigningKeyPEM k' = mk_SigningKeyPEM key)"
proof -
  from assms(2) have "ks_Keys s \<noteq> []" by auto
  with assms(1) obtain i s2 r where ok: "keyset_ok G s'" and i: "activeIndex s = Some i"
    and step: "if shouldRotateSigningKey G (ks_Keys s ! i) rot force now
         then \<exists>key. newManagedSigningKey G p now n = (Inr key, n') \<and> r \<and> s2 = rotate_keys i now key s
         else \<not> r \<and> s2 = s \<and> n' = n"
    and s': "s' = snd (prune G ret now s2)"
    by (rule rotateAndPrune_Inr)
  have il: "i < length (ks_Keys s)" using index_of_Some i by (fastforce simp: activeIndex_def)
  have "\<exists>k2 \<in> set (ks_Keys s2). mk_KeyID k2 = mk_KeyID key \<and> mk_SigningKeyPEM k2 = mk_SigningKeyPEM key \<and>
     (mk_RetiredAt k2 = mk_RetiredAt key \<or> mk_RetiredAt k2 = Unix now)"
    using step rotate_keys_old [OF assms(2) il] assms(2) by (auto split: if_splits)
  then obtain k2 where k2: "k2 \<in> set (ks_Keys s2)" "mk_KeyID k2 = mk_KeyID key"
    "mk_SigningKeyPEM k2 = mk_SigningKeyPEM key" "mk_RetiredAt k2 = mk_RetiredAt key \<or> mk_RetiredAt k2 = Unix now"
    by blast
  have "k2 \<in> set (ks_Keys s')"
  proof (cases "0 \<le> ret")
    case True
    then show ?thesis using k2 assms(3) Unix_mono [OF assms(4)] unfolding s' by (intro prune_keeps) auto
  next
    case False
    then show ?thesis using k2(1) by (simp add: s' prune_def)
  qed
  with ok k2 show ?thesis by blast
qed

text \<open>Characters that white space never contains survive trimming.\<close>

lemma space_width_no_plain:
  "c \<in> set (take (space_width s) s) \<Longrightarrow> \<not> (33 \<le> code c \<and> code c \<le> 126)"
  by (cases s rule: space_width.cases)
    (auto simp: space_width.simps is_ascii_space_def is_space2_def is_space3_def split: list.splits if_splits)

lemma space_width_rev_no_plain:
  "c \<in> set (take (space_width_rev s) s) \<Longrightarrow> \<not> (33 \<le> code c \<and> code c \<le> 126)"
  by (cases s rule: space_width_rev.cases)
    (auto simp: space_width_rev.simps is_ascii_space_def is_space2_def is_space3_def split: list.splits if_splits)

lemma in_set_drop: "c \<in> set s \<Longrightarrow> c \<notin> set (take n s) \<Longrightarrow> c \<in> set (drop n s)"
  by (metis Un_iff append_take_drop_id set_append)

lemma trim_left_plain_in: "c \<in> set s \<Longrightarrow> 33 \<le> code c \<Longrightarrow> code c \<le> 126 \<Longrightarrow> c \<in> set (trim_left s)"
proof (induction s rule: trim_left.induct)
  case (1 s)
  then show ?case
    using in_set_drop [of c s "space_width s"] space_width_no_plain [of c s]
    by (subst trim_left.simps) auto
qed

lemma trim_left_rev_plain_in: "c \<in> set s \<Longrightarrow> 33 \<le> code c \<Longrightarrow> code c \<le> 126 \<Longrightarrow> c \<in> set (trim_left_rev s)"
proof (induction s rule: trim_left_rev.induct)
  case (1 s)
  then show ?case
    using in_set_drop [of c s "space_width_rev s"] space_width_rev_no_plain [of c s]
    by (subst trim_left_rev.simps) auto
qed

lemma TrimSpace_not_blank: "c \<in> set s \<Longrightarrow> 33 \<le> code c \<Longrightarrow> code c \<le> 126 \<Longrightarrow> TrimSpace s \<noteq> []"
  using trim_left_rev_plain_in [of c "rev (trim_left s)"] trim_left_plain_in [of c s]
  by (auto simp: TrimSpace_def)

lemma newSigningKeyID_not_blank: "TrimSpace (fst (newSigningKeyID G p now n)) \<noteq> []"
  by (rule TrimSpace_not_blank [of "CHR ''-''"]) (auto simp: newSigningKeyID_def Let_def)

text \<open>What key generation promises: it succeeds, and its PEM parses.\<close>

definition keys_generate :: "golib \<Rightarrow> bool" where
  "keys_generate G \<longleftrightarrow>
     (\<forall>i. \<exists>sk b. g_GenerateKey G i = Some sk \<and> marshalRSAPrivateKeyPEM G sk = Some b \<and>
        TrimSpace (string_of b) \<noteq> [] \<and> parseRSAPrivateKeyPEM G (bytes_of (string_of b)) = Inr sk)"

lemma newManagedSigningKey_ok:
  assumes "keys_generate G"
  obtains key n' where "newManagedSigningKey G p now n = (Inr key, n')" and "key_ok G key" and "mk_RetiredAt key = 0"
    and "mk_KeyID key = fst (newSigningKeyID G p now (n + 1))"
proof -
  from assms obtain sk b where g: "g_GenerateKey G n = Some sk" "marshalRSAPrivateKeyPEM G sk = Some b"
    "TrimSpace (string_of b) \<noteq> []" "parseRSAPrivateKeyPEM G (bytes_of (string_of b)) = Inr sk"
    unfolding keys_generate_def by blast
  obtain i n' where i: "newSigningKeyID G p now (n + 1) = (i, n')" by fastforce
  show thesis
    by (rule that [of "\<lparr>mk_KeyID = i, mk_SigningKeyPEM = string_of b, mk_CreatedAt = Unix now, mk_RetiredAt = 0\<rparr>" n'])
      (use g i newSigningKeyID_not_blank [of G p now "n + 1"] in
        \<open>simp_all add: newManagedSigningKey_def key_ok_def\<close>)
qed

lemma keyset_ok_prune:
  assumes "keyset_ok G s"
  shows "keyset_ok G (snd (prune G ret now s))"
  using assms by (auto simp: keyset_ok_def prune_def prunable_def Let_def distinct_map inj_on_def)

lemma keyset_ok_rotate:
  assumes "keyset_ok G s" and "activeIndex s = Some i" and "key_ok G key" and "mk_RetiredAt key = 0"
    and "mk_KeyID key \<notin> mk_KeyID ` set (ks_Keys s)"
  shows "keyset_ok G (rotate_keys i now key s)"
proof -
  let ?ks = "(ks_Keys s)[i := (ks_Keys s ! i)\<lparr>mk_RetiredAt := Unix now\<rparr>]"
  have i: "i < length (ks_Keys s)" using index_of_Some assms(2) by (fastforce simp: activeIndex_def)
  have ids: "map mk_KeyID ?ks = map mk_KeyID (ks_Keys s)"
    by (rule nth_equalityI) (use i in \<open>auto simp: nth_list_update\<close>)
  have "key_ok G k" if "k \<in> set ?ks" for k
  proof -
    have "k \<in> set (ks_Keys s) \<or> k = (ks_Keys s ! i)\<lparr>mk_RetiredAt := Unix now\<rparr>"
      using that set_update_subset_insert by fastforce
    then show ?thesis using assms(1) nth_mem [OF i] by (auto simp: keyset_ok_def key_ok_def)
  qed
  moreover have "distinct (map mk_KeyID (?ks @ [key]))"
    using assms(1,5) ids by (auto simp: keyset_ok_def image_set simp del: set_map)
  ultimately show ?thesis
    using assms(3,4) by (auto simp: keyset_ok_def rotate_keys_def key_ok_def)
qed

lemma rotateAndPrune_succeeds:
  assumes "keys_generate G" and "ks_Keys s = [] \<or> keyset_ok G s"
    and "fst (newSigningKeyID G p now (n + 1)) \<notin> mk_KeyID ` set (ks_Keys s)"
  shows "\<exists>changed s' n'. rotateAndPrune G p rot ret force now s n = (Inr (changed, s'), n') \<and> keyset_ok G s' \<and>
    (\<forall>i. ks_Keys s \<noteq> [] \<and> activeIndex s = Some i \<and> shouldRotateSigningKey G (ks_Keys s ! i) rot force now \<longrightarrow>
       changed \<and> ks_ActiveKeyID s' = fst (newSigningKeyID G p now (n + 1)))"
proof -
  obtain key n1 where k: "newManagedSigningKey G p now n = (Inr key, n1)" "key_ok G key" "mk_RetiredAt key = 0"
    "mk_KeyID key = fst (newSigningKeyID G p now (n + 1))"
    using newManagedSigningKey_ok [OF assms(1)] .
  have pr: "ks_ActiveKeyID (snd (prune G ret now x)) = ks_ActiveKeyID x" for x
    by (simp add: prune_def Let_def)
  show ?thesis
  proof (cases "ks_Keys s = []")
    case True
    define s1 where "s1 = s\<lparr>ks_ActiveKeyID := mk_KeyID key, ks_Keys := [key]\<rparr>"
    have "keyset_ok G s1" "activeIndex s1 = Some 0"
      using k by (auto simp: s1_def keyset_ok_def activeIndex_def key_ok_def)
    with keyset_ok_prune [OF this(1), of ret now] True k(1) show ?thesis
      by (auto simp: rotateAndPrune_def s1_def [symmetric] validate_None [symmetric] split: prod.splits)
  next
    case False
    with assms(2) have ok: "keyset_ok G s" by blast
    then obtain i where i: "activeIndex s = Some i"
      by (cases "activeIndex s") (auto simp: activeIndex_def index_of_None keyset_ok_def)
    define s2 where "s2 = (if shouldRotateSigningKey G (ks_Keys s ! i) rot force now then rotate_keys i now key s else s)"
    have "keyset_ok G s2"
      using ok keyset_ok_rotate [OF ok i k(2,3)] assms(3) k(4) by (simp add: s2_def)
    from keyset_ok_prune [OF this, of ret now]
    have fin: "validate G (snd (prune G ret now s2)) = None" "keyset_ok G (snd (prune G ret now s2))"
      by (simp_all add: validate_None)
    have v: "validate G s = None" using ok by (simp add: validate_None)
    show ?thesis
    proof (cases "shouldRotateSigningKey G (ks_Keys s ! i) rot force now")
      case True
      then have "rotateAndPrune G p rot ret force now s n = (Inr (True, snd (prune G ret now s2)), n1)"
        using False v i k(1) fin by (simp add: rotateAndPrune_def s2_def case_prod_beta)
      moreover have "ks_ActiveKeyID (snd (prune G ret now s2)) = fst (newSigningKeyID G p now (n + 1))"
        using True k(4) by (simp add: pr s2_def rotate_keys_def)
      ultimately show ?thesis using fin(2) by blast
    next
      case no: False
      then have "rotateAndPrune G p rot ret force now s n =
          (Inr (fst (prune G ret now s2), snd (prune G ret now s2)), n)"
        using False v i fin by (simp add: rotateAndPrune_def s2_def case_prod_beta)
      then show ?thesis using fin(2) no i by (cases "prune G ret now s2") auto
    qed
  qed
qed

text \<open>
  Rotation does not fail: on a valid key set, or an empty one, when keys can be generated and
  the new identifier is not yet in use, it returns a valid key set.  When a rotation is forced or
  due, the new active key is a freshly generated one.
\<close>

theorem rotation_total:
  assumes "keys_generate G" and "ks_Keys s = [] \<or> keyset_ok G s"
    and "fst (newSigningKeyID G p now (n + 1)) \<notin> mk_KeyID ` set (ks_Keys s)"
  shows "\<exists>changed s' n'. rotateAndPrune G p rot ret force now s n = (Inr (changed, s'), n') \<and> keyset_ok G s' \<and>
    (\<forall>i. ks_Keys s \<noteq> [] \<and> activeIndex s = Some i \<and> shouldRotateSigningKey G (ks_Keys s ! i) rot force now \<longrightarrow>
       changed \<and> ks_ActiveKeyID s' = fst (newSigningKeyID G p now (n + 1)))"
  by (rule rotateAndPrune_succeeds [OF assms])

section \<open>Start-up\<close>

lemma PutSigningKeySet_Inr:
  "PutSigningKeySet ks d = (Inr u, d') \<longleftrightarrow> db_open d \<and> d' = d\<lparr>db_signingKeys := bput signingKeySetKey ks (db_signingKeys d)\<rparr>"
  by (auto simp: PutSigningKeySet_def db_update_Inr putJSON_Inr signingKeySetKey_def)

lemma prune_unchanged: "\<not> fst (prune G ret now s) \<Longrightarrow> snd (prune G ret now s) = s"
  by (auto simp: prune_def Let_def split: if_splits)

lemma rotateAndPrune_nonempty:
  "rotateAndPrune G p rot ret force now s n = (Inr (changed, s'), n') \<Longrightarrow> keyset_ok G s' \<and> (\<not> changed \<longrightarrow> s' = s)"
proof (cases "ks_Keys s = []")
  case True
  assume "rotateAndPrune G p rot ret force now s n = (Inr (changed, s'), n')"
  with True show ?thesis
    by (auto simp: rotateAndPrune_def validate_None [symmetric] split: prod.splits sum.splits option.splits)
next
  case False
  assume "rotateAndPrune G p rot ret force now s n = (Inr (changed, s'), n')"
  from this False show ?thesis
    by (rule rotateAndPrune_Inr) (auto split: if_splits dest: prune_unchanged)
qed

text \<open>A set that is neither due nor has a key to prune is left alone.\<close>

definition settled :: "golib \<Rightarrow> int \<Rightarrow> int \<Rightarrow> time \<Rightarrow> managedSigningKeySet \<Rightarrow> bool" where
  "settled G rot ret now s \<longleftrightarrow>
     (\<forall>key \<in> set (ks_Keys s). (mk_KeyID key = ks_ActiveKeyID s \<longrightarrow> \<not> shouldRotateSigningKey G key rot False now) \<and>
        \<not> prunable (ks_ActiveKeyID s) (Unix (g_AddDays G now (- ret))) key)"

lemma rotateAndPrune_settled:
  assumes "keyset_ok G s" and "settled G rot ret now s"
  shows "rotateAndPrune G p rot ret False now s n = (Inr (False, s), n)"
proof -
  have ne: "ks_Keys s \<noteq> []" using assms(1) by (auto simp: keyset_ok_def)
  obtain i where i: "activeIndex s = Some i"
    using assms(1) by (cases "activeIndex s") (auto simp: activeIndex_def index_of_None keyset_ok_def)
  then have "i < length (ks_Keys s)" "mk_KeyID (ks_Keys s ! i) = ks_ActiveKeyID s"
    using index_of_Some by (fastforce simp: activeIndex_def)+
  then have "\<not> shouldRotateSigningKey G (ks_Keys s ! i) rot False now"
    using assms(2) nth_mem by (fastforce simp: settled_def)
  moreover have "prune G ret now s = (False, s)"
    using assms(2) by (auto simp: prune_def settled_def Let_def)
  moreover have "validate G s = None" using assms(1) by (simp add: validate_None)
  ultimately show ?thesis using ne i by (simp add: rotateAndPrune_def)
qed

text \<open>
  C31. The keys the broker runs with are the keys on disk: when start-up prepares the managed keys,
  the set is valid and the store holds exactly that set, wherever it came from; and a restart that
  is neither forced nor due for rotation or pruning loads the same set, writes nothing and draws no
  randomness, whatever the legacy file holds.
\<close>

theorem keys_survive_restart:
  assumes "prepareManagedSigningKeySet G f dir cfg force now d n = (Inr (ks, src, changed), d', n')"
    and "settled G (cf_SigningKeyRotationDays cfg) (cf_SigningKeyRetentionDays cfg) now2 ks"
  shows "keyset_ok G ks \<and> GetSigningKeySet d' = Inr (Some ks) \<and>
    prepareManagedSigningKeySet G f2 dir2 cfg False now2 d' n2 = (Inr (ks, sourceStore, False), d', n2)"
proof -
  from assms(1) obtain ks0 n1 where l: "load_key_set G f dir cfg now d n = (Inr (ks0, src), n1)"
    by (auto simp: prepareManagedSigningKeySet_def split: prod.splits sum.splits if_splits)
  with assms(1) obtain n2' where r: "rotateAndPrune G (cf_KeyID cfg) (cf_SigningKeyRotationDays cfg)
      (cf_SigningKeyRetentionDays cfg) (force \<and> src \<noteq> sourceGenerated) now ks0 n1 = (Inr (changed, ks), n2')"
    by (auto simp: prepareManagedSigningKeySet_def split: prod.splits sum.splits if_splits)
  have ok: "keyset_ok G ks" and same: "\<not> changed \<Longrightarrow> ks = ks0"
    using rotateAndPrune_nonempty [OF r] by auto
  have get: "GetSigningKeySet d' = Inr (Some ks)"
  proof (cases "src \<noteq> sourceStore \<or> changed")
    case True
    with assms(1) l r have "\<exists>u. PutSigningKeySet ks d = (Inr u, d')"
      by (auto simp: prepareManagedSigningKeySet_def split: prod.splits sum.splits)
    then show ?thesis by (auto simp: PutSigningKeySet_Inr GetSigningKeySet_def db_view_def)
  next
    case False
    with assms(1) l r have "d' = d" by (auto simp: prepareManagedSigningKeySet_def)
    moreover have "GetSigningKeySet d = Inr (Some ks0)"
      using l False by (auto simp: load_key_set_def split: sum.splits option.splits prod.splits)
    ultimately show ?thesis using False same by simp
  qed
  then have "load_key_set G f2 dir2 cfg now2 d' n2 = (Inr (ks, sourceStore), n2)"
    by (simp add: load_key_set_def)
  then show ?thesis
    using ok get rotateAndPrune_settled [OF ok assms(2)] by (simp add: prepareManagedSigningKeySet_def)
qed

section \<open>From the managed set to the keys of the broker\<close>

text \<open>
  The configuration trims identifiers and PEM texts before it uses them; what the managed set holds
  has to be unaffected by that.
\<close>

definition key_trimmed :: "golib \<Rightarrow> managedSigningKey \<Rightarrow> bool" where
  "key_trimmed G key \<longleftrightarrow> TrimSpace (mk_KeyID key) = mk_KeyID key \<and>
     parseRSAPrivateKeyPEM G (bytes_of (TrimSpace (mk_SigningKeyPEM key))) =
     parseRSAPrivateKeyPEM G (bytes_of (mk_SigningKeyPEM key))"

definition public_of :: "golib \<Rightarrow> managedSigningKey \<Rightarrow> rsa_PublicKey option" where
  "public_of G key =
     (case parseRSAPrivateKeyPEM G (bytes_of (mk_SigningKeyPEM key)) of Inl _ \<Rightarrow> None | Inr sk \<Rightarrow> Some (prv_Public sk))"

abbreviation key_config :: "string \<Rightarrow> managedSigningKey \<Rightarrow> SigningKeyConfig" where
  "key_config a key \<equiv> \<lparr>sk_KeyID = mk_KeyID key, sk_SigningKeyPEM = mk_SigningKeyPEM key, sk_Active = (mk_KeyID key = a)\<rparr>"

lemma parseSigningKeyConfig_managed:
  assumes "key_ok G key" and "key_trimmed G key"
  obtains sk where "parseRSAPrivateKeyPEM G (bytes_of (mk_SigningKeyPEM key)) = Inr sk"
    and "parseSigningKeyConfig G (key_config a key) i = Inr (mk_KeyID key, sk, makePublicJWK (mk_KeyID key) (prv_Public sk))"
  using assms by (auto simp: key_ok_def key_trimmed_def parseSigningKeyConfig_def Let_def)

lemma build_loop_managed:
  assumes "\<forall>key \<in> set ks. key_ok G key \<and> key_trimmed G key" and "distinct (map mk_KeyID ks)"
    and "\<forall>key \<in> set ks. keys (mk_KeyID key) = None" and "0 < flags"
  shows "\<exists>keys' jwks' active'. build_loop G cid flags cnt (map (key_config a) ks) i keys jwks active n =
      Inr (keys', jwks', active', n + length (filter (\<lambda>k. mk_KeyID k = a) ks)) \<and>
    (\<forall>x. keys' x = (case List.find (\<lambda>k. mk_KeyID k = x) ks of None \<Rightarrow> keys x | Some k \<Rightarrow> public_of G k)) \<and>
    length jwks' = length jwks + length ks \<and>
    (case List.find (\<lambda>k. mk_KeyID k = a) ks of None \<Rightarrow> active' = active
     | Some k \<Rightarrow> \<exists>sk. active' = Some sk \<and> key_ID sk = a \<and> public_of G k = Some (prv_Public (key_Private sk)))"
  using assms
proof (induction ks arbitrary: i keys jwks active n)
  case Nil
  then show ?case by simp
next
  case (Cons key ks)
  from Cons.prems(1) have k: "key_ok G key" "key_trimmed G key" by auto
  obtain sk where sk: "parseRSAPrivateKeyPEM G (bytes_of (mk_SigningKeyPEM key)) = Inr sk"
    and p: "parseSigningKeyConfig G (key_config a key) i = Inr (mk_KeyID key, sk, makePublicJWK (mk_KeyID key) (prv_Public sk))"
    using parseSigningKeyConfig_managed [OF k] .
  let ?keys = "keys(mk_KeyID key \<mapsto> prv_Public sk)"
  have pub: "public_of G key = Some (prv_Public sk)" using sk by (simp add: public_of_def)
  have none: "List.find (\<lambda>k. mk_KeyID k = mk_KeyID key) ks = None"
    using Cons.prems(2) by (simp add: find_None_iff) (metis imageI)
  have other: "mk_KeyID k \<noteq> mk_KeyID key" if "k \<in> set ks" for k
    using Cons.prems(2) that by simp (metis imageI)
  have pre: "\<forall>k \<in> set ks. ?keys (mk_KeyID k) = None" "\<forall>key \<in> set ks. key_ok G key \<and> key_trimmed G key"
    "distinct (map mk_KeyID ks)"
    using Cons.prems other by auto
  note IH = Cons.IH [OF pre(2,3,1) Cons.prems(4), where i = "i + 1" and jwks = "jwks @ [makePublicJWK (mk_KeyID key) (prv_Public sk)]"]
  have unf: "keys (mk_KeyID key) = None" using Cons.prems(3) by simp
  define act where "act = (if mk_KeyID key = a
    then Some \<lparr>key_ID = mk_KeyID key, key_Private = sk, key_JWK = makePublicJWK (mk_KeyID key) (prv_Public sk)\<rparr> else active)"
  define n1 where "n1 = (if mk_KeyID key = a then n + 1 else n)"
  from IH [where n = n1 and active = act] obtain keys' jwks' active' where
    b: "build_loop G cid flags cnt (map (key_config a) ks) (i + 1) ?keys
          (jwks @ [makePublicJWK (mk_KeyID key) (prv_Public sk)]) act n1 =
        Inr (keys', jwks', active', n1 + length (filter (\<lambda>k. mk_KeyID k = a) ks))"
    and keys': "\<forall>x. keys' x = (case List.find (\<lambda>k. mk_KeyID k = x) ks of None \<Rightarrow> ?keys x | Some k \<Rightarrow> public_of G k)"
    and jwks': "length jwks' = length (jwks @ [makePublicJWK (mk_KeyID key) (prv_Public sk)]) + length ks"
    and active': "case List.find (\<lambda>k. mk_KeyID k = a) ks of None \<Rightarrow> active' = act
     | Some k \<Rightarrow> \<exists>sk. active' = Some sk \<and> key_ID sk = a \<and> public_of G k = Some (prv_Public (key_Private sk))"
    by blast
  have "build_loop G cid flags cnt (map (key_config a) (key # ks)) i keys jwks active n =
      Inr (keys', jwks', active', n + length (filter (\<lambda>k. mk_KeyID k = a) (key # ks)))"
    using b p unf Cons.prems(4)
    by (cases "mk_KeyID key = a") (simp_all add: signingKeyConfigIsActive_def act_def n1_def Let_def)
  moreover have "\<forall>x. keys' x =
      (case List.find (\<lambda>k. mk_KeyID k = x) (key # ks) of None \<Rightarrow> keys x | Some k \<Rightarrow> public_of G k)"
    using keys' none pub by (simp split: option.split)
  moreover have "case List.find (\<lambda>k. mk_KeyID k = a) (key # ks) of None \<Rightarrow> active' = active
     | Some k \<Rightarrow> \<exists>sk. active' = Some sk \<and> key_ID sk = a \<and> public_of G k = Some (prv_Public (key_Private sk))"
    using active' none pub by (auto simp: act_def split: option.splits)
  moreover have "length jwks' = length jwks + length (key # ks)" using jwks' by simp
  ultimately show ?case by blast
qed

lemma filter_id_one:
  assumes "distinct (map mk_KeyID ks)" and "k \<in> set ks"
  shows "length (filter (\<lambda>x. mk_KeyID x = mk_KeyID k) ks) = 1"
proof -
  have "filter (\<lambda>x. mk_KeyID x = mk_KeyID k) ks = [k]"
    using assms
  proof (induction ks)
    case (Cons x ks)
    show ?case
    proof (cases "x = k")
      case True
      have "filter (\<lambda>y. mk_KeyID y = mk_KeyID x) ks = []"
        using Cons.prems(1) by (simp add: filter_empty_conv) (metis imageI)
      then show ?thesis using True by simp
    next
      case False
      with Cons have "mk_KeyID x \<noteq> mk_KeyID k" by (metis distinct.simps(2) image_eqI list.simps(9) set_ConsD set_map)
      then show ?thesis using Cons False by simp
    qed
  qed simp
  then show ?thesis by simp
qed

text \<open>
  The managed keys become the keys of the broker: for a valid managed set whose identifiers
  and PEM texts are unaffected by trimming, the configuration derived from it is accepted, the
  signing key is the active one and is among the verification keys, the verification keys are
  exactly the keys of the set, and one public key is published for each.
\<close>

theorem managed_keys_usable:
  assumes "keyset_ok G ks" and "\<forall>key \<in> set (ks_Keys ks). key_trimmed G key"
    and "cfg' = cfg\<lparr>cf_SigningKeys := signingKeyConfigs ks, cf_KeyID := ks_ActiveKeyID ks\<rparr>"
  shows "\<exists>active keys jwks. buildSigningKeySet G cfg' = Inr (Some active, keys, jwks) \<and>
    key_ID active = ks_ActiveKeyID ks \<and> keys (key_ID active) = Some (prv_Public (key_Private active)) \<and>
    dom keys = mk_KeyID ` set (ks_Keys ks) \<and> length jwks = length (ks_Keys ks)"
proof -
  let ?a = "ks_ActiveKeyID ks" and ?ks = "ks_Keys ks"
  from assms(1) obtain k where k: "k \<in> set ?ks" "mk_KeyID k = ?a" by (auto simp: keyset_ok_def)
  have dist: "distinct (map mk_KeyID ?ks)" and ok: "\<forall>key \<in> set ?ks. key_ok G key \<and> key_trimmed G key"
    using assms(1,2) by (auto simp: keyset_ok_def)
  have one: "length (filter (\<lambda>x. mk_KeyID x = ?a) ?ks) = 1"
    using filter_id_one [OF dist k(1)] k(2) by simp
  have cs: "effectiveSigningKeyConfigs cfg' = map (key_config ?a) ?ks" "map (key_config ?a) ?ks \<noteq> []"
    using k by (auto simp: effectiveSigningKeyConfigs_def assms(3) signingKeyConfigs_def)
  have flags: "countActiveSigningKeyConfigs (map (key_config ?a) ?ks) = 1"
    using one by (simp add: countActiveSigningKeyConfigs_def filter_map o_def)
  obtain keys jwks active where
    b: "build_loop G ?a 1 (length ?ks) (map (key_config ?a) ?ks) 0 Map.empty [] None 0 = Inr (keys, jwks, active, 1)"
    and keys: "\<forall>x. keys x = (case List.find (\<lambda>k. mk_KeyID k = x) ?ks of None \<Rightarrow> None | Some k \<Rightarrow> public_of G k)"
    and jwks: "length jwks = length ?ks"
    and act: "case List.find (\<lambda>k. mk_KeyID k = ?a) ?ks of None \<Rightarrow> active = None
     | Some k \<Rightarrow> \<exists>sk. active = Some sk \<and> key_ID sk = ?a \<and> public_of G k = Some (prv_Public (key_Private sk))"
    using build_loop_managed [OF ok dist, of Map.empty 1 ?a "length ?ks" ?a 0 "[]" None 0] one by auto
  obtain k' where k': "List.find (\<lambda>k. mk_KeyID k = ?a) ?ks = Some k'"
    using k by (cases "List.find (\<lambda>k. mk_KeyID k = ?a) ?ks") (auto simp: find_None_iff)
  with act obtain sk where sk: "active = Some sk" "key_ID sk = ?a" "public_of G k' = Some (prv_Public (key_Private sk))"
    by auto
  have pub: "\<exists>p. public_of G key = Some p" if "key \<in> set ?ks" for key
    using that ok by (auto simp: key_ok_def public_of_def)
  have "x \<in> dom keys \<longleftrightarrow> x \<in> mk_KeyID ` set ?ks" for x
  proof (cases "List.find (\<lambda>k. mk_KeyID k = x) ?ks")
    case None
    then have "x \<notin> mk_KeyID ` set ?ks" by (auto simp: find_None_iff)
    then show ?thesis using keys None by (simp add: dom_def)
  next
    case (Some y)
    then have "y \<in> set ?ks" "mk_KeyID y = x" by (auto simp: find_Some_iff)
    then show ?thesis using keys Some pub [of y] by (auto simp: dom_def)
  qed
  then have "dom keys = mk_KeyID ` set ?ks" by blast
  moreover have "cf_KeyID cfg' = ?a" using assms(3) by simp
  then have "buildSigningKeySet G cfg' = Inr (Some sk, keys, jwks)"
    using b sk(1) flags cs by (simp add: buildSigningKeySet_def Let_def)
  ultimately show ?thesis using sk keys k' jwks by auto
qed

section \<open>Running the rotation\<close>

definition demo_key :: "string \<Rightarrow> int \<Rightarrow> managedSigningKey" where
  "demo_key i created = \<lparr>mk_KeyID = i, mk_SigningKeyPEM = ''A'', mk_CreatedAt = created, mk_RetiredAt = 0\<rparr>"

definition demo_keyset :: managedSigningKeySet where
  "demo_keyset = \<lparr>ks_ActiveKeyID = ''k1'', ks_Keys = [demo_key ''k1'' 1]\<rparr>"

lemma bytes_of_string_of [simp]: "bytes_of (string_of b) = b"
  by (simp add: bytes_of_def string_of_def o_def byte_of_def char_of_byte_def of_char_of unat_byte map_idI)

lemma demo_keys_generate: "keys_generate demo_lib"
proof -
  have t: "TrimSpace (replicate (Suc n) CHR ''A'') \<noteq> []" for n
    by (rule TrimSpace_not_blank [of "CHR ''A''"]) auto
  have s: "string_of (replicate (Suc n) 65) = replicate (Suc n) CHR ''A''" for n
  proof -
    have "char_of (65 :: nat) = CHR ''A''" by code_simp
    then show ?thesis by (simp add: string_of_def char_of_byte_def)
  qed
  show ?thesis
    unfolding keys_generate_def
  proof
    fix i
    let ?sk = "\<lparr>prv_Public = \<lparr>pk_N = i + 1, pk_E = 3\<rparr>, prv_D = 5\<rparr>"
    show "\<exists>sk b. g_GenerateKey demo_lib i = Some sk \<and> marshalRSAPrivateKeyPEM demo_lib sk = Some b \<and>
        TrimSpace (string_of b) \<noteq> [] \<and> parseRSAPrivateKeyPEM demo_lib (bytes_of (string_of b)) = Inr sk"
      by (intro exI [of _ ?sk] exI [of _ "replicate (Suc i) 65"])
        (use t [of i] s [of i] in \<open>simp add: marshalRSAPrivateKeyPEM_def parseRSAPrivateKeyPEM_def bytes_of_def del: replicate_Suc\<close>)
  qed
qed

lemma demo_key_ok: "TrimSpace i = i \<Longrightarrow> i \<noteq> [] \<Longrightarrow> key_ok demo_lib (demo_key i c)"
  by (simp add: key_ok_def demo_key_def parseRSAPrivateKeyPEM_def bytes_of_def TrimSpace_plain)

lemma demo_keyset_ok: "keyset_ok demo_lib demo_keyset"
  using demo_key_ok [of "''k1''" 1] by (simp add: keyset_ok_def demo_keyset_def TrimSpace_plain) (simp add: demo_key_def)

lemma demo_new_id: "fst (newSigningKeyID demo_lib p now n) \<notin> mk_KeyID ` set (ks_Keys demo_keyset)"
proof -
  have "CHR ''-'' \<in> set (fst (newSigningKeyID demo_lib p now n))" by (simp add: newSigningKeyID_def Let_def)
  then have "fst (newSigningKeyID demo_lib p now n) \<noteq> ''k1''" by auto
  then show ?thesis by (simp add: demo_keyset_def demo_key_def)
qed

lemma demo_keyset_due: "ks_Keys demo_keyset \<noteq> []" "activeIndex demo_keyset = Some 0"
  "shouldRotateSigningKey demo_lib k 90 True t"
  by (simp_all add: activeIndex_def demo_keyset_def demo_key_def shouldRotateSigningKey_def)

theorem rotation_total_witness:
  "\<exists>changed s' n'. rotateAndPrune demo_lib ''b'' 90 30 True (1000 * Second) demo_keyset 0 = (Inr (changed, s'), n') \<and>
     changed \<and> ks_ActiveKeyID s' = fst (newSigningKeyID demo_lib ''b'' (1000 * Second) (0 + 1))"
  using rotation_total [OF demo_keys_generate disjI2 [OF demo_keyset_ok] demo_new_id,
      where p = "''b''" and now = "1000 * Second" and n = 0 and rot = 90 and ret = 30 and force = True] demo_keyset_due
  by blast

theorem rotation_continuity_witness:
  "\<exists>changed s' n'. rotateAndPrune demo_lib ''b'' 90 30 True (1000 * Second) demo_keyset 0 = (Inr (changed, s'), n') \<and>
     (\<exists>k' \<in> set (ks_Keys s'). mk_KeyID k' = ''k1'' \<and> mk_SigningKeyPEM k' = ''A'')"
proof -
  obtain changed s' n' where r: "rotateAndPrune demo_lib ''b'' 90 30 True (1000 * Second) demo_keyset 0 = (Inr (changed, s'), n')"
    using rotateAndPrune_succeeds [OF demo_keys_generate disjI2 [OF demo_keyset_ok] demo_new_id,
      where p = "''b''" and now = "1000 * Second" and n = 0 and rot = 90 and ret = 30 and force = True] by blast
  have "keyset_ok demo_lib s' \<and> (\<exists>k' \<in> set (ks_Keys s'). mk_KeyID k' = mk_KeyID (demo_key ''k1'' 1) \<and>
      mk_SigningKeyPEM k' = mk_SigningKeyPEM (demo_key ''k1'' 1))"
    by (rule rotation_continuity [OF r]) (simp_all add: demo_keyset_def demo_key_def)
  then show ?thesis using r by (auto simp: demo_key_def)
qed

definition demo_legacy :: legacy_file where
  "demo_legacy = \<lparr>lf_read = FileBytes (Some demo_keyset), lf_rename_ok = True\<rparr>"

theorem keys_survive_restart_witness:
  "\<exists>d'. prepareManagedSigningKeySet demo_lib demo_legacy ''d'' demo_cfg False (1000 * Second) empty_Store 0 =
       (Inr (demo_keyset, sourceMigrated, False), d', 0) \<and>
     prepareManagedSigningKeySet demo_lib \<lparr>lf_read = NotExist, lf_rename_ok = True\<rparr> ''d'' demo_cfg False
       (2000 * Second) d' 5 = (Inr (demo_keyset, sourceStore, False), d', 5)"
proof -
  let ?d = "empty_Store\<lparr>db_signingKeys := bput signingKeySetKey demo_keyset []\<rparr>"
  have st: "settled demo_lib 90 30 t demo_keyset" if "t < 90 * (24 * Hour)" for t
    using that by (simp add: settled_def demo_keyset_def demo_key_def shouldRotateSigningKey_def prunable_def unix_time_exact)
  have cfg: "cf_SigningKeyRotationDays demo_cfg = 90" "cf_SigningKeyRetentionDays demo_cfg = 30" by (simp_all add: demo_cfg_def)
  have put: "PutSigningKeySet demo_keyset empty_Store = (Inr (), ?d)"
    by (simp add: PutSigningKeySet_Inr) (simp add: empty_Store_def)
  have l: "load_key_set demo_lib demo_legacy ''d'' demo_cfg (1000 * Second) empty_Store 0 = (Inr (demo_keyset, sourceMigrated), 0)"
    by (simp add: load_key_set_def GetSigningKeySet_def db_view_def empty_Store_def getJSON_def bget_def
        migrateLegacySigningKeyFile_def demo_legacy_def)
  have p: "prepareManagedSigningKeySet demo_lib demo_legacy ''d'' demo_cfg False (1000 * Second) empty_Store 0 =
       (Inr (demo_keyset, sourceMigrated, False), ?d, 0)"
    using rotateAndPrune_settled [OF demo_keyset_ok st [of "1000 * Second"]] put
    by (simp add: prepareManagedSigningKeySet_def l [simplified] cfg)
  have "settled demo_lib (cf_SigningKeyRotationDays demo_cfg) (cf_SigningKeyRetentionDays demo_cfg) (2000 * Second) demo_keyset"
    using st by (simp add: cfg)
  from keys_survive_restart [OF p this] p show ?thesis by blast
qed

theorem managed_keys_usable_witness:
  "\<exists>active keys jwks. buildSigningKeySet demo_lib
     (demo_cfg\<lparr>cf_SigningKeys := signingKeyConfigs demo_keyset, cf_KeyID := ks_ActiveKeyID demo_keyset\<rparr>) =
       Inr (Some active, keys, jwks) \<and> key_ID active = ''k1''"
proof -
  have "\<forall>key \<in> set (ks_Keys demo_keyset). key_trimmed demo_lib key"
    by (simp add: demo_keyset_def key_trimmed_def demo_key_def TrimSpace_plain)
  from managed_keys_usable [OF demo_keyset_ok this refl, of demo_cfg] show ?thesis
    by (auto simp: demo_keyset_def)
qed

end
