(* ===== verification/Startup.thy ===== *)
theory Startup
  imports Admin Webauthn SigningKeys
begin

text \<open>
  Building the broker (\<^verbatim>\<open>NewBroker\<close> of \<^verbatim>\<open>broker.go\<close>) and the pure parts of \<^verbatim>\<open>main.go\<close>: from the
  configuration and the database to the immutable environment and the first state of the handlers.
  \<open>ca\<close> is the URL of the certificate authority, \<open>text\<close> the texts of store errors, \<open>n\<close> the number
  of random draws so far.
\<close>

section \<open>Building the registries\<close>

datatype broker_error =
    BrokerConfig config_error | BrokerKey key_error | NoPersistedKey | KeyNotGenerated
  | ClientIDRequired | DuplicateClient string | ClientScope string scope_error | ClientGroups string group_error
  | TokenIDRequired nat | TokenIDInvalid string | TokenScope string scope_error | TokenGroups string group_error
  | DuplicateToken string | BrokerProxy proxy_error | BrokerReload reload_error

fun broker_clients :: "golib \<Rightarrow> Client list \<Rightarrow> (string \<rightharpoonup> Client) \<Rightarrow> broker_error + (string \<rightharpoonup> Client)" where
  "broker_clients G [] m = Inr m"
| "broker_clients G (c # cs) m =
     (if c_ClientID c = [] then Inl ClientIDRequired
      else if m (c_ClientID c) \<noteq> None then Inl (DuplicateClient (c_ClientID c))
      else case normalizeClientScopePolicy c of
          Inl err \<Rightarrow> Inl (ClientScope (c_ClientID c) err)
        | Inr c' \<Rightarrow>
            (case normalizeClientGroupMappings G (c_GroupMappings c') of
               Inl err \<Rightarrow> Inl (ClientGroups (c_ClientID c) err)
             | Inr gm \<Rightarrow>
                 broker_clients G cs (m(c_ClientID c' \<mapsto>
                   c'\<lparr>c_GroupMappings := gm, c_compiledMappings := compileGroupMappings G gm\<rparr>))))"

text \<open>The loop also writes each normalized token back into the configuration.\<close>

fun broker_tokens ::
  "golib \<Rightarrow> nat \<Rightarrow> AppTokenConfig list \<Rightarrow> AppTokenConfig list \<Rightarrow> (string \<rightharpoonup> AppTokenConfig) \<Rightarrow>
    broker_error + AppTokenConfig list \<times> (string \<rightharpoonup> AppTokenConfig)" where
  "broker_tokens G i [] out m = Inr (out, m)"
| "broker_tokens G i (t # ts) out m =
     (if at_ID t = [] then Inl (TokenIDRequired i)
      else if \<not> validAppTokenID (at_ID t) then Inl (TokenIDInvalid (at_ID t))
      else case normalizeAppTokenScope (at_Scope t) of
          Inl err \<Rightarrow> Inl (TokenScope (at_ID t) err)
        | Inr scope \<Rightarrow>
            (case normalizeClientGroupMappings G (at_GroupMappings t) of
               Inl err \<Rightarrow> Inl (TokenGroups (at_ID t) err)
             | Inr gm \<Rightarrow>
                 let t' = t\<lparr>at_Scope := scope, at_GroupMappings := gm, at_compiledMappings := compileGroupMappings G gm\<rparr> in
                 if m (at_ID t) \<noteq> None then Inl (DuplicateToken (at_ID t))
                 else broker_tokens G (i + 1) ts (out @ [t']) (m(at_ID t \<mapsto> t'))))"

text \<open>Without a configured key a broker that is not in production signs with a fresh one.\<close>

definition broker_keys ::
  "golib \<Rightarrow> Config \<Rightarrow> nat \<Rightarrow> broker_error + (signingKey \<times> (string \<rightharpoonup> rsa_PublicKey) \<times> claims list \<times> nat)" where
  "broker_keys G cfg n =
     (case buildSigningKeySet G cfg of
        Inl err \<Rightarrow> Inl (BrokerKey err)
      | Inr (Some active, keys, jwks) \<Rightarrow> Inr (active, keys, jwks, n)
      | Inr (None, _, _) \<Rightarrow>
          if cf_Production cfg then Inl NoPersistedKey
          else (case g_GenerateKey G n of
              None \<Rightarrow> Inl KeyNotGenerated
            | Some key \<Rightarrow>
                let jwk = makePublicJWK (cf_KeyID cfg) (prv_Public key)
                in Inr (\<lparr>key_ID = cf_KeyID cfg, key_Private = key, key_JWK = jwk\<rparr>,
                        [cf_KeyID cfg \<mapsto> prv_Public key], [jwk], n + 1)))"

definition limiter_of :: "int \<Rightarrow> int \<Rightarrow> int \<Rightarrow> loginRateLimiter" where
  "limiter_of win tries lock = newLoginRateLimiter (dur win Second) tries (dur lock Second)"

definition broker_state :: "Config \<Rightarrow> Store \<Rightarrow> nat \<Rightarrow> st" where
  "broker_state cfg d n =
     (let rl = cf_RateLimit cfg in
      \<lparr>st_db = d, st_clients = Map.empty, st_appTokens = Map.empty,
       st_login = limiter_of (rl_LoginWindowSeconds rl) (rl_LoginMaxAttempts rl) (rl_LoginLockoutSeconds rl),
       st_token = limiter_of (rl_TokenWindowSeconds rl) (rl_TokenMaxAttempts rl) (rl_TokenLockoutSeconds rl),
       st_preAuth = limiter_of (rl_PreAuthWindowSeconds rl) (rl_PreAuthMaxAttempts rl) (rl_PreAuthLockoutSeconds rl),
       st_drawn = n, st_audit = [], w_header = Map.empty, w_cookies = []\<rparr>)"

text \<open>The two last steps: the stored entries are loaded, and what has expired is removed.\<close>

definition broker_start :: "time \<Rightarrow> env \<Rightarrow> st \<Rightarrow> broker_error + env \<times> st" where
  "broker_start now e s =
     (case reloadStoredRegistries e s of
        (Inl err, _) \<Rightarrow> Inl (BrokerReload err)
      | (Inr _, s1) \<Rightarrow> Inr (e, sweepExpired now s1))"

definition NewBroker ::
  "golib \<Rightarrow> string \<Rightarrow> (store_error \<Rightarrow> string) \<Rightarrow> Config \<Rightarrow> Store \<Rightarrow> time \<Rightarrow> nat \<Rightarrow> broker_error + env \<times> st" where
  "NewBroker G ca errtext cfg0 d now n =
     (let cfg1 = normalizeConfig G ca cfg0 in
      case validateConfig G cfg1 of
        Some err \<Rightarrow> Inl (BrokerConfig err)
      | None \<Rightarrow>
          (case broker_keys G cfg1 n of
             Inl err \<Rightarrow> Inl err
           | Inr (active, keys, jwks, n1) \<Rightarrow>
               (case broker_clients G (cf_Clients cfg1) Map.empty of
                  Inl err \<Rightarrow> Inl err
                | Inr clients \<Rightarrow>
                    (case broker_tokens G 0 (cf_AppTokens cfg1) [] Map.empty of
                       Inl err \<Rightarrow> Inl err
                     | Inr (tokens, tokenMap) \<Rightarrow>
                         (case newTrustedProxySet G (cf_TrustedProxies cfg1) of
                            Inl err \<Rightarrow> Inl (BrokerProxy err)
                          | Inr proxies \<Rightarrow>
                              let cfg = cfg1\<lparr>cf_KeyID := key_ID active, cf_AppTokens := tokens\<rparr>
                              in broker_start now
                                   \<lparr>e_lib = G, e_cfg = cfg, e_clients = clients, e_appTokens = tokenMap,
                                    e_activeKey = active, e_verifyKeys = keys, e_publicJWKs = jwks, e_proxies = proxies,
                                    e_error_text = errtext, e_now = now\<rparr>
                                   (broker_state cfg d n1))))))"

section \<open>The cookie warning\<close>

definition listenIsLocalhostOnly :: "golib \<Rightarrow> string \<Rightarrow> bool" where
  "listenIsLocalhostOnly G addr0 =
     (let addr = TrimSpace addr0 in
      if addr = [] then False
      else let host0 = (case SplitHostPort addr of None \<Rightarrow> addr | Some h \<Rightarrow> h);
               host = TrimChars brackets (TrimSpace host0)
           in if host = [] then False
              else if EqualFold G host ''localhost'' then True
              else (case g_ParseIP G host of None \<Rightarrow> False | Some ip \<Rightarrow> IsLoopback ip))"

text \<open>Whether the start logs that session cookies go out without the \<^verbatim>\<open>Secure\<close> attribute.\<close>

definition warnIfCookieInsecure :: "env \<Rightarrow> bool" where
  "warnIfCookieInsecure e =
     (\<not> cookieSecure e \<and>
      \<not> (\<not> acme_Enabled (cf_ACME (e_cfg e)) \<and> listenIsLocalhostOnly (e_lib e) (cf_Listen (e_cfg e))))"

section \<open>Redirecting to HTTPS\<close>

definition normalizeHost :: "golib \<Rightarrow> string \<Rightarrow> string" where
  "normalizeHost G host = (let h = to_lower G (TrimSpace host) in if HasSuffix h ''.'' then butlast h else h)"

definition requestHostname :: "golib \<Rightarrow> string \<Rightarrow> string option" where
  "requestHostname G requestHost =
     (let host = TrimSpace requestHost in
      if host = [] then None
      else case (case SplitHostPort host of
                   Some h \<Rightarrow> Some h
                 | None \<Rightarrow> if Contains host '':'' then None else Some host) of
          None \<Rightarrow> None
        | Some h \<Rightarrow>
            if \<exists>c \<in> set h. c = CHR ''/'' \<or> c = CHR 0x5C \<or> c = CHR ''@'' then None else Some (normalizeHost G h))"

definition redirectHost :: "golib \<Rightarrow> string \<Rightarrow> string list \<Rightarrow> string option" where
  "redirectHost G requestHost domains =
     (case requestHostname G requestHost of
        None \<Rightarrow> None
      | Some host \<Rightarrow> List.find (\<lambda>normalized. host = normalized) (map (normalizeHost G) domains))"

text \<open>\<open>url\<close> prints the URL of the target: scheme, host, and path and query of the request.\<close>

definition redirectToHTTPS :: "(string \<Rightarrow> http_request \<Rightarrow> string) \<Rightarrow> golib \<Rightarrow> string list \<Rightarrow> http_request \<Rightarrow> st \<Rightarrow> response \<times> st" where
  "redirectToHTTPS url G domains r s =
     (case redirectHost G (r_Host r) domains of
        None \<Rightarrow> (http_Error ''bad host'' 400, s)
      | Some host \<Rightarrow> (Resp 301 (Location (url host r)), set_header ''Connection'' ''close'' s))"

section \<open>What a started broker is\<close>

text \<open>The public half of a key verifies under its id, and is published.\<close>

definition key_known :: "signingKey \<Rightarrow> (string \<rightharpoonup> rsa_PublicKey) \<Rightarrow> claims list \<Rightarrow> bool" where
  "key_known a keys jwks \<longleftrightarrow> keys (key_ID a) = Some (prv_Public (key_Private a)) \<and>
     makePublicJWK (key_ID a) (prv_Public (key_Private a)) \<in> set jwks"

lemma parseSigningKeyConfig_jwk: "parseSigningKeyConfig G c i = Inr (keyID, key, jwk) \<Longrightarrow> jwk = makePublicJWK keyID (prv_Public key)"
  by (auto simp: parseSigningKeyConfig_def Let_def split: if_splits sum.splits)

lemma build_loop_active:
  "build_loop G cfgKeyID flags count cs i keys jwks active n = Inr (keys', jwks', active', n') \<Longrightarrow>
     (\<forall>a. active = Some a \<longrightarrow> key_known a keys jwks) \<Longrightarrow> (active = None \<longleftrightarrow> n = 0) \<Longrightarrow>
     (\<forall>a. active' = Some a \<longrightarrow> key_known a keys' jwks') \<and> (active' = None \<longleftrightarrow> n' = 0)"
proof (induction cs arbitrary: i keys jwks active n)
  case (Cons c cs)
  from Cons.prems(1) obtain keyID key jwk where p: "parseSigningKeyConfig G c i = Inr (keyID, key, jwk)"
    by (auto split: sum.splits)
  with Cons.prems(1) have new: "keys keyID = None" by (auto split: if_splits)
  have keep: "\<forall>a. active = Some a \<longrightarrow> key_known a (keys(keyID \<mapsto> prv_Public key)) (jwks @ [jwk])"
    using Cons.prems(2) new by (auto simp: key_known_def)
  show ?case
  proof (cases "signingKeyConfigIsActive c flags count cfgKeyID keyID")
    case True
    with Cons.prems(1) p new have "build_loop G cfgKeyID flags count cs (i + 1) (keys(keyID \<mapsto> prv_Public key)) (jwks @ [jwk])
        (Some \<lparr>key_ID = keyID, key_Private = key, key_JWK = jwk\<rparr>) (n + 1) = Inr (keys', jwks', active', n')" by simp
    then show ?thesis by (rule Cons.IH) (simp_all add: key_known_def parseSigningKeyConfig_jwk [OF p])
  next
    case False
    with Cons.prems(1) p new have "build_loop G cfgKeyID flags count cs (i + 1) (keys(keyID \<mapsto> prv_Public key)) (jwks @ [jwk])
        active n = Inr (keys', jwks', active', n')" by simp
    then show ?thesis by (rule Cons.IH [OF _ keep Cons.prems(3)])
  qed
qed simp

lemma buildSigningKeySet_active: "buildSigningKeySet G cfg = Inr (Some active, keys, jwks) \<Longrightarrow> key_known active keys jwks"
  using build_loop_active [of G "cf_KeyID cfg" _ _ _ 0 Map.empty "[]" None 0]
  by (fastforce simp: buildSigningKeySet_def Let_def split: if_splits sum.splits prod.splits)

lemma broker_keys_active: "broker_keys G cfg n = Inr (active, keys, jwks, n') \<Longrightarrow> key_known active keys jwks"
  by (auto simp: broker_keys_def Let_def buildSigningKeySet_active key_known_def split: sum.splits prod.splits option.splits if_splits
      dest!: buildSigningKeySet_active)

text \<open>Each entry comes from a client of the configuration with the same id and the same checks passed.\<close>

definition from_config :: "Client list \<Rightarrow> string \<Rightarrow> Client \<Rightarrow> bool" where
  "from_config cs cid c \<longleftrightarrow> c_ClientID c = cid \<and>
     (\<exists>c0 \<in> set cs. c_ClientID c0 = cid \<and> c_RedirectURIs c = c_RedirectURIs c0 \<and>
        c_PostLogoutRedirectURIs c = c_PostLogoutRedirectURIs c0 \<and> c_Public c = c_Public c0 \<and>
        c_RequirePKCE c = c_RequirePKCE c0 \<and> c_ClientSecretSHA256 c = c_ClientSecretSHA256 c0 \<and>
        c_RequireConsent c = c_RequireConsent c0)"

lemma from_config_mono: "set cs \<subseteq> set cs' \<Longrightarrow> from_config cs cid c \<Longrightarrow> from_config cs' cid c"
  unfolding from_config_def by blast

lemma broker_clients_from:
  "broker_clients G cs m = Inr m' \<Longrightarrow> (\<forall>cid c. m cid = Some c \<longrightarrow> from_config all cid c) \<Longrightarrow> set cs \<subseteq> set all \<Longrightarrow>
     \<forall>cid c. m' cid = Some c \<longrightarrow> from_config all cid c"
proof (induction cs arbitrary: m)
  case (Cons c cs)
  from Cons.prems(1) obtain c' gm where n: "normalizeClientScopePolicy c = Inr c'"
    and r: "broker_clients G cs (m(c_ClientID c' \<mapsto>
          c'\<lparr>c_GroupMappings := gm, c_compiledMappings := compileGroupMappings G gm\<rparr>)) = Inr m'"
    by (auto split: if_splits sum.splits)
  have "from_config all (c_ClientID c') (c'\<lparr>c_GroupMappings := gm, c_compiledMappings := x\<rparr>)" for x
    using normalize_keeps [OF n] Cons.prems(3) by (auto simp: from_config_def intro: bexI [of _ c])
  with Cons.prems(2,3) show ?case by (intro Cons.IH [OF r]) auto
qed simp

text \<open>No client and no app token of the configuration is left out.\<close>

lemma broker_clients_dom: "broker_clients G cs m = Inr m' \<Longrightarrow> dom m' = dom m \<union> c_ClientID ` set cs"
proof (induction cs arbitrary: m)
  case (Cons c cs)
  from Cons.prems obtain c' gm where n: "normalizeClientScopePolicy c = Inr c'"
    and r: "broker_clients G cs (m(c_ClientID c' \<mapsto>
          c'\<lparr>c_GroupMappings := gm, c_compiledMappings := compileGroupMappings G gm\<rparr>)) = Inr m'"
    by (auto split: if_splits sum.splits)
  from Cons.IH [OF r] normalize_keeps [OF n] show ?case by (simp del: fun_upd_apply)
qed simp

lemma broker_tokens_dom: "broker_tokens G i ts out m = Inr (out', m') \<Longrightarrow> dom m' = dom m \<union> at_ID ` set ts"
proof (induction ts arbitrary: i out m)
  case (Cons t ts)
  from Cons.prems obtain t' out1 where r: "broker_tokens G (i + 1) ts out1 (m(at_ID t \<mapsto> t')) = Inr (out', m')"
    by (auto simp: Let_def split: if_splits sum.splits)
  from Cons.IH [OF r] show ?case by (simp del: fun_upd_apply)
qed simp

lemma broker_clients_total:
  "distinct (map c_ClientID cs) \<Longrightarrow> dom m \<inter> c_ClientID ` set cs = {} \<Longrightarrow>
   \<forall>c \<in> set cs. c_ClientID c \<noteq> [] \<and> (\<exists>c'. normalizeClientScopePolicy c = Inr c') \<Longrightarrow>
   broker_clients G cs m = Inl err \<Longrightarrow> \<exists>cid g. err = ClientGroups cid g"
proof (induction cs arbitrary: m)
  case (Cons c cs)
  from Cons.prems(3) obtain c' where n: "normalizeClientScopePolicy c = Inr c'" and ne: "c_ClientID c \<noteq> []" by auto
  have id: "c_ClientID c' = c_ClientID c" using normalize_keeps [OF n] by simp
  have fresh: "m (c_ClientID c) = None" using Cons.prems(2) by auto
  show ?case
  proof (cases "normalizeClientGroupMappings G (c_GroupMappings c')")
    case (Inl g)
    with Cons.prems(4) n ne fresh show ?thesis by auto
  next
    case (Inr gm)
    let ?m = "m(c_ClientID c' \<mapsto> c'\<lparr>c_GroupMappings := gm, c_compiledMappings := compileGroupMappings G gm\<rparr>)"
    have r: "broker_clients G cs ?m = Inl err" using Cons.prems(4) n ne fresh Inr by simp
    have "distinct (map c_ClientID cs)" "dom ?m \<inter> c_ClientID ` set cs = {}" using Cons.prems(1,2) id by simp_all
    with Cons.prems(3) show ?thesis by (intro Cons.IH [OF _ _ _ r]) (simp_all del: fun_upd_apply)
  qed
qed simp

lemma broker_tokens_total:
  "distinct (map at_ID ts) \<Longrightarrow> dom m \<inter> at_ID ` set ts = {} \<Longrightarrow> \<forall>t \<in> set ts. at_ID t \<noteq> [] \<Longrightarrow>
   broker_tokens G i ts out m = Inl err \<Longrightarrow> \<exists>tid x g. err = TokenIDInvalid tid \<or> err = TokenScope tid x \<or> err = TokenGroups tid g"
proof (induction ts arbitrary: i out m)
  case (Cons t ts)
  show ?case
  proof (cases "\<exists>scope gm. validAppTokenID (at_ID t) \<and> normalizeAppTokenScope (at_Scope t) = Inr scope \<and>
      normalizeClientGroupMappings G (at_GroupMappings t) = Inr gm")
    case False
    with Cons.prems(3,4) show ?thesis by (auto split: if_splits sum.splits)
  next
    case True
    then obtain scope gm where t: "validAppTokenID (at_ID t)" "normalizeAppTokenScope (at_Scope t) = Inr scope"
      "normalizeClientGroupMappings G (at_GroupMappings t) = Inr gm" by blast
    let ?t = "t\<lparr>at_Scope := scope, at_GroupMappings := gm, at_compiledMappings := compileGroupMappings G gm\<rparr>"
    have "m (at_ID t) = None" using Cons.prems(2) by auto
    with t Cons.prems(3,4) have r: "broker_tokens G (i + 1) ts (out @ [?t]) (m(at_ID t \<mapsto> ?t)) = Inl err" by (simp add: Let_def)
    have "distinct (map at_ID ts)" "dom (m(at_ID t \<mapsto> ?t)) \<inter> at_ID ` set ts = {}" using Cons.prems(1,2) by simp_all
    with Cons.prems(3) show ?thesis by (intro Cons.IH [OF _ _ _ r]) (simp_all del: fun_upd_apply)
  qed
qed simp

lemma broker_start_Inr:
  "broker_start now e s = Inr (e', s') \<Longrightarrow> e' = e \<and> (\<exists>u s1. reloadStoredRegistries e s = (Inr u, s1) \<and> s' = sweepExpired now s1)"
  by (auto simp: broker_start_def split: prod.splits sum.splits)

lemma NewBroker_cases:
  assumes "NewBroker G ca errtext cfg0 d now n = Inr (e, s)"
  obtains keys tokens active jwks n1 s1 u where
    "validateConfig G (normalizeConfig G ca cfg0) = None"
    "broker_keys G (normalizeConfig G ca cfg0) n = Inr (active, keys, jwks, n1)"
    "broker_clients G (cf_Clients (normalizeConfig G ca cfg0)) Map.empty = Inr (e_clients e)"
    "e_activeKey e = active" "e_verifyKeys e = keys" "e_publicJWKs e = jwks" "e_lib e = G" "e_now e = now"
    "broker_tokens G 0 (cf_AppTokens (normalizeConfig G ca cfg0)) [] Map.empty = Inr (tokens, e_appTokens e)"
    "e_cfg e = (normalizeConfig G ca cfg0)\<lparr>cf_KeyID := key_ID active, cf_AppTokens := tokens\<rparr>"
    "reloadStoredRegistries e (broker_state (e_cfg e) d n1) = (Inr u, s1)" "s = sweepExpired now s1"
proof -
  let ?c = "normalizeConfig G ca cfg0"
  note h = assms [unfolded NewBroker_def Let_def]
  from h have v: "validateConfig G ?c = None" by (cases "validateConfig G ?c") simp_all
  note h = h [unfolded v option.case]
  from h obtain active keys jwks n1 where k: "broker_keys G ?c n = Inr (active, keys, jwks, n1)"
    by (cases "broker_keys G ?c n") auto
  note h = h [unfolded k sum.case prod.case]
  from h obtain clients where c: "broker_clients G (cf_Clients ?c) Map.empty = Inr clients"
    by (cases "broker_clients G (cf_Clients ?c) Map.empty") auto
  note h = h [unfolded c sum.case]
  from h obtain tokens tm where t: "broker_tokens G 0 (cf_AppTokens ?c) [] Map.empty = Inr (tokens, tm)"
    by (cases "broker_tokens G 0 (cf_AppTokens ?c) [] Map.empty") auto
  note h = h [unfolded t sum.case prod.case]
  from h obtain proxies where p: "newTrustedProxySet G (cf_TrustedProxies ?c) = Inr proxies"
    by (cases "newTrustedProxySet G (cf_TrustedProxies ?c)") auto
  from broker_start_Inr [OF h [unfolded p sum.case]] v k c t show thesis by (auto intro: that)
qed

lemma sweepExpired_registries [simp]:
  "st_clients (sweepExpired now s) = st_clients s" "st_appTokens (sweepExpired now s) = st_appTokens s"
  by (simp_all add: sweepExpired_def Let_def on_db_def split: prod.splits)

lemma production_clients:
  assumes "NewBroker G ca errtext cfg0 d now n = Inr (e, s)" and "cf_Production (e_cfg e)" and "e_clients e cid = Some c"
  shows "c_RequirePKCE c \<and> (c_Public c \<or> validSHA256Hex (c_ClientSecretSHA256 c)) \<and>
    (\<forall>uri \<in> set (c_RedirectURIs c) \<union> set (c_PostLogoutRedirectURIs c). public_https G uri)"
  using assms(1)
proof (cases rule: NewBroker_cases)
  case (1 keys tokens active jwks n1 s1 u)
  let ?cfg = "normalizeConfig G ca cfg0"
  from broker_clients_from [OF 1(3), of "cf_Clients ?cfg"] assms(3) obtain c0 where c0: "c0 \<in> set (cf_Clients ?cfg)"
    and eq: "c_RedirectURIs c = c_RedirectURIs c0" "c_PostLogoutRedirectURIs c = c_PostLogoutRedirectURIs c0"
      "c_Public c = c_Public c0" "c_RequirePKCE c = c_RequirePKCE c0" "c_ClientSecretSHA256 c = c_ClientSecretSHA256 c0"
    by (auto simp: from_config_def)
  have "validateProductionClients G ?cfg = None"
    by (rule validateConfig_production [OF 1(1)]) (use assms(2) 1(10) in simp)
  with c0 have "validateProductionClient G c0 = None"
    by (simp add: validateProductionClients_def first_error_None split: option.splits)
  then show ?thesis by (simp add: validateProductionClient_None eq)
qed

section \<open>Properties\<close>

text \<open>
  C21. What a broker that starts is: its configuration is valid; under the id it puts into its tokens
  it verifies with the public half of the private key it signs with, and publishes that half; it
  has exactly the clients and the app tokens of the configuration, every client under its own id with its redirect
  URIs, secret and flags as configured; the merged registry is keyed by client id; and the
  database is the one it was given, less what had expired.
\<close>

theorem new_broker_sound:
  assumes "NewBroker G ca errtext cfg0 d now n = Inr (e, s)"
  shows "validateConfig G (normalizeConfig G ca cfg0) = None \<and>
    e_verifyKeys e (key_ID (e_activeKey e)) = Some (prv_Public (key_Private (e_activeKey e))) \<and>
    makePublicJWK (key_ID (e_activeKey e)) (prv_Public (key_Private (e_activeKey e))) \<in> set (e_publicJWKs e) \<and>
    key_ID (e_activeKey e) = cf_KeyID (e_cfg e) \<and>
    dom (e_clients e) = c_ClientID ` set (cf_Clients (normalizeConfig G ca cfg0)) \<and>
    (\<forall>cid c. e_clients e cid = Some c \<longrightarrow> from_config (cf_Clients (normalizeConfig G ca cfg0)) cid c) \<and>
    dom (e_appTokens e) = at_ID ` set (cf_AppTokens (normalizeConfig G ca cfg0)) \<and>
    (\<forall>cid c. lookupClient e s cid = Some c \<longrightarrow> c_ClientID c = cid) \<and>
    st_db s = snd (SweepExpired now d)"
  using assms
proof (cases rule: NewBroker_cases)
  case (1 keys tokens active jwks n1 s1 u)
  have from_: "\<forall>cid c. e_clients e cid = Some c \<longrightarrow> from_config (cf_Clients (normalizeConfig G ca cfg0)) cid c"
    by (rule broker_clients_from [OF 1(3)]) simp_all
  have db: "st_db s1 = d" using 1(11) by (auto simp: reloadStoredRegistries_def broker_state_def Let_def split: sum.splits)
  have "registry_keyed e s1" by (rule reload_keyed [OF 1(11)]) (use from_ in \<open>simp add: from_config_def\<close>)
  then have "\<forall>cid c. lookupClient e s cid = Some c \<longrightarrow> c_ClientID c = cid"
    using lookupClient_cong [of s s1 e] 1(12) by (simp add: registry_keyed_def)
  moreover have "dom (e_clients e) = c_ClientID ` set (cf_Clients (normalizeConfig G ca cfg0))"
    "dom (e_appTokens e) = at_ID ` set (cf_AppTokens (normalizeConfig G ca cfg0))"
    using broker_clients_dom [OF 1(3)] broker_tokens_dom [OF 1(9)] by simp_all
  moreover have "key_known (e_activeKey e) (e_verifyKeys e) (e_publicJWKs e)" using broker_keys_active [OF 1(2)] 1(4-6) by simp
  ultimately show ?thesis using 1 from_ db by (simp add: key_known_def sweepExpired_def Let_def)
qed

text \<open>
  C16. A broker in production gives no code without PKCE: for a client of the configuration, an
  authorize request without a challenge, or with another method than S256, changes nothing at
  all, whatever the state the broker has reached, and is answered with an error.
\<close>

theorem production_codes_need_pkce:
  assumes "NewBroker G ca errtext cfg0 d now n = Inr (e, s0)" and "cf_Production (e_cfg e)"
    and "e_clients e (r_Query r ''client_id'') \<noteq> None" and "handleAuthorize e r s = (resp, s')"
    and "r_Query r ''code_challenge'' = [] \<or> challenge_method r \<noteq> ''S256''"
  shows "s' = s \<and> ((\<exists>m. resp = http_Error m 400) \<or> oauth_error e r resp)"
  using assms(4)
proof (cases rule: handleAuthorize_cases)
  case (accepted client scope rid s1)
  from accepted(1) assms(3) have "e_clients e (r_Query r ''client_id'') = Some client"
    by (auto simp: authorize_valid_def lookupClient_def)
  from production_clients [OF assms(1,2) this] authorize_pkce [OF accepted(1)] assms(5) show ?thesis by blast
qed auto

text \<open>
  What can still go wrong once a configuration has passed the checks: the keys, a group mapping
  of a client, an id, scope or group mapping of an app token, or a stored entry that no longer
  loads; the other errors of the construction cannot occur.
\<close>

theorem startup_errors:
  assumes "validateConfig G (normalizeConfig G ca cfg0) = None" and "NewBroker G ca errtext cfg0 d now n = Inl err"
  shows "case err of BrokerKey _ \<Rightarrow> True | NoPersistedKey \<Rightarrow> cf_Production (normalizeConfig G ca cfg0) | KeyNotGenerated \<Rightarrow> True
    | ClientGroups _ _ \<Rightarrow> True | TokenIDInvalid tid \<Rightarrow> True | TokenScope _ _ \<Rightarrow> True | TokenGroups _ _ \<Rightarrow> True
    | BrokerReload _ \<Rightarrow> True | _ \<Rightarrow> False"
proof -
  let ?c = "normalizeConfig G ca cfg0"
  have nil: "TrimSpace [] = []" by code_simp
  note shape = validateConfig_shape [OF assms(1)]
  note cs = client_shape_ok [OF shape_clients [OF shape]] and ts = token_shape_ok [OF shape_tokens [OF shape]]
  obtain proxies where p: "newTrustedProxySet G (cf_TrustedProxies ?c) = Inr proxies"
    using validated_proxies [OF shape_proxies [OF shape]] by blast
  note h = assms(2) [unfolded NewBroker_def Let_def assms(1) option.case p sum.case]
  show ?thesis
  proof (cases "broker_keys G ?c n")
    case (Inl x)
    with h show ?thesis by (auto simp: broker_keys_def Let_def split: sum.splits option.splits if_splits prod.splits)
  next
    case k: (Inr b)
    obtain active keys jwks n1 where b: "b = (active, keys, jwks, n1)" by (metis surj_pair)
    note h = h [unfolded k b sum.case prod.case]
    show ?thesis
    proof (cases "broker_clients G (cf_Clients ?c) Map.empty")
      case c: (Inl x)
      have "\<exists>cid g. x = ClientGroups cid g"
        by (rule broker_clients_total [OF _ _ _ c]) (use cs nil in force)+
      with h c show ?thesis by auto
    next
      case c: (Inr clients)
      note h = h [unfolded c sum.case]
      show ?thesis
      proof (cases "broker_tokens G 0 (cf_AppTokens ?c) [] Map.empty")
        case t: (Inl x)
        have "\<exists>tid y g. x = TokenIDInvalid tid \<or> x = TokenScope tid y \<or> x = TokenGroups tid g"
          by (rule broker_tokens_total [OF _ _ _ t]) (use ts nil in force)+
        with h t show ?thesis by auto
      next
        case t: (Inr tm)
        with h show ?thesis by (auto simp: broker_start_def split: prod.splits sum.splits)
      qed
    qed
  qed
qed

text \<open>
  The plain HTTP listener redirects to the configured domains only: whatever the \<^verbatim>\<open>Host\<close>
  header says, the target host is one of them in normalized form, else the answer is an error.
\<close>

theorem https_redirect_targets:
  assumes "redirectToHTTPS url G domains r s = (resp, s')"
  shows "resp = http_Error ''bad host'' 400 \<and> s' = s \<or>
    (\<exists>domain \<in> set domains. resp = Resp 301 (Location (url (normalizeHost G domain) r)))"
  using assms by (auto simp: redirectToHTTPS_def redirectHost_def find_Some_iff split: option.splits)

section \<open>Witnesses\<close>

definition demo_start :: Config where
  "demo_start = demo_production\<lparr>cf_SigningKeyPEM := ''A'', cf_KeyID := ''k1'',
     cf_Clients := [demo_client\<lparr>c_Public := True, c_RequirePKCE := True\<rparr>]\<rparr>"

abbreviation demo_started :: Config where
  "demo_started \<equiv> normalizeConfig demo_lib ''ca'' demo_start"

lemma demo_start_valid: "validateConfig demo_lib demo_started = None"
  by code_simp

lemma demo_start_fields:
  "cf_Clients demo_started = [demo_client\<lparr>c_Public := True, c_RequirePKCE := True\<rparr>]" "cf_AppTokens demo_started = []"
  "cf_TrustedProxies demo_started = []" "cf_Production demo_started"
  by (simp_all add: normalizeConfig_def demo_start_def demo_production_def demo_cfg_def Let_def)

lemma demo_start_keys: "\<exists>x. broker_keys demo_lib demo_started 0 = Inr x"
proof -
  have "case buildSigningKeySet demo_lib demo_started of Inr (Some _, _) \<Rightarrow> True | _ \<Rightarrow> False" by code_simp
  then show ?thesis by (auto simp: broker_keys_def split: sum.splits option.splits prod.splits)
qed

lemma demo_start_clients: "\<exists>m. broker_clients demo_lib (cf_Clients demo_started) Map.empty = Inr m \<and> m ''web'' \<noteq> None"
proof -
  have "case normalizeClientScopePolicy (demo_client\<lparr>c_Public := True, c_RequirePKCE := True\<rparr>) of Inr c \<Rightarrow> c_ClientID c = ''web'' \<and> c_GroupMappings c = [] | Inl _ \<Rightarrow> False"
    by code_simp
  then show ?thesis
    by (auto simp: demo_start_fields compileGroupMappings_def normalizeClientGroupMappings_def split: sum.splits)
qed

lemma demo_reload: "\<exists>s1. reloadStoredRegistries e (broker_state cfg empty_Store n) = (Inr (), s1)"
  by (simp add: reloadStoredRegistries_def ListStoredClients_def ListStoredAppTokens_def db_view_def broker_state_def empty_Store_def Let_def)

lemma demo_broker:
  "\<exists>e s. NewBroker demo_lib ''ca'' (\<lambda>_. []) demo_start empty_Store 0 0 = Inr (e, s) \<and> cf_Production (e_cfg e) \<and>
     e_clients e ''web'' \<noteq> None"
proof -
  obtain active keys jwks n1 where k: "broker_keys demo_lib demo_started 0 = Inr (active, keys, jwks, n1)"
    using demo_start_keys by (metis surj_pair)
  obtain m where c: "broker_clients demo_lib (cf_Clients demo_started) Map.empty = Inr m" "m ''web'' \<noteq> None"
    using demo_start_clients by blast
  have start: "cf_Production (e_cfg e) \<and> e_clients e ''web'' \<noteq> None \<Longrightarrow>
      \<exists>e' s. broker_start 0 e (broker_state cfg empty_Store n1) = Inr (e', s) \<and> cf_Production (e_cfg e') \<and> e_clients e' ''web'' \<noteq> None"
    for e cfg using demo_reload [of e cfg n1] by (auto simp: broker_start_def)
  show ?thesis
    unfolding NewBroker_def Let_def demo_start_valid option.case k c sum.case prod.case demo_start_fields(2,3)
      broker_tokens.simps newTrustedProxySet.simps
    by (rule start) (simp add: c(2) demo_start_fields(4))
qed

theorem new_broker_sound_witness:
  "\<exists>e s. NewBroker demo_lib ''ca'' (\<lambda>_. []) demo_start empty_Store 0 0 = Inr (e, s) \<and>
     e_verifyKeys e (key_ID (e_activeKey e)) = Some (prv_Public (key_Private (e_activeKey e))) \<and> dom (e_clients e) = {''web''}"
proof -
  obtain e s where b: "NewBroker demo_lib ''ca'' (\<lambda>_. []) demo_start empty_Store 0 0 = Inr (e, s)"
    using demo_broker by blast
  have c: "c_ClientID ` set (cf_Clients demo_started) = {''web''}" by (simp add: demo_start_fields)
  from new_broker_sound [OF b] have "e_verifyKeys e (key_ID (e_activeKey e)) = Some (prv_Public (key_Private (e_activeKey e)))"
    "dom (e_clients e) = {''web''}" unfolding c by blast+
  with b show ?thesis by blast
qed

theorem production_codes_need_pkce_witness:
  "\<exists>e s. NewBroker demo_lib ''ca'' (\<lambda>_. []) demo_start empty_Store 0 0 = Inr (e, s) \<and>
     snd (handleAuthorize e (demo_request\<lparr>r_Query := (\<lambda>_. [])(''client_id'' := ''web'')\<rparr>) s) = s"
proof -
  let ?r = "demo_request\<lparr>r_Query := (\<lambda>_. [])(''client_id'' := ''web'')\<rparr>"
  obtain e s where b: "NewBroker demo_lib ''ca'' (\<lambda>_. []) demo_start empty_Store 0 0 = Inr (e, s)" "cf_Production (e_cfg e)"
    and c: "e_clients e (r_Query ?r ''client_id'') \<noteq> None" using demo_broker by auto
  obtain resp s' where h: "handleAuthorize e ?r s = (resp, s')" by fastforce
  have "s' = s" using production_codes_need_pkce [OF b c h] by simp
  with b(1) h show ?thesis by auto
qed

text \<open>Without a key such a broker refuses to start.\<close>

theorem startup_errors_witness:
  "NewBroker demo_lib ''ca'' (\<lambda>_. []) demo_production empty_Store 0 0 = Inl NoPersistedKey \<and>
   cf_Production (normalizeConfig demo_lib ''ca'' demo_production)"
proof -
  let ?c = "normalizeConfig demo_lib ''ca'' demo_production"
  have v: "validateConfig demo_lib ?c = None" by code_simp
  have "case buildSigningKeySet demo_lib ?c of Inr (None, _) \<Rightarrow> True | _ \<Rightarrow> False" by code_simp
  moreover have p: "cf_Production ?c" by (simp add: normalizeConfig_def demo_production_def Let_def)
  ultimately have "broker_keys demo_lib ?c 0 = Inl NoPersistedKey"
    by (auto simp: broker_keys_def split: sum.splits option.splits prod.splits)
  then have b: "NewBroker demo_lib ''ca'' (\<lambda>_. []) demo_production empty_Store 0 0 = Inl NoPersistedKey"
    by (simp add: NewBroker_def Let_def v)
  from startup_errors [OF v b] b show ?thesis by simp
qed

theorem https_redirect_targets_witness:
  "\<exists>resp s'. redirectToHTTPS (\<lambda>host _. host) demo_lib [''b''] (demo_request\<lparr>r_Host := ''B:80''\<rparr>) demo_st = (resp, s') \<and>
     resp = Resp 301 (Location ''b'')"
proof -
  let ?r = "demo_request\<lparr>r_Host := ''B:80''\<rparr>"
  obtain resp s' where h: "redirectToHTTPS (\<lambda>host _. host) demo_lib [''b''] ?r demo_st = (resp, s')" by fastforce
  have "redirectHost demo_lib ''B:80'' [''b''] = Some ''b''" by code_simp
  with h have "resp \<noteq> http_Error ''bad host'' 400" by (auto simp: redirectToHTTPS_def http_Error_def)
  moreover have "normalizeHost demo_lib ''b'' = ''b''" by code_simp
  ultimately show ?thesis using https_redirect_targets [OF h] h by auto
qed

end
