(* ===== verification/Frames.thy ===== *)
theory Frames
  imports Startup
begin

text \<open>
  What a request keeps.  The locale \<open>request_invariant\<close> is about a predicate on the state that
  survives the transactions and effects the handlers use: draws, audit records, limiters, cookies,
  the headers that handlers set, and each operation of the store with the arguments it is called
  with (codes and refresh tokens only under hashes, refresh tokens only with a family).  Every
  handler but the four mutations of the administrators keeps such a predicate;
  \<open>server_invariant\<close> adds the registries and with them all handlers.  Two contracts give
  such predicates: a view of the state that sees only the operator's part of the database, and a
  predicate on the database alone.
\<close>

definition operator_db :: "Store \<Rightarrow> Client bucket \<times> AppTokenConfig bucket \<times> managedSigningKeySet bucket" where
  "operator_db d = (db_clients d, db_appTokens d, db_signingKeys d)"

definition operator_state ::
  "st \<Rightarrow> (string \<rightharpoonup> Client) \<times> (string \<rightharpoonup> AppTokenConfig) \<times> Client bucket \<times> AppTokenConfig bucket \<times> managedSigningKeySet bucket" where
  "operator_state s = (st_clients s, st_appTokens s, operator_db (st_db s))"

section \<open>The store\<close>

named_theorems operator \<open>transactions that keep the operator's part of the database\<close>
named_theorems inv \<open>operations that keep an invariant\<close>

lemma operator_db_update: "(\<And>a s'. r = Inr (a, s') \<Longrightarrow> operator_db s' = operator_db s) \<Longrightarrow> operator_db (snd (db_update s r)) = operator_db s"
  by (auto simp: db_update_def split: sum.splits prod.splits)

lemmas operator_ops = operator_db_def putJSON_Inr

lemma operator_store [operator]:
  "operator_db (snd (UpsertProfile p d)) = operator_db d"
  "operator_db (snd (SetPendingTOTP u x d)) = operator_db d"
  "operator_db (snd (CommitPendingTOTP u d)) = operator_db d"
  "operator_db (snd (ClearPendingTOTP u d)) = operator_db d"
  "operator_db (snd (AddWebAuthnCredential u c d)) = operator_db d"
  "operator_db (snd (UpdateWebAuthnSignCount u i n d)) = operator_db d"
  "operator_db (snd (PutSession k sess d)) = operator_db d"
  "operator_db (snd (EnsureSessionCSRF k y d)) = operator_db d"
  "operator_db (snd (DeleteSession k d)) = operator_db d"
  "operator_db (snd (PutAuthRequest ar d)) = operator_db d"
  "operator_db (snd (ConsumeAuthRequest k d)) = operator_db d"
  "operator_db (snd (PutAuthCode k ac d)) = operator_db d"
  "operator_db (snd (ConsumeAuthCode k d)) = operator_db d"
  unfolding UpsertProfile_def SetPendingTOTP_def CommitPendingTOTP_def ClearPendingTOTP_def AddWebAuthnCredential_def
    UpdateWebAuthnSignCount_def PutSession_def EnsureSessionCSRF_def DeleteSession_def PutAuthRequest_def ConsumeAuthRequest_def
    PutAuthCode_def ConsumeAuthCode_def consume_def
  by (rule operator_db_update; auto simp: operator_ops put_user_def Let_def split: sum.splits option.splits if_splits)+

lemma operator_tokens [operator]:
  "operator_db (snd (PutRefreshToken k rt d)) = operator_db d"
  "operator_db (snd (DeleteRefreshToken k d)) = operator_db d"
  "operator_db (snd (RotateRefreshToken k k' rt crt d)) = operator_db d"
  "operator_db (snd (PutRevokedJTI j t d)) = operator_db d"
  "operator_db (snd (DeleteRevokedJTI j d)) = operator_db d"
  "operator_db (snd (PutWebAuthnRegistration k ch d)) = operator_db d"
  "operator_db (snd (ConsumeWebAuthnRegistration k d)) = operator_db d"
  "operator_db (snd (PutWebAuthnLogin k ch d)) = operator_db d"
  "operator_db (snd (ConsumeWebAuthnLogin k d)) = operator_db d"
  unfolding PutRefreshToken_def DeleteRefreshToken_def RotateRefreshToken_def PutRevokedJTI_def
    DeleteRevokedJTI_def PutWebAuthnRegistration_def ConsumeWebAuthnRegistration_def PutWebAuthnLogin_def
    ConsumeWebAuthnLogin_def consume_def
  by (rule operator_db_update; auto simp: operator_ops Let_def split: sum.splits option.splits if_splits)+

lemma operator_guarded [operator]:
  "operator_db (snd (RevokeRefreshTokenFamily fam d)) = operator_db d"
  "operator_db (snd (PutConsent cr d)) = operator_db d"
  unfolding RevokeRefreshTokenFamily_def PutConsent_def
  by (auto simp: db_update_def operator_ops split: sum.splits option.splits)

section \<open>Invariants of the handlers\<close>

definition handler_headers :: "string set" where
  "handler_headers =
     {''Allow'', ''Cache-Control'', ''Connection'', ''Content-Type'', ''ETag'', ''Pragma'', ''Retry-After'', ''WWW-Authenticate''}"

text \<open>A family that reuse detection can revoke; it could be empty only if the source of randomness gave nothing.\<close>

definition family_ok :: "env \<Rightarrow> string \<Rightarrow> bool" where
  "family_ok e fam = (fam \<noteq> [] \<or> (\<exists>i. g_entropy (e_lib e) i 16 = []))"

lemma family_drawn [inv]: "family_ok e (fst (randomB64 e 16 s))"
  by (auto simp: family_ok_def randomB64_def)

lemma family_rotated [inv]:
  "family_ok e (rt_FamilyID (rr_next (fst (newRefreshRotation e old cid sc s))))"
  "crt_FamilyID (rr_consumed (fst (newRefreshRotation e old cid sc s))) = rt_FamilyID (rr_next (fst (newRefreshRotation e old cid sc s)))"
  "\<exists>y. rr_key (fst (newRefreshRotation e old cid sc s)) = hash_secret e y"
  using family_drawn [of e s] by (auto simp: newRefreshRotation_def case_prod_beta family_ok_def)

lemmas handler_splits = sum.split option.split list.split bool.split prompt_decision.split client_auth_error.split

locale request_invariant =
  fixes e :: env and I :: "st \<Rightarrow> bool"
  assumes keep_UpsertProfile [inv]: "I s \<Longrightarrow> I (snd (on_db (UpsertProfile p) s))"
    and keep_SetPendingTOTP [inv]: "I s \<Longrightarrow> I (snd (on_db (SetPendingTOTP u x) s))"
    and keep_CommitPendingTOTP [inv]: "I s \<Longrightarrow> I (snd (on_db (CommitPendingTOTP u) s))"
    and keep_ClearPendingTOTP [inv]: "I s \<Longrightarrow> I (snd (on_db (ClearPendingTOTP u) s))"
    and keep_AddWebAuthnCredential [inv]: "I s \<Longrightarrow> I (snd (on_db (AddWebAuthnCredential u cred) s))"
    and keep_UpdateWebAuthnSignCount [inv]: "I s \<Longrightarrow> I (snd (on_db (UpdateWebAuthnSignCount u i cnt) s))"
    and keep_PutSession [inv]: "I s \<Longrightarrow> I (snd (on_db (PutSession k sess) s))"
    and keep_EnsureSessionCSRF [inv]: "I s \<Longrightarrow> I (snd (on_db (EnsureSessionCSRF k y) s))"
    and keep_DeleteSession [inv]: "I s \<Longrightarrow> I (snd (on_db (DeleteSession k) s))"
    and keep_PutAuthRequest [inv]: "I s \<Longrightarrow> I (snd (on_db (PutAuthRequest ar) s))"
    and keep_ConsumeAuthRequest [inv]: "I s \<Longrightarrow> I (snd (on_db (ConsumeAuthRequest k) s))"
    and keep_PutAuthCode [inv]: "I s \<Longrightarrow> I (snd (on_db (PutAuthCode (hash_secret e y) ac) s))"
    and keep_ConsumeAuthCode [inv]: "I s \<Longrightarrow> I (snd (on_db (ConsumeAuthCode k) s))"
    and keep_DeleteRefreshToken [inv]: "I s \<Longrightarrow> I (snd (on_db (DeleteRefreshToken k) s))"
    and keep_RevokeRefreshTokenFamily [inv]: "I s \<Longrightarrow> I (snd (on_db (RevokeRefreshTokenFamily fam) s))"
    and keep_PutRevokedJTI [inv]: "I s \<Longrightarrow> I (snd (on_db (PutRevokedJTI j expiry) s))"
    and keep_DeleteRevokedJTI [inv]: "I s \<Longrightarrow> I (snd (on_db (DeleteRevokedJTI j) s))"
    and keep_PutWebAuthnRegistration [inv]: "I s \<Longrightarrow> I (snd (on_db (PutWebAuthnRegistration y (challenge_record e u y)) s))"
    and keep_ConsumeWebAuthnRegistration [inv]: "I s \<Longrightarrow> I (snd (on_db (ConsumeWebAuthnRegistration k) s))"
    and keep_PutWebAuthnLogin [inv]: "I s \<Longrightarrow> I (snd (on_db (PutWebAuthnLogin y (challenge_record e u y)) s))"
    and keep_ConsumeWebAuthnLogin [inv]: "I s \<Longrightarrow> I (snd (on_db (ConsumeWebAuthnLogin k) s))"
    and keep_PutConsent [inv]: "I s \<Longrightarrow> I (snd (on_db (PutConsent cr) s))"
    and keep_PutRefreshToken [inv]: "family_ok e (rt_FamilyID rt) \<Longrightarrow> I s \<Longrightarrow>
           I (snd (on_db (PutRefreshToken (hash_secret e y) rt) s))"
    and keep_RotateRefreshToken [inv]: "family_ok e (rt_FamilyID rt) \<Longrightarrow> crt_FamilyID crt = rt_FamilyID rt \<Longrightarrow> I s \<Longrightarrow>
           I (snd (on_db (RotateRefreshToken (hash_secret e y) (hash_secret e y') rt crt) s))"
    and keep_st_drawn [inv]: "I s \<Longrightarrow> I (s\<lparr>st_drawn := n\<rparr>)"
    and keep_st_audit [inv]: "I s \<Longrightarrow> I (s\<lparr>st_audit := a\<rparr>)"
    and keep_w_cookies [inv]: "I s \<Longrightarrow> I (s\<lparr>w_cookies := cookies\<rparr>)"
    and keep_st_login [inv]: "I s \<Longrightarrow> I (s\<lparr>st_login := l\<rparr>)"
    and keep_st_token [inv]: "I s \<Longrightarrow> I (s\<lparr>st_token := l'\<rparr>)"
    and keep_st_preAuth [inv]: "I s \<Longrightarrow> I (s\<lparr>st_preAuth := l''\<rparr>)"
    and keep_header: "k \<in> handler_headers \<Longrightarrow> I s \<Longrightarrow> I (set_header k v s)"
begin

lemma set_header_inv [inv]:
  "I s \<Longrightarrow> I (set_header ''Allow'' v s)"
  "I s \<Longrightarrow> I (set_header ''Cache-Control'' v s)"
  "I s \<Longrightarrow> I (set_header ''Connection'' v s)"
  "I s \<Longrightarrow> I (set_header ''Content-Type'' v s)"
  "I s \<Longrightarrow> I (set_header ''ETag'' v s)"
  "I s \<Longrightarrow> I (set_header ''Pragma'' v s)"
  "I s \<Longrightarrow> I (set_header ''Retry-After'' v s)"
  "I s \<Longrightarrow> I (set_header ''WWW-Authenticate'' v s)"
  by (simp_all add: keep_header handler_headers_def)

lemma SetCookie_inv [inv]: "I s \<Longrightarrow> I (SetCookie a s)"
  by (auto simp: SetCookie_def Let_def case_prod_beta inv split: handler_splits)

lemma randomB64_inv [inv]: "I s \<Longrightarrow> I (snd (randomB64 e b s))"
  by (auto simp: randomB64_def Let_def case_prod_beta inv split: handler_splits)

lemma auditEvent_inv [inv]: "I s \<Longrightarrow> I (auditEvent e b c d f s)"
  by (auto simp: auditEvent_def Let_def case_prod_beta inv split: handler_splits)

lemma writeRetryAfter_inv [inv]: "I s \<Longrightarrow> I (writeRetryAfter a s)"
  by (auto simp: writeRetryAfter_def Let_def case_prod_beta inv split: handler_splits)

text \<open>Tokens.\<close>

lemma verifyTokenNotRevoked_inv [inv]: "I s \<Longrightarrow> I (snd (verifyTokenNotRevoked e b s))"
  by (auto simp: verifyTokenNotRevoked_def Let_def case_prod_beta inv split: handler_splits)

lemma validateJWTClaims_inv [inv]: "I s \<Longrightarrow> I (snd (validateJWTClaims e b c s))"
  by (auto simp: validateJWTClaims_def Let_def case_prod_beta inv split: handler_splits)

lemma verifyJWTWithOptions_inv [inv]: "I s \<Longrightarrow> I (snd (verifyJWTWithOptions e b c s))"
  by (auto simp: verifyJWTWithOptions_def Let_def case_prod_beta inv split: handler_splits)

lemma verifyJWT_inv [inv]: "I s \<Longrightarrow> I (snd (verifyJWT e b s))"
  by (auto simp: verifyJWT_def Let_def case_prod_beta inv split: handler_splits)

text \<open>Sessions.\<close>

lemma anonymousCSRFToken_inv [inv]: "I s \<Longrightarrow> I (snd (anonymousCSRFToken e b c s))"
  by (auto simp: anonymousCSRFToken_def Let_def case_prod_beta inv split: handler_splits)

lemma load_session_inv [inv]: "I s \<Longrightarrow> I (snd (load_session e b s))"
  by (auto simp: load_session_def Let_def case_prod_beta inv split: handler_splits)

lemma validSession_inv [inv]: "I s \<Longrightarrow> I (snd (validSession e b s))"
  by (auto simp: validSession_def Let_def case_prod_beta inv split: handler_splits)

lemma maybeExtendSession_inv [inv]: "I s \<Longrightarrow> I (snd (maybeExtendSession e b s))"
  by (auto simp: maybeExtendSession_def Let_def case_prod_beta inv split: handler_splits)

lemma clearSession_inv [inv]: "I s \<Longrightarrow> I (snd (clearSession e b s))"
  by (auto simp: clearSession_def Let_def case_prod_beta inv split: handler_splits)

lemma createSession_inv [inv]: "I s \<Longrightarrow> I (snd (createSession e b c d s))"
  by (auto simp: createSession_def Let_def case_prod_beta inv split: handler_splits)

lemma markSessionReAuth_inv [inv]: "I s \<Longrightarrow> I (snd (markSessionReAuth e b s))"
  by (auto simp: markSessionReAuth_def Let_def case_prod_beta inv split: handler_splits)

lemma requireRecentReAuth_inv [inv]: "I s \<Longrightarrow> I (snd (requireRecentReAuth e b s))"
  by (auto simp: requireRecentReAuth_def Let_def case_prod_beta inv split: handler_splits)

lemma login_allow_inv [inv]: "I s \<Longrightarrow> I (snd (login_allow e b s))"
  by (auto simp: login_allow_def Let_def case_prod_beta inv split: handler_splits)

lemma login_failure_inv [inv]: "I s \<Longrightarrow> I (login_failure e b s)"
  by (auto simp: login_failure_def Let_def case_prod_beta inv split: handler_splits)

lemma login_success_inv [inv]: "I s \<Longrightarrow> I (login_success a s)"
  by (auto simp: login_success_def Let_def case_prod_beta inv split: handler_splits)

lemma allow_keys_inv [inv]: "I s \<Longrightarrow> I (snd (allow_keys e ks s))"
  by (induction ks arbitrary: s) (auto simp: case_prod_beta inv)

lemma allowCredentialLoginAttempt_inv [inv]: "I s \<Longrightarrow> I (snd (allowCredentialLoginAttempt e b c s))"
  by (auto simp: allowCredentialLoginAttempt_def Let_def case_prod_beta inv split: handler_splits)

lemma recordCredentialLoginFailure_inv [inv]: "I s \<Longrightarrow> I (recordCredentialLoginFailure e r u s)"
proof -
  have "I s \<Longrightarrow> I (fold (login_failure e) ks s)" for ks by (induction ks arbitrary: s) (simp_all add: inv)
  then show "I s \<Longrightarrow> ?thesis" by (simp add: recordCredentialLoginFailure_def)
qed

lemma recordCredentialLoginSuccess_inv [inv]: "I s \<Longrightarrow> I (recordCredentialLoginSuccess e b c s)"
  by (auto simp: recordCredentialLoginSuccess_def Let_def case_prod_beta inv split: handler_splits)

text \<open>Consent.\<close>

lemma or_store_error_state [inv]: "snd (or_store_error x) = snd x"
  by (simp add: or_store_error_def case_prod_beta split: sum.split)

lemma issueCodeRedirect_inv [inv]: "I s \<Longrightarrow> I (snd (issueCodeRedirect e b c s))"
  by (auto simp: issueCodeRedirect_def Let_def case_prod_beta inv split: handler_splits)

lemma preauth_check_inv [inv]: "I s \<Longrightarrow> I (snd (preauth_check e b s))"
  by (auto simp: preauth_check_def Let_def case_prod_beta inv split: handler_splits)

lemma allowPreAuthWrite_inv [inv]: "I s \<Longrightarrow> I (snd (allowPreAuthWrite e b c s))"
  by (auto simp: allowPreAuthWrite_def Let_def case_prod_beta inv split: handler_splits)

lemma allowConsentWrite_inv [inv]: "I s \<Longrightarrow> I (snd (allowConsentWrite e b c s))"
  by (auto simp: allowConsentWrite_def Let_def case_prod_beta inv split: handler_splits)

lemma proceedAfterAuthn_inv [inv]: "I s \<Longrightarrow> I (snd (proceedAfterAuthn e b c d s))"
  by (auto simp: proceedAfterAuthn_def Let_def case_prod_beta inv split: handler_splits)

lemma handleConsentGet_inv [inv]: "I s \<Longrightarrow> I (snd (handleConsentGet e b s))"
  by (auto simp: handleConsentGet_def Let_def case_prod_beta inv split: handler_splits)

lemma handleConsentPost_inv [inv]: "I s \<Longrightarrow> I (snd (handleConsentPost e b s))"
  by (auto simp: handleConsentPost_def Let_def case_prod_beta inv split: handler_splits)

text \<open>One-time codes.\<close>

lemma handleTOTPEnroll_inv [inv]: "I s \<Longrightarrow> I (snd (handleTOTPEnroll e b s))"
  by (auto simp: handleTOTPEnroll_def Let_def case_prod_beta inv split: handler_splits)

lemma handleTOTPEnrollVerify_inv [inv]: "I s \<Longrightarrow> I (snd (handleTOTPEnrollVerify e b s))"
  by (auto simp: handleTOTPEnrollVerify_def Let_def case_prod_beta inv split: handler_splits)

text \<open>Login and logout.\<close>

lemma handleLoginGet_inv [inv]: "I s \<Longrightarrow> I (snd (handleLoginGet e b s))"
  by (auto simp: handleLoginGet_def Let_def case_prod_beta inv split: handler_splits)

lemma login_refused_inv [inv]: "I s \<Longrightarrow> I (snd (login_refused e b c d f s))"
  by (auto simp: login_refused_def Let_def case_prod_beta inv split: handler_splits)

lemma login_password_inv [inv]: "I s \<Longrightarrow> I (snd (login_password e b c d s))"
  by (auto simp: login_password_def Let_def case_prod_beta inv split: handler_splits)

lemma handleLoginPost_inv [inv]: "I s \<Longrightarrow> I (snd (handleLoginPost e b s))"
  by (auto simp: handleLoginPost_def Let_def case_prod_beta inv split: handler_splits)

lemma handleReAuth_inv [inv]: "I s \<Longrightarrow> I (snd (handleReAuth e b s))"
  by (auto simp: handleReAuth_def Let_def case_prod_beta inv split: handler_splits)

lemma handleLocalLogoutGet_inv [inv]: "I s \<Longrightarrow> I (snd (handleLocalLogoutGet e b s))"
  by (auto simp: handleLocalLogoutGet_def Let_def case_prod_beta inv split: handler_splits)

lemma handleLocalLogoutPost_inv [inv]: "I s \<Longrightarrow> I (snd (handleLocalLogoutPost e b s))"
  by (auto simp: handleLocalLogoutPost_def Let_def case_prod_beta inv split: handler_splits)

lemma logoutClientIDFromIDTokenHint_inv [inv]: "I s \<Longrightarrow> I (snd (logoutClientIDFromIDTokenHint e b s))"
  by (auto simp: logoutClientIDFromIDTokenHint_def Let_def case_prod_beta inv split: handler_splits)

lemma resolveLogoutClientID_inv [inv]: "I s \<Longrightarrow> I (snd (resolveLogoutClientID e b c s))"
  by (auto simp: resolveLogoutClientID_def Let_def case_prod_beta inv split: handler_splits)

lemma audit_logout_inv [inv]: "I s \<Longrightarrow> I (audit_logout e b c d s)"
  by (auto simp: audit_logout_def Let_def case_prod_beta inv split: handler_splits)

lemma handlePostLogoutRedirect_inv [inv]: "I s \<Longrightarrow> I (snd (handlePostLogoutRedirect e b c d f s))"
  by (auto simp: handlePostLogoutRedirect_def Let_def case_prod_beta inv split: handler_splits)

lemma renderRPLogoutConfirm_inv [inv]: "I s \<Longrightarrow> I (snd (renderRPLogoutConfirm e b c d f g s))"
  by (auto simp: renderRPLogoutConfirm_def Let_def case_prod_beta inv split: handler_splits)

lemma handleLogout_inv [inv]: "I s \<Longrightarrow> I (snd (handleLogout e b s))"
  by (auto simp: handleLogout_def Let_def case_prod_beta inv split: handler_splits)

text \<open>The token endpoint.\<close>

lemma authenticateClientRateLimited_inv [inv]: "I s \<Longrightarrow> I (snd (authenticateClientRateLimited e b c s))"
  by (auto simp: authenticateClientRateLimited_def Let_def case_prod_beta inv split: handler_splits)

lemma issueUserTokens_inv [inv]: "I s \<Longrightarrow> I (snd (issueUserTokens e b c d f g h k s))"
  by (auto simp: issueUserTokens_def Let_def case_prod_beta inv split: handler_splits)

lemma token_audit_fail_inv [inv]: "I s \<Longrightarrow> I (token_audit_fail e b c s)"
  by (auto simp: token_audit_fail_def Let_def case_prod_beta inv split: handler_splits)

lemma tokenAuthorizationCode_inv [inv]: "I s \<Longrightarrow> I (snd (tokenAuthorizationCode e b c d s))"
  by (auto simp: tokenAuthorizationCode_def Let_def case_prod_beta inv split: handler_splits)

lemma newRefreshRotation_inv [inv]: "I s \<Longrightarrow> I (snd (newRefreshRotation e b c d s))"
  by (auto simp: newRefreshRotation_def Let_def case_prod_beta inv split: handler_splits)

lemma handleRefreshTokenReuse_inv [inv]: "I s \<Longrightarrow> I (snd (handleRefreshTokenReuse e b c d s))"
  by (auto simp: handleRefreshTokenReuse_def Let_def case_prod_beta inv split: handler_splits)

lemma rejectConsumedRefreshToken_inv [inv]: "I s \<Longrightarrow> I (snd (rejectConsumedRefreshToken e b c d s))"
  by (auto simp: rejectConsumedRefreshToken_def Let_def case_prod_beta inv split: handler_splits)

lemma rejectExpiredOrMismatchedRefreshToken_inv [inv]: "I s \<Longrightarrow> I (snd (rejectExpiredOrMismatchedRefreshToken e b c d f s))"
  by (auto simp: rejectExpiredOrMismatchedRefreshToken_def Let_def case_prod_beta inv split: handler_splits)

lemma rejectRefreshScopeExpansion_inv [inv]: "I s \<Longrightarrow> I (snd (rejectRefreshScopeExpansion e b c d f s))"
  by (auto simp: rejectRefreshScopeExpansion_def Let_def case_prod_beta inv split: handler_splits)

lemma refresh_rotate_inv [inv]: "I s \<Longrightarrow> I (snd (refresh_rotate e b c (hash_secret e d) f g s))"
proof -
  obtain y where "rr_key (fst (newRefreshRotation e f (c_ClientID c) g s)) = hash_secret e y" using family_rotated(3) by blast
  then show "I s \<Longrightarrow> ?thesis" by (auto simp: refresh_rotate_def Let_def case_prod_beta inv split: handler_splits)
qed

lemma tokenRefresh_inv [inv]: "I s \<Longrightarrow> I (snd (tokenRefresh e b c d s))"
  by (auto simp: tokenRefresh_def Let_def case_prod_beta inv split: handler_splits)

lemma tokenClientCredentials_inv [inv]: "I s \<Longrightarrow> I (snd (tokenClientCredentials e b c d s))"
  by (auto simp: tokenClientCredentials_def Let_def case_prod_beta inv split: handler_splits)

lemma handleToken_inv [inv]: "I s \<Longrightarrow> I (snd (handleToken e b s))"
  by (auto simp: handleToken_def Let_def case_prod_beta inv split: handler_splits)

text \<open>The other OAuth endpoints.\<close>

lemma putAuthRequest_inv [inv]: "I s \<Longrightarrow> I (snd (putAuthRequest a s))"
  by (auto simp: putAuthRequest_def Let_def case_prod_beta inv split: handler_splits)

lemma authorize_request_inv [inv]: "I s \<Longrightarrow> I (snd (authorize_request e b c d s))"
  by (auto simp: authorize_request_def Let_def case_prod_beta inv split: handler_splits)

lemma handleAuthorize_inv [inv]: "I s \<Longrightarrow> I (snd (handleAuthorize e b s))"
  by (auto simp: handleAuthorize_def Let_def case_prod_beta inv split: handler_splits)

lemma handleUserInfo_inv [inv]: "I s \<Longrightarrow> I (snd (handleUserInfo e b s))"
  by (auto simp: handleUserInfo_def Let_def case_prod_beta inv split: handler_splits)

lemma introspectJWT_inv [inv]: "I s \<Longrightarrow> I (snd (introspectJWT e b c s))"
  by (auto simp: introspectJWT_def Let_def case_prod_beta inv split: handler_splits)

lemma introspectToken_inv [inv]: "I s \<Longrightarrow> I (snd (introspectToken e b c d s))"
  by (auto simp: introspectToken_def Let_def case_prod_beta inv split: handler_splits)

lemma handleIntrospect_inv [inv]: "I s \<Longrightarrow> I (snd (handleIntrospect e b s))"
  by (auto simp: handleIntrospect_def Let_def case_prod_beta inv split: handler_splits)

lemma revokeRefreshToken_inv [inv]: "I s \<Longrightarrow> I (snd (revokeRefreshToken e b c s))"
  by (auto simp: revokeRefreshToken_def Let_def case_prod_beta inv split: handler_splits)

lemma revokeJWT_inv [inv]: "I s \<Longrightarrow> I (snd (revokeJWT e b c s))"
  by (auto simp: revokeJWT_def Let_def case_prod_beta inv split: handler_splits)

lemma handleRevoke_inv [inv]: "I s \<Longrightarrow> I (snd (handleRevoke e b s))"
  by (auto simp: handleRevoke_def Let_def case_prod_beta inv split: handler_splits)

lemma issueAppToken_inv [inv]: "I s \<Longrightarrow> I (snd (issueAppToken e b c s))"
  by (auto simp: issueAppToken_def Let_def case_prod_beta inv split: handler_splits)

text \<open>Passkeys.\<close>

lemma verifyWebAuthnAssertion_inv [inv]: "I s \<Longrightarrow> I (snd (verifyWebAuthnAssertion e b c d f g s))"
  by (auto simp: verifyWebAuthnAssertion_def Let_def case_prod_beta inv split: handler_splits)

lemma handleWebAuthnRegisterBegin_inv [inv]: "I s \<Longrightarrow> I (snd (handleWebAuthnRegisterBegin e b s))"
  by (auto simp: handleWebAuthnRegisterBegin_def Let_def case_prod_beta inv split: handler_splits)

lemma handleWebAuthnRegisterFinish_inv [inv]: "I s \<Longrightarrow> I (snd (handleWebAuthnRegisterFinish e b s))"
  by (auto simp: handleWebAuthnRegisterFinish_def Let_def case_prod_beta inv split: handler_splits)

lemma handleWebAuthnLoginBegin_inv [inv]: "I s \<Longrightarrow> I (snd (handleWebAuthnLoginBegin e b s))"
  by (auto simp: handleWebAuthnLoginBegin_def Let_def case_prod_beta inv split: handler_splits)

lemma webauthn_login_with_inv [inv]: "I s \<Longrightarrow> I (snd (webauthn_login_with e b c d f g s))"
  by (auto simp: webauthn_login_with_def Let_def case_prod_beta inv split: handler_splits)

lemma handleWebAuthnLoginFinish_inv [inv]: "I s \<Longrightarrow> I (snd (handleWebAuthnLoginFinish e b s))"
  by (auto simp: handleWebAuthnLoginFinish_def Let_def case_prod_beta inv split: handler_splits)

text \<open>The home page and the operational endpoints.\<close>

lemma serveStaticAsset_inv [inv]: "I s \<Longrightarrow> I (snd (serveStaticAsset a b c d s))"
  by (auto simp: serveStaticAsset_def Let_def case_prod_beta inv split: handler_splits)

lemma handleStylesheet_inv [inv]: "I s \<Longrightarrow> I (snd (handleStylesheet a e c s))"
  by (auto simp: handleStylesheet_def Let_def case_prod_beta inv split: handler_splits)

lemma handleScript_inv [inv]: "I s \<Longrightarrow> I (snd (handleScript a e c s))"
  by (auto simp: handleScript_def Let_def case_prod_beta inv split: handler_splits)

lemma handleHealth_inv [inv]: "I s \<Longrightarrow> I (snd (handleHealth e b s))"
  by (auto simp: handleHealth_def Let_def case_prod_beta inv split: handler_splits)

lemma handleLive_inv [inv]: "I s \<Longrightarrow> I (snd (handleLive e b s))"
  by (auto simp: handleLive_def Let_def case_prod_beta inv split: handler_splits)

lemma handleReady_inv [inv]: "I s \<Longrightarrow> I (snd (handleReady e b s))"
  by (auto simp: handleReady_def Let_def case_prod_beta inv split: handler_splits)

lemma handleMetrics_inv [inv]: "I s \<Longrightarrow> I (snd (handleMetrics a b e d s))"
  by (auto simp: handleMetrics_def Let_def case_prod_beta inv split: handler_splits)

lemma handleDiscovery_inv [inv]: "I s \<Longrightarrow> I (snd (handleDiscovery e b s))"
  by (auto simp: handleDiscovery_def Let_def case_prod_beta inv split: handler_splits)

lemma handleJWKS_inv [inv]: "I s \<Longrightarrow> I (snd (handleJWKS e b s))"
  by (auto simp: handleJWKS_def Let_def case_prod_beta inv split: handler_splits)

lemma handleHome_inv [inv]: "I s \<Longrightarrow> I (snd (handleHome e b s))"
  by (auto simp: handleHome_def Let_def case_prod_beta inv split: handler_splits)

lemma issue_for_inv [inv]: "I s \<Longrightarrow> I (snd (issue_for e b c s))"
  by (auto simp: issue_for_def Let_def case_prod_beta inv split: handler_splits)

lemma handleAppToken_inv [inv]: "I s \<Longrightarrow> I (snd (handleAppToken e b s))"
  by (auto simp: handleAppToken_def Let_def case_prod_beta inv split: handler_splits)

text \<open>The pages of the administrators, which change nothing.\<close>

lemma adminAuth_inv [inv]: "I s \<Longrightarrow> I (snd (adminAuth e b s))"
  by (auto simp: adminAuth_def Let_def case_prod_beta inv split: handler_splits)

lemma admin_form_inv [inv]: "I s \<Longrightarrow> I (snd (admin_form e b s))"
  by (auto simp: admin_form_def Let_def case_prod_beta inv split: handler_splits)

lemma html_page_inv [inv]: "I s \<Longrightarrow> I (snd (html_page a b s))"
  by (auto simp: html_page_def Let_def case_prod_beta inv split: handler_splits)

lemma handleAdminHome_inv [inv]: "I s \<Longrightarrow> I (snd (handleAdminHome e b s))"
  by (auto simp: handleAdminHome_def Let_def case_prod_beta inv split: handler_splits)

lemma admin_form_page_inv [inv]: "I s \<Longrightarrow> I (snd (admin_form_page a e c s))"
  by (auto simp: admin_form_page_def Let_def case_prod_beta inv split: handler_splits)

lemma handleAdminClientsNew_inv [inv]: "I s \<Longrightarrow> I (snd (handleAdminClientsNew e b s))"
  by (auto simp: handleAdminClientsNew_def Let_def case_prod_beta inv split: handler_splits)

lemma handleAdminAppTokensNew_inv [inv]: "I s \<Longrightarrow> I (snd (handleAdminAppTokensNew e b s))"
  by (auto simp: handleAdminAppTokensNew_def Let_def case_prod_beta inv split: handler_splits)

lemma draw_secret_inv [inv]: "I s \<Longrightarrow> I (snd (draw_secret e b s))"
  by (auto simp: draw_secret_def Let_def case_prod_beta inv split: handler_splits)

end

locale server_invariant = request_invariant +
  assumes keep_PutStoredClient [inv]: "I s \<Longrightarrow> I (snd (on_db (PutStoredClient cl) s))"
    and keep_DeleteStoredClient [inv]: "I s \<Longrightarrow> I (snd (on_db (DeleteStoredClient i) s))"
    and keep_PutStoredAppToken [inv]: "I s \<Longrightarrow> I (snd (on_db (PutStoredAppToken tok) s))"
    and keep_DeleteStoredAppToken [inv]: "I s \<Longrightarrow> I (snd (on_db (DeleteStoredAppToken i) s))"
    and keep_DeleteConsentsForClient [inv]: "I s \<Longrightarrow> I (snd (on_db (DeleteConsentsForClient i) s))"
    and keep_st_clients: "I s \<Longrightarrow> I (s\<lparr>st_clients := reg\<rparr>)"
    and keep_st_appTokens: "I s \<Longrightarrow> I (s\<lparr>st_appTokens := tokens\<rparr>)"
begin

lemma reloadStoredRegistries_inv [inv]: "I s \<Longrightarrow> I (snd (reloadStoredRegistries e s))"
  by (auto simp: reloadStoredRegistries_def intro: keep_st_clients keep_st_appTokens split: sum.split)

lemma handleAdminClientsCreate_inv [inv]: "I s \<Longrightarrow> I (snd (handleAdminClientsCreate e b s))"
  by (auto simp: handleAdminClientsCreate_def Let_def case_prod_beta inv split: handler_splits)

lemma handleAdminClientsDelete_inv [inv]: "I s \<Longrightarrow> I (snd (handleAdminClientsDelete e b s))"
  by (auto simp: handleAdminClientsDelete_def Let_def case_prod_beta inv split: handler_splits)

lemma handleAdminAppTokensCreate_inv [inv]: "I s \<Longrightarrow> I (snd (handleAdminAppTokensCreate e b s))"
  by (auto simp: handleAdminAppTokensCreate_def Let_def case_prod_beta inv split: handler_splits)

lemma handleAdminAppTokensDelete_inv [inv]: "I s \<Longrightarrow> I (snd (handleAdminAppTokensDelete e b s))"
  by (auto simp: handleAdminAppTokensDelete_def Let_def case_prod_beta inv split: handler_splits)

end

section \<open>Views of the state\<close>

lemma registry_ops_keep_keys [operator]:
  "db_signingKeys (snd (PutStoredClient c d)) = db_signingKeys d" "db_signingKeys (snd (DeleteStoredClient i d)) = db_signingKeys d"
  "db_signingKeys (snd (PutStoredAppToken t d)) = db_signingKeys d" "db_signingKeys (snd (DeleteStoredAppToken i d)) = db_signingKeys d"
  "db_signingKeys (snd (DeleteConsentsForClient i d)) = db_signingKeys d"
  by (auto simp: PutStoredClient_def DeleteStoredClient_def PutStoredAppToken_def DeleteStoredAppToken_def
      DeleteConsentsForClient_def db_update_def putJSON_Inr split: sum.splits option.splits)

locale request_view =
  fixes view :: "st \<Rightarrow> 'v"
  assumes view_db: "operator_db d = operator_db (st_db s) \<Longrightarrow> view (s\<lparr>st_db := d\<rparr>) = view s"
    and view_header: "k \<in> handler_headers \<Longrightarrow> view (set_header k v s) = view s"
    and view_drawn: "view (s\<lparr>st_drawn := n\<rparr>) = view s"
    and view_audit: "view (s\<lparr>st_audit := a\<rparr>) = view s"
    and view_cookies: "view (s\<lparr>w_cookies := c\<rparr>) = view s"
    and view_login: "view (s\<lparr>st_login := l\<rparr>) = view s"
    and view_token: "view (s\<lparr>st_token := l\<rparr>) = view s"
    and view_preAuth: "view (s\<lparr>st_preAuth := l\<rparr>) = view s"
begin

lemma view_on_db: "operator_db (snd (f (st_db s))) = operator_db (st_db s) \<Longrightarrow> view (snd (on_db f s)) = view s"
  by (simp add: on_db_def case_prod_beta view_db)

end

sublocale request_view \<subseteq> keeps: request_invariant e "\<lambda>s. view s = c" for e c
  by unfold_locales
    (simp_all add: view_on_db operator view_header view_drawn view_audit view_cookies view_login view_token view_preAuth)

locale response_view = request_view +
  assumes view_keys: "db_signingKeys d = db_signingKeys (st_db s) \<Longrightarrow> view (s\<lparr>st_db := d\<rparr>) = view s"
    and view_clients: "view (s\<lparr>st_clients := reg\<rparr>) = view s"
    and view_appTokens: "view (s\<lparr>st_appTokens := tokens\<rparr>) = view s"
begin

lemma view_on_registry:
  "db_signingKeys (snd (f (st_db s))) = db_signingKeys (st_db s) \<Longrightarrow> view (snd (on_db f s)) = view s"
  by (simp add: on_db_def case_prod_beta view_keys)

end

sublocale response_view \<subseteq> keeps: server_invariant e "\<lambda>s. view s = c" for e c
  by unfold_locales (simp_all add: view_on_registry operator view_clients view_appTokens)

interpretation op: request_view operator_state
  by unfold_locales (simp_all add: operator_state_def set_header_def)

interpretation keys: response_view "\<lambda>s. db_signingKeys (st_db s)"
  by unfold_locales (simp_all add: operator_db_def set_header_def)

definition security_headers :: "st \<Rightarrow> string option list" where
  "security_headers s =
     map (w_header s) [''X-Content-Type-Options'', ''X-Frame-Options'', ''Referrer-Policy'', ''Content-Security-Policy'',
       ''Strict-Transport-Security'', ''X-Request-ID'']"

interpretation hdr: response_view security_headers
  by unfold_locales (auto simp: security_headers_def set_header_def handler_headers_def)

lemma admin_changes:
  assumes "h \<in> {handleAdminClientsCreate, handleAdminClientsDelete, handleAdminAppTokensCreate, handleAdminAppTokensDelete}"
    and "operator_state (snd (h e r s)) \<noteq> operator_state s"
  shows "admin_ok e r s"
proof -
  obtain x s1 where f: "admin_form e r s = (x, s1)" by fastforce
  show ?thesis
  proof (cases x)
    case (Inl resp)
    with assms(1) f have "snd (h e r s) = s1"
      by (auto simp: handleAdminClientsCreate_def handleAdminClientsDelete_def handleAdminAppTokensCreate_def handleAdminAppTokensDelete_def)
    then show ?thesis using op.keeps.admin_form_inv [of s "operator_state s" e r] f assms(2) by simp
  next
    case (Inr sess)
    with admin_form_cases [OF f] show ?thesis by simp
  qed
qed

section \<open>Predicates on the database\<close>

locale db_invariant =
  fixes e :: env and P :: "Store \<Rightarrow> bool"
  assumes db_UpsertProfile: "P d \<Longrightarrow> P (snd (UpsertProfile p d))"
    and db_SetPendingTOTP: "P d \<Longrightarrow> P (snd (SetPendingTOTP u x d))"
    and db_CommitPendingTOTP: "P d \<Longrightarrow> P (snd (CommitPendingTOTP u d))"
    and db_ClearPendingTOTP: "P d \<Longrightarrow> P (snd (ClearPendingTOTP u d))"
    and db_AddWebAuthnCredential: "P d \<Longrightarrow> P (snd (AddWebAuthnCredential u cred d))"
    and db_UpdateWebAuthnSignCount: "P d \<Longrightarrow> P (snd (UpdateWebAuthnSignCount u i cnt d))"
    and db_PutSession: "P d \<Longrightarrow> P (snd (PutSession k sess d))"
    and db_EnsureSessionCSRF: "P d \<Longrightarrow> P (snd (EnsureSessionCSRF k y d))"
    and db_DeleteSession: "P d \<Longrightarrow> P (snd (DeleteSession k d))"
    and db_PutAuthRequest: "P d \<Longrightarrow> P (snd (PutAuthRequest ar d))"
    and db_ConsumeAuthRequest: "P d \<Longrightarrow> P (snd (ConsumeAuthRequest k d))"
    and db_PutAuthCode: "P d \<Longrightarrow> P (snd (PutAuthCode (hash_secret e y) ac d))"
    and db_ConsumeAuthCode: "P d \<Longrightarrow> P (snd (ConsumeAuthCode k d))"
    and db_DeleteRefreshToken: "P d \<Longrightarrow> P (snd (DeleteRefreshToken k d))"
    and db_RevokeRefreshTokenFamily: "P d \<Longrightarrow> P (snd (RevokeRefreshTokenFamily fam d))"
    and db_PutRevokedJTI: "P d \<Longrightarrow> P (snd (PutRevokedJTI j expiry d))"
    and db_DeleteRevokedJTI: "P d \<Longrightarrow> P (snd (DeleteRevokedJTI j d))"
    and db_PutWebAuthnRegistration: "P d \<Longrightarrow> P (snd (PutWebAuthnRegistration y (challenge_record e u y) d))"
    and db_ConsumeWebAuthnRegistration: "P d \<Longrightarrow> P (snd (ConsumeWebAuthnRegistration k d))"
    and db_PutWebAuthnLogin: "P d \<Longrightarrow> P (snd (PutWebAuthnLogin y (challenge_record e u y) d))"
    and db_ConsumeWebAuthnLogin: "P d \<Longrightarrow> P (snd (ConsumeWebAuthnLogin k d))"
    and db_PutConsent: "P d \<Longrightarrow> P (snd (PutConsent cr d))"
    and db_PutStoredClient: "P d \<Longrightarrow> P (snd (PutStoredClient cl d))"
    and db_DeleteStoredClient: "P d \<Longrightarrow> P (snd (DeleteStoredClient i d))"
    and db_PutStoredAppToken: "P d \<Longrightarrow> P (snd (PutStoredAppToken tok d))"
    and db_DeleteStoredAppToken: "P d \<Longrightarrow> P (snd (DeleteStoredAppToken i d))"
    and db_DeleteConsentsForClient: "P d \<Longrightarrow> P (snd (DeleteConsentsForClient i d))"
    and db_SweepExpired: "P d \<Longrightarrow> P (snd (SweepExpired t d))"
    and db_PutRefreshToken: "family_ok e (rt_FamilyID rt) \<Longrightarrow> P d \<Longrightarrow> P (snd (PutRefreshToken (hash_secret e y) rt d))"
    and db_RotateRefreshToken: "family_ok e (rt_FamilyID rt) \<Longrightarrow> crt_FamilyID crt = rt_FamilyID rt \<Longrightarrow> P d \<Longrightarrow>
           P (snd (RotateRefreshToken (hash_secret e y) (hash_secret e y') rt crt d))"

sublocale db_invariant \<subseteq> keeps: server_invariant e "\<lambda>s. P (st_db s)"
  by unfold_locales
    (simp_all add:
      db_UpsertProfile db_SetPendingTOTP db_CommitPendingTOTP db_ClearPendingTOTP db_AddWebAuthnCredential
      db_UpdateWebAuthnSignCount db_PutSession db_EnsureSessionCSRF db_DeleteSession db_PutAuthRequest
      db_ConsumeAuthRequest db_PutAuthCode db_ConsumeAuthCode db_DeleteRefreshToken
      db_RevokeRefreshTokenFamily db_PutRevokedJTI db_DeleteRevokedJTI db_PutWebAuthnRegistration
      db_ConsumeWebAuthnRegistration db_PutWebAuthnLogin db_ConsumeWebAuthnLogin db_PutConsent
      db_PutStoredClient db_DeleteStoredClient db_PutStoredAppToken db_DeleteStoredAppToken
      db_DeleteConsentsForClient db_SweepExpired db_PutRefreshToken db_RotateRefreshToken)

context db_invariant
begin

lemma sweepExpired_inv: "P (st_db s) \<Longrightarrow> P (st_db (sweepExpired t s))"
  by (simp add: sweepExpired_def Let_def db_SweepExpired)

end

end
