(* ===== verification/Routes.thy ===== *)
theory Routes
  imports Frames
begin

text \<open>
  The route table (\<^verbatim>\<open>routes\<close>, \<^verbatim>\<open>buildRoutes\<close> and \<^verbatim>\<open>registerOperationalRoutes\<close> of
  \<^verbatim>\<open>broker.go\<close>): every handler of the broker behind one function from requests to responses.
  The first part models what the table uses of \<^verbatim>\<open>http.ServeMux\<close>: patterns with wildcards,
  the panic when two patterns conflict, the choice of the most specific match, and the answers
  for paths that are not clean and for other methods.  Cleaning, unescaping and printing paths
  are the record \<open>mux_lib\<close>.
\<close>

section \<open>Patterns\<close>

datatype segment = Lit string | Wild string | Multi string

text \<open>
  \<open>Lit ''/''\<close> is the end marker \<^verbatim>\<open>{$}\<close>, \<open>Multi []\<close> a trailing slash.  \<open>ml_redirect\<close> is the
  status of the redirects of the multiplexer, which depends on the version of the library.
\<close>

record mux_lib =
  ml_EscapedPath :: "http_request \<Rightarrow> string"
  ml_cleanPath :: "string \<Rightarrow> string"
  ml_unescape :: "string \<Rightarrow> string"
  ml_ident :: "string \<Rightarrow> bool"
  ml_URL :: "string \<Rightarrow> http_request \<Rightarrow> string"
  ml_redirect :: nat

definition cut_dots :: "string \<Rightarrow> string \<times> bool" where
  "cut_dots name = (if HasSuffix name ''...'' then (take (length name - 3) name, True) else (name, False))"

text \<open>One segment; \<open>final\<close> holds for the last one.\<close>

definition parse_segment :: "mux_lib \<Rightarrow> string set \<Rightarrow> bool \<Rightarrow> string \<Rightarrow> segment option" where
  "parse_segment M seen final seg =
     (if CHR ''{'' \<notin> set seg then Some (Lit (ml_unescape M seg))
      else if hd seg \<noteq> CHR ''{'' \<or> last seg \<noteq> CHR ''}'' then None
      else
        let inner = butlast (tl seg) in
        if inner = ''$'' then (if final then Some (Lit ''/'') else None)
        else case cut_dots inner of (name, multi) \<Rightarrow>
          if multi \<and> \<not> final \<or> name = [] \<or> \<not> ml_ident M name \<or> name \<in> seen then None
          else Some (if multi then Multi name else Wild name))"

fun wild_name :: "segment \<Rightarrow> string set" where
  "wild_name (Lit _) = {}"
| "wild_name (Wild n) = {n}"
| "wild_name (Multi n) = {n}"

fun parse_segments :: "mux_lib \<Rightarrow> string set \<Rightarrow> string list \<Rightarrow> segment list option" where
  "parse_segments M seen [] = Some []"
| "parse_segments M seen (seg # segs) =
     (if seg = [] \<and> segs = [] then Some [Multi []]
      else case parse_segment M seen (segs = []) seg of
          None \<Rightarrow> None
        | Some x \<Rightarrow> map_option ((#) x) (parse_segments M (seen \<union> wild_name x) segs))"

text \<open>The path of a pattern with a method.\<close>

definition parse_path :: "mux_lib \<Rightarrow> string \<Rightarrow> segment list option" where
  "parse_path M path =
     (if \<not> HasPrefix path ''/'' \<or> ml_cleanPath M path \<noteq> path then None
      else parse_segments M {} (Split (CHR ''/'') (tl path)))"

section \<open>Conflicts\<close>

datatype relationship = Equivalent | MoreGeneral | MoreSpecific | Disjoint | Overlaps

fun combineRelationships :: "relationship \<Rightarrow> relationship \<Rightarrow> relationship" where
  "combineRelationships Equivalent r2 = r2"
| "combineRelationships Disjoint r2 = Disjoint"
| "combineRelationships Overlaps r2 = (if r2 = Disjoint then Disjoint else Overlaps)"
| "combineRelationships MoreGeneral r2 =
     (case r2 of Equivalent \<Rightarrow> MoreGeneral | MoreSpecific \<Rightarrow> Overlaps | _ \<Rightarrow> r2)"
| "combineRelationships MoreSpecific r2 =
     (case r2 of Equivalent \<Rightarrow> MoreSpecific | MoreGeneral \<Rightarrow> Overlaps | _ \<Rightarrow> r2)"

fun compareSegments :: "segment \<Rightarrow> segment \<Rightarrow> relationship" where
  "compareSegments (Multi _) (Multi _) = Equivalent"
| "compareSegments (Multi _) _ = MoreGeneral"
| "compareSegments _ (Multi _) = MoreSpecific"
| "compareSegments (Wild _) (Wild _) = Equivalent"
| "compareSegments (Wild _) (Lit s) = (if s = ''/'' then Disjoint else MoreGeneral)"
| "compareSegments (Lit s) (Wild _) = (if s = ''/'' then Disjoint else MoreSpecific)"
| "compareSegments (Lit s) (Lit t) = (if s = t then Equivalent else Disjoint)"

definition ends_multi :: "segment list \<Rightarrow> bool" where
  "ends_multi segs = (segs \<noteq> [] \<and> (case last segs of Multi _ \<Rightarrow> True | _ \<Rightarrow> False))"

text \<open>\<open>m1\<close> and \<open>m2\<close> tell whether the whole patterns end in a multi wildcard.\<close>

fun compare_loop :: "bool \<Rightarrow> bool \<Rightarrow> relationship \<Rightarrow> segment list \<Rightarrow> segment list \<Rightarrow> relationship" where
  "compare_loop m1 m2 rel [] [] = rel"
| "compare_loop m1 m2 rel [] (_ # _) = (if m1 then combineRelationships rel MoreGeneral else Disjoint)"
| "compare_loop m1 m2 rel (_ # _) [] = (if m2 then combineRelationships rel MoreSpecific else Disjoint)"
| "compare_loop m1 m2 rel (a # as) (b # bs) =
     (let rel' = combineRelationships rel (compareSegments a b) in
      if rel' = Disjoint then Disjoint else compare_loop m1 m2 rel' as bs)"

definition comparePaths :: "segment list \<Rightarrow> segment list \<Rightarrow> relationship" where
  "comparePaths p q =
     (if length p \<noteq> length q \<and> \<not> ends_multi p \<and> \<not> ends_multi q then Disjoint
      else compare_loop (ends_multi p) (ends_multi q) Equivalent p q)"

definition compareMethods :: "string \<Rightarrow> string \<Rightarrow> relationship" where
  "compareMethods m n =
     (if m = n then Equivalent
      else if m = ''GET'' \<and> n = ''HEAD'' then MoreGeneral
      else if n = ''GET'' \<and> m = ''HEAD'' then MoreSpecific
      else Disjoint)"

definition comparePathsAndMethods :: "string \<times> segment list \<Rightarrow> string \<times> segment list \<Rightarrow> relationship" where
  "comparePathsAndMethods p q =
     (let mrel = compareMethods (fst p) (fst q) in
      if mrel = Disjoint then Disjoint else combineRelationships mrel (comparePaths (snd p) (snd q)))"

definition conflictsWith :: "string \<times> segment list \<Rightarrow> string \<times> segment list \<Rightarrow> bool" where
  "conflictsWith p q = (comparePathsAndMethods p q \<in> {Equivalent, Overlaps})"

section \<open>Registering and matching\<close>

type_synonym route = "(string \<times> segment list) \<times> handler"

text \<open>\<^verbatim>\<open>HandleFunc\<close>: a pattern that does not parse, or that conflicts with another one, panics.\<close>

definition HandleFunc :: "mux_lib \<Rightarrow> string \<times> string \<Rightarrow> handler \<Rightarrow> route list \<Rightarrow> route list option" where
  "HandleFunc M pat h mux =
     (case parse_path M (snd pat) of
        None \<Rightarrow> None
      | Some segs \<Rightarrow>
          if \<exists>q \<in> set mux. conflictsWith (fst pat, segs) (fst q) then None
          else Some (mux @ [((fst pat, segs), h)]))"

fun register_all :: "mux_lib \<Rightarrow> ((string \<times> string) \<times> handler) list \<Rightarrow> route list \<Rightarrow> route list option" where
  "register_all M [] mux = Some mux"
| "register_all M ((pat, h) # rs) mux = Option.bind (HandleFunc M pat h mux) (register_all M rs)"

text \<open>The segments of a request path; a trailing slash is a segment of its own.\<close>

function path_segments :: "mux_lib \<Rightarrow> string \<Rightarrow> string list" where
  "path_segments M path =
     (if path = [] then []
      else if length path = 1 then [''/'']
      else ml_unescape M (takeWhile (\<lambda>c. c \<noteq> CHR ''/'') (tl path)) #
        path_segments M (dropWhile (\<lambda>c. c \<noteq> CHR ''/'') (tl path)))"
  by pat_completeness auto
termination
proof (relation "measure (length \<circ> snd)")
  fix M :: mux_lib and path :: string
  assume "path \<noteq> []"
  then have "length (tl path) < length path" by simp
  then show "((M, dropWhile (\<lambda>c. c \<noteq> CHR ''/'') (tl path)), (M, path)) \<in> measure (length \<circ> snd)"
    using length_dropWhile_le [of "\<lambda>c. c \<noteq> CHR ''/''" "tl path"] by (simp add: le_less_trans)
qed simp

declare path_segments.simps [simp del]

text \<open>
  The values of the single wildcards of a match (no handler reads the value of a multi wildcard),
  and the rank of a pattern: at each segment a literal is tried before a wildcard, and that before
  a multi wildcard.
\<close>

fun match_segments :: "segment list \<Rightarrow> string list \<Rightarrow> (string \<times> string) list option" where
  "match_segments [] [] = Some []"
| "match_segments [] (_ # _) = None"
| "match_segments (Multi _ # _) (_ # _) = Some []"
| "match_segments (Lit s # segs) (p # ps) = (if s = p then match_segments segs ps else None)"
| "match_segments (Wild n # segs) (p # ps) =
     (if p = ''/'' then None else map_option ((#) (n, p)) (match_segments segs ps))"
| "match_segments (_ # _) [] = None"

fun segment_rank :: "segment \<Rightarrow> nat" where
  "segment_rank (Lit _) = 0"
| "segment_rank (Wild _) = 1"
| "segment_rank (Multi _) = 2"

definition route_rank :: "route \<Rightarrow> nat list" where
  "route_rank rt = map segment_rank (snd (fst rt))"

definition route_matches :: "string \<Rightarrow> string list \<Rightarrow> route \<Rightarrow> bool" where
  "route_matches meth path rt = (fst (fst rt) = meth \<and> match_segments (snd (fst rt)) path \<noteq> None)"

fun best_route :: "route list \<Rightarrow> route option" where
  "best_route [] = None"
| "best_route (rt # rts) =
     (case best_route rts of None \<Rightarrow> Some rt | Some b \<Rightarrow> if route_rank b < route_rank rt then Some b else Some rt)"

definition find_route :: "route list \<Rightarrow> string \<Rightarrow> string list \<Rightarrow> route option" where
  "find_route mux meth path =
     (case best_route (filter (route_matches meth path) mux) of
        Some rt \<Rightarrow> Some rt
      | None \<Rightarrow> if meth = ''HEAD'' then best_route (filter (route_matches ''GET'' path) mux) else None)"

text \<open>A match is exact when no multi wildcard of it has anything but a trailing slash.\<close>

definition exactMatch :: "route option \<Rightarrow> string \<Rightarrow> bool" where
  "exactMatch n path =
     (case n of
        None \<Rightarrow> False
      | Some rt \<Rightarrow>
          \<not> ends_multi (snd (fst rt)) \<or>
          (path = [] \<or> last path = CHR ''/'') \<and> length (snd (fst rt)) = length (filter (\<lambda>c. c = CHR ''/'') path))"

definition path_value :: "segment list \<Rightarrow> string list \<Rightarrow> string \<Rightarrow> string" where
  "path_value segs path name =
     (case match_segments segs path of
        None \<Rightarrow> [] | Some bs \<Rightarrow> (case map_of bs name of None \<Rightarrow> [] | Some v \<Rightarrow> v))"

text \<open>The methods that the patterns allow for a path, in order; \<^verbatim>\<open>GET\<close> allows \<^verbatim>\<open>HEAD\<close>.\<close>

definition allowed_methods :: "route list \<Rightarrow> string list \<Rightarrow> string list" where
  "allowed_methods mux path =
     sort (remdups (concat (map (\<lambda>rt.
       if match_segments (snd (fst rt)) path = None then []
       else if fst (fst rt) = ''GET'' then [''GET'', ''HEAD''] else [fst (fst rt)]) mux)))"

definition mux_ServeHTTP :: "mux_lib \<Rightarrow> route list \<Rightarrow> handler" where
  "mux_ServeHTTP M mux r s =
     (let escaped = ml_EscapedPath M r;
          clean = (if r_Method r = ''CONNECT'' then escaped else ml_cleanPath M escaped);
          path = path_segments M clean;
          n = find_route mux (r_Method r) path
      in if \<not> exactMatch n clean \<and> \<not> HasSuffix clean ''/'' \<and>
            exactMatch (find_route mux (r_Method r) (path_segments M (clean @ ''/''))) (clean @ ''/'')
         then (Resp (ml_redirect M) (Location (ml_URL M (ml_cleanPath M (r_Path r) @ ''/'') r)), s)
         else if clean \<noteq> escaped then (Resp (ml_redirect M) (Location (ml_URL M clean r)), s)
         else case n of
             Some rt \<Rightarrow> snd rt (r\<lparr>r_PathValue := path_value (snd (fst rt)) path\<rparr>) s
           | None \<Rightarrow>
               if allowed_methods mux path \<noteq> []
               then (http_Error ''Method Not Allowed'' 405,
                     set_header ''Allow'' (Join (allowed_methods mux path) '', '') s)
               else (http_Error ''404 page not found'' 404, s))"

section \<open>The table\<close>

text \<open>
  \<open>css\<close> and \<open>js\<close> are the assets, \<open>fmt\<close> prints the durations of the metrics and \<open>m\<close> is the metrics
  registry when the request arrives.
\<close>

definition registerOperationalRoutes ::
  "(duration \<Rightarrow> string) \<Rightarrow> metricsRegistry \<Rightarrow> env \<Rightarrow> ((string \<times> string) \<times> handler) list" where
  "registerOperationalRoutes fmt m e =
     [((''GET'', ''/healthz''), handleHealth e),
      ((''GET'', ''/livez''), handleLive e),
      ((''GET'', ''/readyz''), handleReady e)] @
     (if me_Enabled (cf_Metrics (e_cfg e))
      then [((''GET'', dropWhile (\<lambda>c. c = CHR '' '' \<or> c = CHR 0x09) (me_Path (cf_Metrics (e_cfg e)))), handleMetrics fmt m e)]
      else [])"

definition main_routes :: "env \<Rightarrow> ((string \<times> string) \<times> handler) list" where
  "main_routes e =
     [((''GET'', ''/.well-known/openid-configuration''), handleDiscovery e),
      ((''GET'', ''/oauth2/jwks''), handleJWKS e),
      ((''GET'', ''/oauth2/authorize''), handleAuthorize e),
      ((''GET'', ''/login''), handleLoginGet e),
      ((''POST'', ''/login''), handleLoginPost e),
      ((''GET'', ''/logout''), handleLocalLogoutGet e),
      ((''POST'', ''/logout''), handleLocalLogoutPost e),
      ((''POST'', ''/reauth''), handleReAuth e),
      ((''POST'', ''/app-tokens/{id}''), handleAppToken e),
      ((''POST'', ''/oauth2/token''), handleToken e),
      ((''GET'', ''/oauth2/userinfo''), handleUserInfo e),
      ((''POST'', ''/oauth2/userinfo''), handleUserInfo e),
      ((''POST'', ''/oauth2/revoke''), handleRevoke e),
      ((''POST'', ''/oauth2/introspect''), handleIntrospect e),
      ((''GET'', ''/oauth2/logout''), handleLogout e),
      ((''POST'', ''/oauth2/logout''), handleLogout e),
      ((''POST'', ''/mfa/totp/enroll''), handleTOTPEnroll e),
      ((''POST'', ''/mfa/totp/verify''), handleTOTPEnrollVerify e),
      ((''POST'', ''/webauthn/register/begin''), handleWebAuthnRegisterBegin e),
      ((''POST'', ''/webauthn/register/finish''), handleWebAuthnRegisterFinish e),
      ((''POST'', ''/webauthn/login/begin''), handleWebAuthnLoginBegin e),
      ((''POST'', ''/webauthn/login/finish''), handleWebAuthnLoginFinish e),
      ((''GET'', ''/consent''), handleConsentGet e),
      ((''POST'', ''/consent''), handleConsentPost e),
      ((''GET'', ''/admin''), handleAdminHome e),
      ((''GET'', ''/admin/clients/new''), handleAdminClientsNew e),
      ((''POST'', ''/admin/clients''), handleAdminClientsCreate e),
      ((''POST'', ''/admin/clients/{id}/delete''), handleAdminClientsDelete e),
      ((''GET'', ''/admin/app-tokens/new''), handleAdminAppTokensNew e),
      ((''POST'', ''/admin/app-tokens''), handleAdminAppTokensCreate e),
      ((''POST'', ''/admin/app-tokens/{id}/delete''), handleAdminAppTokensDelete e)]"

definition route_table ::
  "string \<Rightarrow> string \<Rightarrow> (duration \<Rightarrow> string) \<Rightarrow> metricsRegistry \<Rightarrow> env \<Rightarrow> ((string \<times> string) \<times> handler) list" where
  "route_table css js fmt m e =
     [((''GET'', ''/assets/authbroker.css''), handleStylesheet css e),
      ((''GET'', ''/assets/authbroker.js''), handleScript js e),
      ((''GET'', ''/''), handleHome e)] @
     registerOperationalRoutes fmt m e @ main_routes e"

text \<open>The server: \<open>None\<close> when building the table panics.  \<open>d\<close> is the time a request takes.\<close>

definition buildRoutes ::
  "mux_lib \<Rightarrow> string \<Rightarrow> string \<Rightarrow> (duration \<Rightarrow> string) \<Rightarrow> env \<Rightarrow>
    (duration \<Rightarrow> http_request \<Rightarrow> st \<times> metricsRegistry \<Rightarrow> response \<times> st \<times> metricsRegistry) option" where
  "buildRoutes M css js fmt e =
     (if register_all M (route_table css js fmt [] e) [] = None then None
      else Some (\<lambda>d r sm.
        case register_all M (route_table css js fmt (snd sm) e) [] of
          None \<Rightarrow> (Panic, sm)
        | Some mux \<Rightarrow> observability e d (securityHeaders e (mux_ServeHTTP M mux)) r sm))"

section \<open>Every request goes to a handler of the table\<close>

lemma best_route_in: "best_route rts = Some rt \<Longrightarrow> rt \<in> set rts"
  by (induction rts arbitrary: rt) (auto split: option.splits if_splits)

lemma find_route_in:
  assumes "find_route mux meth path = Some rt"
  shows "rt \<in> set mux \<and> (fst (fst rt) = meth \<or> meth = ''HEAD'' \<and> fst (fst rt) = ''GET'')"
  using assms by (auto simp: find_route_def route_matches_def dest!: best_route_in split: option.splits if_splits)

lemma register_all_in:
  "register_all M rs mux = Some mux' \<Longrightarrow> rt \<in> set mux' \<Longrightarrow>
     rt \<in> set mux \<or> (\<exists>p. ((fst (fst rt), p), snd rt) \<in> set rs \<and> parse_path M p = Some (snd (fst rt)))"
proof (induction rs arbitrary: mux)
  case (Cons x rs)
  obtain meth p h where x: "x = ((meth, p), h)" by (metis surj_pair)
  from Cons.prems(1) x obtain segs where p: "parse_path M p = Some segs"
    and r: "register_all M rs (mux @ [((meth, segs), h)]) = Some mux'"
    by (auto simp: HandleFunc_def split: option.splits if_splits)
  from Cons.IH [OF r Cons.prems(2)] p x show ?case by auto
qed simp

text \<open>What the multiplexer does to the state is what one of the handlers does, or next to nothing.\<close>

lemma mux_ServeHTTP_cases:
  assumes "mux_ServeHTTP M mux r s = (resp, s')"
  obtains (handled) rt pv where "rt \<in> set mux" "fst (fst rt) = r_Method r \<or> r_Method r = ''HEAD'' \<and> fst (fst rt) = ''GET''"
      "snd rt (r\<lparr>r_PathValue := pv\<rparr>) s = (resp, s')"
  | (other) "s' = s \<or> (\<exists>v. s' = set_header ''Allow'' v s)"
  using assms
  by (auto simp: mux_ServeHTTP_def Let_def dest!: find_route_in split: if_splits option.splits)

lemma server_cases:
  assumes "buildRoutes M css js fmt e = Some srv" and "srv d r (s, m) = (resp, s', m')"
  obtains (panic) "s' = s" "resp = Panic"
  | (served) mux rid s1 resp' where "register_all M (route_table css js fmt m e) [] = Some mux"
      "st_db s1 = st_db s" "operator_state s1 = operator_state s"
      "securityHeaders e (mux_ServeHTTP M mux) (r\<lparr>r_RequestID := rid\<rparr>) s1 = (resp', s')"
      "w_header s1 = (w_header s)(''X-Request-ID'' \<mapsto> rid)"
proof -
  let ?id = "let ident = cleanRequestID (r_Header r ''X-Request-ID'') in if ident = [] then randomB64 e 16 s else (ident, s)"
  from assms(1) have srv: "srv = (\<lambda>d r sm. case register_all M (route_table css js fmt (snd sm) e) [] of
          None \<Rightarrow> (Panic, sm) | Some mux \<Rightarrow> observability e d (securityHeaders e (mux_ServeHTTP M mux)) r sm)"
    by (simp add: buildRoutes_def split: if_splits)
  show thesis
  proof (cases "register_all M (route_table css js fmt m e) []")
    case None
    with assms(2) srv panic show thesis by simp
  next
    case (Some mux)
    obtain rid s0 where i: "?id = (rid, s0)" by fastforce
    have s0: "st_db s0 = st_db s" "operator_state s0 = operator_state s" "w_header s0 = w_header s"
      using i effects_db(3) [of e 16 s] op.keeps.randomB64_inv [of s "operator_state s" e 16]
      by (auto simp: Let_def randomB64_def split: if_splits)
    let ?s1 = "set_header ''X-Request-ID'' rid s0"
    obtain resp' s2 where n: "securityHeaders e (mux_ServeHTTP M mux) (r\<lparr>r_RequestID := rid\<rparr>) ?s1 = (resp', s2)" by fastforce
    have "s2 = s'"
      using assms(2) Some i n by (auto simp: srv observability_def split: response.splits option.splits)
    moreover have "operator_state ?s1 = operator_state s" using s0(2) by (simp add: operator_state_def set_header_def)
    ultimately show thesis using served [OF Some _ _ n [unfolded \<open>s2 = s'\<close>]] s0 by (simp add: set_header_def)
  qed
qed

text \<open>The state in which the multiplexer is entered.\<close>

definition with_security_headers :: "env \<Rightarrow> st \<Rightarrow> st" where
  "with_security_headers e s =
     (let s5 = set_header ''Cache-Control'' ''no-store'' (set_header ''Content-Security-Policy'' authbrokerCSP
            (set_header ''Referrer-Policy'' ''no-referrer'' (set_header ''X-Frame-Options'' ''DENY''
              (set_header ''X-Content-Type-Options'' ''nosniff'' s))))
      in if cookieSecure e then set_header ''Strict-Transport-Security'' ''max-age=31536000; includeSubDomains'' s5 else s5)"

lemma securityHeaders_eq: "securityHeaders e next r s = next r (with_security_headers e s)"
  by (simp add: securityHeaders_def with_security_headers_def Let_def)

lemma with_security_headers_keeps:
  "st_db (with_security_headers e s) = st_db s" "operator_state (with_security_headers e s) = operator_state s"
  by (simp_all add: with_security_headers_def Let_def operator_state_def set_header_def)

text \<open>Every invariant of the handlers is one of the table.\<close>

definition admin_mutations :: "env \<Rightarrow> handler set" where
  "admin_mutations e =
     {handleAdminClientsCreate e, handleAdminClientsDelete e, handleAdminAppTokensCreate e, handleAdminAppTokensDelete e}"

lemmas table_defs = route_table_def main_routes_def registerOperationalRoutes_def

context request_invariant
begin

lemma table_inv:
  "((meth, p), h) \<in> set (route_table css js fmt m e) \<Longrightarrow> I s \<Longrightarrow> I (snd (h r s)) \<or> meth = ''POST'' \<and> h \<in> admin_mutations e"
  by (auto simp: table_defs admin_mutations_def inv split: if_splits)

end

context server_invariant
begin

lemma mutations_inv: "h \<in> admin_mutations e \<Longrightarrow> I s \<Longrightarrow> I (snd (h r s))"
  by (auto simp: admin_mutations_def inv)

lemma mux_inv:
  assumes "register_all M (route_table css js fmt m e) [] = Some mux" and "I s"
  shows "I (snd (mux_ServeHTTP M mux r s))"
proof -
  obtain resp s' where x: "mux_ServeHTTP M mux r s = (resp, s')" by fastforce
  then show ?thesis
  proof (cases rule: mux_ServeHTTP_cases)
    case (handled rt pv)
    from register_all_in [OF assms(1) handled(1)] obtain p where "((fst (fst rt), p), snd rt) \<in> set (route_table css js fmt m e)"
      by auto
    from table_inv [OF this assms(2), of "r\<lparr>r_PathValue := pv\<rparr>"] have "I (snd (snd rt (r\<lparr>r_PathValue := pv\<rparr>) s))"
      using mutations_inv [OF _ assms(2)] by blast
    then show ?thesis using handled(3) x by simp
  next
    case other
    then show ?thesis using x assms(2) by (auto simp: inv)
  qed
qed

end

context db_invariant
begin

lemma server_inv:
  assumes "buildRoutes M css js fmt e = Some srv" and "srv d r (s, m) = (resp, s', m')" and "P (st_db s)"
  shows "P (st_db s')"
  using assms(1,2)
proof (cases rule: server_cases)
  case (served mux rid s1 resp')
  have "P (st_db (with_security_headers e s1))" using served(2) assms(3) by (simp add: with_security_headers_keeps)
  from keeps.mux_inv [OF served(1) this, of "r\<lparr>r_RequestID := rid\<rparr>"] served(4) show ?thesis by (simp add: securityHeaders_eq)
qed (use assms(3) in simp)

end

lemma table_operator:
  assumes "((meth, p), h) \<in> set (route_table css js fmt m e)" and "operator_state (snd (h r s)) \<noteq> operator_state s"
  shows "meth = ''POST'' \<and> admin_ok e r s"
proof -
  have h: "meth = ''POST'' \<and> h \<in> admin_mutations e" using op.keeps.table_inv [OF assms(1) refl] assms(2) by blast
  then obtain h' where "h = h' e"
    "h' \<in> {handleAdminClientsCreate, handleAdminClientsDelete, handleAdminAppTokensCreate, handleAdminAppTokensDelete}"
    by (auto simp: admin_mutations_def)
  then show ?thesis using h admin_changes [of h' e r s] assms(2) by simp
qed

lemma admin_ok_request: "admin_ok e (r\<lparr>r_RequestID := rid\<rparr>) s = admin_ok e r s" "admin_ok e (r\<lparr>r_PathValue := pv\<rparr>) s = admin_ok e r s"
  by (simp_all add: admin_ok_def validSession_def session_id_def verifySessionCSRF_def)

lemma mux_operator:
  assumes "register_all M (route_table css js fmt m e) [] = Some mux" and "mux_ServeHTTP M mux r s = (resp, s')"
    and "operator_state s' \<noteq> operator_state s"
  shows "r_Method r = ''POST'' \<and> admin_ok e r s"
  using assms(2)
proof (cases rule: mux_ServeHTTP_cases)
  case (handled rt pv)
  from register_all_in [OF assms(1) handled(1)] obtain p where "((fst (fst rt), p), snd rt) \<in> set (route_table css js fmt m e)"
    by auto
  from table_operator [OF this, of "r\<lparr>r_PathValue := pv\<rparr>" s] handled(2,3) assms(3) show ?thesis by (simp add: admin_ok_request)
next
  case other
  then show ?thesis using assms(3) op.view_header [of "''Allow''"] by (auto simp: handler_headers_def)
qed

section \<open>Properties of the whole server\<close>

text \<open>
  C7. Nobody but an administrator changes what the operator configured, whatever the request: if
  serving a request changes the clients or app tokens, in memory or in the database, then it is
  a POST with a live session of a member of an administrator group and the CSRF token of that
  session.  The stored signing keys are changed by no request at all.
\<close>

theorem server_operator_state:
  assumes "buildRoutes M css js fmt e = Some srv" and "srv d r (s, m) = (resp, s', m')"
  shows "db_signingKeys (st_db s') = db_signingKeys (st_db s) \<and>
    (operator_state s' \<noteq> operator_state s \<longrightarrow>
       r_Method r = ''POST'' \<and>
       (\<exists>sess s0. st_db s0 = st_db s \<and> fst (validSession e r s0) = Some sess \<and>
          userIsAdmin e (GetUser (s_UserID sess) (st_db s)) \<and>
          verifySessionCSRF r (form_get r maxAdminFormBodyBytes) sess))"
  using assms
proof (cases rule: server_cases)
  case (served mux rid s1 resp')
  let ?s = "with_security_headers e s1" and ?r = "r\<lparr>r_RequestID := rid\<rparr>"
  have s: "st_db ?s = st_db s" "operator_state ?s = operator_state s" using served(2,3) by (simp_all add: with_security_headers_keeps)
  have x: "mux_ServeHTTP M mux ?r ?s = (resp', s')" using served(4) by (simp add: securityHeaders_eq)
  have "db_signingKeys (st_db s') = db_signingKeys (st_db s)"
    using keys.keeps.mux_inv [OF served(1), of ?s "db_signingKeys (st_db s)" ?r] x s(1) by simp
  moreover have "r_Method r = ''POST'' \<and> admin_ok e r ?s" if "operator_state s' \<noteq> operator_state s"
    using mux_operator [OF served(1) x] that s(2) by (simp add: admin_ok_request)
  ultimately show ?thesis using s(1) by (fastforce simp: admin_ok_def)
qed simp

text \<open>
  C14. Every response carries the security headers: whatever the request and whichever handler
  answers it, unless the handler panics, the response has the sniffing, framing and referrer
  protection and the content security policy of the broker, its request id, and, when cookies
  are secure, the strict transport header.
\<close>

theorem server_security_headers:
  assumes "buildRoutes M css js fmt e = Some srv" and "srv d r (s, m) = (Resp status body, s', m')"
  shows "w_header s' ''X-Content-Type-Options'' = Some ''nosniff'' \<and> w_header s' ''X-Frame-Options'' = Some ''DENY'' \<and>
    w_header s' ''Referrer-Policy'' = Some ''no-referrer'' \<and> w_header s' ''Content-Security-Policy'' = Some authbrokerCSP \<and>
    w_header s' ''X-Request-ID'' \<noteq> None \<and>
    (cookieSecure e \<longrightarrow> w_header s' ''Strict-Transport-Security'' = Some ''max-age=31536000; includeSubDomains'')"
  using assms
proof (cases rule: server_cases)
  case panic
  then show ?thesis by simp
next
  case (served mux rid s1 resp')
  let ?s = "with_security_headers e s1" and ?r = "r\<lparr>r_RequestID := rid\<rparr>"
  have x: "mux_ServeHTTP M mux ?r ?s = (resp', s')" using served(4) by (simp add: securityHeaders_eq)
  have "security_headers s' = security_headers ?s" using hdr.keeps.mux_inv [OF served(1) refl, of ?r ?s] x by simp
  then show ?thesis using served(5) by (simp add: security_headers_def with_security_headers_def Let_def set_header_def)
qed

section \<open>The table has no conflicts\<close>

text \<open>What the table relies on of the path functions: its own paths are clean, and text without a percent sign is not escaped, and the escaped path is a part of the URL.\<close>

definition plain_path :: "string \<Rightarrow> bool" where
  "plain_path p = (p = ''/'' \<or> HasPrefix p ''/'' \<and> (\<forall>x \<in> set (Split (CHR ''/'') (tl p)). x \<noteq> [] \<and> x \<noteq> ''.'' \<and> x \<noteq> ''..''))"

definition mux_ok :: "mux_lib \<Rightarrow> bool" where
  "mux_ok M = ((\<forall>p. plain_path p \<longrightarrow> ml_cleanPath M p = p) \<and> (\<forall>t. CHR ''%'' \<notin> set t \<longrightarrow> ml_unescape M t = t) \<and> ml_ident M ''id'' \<and>
     (\<forall>r ident. ml_EscapedPath M (r\<lparr>r_RequestID := ident\<rparr>) = ml_EscapedPath M r))"

definition static_before :: "(string \<times> segment list) list" where
  "static_before =
     [(''GET'', [Lit ''assets'', Lit ''authbroker.css'']),
      (''GET'', [Lit ''assets'', Lit ''authbroker.js'']),
      (''GET'', [Multi []]),
      (''GET'', [Lit ''healthz'']),
      (''GET'', [Lit ''livez'']),
      (''GET'', [Lit ''readyz''])]"

definition static_after :: "(string \<times> segment list) list" where
  "static_after =
     [(''GET'', [Lit ''.well-known'', Lit ''openid-configuration'']),
      (''GET'', [Lit ''oauth2'', Lit ''jwks'']),
      (''GET'', [Lit ''oauth2'', Lit ''authorize'']),
      (''GET'', [Lit ''login'']),
      (''POST'', [Lit ''login'']),
      (''GET'', [Lit ''logout'']),
      (''POST'', [Lit ''logout'']),
      (''POST'', [Lit ''reauth'']),
      (''POST'', [Lit ''app-tokens'', Wild ''id'']),
      (''POST'', [Lit ''oauth2'', Lit ''token'']),
      (''GET'', [Lit ''oauth2'', Lit ''userinfo'']),
      (''POST'', [Lit ''oauth2'', Lit ''userinfo'']),
      (''POST'', [Lit ''oauth2'', Lit ''revoke'']),
      (''POST'', [Lit ''oauth2'', Lit ''introspect'']),
      (''GET'', [Lit ''oauth2'', Lit ''logout'']),
      (''POST'', [Lit ''oauth2'', Lit ''logout'']),
      (''POST'', [Lit ''mfa'', Lit ''totp'', Lit ''enroll'']),
      (''POST'', [Lit ''mfa'', Lit ''totp'', Lit ''verify'']),
      (''POST'', [Lit ''webauthn'', Lit ''register'', Lit ''begin'']),
      (''POST'', [Lit ''webauthn'', Lit ''register'', Lit ''finish'']),
      (''POST'', [Lit ''webauthn'', Lit ''login'', Lit ''begin'']),
      (''POST'', [Lit ''webauthn'', Lit ''login'', Lit ''finish'']),
      (''GET'', [Lit ''consent'']),
      (''POST'', [Lit ''consent'']),
      (''GET'', [Lit ''admin'']),
      (''GET'', [Lit ''admin'', Lit ''clients'', Lit ''new'']),
      (''POST'', [Lit ''admin'', Lit ''clients'']),
      (''POST'', [Lit ''admin'', Lit ''clients'', Wild ''id'', Lit ''delete'']),
      (''GET'', [Lit ''admin'', Lit ''app-tokens'', Lit ''new'']),
      (''POST'', [Lit ''admin'', Lit ''app-tokens'']),
      (''POST'', [Lit ''admin'', Lit ''app-tokens'', Wild ''id'', Lit ''delete''])]"

abbreviation static_patterns :: "(string \<times> segment list) list" where
  "static_patterns \<equiv> static_before @ static_after"

lemma static_no_conflict: "sorted_wrt (\<lambda>p q. \<not> conflictsWith q p) static_patterns"
  by code_simp

lemma register_all_iff:
  assumes "list_all2 (\<lambda>((meth, p), h) q. fst q = meth \<and> parse_path M p = Some (snd q)) rs qs"
    and "sorted_wrt (\<lambda>p q. \<not> conflictsWith q p) (map fst mux)"
  shows "register_all M rs mux =
    (if sorted_wrt (\<lambda>p q. \<not> conflictsWith q p) (map fst mux @ qs) then Some (mux @ zip qs (map snd rs)) else None)"
  using assms
proof (induction rs qs arbitrary: mux rule: list_all2_induct)
  case (Cons x rs q qs)
  obtain meth p h where x: "x = ((meth, p), h)" by (metis surj_pair)
  with Cons.hyps have q: "parse_path M p = Some (snd q)" "fst q = meth" by auto
  show ?case
  proof (cases "\<exists>y \<in> set mux. conflictsWith q (fst y)")
    case True
    with q x show ?thesis by (auto simp: HandleFunc_def sorted_wrt_append)
  next
    case False
    let ?mux = "mux @ [(q, h)]"
    have "sorted_wrt (\<lambda>p q. \<not> conflictsWith q p) (map fst ?mux)"
      using False Cons.prems by (auto simp: sorted_wrt_append)
    from Cons.IH [OF this] False q x show ?thesis by (auto simp: HandleFunc_def)
  qed
qed simp

lemma register_all_append:
  "register_all M (rs @ rs') mux = Option.bind (register_all M rs mux) (register_all M rs')"
  by (induction rs arbitrary: mux) (auto split: Option.bind_split)

text \<open>Conflicts are symmetric.\<close>

fun inverseRelationship :: "relationship \<Rightarrow> relationship" where
  "inverseRelationship MoreGeneral = MoreSpecific"
| "inverseRelationship MoreSpecific = MoreGeneral"
| "inverseRelationship r = r"

lemma combine_inverse: "combineRelationships (inverseRelationship a) (inverseRelationship b) = inverseRelationship (combineRelationships a b)"
  by (cases a; cases b; simp)

lemma inverse_Disjoint [simp]: "inverseRelationship r = Disjoint \<longleftrightarrow> r = Disjoint"
  by (cases r) simp_all

lemma segments_inverse: "compareSegments b a = inverseRelationship (compareSegments a b)"
  by (cases a; cases b) simp_all

lemma loop_inverse:
  "compare_loop m2 m1 (inverseRelationship rel) bs as = inverseRelationship (compare_loop m1 m2 rel as bs)"
proof (induction m1 m2 rel as bs rule: compare_loop.induct)
  case (2 m1 m2 rel b bs)
  show ?case using combine_inverse [of rel MoreGeneral] by simp
next
  case (3 m1 m2 rel a as)
  show ?case using combine_inverse [of rel MoreSpecific] by simp
next
  case (4 m1 m2 rel a as b bs)
  then show ?case using combine_inverse [of rel "compareSegments a b"] segments_inverse [of b a] by (simp add: Let_def)
qed simp

lemma conflictsWith_sym: "conflictsWith p q \<longleftrightarrow> conflictsWith q p"
proof -
  let ?m = "compareMethods (fst p) (fst q)" and ?r = "comparePaths (snd p) (snd q)"
  have m: "compareMethods (fst q) (fst p) = inverseRelationship ?m" by (simp add: compareMethods_def)
  have r: "comparePaths (snd q) (snd p) = inverseRelationship ?r"
    using loop_inverse [of "ends_multi (snd q)" "ends_multi (snd p)" Equivalent "snd q" "snd p"] by (auto simp: comparePaths_def)
  have "comparePathsAndMethods q p = inverseRelationship (comparePathsAndMethods p q)"
    unfolding comparePathsAndMethods_def Let_def m r combine_inverse by simp
  then show ?thesis by (cases "comparePathsAndMethods p q") (simp_all add: conflictsWith_def)
qed

abbreviation metrics_pattern :: "env \<Rightarrow> string" where
  "metrics_pattern e \<equiv> dropWhile (\<lambda>c. c = CHR '' '' \<or> c = CHR 0x09) (me_Path (cf_Metrics (e_cfg e)))"

lemma plain_unescape: "mux_ok M \<Longrightarrow> CHR ''%'' \<notin> set t \<Longrightarrow> ml_unescape M t = t"
  by (simp add: mux_ok_def)

lemma parse_before:
  "mux_ok M \<Longrightarrow> list_all2 (\<lambda>((meth, p), h) q. fst q = meth \<and> parse_path M p = Some (snd q))
     ([((''GET'', ''/assets/authbroker.css''), h1), ((''GET'', ''/assets/authbroker.js''), h2), ((''GET'', ''/''), h3),
       ((''GET'', ''/healthz''), h4), ((''GET'', ''/livez''), h5), ((''GET'', ''/readyz''), h6)]) static_before"
  by (simp add: static_before_def parse_path_def parse_segment_def plain_unescape HasPrefix_def) (simp add: mux_ok_def plain_path_def HasPrefix_def)

lemma parse_after:
  "mux_ok M \<Longrightarrow> list_all2 (\<lambda>((meth, p), h) q. fst q = meth \<and> parse_path M p = Some (snd q)) (main_routes e) static_after"
  by (simp add: main_routes_def static_after_def parse_path_def parse_segment_def plain_unescape HasPrefix_def cut_dots_def HasSuffix_def Let_def)
    (simp add: mux_ok_def plain_path_def HasPrefix_def)

abbreviation fixed_routes :: "string \<Rightarrow> string \<Rightarrow> env \<Rightarrow> ((string \<times> string) \<times> handler) list" where
  "fixed_routes css js e \<equiv>
     [((''GET'', ''/assets/authbroker.css''), handleStylesheet css e), ((''GET'', ''/assets/authbroker.js''), handleScript js e),
      ((''GET'', ''/''), handleHome e), ((''GET'', ''/healthz''), handleHealth e), ((''GET'', ''/livez''), handleLive e),
      ((''GET'', ''/readyz''), handleReady e)]"

lemma route_table_eq:
  "route_table css js fmt m e = fixed_routes css js e @
     (if me_Enabled (cf_Metrics (e_cfg e)) then [((''GET'', metrics_pattern e), handleMetrics fmt m e)] else []) @ main_routes e"
  by (simp add: route_table_def registerOperationalRoutes_def)

lemma register_table:
  assumes "mux_ok M"
  shows "register_all M (route_table css js fmt m e) [] =
    (if \<not> me_Enabled (cf_Metrics (e_cfg e)) then Some (zip static_patterns (map snd (fixed_routes css js e @ main_routes e)))
     else case parse_path M (metrics_pattern e) of
         None \<Rightarrow> None
       | Some segs \<Rightarrow>
           if \<exists>q \<in> set static_patterns. conflictsWith q (''GET'', segs) then None
           else Some (zip (static_before @ (''GET'', segs) # static_after)
                  (map snd (fixed_routes css js e) @ handleMetrics fmt m e # map snd (main_routes e))))"
proof (cases "me_Enabled (cf_Metrics (e_cfg e))")
  case False
  have "list_all2 (\<lambda>((meth, p), h) q. fst q = meth \<and> parse_path M p = Some (snd q)) (fixed_routes css js e @ main_routes e) static_patterns"
    by (rule list_all2_appendI [OF parse_before [OF assms] parse_after [OF assms]])
  from register_all_iff [OF this, of "[]", simplified] False show ?thesis
    using static_no_conflict by (simp add: route_table_eq)
next
  case on: True
  show ?thesis
  proof (cases "parse_path M (metrics_pattern e)")
    case None
    then have "HandleFunc M (''GET'', metrics_pattern e) (handleMetrics fmt m e) mux = None" for mux
      by (simp add: HandleFunc_def)
    then have "register_all M (route_table css js fmt m e) [] = None"
      unfolding route_table_eq using on by (auto split: Option.bind_split)
    then show ?thesis using on None by simp
  next
    case (Some segs)
    let ?q = "(''GET'', segs)" and ?h = "((''GET'', metrics_pattern e), handleMetrics fmt m e)"
    have "list_all2 (\<lambda>((meth, p), h) q. fst q = meth \<and> parse_path M p = Some (snd q))
        (fixed_routes css js e @ [?h] @ main_routes e) (static_before @ [?q] @ static_after)"
      by (rule list_all2_appendI [OF parse_before [OF assms] list_all2_appendI [OF _ parse_after [OF assms]]]) (simp add: Some)
    note r = register_all_iff [OF this, of "[]", simplified]
    have "sorted_wrt (\<lambda>p q. \<not> conflictsWith q p) (static_before @ ?q # static_after) \<longleftrightarrow>
        \<not> (\<exists>q \<in> set static_patterns. conflictsWith q ?q)"
      using static_no_conflict conflictsWith_sym [of ?q] by (auto simp: sorted_wrt_append)
    with r on Some show ?thesis by (simp add: route_table_eq)
  qed
qed

text \<open>
  C15. When the server can be built: always without metrics; with metrics exactly if the metrics path
  is a pattern that conflicts with none of the others.  In every other case building the routes
  panics, after the configuration was accepted.
\<close>

theorem routes_built_iff:
  assumes "mux_ok M"
  shows "buildRoutes M css js fmt e \<noteq> None \<longleftrightarrow>
    (me_Enabled (cf_Metrics (e_cfg e)) \<longrightarrow>
      (\<exists>segs. parse_path M (metrics_pattern e) = Some segs \<and>
         (\<forall>q \<in> set static_patterns. \<not> conflictsWith q (''GET'', segs))))"
  by (auto simp: buildRoutes_def register_table [OF assms] split: option.splits)

section \<open>Each path reaches its handler\<close>

lemma register_all_keeps: "register_all M rs mux = Some mux' \<Longrightarrow> set mux \<subseteq> set mux'"
proof (induction rs arbitrary: mux)
  case (Cons x rs)
  obtain meth p h where x: "x = ((meth, p), h)" by (metis surj_pair)
  with Cons.prems obtain y where "register_all M rs (mux @ [y]) = Some mux'"
    by (auto simp: HandleFunc_def split: option.splits if_splits)
  from Cons.IH [OF this] show ?case by simp
qed simp

lemma register_all_has:
  "register_all M rs mux = Some mux' \<Longrightarrow> ((meth, p), h) \<in> set rs \<Longrightarrow>
     \<exists>segs. parse_path M p = Some segs \<and> ((meth, segs), h) \<in> set mux'"
proof (induction rs arbitrary: mux)
  case (Cons x rs)
  obtain meth' p' h' where x: "x = ((meth', p'), h')" by (metis surj_pair)
  from Cons.prems(1) x obtain segs where p': "parse_path M p' = Some segs"
    and r: "register_all M rs (mux @ [((meth', segs), h')]) = Some mux'"
    by (auto simp: HandleFunc_def split: option.splits if_splits)
  show ?case
  proof (cases "x = ((meth, p), h)")
    case True
    with x p' register_all_keeps [OF r] show ?thesis by auto
  next
    case False
    with Cons.prems(2) show ?thesis by (intro Cons.IH [OF r]) simp
  qed
qed simp

lemma register_all_sorted:
  "register_all M rs mux = Some mux' \<Longrightarrow> sorted_wrt (\<lambda>p q. \<not> conflictsWith q p) (map fst mux) \<Longrightarrow>
     sorted_wrt (\<lambda>p q. \<not> conflictsWith q p) (map fst mux')"
proof (induction rs arbitrary: mux)
  case (Cons x rs)
  obtain meth p h where x: "x = ((meth, p), h)" by (metis surj_pair)
  from Cons.prems(1) x obtain segs where n: "\<not> (\<exists>q \<in> set mux. conflictsWith (meth, segs) (fst q))"
    and r: "register_all M rs (mux @ [((meth, segs), h)]) = Some mux'"
    by (auto simp: HandleFunc_def split: option.splits if_splits)
  show ?case by (rule Cons.IH [OF r]) (use n Cons.prems(2) in \<open>auto simp: sorted_wrt_append\<close>)
qed simp

lemma conflicts_refl: "conflictsWith q q"
proof -
  have s: "compareSegments a a = Equivalent" for a by (cases a) simp_all
  have "compare_loop b b Equivalent segs segs = Equivalent" for b segs by (induction segs) (simp_all add: s Let_def)
  then show ?thesis by (simp add: conflictsWith_def comparePathsAndMethods_def comparePaths_def compareMethods_def)
qed

lemma no_conflict_distinct: "sorted_wrt (\<lambda>p q. \<not> conflictsWith q p) qs \<Longrightarrow> distinct qs"
  by (induction qs) (auto simp: conflicts_refl)

lemma match_rank:
  "match_segments segs path \<noteq> None \<Longrightarrow> map segment_rank segs \<le> replicate (length path) 0 \<Longrightarrow> segs = map Lit path"
  by (induction segs path rule: match_segments.induct) (auto split: if_splits)

lemma match_literal: "match_segments (map Lit path) path = Some []"
  by (induction path) simp_all

lemma best_route_None [simp]: "best_route rts = None \<longleftrightarrow> rts = []"
  by (cases rts) (auto split: option.split)

lemma best_route_min: "best_route rts = Some b \<Longrightarrow> rt \<in> set rts \<Longrightarrow> route_rank b \<le> route_rank rt"
proof (induction rts arbitrary: b)
  case (Cons x rts)
  show ?case
  proof (cases "best_route rts")
    case None
    with Cons.prems show ?thesis by simp
  next
    case (Some c)
    from Cons.IH [OF Some] Cons.prems Some show ?thesis by (auto split: if_splits)
  qed
qed simp

lemma find_literal:
  assumes "distinct (map fst mux)" and "((meth, map Lit path), h) \<in> set mux"
  shows "find_route mux meth path = Some ((meth, map Lit path), h)"
proof -
  let ?rt = "((meth, map Lit path), h)" and ?rts = "filter (route_matches meth path) mux"
  have "?rt \<in> set ?rts" using assms(2) by (simp add: route_matches_def match_literal)
  then obtain b where b: "best_route ?rts = Some b" and le: "route_rank b \<le> route_rank ?rt"
    using best_route_None [of ?rts] best_route_min [of ?rts] by (metis empty_iff list.set(1) option.exhaust)
  have m: "route_matches meth path b" "b \<in> set mux" using best_route_in [OF b] by simp_all
  have "map segment_rank (map Lit path) = replicate (length path) 0" by (induction path) simp_all
  with le m(1) have "snd (fst b) = map Lit path"
    by (intro match_rank) (simp_all add: route_matches_def route_rank_def)
  with m(1) have "fst b = fst ?rt" by (simp add: route_matches_def prod_eq_iff)
  with assms m(2) have "b = ?rt" by (metis eq_key_imp_eq_value prod.collapse)
  with b show ?thesis by (simp add: find_route_def)
qed

lemma Split_parts: "x \<in> set (Split c s) \<Longrightarrow> c \<notin> set x"
  by (induction s arbitrary: x) (auto split: list.splits if_splits)

lemma slash_parts:
  assumes "HasPrefix p ''/''"
  shows "p = concat (map (Cons (CHR ''/'')) (Split (CHR ''/'') (tl p)))"
proof -
  have "CHR ''/'' # Join xs [CHR ''/''] = concat (map (Cons (CHR ''/'')) xs)" if "xs \<noteq> []" for xs
    using that by (induction xs "[CHR ''/'']" rule: Join.induct) simp_all
  moreover have "Split (CHR ''/'') t \<noteq> []" for t by (cases t) (auto split: list.split)
  moreover obtain t where "p = CHR ''/'' # t" using assms by (cases p) (auto simp: HasPrefix_def)
  ultimately show ?thesis using Join_Split [of "CHR ''/''" t] by (metis list.sel(3))
qed

lemma path_segments_parts:
  "\<forall>x \<in> set xs. x \<noteq> [] \<and> CHR ''/'' \<notin> set x \<Longrightarrow> path_segments M (concat (map (Cons (CHR ''/'')) xs)) = map (ml_unescape M) xs"
proof (induction xs)
  case Nil
  show ?case by (subst path_segments.simps) simp
next
  case (Cons x xs)
  let ?rest = "concat (map (Cons (CHR ''/'')) xs)"
  have r: "?rest = [] \<or> hd ?rest = CHR ''/''" by (cases xs) simp_all
  have "takeWhile (\<lambda>c. c \<noteq> CHR ''/'') (x @ ?rest) = x" "dropWhile (\<lambda>c. c \<noteq> CHR ''/'') (x @ ?rest) = ?rest"
    using Cons.prems r by (cases ?rest; auto simp: takeWhile_append dropWhile_append)+
  with Cons show ?case by (subst path_segments.simps) simp
qed

lemma parse_literal_segments:
  "\<forall>x \<in> set xs. x \<noteq> [] \<and> CHR ''{'' \<notin> set x \<Longrightarrow> parse_segments M seen xs = Some (map (Lit \<circ> ml_unescape M) xs)"
  by (induction xs arbitrary: seen) (simp_all add: parse_segment_def)

definition literal_path :: "mux_lib \<Rightarrow> string \<Rightarrow> bool" where
  "literal_path M p = (HasPrefix p ''/'' \<and> ml_cleanPath M p = p \<and> CHR ''{'' \<notin> set p \<and> [] \<notin> set (Split (CHR ''/'') (tl p)))"

lemma parse_literal:
  assumes "literal_path M p"
  shows "parse_path M p = Some (map Lit (path_segments M p))"
proof -
  let ?xs = "Split (CHR ''/'') (tl p)"
  have p: "p = concat (map (Cons (CHR ''/'')) ?xs)" using assms by (intro slash_parts) (simp add: literal_path_def)
  have ne: "\<forall>x \<in> set ?xs. x \<noteq> [] \<and> CHR ''/'' \<notin> set x" using assms Split_parts by (auto simp: literal_path_def)
  have "\<forall>x \<in> set ?xs. set x \<subseteq> set p" by (subst p) auto
  then have "\<forall>x \<in> set ?xs. x \<noteq> [] \<and> CHR ''{'' \<notin> set x" using assms ne by (auto simp: literal_path_def)
  from parse_literal_segments [OF this] have "parse_segments M {} ?xs = Some (map (Lit \<circ> ml_unescape M) ?xs)" .
  moreover have "path_segments M p = map (ml_unescape M) ?xs" using path_segments_parts [OF ne] p by metis
  ultimately show ?thesis using assms by (simp add: parse_path_def literal_path_def)
qed

lemma dispatch_literal:
  assumes "register_all M rs [] = Some mux" and "((meth, p), h) \<in> set rs" and "literal_path M p"
    and "r_Method r = meth" and "ml_EscapedPath M r = p"
  shows "mux_ServeHTTP M mux r s = h (r\<lparr>r_PathValue := (\<lambda>_. [])\<rparr>) s"
proof -
  let ?path = "path_segments M p"
  have "((meth, map Lit ?path), h) \<in> set mux"
    using register_all_has [OF assms(1,2)] parse_literal [OF assms(3)] by simp
  moreover have "distinct (map fst mux)"
    by (rule no_conflict_distinct [OF register_all_sorted [OF assms(1)]]) simp
  ultimately have f: "find_route mux meth ?path = Some ((meth, map Lit ?path), h)" by (intro find_literal)
  have "\<not> ends_multi (map Lit ?path)" by (auto simp: ends_multi_def last_map)
  moreover have "path_value (map Lit ?path) ?path = (\<lambda>_. [])" by (rule ext) (simp add: path_value_def match_literal)
  moreover have "ml_cleanPath M p = p" using assms(3) by (simp add: literal_path_def)
  ultimately show ?thesis using f assms(4,5) by (simp add: mux_ServeHTTP_def exactMatch_def Let_def)
qed

text \<open>
  Each endpoint is where it should be: a request whose method and path are those of an entry of
  the table without a wildcard is answered by the handler of that entry and by nothing else,
  whatever else the table holds, inside the security headers and the request log.
\<close>

theorem dispatch_exact:
  assumes "buildRoutes M css js fmt e = Some srv" and "mux_ok M"
    and "((meth, p), h) \<in> set (route_table css js fmt m e)" and "literal_path M p"
    and "r_Method r = meth" and "ml_EscapedPath M r = p"
  shows "srv d r (s, m) = observability e d (securityHeaders e (\<lambda>r. h (r\<lparr>r_PathValue := (\<lambda>_. [])\<rparr>))) r (s, m)"
proof -
  obtain mux where mux: "register_all M (route_table css js fmt m e) [] = Some mux"
    using assms(1) register_table [OF assms(2), of css js fmt m e] register_table [OF assms(2), of css js fmt "[]" e]
    by (auto simp: buildRoutes_def split: if_splits option.splits)
  have "mux_ServeHTTP M mux (r\<lparr>r_RequestID := x\<rparr>) s = h (r\<lparr>r_RequestID := x, r_PathValue := (\<lambda>_. [])\<rparr>) s" for x s
    using dispatch_literal [OF mux assms(3,4), of "r\<lparr>r_RequestID := x\<rparr>"] assms(2,5,6) by (simp add: mux_ok_def)
  with assms(1) mux show ?thesis
    by (auto simp: buildRoutes_def observability_def securityHeaders_def split: if_splits prod.splits)
qed

section \<open>Witnesses\<close>

definition demo_mux :: mux_lib where
  "demo_mux = \<lparr>ml_EscapedPath = r_Path, ml_cleanPath = (\<lambda>p. p), ml_unescape = (\<lambda>t. t), ml_ident = (\<lambda>_. True),
     ml_URL = (\<lambda>p _. p), ml_redirect = 307\<rparr>"

lemma demo_mux_ok: "mux_ok demo_mux"
  by (simp add: mux_ok_def demo_mux_def)

definition demo_metrics_at :: "string \<Rightarrow> env" where
  "demo_metrics_at path = demo_env\<lparr>e_cfg := demo_cfg\<lparr>cf_Metrics := \<lparr>me_Enabled = True, me_Path = path, me_BearerSHA256 = []\<rparr>\<rparr>\<rparr>"

text \<open>The configuration accepts \<^verbatim>\<open>/login\<close> as the path of the metrics, but the server cannot be built with it.\<close>

theorem routes_built_iff_witness:
  "buildRoutes demo_mux [] [] (\<lambda>_. []) (demo_metrics_at ''/metrics'') \<noteq> None \<and>
   buildRoutes demo_mux [] [] (\<lambda>_. []) (demo_metrics_at ''/login'') = None \<and>
   validateMetricsConfigShape (cf_Metrics (e_cfg (demo_metrics_at ''/login''))) = None"
proof -
  have pm: "parse_path demo_mux ''/metrics'' = Some [Lit ''metrics'']" "parse_path demo_mux ''/login'' = Some [Lit ''login'']"
    by code_simp+
  have c: "\<forall>q \<in> set static_patterns. \<not> conflictsWith q (''GET'', [Lit ''metrics''])" by code_simp
  have "\<exists>q \<in> set static_patterns. conflictsWith q (''GET'', [Lit ''login''])" by code_simp
  then have "buildRoutes demo_mux [] [] (\<lambda>_. []) (demo_metrics_at ''/login'') = None"
    using routes_built_iff [OF demo_mux_ok, of "[]" "[]" "\<lambda>_. []" "demo_metrics_at ''/login''"] pm by (auto simp: demo_metrics_at_def)
  moreover have "buildRoutes demo_mux [] [] (\<lambda>_. []) (demo_metrics_at ''/metrics'') \<noteq> None"
    using routes_built_iff [OF demo_mux_ok, of "[]" "[]" "\<lambda>_. []" "demo_metrics_at ''/metrics''"] pm c by (simp add: demo_metrics_at_def)
  moreover have "validateMetricsConfigShape \<lparr>me_Enabled = True, me_Path = ''/login'', me_BearerSHA256 = []\<rparr> = None" by code_simp
  ultimately show ?thesis by (simp add: demo_metrics_at_def)
qed

lemma demo_registered: "\<exists>mux. register_all demo_mux (route_table css js fmt m demo_env) [] = Some mux"
  using register_table [OF demo_mux_ok, of css js fmt m demo_env] by (simp add: demo_cfg_def)

lemma demo_server: "\<exists>srv. buildRoutes demo_mux [] [] (\<lambda>_. []) demo_env = Some srv"
  using demo_registered [of "[]" "[]" "\<lambda>_. []" "[]"] by (auto simp: buildRoutes_def)

lemma demo_healthz: "((''GET'', ''/healthz''), handleHealth demo_env) \<in> set (route_table [] [] (\<lambda>_. []) [] demo_env)"
  by (simp add: route_table_eq)

lemma demo_healthz_literal: "literal_path demo_mux ''/healthz''"
  by code_simp

theorem server_operator_state_witness:
  "\<exists>srv resp s' m'. buildRoutes demo_mux [] [] (\<lambda>_. []) demo_env = Some srv \<and>
     srv 0 demo_request (demo_st, []) = (resp, s', m') \<and> db_signingKeys (st_db s') = db_signingKeys (st_db demo_st)"
proof -
  obtain srv where b: "buildRoutes demo_mux [] [] (\<lambda>_. []) demo_env = Some srv" using demo_server by blast
  obtain resp s' m' where h: "srv 0 demo_request (demo_st, []) = (resp, s', m')" by (metis surj_pair)
  from server_operator_state [OF b h] b h show ?thesis by auto
qed

theorem server_security_headers_witness:
  "\<exists>srv status body s' m'. buildRoutes demo_mux [] [] (\<lambda>_. []) demo_env = Some srv \<and>
     srv 0 (demo_request\<lparr>r_Method := ''GET'', r_Path := ''/healthz''\<rparr>) (demo_st, []) = (Resp status body, s', m') \<and>
     w_header s' ''X-Frame-Options'' = Some ''DENY''"
proof -
  let ?r = "demo_request\<lparr>r_Method := ''GET'', r_Path := ''/healthz''\<rparr>"
  obtain srv where b: "buildRoutes demo_mux [] [] (\<lambda>_. []) demo_env = Some srv" using demo_server by blast
  obtain mux where m: "register_all demo_mux (route_table [] [] (\<lambda>_. []) [] demo_env) [] = Some mux"
    using demo_registered by blast
  have "mux_ServeHTTP demo_mux mux (?r\<lparr>r_RequestID := x\<rparr>) s = (writeJSON 200 [''status'' \<mapsto> JStr ''ok''], s)" for x s
    using dispatch_literal [OF m demo_healthz demo_healthz_literal, of "?r\<lparr>r_RequestID := x\<rparr>"]
    by (simp add: demo_mux_def handleHealth_def)
  moreover have "metricPath ''/healthz'' (me_Path (cf_Metrics (e_cfg demo_env))) \<noteq> None" by code_simp
  ultimately obtain status body s' m' where h: "srv 0 ?r (demo_st, []) = (Resp status body, s', m')"
    using b m by (auto simp: buildRoutes_def observability_def securityHeaders_eq writeJSON_def case_prod_beta)
  from server_security_headers [OF b h] b h show ?thesis by auto
qed

theorem dispatch_exact_witness:
  "\<exists>srv. buildRoutes demo_mux [] [] (\<lambda>_. []) demo_env = Some srv \<and>
     fst (srv 0 (demo_request\<lparr>r_Method := ''GET'', r_Path := ''/healthz''\<rparr>) (demo_st, [])) =
       writeJSON 200 [''status'' \<mapsto> JStr ''ok'']"
proof -
  let ?r = "demo_request\<lparr>r_Method := ''GET'', r_Path := ''/healthz''\<rparr>"
  obtain srv where b: "buildRoutes demo_mux [] [] (\<lambda>_. []) demo_env = Some srv" using demo_server by blast
  have "srv 0 ?r (demo_st, []) = observability demo_env 0 (securityHeaders demo_env
      (\<lambda>r. handleHealth demo_env (r\<lparr>r_PathValue := (\<lambda>_. [])\<rparr>))) ?r (demo_st, [])"
    by (rule dispatch_exact [OF b demo_mux_ok demo_healthz demo_healthz_literal]) (simp_all add: demo_mux_def)
  moreover have "metricPath ''/healthz'' (me_Path (cf_Metrics (e_cfg demo_env))) \<noteq> None" by code_simp
  ultimately show ?thesis
    using b by (auto simp: observability_def securityHeaders_eq handleHealth_def writeJSON_def case_prod_beta)
qed

end
