(* ===== verification/Invariants.thy ===== *)
theory Invariants
  imports Routes
begin

text \<open>
  The data at rest.  Two predicates on the database are kept by every request and by the sweep:
  \<open>store_ok\<close>, the order of the buckets, and \<open>data_ok\<close>, what their entries are: every record under
  its own key, codes and refresh tokens only under the hash of a secret, refresh tokens and their
  tombstones in a family that can be revoked, no two passkeys of a user with one id, no compiled
  field of a client in the database.  Both are interpretations of \<open>db_invariant\<close>, and so hold in
  every state that the started server can reach (\<open>reach\<close>: requests and sweeps in any order, at any
  times).
\<close>

section \<open>What the entries are\<close>

definition bucket_all :: "(string \<Rightarrow> 'v \<Rightarrow> bool) \<Rightarrow> 'v bucket \<Rightarrow> bool" where
  "bucket_all Q b = list_all (\<lambda>(k, c). case c of Json v \<Rightarrow> Q k v | Malformed \<Rightarrow> True) b"

definition hashed :: "env \<Rightarrow> string \<Rightarrow> bool" where
  "hashed e k = (\<exists>x. k = hash_secret e x)"

definition user_ok :: "string \<Rightarrow> StoredUser \<Rightarrow> bool" where
  "user_ok k u = (u_Username u = k \<and> distinct (map wc_IDBase64URL (u_WebAuthnCredentials u)))"

definition data_ok :: "env \<Rightarrow> Store \<Rightarrow> bool" where
  "data_ok e d =
     (bucket_all user_ok (db_users d) \<and>
      bucket_all (\<lambda>k ar. ar_ID ar = k) (db_authRequests d) \<and>
      bucket_all (\<lambda>k _. hashed e k) (db_authCodes d) \<and>
      bucket_all (\<lambda>k rt. hashed e k \<and> family_ok e (rt_FamilyID rt)) (db_refreshTokens d) \<and>
      bucket_all (\<lambda>k crt. hashed e k \<and> family_ok e (crt_FamilyID crt)) (db_consumedRefreshTokens d) \<and>
      bucket_all (\<lambda>k ch. ch_Challenge ch = k) (db_webauthnReg d) \<and>
      bucket_all (\<lambda>k ch. ch_Challenge ch = k) (db_webauthnLog d) \<and>
      bucket_all (\<lambda>k c. c_ClientID c = k \<and> persist_Client c = c) (db_clients d) \<and>
      bucket_all (\<lambda>k t. at_ID t = k \<and> persist_AppToken t = t) (db_appTokens d) \<and>
      bucket_all (\<lambda>k cr. consentKey (cr_UserID cr) (cr_ClientID cr) = k) (db_consents d))"

lemma hashed_secret [simp]: "hashed e (hash_secret e x)"
  by (auto simp: hashed_def)

lemma persisted [simp]: "persist_Client (persist_Client c) = persist_Client c" "persist_AppToken (persist_AppToken t) = persist_AppToken t"
  "c_ClientID (persist_Client c) = c_ClientID c" "at_ID (persist_AppToken t) = at_ID t"
  by (simp_all add: persist_Client_def persist_AppToken_def)

lemma bucket_all_Nil [simp]: "bucket_all Q []"
  by (simp add: bucket_all_def)

lemma bucket_all_bget: "bucket_all Q b \<Longrightarrow> bget k b = Some (Json v) \<Longrightarrow> Q k v"
  by (auto simp: bucket_all_def list_all_iff dest!: bget_SomeD)

lemma bucket_all_bput [simp]: "bucket_all Q b \<Longrightarrow> Q k v \<Longrightarrow> bucket_all Q (bput k v b)"
  by (induction k v b rule: bput.induct) (auto simp: bucket_all_def)

lemma bucket_all_bdel [simp]: "bucket_all Q b \<Longrightarrow> bucket_all Q (bdel k b)"
  by (auto simp: bucket_all_def bdel_def list_all_iff)

lemma bucket_all_delete_where [simp]: "bucket_all Q b \<Longrightarrow> bucket_all Q (delete_where R es b)"
proof -
  have "bucket_all Q b \<Longrightarrow> bucket_all Q (fold bdel ks b)" for ks by (induction ks arbitrary: b) simp_all
  then show "bucket_all Q b \<Longrightarrow> ?thesis" by (simp add: delete_where_def)
qed

lemma bucket_all_sweep: "bucket_all Q b \<Longrightarrow> sweepBucketTx f t b = Inr (n, b') \<Longrightarrow> bucket_all Q b'"
  by (auto simp: sweepBucketTx_def split: option.splits)

section \<open>Every transaction keeps it\<close>

lemma data_ok_update: "data_ok e d \<Longrightarrow> (\<And>a d'. r = Inr (a, d') \<Longrightarrow> data_ok e d') \<Longrightarrow> data_ok e (snd (db_update d r))"
  by (auto simp: db_update_snd split: sum.splits)

lemma getUserTx_ok: "bucket_all user_ok b \<Longrightarrow> getUserTx b k = Inr u \<Longrightarrow> user_ok k (user_or_new k u)"
  by (cases u) (auto simp: getUserTx_def getJSON_Inr user_or_new_def new_StoredUser_def user_ok_def dest!: bucket_all_bget)

lemma getUserTx_Some: "bucket_all user_ok b \<Longrightarrow> getUserTx b k = Inr (Some u) \<Longrightarrow> user_ok k u"
  by (auto simp: getUserTx_def getJSON_Inr dest!: bucket_all_bget)

lemma set_sign_count_ids: "set_sign_count i n cs = Some cs' \<Longrightarrow> map wc_IDBase64URL cs' = map wc_IDBase64URL cs"
  by (induction cs arbitrary: cs') (auto split: if_splits)

lemma put_user_data: "data_ok e d \<Longrightarrow> user_ok k u \<Longrightarrow> put_user k u d = Inr (a, d') \<Longrightarrow> data_ok e d'"
  by (auto simp: put_user_def putJSON_Inr data_ok_def)

lemma data_users: "data_ok e d \<Longrightarrow> bucket_all user_ok (db_users d)"
  by (simp add: data_ok_def)

lemma user_ok_fields [simp]:
  "user_ok k (u\<lparr>u_Email := x\<rparr>) = user_ok k u" "user_ok k (u\<lparr>u_Name := x\<rparr>) = user_ok k u" "user_ok k (u\<lparr>u_Groups := xs\<rparr>) = user_ok k u"
  "user_ok k (u\<lparr>u_TOTPSecretBase32 := x\<rparr>) = user_ok k u" "user_ok k (u\<lparr>u_PendingTOTPSecretBase32 := x\<rparr>) = user_ok k u"
  by (simp_all add: user_ok_def)

lemma user_ok_credentials:
  "user_ok k u \<Longrightarrow> distinct (map wc_IDBase64URL cs) \<Longrightarrow> user_ok k (u\<lparr>u_WebAuthnCredentials := cs\<rparr>)"
  by (simp add: user_ok_def)

lemma user_ops_data:
  assumes "data_ok e d"
  shows "data_ok e (snd (UpsertProfile p d))" "data_ok e (snd (SetPendingTOTP k x d))"
    "data_ok e (snd (CommitPendingTOTP k d))" "data_ok e (snd (ClearPendingTOTP k d))"
  unfolding UpsertProfile_def SetPendingTOTP_def CommitPendingTOTP_def ClearPendingTOTP_def
  by (rule data_ok_update [OF assms];
      auto simp: Let_def assms elim!: put_user_data [OF assms, rotated]
        intro: getUserTx_ok [OF data_users [OF assms]] getUserTx_Some [OF data_users [OF assms]]
        split: sum.splits option.splits if_splits)+

lemma credential_ops_data:
  assumes "data_ok e d"
  shows "data_ok e (snd (AddWebAuthnCredential k cred d))" "data_ok e (snd (UpdateWebAuthnSignCount k i n d))"
proof -
  note u = getUserTx_ok [OF data_users [OF assms]] getUserTx_Some [OF data_users [OF assms]]
  have "user_ok k (v\<lparr>u_WebAuthnCredentials := u_WebAuthnCredentials v @ [cred]\<rparr>)"
    if "user_ok k v" "\<forall>c \<in> set (u_WebAuthnCredentials v). wc_IDBase64URL c \<noteq> wc_IDBase64URL cred" for v
    using that by (auto simp: user_ok_def)
  with u(1) show "data_ok e (snd (AddWebAuthnCredential k cred d))"
    unfolding AddWebAuthnCredential_def
    by (intro data_ok_update [OF assms]) (auto simp: Let_def elim!: put_user_data [OF assms, rotated] split: sum.splits if_splits)
  have "user_ok k (v\<lparr>u_WebAuthnCredentials := cs\<rparr>)" if "user_ok k v" "set_sign_count i n (u_WebAuthnCredentials v) = Some cs" for v cs
    using that set_sign_count_ids by (simp add: user_ok_def)
  with u(2) show "data_ok e (snd (UpdateWebAuthnSignCount k i n d))"
    unfolding UpdateWebAuthnSignCount_def
    by (intro data_ok_update [OF assms]) (auto elim!: put_user_data [OF assms, rotated] split: sum.splits option.splits)
qed

lemma put_ops_data:
  assumes "data_ok e d"
  shows "data_ok e (snd (PutSession k sess d))" "data_ok e (snd (EnsureSessionCSRF k y d))" "data_ok e (snd (DeleteSession k d))"
    "data_ok e (snd (PutAuthRequest ar d))" "data_ok e (snd (PutAuthCode (hash_secret e y) ac d))"
    "data_ok e (snd (PutRevokedJTI j t d))" "data_ok e (snd (DeleteRevokedJTI j d))" "data_ok e (snd (DeleteRefreshToken k d))"
    "data_ok e (snd (PutWebAuthnRegistration y (challenge_record e u y) d))" "data_ok e (snd (PutWebAuthnLogin y (challenge_record e u y) d))"
  unfolding PutSession_def EnsureSessionCSRF_def DeleteSession_def PutAuthRequest_def PutAuthCode_def PutRevokedJTI_def
    DeleteRevokedJTI_def DeleteRefreshToken_def PutWebAuthnRegistration_def PutWebAuthnLogin_def
  by (rule data_ok_update [OF assms]; use assms in \<open>auto simp: data_ok_def putJSON_Inr challenge_record_def Let_def
      split: sum.splits option.splits if_splits\<close>)+

lemma consume_ops_data:
  assumes "data_ok e d"
  shows "data_ok e (snd (ConsumeAuthRequest k d))" "data_ok e (snd (ConsumeAuthCode k d))"
    "data_ok e (snd (ConsumeWebAuthnRegistration k d))" "data_ok e (snd (ConsumeWebAuthnLogin k d))"
  unfolding ConsumeAuthRequest_def ConsumeAuthCode_def ConsumeWebAuthnRegistration_def ConsumeWebAuthnLogin_def consume_def
  by (rule data_ok_update [OF assms]; use assms in \<open>auto simp: data_ok_def split: sum.splits option.splits\<close>)+

lemma refresh_ops_data:
  assumes "data_ok e d" and "family_ok e (rt_FamilyID rt)"
  shows "data_ok e (snd (PutRefreshToken (hash_secret e y) rt d))"
    "crt_FamilyID crt = rt_FamilyID rt \<Longrightarrow> data_ok e (snd (RotateRefreshToken (hash_secret e y) (hash_secret e y') rt crt d))"
  unfolding PutRefreshToken_def RotateRefreshToken_def
  by (rule data_ok_update [OF assms(1)]; use assms in \<open>auto simp: data_ok_def putJSON_Inr Let_def split: sum.splits if_splits\<close>)+

lemma data_ok_unless: "data_ok e d \<Longrightarrow> data_ok e (snd u) \<Longrightarrow> data_ok e (snd (if R then (x, d) else u))"
  by simp

lemma guarded_ops_data:
  assumes "data_ok e d"
  shows "data_ok e (snd (RevokeRefreshTokenFamily fam d))" "data_ok e (snd (PutConsent cr d))"
    "data_ok e (snd (PutStoredClient c d))" "data_ok e (snd (PutStoredAppToken tok d))"
    "data_ok e (snd (DeleteStoredClient i d))" "data_ok e (snd (DeleteStoredAppToken i d))" "data_ok e (snd (DeleteConsentsForClient i d))"
  unfolding RevokeRefreshTokenFamily_def PutConsent_def PutStoredClient_def PutStoredAppToken_def
    DeleteStoredClient_def DeleteStoredAppToken_def DeleteConsentsForClient_def
  by ((rule data_ok_unless [OF assms])?, rule data_ok_update [OF assms];
      use assms in \<open>auto simp: data_ok_def putJSON_Inr split: option.splits\<close>)+

lemma sweep_data: "data_ok e d \<Longrightarrow> data_ok e (snd (SweepExpired t d))"
  unfolding SweepExpired_def
  by (rule data_ok_update) (auto simp: data_ok_def split: sum.splits prod.splits dest: bucket_all_sweep)

section \<open>The invariants\<close>

interpretation ordered: db_invariant e store_ok for e
  by unfold_locales (simp_all add: store_ok_intros)

interpretation typed: db_invariant e "data_ok e" for e
  by unfold_locales
    (simp_all add: user_ops_data credential_ops_data put_ops_data consume_ops_data refresh_ops_data guarded_ops_data sweep_data)

lemma operator_keys: "operator_db d' = operator_db d \<Longrightarrow> db_signingKeys d' = db_signingKeys d"
  by (simp add: operator_db_def)

lemmas keys_ops = operator_store [THEN operator_keys] operator_tokens [THEN operator_keys] operator_guarded [THEN operator_keys]
  registry_ops_keep_keys

lemma sweep_keys: "db_signingKeys (snd (SweepExpired t d)) = db_signingKeys d"
  by (auto simp: SweepExpired_def db_update_snd split: sum.splits prod.splits)

interpretation sealed: db_invariant e "\<lambda>d. db_signingKeys d = ks" for e ks
  by unfold_locales (simp_all add: keys_ops sweep_keys)

section \<open>The running server\<close>

text \<open>
  The states of the server \<open>e\<close> from the state \<open>s0\<close> on: requests, each answered from an empty
  response at a time of its own, and passes of the background sweep.
\<close>

inductive reach ::
  "mux_lib \<Rightarrow> string \<Rightarrow> string \<Rightarrow> (duration \<Rightarrow> string) \<Rightarrow> env \<Rightarrow> st \<Rightarrow> st \<times> metricsRegistry \<Rightarrow> bool"
  for M css js fmt e s0 where
  start: "reach M css js fmt e s0 (s0, [])"
| request: "reach M css js fmt e s0 (s, m) \<Longrightarrow> buildRoutes M css js fmt (e\<lparr>e_now := t\<rparr>) = Some srv \<Longrightarrow>
    srv d r (s\<lparr>w_header := Map.empty, w_cookies := []\<rparr>, m) = (resp, s', m') \<Longrightarrow> reach M css js fmt e s0 (s', m')"
| sweep: "reach M css js fmt e s0 (s, m) \<Longrightarrow> reach M css js fmt e s0 (sweepExpired t s, m)"

lemma reach_db:
  assumes "reach M css js fmt e s0 (s, m)" and "\<And>t. db_invariant (e\<lparr>e_now := t\<rparr>) P" and "P (st_db s0)"
  shows "P (st_db s)"
  using assms(1)
proof (induction "(s, m)" arbitrary: s m rule: reach.induct)
  case start
  show ?case by (rule assms(3))
next
  case (request s m t srv d r resp s' m')
  show ?case by (rule db_invariant.server_inv [OF assms(2) request(3,4)]) (use request(2) in simp)
next
  case (sweep s m t)
  show ?case by (rule db_invariant.sweepExpired_inv [OF assms(2) sweep(2)])
qed

lemma data_ok_now: "data_ok (e\<lparr>e_now := t\<rparr>) = data_ok e"
  by (rule ext) (simp add: data_ok_def hashed_def hash_secret_def family_ok_def)

lemma data_ok_empty: "data_ok e empty_Store"
  by (simp add: data_ok_def empty_Store_def)

lemma NewBroker_db:
  assumes "NewBroker G ca errtext cfg0 d now n = Inr (e, s)"
  shows "\<exists>s1. st_db s1 = d \<and> s = sweepExpired now s1"
  using assms
proof (cases rule: NewBroker_cases)
  case (1 keys tokens active jwks n1 s1 u)
  have "st_db s1 = d" using 1(11) by (auto simp: reloadStoredRegistries_def broker_state_def Let_def split: sum.splits prod.splits)
  with 1(12) show ?thesis by blast
qed

text \<open>
  C8. The data at rest keeps its type.  Whatever requests a started broker answers and whenever it
  sweeps, its database stays ordered and well-typed: each record is under its own key, no user has
  two passkeys with one id, authorization codes and refresh tokens are found under hashes only,
  every refresh token and every tombstone names a family, so that a reused token can always be
  traced to its family, and the stored signing keys are those it started with.
\<close>

theorem server_data_typed:
  assumes "NewBroker G ca errtext cfg0 d now n = Inr (e, s0)" and "store_ok d" and "data_ok e d"
    and "reach M css js fmt e s0 (s, m)" and "\<And>i. g_entropy (e_lib e) i 16 \<noteq> []"
  shows "store_ok (st_db s) \<and> data_ok e (st_db s) \<and> db_signingKeys (st_db s) = db_signingKeys d \<and>
    (\<forall>k rt. refresh_at (st_db s) k = Some (Json rt) \<longrightarrow> (\<exists>x. k = hash_secret e x) \<and> rt_FamilyID rt \<noteq> []) \<and>
    (\<forall>k crt. tomb_at (st_db s) k = Some (Json crt) \<longrightarrow> (\<exists>x. k = hash_secret e x) \<and> crt_FamilyID crt \<noteq> [])"
proof -
  obtain s1 where s1: "st_db s1 = d" "s0 = sweepExpired now s1" using NewBroker_db [OF assms(1)] by blast
  have "store_ok (st_db s)"
    by (rule reach_db [OF assms(4) ordered.db_invariant_axioms]) (use s1 assms(2) ordered.sweepExpired_inv in simp)
  moreover have data: "data_ok e (st_db s)"
    by (rule reach_db [OF assms(4)]) (use typed.db_invariant_axioms [of "e\<lparr>e_now := _\<rparr>"] s1 assms(3) typed.sweepExpired_inv in \<open>simp_all add: data_ok_now\<close>)
  moreover have "db_signingKeys (st_db s) = db_signingKeys d"
    by (rule reach_db [OF assms(4) sealed.db_invariant_axioms]) (use s1 sealed.sweepExpired_inv in simp)
  moreover have "hashed e k \<and> rt_FamilyID rt \<noteq> []" if "refresh_at (st_db s) k = Some (Json rt)" for k rt
    using bucket_all_bget [OF _ that] data assms(5) by (auto simp: data_ok_def family_ok_def)
  moreover have "hashed e k \<and> crt_FamilyID crt \<noteq> []" if "tomb_at (st_db s) k = Some (Json crt)" for k crt
    using bucket_all_bget [OF _ that] data assms(5) by (auto simp: data_ok_def family_ok_def)
  ultimately show ?thesis by (simp add: hashed_def)
qed

theorem server_data_typed_witness:
  "\<exists>e s0. NewBroker demo_lib ''ca'' (\<lambda>_. []) demo_start empty_Store 0 0 = Inr (e, s0) \<and>
     reach demo_mux [] [] (\<lambda>_. []) e s0 (sweepExpired 5 s0, []) \<and> data_ok e (st_db (sweepExpired 5 s0))"
proof -
  obtain e s0 where b: "NewBroker demo_lib ''ca'' (\<lambda>_. []) demo_start empty_Store 0 0 = Inr (e, s0)" using demo_broker by blast
  then have lib: "e_lib e = demo_lib" by (cases rule: NewBroker_cases) simp
  have r: "reach demo_mux [] [] (\<lambda>_. []) e s0 (sweepExpired 5 s0, [])" by (rule reach.sweep [OF reach.start])
  show ?thesis
    using server_data_typed [OF b store_ok_empty data_ok_empty r] b r lib by auto
qed

end
