(* ===== verification/Ldap.thy ===== *)
theory Ldap
  imports Login Config
begin

text \<open>
  The directory client (\<^verbatim>\<open>ldap.go\<close>, with \<^verbatim>\<open>loadRootCAs\<close> of \<^verbatim>\<open>util.go\<close>): how a user name becomes a bind name and a search filter, what a connection is
  opened with, and which profile a successful bind gives.  The network, the directory server and
  \<^verbatim>\<open>ldap.EscapeFilter\<close> are the record \<open>directory\<close>.  The handlers see the client
  through the interface \<^verbatim>\<open>Authenticator\<close>, the locale \<open>authenticator\<close> here, interpreted on
  the model of \<^verbatim>\<open>LDAPAuthenticator\<close>.
\<close>

section \<open>The directory\<close>

record ldap_entry =
  en_DN :: string
  en_Attributes :: "(string \<times> string list) list"

record SearchRequest =
  sr_BaseDN :: string
  sr_SizeLimit :: int
  sr_TimeLimit :: int
  sr_Filter :: string
  sr_Attributes :: "string list"

type_synonym cert_pool = "byte list list"

record tls_Config =
  tls_ServerName :: string
  tls_InsecureSkipVerify :: bool
  tls_RootCAs :: "cert_pool option"

text \<open>A connection is what it was opened with; \<open>cn_StartTLS\<close> holds once \<^verbatim>\<open>StartTLS\<close> has succeeded.\<close>

record ldap_Conn =
  cn_URL :: string
  cn_TLS :: tls_Config
  cn_Timeout :: time
  cn_StartTLS :: bool

record directory =
  d_ctxErr :: bool
  d_ctxErrAfter :: bool
  d_ReadFile :: "string \<Rightarrow> byte list option"
  d_SystemCertPool :: "cert_pool option"
  d_AppendCerts :: "cert_pool \<Rightarrow> byte list \<Rightarrow> cert_pool option"
  d_Dial :: "ldap_Conn \<Rightarrow> bool"
  d_StartTLS :: "ldap_Conn \<Rightarrow> bool"
  d_Bind :: "ldap_Conn \<Rightarrow> string \<Rightarrow> string \<Rightarrow> bool"
  d_Search :: "ldap_Conn \<Rightarrow> string \<Rightarrow> SearchRequest \<Rightarrow> ldap_entry list option"
  d_EscapeFilter :: "string \<Rightarrow> string"
  d_Sprintf :: "string \<Rightarrow> string \<Rightarrow> string"

text \<open>
  \<open>d_ctxErr\<close> and \<open>d_ctxErrAfter\<close> tell whether the request was cancelled before the dial and
  after it.  \<open>d_Search\<close> takes the name the connection is bound under.  \<open>d_Sprintf\<close> is
  \<^verbatim>\<open>fmt.Sprintf\<close> with one string argument.
\<close>

datatype ldap_error =
    InvalidCredentials | NoURL | Cancelled | BadURL | StartTLSOverLDAPS | CACert string | DialFailed
  | StartTLSFailed | BindFailed | SearchHalfConfigured | ProfileSearchFailed | ProfileEntries nat
  | NoUserDN | NestedSearchFailed

section \<open>Root certificates\<close>

definition loadRootCAs :: "directory \<Rightarrow> string \<Rightarrow> string + cert_pool option" where
  "loadRootCAs D path0 =
     (let path = TrimSpace path0 in
      if path = [] then Inr None
      else case d_ReadFile D path of
          None \<Rightarrow> Inl ''read ca cert''
        | Some pem \<Rightarrow>
            (case d_AppendCerts D (case d_SystemCertPool D of None \<Rightarrow> [] | Some pool \<Rightarrow> pool) pem of
               None \<Rightarrow> Inl ''no PEM certificates parsed''
             | Some pool \<Rightarrow> Inr (Some pool)))"

section \<open>Names and filters\<close>

definition fallbackProfile :: "LDAPConfig \<Rightarrow> string \<Rightarrow> UserProfile" where
  "fallbackProfile cfg username =
     \<lparr>p_Subject = username,
      p_Email = (if Contains username ''@'' then username
                 else if ld_DomainSuffix cfg \<noteq> [] \<and> HasPrefix (ld_DomainSuffix cfg) ''@'' then username @ ld_DomainSuffix cfg
                 else []),
      p_Name = username, p_Groups = []\<rparr>"

definition profileSearchEnabled :: "LDAPConfig \<Rightarrow> ldap_error + bool" where
  "profileSearchEnabled cfg =
     (let baseDN = TrimSpace (ld_BaseDN cfg); filt = TrimSpace (ld_UserFilter cfg) in
      if baseDN = [] \<and> filt = [] then Inr False
      else if baseDN = [] \<or> filt = [] then Inl SearchHalfConfigured
      else Inr True)"

definition loginName :: "LDAPConfig \<Rightarrow> string \<Rightarrow> string" where
  "loginName cfg username =
     (if ld_DomainSuffix cfg \<noteq> [] \<and> \<not> Contains username ''@'' \<and> \<not> Contains username [CHR 0x5C]
      then username @ ld_DomainSuffix cfg else username)"

definition dn_escapes :: "(char \<times> string) list" where
  "dn_escapes =
     [(CHR 0x5C, ''5c''), (CHR '','', ''2c''), (CHR ''+'', ''2b''), (CHR 0x22, ''22''), (CHR ''<'', ''3c''),
      (CHR ''>'', ''3e''), (CHR '';'', ''3b''), (CHR ''='', ''3d''), (CHR ''#'', ''23'')]"

definition escapeLDAPDN :: "string \<Rightarrow> string" where
  "escapeLDAPDN s = Replace (map (\<lambda>(c, hex). ([c], CHR 0x5C # hex)) dn_escapes) s"

definition bindName :: "directory \<Rightarrow> LDAPConfig \<Rightarrow> string \<Rightarrow> string" where
  "bindName D cfg username =
     (let template = ld_UserDNTemplate cfg; escaped = escapeLDAPDN username in
      if template \<noteq> [] then
        if Contains template ''{username}'' then Replace [(''{username}'', escaped)] template
        else if Contains template ''%s'' then d_Sprintf D template escaped
        else template
      else loginName cfg username)"

definition userFilter :: "directory \<Rightarrow> LDAPConfig \<Rightarrow> string \<Rightarrow> string \<Rightarrow> string" where
  "userFilter D cfg username bind =
     (let login = loginName cfg username in
      Replace [(''{username}'', d_EscapeFilter D username), (''{login}'', d_EscapeFilter D login),
               (''{bind}'', d_EscapeFilter D bind), (''%s'', d_EscapeFilter D login)] (ld_UserFilter cfg))"

definition filter_parts :: "string list \<Rightarrow> string list" where
  "filter_parts filters =
     map (\<lambda>f. if HasPrefix f ''('' then f else ''('' @ f @ '')'') (filter (\<lambda>f. f \<noteq> []) (map TrimSpace filters))"

definition ldapAndFilter :: "string list \<Rightarrow> string" where
  "ldapAndFilter filters =
     (case filter_parts filters of
        [] \<Rightarrow> ''(objectClass=*)''
      | [p] \<Rightarrow> p
      | ps \<Rightarrow> ''(&'' @ concat ps @ '')'')"

definition nestedADGroupFilter :: "directory \<Rightarrow> LDAPConfig \<Rightarrow> string \<Rightarrow> string" where
  "nestedADGroupFilter D cfg userDN =
     (let configured = TrimSpace (ld_GroupSearchFilter cfg);
          groupFilter = (if configured = [] then ''(objectClass=group)'' else configured);
          memberFilter = ''(member:1.2.840.113556.1.4.1941:='' @ d_EscapeFilter D userDN @ '')''
      in ldapAndFilter [groupFilter, memberFilter])"

section \<open>Attributes and groups\<close>

definition ldapAttribute :: "string \<Rightarrow> string \<Rightarrow> string" where
  "ldapAttribute configured fallback =
     (let v = TrimSpace configured in if v \<noteq> [] then v else fallback)"

definition ldapEntryAttributeValues :: "golib \<Rightarrow> ldap_entry option \<Rightarrow> string \<Rightarrow> string list" where
  "ldapEntryAttributeValues G entry attribute =
     (case entry of
        None \<Rightarrow> []
      | Some en \<Rightarrow> concat (map snd (filter (\<lambda>(name, _). EqualFold G name attribute) (en_Attributes en))))"

definition ldapEntryAttributeValue :: "golib \<Rightarrow> ldap_entry option \<Rightarrow> string \<Rightarrow> string" where
  "ldapEntryAttributeValue G entry attribute =
     (case ldapEntryAttributeValues G entry attribute of [] \<Rightarrow> [] | v # _ \<Rightarrow> v)"

text \<open>The loop that \<^verbatim>\<open>ldapGroupIdentifiers\<close> and \<^verbatim>\<open>mergeStrings\<close> share: \<open>seen\<close> has the lowercased values.\<close>

fun fold_loop :: "golib \<Rightarrow> string set \<Rightarrow> string list \<Rightarrow> string list" where
  "fold_loop G seen [] = []"
| "fold_loop G seen (v # vs) =
     (let value = TrimSpace v; key = to_lower G value in
      if value = [] \<or> key \<in> seen then fold_loop G seen vs
      else value # fold_loop G (insert key seen) vs)"

definition ldapGroupIdentifiers :: "golib \<Rightarrow> string list \<Rightarrow> string list" where
  "ldapGroupIdentifiers G values = sort (fold_loop G {} values)"

definition mergeStrings :: "golib \<Rightarrow> string list list \<Rightarrow> string list" where
  "mergeStrings G values = sort (fold_loop G {} (concat values))"

section \<open>Searching\<close>

definition searchNestedADGroups ::
  "golib \<Rightarrow> directory \<Rightarrow> LDAPConfig \<Rightarrow> ldap_Conn \<Rightarrow> string \<Rightarrow> string \<Rightarrow> ldap_error + string list" where
  "searchNestedADGroups G D cfg conn bound userDN0 =
     (let userDN = TrimSpace userDN0 in
      if userDN = [] then Inl NoUserDN
      else
        let configured = TrimSpace (ld_GroupSearchBaseDN cfg);
            nameAttr = ldapAttribute (ld_GroupNameAttribute cfg) ''cn''
        in case d_Search D conn bound
             \<lparr>sr_BaseDN = (if configured = [] then ld_BaseDN cfg else configured), sr_SizeLimit = 0,
              sr_TimeLimit = ld_TimeoutSeconds cfg, sr_Filter = nestedADGroupFilter D cfg userDN,
              sr_Attributes = uniqueNonEmpty [nameAttr]\<rparr> of
            None \<Rightarrow> Inl NestedSearchFailed
          | Some found \<Rightarrow>
              Inr (ldapGroupIdentifiers G (concat (map (\<lambda>en.
                filter (\<lambda>g. g \<noteq> []) [TrimSpace (en_DN en), TrimSpace (ldapEntryAttributeValue G (Some en) nameAttr)]) found))))"

definition searchProfile ::
  "golib \<Rightarrow> directory \<Rightarrow> LDAPConfig \<Rightarrow> ldap_Conn \<Rightarrow> string \<Rightarrow> string \<Rightarrow> UserProfile \<Rightarrow> ldap_error + UserProfile" where
  "searchProfile G D cfg conn username bind profile =
     (let emailAttr = ldapAttribute (ld_EmailAttribute cfg) ''mail'';
          nameAttr = ldapAttribute (ld_NameAttribute cfg) ''cn'';
          groupsAttr = TrimSpace (ld_GroupsAttribute cfg)
      in case d_Search D conn bind
           \<lparr>sr_BaseDN = ld_BaseDN cfg, sr_SizeLimit = 2, sr_TimeLimit = ld_TimeoutSeconds cfg,
            sr_Filter = userFilter D cfg username bind, sr_Attributes = uniqueNonEmpty [emailAttr, nameAttr, groupsAttr]\<rparr> of
          None \<Rightarrow> Inl ProfileSearchFailed
        | Some [entry] \<Rightarrow>
            let email = TrimSpace (ldapEntryAttributeValue G (Some entry) emailAttr);
                name = TrimSpace (ldapEntryAttributeValue G (Some entry) nameAttr);
                p1 = (if email \<noteq> [] then profile\<lparr>p_Email := email\<rparr> else profile);
                p2 = (if name \<noteq> [] then p1\<lparr>p_Name := name\<rparr> else p1);
                p3 = (if groupsAttr \<noteq> []
                      then p2\<lparr>p_Groups := ldapGroupIdentifiers G (ldapEntryAttributeValues G (Some entry) groupsAttr)\<rparr> else p2)
            in if \<not> ld_NestedGroups cfg then Inr p3
               else (case searchNestedADGroups G D cfg conn bind (en_DN entry) of
                   Inl err \<Rightarrow> Inl err
                 | Inr nestedGroups \<Rightarrow> Inr (p3\<lparr>p_Groups := mergeStrings G [p_Groups p3, nestedGroups]\<rparr>))
        | Some found \<Rightarrow> Inl (ProfileEntries (length found)))"

section \<open>Connecting and authenticating\<close>

definition dialLDAP :: "golib \<Rightarrow> directory \<Rightarrow> LDAPConfig \<Rightarrow> ldap_error + ldap_Conn" where
  "dialLDAP G D cfg =
     (if d_ctxErr D then Inl Cancelled
      else case g_url_Parse G (ld_URL cfg) of
          None \<Rightarrow> Inl BadURL
        | Some u \<Rightarrow>
            if ld_StartTLS cfg \<and> EqualFold G (url_Scheme u) ''ldaps'' then Inl StartTLSOverLDAPS
            else
              let t = dur (ld_TimeoutSeconds cfg) Second; timeout = (if t = 0 then 5 * Second else t) in
              case loadRootCAs D (ld_CACertPath cfg) of
                Inl err \<Rightarrow> Inl (CACert err)
              | Inr rootCAs \<Rightarrow>
                  let conn = \<lparr>cn_URL = ld_URL cfg,
                       cn_TLS = \<lparr>tls_ServerName = url_Hostname u, tls_InsecureSkipVerify = ld_InsecureSkipVerify cfg,
                         tls_RootCAs = rootCAs\<rparr>,
                       cn_Timeout = timeout, cn_StartTLS = False\<rparr>
                  in if \<not> d_Dial D conn then Inl DialFailed
                     else if ld_StartTLS cfg \<and> \<not> d_StartTLS D conn then Inl StartTLSFailed
                     else if d_ctxErrAfter D then Inl Cancelled
                     else Inr (conn\<lparr>cn_StartTLS := ld_StartTLS cfg\<rparr>))"

definition Authenticate :: "golib \<Rightarrow> directory \<Rightarrow> LDAPConfig \<Rightarrow> string \<Rightarrow> string \<Rightarrow> ldap_error + UserProfile" where
  "Authenticate G D cfg username0 password =
     (let username = TrimSpace username0 in
      if username = [] \<or> password = [] then Inl InvalidCredentials
      else if ld_URL cfg = [] then Inl NoURL
      else
        let bind = bindName D cfg username in
        case dialLDAP G D cfg of
          Inl err \<Rightarrow> Inl err
        | Inr conn \<Rightarrow>
            if \<not> d_Bind D conn bind password then Inl BindFailed
            else
              let profile = fallbackProfile cfg username in
              case profileSearchEnabled cfg of
                Inl err \<Rightarrow> Inl err
              | Inr False \<Rightarrow> Inr profile
              | Inr True \<Rightarrow> searchProfile G D cfg conn username bind profile)"

text \<open>What the handlers see of the result: a profile or an error.\<close>

definition ldap_authn :: "golib \<Rightarrow> directory \<Rightarrow> LDAPConfig \<Rightarrow> string \<Rightarrow> string \<Rightarrow> UserProfile option" where
  "ldap_authn G D cfg username password =
     (case Authenticate G D cfg username password of Inl _ \<Rightarrow> None | Inr profile \<Rightarrow> Some profile)"

section \<open>Names and filters cannot be injected into\<close>

lemma HasPrefix_split: "HasPrefix s old \<Longrightarrow> s = old @ drop (length old) s"
  by (metis HasPrefix_def append_take_drop_id)

text \<open>A replacement keeps the characters that occur neither in what it replaces nor in what it inserts.\<close>

lemma Replace_keeps:
  "(\<And>old new c. (old, new) \<in> set ps \<Longrightarrow> c \<in> set old \<union> set new \<Longrightarrow> \<not> P c) \<Longrightarrow> filter P (Replace ps s) = filter P s"
proof (induction ps s rule: Replace.induct)
  case (2 ps c s)
  let ?f = "List.find (\<lambda>(old, _). old \<noteq> [] \<and> HasPrefix (c # s) old) ps"
  show ?case
  proof (cases ?f)
    case None
    then show ?thesis using "2.IH"(1) [OF None] "2.prems" by simp
  next
    case (Some on)
    obtain old new where on: "on = (old, new)" by fastforce
    with Some have m: "(old, new) \<in> set ps" "HasPrefix (c # s) old" by (auto simp: find_Some_iff in_set_conv_nth)
    have k: "filter P old = []" "filter P new = []" "c # s = old @ drop (length old) (c # s)"
      using "2.prems" [OF m(1)] HasPrefix_split [OF m(2)] by (auto simp: filter_empty_conv)
    have "filter P (c # s) = filter P (drop (length old) (c # s))"
      by (subst k(3)) (simp add: k(1))
    then show ?thesis using "2.IH"(2) [OF Some on [symmetric]] "2.prems" Some on k(2) by simp
  qed
qed simp

definition dn_special :: "char set" where
  "dn_special = {CHR '','', CHR ''+'', CHR 0x22, CHR ''<'', CHR ''>'', CHR '';'', CHR ''='', CHR ''#''}"

definition escape_char :: "char \<Rightarrow> string" where
  "escape_char c = (case map_of dn_escapes c of None \<Rightarrow> [c] | Some hex \<Rightarrow> CHR 0x5C # hex)"

lemma escape_Cons: "escapeLDAPDN (c # s) = escape_char c @ escapeLDAPDN s"
  by (simp add: escapeLDAPDN_def escape_char_def dn_escapes_def HasPrefix_def)

lemma escapeLDAPDN_eq: "escapeLDAPDN s = concat (map escape_char s)"
  by (induction s) (simp_all add: escape_Cons, simp add: escapeLDAPDN_def)

text \<open>The reader of such a value: a backslash takes the two hexadecimal digits after it.\<close>

definition hex_nibble :: "char \<Rightarrow> nat" where
  "hex_nibble c = (if code c < 58 then code c - 48 else code c - 87)"

fun dn_unescape :: "string \<Rightarrow> string" where
  "dn_unescape [] = []"
| "dn_unescape (c # s) =
     (if c = CHR 0x5C then
        (case s of a # b # t \<Rightarrow> char_of (16 * hex_nibble a + hex_nibble b) # dn_unescape t | _ \<Rightarrow> [])
      else c # dn_unescape s)"

lemma escape_char_special: "set (escape_char c) \<inter> dn_special = {}"
proof (cases "map_of dn_escapes c")
  case None
  moreover have "dn_special \<subseteq> fst ` set dn_escapes" by (simp add: dn_special_def dn_escapes_def)
  ultimately have "c \<notin> dn_special" by (auto simp: map_of_eq_None_iff)
  with None show ?thesis by (simp add: escape_char_def)
next
  case (Some hex)
  have "\<forall>(c, h) \<in> set dn_escapes. set (CHR 0x5C # h) \<inter> dn_special = {}" by (simp add: dn_special_def dn_escapes_def)
  with Some show ?thesis by (auto simp: escape_char_def dest!: map_of_SomeD)
qed

lemma unescape_char: "dn_unescape (escape_char c @ s) = c # dn_unescape s"
proof (cases "map_of dn_escapes c")
  case None
  then have "c \<noteq> CHR 0x5C" by (auto simp: dn_escapes_def)
  with None show ?thesis by (simp add: escape_char_def)
next
  case (Some hex)
  have "\<forall>(c, h) \<in> set dn_escapes. length h = 2 \<and> char_of (16 * hex_nibble (h ! 0) + hex_nibble (h ! 1)) = c"
    by (simp add: dn_escapes_def hex_val_def) (intro conjI; code_simp)
  with Some have "length hex = 2" "char_of (16 * hex_nibble (hex ! 0) + hex_nibble (hex ! 1)) = c" by (auto dest!: map_of_SomeD)
  with Some show ?thesis by (auto simp: escape_char_def numeral_2_eq_2 length_Suc_conv)
qed

lemma unescape_escape: "dn_unescape (escapeLDAPDN s) = s"
  by (induction s) (simp_all add: escapeLDAPDN_eq unescape_char)

lemma filter_none: "set xs \<inter> A = {} \<Longrightarrow> filter (\<lambda>c. c \<in> A) xs = []"
  by (auto simp: filter_empty_conv)

text \<open>
  A user name cannot change the name the broker binds under beyond the place the template gives
  it: with a \<^verbatim>\<open>{username}\<close> template the separators of the distinguished name are those of the
  template, in its order, whatever the user typed, and the escaped value decodes to the user
  name, so two users never bind with the same value.
\<close>

theorem bind_name_injection_free:
  assumes "Contains (ld_UserDNTemplate cfg) ''{username}''"
  shows "filter (\<lambda>c. c \<in> dn_special) (bindName D cfg u) = filter (\<lambda>c. c \<in> dn_special) (ld_UserDNTemplate cfg) \<and>
         bindName D cfg u = Replace [(''{username}'', escapeLDAPDN u)] (ld_UserDNTemplate cfg) \<and>
         dn_unescape (escapeLDAPDN u) = u"
proof -
  have b: "bindName D cfg u = Replace [(''{username}'', escapeLDAPDN u)] (ld_UserDNTemplate cfg)"
    using assms by (auto simp: bindName_def Let_def)
  have "set (escapeLDAPDN u) \<inter> dn_special = {}" using escape_char_special by (auto simp: escapeLDAPDN_eq)
  then have "filter (\<lambda>c. c \<in> dn_special) (bindName D cfg u) = filter (\<lambda>c. c \<in> dn_special) (ld_UserDNTemplate cfg)"
    unfolding b by (intro Replace_keeps) (auto simp: dn_special_def)
  with b show ?thesis by (simp add: unescape_escape)
qed

text \<open>The characters that give a search filter its structure.\<close>

definition filter_special :: "char set" where
  "filter_special = {CHR ''('', CHR '')'', CHR ''*''}"

definition skeleton :: "string \<Rightarrow> string" where
  "skeleton s = filter (\<lambda>c. c \<in> filter_special) s"

lemma TrimSpace_bounded:
  assumes "33 \<le> code a" "code a \<le> 126" "33 \<le> code z" "code z \<le> 126"
  shows "TrimSpace (a # s @ [z]) = a # s @ [z]"
proof -
  have "trim_left (a # s @ [z]) = a # s @ [z]" using space_width_plain [OF assms(1,2)] by (subst trim_left.simps) simp
  moreover have "space_width_rev (z # rev s @ [a]) = 0"
    using assms(3,4) by (auto simp: space_width_rev.simps is_ascii_space_def is_space2_def is_space3_def split: list.splits)
  then have "trim_left_rev (z # rev s @ [a]) = z # rev s @ [a]" by (subst trim_left_rev.simps) simp
  ultimately show ?thesis by (simp add: TrimSpace_def)
qed

lemma nested_filter_eq:
  "nestedADGroupFilter D cfg dn =
     (let f = TrimSpace (ld_GroupSearchFilter cfg); g = (if f = [] then ''(objectClass=group)'' else f);
          p = (if HasPrefix g ''('' then g else ''('' @ g @ '')'')
      in ''(&'' @ p @ ''(member:1.2.840.113556.1.4.1941:='' @ d_EscapeFilter D dn @ '')'' @ '')'')"
proof -
  have "TrimSpace (''(member:1.2.840.113556.1.4.1941:='' @ d_EscapeFilter D dn @ '')'') =
      ''(member:1.2.840.113556.1.4.1941:='' @ d_EscapeFilter D dn @ '')''"
    using TrimSpace_bounded [of "CHR ''(''" "CHR '')''" "''member:1.2.840.113556.1.4.1941:='' @ d_EscapeFilter D dn"] by simp
  moreover have "TrimSpace ''(objectClass=group)'' = ''(objectClass=group)''" by (rule TrimSpace_plain) simp_all
  ultimately show ?thesis
    by (simp add: nestedADGroupFilter_def ldapAndFilter_def filter_parts_def Let_def HasPrefix_def)
qed

text \<open>
  Nothing that a user types or the directory returns changes the structure of a search: when
  \<^verbatim>\<open>ldap.EscapeFilter\<close> leaves no parenthesis and no star, which it documents, the parentheses
  and stars of the user search are those of the configured filter, and those of the nested group
  search do not depend on the user's distinguished name.
\<close>

theorem search_filter_injection_free:
  assumes "\<forall>s. set (d_EscapeFilter D s) \<inter> filter_special = {}"
  shows "skeleton (userFilter D cfg u bind) = skeleton (ld_UserFilter cfg) \<and>
         skeleton (nestedADGroupFilter D cfg dn) = skeleton (nestedADGroupFilter D cfg dn')"
proof
  show "skeleton (userFilter D cfg u bind) = skeleton (ld_UserFilter cfg)"
    unfolding userFilter_def Let_def skeleton_def
    by (rule Replace_keeps) (use assms in \<open>auto simp: filter_special_def\<close>)
  show "skeleton (nestedADGroupFilter D cfg dn) = skeleton (nestedADGroupFilter D cfg dn')"
    using assms by (simp add: nested_filter_eq Let_def skeleton_def filter_none)
qed

section \<open>The profile a bind gives\<close>

lemma fold_loop_keys:
  "distinct (map (to_lower G) (fold_loop G seen vs)) \<and> to_lower G ` set (fold_loop G seen vs) \<inter> seen = {} \<and>
   (\<forall>v \<in> set (fold_loop G seen vs). v \<noteq> [] \<and> v \<in> TrimSpace ` set vs)"
proof (induction vs arbitrary: seen)
  case (Cons v vs)
  show ?case
    using Cons.IH [of seen] Cons.IH [of "insert (to_lower G (TrimSpace v)) seen"] by (auto simp: Let_def)
qed simp

text \<open>Sorted, and no two alike up to case, none blank.\<close>

definition groups_ok :: "golib \<Rightarrow> string list \<Rightarrow> bool" where
  "groups_ok G gs = (sorted gs \<and> distinct (map (to_lower G) gs) \<and> [] \<notin> set gs)"

lemma groups_ok_sort: "groups_ok G (sort (fold_loop G {} vs))"
  using fold_loop_keys [of G "{}" vs] by (auto simp: groups_ok_def distinct_map)

lemma searchProfile_Inr:
  assumes "searchProfile G D cfg conn u bind p = Inr p'" and "groups_ok G (p_Groups p)"
  shows "p_Subject p' = p_Subject p \<and> groups_ok G (p_Groups p') \<and> (\<exists>req entry. d_Search D conn bind req = Some [entry])"
proof -
  note h = assms(1) [unfolded searchProfile_def Let_def]
  from h obtain req entry where e: "d_Search D conn bind req = Some [entry]"
    by (auto split: option.splits list.splits)
  show ?thesis
    using h assms(2) groups_ok_sort
    by (intro conjI exI [of _ req] exI [of _ entry] e)
      (simp_all add: ldapGroupIdentifiers_def mergeStrings_def split: option.splits list.splits sum.splits if_splits, auto)
qed

lemma Authenticate_cases:
  assumes "Authenticate G D cfg u pw = Inr p"
  obtains conn where "TrimSpace u \<noteq> []" "pw \<noteq> []" "dialLDAP G D cfg = Inr conn"
    "d_Bind D conn (bindName D cfg (TrimSpace u)) pw"
    "profileSearchEnabled cfg = Inr False \<and> p = fallbackProfile cfg (TrimSpace u) \<or>
     profileSearchEnabled cfg = Inr True \<and>
     searchProfile G D cfg conn (TrimSpace u) (bindName D cfg (TrimSpace u)) (fallbackProfile cfg (TrimSpace u)) = Inr p"
  using assms by (auto simp: Authenticate_def Let_def split: if_splits sum.splits bool.splits)

lemma Authenticate_profile:
  assumes "Authenticate G D cfg u pw = Inr p"
  shows "p_Subject p = TrimSpace u \<and> groups_ok G (p_Groups p)"
proof -
  have g: "groups_ok G (p_Groups (fallbackProfile cfg (TrimSpace u)))" by (simp add: fallbackProfile_def groups_ok_def)
  have f: "p_Subject (fallbackProfile cfg (TrimSpace u)) = TrimSpace u" by (simp add: fallbackProfile_def)
  from assms show ?thesis
  proof (cases rule: Authenticate_cases)
    case (1 conn)
    from 1(5) g f show ?thesis by (elim disjE conjE) (simp, metis searchProfile_Inr)
  qed
qed

text \<open>
  The directory client gives a profile only to who binds: the user name is not blank and the
  password not empty (an empty one would be an anonymous bind), and the server accepted the bind
  name of the user with that password.  The subject is the trimmed user name itself, whatever
  the directory returned; when a search is configured it found exactly one entry; and the
  groups are sorted, without blanks, and no two are equal up to case.
\<close>

theorem ldap_profile_sound:
  assumes "Authenticate G D cfg u pw = Inr p"
  shows "TrimSpace u \<noteq> [] \<and> pw \<noteq> [] \<and> p_Subject p = TrimSpace u \<and>
    sorted (p_Groups p) \<and> distinct (map (to_lower G) (p_Groups p)) \<and> [] \<notin> set (p_Groups p) \<and>
    (\<exists>conn. dialLDAP G D cfg = Inr conn \<and> d_Bind D conn (bindName D cfg (TrimSpace u)) pw \<and>
       (profileSearchEnabled cfg = Inr True \<longrightarrow>
          (\<exists>req entry. d_Search D conn (bindName D cfg (TrimSpace u)) req = Some [entry])))"
  using assms
proof (cases rule: Authenticate_cases)
  case (1 conn)
  have "groups_ok G (p_Groups (fallbackProfile cfg (TrimSpace u)))" by (simp add: fallbackProfile_def groups_ok_def)
  then have "profileSearchEnabled cfg = Inr True \<longrightarrow>
      (\<exists>req entry. d_Search D conn (bindName D cfg (TrimSpace u)) req = Some [entry])"
    using 1(5) searchProfile_Inr by fastforce
  with 1(1-4) Authenticate_profile [OF assms] show ?thesis by (auto simp: groups_ok_def)
qed

section \<open>The password travels only over TLS\<close>

definition secure_conn :: "golib \<Rightarrow> ldap_Conn \<Rightarrow> bool" where
  "secure_conn G c =
     (\<not> tls_InsecureSkipVerify (cn_TLS c) \<and>
      (cn_StartTLS c \<or> (case g_url_Parse G (cn_URL c) of None \<Rightarrow> False | Some u \<Rightarrow> url_Scheme u = ''ldaps'')))"

lemma production_conn_secure:
  assumes "validateProductionLDAP G cfg = None" and "TrimSpace (ld_URL cfg) = ld_URL cfg" and "dialLDAP G D cfg = Inr conn"
  shows "secure_conn G conn"
  using assms
  by (auto simp: validateProductionLDAP_def dialLDAP_def secure_conn_def Let_def split: option.splits if_splits sum.splits)

text \<open>
  In production a password reaches the directory over verified TLS only: replace what the
  server does with binds and searches on every other connection by anything, and the client
  behaves the same for every user name and password.
\<close>

theorem production_ldap_secure:
  assumes "validateProductionLDAP G cfg = None" and "TrimSpace (ld_URL cfg) = ld_URL cfg"
    and "\<forall>c. secure_conn G c \<longrightarrow> bind c = d_Bind D c \<and> search c = d_Search D c"
  shows "Authenticate G (D\<lparr>d_Bind := bind, d_Search := search\<rparr>) cfg u pw = Authenticate G D cfg u pw"
proof -
  let ?D = "D\<lparr>d_Bind := bind, d_Search := search\<rparr>"
  have ca: "loadRootCAs ?D path = loadRootCAs D path" for path
    by (simp add: loadRootCAs_def Let_def split: option.split)
  have same: "dialLDAP G ?D cfg = dialLDAP G D cfg" "bindName ?D = bindName D" "userFilter ?D = userFilter D"
    "nestedADGroupFilter ?D = nestedADGroupFilter D"
    by (simp_all add: dialLDAP_def ca bindName_def userFilter_def nestedADGroupFilter_def fun_eq_iff Let_def
        split: option.split sum.split)
  show ?thesis
  proof (cases "dialLDAP G D cfg")
    case (Inl err)
    with same show ?thesis by (simp add: Authenticate_def Let_def)
  next
    case (Inr conn)
    from production_conn_secure [OF assms(1,2) Inr] assms(3) have c: "bind conn = d_Bind D conn" "search conn = d_Search D conn"
      by simp_all
    have sel: "d_Search ?D conn = d_Search D conn" using c(2) by simp
    then have "searchProfile G ?D cfg conn = searchProfile G D cfg conn"
      by (intro ext) (unfold searchProfile_def searchNestedADGroups_def same sel, rule refl)
    with Inr same c show ?thesis by (simp add: Authenticate_def Let_def split: sum.split bool.split)
  qed
qed

section \<open>The interface Authenticator\<close>

text \<open>
  What the login handlers rely on of \<^verbatim>\<open>Authenticator\<close>: no profile without a name and a
  password, and a profile is about the name that was given.
\<close>

locale authenticator =
  fixes authn :: "string \<Rightarrow> string \<Rightarrow> UserProfile option"
  assumes blank: "TrimSpace u = [] \<or> pw = [] \<Longrightarrow> authn u pw = None"
    and subject: "authn u pw = Some p \<Longrightarrow> p_Subject p = TrimSpace u"
begin

lemma login_blank:
  assumes "g_Authenticate (e_lib e) = authn" and "handleLoginPost e r s = (resp, s')"
    and "form_get r maxLoginBodyBytes ''password'' = []"
  shows "db_sessions (st_db s') = db_sessions (st_db s)"
  using login_post_authn [OF assms(2)] assms(1,3) blank by fastforce

lemma login_subject:
  assumes "g_Authenticate (e_lib e) = authn" and "handleLoginPost e r s = (resp, s')"
    and "db_sessions (st_db s') \<noteq> db_sessions (st_db s)"
  obtains profile user d d' where "UpsertProfile profile d = (Inr user, d')" "db_users d = db_users (st_db s)"
    "p_Subject profile = TrimSpace (to_lower (e_lib e) (TrimSpace (form_get r maxLoginBodyBytes ''username'')))"
proof -
  from login_post_authn [OF assms(2,3)] obtain profile user d d' where
    a: "g_Authenticate (e_lib e) (to_lower (e_lib e) (TrimSpace (form_get r maxLoginBodyBytes ''username'')))
       (form_get r maxLoginBodyBytes ''password'') = Some profile"
    and u: "UpsertProfile profile d = (Inr user, d')" "db_users d = db_users (st_db s)" by blast
  from a show thesis by (intro that [OF u] subject) (simp add: assms(1))
qed

end

interpretation ldap: authenticator "ldap_authn G D cfg"
proof
  show "ldap_authn G D cfg u pw = None" if "TrimSpace u = [] \<or> pw = []" for u pw
    using that by (auto simp: ldap_authn_def Authenticate_def)
  show "p_Subject p = TrimSpace u" if "ldap_authn G D cfg u pw = Some p" for u pw p
    using that by (auto simp: ldap_authn_def split: sum.splits dest: Authenticate_profile)
qed

text \<open>
  C17. From the login form to the directory: with the LDAP client behind the interface, submitting
  the login form changes the sessions only when the password is not empty and the directory
  accepted, on the connection the client opened, a bind under the name that the client makes of
  the lowercased user name.
\<close>

theorem ldap_login_sound:
  assumes "g_Authenticate (e_lib e) = ldap_authn G D cfg" and "handleLoginPost e r s = (resp, s')"
    and "db_sessions (st_db s') \<noteq> db_sessions (st_db s)"
  shows "form_get r maxLoginBodyBytes ''password'' \<noteq> [] \<and>
    (\<exists>conn. dialLDAP G D cfg = Inr conn \<and>
       d_Bind D conn
         (bindName D cfg (TrimSpace (to_lower (e_lib e) (TrimSpace (form_get r maxLoginBodyBytes ''username'')))))
         (form_get r maxLoginBodyBytes ''password''))"
proof
  show "form_get r maxLoginBodyBytes ''password'' \<noteq> []" using ldap.login_blank [OF assms(1,2)] assms(3) by blast
  from login_post_authn [OF assms(2,3)] obtain p where
    "ldap_authn G D cfg (to_lower (e_lib e) (TrimSpace (form_get r maxLoginBodyBytes ''username'')))
       (form_get r maxLoginBodyBytes ''password'') = Some p" using assms(1) by auto
  then have "Authenticate G D cfg (to_lower (e_lib e) (TrimSpace (form_get r maxLoginBodyBytes ''username'')))
       (form_get r maxLoginBodyBytes ''password'') = Inr p" by (auto simp: ldap_authn_def split: sum.splits)
  then show "\<exists>conn. dialLDAP G D cfg = Inr conn \<and> d_Bind D conn
         (bindName D cfg (TrimSpace (to_lower (e_lib e) (TrimSpace (form_get r maxLoginBodyBytes ''username'')))))
         (form_get r maxLoginBodyBytes ''password'')"
    by (rule Authenticate_cases) blast
qed

section \<open>Witnesses\<close>

definition demo_entry :: ldap_entry where
  "demo_entry = \<lparr>en_DN = ''cn=alice'', en_Attributes = [(''mail'', [''a@x'']), (''memberOf'', [''b'', ''A'', ''a''])]\<rparr>"

definition demo_directory :: directory where
  "demo_directory = \<lparr>d_ctxErr = False, d_ctxErrAfter = False, d_ReadFile = (\<lambda>_. None), d_SystemCertPool = None,
     d_AppendCerts = (\<lambda>_ _. None), d_Dial = (\<lambda>_. True), d_StartTLS = (\<lambda>_. True), d_Bind = (\<lambda>_ _ pw. pw = ''pw''),
     d_Search = (\<lambda>_ _ _. Some [demo_entry]), d_EscapeFilter = filter (\<lambda>c. c \<notin> filter_special),
     d_Sprintf = (\<lambda>_ s. s)\<rparr>"

definition demo_ldap_dn :: LDAPConfig where
  "demo_ldap_dn = demo_ldap\<lparr>ld_StartTLS := True, ld_UserDNTemplate := ''cn={username},o=x''\<rparr>"

lemma demo_dial: "\<exists>conn. dialLDAP demo_lib demo_directory demo_ldap_dn = Inr conn"
  using TrimSpace_plain [of "[]"]
  by (simp add: dialLDAP_def demo_directory_def demo_ldap_dn_def demo_ldap_def loadRootCAs_def EqualFold_def is_ascii_def
      lower_char_def Let_def)

lemma demo_authenticate:
  assumes "TrimSpace u \<noteq> []"
  shows "Authenticate demo_lib demo_directory demo_ldap_dn u ''pw'' = Inr (fallbackProfile demo_ldap_dn (TrimSpace u))"
proof -
  have s: "profileSearchEnabled demo_ldap_dn = Inr False" "ld_URL demo_ldap_dn \<noteq> []" "d_Bind demo_directory c n ''pw''" for c n
    using TrimSpace_plain [of "[]"] by (simp_all add: profileSearchEnabled_def demo_ldap_dn_def demo_ldap_def demo_directory_def)
  from demo_dial assms show ?thesis by (auto simp: Authenticate_def s Let_def)
qed

theorem bind_name_injection_free_witness:
  "filter (\<lambda>c. c \<in> dn_special) (bindName demo_directory demo_ldap_dn ''a,o=y'') = ''=,=''"
proof -
  have "Contains (ld_UserDNTemplate demo_ldap_dn) ''{username}''" by (simp add: demo_ldap_dn_def HasPrefix_def)
  note h = conjunct1 [OF bind_name_injection_free [OF this, of demo_directory "''a,o=y''"]]
  show ?thesis unfolding h by (simp add: demo_ldap_dn_def dn_special_def)
qed

theorem search_filter_injection_free_witness:
  "skeleton (userFilter demo_directory (demo_ldap_dn\<lparr>ld_UserFilter := ''(uid={login})''\<rparr>) ''*)(uid=*'' []) = ''()''"
proof -
  have "\<forall>s. set (d_EscapeFilter demo_directory s) \<inter> filter_special = {}" by (auto simp: demo_directory_def)
  note h = conjunct1 [OF search_filter_injection_free
      [OF this, of "demo_ldap_dn\<lparr>ld_UserFilter := ''(uid={login})''\<rparr>" "''*)(uid=*''" "[]"]]
  show ?thesis unfolding h by (simp add: skeleton_def filter_special_def)
qed

theorem ldap_profile_sound_witness:
  "\<exists>p. Authenticate demo_lib demo_directory demo_ldap_dn ''alice'' ''pw'' = Inr p \<and> p_Subject p = ''alice''"
proof -
  have t: "TrimSpace ''alice'' = ''alice''" by (rule TrimSpace_plain) simp_all
  then have "TrimSpace ''alice'' \<noteq> []" by simp
  from ldap_profile_sound [OF demo_authenticate [OF this]] demo_authenticate [OF this] t show ?thesis by auto
qed

theorem production_ldap_secure_witness:
  "Authenticate demo_lib (demo_directory\<lparr>d_Bind := (\<lambda>c. if secure_conn demo_lib c then d_Bind demo_directory c else (\<lambda>_ _. True))\<rparr>)
     demo_ldap_dn ''alice'' ''bad'' = Authenticate demo_lib demo_directory demo_ldap_dn ''alice'' ''bad''"
proof -
  let ?b = "\<lambda>c. if secure_conn demo_lib c then d_Bind demo_directory c else (\<lambda>_ _. True)"
  have t: "TrimSpace ''ldaps://d'' = ''ldaps://d''" by (rule TrimSpace_plain) simp_all
  have "validateProductionLDAP demo_lib demo_ldap_dn = None" "TrimSpace (ld_URL demo_ldap_dn) = ld_URL demo_ldap_dn"
    by (simp_all add: validateProductionLDAP_def demo_ldap_dn_def demo_ldap_def t)
  from production_ldap_secure [OF this, of ?b demo_directory "d_Search demo_directory" "''alice''" "''bad''"] show ?thesis by simp
qed

definition demo_env_ldap :: env where
  "demo_env_ldap = demo_env\<lparr>e_lib := demo_lib\<lparr>g_Authenticate := ldap_authn demo_lib demo_directory demo_ldap_dn\<rparr>\<rparr>"

lemma demo_env_ldap_sel [simp]:
  "e_cfg demo_env_ldap = demo_cfg" "e_now demo_env_ldap = 1000 * Second" "e_clients demo_env_ldap = [''web'' \<mapsto> demo_client]"
  "e_lib demo_env_ldap = demo_lib\<lparr>g_Authenticate := ldap_authn demo_lib demo_directory demo_ldap_dn\<rparr>"
  by (simp_all add: demo_env_ldap_def demo_env_def)

theorem ldap_login_sound_witness:
  "\<exists>resp s' conn. handleLoginPost demo_env_ldap (demo_login_request ''pw'') (demo_st\<lparr>st_db := demo_login_db\<rparr>) = (resp, s') \<and>
     dialLDAP demo_lib demo_directory demo_ldap_dn = Inr conn \<and> db_sessions (st_db s') \<noteq> []"
proof -
  let ?r = "demo_login_request ''pw''" and ?s = "demo_st\<lparr>st_db := demo_login_db\<rparr>"
  obtain resp s' where h: "handleLoginPost demo_env_ldap ?r ?s = (resp, s')" by fastforce
  have t: "TrimSpace ''alice'' = ''alice''" by (rule TrimSpace_plain) simp_all
  have u: "to_lower (e_lib demo_env_ldap) (TrimSpace ''alice'') = ''alice''"
    by (simp add: t to_lower_def ToLower_def is_ascii_def lower_char_def)
  have allow: "allowCredentialLoginAttempt demo_env_ldap r u (demo_st\<lparr>st_db := d\<rparr>) = ((True, 0), demo_st\<lparr>st_db := d\<rparr>)" for r u d
    by (simp add: allowCredentialLoginAttempt_def credentialLoginRateKeys_def login_allow_def allow_def demo_limiter_def
        newLoginRateLimiter_def demo_st_def Let_def)
  have a: "ldap_authn demo_lib demo_directory demo_ldap_dn ''alice'' ''pw'' = Some (fallbackProfile demo_ldap_dn ''alice'')"
    using demo_authenticate [of "''alice''"] t by (simp add: ldap_authn_def)
  have ne: "db_sessions (st_db s') \<noteq> db_sessions (st_db ?s)"
    using h unfolding handleLoginPost_def
    by (auto simp: demo_login_request_def demo_login_csrf [unfolded demo_login_request_def, simplified]
        u [simplified] a allow fallbackProfile_def on_db_def ConsumeAuthRequest_def consume_def db_update_def
        getJSON_def bget_def bdel_def login_password_def UpsertProfile_def getUserTx_def user_or_new_def put_user_def
        putJSON_def new_StoredUser_def needsTOTP_def demo_cfg_def recordCredentialLoginSuccess_def
        login_success_def createSession_def randomB64_def PutSession_def SetCookie_def session_cookie_def
        proceedAfterAuthn_def lookupClient_def issueCodeRedirect_def auditEvent_def PutAuthCode_def
        or_store_error_def zero_Session_def Let_def split: sum.splits prod.splits option.splits if_splits)
  have "g_Authenticate (e_lib demo_env_ldap) = ldap_authn demo_lib demo_directory demo_ldap_dn" by simp
  from ldap_login_sound [OF this h ne] h ne show ?thesis by auto
qed

end
