(* ===== verification/Lifecycle.thy ===== *)
theory Lifecycle
  imports Invariants Ldap
begin

text \<open>
  The life of the process (\<^verbatim>\<open>main.go\<close>, \<^verbatim>\<open>NewStore\<close> of \<^verbatim>\<open>store.go\<close>, \<^verbatim>\<open>loadConfig\<close> of
  \<^verbatim>\<open>config.go\<close>, the background sweeper of \<^verbatim>\<open>broker.go\<close>): flags, configuration, store,
  broker, listeners, the wait for a signal or a failing server, and the deferred clean-up on every
  way out.  What the operating system, bbolt, certmagic and the network answer is the record \<open>host\<close>;
  what the process does to them is a trace of \<open>event\<close>s.
\<close>

section \<open>The background sweeper\<close>

text \<open>The select of the loop, at its \<open>i\<close>-th turn: the context is done, or the ticker fires.\<close>

datatype sweeper_event = Done | Tick time

partial_function (option) sweeper_loop :: "(nat \<Rightarrow> sweeper_event) \<Rightarrow> nat \<Rightarrow> st \<Rightarrow> st option" where
  [code]: "sweeper_loop ev i s = (case ev i of Done \<Rightarrow> Some s | Tick t \<Rightarrow> sweeper_loop ev (i + 1) (sweepExpired t s))"

definition sweeper_interval :: "duration \<Rightarrow> duration" where
  "sweeper_interval interval = (if interval \<le> 0 then Minute else interval)"

text \<open>\<open>ticker\<close> gives the events for the interval of the ticker.\<close>

definition startBackgroundSweeper :: "(duration \<Rightarrow> nat \<Rightarrow> sweeper_event) \<Rightarrow> duration \<Rightarrow> st \<Rightarrow> st option" where
  "startBackgroundSweeper ticker interval s = sweeper_loop (ticker (sweeper_interval interval)) 0 s"

section \<open>The host\<close>

text \<open>Why a server stops, as the selects of \<^verbatim>\<open>waitForServerStop\<close> and \<^verbatim>\<open>waitForACMEStop\<close> see it.\<close>

datatype stop_cause = Signal | ServeFailed string | ServeClosed

record host =
  h_Getenv :: "string \<Rightarrow> string"
  h_ReadFile :: "string \<Rightarrow> string + byte list"
  h_Unmarshal :: "byte list \<Rightarrow> string + Config"
  h_Stat :: "string \<Rightarrow> stat_result"
  h_Clean :: "string \<Rightarrow> string"
  h_Join :: "string \<Rightarrow> string \<Rightarrow> string"
  h_Dir :: "string \<Rightarrow> string"
  h_MkdirAll :: "string \<Rightarrow> string option"
  h_bolt_Open :: "string \<Rightarrow> string + Store"
  h_CreateBuckets :: "string option"
  h_legacy :: legacy_file
  h_Write :: "byte list \<Rightarrow> string option"
  h_ca :: string
  h_errtext :: "store_error \<Rightarrow> string"
  h_now :: time
  h_ManageAsync :: "string list \<Rightarrow> string option"
  h_TLSListen :: "string \<Rightarrow> string option"
  h_Listen :: "string \<Rightarrow> string option"
  h_stop :: stop_cause

text \<open>
  An answer of type \<^typ>\<open>string option\<close> is the error, if there is one.  \<open>h_bolt_Open\<close> opens the
  database file and \<open>h_CreateBuckets\<close> is the transaction that creates missing buckets; \<open>h_legacy\<close> is
  the old key file, \<open>h_ca\<close> the default ACME directory, \<open>h_errtext\<close> prints store errors.
\<close>

datatype event =
    StoreOpened | StoreClosed | SweeperStarted | SweeperStopped | StorageCreated string | CertificatesManaged "string list"
  | Listening string | ListenerClosed string | Serving string | ShutDown string | KeyPrinted "byte list"

section \<open>Command line\<close>

record cliOptions =
  opt_configPath :: string
  opt_dataPath :: string
  opt_printKey :: bool
  opt_rotateSigningKey :: bool

text \<open>The flags as given on the command line.\<close>

record flags =
  fl_config :: "string option"
  fl_data :: "string option"
  fl_generate_key :: bool
  fl_rotate_key :: bool

definition parseCLIOptions :: "host \<Rightarrow> flags \<Rightarrow> cliOptions" where
  "parseCLIOptions H fl =
     \<lparr>opt_configPath = (case fl_config fl of Some v \<Rightarrow> v | None \<Rightarrow> envOrDefault (h_Getenv H) ''AUTHBROKER_CONFIG'' ''config.json''),
      opt_dataPath = (case fl_data fl of Some v \<Rightarrow> v | None \<Rightarrow> envOrDefault (h_Getenv H) ''AUTHBROKER_DATA'' ''data''),
      opt_printKey = fl_generate_key fl, opt_rotateSigningKey = fl_rotate_key fl\<rparr>"

definition generateAndPrintKey :: "golib \<Rightarrow> host \<Rightarrow> nat \<Rightarrow> string option \<times> event list" where
  "generateAndPrintKey G H n =
     (case g_GenerateKey G n of
        None \<Rightarrow> (Some ''generate key'', [])
      | Some key \<Rightarrow>
          (case marshalRSAPrivateKeyPEM G key of
             None \<Rightarrow> (Some ''encode key'', [])
           | Some keyPEM \<Rightarrow>
               (case h_Write H keyPEM of Some err \<Rightarrow> (Some err, []) | None \<Rightarrow> (None, [KeyPrinted keyPEM]))))"

section \<open>Configuration, store, broker\<close>

definition loadConfig :: "host \<Rightarrow> string \<Rightarrow> string + Config" where
  "loadConfig H path = (case h_ReadFile H path of Inl err \<Rightarrow> Inl err | Inr b \<Rightarrow> h_Unmarshal H b)"

definition NewStore :: "host \<Rightarrow> string \<Rightarrow> string + Store" where
  "NewStore H path =
     (if path = [] then Inl ''store: path is required''
      else case h_MkdirAll H (h_Dir H path) of
          Some err \<Rightarrow> Inl (''store: create data dir: '' @ err)
        | None \<Rightarrow>
            (case h_bolt_Open H path of
               Inl err \<Rightarrow> Inl (''store: open '' @ path @ '': '' @ err)
             | Inr d \<Rightarrow> (case h_CreateBuckets H of Some err \<Rightarrow> Inl err | None \<Rightarrow> Inr d)))"

datatype start_error =
    BadConfigFile string | InvalidConfig config_error | BadDataPath string | ACMENeedsStorage | OpenStore string
  | PrepareKeys key_error | BrokerFailed broker_error

definition newConfiguredBroker ::
  "golib \<Rightarrow> host \<Rightarrow> cliOptions \<Rightarrow> nat \<Rightarrow> (start_error + env \<times> st \<times> string) \<times> event list" where
  "newConfiguredBroker G H opts n =
     (case loadConfig H (opt_configPath opts) of
        Inl err \<Rightarrow> (Inl (BadConfigFile err), [])
      | Inr cfg0 \<Rightarrow>
          let cfg = normalizeConfig G (h_ca H) cfg0 in
          case validateConfig G cfg of
            Some err \<Rightarrow> (Inl (InvalidConfig err), [])
          | None \<Rightarrow>
              (case resolveDataDir (h_Stat H) (h_Clean H) (opt_dataPath opts) of
                 Inl err \<Rightarrow> (Inl (BadDataPath err), [])
               | Inr dataDir \<Rightarrow>
                   if acme_Enabled (cf_ACME cfg) \<and> TrimSpace (acme_StoragePath (cf_ACME cfg)) = [] \<and> dataDir = []
                   then (Inl ACMENeedsStorage, [])
                   else (case NewStore H (h_Join H dataDir ''data.db'') of
                       Inl err \<Rightarrow> (Inl (OpenStore err), [])
                     | Inr d \<Rightarrow>
                         (case prepareSigningKeys G (h_legacy H) dataDir (opt_rotateSigningKey opts) (h_now H) cfg (Some d) n of
                            (Inl err, _) \<Rightarrow> (Inl (PrepareKeys err), [StoreOpened, StoreClosed])
                          | (Inr cfg', d', n') \<Rightarrow>
                              (case NewBroker G (h_ca H) (h_errtext H) cfg' (case d' of Some d1 \<Rightarrow> d1 | None \<Rightarrow> d) (h_now H) n' of
                                 Inl err \<Rightarrow> (Inl (BrokerFailed err), [StoreOpened])
                               | Inr (e, s) \<Rightarrow> (Inr (e, s, dataDir), [StoreOpened]))))))"

section \<open>Servers\<close>

record http_Server =
  srv_Addr :: string
  srv_ReadHeaderTimeout :: duration
  srv_ReadTimeout :: duration
  srv_WriteTimeout :: duration
  srv_IdleTimeout :: duration

text \<open>The timeouts of every server of the broker.\<close>

definition server_at :: "string \<Rightarrow> http_Server" where
  "server_at addr =
     \<lparr>srv_Addr = addr, srv_ReadHeaderTimeout = 5 * Second, srv_ReadTimeout = 30 * Second, srv_WriteTimeout = 30 * Second,
      srv_IdleTimeout = 2 * Minute\<rparr>"

text \<open>\<open>routes\<close> builds the handler: \<open>None\<close> when that panics.\<close>

definition newHTTPServer :: "(env \<Rightarrow> 'h option) \<Rightarrow> env \<Rightarrow> (http_Server \<times> 'h) option" where
  "newHTTPServer routes e = map_option (Pair (server_at (cf_Listen (e_cfg e)))) (routes e)"

text \<open>The issuers of certmagic: an ACME issuer answers challenges in front of a handler.\<close>

definition firstACMEIssuer :: "(handler \<Rightarrow> handler) option list \<Rightarrow> (handler \<Rightarrow> handler) option" where
  "firstACMEIssuer issuers = (case List.find (\<lambda>i. i \<noteq> None) issuers of Some i \<Rightarrow> i | None \<Rightarrow> None)"

definition newACMEHTTPHandler ::
  "(string \<Rightarrow> http_request \<Rightarrow> string) \<Rightarrow> golib \<Rightarrow> (handler \<Rightarrow> handler) option list \<Rightarrow> string list \<Rightarrow> handler" where
  "newACMEHTTPHandler url G issuers domains =
     (case firstACMEIssuer issuers of
        Some challenge \<Rightarrow> challenge (redirectToHTTPS url G domains)
      | None \<Rightarrow> redirectToHTTPS url G domains)"

definition newACMEServers ::
  "(env \<Rightarrow> 'h option) \<Rightarrow> handler \<Rightarrow> env \<Rightarrow> ((http_Server \<times> 'h) \<times> (http_Server \<times> handler)) option" where
  "newACMEServers routes redirect e =
     map_option (\<lambda>h. ((server_at (acme_HTTPSAddr (cf_ACME (e_cfg e))), h), (server_at (acme_HTTPAddr (cf_ACME (e_cfg e))), redirect)))
       (routes e)"

section \<open>Running\<close>

text \<open>The trace so far, and whether the clean-up (a \<^verbatim>\<open>sync.Once\<close>) has run.\<close>

record proc =
  p_trace :: "event list"
  p_cleaned :: bool

definition emit :: "event list \<Rightarrow> proc \<Rightarrow> proc" where
  "emit es p = p\<lparr>p_trace := p_trace p @ es\<rparr>"

definition cleanup :: "proc \<Rightarrow> proc" where
  "cleanup p = (if p_cleaned p then p else (emit [SweeperStopped] p)\<lparr>p_cleaned := True\<rparr>)"

datatype run_error =
    StartFailed start_error | TermsNotAgreed | ACMEDataDir | ACMEStorageFailed string | ACMECert string | ACMEManage string
  | ListenHTTPS string | ListenHTTP string | ServerError string

datatype exit = Returned "run_error option" | Panicked

definition prepareACMEStorage :: "host \<Rightarrow> ACMEConfig \<Rightarrow> string \<Rightarrow> run_error + string" where
  "prepareACMEStorage H acme dataDir =
     (if acme_StoragePath acme = [] \<and> dataDir = [] then Inl ACMEDataDir
      else let storage = (if acme_StoragePath acme = [] then h_Join H dataDir ''acme'' else acme_StoragePath acme)
           in case h_MkdirAll H storage of Some err \<Rightarrow> Inl (ACMEStorageFailed err) | None \<Rightarrow> Inr storage)"

definition prepareCertMagic :: "host \<Rightarrow> directory \<Rightarrow> ACMEConfig \<Rightarrow> run_error + event list" where
  "prepareCertMagic H D acme =
     (case loadRootCAs D (acme_CACertPath acme) of
        Inl err \<Rightarrow> Inl (ACMECert err)
      | Inr _ \<Rightarrow>
          (case h_ManageAsync H (acme_Domains acme) of
             Some err \<Rightarrow> Inl (ACMEManage err)
           | None \<Rightarrow> Inr [CertificatesManaged (acme_Domains acme)]))"

definition listenACME :: "host \<Rightarrow> ACMEConfig \<Rightarrow> proc \<Rightarrow> run_error option \<times> proc" where
  "listenACME H acme p =
     (case h_TLSListen H (acme_HTTPSAddr acme) of
        Some err \<Rightarrow> (Some (ListenHTTPS err), p)
      | None \<Rightarrow>
          let p1 = emit [Listening (acme_HTTPSAddr acme)] p in
          case h_Listen H (acme_HTTPAddr acme) of
            Some err \<Rightarrow> (Some (ListenHTTP err), emit [ListenerClosed (acme_HTTPSAddr acme)] p1)
          | None \<Rightarrow> (None, emit [Listening (acme_HTTPAddr acme)] p1))"

definition shutdownACME :: "ACMEConfig \<Rightarrow> proc \<Rightarrow> proc" where
  "shutdownACME acme p = emit [ShutDown (acme_HTTPSAddr acme), ShutDown (acme_HTTPAddr acme)] p"

text \<open>
  A server that ends without an error sends nothing, so that only a signal or an error ends the
  wait here; a host whose servers end cleanly under ACME never does.
\<close>

definition waitForACMEStop :: "host \<Rightarrow> run_error option option" where
  "waitForACMEStop H = (case h_stop H of Signal \<Rightarrow> Some None | ServeFailed err \<Rightarrow> Some (Some (ServerError err)) | ServeClosed \<Rightarrow> None)"

definition runACME :: "(env \<Rightarrow> 'h option) \<Rightarrow> handler \<Rightarrow> host \<Rightarrow> directory \<Rightarrow> env \<Rightarrow> string \<Rightarrow> proc \<Rightarrow> (exit \<times> proc) option" where
  "runACME routes redirect H D e dataDir p =
     (let acme = cf_ACME (e_cfg e) in
      if \<not> acme_AgreedTOS acme then Some (Returned (Some TermsNotAgreed), p)
      else case prepareACMEStorage H acme dataDir of
          Inl err \<Rightarrow> Some (Returned (Some err), p)
        | Inr storage \<Rightarrow>
            let p1 = emit [StorageCreated storage] p in
            (case prepareCertMagic H D acme of
               Inl err \<Rightarrow> Some (Returned (Some err), p1)
             | Inr es \<Rightarrow>
                 let p2 = emit es p1 in
                 (case newACMEServers routes redirect e of
                    None \<Rightarrow> Some (Panicked, p2)
                  | Some _ \<Rightarrow>
                      (case listenACME H acme p2 of
                         (Some err, p3) \<Rightarrow> Some (Returned (Some err), p3)
                       | (None, p3) \<Rightarrow>
                           let p4 = emit [Serving (acme_HTTPSAddr acme), Serving (acme_HTTPAddr acme)] p3 in
                           (case waitForACMEStop H of
                              None \<Rightarrow> None
                            | Some (Some err) \<Rightarrow> Some (Returned (Some err), p4)
                            | Some None \<Rightarrow> Some (Returned None, cleanup (shutdownACME acme p4)))))))"

text \<open>The first component tells whether to drain.\<close>

definition waitForServerStop :: "host \<Rightarrow> bool \<times> run_error option" where
  "waitForServerStop H =
     (case h_stop H of Signal \<Rightarrow> (True, None) | ServeFailed err \<Rightarrow> (False, Some (ServerError err)) | ServeClosed \<Rightarrow> (False, None))"

definition run_http :: "(env \<Rightarrow> 'h option) \<Rightarrow> host \<Rightarrow> env \<Rightarrow> proc \<Rightarrow> exit \<times> proc" where
  "run_http routes H e p =
     (case newHTTPServer routes e of
        None \<Rightarrow> (Panicked, p)
      | Some (srv, _) \<Rightarrow>
          let p1 = emit [Serving (srv_Addr srv)] p in
          (case waitForServerStop H of
             (_, Some err) \<Rightarrow> (Returned (Some err), p1)
           | (False, None) \<Rightarrow> (Returned None, p1)
           | (True, None) \<Rightarrow> (Returned None, cleanup (emit [ShutDown (srv_Addr srv)] p1))))"

text \<open>
  \<^verbatim>\<open>run\<close>, with its deferred calls: they run on every way out, the last one first, also when
  building the routes panics.  \<open>None\<close> is a run that does not end.
\<close>

definition run_deferred :: "proc \<Rightarrow> proc" where
  "run_deferred p = emit [StoreClosed] (cleanup p)"

definition run :: "golib \<Rightarrow> (env \<Rightarrow> 'h option) \<Rightarrow> handler \<Rightarrow> host \<Rightarrow> directory \<Rightarrow> cliOptions \<Rightarrow> nat \<Rightarrow> (exit \<times> event list) option" where
  "run G routes redirect H D opts n =
     (case newConfiguredBroker G H opts n of
        (Inl err, es) \<Rightarrow> Some (Returned (Some (StartFailed err)), es)
      | (Inr (e, s, dataDir), es) \<Rightarrow>
          let p = \<lparr>p_trace = es @ [SweeperStarted], p_cleaned = False\<rparr>;
              acme = cf_ACME (e_cfg e)
          in map_option (\<lambda>(x, p'). (x, p_trace (run_deferred p')))
               (if acme_Enabled acme \<and> acme_Domains acme \<noteq> [] then runACME routes redirect H D e dataDir p
                else Some (run_http routes H e p)))"

text \<open>The exit status: \<^verbatim>\<open>log.Fatal\<close> ends with 1, a panic with 2.\<close>

definition main :: "golib \<Rightarrow> (env \<Rightarrow> 'h option) \<Rightarrow> handler \<Rightarrow> host \<Rightarrow> directory \<Rightarrow> flags \<Rightarrow> nat \<Rightarrow> (nat \<times> event list) option" where
  "main G routes redirect H D fl n =
     (let opts = parseCLIOptions H fl in
      if opt_printKey opts
      then (case generateAndPrintKey G H n of (err, es) \<Rightarrow> Some (if err = None then 0 else 1, es))
      else map_option (\<lambda>(x, es). (case x of Returned None \<Rightarrow> 0 | Returned (Some _) \<Rightarrow> 1 | Panicked \<Rightarrow> 2, es))
             (run G routes redirect H D opts n))"

section \<open>The sweeper ends with the context\<close>

lemma sweeper_loop_Done: "ev i = Done \<Longrightarrow> sweeper_loop ev i s = Some s"
  by (simp add: sweeper_loop.simps)

lemma sweeper_loop_Tick: "ev i = Tick t \<Longrightarrow> sweeper_loop ev i s = sweeper_loop ev (i + 1) (sweepExpired t s)"
  by (subst sweeper_loop.simps) simp

text \<open>The times of the ticks from the turn \<open>i\<close> on, in \<open>k\<close> turns.\<close>

fun ticks :: "(nat \<Rightarrow> sweeper_event) \<Rightarrow> nat \<Rightarrow> nat \<Rightarrow> time list" where
  "ticks ev i 0 = []"
| "ticks ev i (Suc k) = (case ev i of Tick t \<Rightarrow> t # ticks ev (i + 1) k | Done \<Rightarrow> [])"

lemma sweeper_loop_runs:
  "\<forall>j < k. ev (i + j) \<noteq> Done \<Longrightarrow> ev (i + k) = Done \<Longrightarrow> sweeper_loop ev i s = Some (fold sweepExpired (ticks ev i k) s)"
proof (induction k arbitrary: i s)
  case (Suc k)
  from Suc.prems(1) obtain t where t: "ev i = Tick t" by (cases "ev i") force+
  from Suc.IH [of "i + 1" "sweepExpired t s"] Suc.prems t show ?case
    by (simp add: sweeper_loop_Tick) (metis add_Suc_right add_Suc_shift less_Suc_eq_0_disj not_less_eq)
qed (simp add: sweeper_loop_Done)

lemma sweeper_loop_Some:
  assumes "sweeper_loop ev i s = Some s'"
  shows "\<exists>k. ev (i + k) = Done"
proof (rule sweeper_loop.raw_induct [of "\<lambda>ev i s s'. \<exists>k. ev (i + k) = Done", OF _ assms])
  fix loop :: "(nat \<Rightarrow> sweeper_event) \<Rightarrow> nat \<Rightarrow> st \<Rightarrow> st option" and ev i s s'
  assume 1: "\<And>ev i s s'. loop ev i s = Some s' \<Longrightarrow> \<exists>k. ev (i + k) = Done"
    "(case ev i of Done \<Rightarrow> Some s | Tick t \<Rightarrow> loop ev (i + 1) (sweepExpired t s)) = Some s'"
  show "\<exists>k. ev (i + k) = Done"
  proof (cases "ev i")
    case Done
    then show ?thesis by (metis add_0_right)
  next
    case (Tick t)
    with 1 obtain k where "ev (i + 1 + k) = Done" by fastforce
    then show ?thesis by (metis add.assoc)
  qed
qed

text \<open>
  C39. The background sweeper returns exactly if the context is cancelled at some turn, and then it has
  swept once for every tick before that, in their order; it never stops on its own, also for an
  interval that is not positive.
\<close>

theorem sweeper_returns:
  "(startBackgroundSweeper ticker interval s \<noteq> None \<longleftrightarrow> (\<exists>k. ticker (sweeper_interval interval) k = Done)) \<and>
   (\<forall>k. ticker (sweeper_interval interval) k = Done \<and> (\<forall>j < k. ticker (sweeper_interval interval) j \<noteq> Done) \<longrightarrow>
      startBackgroundSweeper ticker interval s = Some (fold sweepExpired (ticks (ticker (sweeper_interval interval)) 0 k) s))"
proof -
  let ?ev = "ticker (sweeper_interval interval)"
  have run: "startBackgroundSweeper ticker interval s = Some (fold sweepExpired (ticks ?ev 0 k) s)"
    if "?ev k = Done" "\<forall>j < k. ?ev j \<noteq> Done" for k
    using sweeper_loop_runs [of k ?ev 0 s] that by (simp add: startBackgroundSweeper_def)
  moreover have "\<exists>k. ?ev k = Done" if "startBackgroundSweeper ticker interval s = Some s'" for s'
    using that sweeper_loop_Some [of ?ev 0 s s'] by (simp add: startBackgroundSweeper_def)
  moreover have "startBackgroundSweeper ticker interval s \<noteq> None" if "?ev k = Done" for k
    using run [of "LEAST k. ?ev k = Done"] LeastI [of "\<lambda>k. ?ev k = Done", OF that] not_less_Least by fastforce
  ultimately show ?thesis by auto
qed

theorem sweeper_returns_witness:
  "startBackgroundSweeper (\<lambda>_ i. if i < 2 then Tick (int i) else Done) 0 demo_st = Some (sweepExpired 1 (sweepExpired 0 demo_st))"
  using sweeper_returns [of "\<lambda>_ i. if i < 2 then Tick (int i) else Done" 0 demo_st]
  by (auto dest!: spec [of _ 2] simp: numeral_2_eq_2)

section \<open>Every way out cleans up\<close>

definition bookends :: "event set" where
  "bookends = {StoreOpened, StoreClosed, SweeperStarted, SweeperStopped}"

lemma newConfiguredBroker_events:
  "newConfiguredBroker G H opts n = (Inr x, es) \<Longrightarrow> es = [StoreOpened]"
  by (auto simp: newConfiguredBroker_def Let_def split: sum.splits option.splits if_splits prod.splits)

text \<open>What a run does between the start of the sweeper and the deferred calls.\<close>

definition served :: "proc \<Rightarrow> proc \<Rightarrow> event list \<Rightarrow> bool" where
  "served p p' mid \<longleftrightarrow> p_trace p' = p_trace p @ mid @ (if p_cleaned p' then [SweeperStopped] else []) \<and> set mid \<inter> bookends = {}"

lemma deferred_trace:
  assumes "served p p' mid" and "\<not> p_cleaned p"
  shows "p_trace (run_deferred p') = p_trace p @ mid @ [SweeperStopped, StoreClosed]"
  using assms by (auto simp: served_def run_deferred_def cleanup_def emit_def)

text \<open>A run that a signal ends has shut down what it served.\<close>

definition graceful :: "host \<Rightarrow> (env \<Rightarrow> 'h option) \<Rightarrow> env \<Rightarrow> exit \<Rightarrow> event list \<Rightarrow> bool" where
  "graceful H routes e x mid \<longleftrightarrow> (x = Panicked \<longrightarrow> routes e = None) \<and>
     (h_stop H = Signal \<and> (\<exists>addr. Serving addr \<in> set mid) \<longrightarrow>
        x = Returned None \<and> (\<forall>addr. Serving addr \<in> set mid \<longrightarrow> ShutDown addr \<in> set mid))"

lemmas run_defs = served_def graceful_def bookends_def cleanup_def emit_def Let_def

lemma run_http_served:
  "run_http routes H e p = (x, p') \<Longrightarrow> \<not> p_cleaned p \<Longrightarrow> \<exists>mid. served p p' mid \<and> graceful H routes e x mid"
  by (auto simp: run_http_def newHTTPServer_def waitForServerStop_def run_defs
      split: option.splits prod.splits stop_cause.splits bool.splits)

lemma runACME_served:
  "runACME routes redirect H D e dataDir p = Some (x, p') \<Longrightarrow> \<not> p_cleaned p \<Longrightarrow> \<exists>mid. served p p' mid \<and> graceful H routes e x mid"
  by (auto simp: runACME_def prepareCertMagic_def newACMEServers_def listenACME_def waitForACMEStop_def shutdownACME_def run_defs
      split: option.splits prod.splits sum.splits if_splits stop_cause.splits)


section \<open>Witnesses\<close>

definition demo_host :: host where
  "demo_host =
     \<lparr>h_Getenv = (\<lambda>_. []), h_ReadFile = (\<lambda>_. Inr []), h_Unmarshal = (\<lambda>_. Inr demo_start), h_Stat = (\<lambda>_. StatDir),
      h_Clean = (\<lambda>p. p), h_Join = (\<lambda>d f. d @ ''/'' @ f), h_Dir = (\<lambda>p. p), h_MkdirAll = (\<lambda>_. None),
      h_bolt_Open = (\<lambda>_. Inr empty_Store), h_CreateBuckets = None, h_legacy = \<lparr>lf_read = NotExist, lf_rename_ok = True\<rparr>,
      h_Write = (\<lambda>_. None), h_ca = ''ca'', h_errtext = (\<lambda>_. []), h_now = 0, h_ManageAsync = (\<lambda>_. None),
      h_TLSListen = (\<lambda>_. None), h_Listen = (\<lambda>_. None), h_stop = Signal\<rparr>"

abbreviation demo_opts :: cliOptions where
  "demo_opts \<equiv> parseCLIOptions demo_host \<lparr>fl_config = None, fl_data = None, fl_generate_key = False, fl_rotate_key = False\<rparr>"

lemma NewBroker_normalized:
  "NewBroker G ca t (normalizeConfig G ca cfg) d now n = NewBroker G ca t cfg d now n"
  unfolding NewBroker_def by (simp add: config_normalize_idempotent)

abbreviation demo_routes :: "env \<Rightarrow> (duration \<Rightarrow> http_request \<Rightarrow> st \<times> metricsRegistry \<Rightarrow> response \<times> st \<times> metricsRegistry) option" where
  "demo_routes \<equiv> buildRoutes demo_mux [] [] (\<lambda>_. [])"

lemma demo_started_fields:
  "\<not> acme_Enabled (cf_ACME demo_started)" "cf_SigningKeyPEM demo_started = ''A''" "\<not> me_Enabled (cf_Metrics demo_started)"
  by (simp_all add: normalizeConfig_def demo_start_def demo_production_def demo_cfg_def Let_def normalizeACMEConfig_def demo_acme_def normalizeMetricsConfig_def)

lemma demo_configured:
  "\<exists>e s. newConfiguredBroker demo_lib demo_host demo_opts 0 = (Inr (e, s, ''data''), [StoreOpened]) \<and>
     \<not> acme_Enabled (cf_ACME (e_cfg e)) \<and> demo_routes e \<noteq> None"
proof -
  obtain e s where b: "NewBroker demo_lib ''ca'' (\<lambda>_. []) demo_started empty_Store 0 0 = Inr (e, s)"
    using demo_broker NewBroker_normalized by metis
  then have "\<not> acme_Enabled (cf_ACME (e_cfg e)) \<and> \<not> me_Enabled (cf_Metrics (e_cfg e))"
    by (cases rule: NewBroker_cases) (simp add: config_normalize_idempotent demo_started_fields)
  moreover from this have "demo_routes e \<noteq> None"
    using register_table [OF demo_mux_ok, of "[]" "[]" "\<lambda>_. []" "[]" e] by (simp add: buildRoutes_def)
  moreover have t: "TrimSpace ''data'' = ''data''" "TrimSpace [] = []" "TrimSpace ''A'' = ''A''" by code_simp+
  have "newConfiguredBroker demo_lib demo_host demo_opts 0 = (Inr (e, s, ''data''), [StoreOpened])"
    using b demo_started_fields t
    by (simp add: newConfiguredBroker_def loadConfig_def parseCLIOptions_def demo_host_def demo_start_valid resolveDataDir_def
        envOrDefault_def NewStore_def prepareSigningKeys_def Let_def)
  ultimately show ?thesis by blast
qed


end
