(* ===== verification/Snapshot.thy ===== *)
theory Snapshot
  imports Store
begin

text \<open>
  Reading and seeding all runtime buckets at once (\<^verbatim>\<open>RuntimeSnapshot\<close> and \<^verbatim>\<open>SeedRuntimeState\<close>
  of \<^verbatim>\<open>store.go\<close>), and the copy of a user.  A Go map is an association list here, in the order
  of its iteration; what it holds under a key is \<open>map_of\<close>.
\<close>

record StoredRuntimeState =
  rs_Sessions :: "(string \<times> Session) list"
  rs_AuthRequests :: "(string \<times> AuthorizationRequest) list"
  rs_AuthCodes :: "(string \<times> AuthCode) list"
  rs_RefreshTokens :: "(string \<times> RefreshToken) list"
  rs_ConsumedRefreshTokens :: "(string \<times> ConsumedRefreshToken) list"
  rs_RevokedJTIs :: "(string \<times> time) list"
  rs_WebAuthnReg :: "(string \<times> ChallengeRecord) list"
  rs_WebAuthnLog :: "(string \<times> ChallengeRecord) list"

fun loadBucketView :: "'v bucket \<Rightarrow> (string \<times> 'v) list" where
  "loadBucketView [] = []"
| "loadBucketView ((k, c) # b) = (case c of Json v \<Rightarrow> (k, v) # loadBucketView b | Malformed \<Rightarrow> loadBucketView b)"

definition RuntimeSnapshot :: "Store \<Rightarrow> StoredRuntimeState" where
  "RuntimeSnapshot s =
     (if db_open s then
        \<lparr>rs_Sessions = loadBucketView (db_sessions s), rs_AuthRequests = loadBucketView (db_authRequests s),
         rs_AuthCodes = loadBucketView (db_authCodes s), rs_RefreshTokens = loadBucketView (db_refreshTokens s),
         rs_ConsumedRefreshTokens = loadBucketView (db_consumedRefreshTokens s), rs_RevokedJTIs = loadBucketView (db_revokedJTIs s),
         rs_WebAuthnReg = loadBucketView (db_webauthnReg s), rs_WebAuthnLog = loadBucketView (db_webauthnLog s)\<rparr>
      else
        \<lparr>rs_Sessions = [], rs_AuthRequests = [], rs_AuthCodes = [], rs_RefreshTokens = [], rs_ConsumedRefreshTokens = [],
         rs_RevokedJTIs = [], rs_WebAuthnReg = [], rs_WebAuthnLog = []\<rparr>)"

fun seedBucketTx :: "(string \<times> 'v) list \<Rightarrow> 'v bucket \<Rightarrow> store_error + 'v bucket" where
  "seedBucketTx [] b = Inr b"
| "seedBucketTx ((k, v) # vs) b = (case putJSON k v b of Inl e \<Rightarrow> Inl e | Inr b' \<Rightarrow> seedBucketTx vs b')"

definition SeedRuntimeState :: "StoredRuntimeState \<Rightarrow> Store \<Rightarrow> (store_error + unit) \<times> Store" where
  "SeedRuntimeState state s = db_update s
     (case seedBucketTx (rs_Sessions state) (db_sessions s) of Inl e \<Rightarrow> Inl e | Inr b1 \<Rightarrow>
      case seedBucketTx (rs_AuthRequests state) (db_authRequests s) of Inl e \<Rightarrow> Inl e | Inr b2 \<Rightarrow>
      case seedBucketTx (rs_AuthCodes state) (db_authCodes s) of Inl e \<Rightarrow> Inl e | Inr b3 \<Rightarrow>
      case seedBucketTx (rs_RefreshTokens state) (db_refreshTokens s) of Inl e \<Rightarrow> Inl e | Inr b4 \<Rightarrow>
      case seedBucketTx (rs_ConsumedRefreshTokens state) (db_consumedRefreshTokens s) of Inl e \<Rightarrow> Inl e | Inr b5 \<Rightarrow>
      case seedBucketTx (rs_RevokedJTIs state) (db_revokedJTIs s) of Inl e \<Rightarrow> Inl e | Inr b6 \<Rightarrow>
      case seedBucketTx (rs_WebAuthnReg state) (db_webauthnReg s) of Inl e \<Rightarrow> Inl e | Inr b7 \<Rightarrow>
      case seedBucketTx (rs_WebAuthnLog state) (db_webauthnLog s) of Inl e \<Rightarrow> Inl e | Inr b8 \<Rightarrow>
        Inr ((), s\<lparr>db_sessions := b1, db_authRequests := b2, db_authCodes := b3, db_refreshTokens := b4,
          db_consumedRefreshTokens := b5, db_revokedJTIs := b6, db_webauthnReg := b7, db_webauthnLog := b8\<rparr>))"

section \<open>Seeding and reading\<close>

lemma map_of_loadBucketView:
  "bucket_ok b \<Longrightarrow> map_of (loadBucketView b) k = (case bget k b of Some (Json v) \<Rightarrow> Some v | _ \<Rightarrow> None)"
proof (induction b rule: loadBucketView.induct)
  case (2 k' c b)
  then have ok: "bucket_ok b" and above: "\<forall>x \<in> fst ` set b. k' < x" by (auto simp: bucket_ok_def)
  have "bget k' b = None" using above by (auto simp: bget_def map_of_eq_None_iff)
  with 2 ok show ?case by (auto simp: bget_def split: cell.splits)
qed simp

definition keys_ok :: "string list \<Rightarrow> bool" where
  "keys_ok ks = (\<forall>k \<in> set ks. k \<noteq> [] \<and> length k \<le> 32768)"

lemma seedBucketTx_ok: "keys_ok (map fst vs) \<Longrightarrow> seedBucketTx vs b = Inr (fold (\<lambda>(k, v). bput k v) vs b)"
  by (induction vs b rule: seedBucketTx.induct) (auto simp: keys_ok_def putJSON_def)

lemma seedBucketTx_keys: "seedBucketTx vs b = Inr b' \<Longrightarrow> keys_ok (map fst vs)"
  by (induction vs b rule: seedBucketTx.induct) (auto simp: keys_ok_def putJSON_def split: if_splits)

lemma fold_bput_view:
  "bucket_ok b \<Longrightarrow> distinct (map fst vs) \<Longrightarrow>
     map_of (loadBucketView (fold (\<lambda>(k, v). bput k v) vs b)) = map_of (loadBucketView b) ++ map_of vs"
proof (induction vs arbitrary: b)
  case (Cons x vs)
  obtain k v where x: "x = (k, v)" by fastforce
  have "map_of (loadBucketView (bput k v b)) = (map_of (loadBucketView b))(k \<mapsto> v)"
    by (rule ext) (simp add: map_of_loadBucketView bucket_ok_bput Cons.prems(1) bget_bput)
  moreover have "map_of vs k = None" using Cons.prems(2) x by (simp add: map_of_eq_None_iff)
  ultimately show ?case
    using Cons.IH [OF bucket_ok_bput [OF Cons.prems(1), of k v]] Cons.prems(2) x
    by (auto simp: map_add_def fun_eq_iff split: option.splits)
qed simp

text \<open>The keys of the eight maps of a state.\<close>

definition runtime_keys :: "StoredRuntimeState \<Rightarrow> string list list" where
  "runtime_keys st =
     [map fst (rs_Sessions st), map fst (rs_AuthRequests st), map fst (rs_AuthCodes st), map fst (rs_RefreshTokens st),
      map fst (rs_ConsumedRefreshTokens st), map fst (rs_RevokedJTIs st), map fst (rs_WebAuthnReg st), map fst (rs_WebAuthnLog st)]"

text \<open>What a snapshot shows afterwards is what it showed before, overwritten by the given entries.\<close>

definition merged :: "(StoredRuntimeState \<Rightarrow> (string \<times> 'v) list) \<Rightarrow> StoredRuntimeState \<Rightarrow> Store \<Rightarrow> Store \<Rightarrow> bool" where
  "merged f state s s' \<longleftrightarrow> map_of (f (RuntimeSnapshot s')) = map_of (f (RuntimeSnapshot s)) ++ map_of (f state)"

lemma seed_error:
  assumes "db_open s"
  shows "(\<exists>err. SeedRuntimeState state s = (Inl err, s)) \<longleftrightarrow> \<not> list_all keys_ok (runtime_keys state)"
  using assms
  by (auto simp: SeedRuntimeState_def db_update_def runtime_keys_def seedBucketTx_ok dest: seedBucketTx_keys split: sum.splits)

text \<open>
  Seeding merges, it does not replace: a seed that succeeds leaves every entry whose key it does
  not name, and a snapshot taken afterwards shows the old entries overwritten by the new ones; it
  fails, and then changes nothing, exactly if a key is empty or too long.
\<close>

theorem seed_merges:
  assumes "store_ok s" and "db_open s" and "list_all distinct (runtime_keys state)"
  shows "if list_all keys_ok (runtime_keys state)
    then \<exists>s'. SeedRuntimeState state s = (Inr (), s') \<and> merged rs_Sessions state s s' \<and> merged rs_AuthRequests state s s' \<and>
      merged rs_AuthCodes state s s' \<and> merged rs_RefreshTokens state s s' \<and> merged rs_ConsumedRefreshTokens state s s' \<and>
      merged rs_RevokedJTIs state s s' \<and> merged rs_WebAuthnReg state s s' \<and> merged rs_WebAuthnLog state s s'
    else \<exists>err. SeedRuntimeState state s = (Inl err, s)"
proof (cases "list_all keys_ok (runtime_keys state)")
  case False
  then show ?thesis using seed_error [OF assms(2)] by simp
next
  case True
  then obtain s' where s': "SeedRuntimeState state s = (Inr (), s')"
    "s' = s\<lparr>db_sessions := fold (\<lambda>(k, v). bput k v) (rs_Sessions state) (db_sessions s),
            db_authRequests := fold (\<lambda>(k, v). bput k v) (rs_AuthRequests state) (db_authRequests s),
            db_authCodes := fold (\<lambda>(k, v). bput k v) (rs_AuthCodes state) (db_authCodes s),
            db_refreshTokens := fold (\<lambda>(k, v). bput k v) (rs_RefreshTokens state) (db_refreshTokens s),
            db_consumedRefreshTokens := fold (\<lambda>(k, v). bput k v) (rs_ConsumedRefreshTokens state) (db_consumedRefreshTokens s),
            db_revokedJTIs := fold (\<lambda>(k, v). bput k v) (rs_RevokedJTIs state) (db_revokedJTIs s),
            db_webauthnReg := fold (\<lambda>(k, v). bput k v) (rs_WebAuthnReg state) (db_webauthnReg s),
            db_webauthnLog := fold (\<lambda>(k, v). bput k v) (rs_WebAuthnLog state) (db_webauthnLog s)\<rparr>"
    using assms(2) by (simp add: SeedRuntimeState_def db_update_def runtime_keys_def seedBucketTx_ok)
  have ok: "bucket_ok (db_sessions s)" "bucket_ok (db_authRequests s)" "bucket_ok (db_authCodes s)" "bucket_ok (db_refreshTokens s)"
    "bucket_ok (db_consumedRefreshTokens s)" "bucket_ok (db_revokedJTIs s)" "bucket_ok (db_webauthnReg s)" "bucket_ok (db_webauthnLog s)"
    using assms(1) by (simp_all add: store_ok_def)
  note facts = merged_def RuntimeSnapshot_def assms(2) s'(2) fold_bput_view ok assms(3) [unfolded runtime_keys_def, simplified]
  have "merged rs_Sessions state s s'" "merged rs_AuthRequests state s s'" "merged rs_AuthCodes state s s'"
    "merged rs_RefreshTokens state s s'" "merged rs_ConsumedRefreshTokens state s s'" "merged rs_RevokedJTIs state s s'"
    "merged rs_WebAuthnReg state s s'" "merged rs_WebAuthnLog state s s'"
    by (simp_all add: facts)
  with s'(1) True show ?thesis by simp
qed

end
