(* ===== verification/Flow.thy ===== *)
theory Flow
  imports OAuth
begin

text \<open>
  From a redirect with a code to the tokens: what the token endpoint answers to the client that the
  code was made for.  These lemmas carry the flow through the broker and through the example client.
\<close>

lemma hash_secret_key:
  assumes "\<And>b. length (g_sha256 (e_lib e) b) = 32"
  shows "hash_secret e x \<noteq> []" "length (hash_secret e x) \<le> 32768"
proof -
  have "length (hex_encode bs) = 2 * length bs" for bs by (induction bs) auto
  then have "length (hash_secret e x) = 64" using assms by (simp add: hash_secret_def hashSecret_def)
  then show "hash_secret e x \<noteq> []" "length (hash_secret e x) \<le> 32768" by auto
qed

lemma signJWT_total:
  assumes "\<And>m. g_json_marshal (e_lib e) m \<noteq> None" and "\<And>h. g_rsa_sign (e_lib e) (key_Private (e_activeKey e)) h \<noteq> None"
  shows "\<exists>t. signJWT e c = Inr t"
proof -
  obtain hb cb where "g_json_marshal (e_lib e) (jwt_header e) = Some hb" "g_json_marshal (e_lib e) c = Some cb"
    using assms(1) by blast
  moreover obtain sig where "g_rsa_sign (e_lib e) (key_Private (e_activeKey e)) (sha_str e (base64RawURL hb @ ''.'' @ base64RawURL cb)) = Some sig"
    using assms(2) by blast
  ultimately show ?thesis by (simp add: signJWT_def Let_def)
qed

lemma issueUserTokens_total:
  assumes "\<And>b. length (g_sha256 (e_lib e) b) = 32" and "\<And>c. \<exists>t. signJWT e c = Inr t" and "db_open (st_db s)"
  shows "\<exists>resp s'. issueUserTokens e u c sc nonce at amr inc s = (Inr resp, s')"
proof -
  have d: "db_open (st_db s1)" if "randomB64 e n s2 = (y, s1)" "db_open (st_db s2)" for n y s1 s2
    using that effects_db(3) [of e n s2] by simp
  have p: "\<exists>s2. on_db (PutRefreshToken (hash_secret e y) rt) s1 = (Inr (), s2)" if "db_open (st_db s1)" for y rt s1
    using that hash_secret_key [OF assms(1)] by (simp add: on_db_eq db_simps)
  obtain j s1 where j: "randomB64 e 16 s = (j, s1)" by fastforce
  obtain y s2 where y: "randomB64 e 32 s1 = (y, s2)" by fastforce
  obtain f s3 where f: "randomB64 e 16 s2 = (f, s3)" by fastforce
  obtain a where a: "signJWT e (addScopedProfileClaims e s1 (GetUser u (st_db s)) sc c (access_claims e u c sc j)) = Inr a"
    using assms(2) by blast
  obtain t where t: "signJWT e (addScopedProfileClaims e s1 (GetUser u (st_db s)) sc c (id_claims e u c nonce at amr a)) = Inr t"
    using assms(2) by blast
  have "db_open (st_db s3)" using d j y f assms(3) by blast
  from p [OF this] obtain s4 where "on_db (PutRefreshToken (hash_secret e y)
      \<lparr>rt_UserID = u, rt_ClientID = c, rt_Scope = sc, rt_AuthTime = at, rt_ExpiresAt = e_now e + refresh_ttl e,
       rt_AMR = amr, rt_FamilyID = f, rt_Generation = 0\<rparr>) s3 = (Inr (), s4)" by blast
  then show ?thesis using j y f a t by (simp add: issueUserTokens_def Let_def)
qed

text \<open>The claims that the profile cannot overwrite.\<close>

lemma scoped_claims_keep:
  "k \<notin> {''email'', ''name'', ''groups''} \<Longrightarrow> addScopedProfileClaims e s user sc c target k = target k"
  by (auto simp: addScopedProfileClaims_def Let_def split: option.split)

lemma id_claims_keys:
  "id_claims e u c nonce at amr a ''sub'' = Some (JStr u)"
  "id_claims e u c nonce at amr a ''nonce'' = (if nonce = [] then None else Some (JStr nonce))"
  by (simp_all add: id_claims_def Let_def)

lemma issueUserTokens_tokens:
  assumes "issueUserTokens e u c sc nonce at amr inc s = (Inr resp, s')" and "scopeIncludes sc scopeOpenID"
  obtains access idtok claims c' where "resp ''access_token'' = Some (JStr access)" "signJWT e c' = Inr access"
    "resp ''id_token'' = Some (JStr idtok)" "signJWT e claims = Inr idtok"
    "claims ''sub'' = Some (JStr u)" "claims ''nonce'' = (if nonce = [] then None else Some (JStr nonce))"
proof -
  obtain j s1 where j: "randomB64 e 16 s = (j, s1)" by fastforce
  let ?ac = "addScopedProfileClaims e s1 (GetUser u (st_db s)) sc c (access_claims e u c sc j)"
  from assms j obtain access where a: "signJWT e ?ac = Inr access"
    by (auto simp: issueUserTokens_def Let_def split: sum.splits)
  let ?ic = "addScopedProfileClaims e s1 (GetUser u (st_db s)) sc c (id_claims e u c nonce at amr access)"
  from assms j a obtain idtok where i: "signJWT e ?ic = Inr idtok"
    by (auto simp: issueUserTokens_def Let_def split: sum.splits)
  have "resp ''access_token'' = Some (JStr access)" "resp ''id_token'' = Some (JStr idtok)"
    using assms j a i by (auto simp: issueUserTokens_def Let_def split: if_splits prod.splits sum.splits)
  with that [OF _ a _ i] show thesis by (simp add: scoped_claims_keep id_claims_keys)
qed

text \<open>A code that was redirected with is stored under its hash.\<close>

lemma code_stored:
  assumes "issueCodeRedirect e ar sess s = (Inr redirect, s1)" and "e_lib e2 = e_lib e"
  shows "db_open (st_db s1)" "code_at (st_db s1) (hash_secret e2 (fst (randomB64 e 32 s))) = Some (Json (code_for e ar sess))"
proof -
  obtain acode s0 where r: "randomB64 e 32 s = (acode, s0)" by fastforce
  have key: "hash_secret e2 acode = hash_secret e acode" using assms(2) by (simp add: hash_secret_def)
  from assms(1) r have "\<exists>u s'. on_db (PutAuthCode (hash_secret e acode) (code_for e ar sess)) s0 = (Inr u, s') \<and> s1 = s'"
    by (auto simp: issueCodeRedirect_def split: sum.splits prod.splits option.splits)
  then show "db_open (st_db s1)" "code_at (st_db s1) (hash_secret e2 (fst (randomB64 e 32 s))) = Some (Json (code_for e ar sess))"
    using r key by (auto simp: on_db_eq db_simps bget_bput)
qed

text \<open>A stored code, exchanged in time with everything it is bound to, gives tokens.\<close>

lemma code_redeemed:
  assumes "db_open (st_db s)" and "code_at (st_db s) (hash_secret e (form ''code'')) = Some (Json ac)"
    and "form ''redirect_uri'' = ac_RedirectURI ac" and "c_ClientID client = ac_ClientID ac" and "e_now e \<le> ac_ExpiresAt ac"
    and "ac_CodeChallenge ac = [] \<or> ac_CodeChallengeMethod ac = ''S256'' \<and> validPKCEVerifier (form ''code_verifier'') \<and>
           ac_CodeChallenge ac = base64RawURL (g_sha256 (e_lib e) (bytes_of (form ''code_verifier'')))"
    and "\<And>b. length (g_sha256 (e_lib e) b) = 32"
    and "\<And>m. g_json_marshal (e_lib e) m \<noteq> None" and "\<And>h. g_rsa_sign (e_lib e) (key_Private (e_activeKey e)) h \<noteq> None"
  obtains resp s1 s2 inc s3 where "tokenAuthorizationCode e r form client s = (Resp 200 (JsonBody resp), s1)"
    "issueUserTokens e (ac_UserID ac) (c_ClientID client) (ac_Scope ac) (ac_Nonce ac) (ac_AuthTime ac) (ac_AMR ac) inc s2 = (Inr resp, s3)"
proof -
  let ?key = "hash_secret e (form ''code'')"
  let ?s = "s\<lparr>st_db := (st_db s)\<lparr>db_authCodes := bdel ?key (db_authCodes (st_db s))\<rparr>\<rparr>"
  have consume: "on_db (ConsumeAuthCode ?key) s = (Inr (Some ac), ?s)" using assms(1,2) by (simp add: on_db_eq db_simps)
  have pkce: "ac_CodeChallenge ac \<noteq> [] \<longrightarrow>
      verifyPKCE (g_sha256 (e_lib e)) (ac_CodeChallenge ac) (ac_CodeChallengeMethod ac) (form ''code_verifier'')"
    using assms(6) by (auto simp: verifyPKCE_def)
  have total: "\<exists>t. signJWT e cl = Inr t" for cl using signJWT_total [of e] assms(8,9) by simp
  let ?inc = "c_AllowOfflineAccess client \<and> scopeIncludes (ac_Scope ac) scopeOfflineAccess"
  obtain resp s2 where i: "issueUserTokens e (ac_UserID ac) (c_ClientID client) (ac_Scope ac) (ac_Nonce ac)
      (ac_AuthTime ac) (ac_AMR ac) ?inc ?s = (Inr resp, s2)"
    using issueUserTokens_total [of e ?s] assms(1,7) total by fastforce
  have "\<exists>s1. tokenAuthorizationCode e r form client s = (Resp 200 (JsonBody resp), s1)"
    using consume pkce i assms(3-5) by (auto simp: tokenAuthorizationCode_def Let_def)
  with i that show thesis by blast
qed

end
