(* ===== verification/Html.thy ===== *)
theory Html
  imports Broker
begin

text \<open>
  The pages are templates of \<^verbatim>\<open>html/template\<close>.  This theory holds what the repository uses of that
  package: the actions \<^verbatim>\<open>{{.X}}\<close>, \<^verbatim>\<open>if\<close> (\<open>Cond\<close>), \<^verbatim>\<open>range\<close> and \<^verbatim>\<open>with\<close>, and the contextual escaping.  The package
  follows the markup through the text of a template, branch by branch, finds the context of every
  action and chooses the escaper from it; it refuses a template whose branches end in different contexts.
  Here the contexts are \<open>html_ctx\<close>, the way through the text is \<open>scan\<close> and \<open>after\<close>, the choice
  is \<open>place_of\<close> and the acceptance \<open>escapable\<close>.  Actions in contexts that no page uses, for which the package has
  other escapers (scripts, styles, names, values without quotes, queries of URLs), are refused here.
\<close>

section \<open>Escaping\<close>

text \<open>The table \<^verbatim>\<open>htmlReplacementTable\<close>; it serves text, titles, text areas and quoted attributes alike.\<close>

definition html_escape_char :: "char \<Rightarrow> string" where
  "html_escape_char c =
     (if c = CHR 0x00 then [CHR 0xEF, CHR 0xBF, CHR 0xBD]
      else if c = CHR 0x22 then ''&#34;''
      else if c = CHR ''&'' then ''&amp;''
      else if c = CHR 0x27 then ''&#39;''
      else if c = CHR ''+'' then ''&#43;''
      else if c = CHR ''<'' then ''&lt;''
      else if c = CHR ''>'' then ''&gt;''
      else [c])"

definition html_escape :: "string \<Rightarrow> string" where
  "html_escape s = concat (map html_escape_char s)"

text \<open>The package's \<^verbatim>\<open>isSafeURL\<close>, \<^verbatim>\<open>urlFilter\<close> and \<^verbatim>\<open>urlNormalizer\<close>.\<close>

definition isSafeURL :: "golib \<Rightarrow> string \<Rightarrow> bool" where
  "isSafeURL G s =
     (CHR '':'' \<in> set s \<longrightarrow>
        (let protocol = takeWhile ((\<noteq>) CHR '':'') s
         in CHR ''/'' \<in> set protocol \<or> EqualFold G protocol ''http'' \<or> EqualFold G protocol ''https'' \<or> EqualFold G protocol ''mailto''))"

definition urlFilter :: "golib \<Rightarrow> string \<Rightarrow> string" where
  "urlFilter G s = (if isSafeURL G s then s else ''#ZgotmplZ'')"

fun urlNormalizer :: "string \<Rightarrow> string" where
  "urlNormalizer [] = []"
| "urlNormalizer (c # s) =
     (if c \<in> set ''!#$&*+,/:;=?@[]'' \<or> unreserved c \<or>
         c = CHR ''%'' \<and> length s \<ge> 2 \<and> hex_val (s ! 0) \<noteq> None \<and> hex_val (s ! 1) \<noteq> None
      then [c] else CHR ''%'' # hex_encode [byte_of c]) @ urlNormalizer s"

text \<open>The escapers of a value: in text or an attribute, at the start of a URL, and further on in its path.\<close>

datatype place = InText | AtURL | InURL

fun escape :: "golib \<Rightarrow> place \<Rightarrow> string \<Rightarrow> string" where
  "escape G InText s = html_escape s"
| "escape G AtURL s = html_escape (urlNormalizer (urlFilter G s))"
| "escape G InURL s = html_escape (urlNormalizer s)"

section \<open>Contexts\<close>

text \<open>
  What an attribute holds, by its name (the package's \<^verbatim>\<open>attrType\<close>): plain text, a URL, or something
  with an escaper of its own (scripts, styles, documents, lists of URLs, prefixed names).
\<close>

datatype attr_kind = PlainAttr | URLAttr | OtherAttr

definition url_attrs :: "string list" where
  "url_attrs =
     [''action'', ''archive'', ''background'', ''cite'', ''classid'', ''codebase'', ''data'', ''formaction'', ''href'',
      ''icon'', ''longdesc'', ''manifest'', ''poster'', ''profile'', ''src'', ''usemap'', ''xmlns'']"

definition attrType :: "string \<Rightarrow> attr_kind" where
  "attrType name0 =
     (let name = (if HasPrefix name0 ''data-'' then drop 5 name0 else name0) in
      if name \<in> set url_attrs then URLAttr
      else if Contains name0 '':'' \<or> HasPrefix name ''on'' \<or> name \<in> set [''style'', ''srcset'', ''srcdoc''] then OtherAttr
      else if Contains name ''src'' \<or> Contains name ''uri'' \<or> Contains name ''url'' then URLAttr
      else PlainAttr)"

text \<open>
  Where the scanner is: in text; after a less-than sign, with or without a slash; in a
  declaration; in the name of a tag (an end tag has a slash in its name); inside a tag between
  attributes; in, or after, an attribute's name; before its value; in a value in double (or single)
  quotes, with the part of a URL; in a value without quotes; in a script or a style with the length of the
  end tag seen so far; or lost.
\<close>

datatype url_part = NoPart | PreQuery | QueryOrFrag

datatype html_ctx =
    CText | COpen | CClose | CDecl | CTagName string | CTag string | CName string string | CAfter string string
  | CBefore string string | CVal string bool attr_kind url_part | CUnquoted string | CRaw string nat | CLost

definition html_space :: "char \<Rightarrow> bool" where
  "html_space c = (c \<in> {CHR '' '', CHR 0x0A, CHR 0x09, CHR 0x0D, CHR 0x0C})"

definition ascii_letter :: "char \<Rightarrow> bool" where
  "ascii_letter c = (c \<in> set ''abcdefghijklmnopqrstuvwxyzABCDEFGHIJKLMNOPQRSTUVWXYZ'')"

definition quote_char :: "bool \<Rightarrow> char" where
  "quote_char dbl = (if dbl then CHR 0x22 else CHR 0x27)"

text \<open>Lower case for an ASCII letter, on the bits of the character.\<close>

fun html_lower :: "char \<Rightarrow> char" where
  "html_lower (Char b0 b1 b2 b3 b4 b5 b6 b7) =
     Char b0 b1 b2 b3 b4
       (b5 \<or> b6 \<and> \<not> b7 \<and> (b0 \<or> b1 \<or> b2 \<or> b3 \<or> b4) \<and> \<not> (b4 \<and> b3 \<and> (b2 \<or> b1 \<and> b0))) b6 b7"

text \<open>After a tag: the content of scripts and styles is not HTML.\<close>

definition tag_done :: "string \<Rightarrow> html_ctx" where
  "tag_done n = (let m = map html_lower n in if m = ''script'' \<or> m = ''style'' then CRaw m 0 else CText)"

definition in_tag :: "string \<Rightarrow> char \<Rightarrow> html_ctx" where
  "in_tag n c =
     (if c = CHR ''>'' then tag_done n
      else if html_space c \<or> c = CHR ''/'' then CTag n
      else if c \<in> {CHR 0x22, CHR 0x27, CHR ''<'', CHR ''=''} then CLost
      else CName n [html_lower c])"

definition url_after :: "attr_kind \<Rightarrow> url_part \<Rightarrow> char \<Rightarrow> url_part" where
  "url_after k p c =
     (if k \<noteq> URLAttr then p
      else if c = CHR ''?'' \<or> c = CHR ''#'' then QueryOrFrag
      else if p = NoPart \<and> \<not> html_space c then PreQuery else p)"

fun ctx_step :: "html_ctx \<Rightarrow> char \<Rightarrow> html_ctx" where
  "ctx_step CText c = (if c = CHR ''<'' then COpen else CText)"
| "ctx_step COpen c =
     (if c = CHR ''/'' then CClose else if c = CHR ''!'' then CDecl else if ascii_letter c then CTagName [c] else CLost)"
| "ctx_step CClose c = (if ascii_letter c then CTagName (CHR ''/'' # [c]) else CLost)"
| "ctx_step CDecl c = (if c = CHR ''>'' then CText else CDecl)"
| "ctx_step (CTagName n) c =
     (if c = CHR ''>'' \<or> html_space c \<or> c = CHR ''/'' \<or> c \<in> {CHR 0x22, CHR 0x27, CHR ''<'', CHR ''=''} then in_tag n c
      else CTagName (n @ [c]))"
| "ctx_step (CTag n) c = in_tag n c"
| "ctx_step (CName n a) c =
     (if c = CHR ''='' then CBefore n a
      else if html_space c then CAfter n a
      else if c = CHR ''>'' \<or> c = CHR ''/'' \<or> c \<in> {CHR 0x22, CHR 0x27, CHR ''<''} then in_tag n c
      else CName n (a @ [html_lower c]))"
| "ctx_step (CAfter n a) c = (if c = CHR ''='' then CBefore n a else if html_space c then CAfter n a else in_tag n c)"
| "ctx_step (CBefore n a) c =
     (if html_space c then CBefore n a
      else if c = CHR 0x22 then CVal n True (attrType a) NoPart
      else if c = CHR 0x27 then CVal n False (attrType a) NoPart
      else if c = CHR ''>'' then CLost else CUnquoted n)"
| "ctx_step (CVal n dbl k p) c = (if c = quote_char dbl then CTag n else CVal n dbl k (url_after k p c))"
| "ctx_step (CUnquoted n) c =
     (if html_space c \<or> c = CHR ''>'' then in_tag n c
      else if c \<in> {CHR 0x22, CHR 0x27, CHR ''<'', CHR ''=''} then CLost else CUnquoted n)"
| "ctx_step (CRaw n k) c =
     (let e = ''</'' @ n in
      if html_lower c = e ! k then (if Suc k = length e then CTagName (CHR ''/'' # n) else CRaw n (Suc k))
      else CRaw n (if c = CHR ''<'' then 1 else 0))"
| "ctx_step CLost c = CLost"

fun scan :: "html_ctx \<Rightarrow> string \<Rightarrow> html_ctx" where
  "scan c [] = c"
| "scan c (x # xs) = scan (ctx_step c x) xs"

text \<open>The escaper for a value in a context, where there is one.\<close>

fun place_of :: "html_ctx \<Rightarrow> place option" where
  "place_of CText = Some InText"
| "place_of (CVal n dbl PlainAttr p) = Some InText"
| "place_of (CVal n dbl URLAttr NoPart) = Some AtURL"
| "place_of (CVal n dbl URLAttr PreQuery) = Some InURL"
| "place_of _ = None"

section \<open>Templates\<close>

text \<open>A reference starts at the dot, at the data of the page (\<^verbatim>\<open>$\<close>), or is the index of the range around it.\<close>

datatype tref = Dot "string list" | Root "string list" | Idx

datatype tmpl =
    Txt "string list"
  | Put tref
  | Cond tref "tmpl list" "tmpl list"
  | Range tref "tmpl list" "tmpl list"
  | With tref "tmpl list"

text \<open>A field of nested maps and structs; a map without the key gives nil.\<close>

fun fld :: "json \<Rightarrow> string list \<Rightarrow> json" where
  "fld j [] = j"
| "fld (JObj kvs) (k # ks) = (case map_of kvs k of None \<Rightarrow> JNull | Some v \<Rightarrow> fld v ks)"
| "fld j (k # ks) = JNull"

fun deref :: "json \<Rightarrow> json \<Rightarrow> nat \<Rightarrow> tref \<Rightarrow> json" where
  "deref root dot i (Dot p) = fld dot p"
| "deref root dot i (Root p) = fld root p"
| "deref root dot i Idx = JInt (int i)"

fun truth :: "json \<Rightarrow> bool" where
  "truth JNull = False"
| "truth (JBool b) = b"
| "truth (JInt n) = (n \<noteq> 0)"
| "truth (JReal s) = (s \<noteq> ''0'')"
| "truth (JStr s) = (s \<noteq> [])"
| "truth (JArr xs) = (xs \<noteq> [])"
| "truth (JObj kvs) = (kvs \<noteq> [])"

text \<open>\<^verbatim>\<open>fmt.Sprint\<close>; nil prints nothing.\<close>

fun sprint :: "json \<Rightarrow> string" where
  "sprint JNull = []"
| "sprint (JBool b) = (if b then ''true'' else ''false'')"
| "sprint (JInt n) = Itoa n"
| "sprint (JReal s) = s"
| "sprint (JStr s) = s"
| "sprint (JArr xs) = ''['' @ Join (map sprint xs) '' '' @ '']''"
| "sprint (JObj kvs) = ''{'' @ Join (map (\<lambda>(k, v). sprint v) kvs) '' '' @ ''}''"

text \<open>What \<^verbatim>\<open>range\<close> goes through.\<close>

fun elems :: "json \<Rightarrow> json list" where
  "elems (JArr xs) = xs"
| "elems _ = []"

text \<open>
  The context after a template, and whether the package escapes it.  A text is given by its
  lines.  Both branches of a condition end in the same context; a loop and a \<^verbatim>\<open>with\<close>, which may be left
  out, end where they begin.
\<close>

abbreviation text_of :: "string list \<Rightarrow> string" where
  "text_of ls \<equiv> Join ls [CHR 0x0A]"

fun after :: "html_ctx \<Rightarrow> tmpl \<Rightarrow> html_ctx"
  and afters :: "html_ctx \<Rightarrow> tmpl list \<Rightarrow> html_ctx" where
  "after c (Txt ls) = scan c (text_of ls)"
| "after c (Put r) = c"
| "after c (Cond r a b) = afters c a"
| "after c (Range r a b) = c"
| "after c (With r a) = c"
| "afters c [] = c"
| "afters c (t # ts) = afters (after c t) ts"

fun escapable :: "html_ctx \<Rightarrow> tmpl \<Rightarrow> bool"
  and escapables :: "html_ctx \<Rightarrow> tmpl list \<Rightarrow> bool" where
  "escapable c (Txt ls) = True"
| "escapable c (Put r) = (place_of c \<noteq> None)"
| "escapable c (Cond r a b) = (escapables c a \<and> escapables c b \<and> afters c a = afters c b)"
| "escapable c (Range r a b) = (escapables c a \<and> escapables c b \<and> afters c a = c \<and> afters c b = c)"
| "escapable c (With r a) = (escapables c a \<and> afters c a = c)"
| "escapables c [] = True"
| "escapables c (t # ts) = (escapable c t \<and> escapables (after c t) ts)"

definition accepted :: "tmpl list \<Rightarrow> bool" where
  "accepted ts = (escapables CText ts \<and> afters CText ts = CText)"

text \<open>Execution.  \<^verbatim>\<open>Execute\<close> of a template that is not accepted writes nothing and gives an error.\<close>

fun exec :: "golib \<Rightarrow> html_ctx \<Rightarrow> json \<Rightarrow> json \<Rightarrow> nat \<Rightarrow> tmpl \<Rightarrow> string"
  and execs :: "golib \<Rightarrow> html_ctx \<Rightarrow> json \<Rightarrow> json \<Rightarrow> nat \<Rightarrow> tmpl list \<Rightarrow> string" where
  "exec G c root dot i (Txt ls) = text_of ls"
| "exec G c root dot i (Put r) =
     (case place_of c of None \<Rightarrow> [] | Some p \<Rightarrow> escape G p (sprint (deref root dot i r)))"
| "exec G c root dot i (Cond r a b) = (if truth (deref root dot i r) then execs G c root dot i a else execs G c root dot i b)"
| "exec G c root dot i (Range r a b) =
     (if elems (deref root dot i r) = [] then execs G c root dot i b
      else concat (map (\<lambda>(n, y). execs G c root y n a) (enumerate 0 (elems (deref root dot i r)))))"
| "exec G c root dot i (With r a) =
     (if truth (deref root dot i r) then execs G c root (deref root dot i r) i a else [])"
| "execs G c root dot i [] = []"
| "execs G c root dot i (t # ts) = exec G c root dot i t @ execs G (after c t) root dot i ts"

definition execute :: "golib \<Rightarrow> tmpl list \<Rightarrow> (string \<times> json) list \<Rightarrow> string" where
  "execute G ts data = (if accepted ts then execs G CText (JObj data) (JObj data) 0 ts else [])"

text \<open>Every field that the page shows is there, and what it goes through is a list.\<close>

fun filled :: "json \<Rightarrow> json \<Rightarrow> nat \<Rightarrow> tmpl \<Rightarrow> bool"
  and filleds :: "json \<Rightarrow> json \<Rightarrow> nat \<Rightarrow> tmpl list \<Rightarrow> bool" where
  "filled root dot i (Txt ls) = True"
| "filled root dot i (Put r) = (deref root dot i r \<noteq> JNull)"
| "filled root dot i (Cond r a b) = (if truth (deref root dot i r) then filleds root dot i a else filleds root dot i b)"
| "filled root dot i (Range r a b) =
     (case deref root dot i r of
        JArr xs \<Rightarrow> if xs = [] then filleds root dot i b else (\<forall>(n, y) \<in> set (enumerate 0 xs). filleds root y n a)
      | _ \<Rightarrow> False)"
| "filled root dot i (With r a) = (truth (deref root dot i r) \<longrightarrow> filleds root (deref root dot i r) i a)"
| "filleds root dot i [] = True"
| "filleds root dot i (t # ts) = (filled root dot i t \<and> filleds root dot i ts)"

section \<open>Data cannot make markup\<close>

definition is_markup :: "char \<Rightarrow> bool" where
  "is_markup c = (c \<in> {CHR ''<'', CHR ''>'', CHR 0x22, CHR 0x27})"

abbreviation markup :: "string \<Rightarrow> string" where
  "markup \<equiv> filter is_markup"

lemma markup_escaped [simp]: "markup (html_escape s) = []"
proof -
  have "markup (html_escape_char c) = []" for c
    unfolding html_escape_char_def by (simp add: is_markup_def)
  then show ?thesis by (simp add: html_escape_def filter_concat)
qed

lemma markup_escape [simp]: "markup (escape G p s) = []"
  by (cases p) simp_all

text \<open>Data of the same shape: they agree in all but their non-empty strings.\<close>

fun alike :: "json \<Rightarrow> json \<Rightarrow> bool" where
  "alike JNull y = (y = JNull)"
| "alike (JBool b) y = (y = JBool b)"
| "alike (JInt n) y = (y = JInt n)"
| "alike (JReal s) y = (y = JReal s)"
| "alike (JStr s) y = (\<exists>t. y = JStr t \<and> (s = [] \<longleftrightarrow> t = []))"
| "alike (JArr xs) y = (case y of JArr ys \<Rightarrow> list_all2 alike xs ys | _ \<Rightarrow> False)"
| "alike (JObj xs) y =
     (case y of JObj ys \<Rightarrow> list_all2 (\<lambda>p q. fst p = fst q \<and> alike (snd p) (snd q)) xs ys | _ \<Rightarrow> False)"

lemma alike_truth: "alike x y \<Longrightarrow> truth x = truth y"
  by (cases x) (auto dest: list_all2_lengthD split: json.splits)

lemma alike_map_of:
  "list_all2 (\<lambda>p q. fst p = fst q \<and> alike (snd p) (snd q)) xs ys \<Longrightarrow> rel_option alike (map_of xs k) (map_of ys k)"
  by (induction xs ys rule: list_all2_induct) auto

lemma alike_fld: "alike x y \<Longrightarrow> alike (fld x p) (fld y p)"
proof (induction p arbitrary: x y)
  case (Cons k ks)
  show ?case
  proof (cases x)
    case (JObj kvs)
    then obtain kvs' where y: "y = JObj kvs'" using Cons.prems by (auto split: json.splits)
    then have "rel_option alike (map_of kvs k) (map_of kvs' k)" using Cons.prems JObj by (simp add: alike_map_of)
    then show ?thesis using Cons.IH JObj y by (auto elim!: option.rel_cases)
  qed (use Cons.prems in \<open>auto split: json.splits\<close>)
qed simp

lemma alike_deref: "alike root root' \<Longrightarrow> alike dot dot' \<Longrightarrow> alike (deref root dot i r) (deref root' dot' i r)"
  by (cases r) (simp_all add: alike_fld)

lemma alike_elems: "alike x y \<Longrightarrow> list_all2 alike (elems x) (elems y)"
  by (cases x) (auto split: json.splits)

lemma enumerate_alike:
  assumes "list_all2 R xs ys" and "\<And>n x y. (n, x) \<in> set (enumerate k xs) \<Longrightarrow> R x y \<Longrightarrow> f n x = g n y"
  shows "map (\<lambda>p. f (fst p) (snd p)) (enumerate k xs) = map (\<lambda>p. g (fst p) (snd p)) (enumerate k ys)"
  using assms by (induction xs ys arbitrary: k rule: list_all2_induct) auto

text \<open>
  The skeleton of a page: what is left when the text and the values of attributes in quotes are
  taken out.  It has every tag with its name, the names of its attributes, the quotes, values without
  quotes, declarations, scripts and styles.
\<close>

fun structural :: "html_ctx \<Rightarrow> char \<Rightarrow> bool" where
  "structural CText x = (x = CHR ''<'')"
| "structural (CVal n dbl k p) x = (x = quote_char dbl)"
| "structural c x = True"

fun skeleton :: "html_ctx \<Rightarrow> string \<Rightarrow> string" where
  "skeleton c [] = []"
| "skeleton c (x # xs) = (if structural c x then [x] else []) @ skeleton (ctx_step c x) xs"

lemma scan_append: "scan c (s @ t) = scan (scan c s) t"
  by (induction s arbitrary: c) simp_all

lemma skeleton_append: "skeleton c (s @ t) = skeleton c s @ skeleton (scan c s) t"
  by (induction s arbitrary: c) simp_all

text \<open>Contexts that differ in the part of a URL only have the same skeletons after them.\<close>

fun coarse :: "html_ctx \<Rightarrow> html_ctx" where
  "coarse (CVal n dbl k p) = CVal n dbl k NoPart"
| "coarse c = c"

lemma coarse_cases:
  assumes "coarse c = coarse d"
  obtains "c = d" | n dbl k p q where "c = CVal n dbl k p" "d = CVal n dbl k q"
  using assms by (cases c; cases d) auto

lemma coarse_step: "coarse c = coarse d \<Longrightarrow> coarse (ctx_step c x) = coarse (ctx_step d x) \<and> structural c x = structural d x"
  by (erule coarse_cases) simp_all

lemma coarse_scan: "coarse c = coarse d \<Longrightarrow> coarse (scan c s) = coarse (scan d s) \<and> skeleton c s = skeleton d s"
proof (induction s arbitrary: c d)
  case (Cons x s)
  from Cons.IH [of "ctx_step c x" "ctx_step d x"] coarse_step [OF Cons.prems] show ?case by simp
qed simp

text \<open>A value without markup leaves no trace in a context that has an escaper.\<close>

lemma value_invisible:
  assumes "place_of c \<noteq> None" and "markup s = []"
  shows "skeleton c s = [] \<and> coarse (scan c s) = coarse c"
  using assms(2)
proof (induction s)
  case (Cons x s)
  then have m: "\<not> is_markup x" "markup s = []" by (simp_all split: if_splits)
  then have x: "x \<noteq> CHR ''<''" "x \<noteq> CHR 0x22" "x \<noteq> CHR 0x27" by (simp_all add: is_markup_def)
  have step: "\<not> structural c x" "coarse (ctx_step c x) = coarse c"
    using assms(1) x by (cases c; simp add: quote_char_def)+
  from Cons.IH [OF m(2)] coarse_scan [OF step(2), of s] step show ?case by simp
qed simp

lemma scan_concat: "\<forall>x \<in> set xs. coarse (scan c x) = coarse c \<Longrightarrow> coarse (scan c (concat xs)) = coarse c"
proof (induction xs)
  case (Cons x xs)
  then have "coarse (scan c x) = coarse c" by simp
  from coarse_scan [OF this, of "concat xs"] Cons show ?case by (simp add: scan_append)
qed simp

lemma skeleton_concat:
  "\<forall>x \<in> set xs. coarse (scan c x) = coarse c \<Longrightarrow> skeleton c (concat xs) = concat (map (skeleton c) xs)"
proof (induction xs)
  case (Cons x xs)
  then have "coarse (scan c x) = coarse c" by simp
  from coarse_scan [OF this, of "concat xs"] Cons show ?case by (simp add: skeleton_append)
qed simp

text \<open>The context that was computed from the text of the template is the one on the page.\<close>

lemma exec_scan:
  "escapable c t \<Longrightarrow> coarse (scan c (exec G c root dot i t)) = coarse (after c t)"
  "escapables c ts \<Longrightarrow> coarse (scan c (execs G c root dot i ts)) = coarse (afters c ts)"
proof (induction G c root dot i t and G c root dot i ts rule: exec_execs.induct)
  case (2 G c root dot i r)
  then obtain p where p: "place_of c = Some p" by auto
  from value_invisible [of c "escape G p (sprint (deref root dot i r))"] p show ?case by simp
next
  case (4 G c root dot i r a b)
  show ?case
  proof (cases "elems (deref root dot i r) = []")
    case False
    have "coarse (scan c (execs G c root y n a)) = coarse c" if "(n, y) \<in> set (enumerate 0 (elems (deref root dot i r)))" for n y
      using "4.IH"(2) [OF False that refl] "4.prems" by simp
    then show ?thesis using False by (auto intro!: scan_concat)
  qed (use 4 in simp)
next
  case (7 G c root dot i t ts)
  then have "coarse (scan c (exec G c root dot i t)) = coarse (after c t)" by simp
  from coarse_scan [OF this, of "execs G (after c t) root dot i ts"] 7 show ?case by (simp add: scan_append)
qed simp_all

text \<open>The skeleton of a template does not depend on the strings in its data.\<close>

lemma exec_skeleton:
  "escapable c t \<Longrightarrow> alike root root' \<Longrightarrow> alike dot dot' \<Longrightarrow>
     skeleton c (exec G c root dot i t) = skeleton c (exec G c root' dot' i t)"
  "escapables c ts \<Longrightarrow> alike root root' \<Longrightarrow> alike dot dot' \<Longrightarrow>
     skeleton c (execs G c root dot i ts) = skeleton c (execs G c root' dot' i ts)"
proof (induction G c root dot i t and G c root dot i ts arbitrary: dot' and dot' rule: exec_execs.induct)
  case (2 G c root dot i r)
  then obtain p where p: "place_of c = Some p" by auto
  then have "skeleton c (escape G p v) = []" for v using value_invisible [of c "escape G p v"] by simp
  then show ?case using p by simp
next
  case (4 G c root dot i r a b)
  let ?xs = "elems (deref root dot i r)" and ?ys = "elems (deref root' dot' i r)"
  have e: "list_all2 alike ?xs ?ys" by (rule alike_elems [OF alike_deref [OF "4.prems"(2,3)]])
  then have nil: "?ys = [] \<longleftrightarrow> ?xs = []" by (auto dest: list_all2_lengthD)
  have s: "coarse (scan c (execs G c r0 y n a)) = coarse c" for r0 y n using exec_scan(2) [of c a] "4.prems"(1) by simp
  have "map (\<lambda>p. skeleton c (execs G c root (snd p) (fst p) a)) (enumerate 0 ?xs) =
      map (\<lambda>p. skeleton c (execs G c root' (snd p) (fst p) a)) (enumerate 0 ?ys)" if "?xs \<noteq> []"
    by (rule enumerate_alike [OF e]) (use "4.IH"(2) [OF that _ refl] "4.prems"(1,2) in auto)
  then show ?case
    using "4.IH"(1) "4.prems" nil s by (auto simp: skeleton_concat case_prod_beta comp_def)
next
  case (7 G c root dot i t ts)
  have "coarse (scan c (exec G c r0 d0 i t)) = coarse (after c t)" for r0 d0 using exec_scan(1) "7.prems"(1) by simp
  then have "skeleton (scan c (exec G c r0 d0 i t)) x = skeleton (after c t) x" for r0 d0 x using coarse_scan by blast
  then show ?case using 7 by (simp add: skeleton_append)
qed (auto simp: alike_truth [OF alike_deref] alike_deref)

text \<open>The way through a long text is for evaluation, not for rewriting.\<close>

declare scan.simps(2) [simp del]

lemma afters_append: "afters c (as @ bs) = afters (afters c as) bs"
  by (induction as arbitrary: c) simp_all

lemma execs_append: "execs G c root dot i (as @ bs) = execs G c root dot i as @ execs G (afters c as) root dot i bs"
  by (induction as arbitrary: c) simp_all

lemma filleds_append: "filleds root dot i (as @ bs) \<longleftrightarrow> filleds root dot i as \<and> filleds root dot i bs"
  by (induction as) simp_all

lemma filled_Range:
  assumes "deref root dot i r = JArr xs" and "filleds root dot i b" and "\<And>n y. y \<in> set xs \<Longrightarrow> filleds root y n a"
  shows "filled root dot i (Range r a b)"
  using assms by (auto simp: in_set_enumerate_eq)

section \<open>Text that does not occur\<close>

text \<open>No occurrence of \<open>p\<close> starts in \<open>s\<close>, whatever comes after it.\<close>

definition free_of :: "string \<Rightarrow> string \<Rightarrow> bool" where
  "free_of p s = (\<forall>rest i. i < length s \<longrightarrow> \<not> HasPrefix (drop i (s @ rest)) p)"

lemma free_of_Nil [simp]: "free_of p []"
  by (simp add: free_of_def)

lemma free_of_append: "free_of p s \<Longrightarrow> free_of p t \<Longrightarrow> free_of p (s @ t)"
  unfolding free_of_def
proof (intro allI impI)
  fix rest i
  assume s: "\<forall>rest i. i < length s \<longrightarrow> \<not> HasPrefix (drop i (s @ rest)) p"
    and t: "\<forall>rest i. i < length t \<longrightarrow> \<not> HasPrefix (drop i (t @ rest)) p" and i: "i < length (s @ t)"
  show "\<not> HasPrefix (drop i ((s @ t) @ rest)) p"
  proof (cases "i < length s")
    case True
    then show ?thesis using s [rule_format, of i "t @ rest"] by simp
  next
    case False
    then show ?thesis using t [rule_format, of "i - length s" rest] i by simp
  qed
qed

lemma free_of_concat: "\<forall>s \<in> set ss. free_of p s \<Longrightarrow> free_of p (concat ss)"
  by (induction ss) (auto simp: free_of_append)

lemma free_of_char: "c \<notin> set s \<Longrightarrow> free_of (c # p) s"
  by (auto simp: free_of_def HasPrefix_def drop_Cons' nth_append Cons_nth_drop_Suc [symmetric] dest!: nth_mem)

fun overlap :: "string \<Rightarrow> string \<Rightarrow> bool" where
  "overlap [] s = True"
| "overlap (a # p) [] = True"
| "overlap (a # p) (b # s) = (a = b \<and> overlap p s)"

fun free_text :: "string \<Rightarrow> string \<Rightarrow> bool" where
  "free_text p [] = True"
| "free_text p (c # s) = (\<not> overlap p (c # s) \<and> free_text p s)"

lemma overlap_prefix: "HasPrefix (s @ rest) p \<Longrightarrow> overlap p s"
  by (induction p s rule: overlap.induct) (simp_all add: HasPrefix_def)

lemma free_text_of: "free_text p s \<Longrightarrow> free_of p s"
proof (induction s)
  case (Cons c s)
  then have "free_of p s" and "\<not> HasPrefix ((c # s) @ rest) p" for rest using overlap_prefix by fastforce+
  then show ?case by (auto simp: free_of_def drop_Cons' less_Suc_eq_0_disj)
qed simp

fun tmpl_free :: "string \<Rightarrow> tmpl \<Rightarrow> bool" where
  "tmpl_free p (Txt ls) = free_text p (Join ls [CHR 0x0A])"
| "tmpl_free p (Put r) = True"
| "tmpl_free p (Cond r a b) = (list_all (tmpl_free p) a \<and> list_all (tmpl_free p) b)"
| "tmpl_free p (Range r a b) = (list_all (tmpl_free p) a \<and> list_all (tmpl_free p) b)"
| "tmpl_free p (With r a) = list_all (tmpl_free p) a"

lemma escape_no_lt: "CHR ''<'' \<notin> set (escape G p s)" "CHR ''>'' \<notin> set (escape G p s)" "CHR 0x22 \<notin> set (escape G p s)"
  using iffD1 [OF filter_empty_conv markup_escape [of G p s]] by (auto simp: is_markup_def)

text \<open>A tag that no text of a template has is not on the page either.\<close>

lemma exec_free:
  "tmpl_free (CHR ''<'' # p) t \<Longrightarrow> free_of (CHR ''<'' # p) (exec G c root dot i t)"
  "list_all (tmpl_free (CHR ''<'' # p)) ts \<Longrightarrow> free_of (CHR ''<'' # p) (execs G c root dot i ts)"
proof (induction G c root dot i t and G c root dot i ts rule: exec_execs.induct)
  case (2 G c root dot i r)
  then show ?case by (simp add: free_of_char escape_no_lt split: option.split)
next
  case (4 G c root dot i r a b)
  then show ?case by (auto intro!: free_of_concat)
qed (auto simp: free_text_of free_of_append)

text \<open>Text of unreserved characters is left as it is.\<close>

lemma html_escape_unreserved:
  assumes "list_all unreserved s"
  shows "html_escape s = s"
proof -
  have n: "\<not> unreserved (CHR 0x00)" "\<not> unreserved (CHR 0x22)" "\<not> unreserved (CHR ''&'')" "\<not> unreserved (CHR 0x27)"
    "\<not> unreserved (CHR ''+'')" "\<not> unreserved (CHR ''<'')" "\<not> unreserved (CHR ''>'')" by code_simp+
  have c: "html_escape_char c = [c]" if "unreserved c" for c
  proof -
    have "c \<noteq> CHR 0x00" "c \<noteq> CHR 0x22" "c \<noteq> CHR ''&''" "c \<noteq> CHR 0x27" "c \<noteq> CHR ''+''" "c \<noteq> CHR ''<''" "c \<noteq> CHR ''>''"
      using that n by blast+
    then show ?thesis by (simp only: html_escape_char_def if_False)
  qed
  show ?thesis using assms by (induction s) (simp_all add: html_escape_def c)
qed

lemma length_html_escape: "length (html_escape s) \<le> 5 * length s"
proof -
  have c: "length (html_escape_char c) \<le> 5" for c by (simp add: html_escape_char_def)
  show ?thesis by (induction s) (auto simp: html_escape_def intro: add_mono [OF c])
qed

section \<open>The size of a page\<close>

text \<open>A page without loops that shows the fields \<open>ks\<close>: the bytes of its texts, and how many fields it shows.\<close>

fun text_size :: "tmpl \<Rightarrow> nat" where
  "text_size (Txt ls) = length (Join ls [CHR 0x0A])"
| "text_size (Cond r x y) = sum_list (map text_size x) + sum_list (map text_size y)"
| "text_size _ = 0"

fun puts :: "tmpl \<Rightarrow> nat" where
  "puts (Put r) = 1"
| "puts (Cond r x y) = sum_list (map puts x) + sum_list (map puts y)"
| "puts _ = 0"

fun straight :: "string list \<Rightarrow> html_ctx \<Rightarrow> tmpl \<Rightarrow> bool"
  and straights :: "string list \<Rightarrow> html_ctx \<Rightarrow> tmpl list \<Rightarrow> bool" where
  "straight ks c (Txt ls) = True"
| "straight ks c (Put r) = (place_of c = Some InText \<and> (case r of Dot [k] \<Rightarrow> k \<in> set ks | _ \<Rightarrow> False))"
| "straight ks c (Cond r x y) = (straights ks c x \<and> straights ks c y)"
| "straight ks c (Range r x y) = False"
| "straight ks c (With r x) = False"
| "straights ks c [] = True"
| "straights ks c (t # ts) = (straight ks c t \<and> straights ks (after c t) ts)"

lemma exec_size:
  "straight ks c t \<Longrightarrow> (\<And>k. k \<in> set ks \<Longrightarrow> length (html_escape (sprint (fld dot [k]))) \<le> b) \<Longrightarrow>
     length (exec G c root dot i t) \<le> text_size t + puts t * b"
  "straights ks c ts \<Longrightarrow> (\<And>k. k \<in> set ks \<Longrightarrow> length (html_escape (sprint (fld dot [k]))) \<le> b) \<Longrightarrow>
     length (execs G c root dot i ts) \<le> sum_list (map text_size ts) + sum_list (map puts ts) * b"
proof (induction G c root dot i t and G c root dot i ts rule: exec_execs.induct)
  case (2 G c root dot i r)
  then obtain k where "place_of c = Some InText" "r = Dot [k]" "k \<in> set ks"
    by (auto split: tref.splits list.splits)
  then show ?case using 2 by simp
next
  case (3 G c root dot i r x y)
  let ?n = "\<lambda>ts. sum_list (map text_size ts) + sum_list (map puts ts) * b"
  have "length (exec G c root dot i (Cond r x y)) \<le> ?n x \<or> length (exec G c root dot i (Cond r x y)) \<le> ?n y"
    using 3 by (cases "truth (deref root dot i r)") simp_all
  then show ?case by (auto simp: add_mult_distrib)
next
  case (7 G c root dot i t ts)
  have "length (exec G c root dot i t) \<le> text_size t + puts t * b"
    "length (execs G (after c t) root dot i ts) \<le> sum_list (map text_size ts) + sum_list (map puts ts) * b"
    using 7 by simp_all
  then show ?case by (simp add: add_mult_distrib)
qed simp_all

end
