(* ===== verification/WebUi.thy ===== *)
theory WebUi
  imports Flow Html
begin

text \<open>
  The example client (\<^verbatim>\<open>test-web-ui/main.go\<close>): a web application that logs its users in through
  the broker.  Its names carry the prefix \<open>ui\<close> where the broker has the same ones.  The
  network is a function on a state \<open>'w\<close> of its own, so that the broker itself can stand behind it:
  the last section does that and shows that a login through both ends with a session.
\<close>

section \<open>The application\<close>

record ui_app =
  wa_listen :: string
  wa_publicBaseURL :: string
  wa_brokerPublicURL :: string
  wa_brokerInternalURL :: string
  wa_clientID :: string
  wa_clientSecret :: string

record loginAttempt =
  la_Verifier :: string
  la_Nonce :: string
  la_RedirectURI :: string
  la_ExpiresAt :: time

record profile =
  pr_Subject :: string
  pr_PreferredUsername :: string
  pr_Email :: string
  pr_Name :: string
  pr_Groups :: "string list"
  pr_IDToken :: string

record tokenResponse =
  tr_AccessToken :: string
  tr_IDToken :: string
  tr_TokenType :: string
  tr_ExpiresIn :: int
  tr_Scope :: string

definition zero_profile :: profile where
  "zero_profile = \<lparr>pr_Subject = [], pr_PreferredUsername = [], pr_Email = [], pr_Name = [], pr_Groups = [], pr_IDToken = []\<rparr>"

text \<open>The maps of the application, the draws of its randomness and the cookies of the response.\<close>

record ui_st =
  us_logins :: "string \<rightharpoonup> loginAttempt"
  us_sessions :: "string \<rightharpoonup> profile"
  us_drawn :: nat
  us_cookies :: "cookie list"

definition ui_sessionCookieName :: string where
  "ui_sessionCookieName = ''test_web_ui_session''"

definition ui_env :: "(string \<Rightarrow> string) \<Rightarrow> string \<Rightarrow> string \<Rightarrow> string" where
  "ui_env getenv key fallback = (let value = TrimSpace (getenv key) in if value \<noteq> [] then value else fallback)"

definition ui_main_app :: "(string \<Rightarrow> string) \<Rightarrow> ui_app" where
  "ui_main_app getenv =
     \<lparr>wa_listen = ui_env getenv ''WEB_UI_LISTEN'' '':8090'',
      wa_publicBaseURL = TrimRightChars {CHR ''/''} (ui_env getenv ''PUBLIC_BASE_URL'' ''http://localhost:8090''),
      wa_brokerPublicURL = TrimRightChars {CHR ''/''} (ui_env getenv ''AUTHBROKER_PUBLIC_URL'' ''http://localhost:8080''),
      wa_brokerInternalURL = TrimRightChars {CHR ''/''} (ui_env getenv ''AUTHBROKER_INTERNAL_URL'' ''http://localhost:8080''),
      wa_clientID = ui_env getenv ''OAUTH_CLIENT_ID'' ''test-web-ui'',
      wa_clientSecret = ui_env getenv ''OAUTH_CLIENT_SECRET'' ''test-web-ui-secret''\<rparr>"

definition ui_randomB64 :: "golib \<Rightarrow> nat \<Rightarrow> ui_st \<Rightarrow> string \<times> ui_st" where
  "ui_randomB64 G n u = (base64RawURL (g_entropy G (us_drawn u) n), u\<lparr>us_drawn := us_drawn u + 1\<rparr>)"

text \<open>\<^verbatim>\<open>url.Values.Encode\<close>, for one value per key.\<close>

definition values_Encode :: "(string \<times> string) list \<Rightarrow> string" where
  "values_Encode kvs = Join (map (\<lambda>(k, v). QueryEscape k @ ''='' @ QueryEscape v) (sort_key fst kvs)) ''&''"

section \<open>Talking to the broker\<close>

record client_request =
  q_Method :: string
  q_URL :: string
  q_ContentType :: string
  q_Authorization :: string
  q_BasicAuth :: "(string \<times> string) option"
  q_Body :: string

text \<open>
  \<open>ul_NewRequest\<close> tells whether a URL makes a request; \<open>ul_Do\<close> answers with the error of the
  transport or the status and the body, whose reading may fail; \<open>ul_tokens\<close> and \<open>ul_claims\<close> decode JSON.
\<close>

record 'w ui_lib =
  ul_NewRequest :: "string \<Rightarrow> bool"
  ul_Do :: "client_request \<Rightarrow> 'w \<Rightarrow> (string + nat \<times> (string + byte list)) \<times> 'w"
  ul_tokens :: "byte list \<Rightarrow> string + tokenResponse"
  ul_claims :: "byte list \<Rightarrow> string + claims"

definition exchange_form :: "string \<Rightarrow> loginAttempt \<Rightarrow> (string \<times> string) list" where
  "exchange_form acode attempt =
     [(''grant_type'', ''authorization_code''), (''code'', acode), (''redirect_uri'', la_RedirectURI attempt),
      (''code_verifier'', la_Verifier attempt)]"

definition exchange_request :: "ui_app \<Rightarrow> string \<Rightarrow> loginAttempt \<Rightarrow> client_request" where
  "exchange_request a acode attempt =
     \<lparr>q_Method = ''POST'', q_URL = wa_brokerInternalURL a @ ''/oauth2/token'', q_ContentType = ''application/x-www-form-urlencoded'',
      q_Authorization = [], q_BasicAuth = Some (wa_clientID a, wa_clientSecret a), q_Body = values_Encode (exchange_form acode attempt)\<rparr>"

definition exchangeCode :: "'w ui_lib \<Rightarrow> ui_app \<Rightarrow> string \<Rightarrow> loginAttempt \<Rightarrow> 'w \<Rightarrow> (string + tokenResponse) \<times> 'w" where
  "exchangeCode L a acode attempt w =
     (let req = exchange_request a acode attempt in
      if \<not> ul_NewRequest L (q_URL req) then (Inl ''new request'', w)
      else case ul_Do L req w of
          (Inl err, w1) \<Rightarrow> (Inl err, w1)
        | (Inr (status, Inl err), w1) \<Rightarrow> (Inl err, w1)
        | (Inr (status, Inr bytes), w1) \<Rightarrow>
            if status \<noteq> 200
            then (Inl (''token exchange failed: status='' @ Itoa (int status) @ '' body='' @ TrimSpace (string_of bytes)), w1)
            else (case ul_tokens L bytes of
                Inl err \<Rightarrow> (Inl err, w1)
              | Inr tokens \<Rightarrow>
                  if tr_AccessToken tokens = [] \<or> tr_IDToken tokens = []
                  then (Inl ''token response missing access_token or id_token'', w1)
                  else (Inr tokens, w1)))"

definition stringSliceClaim :: "json option \<Rightarrow> string list" where
  "stringSliceClaim v =
     (case v of
        Some (JArr items) \<Rightarrow> concat (map (\<lambda>i. case i of JStr s \<Rightarrow> if TrimSpace s \<noteq> [] then [s] else [] | _ \<Rightarrow> []) items)
      | _ \<Rightarrow> [])"

definition profileFromClaims :: "claims \<Rightarrow> profile" where
  "profileFromClaims claims =
     \<lparr>pr_Subject = str_claim claims ''sub'', pr_PreferredUsername = str_claim claims ''preferred_username'',
      pr_Email = str_claim claims ''email'', pr_Name = str_claim claims ''name'',
      pr_Groups = stringSliceClaim (claims ''groups''), pr_IDToken = []\<rparr>"

definition ui_userInfo :: "'w ui_lib \<Rightarrow> ui_app \<Rightarrow> string \<Rightarrow> 'w \<Rightarrow> (string + profile) \<times> 'w" where
  "ui_userInfo L a accessToken w =
     (let req = \<lparr>q_Method = ''GET'', q_URL = wa_brokerInternalURL a @ ''/oauth2/userinfo'', q_ContentType = [],
                 q_Authorization = ''Bearer '' @ accessToken, q_BasicAuth = None, q_Body = []\<rparr> in
      if \<not> ul_NewRequest L (q_URL req) then (Inl ''new request'', w)
      else case ul_Do L req w of
          (Inl err, w1) \<Rightarrow> (Inl err, w1)
        | (Inr (status, bytes), w1) \<Rightarrow>
            if status \<noteq> 200
            then (Inl (''userinfo failed: status='' @ Itoa (int status) @ '' body='' @
                    TrimSpace (case bytes of Inl _ \<Rightarrow> [] | Inr b \<Rightarrow> string_of b)), w1)
            else (case bytes of
                Inl err \<Rightarrow> (Inl err, w1)
              | Inr b \<Rightarrow> (case ul_claims L b of Inl err \<Rightarrow> (Inl err, w1) | Inr claims \<Rightarrow> (Inr (profileFromClaims claims), w1))))"

definition ui_decodeJWTClaims :: "golib \<Rightarrow> string \<Rightarrow> string + claims" where
  "ui_decodeJWTClaims G tok =
     (case Split (CHR ''.'') tok of
        [_, payload, _] \<Rightarrow>
          (case raw_url_decode payload of
             None \<Rightarrow> Inl ''illegal base64 data''
           | Some b \<Rightarrow> (case g_json_unmarshal G b of None \<Rightarrow> Inl ''invalid JSON'' | Some claims \<Rightarrow> Inr claims))
      | _ \<Rightarrow> Inl ''bad JWT format'')"

section \<open>The pages\<close>

definition currentProfile :: "http_request \<Rightarrow> ui_st \<Rightarrow> profile option" where
  "currentProfile r u =
     (case r_Cookie r ui_sessionCookieName of
        None \<Rightarrow> None
      | Some v \<Rightarrow> if v = [] then None else us_sessions u v)"

definition ui_handleIndex :: "ui_app \<Rightarrow> http_request \<Rightarrow> ui_st \<Rightarrow> response \<times> ui_st" where
  "ui_handleIndex a r u =
     (let p = (case currentProfile r u of None \<Rightarrow> zero_profile | Some p \<Rightarrow> p) in
      (Resp 200 (Page ''page''
         [(''Authenticated'', JBool (currentProfile r u \<noteq> None)),
          (''Profile'', JObj [(''Subject'', JStr (pr_Subject p)), (''PreferredUsername'', JStr (pr_PreferredUsername p)),
             (''Email'', JStr (pr_Email p)), (''Name'', JStr (pr_Name p)), (''Groups'', JArr (map JStr (pr_Groups p)))]),
          (''BrokerURL'', JStr (wa_brokerPublicURL a))]), u))"

definition ui_pageTemplate :: "tmpl list" where
  \<open>ui_pageTemplate =
     [Txt
        [''<!doctype html>'',
         ''<html lang="en">'',
         ''<head>'',
         ''  <meta charset="utf-8">'',
         ''  <meta name="viewport" content="width=device-width, initial-scale=1">'',
         ''  <title>Authbroker Test UI</title>'',
         ''  <style>'',
         ''    body { font-family: system-ui, sans-serif; margin: 0; background: #f6f7f9; color: #17202a; }'',
         ''    main { max-width: 680px; margin: 64px auto; padding: 32px; background: #fff; border: 1px solid #d9dee5; border-radius: 8px; }'',
         ''    h1 { margin: 0 0 8px; font-size: 28px; }'',
         ''    p { line-height: 1.5; }'',
         ''    dl { display: grid; grid-template-columns: 170px 1fr; gap: 10px 16px; margin: 24px 0; }'',
         ''    dt { color: #5a6675; }'',
         ''    dd { margin: 0; font-family: ui-monospace, SFMono-Regular, Menlo, Consolas, monospace; overflow-wrap: anywhere; }'',
         ''    a.button, button { display: inline-block; border: 0; border-radius: 6px; background: #185abc; color: #fff; padding: 10px 14px; font: inherit; text-decoration: none; cursor: pointer; }'',
         ''    form { margin-top: 20px; }'',
         ''    .muted { color: #5a6675; }'',
         ''  </style>'',
         ''</head>'',
         ''<body>'',
         ''  <main>'',
         ''    <h1>Authbroker Test UI</h1>'',
         ''    ''],
      Cond (Dot [''Authenticated''])
        [Txt
           [[],
            ''      <p class="muted">Authenticated through ''],
         Put (Dot [''BrokerURL'']),
         Txt
           [''.</p>'',
            ''      <dl>'',
            ''        <dt>Subject</dt><dd>''],
         Put (Dot [''Profile'', ''Subject'']),
         Txt
           [''</dd>'',
            ''        <dt>Username</dt><dd>''],
         Put (Dot [''Profile'', ''PreferredUsername'']),
         Txt
           [''</dd>'',
            ''        <dt>Email</dt><dd>''],
         Put (Dot [''Profile'', ''Email'']),
         Txt
           [''</dd>'',
            ''        <dt>Name</dt><dd>''],
         Put (Dot [''Profile'', ''Name'']),
         Txt
           [''</dd>'',
            ''        <dt>Mapped groups</dt><dd>''],
         Range (Dot [''Profile'', ''Groups''])
           [Cond Idx
              [Txt ['', '']]
              [],
            Put (Dot [])]
           [Txt [''none'']],
         Txt
           [''</dd>'',
            ''      </dl>'',
            ''      <form method="post" action="/logout"><button type="submit">Sign out</button></form>'',
            ''    '']]
        [Txt
           [[],
            ''      <p class="muted">Start an OAuth2/OIDC authorization-code flow with PKCE against the local authbroker.</p>'',
            ''      <p><a class="button" href="/login">Sign in with authbroker</a></p>'',
            ''      <p class="muted">Try <strong>ingestuser</strong> / <strong>dogood</strong> from the bundled GLAUTH directory.</p>'',
            ''    '']],
      Txt
        [[],
         ''  </main>'',
         ''</body>'',
         ''</html>'']]\<close>

text \<open>The page shows no field that the handler does not give.\<close>

lemma ui_page_filled:
  assumes "ui_handleIndex a r u = (Resp status (Page name data), u')"
  shows "filleds (JObj data) (JObj data) 0 ui_pageTemplate"
  using assms by (auto simp: ui_handleIndex_def ui_pageTemplate_def Let_def in_set_enumerate_eq split: option.splits)

definition login_query :: "golib \<Rightarrow> ui_app \<Rightarrow> string \<Rightarrow> loginAttempt \<Rightarrow> (string \<times> string) list" where
  "login_query G a state attempt =
     [(''response_type'', ''code''), (''client_id'', wa_clientID a), (''redirect_uri'', la_RedirectURI attempt),
      (''scope'', ''openid profile email groups''), (''state'', state), (''nonce'', la_Nonce attempt),
      (''code_challenge'', base64RawURL (g_sha256 G (bytes_of (la_Verifier attempt)))), (''code_challenge_method'', ''S256'')]"

definition ui_handleLogin :: "golib \<Rightarrow> ui_app \<Rightarrow> time \<Rightarrow> http_request \<Rightarrow> ui_st \<Rightarrow> response \<times> ui_st" where
  "ui_handleLogin G a now r u =
     (case ui_randomB64 G 32 u of (state, u1) \<Rightarrow>
      case ui_randomB64 G 24 u1 of (nonce, u2) \<Rightarrow>
      case ui_randomB64 G 48 u2 of (verifier, u3) \<Rightarrow>
        let attempt = \<lparr>la_Verifier = verifier, la_Nonce = nonce, la_RedirectURI = wa_publicBaseURL a @ ''/callback'',
                       la_ExpiresAt = now + 5 * Minute\<rparr>
        in (http_Redirect (wa_brokerPublicURL a @ ''/oauth2/authorize?'' @ values_Encode (login_query G a state attempt)),
            u3\<lparr>us_logins := (us_logins u3)(state \<mapsto> attempt)\<rparr>))"

definition ui_cookie :: "string \<Rightarrow> time option \<Rightarrow> int \<Rightarrow> cookie" where
  "ui_cookie v expires maxAge =
     \<lparr>k_Name = ui_sessionCookieName, k_Value = v, k_Secure = False, k_Expires = expires, k_MaxAge = maxAge\<rparr>"

definition ui_handleCallback ::
  "golib \<Rightarrow> 'w ui_lib \<Rightarrow> ui_app \<Rightarrow> time \<Rightarrow> http_request \<Rightarrow> ui_st \<Rightarrow> 'w \<Rightarrow> response \<times> ui_st \<times> 'w" where
  "ui_handleCallback G L a now r u w =
     (if r_Query r ''error'' \<noteq> []
      then (http_Error (r_Query r ''error'' @ '': '' @ r_Query r ''error_description'') 400, u, w)
      else
        let state = r_Query r ''state''; acode = r_Query r ''code'' in
        if state = [] \<or> acode = [] then (http_Error ''callback missing state or code'' 400, u, w)
        else
          let u1 = u\<lparr>us_logins := (us_logins u)(state := None)\<rparr> in
          case (case us_logins u state of Some attempt \<Rightarrow> if now > la_ExpiresAt attempt then None else Some attempt | None \<Rightarrow> None) of
            None \<Rightarrow> (http_Error ''login state expired'' 400, u1, w)
          | Some attempt \<Rightarrow>
              (case exchangeCode L a acode attempt w of
                 (Inl err, w1) \<Rightarrow> (http_Error err 502, u1, w1)
               | (Inr tokens, w1) \<Rightarrow>
                   (case ui_decodeJWTClaims G (tr_IDToken tokens) of
                      Inl err \<Rightarrow> (http_Error (''decode id token: '' @ err) 502, u1, w1)
                    | Inr idClaims \<Rightarrow>
                        if str_claim idClaims ''nonce'' \<noteq> la_Nonce attempt
                        then (http_Error ''id token nonce mismatch'' 502, u1, w1)
                        else
                          (case ui_userInfo L a (tr_AccessToken tokens) w1 of (info, w2) \<Rightarrow>
                             let p = (case info of Inl _ \<Rightarrow> profileFromClaims idClaims | Inr p \<Rightarrow> p)\<lparr>pr_IDToken := tr_IDToken tokens\<rparr>
                             in (case ui_randomB64 G 32 u1 of (sessionID, u2) \<Rightarrow>
                                  (http_Redirect ''/'',
                                   u2\<lparr>us_sessions := (us_sessions u2)(sessionID \<mapsto> p),
                                      us_cookies := us_cookies u2 @ [ui_cookie sessionID (Some (now + 8 * Hour)) 0]\<rparr>,
                                   w2))))))"

definition ui_handleLogout :: "golib \<Rightarrow> ui_app \<Rightarrow> http_request \<Rightarrow> ui_st \<Rightarrow> response \<times> ui_st" where
  "ui_handleLogout G a r u =
     (let p = (case currentProfile r u of None \<Rightarrow> zero_profile | Some p \<Rightarrow> p);
          u1 = (case r_Cookie r ui_sessionCookieName of
                  None \<Rightarrow> u | Some v \<Rightarrow> u\<lparr>us_sessions := (us_sessions u)(v := None)\<rparr>);
          u2 = u1\<lparr>us_cookies := us_cookies u1 @ [ui_cookie [] None (-1)]\<rparr>
      in case ui_randomB64 G 16 u2 of (state, u3) \<Rightarrow>
        (http_Redirect (wa_brokerPublicURL a @ ''/oauth2/logout?'' @ values_Encode
           ([(''client_id'', wa_clientID a), (''post_logout_redirect_uri'', wa_publicBaseURL a @ ''/''), (''state'', state)] @
            (if pr_IDToken p \<noteq> [] then [(''id_token_hint'', pr_IDToken p)] else []))), u3))"

section \<open>What the callback guarantees\<close>

text \<open>
  The callback of the example client trusts nothing it did not start itself: a state is good for one
  callback only, and a session is made only for a pending, unexpired login, when the broker gave
  tokens for the code together with the verifier of that login, and the ID token has its nonce.
\<close>

theorem ui_callback_sound:
  assumes "ui_handleCallback G L a now r u w = (resp, u', w')"
  shows "(r_Query r ''error'' = [] \<and> r_Query r ''state'' \<noteq> [] \<and> r_Query r ''code'' \<noteq> [] \<longrightarrow>
      us_logins u' = (us_logins u)(r_Query r ''state'' := None)) \<and>
    (us_sessions u' \<noteq> us_sessions u \<longrightarrow>
      (\<exists>attempt tokens claims w1 p. us_logins u (r_Query r ''state'') = Some attempt \<and> now \<le> la_ExpiresAt attempt \<and>
         exchangeCode L a (r_Query r ''code'') attempt w = (Inr tokens, w1) \<and>
         ui_decodeJWTClaims G (tr_IDToken tokens) = Inr claims \<and> str_claim claims ''nonce'' = la_Nonce attempt \<and>
         us_sessions u' (fst (ui_randomB64 G 32 u)) = Some p \<and> us_sessions u' = (us_sessions u)(fst (ui_randomB64 G 32 u) \<mapsto> p) \<and>
         pr_IDToken p = tr_IDToken tokens))"
  using assms
  by (auto simp: ui_handleCallback_def ui_randomB64_def Let_def not_less split: if_splits option.splits sum.splits prod.splits)

section \<open>A login through the broker\<close>

text \<open>
  The broker behind the network: \<open>deliver\<close> is what the request becomes on the way to its handlers,
  \<open>render\<close> what a body becomes on the way back.
\<close>

definition broker_Do ::
  "(client_request \<Rightarrow> http_request) \<Rightarrow> (body \<Rightarrow> byte list) \<Rightarrow> env \<Rightarrow> client_request \<Rightarrow> st \<Rightarrow> (string + nat \<times> (string + byte list)) \<times> st" where
  "broker_Do deliver render e q s =
     (let r = deliver q in
      case (if r_Path r = ''/oauth2/token'' then handleToken e r s
            else if r_Path r = ''/oauth2/userinfo'' then handleUserInfo e r s
            else (http_Error ''404 page not found'' 404, s)) of
        (Resp status b, s') \<Rightarrow> (Inr (status, Inr (render b)), s')
      | (Panic, s') \<Rightarrow> (Inl ''EOF'', s'))"

text \<open>
  What \<^verbatim>\<open>net/http\<close> and \<^verbatim>\<open>encoding/json\<close> do on that way: the form of the exchange and the paths
  arrive, and so do the tokens, which are ASCII.
\<close>

definition wire_ok ::
  "(client_request \<Rightarrow> http_request) \<Rightarrow> (body \<Rightarrow> byte list) \<Rightarrow> 'w ui_lib \<Rightarrow> ui_app \<Rightarrow> string \<Rightarrow> loginAttempt \<Rightarrow> bool" where
  "wire_ok deliver render L a acode attempt =
     (let q = exchange_request a acode attempt in
      (length (q_Body q) \<le> maxTokenBodyBytes \<longrightarrow>
         form_ok (deliver q) maxTokenBodyBytes \<and>
         form_get (deliver q) maxTokenBodyBytes = (\<lambda>k. case map_of (exchange_form acode attempt) k of None \<Rightarrow> [] | Some v \<Rightarrow> v)) \<and>
      (\<forall>q path. path \<in> {''/oauth2/token'', ''/oauth2/userinfo''} \<and> q_URL q = wa_brokerInternalURL a @ path \<longrightarrow>
         r_Path (deliver q) = path \<and> ul_NewRequest L (q_URL q)) \<and>
      (\<forall>resp t x. resp ''access_token'' = Some (JStr t) \<and> resp ''id_token'' = Some (JStr x) \<and> is_ascii t \<and> is_ascii x \<longrightarrow>
         (\<exists>tokens. ul_tokens L (render (JsonBody resp)) = Inr tokens \<and> tr_AccessToken tokens = t \<and> tr_IDToken tokens = x)))"

text \<open>The members of a JSON object that the client looks at survive the way from the broker, for ASCII text.\<close>

definition json_kept :: "golib \<Rightarrow> golib \<Rightarrow> bool" where
  "json_kept G H =
     (\<forall>c b. g_json_marshal H c = Some b \<and> is_ascii (str_claim c ''sub'') \<and> is_ascii (str_claim c ''nonce'') \<longrightarrow>
        (\<exists>c'. g_json_unmarshal G b = Some c' \<and> str_claim c' ''sub'' = str_claim c ''sub'' \<and> str_claim c' ''nonce'' = str_claim c ''nonce''))"

lemma base64RawURL_ascii: "is_ascii (base64RawURL bs)"
  using base64RawURL_chars [of _ bs] by (force simp: is_ascii_def)

lemma signJWT_ascii:
  assumes "signJWT e claims = Inr tok"
  shows "is_ascii tok" "tok \<noteq> []"
proof -
  obtain hb cb sig where "tok = base64RawURL hb @ ''.'' @ base64RawURL cb @ ''.'' @ base64RawURL sig"
    using assms by (auto simp: signJWT_def Let_def split: option.splits)
  moreover have "is_ascii ''.''" by (simp add: is_ascii_def)
  ultimately show "is_ascii tok" "tok \<noteq> []"
    using base64RawURL_ascii [of hb] base64RawURL_ascii [of cb] base64RawURL_ascii [of sig] by (auto simp: is_ascii_def)
qed

lemma base64RawURL_unreserved: "list_all unreserved (base64RawURL bs)"
proof -
  have "char_of (45 :: nat) = CHR ''-''" "char_of (95 :: nat) = CHR ''_''" by code_simp+
  then have "unreserved (b64_char n)" if "n < 64" for n
    using that by (auto simp: b64_char_def unreserved_def Let_def)
  then show ?thesis
    by (induction bs rule: base64RawURL.induct) (auto simp: sextet_bounds)
qed

lemma length_base64RawURL: "length (base64RawURL bs) = (4 * length bs + 2) div 3"
  by (induction bs rule: base64RawURL.induct) auto

text \<open>The verifiers of the client pass the check of the broker.\<close>

lemma ui_verifier_valid: "length bs = 48 \<Longrightarrow> validPKCEVerifier (base64RawURL bs)"
  by (simp add: validPKCEVerifier_def pkceVerifierMinLen_def pkceVerifierMaxLen_def
      base64RawURL_unreserved length_base64RawURL)

text \<open>The client reads back the claims that the broker signed.\<close>

lemma decode_signed:
  assumes "signJWT e claims = Inr tok" and "json_kept G (e_lib e)"
    and "is_ascii (str_claim claims ''sub'')" and "is_ascii (str_claim claims ''nonce'')"
  shows "\<exists>c. ui_decodeJWTClaims G tok = Inr c \<and> str_claim c ''sub'' = str_claim claims ''sub'' \<and> str_claim c ''nonce'' = str_claim claims ''nonce''"
proof -
  from assms(1) obtain hb cb sig where m: "g_json_marshal (e_lib e) claims = Some cb"
    and "tok = base64RawURL hb @ CHR ''.'' # base64RawURL cb @ CHR ''.'' # base64RawURL sig"
    by (auto simp: signJWT_def Let_def split: option.splits)
  moreover obtain c where "g_json_unmarshal G cb = Some c" "str_claim c ''sub'' = str_claim claims ''sub''" "str_claim c ''nonce'' = str_claim claims ''nonce''"
    using assms(2-4) m unfolding json_kept_def by blast
  ultimately show ?thesis by (simp add: ui_decodeJWTClaims_def Split_append Split_no_sep base64RawURL_no_dot)
qed

text \<open>The exchange of the client, answered by the token endpoint.\<close>

lemma exchange_answered:
  assumes "ul_Do L = broker_Do deliver render e" and "wire_ok deliver render L a acode attempt"
    and "length (q_Body (exchange_request a acode attempt)) \<le> maxTokenBodyBytes"
    and "fst (authenticateClientRateLimited e (deliver (exchange_request a acode attempt))
           (\<lambda>k. case map_of (exchange_form acode attempt) k of None \<Rightarrow> [] | Some v \<Rightarrow> v) s) = Inr client"
    and "db_open (st_db s)" and "code_at (st_db s) (hash_secret e acode) = Some (Json ac)"
    and "la_RedirectURI attempt = ac_RedirectURI ac" and "c_ClientID client = ac_ClientID ac" and "e_now e \<le> ac_ExpiresAt ac"
    and "ac_CodeChallengeMethod ac = ''S256''" and "validPKCEVerifier (la_Verifier attempt)"
    and "ac_CodeChallenge ac = base64RawURL (g_sha256 (e_lib e) (bytes_of (la_Verifier attempt)))"
    and "scopeIncludes (ac_Scope ac) scopeOpenID"
    and "\<And>b. length (g_sha256 (e_lib e) b) = 32"
    and "\<And>m. g_json_marshal (e_lib e) m \<noteq> None" and "\<And>h. g_rsa_sign (e_lib e) (key_Private (e_activeKey e)) h \<noteq> None"
  shows "\<exists>tokens s' claims. exchangeCode L a acode attempt s = (Inr tokens, s') \<and> signJWT e claims = Inr (tr_IDToken tokens) \<and>
    claims ''sub'' = Some (JStr (ac_UserID ac)) \<and> claims ''nonce'' = (if ac_Nonce ac = [] then None else Some (JStr (ac_Nonce ac)))"
proof -
  let ?q = "exchange_request a acode attempt" and ?form = "\<lambda>k. case map_of (exchange_form acode attempt) k of None \<Rightarrow> [] | Some v \<Rightarrow> v"
  have q: "q_URL ?q = wa_brokerInternalURL a @ ''/oauth2/token''" by (simp add: exchange_request_def)
  have w: "form_ok (deliver ?q) maxTokenBodyBytes" "form_get (deliver ?q) maxTokenBodyBytes = ?form"
    "r_Path (deliver ?q) = ''/oauth2/token''" "ul_NewRequest L (q_URL ?q)"
    using assms(2,3) q by (simp_all add: wire_ok_def Let_def)
  obtain s1 where auth: "authenticateClientRateLimited e (deliver ?q) ?form s = (Inr client, s1)"
    using assms(4) by (metis prod.collapse)
  have s1: "st_db s1 = st_db s" using arg_cong [OF authenticateClientRateLimited_frame [OF auth], of st_db] by simp
  have f: "?form ''grant_type'' = ''authorization_code''" "?form ''code'' = acode" "?form ''redirect_uri'' = la_RedirectURI attempt"
    "?form ''code_verifier'' = la_Verifier attempt"
    by (simp_all add: exchange_form_def)
  obtain resp s2 s3 inc s4 where t: "tokenAuthorizationCode e (deliver ?q) ?form client s1 = (Resp 200 (JsonBody resp), s2)"
    and i: "issueUserTokens e (ac_UserID ac) (c_ClientID client) (ac_Scope ac) (ac_Nonce ac) (ac_AuthTime ac) (ac_AMR ac) inc s3 = (Inr resp, s4)"
    by (rule code_redeemed [of s1 e ?form ac client "deliver ?q"]) (use assms(5-16) s1 f in simp_all)
  obtain access idtok claims c' where tok: "resp ''access_token'' = Some (JStr access)" "signJWT e c' = Inr access"
    "resp ''id_token'' = Some (JStr idtok)" "signJWT e claims = Inr idtok"
    "claims ''sub'' = Some (JStr (ac_UserID ac))" "claims ''nonce'' = (if ac_Nonce ac = [] then None else Some (JStr (ac_Nonce ac)))"
    by (rule issueUserTokens_tokens [OF i assms(13)])
  obtain tokens where tr: "ul_tokens L (render (JsonBody resp)) = Inr tokens" "tr_AccessToken tokens = access" "tr_IDToken tokens = idtok"
    using assms(2) tok(1,3) signJWT_ascii(1) [OF tok(2)] signJWT_ascii(1) [OF tok(4)] unfolding wire_ok_def Let_def by blast
  have "access \<noteq> []" "idtok \<noteq> []" using signJWT_ascii(2) tok(2,4) by simp_all
  moreover have "handleToken e (deliver ?q) s = (Resp 200 (JsonBody resp), s2)"
    using w(1,2) auth t f(1) by (simp add: handleToken_def Let_def)
  ultimately have "exchangeCode L a acode attempt s = (Inr tokens, s2)"
    using w(3,4) tr assms(1) by (simp add: exchangeCode_def broker_Do_def Let_def)
  with tok tr show ?thesis by auto
qed

text \<open>
  C5. A login through the example client and the broker completes.  The client has started a login; the
  broker has redirected with a code for an authorization request with the parameters of that login;
  the callback comes with that code and the state of the login before either has expired, and the
  token endpoint authenticates the client.  Then the user is sent to the start page with a session
  whose ID token names the user that the broker had authenticated.  On the way the broker accepts the
  verifier of the client, and the client the nonce in the token of the broker.
\<close>

theorem ui_login_completes:
  assumes "ul_Do L = broker_Do deliver render e2" and "wire_ok deliver render L a (r_Query r ''code'') attempt"
    and "ui_handleLogin G a t0 r0 u0 = (resp0, u1)" and "r_Query r ''state'' = fst (ui_randomB64 G 32 u0)"
    and "us_logins u1 (r_Query r ''state'') = Some attempt" and "us_logins u (r_Query r ''state'') = Some attempt"
    and "ar_ClientID ar = wa_clientID a" and "ar_RedirectURI ar = la_RedirectURI attempt" and "ar_Nonce ar = la_Nonce attempt"
    and "ar_CodeChallenge ar = base64RawURL (g_sha256 G (bytes_of (la_Verifier attempt)))" and "ar_CodeChallengeMethod ar = ''S256''"
    and "scopeIncludes (ar_Scope ar) scopeOpenID"
    and "issueCodeRedirect e ar sess s = (Inr redirect, s1)" and "r_Query r ''code'' = fst (randomB64 e 32 s)"
    and "db_open (st_db s2)" and "code_at (st_db s2) (hash_secret e2 (r_Query r ''code'')) = code_at (st_db s1) (hash_secret e2 (r_Query r ''code''))"
    and "r_Query r ''error'' = []" and "now \<le> t0 + 5 * Minute"
    and "e_lib e2 = e_lib e" and "e_now e2 \<le> e_now e + dur (cf_AuthCodeTTLSeconds (e_cfg e)) Second"
    and "length (q_Body (exchange_request a (r_Query r ''code'') attempt)) \<le> maxTokenBodyBytes"
    and "fst (authenticateClientRateLimited e2 (deliver (exchange_request a (r_Query r ''code'') attempt))
           (\<lambda>k. case map_of (exchange_form (r_Query r ''code'') attempt) k of None \<Rightarrow> [] | Some v \<Rightarrow> v) s2) = Inr client"
    and "c_ClientID client = wa_clientID a"
    and "\<And>b. length (g_sha256 (e_lib e) b) = 32" and "g_sha256 G = g_sha256 (e_lib e)"
    and "\<And>m. g_json_marshal (e_lib e) m \<noteq> None" and "\<And>h. g_rsa_sign (e_lib e) (key_Private (e_activeKey e2)) h \<noteq> None"
    and "json_kept G (e_lib e)" and "is_ascii (s_UserID sess)"
    and "\<And>i n. length (g_entropy G i n) = n" and "\<And>i n. length (g_entropy (e_lib e) i n) = n"
  shows "\<exists>u' s' sid p claims. ui_handleCallback G L a now r u s2 = (http_Redirect ''/'', u', s') \<and> us_sessions u' sid = Some p \<and>
    ui_decodeJWTClaims G (pr_IDToken p) = Inr claims \<and> str_claim claims ''sub'' = s_UserID sess"
proof -
  let ?code = "r_Query r ''code''" and ?ac = "code_for e ar sess"
  have drawn: "base64RawURL (g_entropy H i n) \<noteq> []" if "length (g_entropy H i n) = n" "n > 0" for H i n
    using that by (metis base64RawURL_eq_Nil length_greater_0_conv)
  have ne: "r_Query r ''state'' \<noteq> []" "?code \<noteq> []"
    using assms(4,14) drawn [OF assms(30)] drawn [OF assms(31)] by (simp_all add: ui_randomB64_def randomB64_def)
  have attempt: "attempt = \<lparr>la_Verifier = base64RawURL (g_entropy G (Suc (Suc (us_drawn u0))) 48),
      la_Nonce = base64RawURL (g_entropy G (Suc (us_drawn u0)) 24), la_RedirectURI = wa_publicBaseURL a @ ''/callback'', la_ExpiresAt = t0 + 5 * Minute\<rparr>"
    using assms(3-5) by (auto simp: ui_handleLogin_def ui_randomB64_def Let_def)
  from this have att: "validPKCEVerifier (la_Verifier attempt)" "la_ExpiresAt attempt = t0 + 5 * Minute"
    using ui_verifier_valid [OF assms(30)] by simp_all
  have c: "code_at (st_db s2) (hash_secret e2 ?code) = Some (Json ?ac)"
    using code_stored [OF assms(13,19)] assms(14,16) by simp
  have acs: "la_RedirectURI attempt = ac_RedirectURI ?ac" "c_ClientID client = ac_ClientID ?ac" "e_now e2 \<le> ac_ExpiresAt ?ac"
    "ac_CodeChallengeMethod ?ac = ''S256''" "ac_CodeChallenge ?ac = base64RawURL (g_sha256 (e_lib e2) (bytes_of (la_Verifier attempt)))"
    "scopeIncludes (ac_Scope ?ac) scopeOpenID" "ac_UserID ?ac = s_UserID sess" "ac_Nonce ?ac = la_Nonce attempt"
    using assms(7-12,19,20,23,25) by (simp_all add: code_for_def)
  obtain tokens s3 claims where x: "exchangeCode L a ?code attempt s2 = (Inr tokens, s3)" and sg: "signJWT e2 claims = Inr (tr_IDToken tokens)"
    and cl: "claims ''sub'' = Some (JStr (s_UserID sess))" "claims ''nonce'' = (if la_Nonce attempt = [] then None else Some (JStr (la_Nonce attempt)))"
    using exchange_answered [OF assms(1,2,21,22,15) c acs(1-4) att(1) acs(5,6)] assms(19,24,26,27) acs(7,8) by auto
  have str: "str_claim claims ''nonce'' = la_Nonce attempt" "str_claim claims ''sub'' = s_UserID sess" using cl by (simp_all add: str_claim_def)
  have "is_ascii (la_Nonce attempt)" using attempt base64RawURL_ascii by simp
  then obtain c' where dec: "ui_decodeJWTClaims G (tr_IDToken tokens) = Inr c'" "str_claim c' ''sub'' = s_UserID sess" "str_claim c' ''nonce'' = la_Nonce attempt"
    using decode_signed [OF sg, of G] assms(19,28,29) str by auto
  obtain info s4 where i: "ui_userInfo L a (tr_AccessToken tokens) s3 = (info, s4)" by fastforce
  show ?thesis
    using ne att(2) assms(6,17,18) x dec i by (auto simp: ui_handleCallback_def ui_randomB64_def Let_def intro!: exI)
qed

section \<open>Evaluating the property\<close>

text \<open>A format that keeps two strings: the length of the first in unary, then both.\<close>

definition pack :: "string \<Rightarrow> string \<Rightarrow> byte list" where
  "pack x y = replicate (length x) 1 @ 0 # bytes_of x @ bytes_of y"

definition unpack :: "byte list \<Rightarrow> string \<times> string" where
  "unpack b = (let n = length (takeWhile ((=) 1) b); m = drop (n + 1) b in (string_of (take n m), string_of (drop n m)))"

lemma unpack_pack: "unpack (pack x y) = (x, y)"
proof -
  have "takeWhile ((=) 1) (pack x y) = replicate (length x) 1" by (simp add: pack_def takeWhile_append)
  moreover have "length (bytes_of x) = length x" by (simp add: bytes_of_def)
  ultimately show ?thesis by (simp add: unpack_def pack_def Let_def)
qed

definition demo_ui_lib :: golib where
  "demo_ui_lib = demo_lib\<lparr>g_sha256 := (\<lambda>_. replicate 32 0), g_entropy := (\<lambda>i n. replicate n (word_of_nat i)),
     g_json_marshal := (\<lambda>c. Some (pack (str_claim c ''sub'') (str_claim c ''nonce''))),
     g_json_unmarshal := (\<lambda>b. case unpack b of (x, y) \<Rightarrow> Some [''sub'' \<mapsto> JStr x, ''nonce'' \<mapsto> JStr y])\<rparr>"

definition demo_ui_env :: env where
  "demo_ui_env = demo_env\<lparr>e_lib := demo_ui_lib\<rparr>"

definition demo_ui_app :: ui_app where
  "demo_ui_app = \<lparr>wa_listen = [], wa_publicBaseURL = ''https://a'', wa_brokerPublicURL = ''https://b'', wa_brokerInternalURL = [],
     wa_clientID = ''web'', wa_clientSecret = []\<rparr>"

definition demo_ui_st :: ui_st where
  "demo_ui_st = \<lparr>us_logins = Map.empty, us_sessions = Map.empty, us_drawn = 0, us_cookies = []\<rparr>"

definition demo_attempt :: loginAttempt where
  "demo_attempt = \<lparr>la_Verifier = base64RawURL (replicate 48 2), la_Nonce = base64RawURL (replicate 24 1),
     la_RedirectURI = ''https://a/callback'', la_ExpiresAt = 5 * Minute\<rparr>"

definition demo_ui_code :: string where
  "demo_ui_code = base64RawURL (replicate 32 0)"

definition demo_deliver :: "client_request \<Rightarrow> http_request" where
  "demo_deliver q = demo_request\<lparr>r_Path := q_URL q, r_BasicAuth := q_BasicAuth q,
     r_Form := (\<lambda>_. (True, \<lambda>k. case map_of (exchange_form demo_ui_code demo_attempt) k of None \<Rightarrow> [] | Some v \<Rightarrow> v))\<rparr>"

definition demo_render :: "body \<Rightarrow> byte list" where
  "demo_render b = (case b of JsonBody m \<Rightarrow> pack (str_claim m ''access_token'') (str_claim m ''id_token'') | _ \<Rightarrow> [])"

definition demo_client_lib :: "st ui_lib" where
  "demo_client_lib = \<lparr>ul_NewRequest = (\<lambda>_. True), ul_Do = broker_Do demo_deliver demo_render demo_ui_env,
     ul_tokens = (\<lambda>b. case unpack b of (x, y) \<Rightarrow>
       Inr \<lparr>tr_AccessToken = x, tr_IDToken = y, tr_TokenType = [], tr_ExpiresIn = 0, tr_Scope = []\<rparr>),
     ul_claims = (\<lambda>_. Inl [])\<rparr>"

definition demo_ui_request :: AuthorizationRequest where
  "demo_ui_request = demo_ar\<lparr>ar_RedirectURI := ''https://a/callback'', ar_Nonce := la_Nonce demo_attempt,
     ar_CodeChallenge := base64RawURL (replicate 32 0), ar_CodeChallengeMethod := ''S256''\<rparr>"

definition demo_callback :: http_request where
  "demo_callback = demo_request\<lparr>r_Query := (\<lambda>_. [])(''state'' := base64RawURL (replicate 32 0), ''code'' := demo_ui_code)\<rparr>"

lemma demo_ui_lib_sel [simp]:
  "g_sha256 demo_ui_lib b = replicate 32 0" "g_entropy demo_ui_lib i n = replicate n (word_of_nat i)"
  "g_json_marshal demo_ui_lib m \<noteq> None" "g_rsa_sign demo_ui_lib k h \<noteq> None" "e_lib demo_ui_env = demo_ui_lib"
  "e_now demo_ui_env = 1000 * Second" "e_cfg demo_ui_env = demo_cfg" "json_kept demo_ui_lib demo_ui_lib"
  by (auto simp: demo_ui_lib_def demo_ui_env_def json_kept_def unpack_pack str_claim_def)

lemma demo_wire: "wire_ok demo_deliver demo_render demo_client_lib demo_ui_app demo_ui_code demo_attempt"
  by (auto simp: wire_ok_def Let_def demo_deliver_def demo_render_def demo_client_lib_def demo_ui_app_def unpack_pack str_claim_def)

lemma demo_ui_auth:
  "fst (authenticateClientRateLimited demo_ui_env (demo_deliver (exchange_request demo_ui_app demo_ui_code demo_attempt)) form
     (demo_st\<lparr>st_db := d, st_drawn := n\<rparr>)) = Inr demo_client"
  by (simp add: authenticateClientRateLimited_def clientAuthRateKey_def clientIDFromRequest_def allow_def
      demo_limiter_def newLoginRateLimiter_def recordSuccess_def authenticateClient_def lookupClient_def
      demo_deliver_def demo_ui_env_def exchange_request_def demo_ui_app_def Let_def)

lemma demo_openid: "scopeIncludes ''openid'' scopeOpenID"
proof -
  have "plain_word ''openid''" by (simp add: plain_word_def)
  then have "Fields ''openid'' = [''openid'']" using Fields_Join [of "[''openid'']"] by simp
  then show ?thesis by (simp add: scopeIncludes_def scope_names)
qed

lemma demo_body: "length (q_Body (exchange_request demo_ui_app demo_ui_code demo_attempt)) \<le> maxTokenBodyBytes"
  by code_simp

theorem ui_login_completes_witness:
  "\<exists>redirect s1 u' s'. issueCodeRedirect demo_ui_env demo_ui_request demo_session demo_st = (Inr redirect, s1) \<and>
     ui_handleCallback demo_ui_lib demo_client_lib demo_ui_app 0 demo_callback (snd (ui_handleLogin demo_ui_lib demo_ui_app 0 demo_request demo_ui_st)) s1 =
       (http_Redirect ''/'', u', s')"
proof -
  let ?u = "snd (ui_handleLogin demo_ui_lib demo_ui_app 0 demo_request demo_ui_st)"
  have r: "randomB64 demo_ui_env 32 demo_st = (demo_ui_code, demo_st\<lparr>st_drawn := 1\<rparr>)"
    by (simp add: randomB64_def demo_ui_code_def)
  have k: "hash_secret demo_ui_env x \<noteq> []" "length (hash_secret demo_ui_env x) \<le> 32768" for x
    using hash_secret_key [of demo_ui_env] by simp_all
  obtain d where p: "on_db (PutAuthCode (hash_secret demo_ui_env demo_ui_code) (code_for demo_ui_env demo_ui_request demo_session))
      (demo_st\<lparr>st_drawn := 1\<rparr>) = (Inr (), demo_st\<lparr>st_db := d, st_drawn := 1\<rparr>)"
    using k by (simp add: on_db_eq db_simps empty_Store_def demo_st_def)
  obtain redirect where i: "issueCodeRedirect demo_ui_env demo_ui_request demo_session demo_st = (Inr redirect, demo_st\<lparr>st_db := d, st_drawn := 1\<rparr>)"
    using r p by (simp add: issueCodeRedirect_def demo_ui_lib_def)
  have u: "us_logins ?u (base64RawURL (replicate 32 0)) = Some demo_attempt" "fst (ui_randomB64 demo_ui_lib 32 demo_ui_st) = base64RawURL (replicate 32 0)"
    by (simp_all add: ui_handleLogin_def ui_randomB64_def demo_ui_st_def demo_attempt_def demo_ui_app_def Let_def)
  have q: "r_Query demo_callback ''state'' = base64RawURL (replicate 32 0)" "r_Query demo_callback ''code'' = demo_ui_code"
    "r_Query demo_callback ''error'' = []"
    by (simp_all add: demo_callback_def demo_request_def)
  have "\<exists>u' s' sid p claims. ui_handleCallback demo_ui_lib demo_client_lib demo_ui_app 0 demo_callback ?u (demo_st\<lparr>st_db := d, st_drawn := 1\<rparr>) =
      (http_Redirect ''/'', u', s') \<and> us_sessions u' sid = Some p \<and> ui_decodeJWTClaims demo_ui_lib (pr_IDToken p) = Inr claims \<and>
      str_claim claims ''sub'' = s_UserID demo_session"
    by (rule ui_login_completes [where deliver = demo_deliver and render = demo_render and attempt = demo_attempt
          and ar = demo_ui_request and client = demo_client and e = demo_ui_env and ?e2.0 = demo_ui_env and s = demo_st
          and ?s1.0 = "demo_st\<lparr>st_db := d, st_drawn := 1\<rparr>" and ?r0.0 = demo_request and ?u0.0 = demo_ui_st
          and ?t0.0 = 0, OF _ _ prod.collapse [symmetric]])
      (use u q i r demo_wire demo_ui_auth demo_body demo_openid code_stored(1) [OF i refl] in \<open>simp_all add: demo_client_lib_def demo_ui_request_def
         demo_ui_app_def demo_attempt_def dur_def wrap64_id demo_cfg_def is_ascii_def\<close>)
  then show ?thesis using i by blast
qed

end
