(* ===== verification/Templates.thy ===== *)
theory Templates
  imports Html Admin
begin

text \<open>
  The pages of the broker (\<^verbatim>\<open>templates.go\<close>, \<^verbatim>\<open>admin_templates.go\<close>), with their text, and what the data
  of a handler becomes in them.  The long pages are given in parts.
\<close>

section \<open>The pages of the users\<close>

definition home_token_row_part1 :: "tmpl list" where
  \<open>home_token_row_part1 =
     [Txt
        [[],
         ''                <article class="token-row">'',
         ''                  <div>'',
         ''                    <h3 class="token-name">''],
      Put (Dot [''DisplayName'']),
      Txt
        [''</h3>'',
         ''                    <div class="meta-grid">'',
         ''                      <div><span class="meta-label">Audience</span><code class="meta-value">''],
      Put (Dot [''Audience'']),
      Txt
        [''</code></div>'',
         ''                      <div><span class="meta-label">Client ID</span><code class="meta-value">''],
      Put (Dot [''ClientID'']),
      Txt
        [''</code></div>'',
         ''                      <div><span class="meta-label">Scope</span><code class="meta-value">''],
      Put (Dot [''Scope'']),
      Txt
        [''</code></div>'',
         ''                      <div><span class="meta-label">TTL</span><span class="meta-value">''],
      Put (Dot [''TokenTTLLabel'']),
      Txt
        [''</span></div>'',
         ''                    </div>'',
         ''                  </div>'',
         ''                  <form method="post" action="/app-tokens/''],
      Put (Dot [''ID'']),
      Txt
        [''">'',
         ''                    '']]\<close>

definition home_token_row_part2 :: "tmpl list" where
  \<open>home_token_row_part2 =
     [Txt [''<input type="hidden" name="csrf_token" value="''],
      Put (Root [''CSRFToken'']),
      Txt
        [''">'',
         ''                    <button type="submit">Generate JWT</button>'',
         ''                  </form>'',
         ''                </article>'',
         ''              '']]\<close>

definition home_token_row :: "tmpl list" where
  "home_token_row = home_token_row_part1 @ home_token_row_part2"

definition home_tokens :: "tmpl list" where
  \<open>home_tokens =
     [Txt
        [[],
         ''            <div class="token-list">'',
         ''              ''],
      Range (Dot [''AppTokens''])
        home_token_row
        [],
      Txt
        [[],
         ''            </div>'',
         ''          '']]\<close>

definition home_issued :: "tmpl list" where
  \<open>home_issued =
     [Txt
        [[],
         ''            <section class="issued-token">'',
         ''              <p class="section-kicker">Issued token</p>'',
         ''              <h2 class="panel-title">''],
      Put (Dot [''DisplayName'']),
      Txt
        ['' JWT</h2>'',
         ''              <p class="muted">Expires in ''],
      Put (Dot [''TokenTTLLabel'']),
      Txt
        [''.</p>'',
         ''              <textarea id="app-token-value" class="token-output" readonly spellcheck="false" autocomplete="off">''],
      Put (Dot [''Token'']),
      Txt
        [''</textarea>'',
         ''              <div class="actions">'',
         ''                <button type="button" class="secondary" data-copy-target="app-token-value">Copy JWT</button>'',
         ''                <span class="copy-status" data-copy-status></span>'',
         ''              </div>'',
         ''            </section>'',
         ''          '']]\<close>

definition home_no_tokens :: "tmpl list" where
  \<open>home_no_tokens =
     [Txt
        [[],
         ''            <p class="muted">No app token profiles are configured.</p>'',
         ''          '']]\<close>

definition home_signed_in_part1 :: "tmpl list" where
  \<open>home_signed_in_part1 =
     [Txt
        [[],
         ''      <div class="layout">'',
         ''        <section class="panel">'',
         ''          <div class="panel-header">'',
         ''            <div>'',
         ''              <p class="section-kicker">Access</p>'',
         ''              <h2 class="panel-title">App tokens</h2>'',
         ''            </div>'',
         ''          </div>'',
         ''          '']]\<close>

definition home_signed_in_part2 :: "tmpl list" where
  \<open>home_signed_in_part2 =
     [Cond (Dot [''AppTokens''])
        home_tokens
        home_no_tokens]\<close>

definition home_signed_in_part3 :: "tmpl list" where
  \<open>home_signed_in_part3 =
     [Txt
        [[],
         [],
         ''          ''],
      With (Dot [''IssuedAppToken''])
        home_issued,
      Txt
        [[],
         ''        </section>'',
         [],
         ''        <aside class="side-stack">'',
         ''          <section class="panel identity-block">'',
         ''            <p class="section-kicker">Session</p>'',
         ''            <p class="identity-line">'']]\<close>

definition home_signed_in_part4 :: "tmpl list" where
  \<open>home_signed_in_part4 =
     [Txt [''Signed in as <strong>''],
      Put (Dot [''UserID'']),
      Txt
        [''</strong>.</p>'',
         ''            <p class="muted identity-line">Expires ''],
      Put (Dot [''ExpiresAt'']),
      Txt
        [''</p>'',
         ''          </section>'',
         ''          <section class="panel">'',
         ''            <p class="section-kicker">Discovery</p>'',
         ''            <p class="muted">JWKS</p>'',
         ''            <code class="meta-value">''],
      Put (Dot [''Issuer'']),
      Txt
        [''/oauth2/jwks</code>'',
         ''          </section>'',
         ''          ''],
      Cond (Dot [''IsAdmin''])
        [Txt
           [[],
            ''          <section class="panel">'',
            ''            <p class="section-kicker">Administration</p>'',
            ''            <a class="button" href="/admin">Open admin</a>'',
            ''          </section>'',
            ''          '']]
        [],
      Txt
        [[],
         ''          <form method="get" action="/logout">'',
         ''            <button type="submit" class="secondary">Sign out</button>'',
         ''          </form>'',
         ''        </aside>'',
         ''      </div>'',
         ''    '']]\<close>

definition home_signed_in :: "tmpl list" where
  "home_signed_in = home_signed_in_part1 @ home_signed_in_part2 @ home_signed_in_part3 @ home_signed_in_part4"

definition home_signed_out :: "tmpl list" where
  \<open>home_signed_out =
     [Txt
        [[],
         ''      <section class="empty-state panel">'',
         ''        <h2>You are not signed in</h2>'',
         ''        <p class="muted">Use your directory account to continue.</p>'',
         ''        <div class="actions">'',
         ''          <a class="button" href="/login">Sign in</a>'',
         ''        </div>'',
         ''      </section>'',
         ''    '']]\<close>

definition brokerHomeTemplate_part1 :: "tmpl list" where
  \<open>brokerHomeTemplate_part1 =
     [Txt
        [''<!doctype html>'',
         ''<html lang="en">'',
         ''<head>'',
         ''  <meta charset="utf-8">'',
         ''  <meta name="viewport" content="width=device-width, initial-scale=1">'',
         ''  <title>''],
      Put (Dot [''DisplayName'']),
      Txt
        [''</title>'',
         ''  <link rel="stylesheet" href="/assets/authbroker.css">'',
         ''  <script defer src="/assets/authbroker.js"></script>'',
         ''</head>'',
         ''<body>'',
         ''  <main class="shell">'',
         ''    <header class="topbar">'',
         ''      <div class="brand">'',
         ''        <div class="brand-mark">AB</div>'',
         ''        <div>'',
         ''          <h1 class="brand-title">''],
      Put (Dot [''DisplayName'']),
      Txt
        [''</h1>'',
         ''          <div class="brand-subtitle">''],
      Put (Dot [''Issuer'']),
      Txt
        [''</div>'',
         ''        </div>'',
         ''      </div>'',
         ''      ''],
      Cond (Dot [''Authenticated''])
        [Txt [''<div class="status-pill">Signed in</div>'']]
        [Txt [''<div class="status-pill">Signed out</div>'']],
      Txt
        [[],
         ''    </header>'',
         [],
         ''    '']]\<close>

definition brokerHomeTemplate_part2 :: "tmpl list" where
  \<open>brokerHomeTemplate_part2 =
     [Cond (Dot [''Authenticated''])
        home_signed_in
        home_signed_out,
      Txt
        [[],
         ''  </main>'',
         ''</body>'',
         ''</html>'']]\<close>

definition brokerHomeTemplate :: "tmpl list" where
  "brokerHomeTemplate = brokerHomeTemplate_part1 @ brokerHomeTemplate_part2"

definition brokerLogoutTemplate :: "tmpl list" where
  \<open>brokerLogoutTemplate =
     [Txt
        [''<!doctype html>'',
         ''<html lang="en">'',
         ''<head>'',
         ''  <meta charset="utf-8">'',
         ''  <meta name="viewport" content="width=device-width, initial-scale=1">'',
         ''  <title>Sign out</title>'',
         ''  <link rel="stylesheet" href="/assets/authbroker.css">'',
         ''</head>'',
         ''<body>'',
         ''  <main class="shell">'',
         ''    <header class="topbar">'',
         ''      <div class="brand">'',
         ''        <div class="brand-mark">AB</div>'',
         ''        <div>'',
         ''          <h1 class="brand-title">''],
      Put (Dot [''DisplayName'']),
      Txt
        [''</h1>'',
         ''          <div class="brand-subtitle">Session control</div>'',
         ''        </div>'',
         ''      </div>'',
         ''    </header>'',
         ''    <section class="panel logout-panel">'',
         ''      <p class="section-kicker">Sign out</p>'',
         ''      <h2 class="panel-title">End this broker session?</h2>'',
         ''      <p>Signed in as <strong>''],
      Put (Dot [''UserID'']),
      Txt
        [''</strong>.</p>'',
         ''      <form method="post" action="''],
      Put (Dot [''Action'']),
      Txt
        [''" class="actions logout-actions">'',
         ''        <input type="hidden" name="csrf_token" value="''],
      Put (Dot [''CSRFToken'']),
      Txt
        [''">'',
         ''        ''],
      Cond (Dot [''IDTokenHint''])
        [Txt [''<input type="hidden" name="id_token_hint" value="''],
         Put (Dot [''IDTokenHint'']),
         Txt [''">'']]
        [],
      Txt
        [[],
         ''        ''],
      Cond (Dot [''ClientID''])
        [Txt [''<input type="hidden" name="client_id" value="''],
         Put (Dot [''ClientID'']),
         Txt [''">'']]
        [],
      Txt
        [[],
         ''        ''],
      Cond (Dot [''PostLogoutRedirectURI''])
        [Txt [''<input type="hidden" name="post_logout_redirect_uri" value="''],
         Put (Dot [''PostLogoutRedirectURI'']),
         Txt [''">'']]
        [],
      Txt
        [[],
         ''        ''],
      Cond (Dot [''State''])
        [Txt [''<input type="hidden" name="state" value="''],
         Put (Dot [''State'']),
         Txt [''">'']]
        [],
      Txt
        [[],
         ''        <button type="submit" class="danger">Sign out of authbroker</button>'',
         ''        <a class="button secondary" href="/">Cancel</a>'',
         ''      </form>'',
         ''    </section>'',
         ''  </main>'',
         ''</body>'',
         ''</html>'']]\<close>

definition loginTemplate_part1 :: "tmpl list" where
  \<open>loginTemplate_part1 =
     [Txt
        [''<!doctype html>'',
         ''<html lang="en">'',
         ''<head>'',
         ''  <meta charset="utf-8">'',
         ''  <meta name="viewport" content="width=device-width, initial-scale=1">'',
         ''  <title>Sign in</title>'',
         ''  <link rel="stylesheet" href="/assets/authbroker.css">'',
         ''</head>'',
         ''<body>'',
         ''  <main class="shell">'',
         ''    <header class="topbar">'',
         ''      <div class="brand">'',
         ''        <div class="brand-mark">AB</div>'',
         ''        <div>'',
         ''          <h1 class="brand-title">''],
      Put (Dot [''DisplayName'']),
      Txt
        [''</h1>'',
         ''          <div class="brand-subtitle">Client: ''],
      Put (Dot [''ClientID'']),
      Txt
        [''</div>'',
         ''        </div>'',
         ''      </div>'',
         ''      <div class="status-pill">Sign in</div>'',
         ''    </header>'',
         ''    <section class="login-panel">'',
         ''      <p class="section-kicker">Directory login</p>'',
         ''      <h1>Sign in</h1>'',
         ''      <form method="post" action="/login" class="form-grid">'',
         ''        '']]\<close>

definition loginTemplate_part2 :: "tmpl list" where
  \<open>loginTemplate_part2 =
     [Txt [''<input type="hidden" name="request_id" value="''],
      Put (Dot [''RequestID'']),
      Txt
        [''">'',
         ''        '']]\<close>

definition loginTemplate_part3 :: "tmpl list" where
  \<open>loginTemplate_part3 =
     [Txt [''<input type="hidden" name="csrf_token" value="''],
      Put (Dot [''CSRFToken'']),
      Txt
        [''">'',
         ''        <label class="field">'',
         ''          <span>Username</span>'',
         ''          <input name="username" autocomplete="username" required>'',
         ''        </label>'',
         ''        <label class="field">'',
         ''          <span>Password</span>'',
         ''          <input name="password" type="password" autocomplete="current-password" required>'',
         ''        </label>'',
         ''        <label class="field">'',
         ''          <span>TOTP code ''],
      Cond (Dot [''TOTPHint''])
        []
        [Txt [''(if enrolled)'']],
      Txt
        [''</span>'',
         ''          <input name="otp" inputmode="numeric" autocomplete="one-time-code">'',
         ''        </label>'',
         ''        <div class="actions">'',
         ''          <button type="submit">Continue</button>'',
         ''        </div>'',
         ''      </form>'',
         ''    </section>'',
         ''  </main>'',
         ''</body>'',
         ''</html>'']]\<close>

definition loginTemplate :: "tmpl list" where
  "loginTemplate = loginTemplate_part1 @ loginTemplate_part2 @ loginTemplate_part3"

section \<open>Consent and the pages of the administrators\<close>

definition consentTemplate :: "tmpl list" where
  \<open>consentTemplate =
     [Txt
        [''<!doctype html>'',
         ''<html lang="en">'',
         ''<head>'',
         ''  <meta charset="utf-8">'',
         ''  <meta name="viewport" content="width=device-width, initial-scale=1">'',
         ''  <title>Authorize ''],
      Put (Dot [''ClientID'']),
      Txt
        [''</title>'',
         ''  <link rel="stylesheet" href="/assets/authbroker.css">'',
         ''</head>'',
         ''<body>'',
         ''  <main class="shell">'',
         ''    <header class="topbar">'',
         ''      <div class="brand">'',
         ''        <div class="brand-mark">AB</div>'',
         ''        <div>'',
         ''          <h1 class="brand-title">''],
      Put (Dot [''DisplayName'']),
      Txt
        [''</h1>'',
         ''          <div class="brand-subtitle">Authorize ''],
      Put (Dot [''ClientID'']),
      Txt
        [''</div>'',
         ''        </div>'',
         ''      </div>'',
         ''      <div class="status-pill">Consent</div>'',
         ''    </header>'',
         ''    <section class="panel consent-panel">'',
         ''      <p class="section-kicker">Authorization request</p>'',
         ''      <h2 class="panel-title">Allow <code>''],
      Put (Dot [''ClientID'']),
      Txt
        [''</code> to access your account?</h2>'',
         ''      <p class="muted">Signed in as <strong>''],
      Put (Dot [''UserID'']),
      Txt
        [''</strong>.</p>'',
         ''      ''],
      Cond (Dot [''Scopes''])
        [Txt
           [[],
            ''        <p>The application is requesting the following scopes:</p>'',
            ''        <ul class="scope-list">'',
            ''          ''],
         Range (Dot [''Scopes''])
           [Txt [''<li><code>''],
            Put (Dot []),
            Txt [''</code></li>'']]
           [],
         Txt
           [[],
            ''        </ul>'',
            ''      '']]
        [Txt
           [[],
            ''        <p class="muted">No explicit scopes were requested.</p>'',
            ''      '']],
      Txt
        [[],
         ''      <form method="post" action="/consent" class="actions">'',
         ''        <input type="hidden" name="csrf_token" value="''],
      Put (Dot [''CSRFToken'']),
      Txt
        [''">'',
         ''        <input type="hidden" name="request_id" value="''],
      Put (Dot [''RequestID'']),
      Txt
        [''">'',
         ''        <button type="submit" name="decision" value="approve">Allow</button>'',
         ''        <button type="submit" name="decision" value="deny" class="secondary">Deny</button>'',
         ''      </form>'',
         ''    </section>'',
         ''  </main>'',
         ''</body>'',
         ''</html>'']]\<close>

definition admin_client_row :: "tmpl list" where
  \<open>admin_client_row =
     [Txt
        [[],
         ''            <article class="token-row">'',
         ''              <div>'',
         ''                <h3 class="token-name">''],
      Put (Dot [''ClientID'']),
      Txt ['' ''],
      Cond (Dot [''ReadOnly''])
        [Txt [''<span class="badge">config</span>'']]
        [],
      Txt
        [''</h3>'',
         ''                <div class="meta-grid">'',
         ''                  <div><span class="meta-label">Public</span><span class="meta-value">''],
      Cond (Dot [''Public''])
        [Txt [''yes'']]
        [Txt [''no'']],
      Txt
        [''</span></div>'',
         ''                  <div><span class="meta-label">PKCE</span><span class="meta-value">''],
      Cond (Dot [''RequirePKCE''])
        [Txt [''required'']]
        [Txt [''optional'']],
      Txt
        [''</span></div>'',
         ''                  <div><span class="meta-label">Consent</span><span class="meta-value">''],
      Cond (Dot [''RequireConsent''])
        [Txt [''required'']]
        [Txt [''skipped'']],
      Txt
        [''</span></div>'',
         ''                  <div><span class="meta-label">Scopes</span><span class="meta-value">''],
      Range (Dot [''AllowedScopes''])
        [Cond Idx
           [Txt ['' '']]
           [],
         Put (Dot [])]
        [Txt [''none'']],
      Txt
        [''</span></div>'',
         ''                  <div><span class="meta-label">Offline access</span><span class="meta-value">''],
      Cond (Dot [''AllowOfflineAccess''])
        [Txt [''allowed'']]
        [Txt [''disabled'']],
      Txt
        [''</span></div>'',
         ''                  <div><span class="meta-label">Client credentials scopes</span><span class="meta-value">''],
      Range (Dot [''ClientCredentialsScopes''])
        [Cond Idx
           [Txt ['' '']]
           [],
         Put (Dot [])]
        [Txt [''none'']],
      Txt
        [''</span></div>'',
         ''                  <div>'',
         ''                    <span class="meta-label">Redirect URIs</span>'',
         ''                    ''],
      Range (Dot [''RedirectURIs''])
        [Txt [''<code class="meta-value">''],
         Put (Dot []),
         Txt [''</code>'']]
        [],
      Txt
        [[],
         ''                  </div>'',
         ''                </div>'',
         ''              </div>'',
         ''              ''],
      Cond (Dot [''ReadOnly''])
        []
        [Txt
           [[],
            ''                <form method="post" action="/admin/clients/''],
         Put (Dot [''ClientID'']),
         Txt
           [''/delete">'',
            ''                  <input type="hidden" name="csrf_token" value="''],
         Put (Root [''CSRFToken'']),
         Txt
           [''">'',
            ''                  <button type="submit" class="danger">Delete</button>'',
            ''                </form>'',
            ''              '']],
      Txt
        [[],
         ''            </article>'',
         ''          '']]\<close>

definition admin_token_row :: "tmpl list" where
  \<open>admin_token_row =
     [Txt
        [[],
         ''            <article class="token-row">'',
         ''              <div>'',
         ''                <h3 class="token-name">''],
      Put (Dot [''DisplayName'']),
      Txt ['' ''],
      Cond (Dot [''ReadOnly''])
        [Txt [''<span class="badge">config</span>'']]
        [],
      Txt
        [''</h3>'',
         ''                <div class="meta-grid">'',
         ''                  <div><span class="meta-label">ID</span><code class="meta-value">''],
      Put (Dot [''ID'']),
      Txt
        [''</code></div>'',
         ''                  <div><span class="meta-label">Audience</span><code class="meta-value">''],
      Put (Dot [''Audience'']),
      Txt
        [''</code></div>'',
         ''                  <div><span class="meta-label">Client ID</span><code class="meta-value">''],
      Put (Dot [''ClientID'']),
      Txt
        [''</code></div>'',
         ''                  <div><span class="meta-label">Scope</span><code class="meta-value">''],
      Put (Dot [''Scope'']),
      Txt
        [''</code></div>'',
         ''                  <div><span class="meta-label">TTL</span><span class="meta-value">''],
      Put (Dot [''TTLLabel'']),
      Txt
        [''</span></div>'',
         ''                </div>'',
         ''              </div>'',
         ''              ''],
      Cond (Dot [''ReadOnly''])
        []
        [Txt
           [[],
            ''                <form method="post" action="/admin/app-tokens/''],
         Put (Dot [''ID'']),
         Txt
           [''/delete">'',
            ''                  <input type="hidden" name="csrf_token" value="''],
         Put (Root [''CSRFToken'']),
         Txt
           [''">'',
            ''                  <button type="submit" class="danger">Delete</button>'',
            ''                </form>'',
            ''              '']],
      Txt
        [[],
         ''            </article>'',
         ''          '']]\<close>

definition adminHomeTemplate :: "tmpl list" where
  \<open>adminHomeTemplate =
     [Txt
        [''<!doctype html>'',
         ''<html lang="en">'',
         ''<head>'',
         ''  <meta charset="utf-8">'',
         ''  <meta name="viewport" content="width=device-width, initial-scale=1">'',
         ''  <title>Admin '' @ [CHR 0xC2, CHR 0xB7] @ '' ''],
      Put (Dot [''DisplayName'']),
      Txt
        [''</title>'',
         ''  <link rel="stylesheet" href="/assets/authbroker.css">'',
         ''</head>'',
         ''<body>'',
         ''  <main class="shell">'',
         ''    <header class="topbar">'',
         ''      <div class="brand">'',
         ''        <div class="brand-mark">AB</div>'',
         ''        <div>'',
         ''          <h1 class="brand-title">''],
      Put (Dot [''DisplayName'']),
      Txt
        [''</h1>'',
         ''          <div class="brand-subtitle">Administration</div>'',
         ''        </div>'',
         ''      </div>'',
         ''      <div class="status-pill">Admin: ''],
      Put (Dot [''UserID'']),
      Txt
        [''</div>'',
         ''    </header>'',
         ''    ''],
      Cond (Dot [''Flash''])
        [Txt [''<div class="flash">''],
         Put (Dot [''Flash'']),
         Txt [''</div>'']]
        [],
      Txt
        [[],
         ''    <nav class="admin-breadcrumb"><a href="/">&larr; Home</a></nav>'',
         [],
         ''    <section class="panel">'',
         ''      <div class="panel-header">'',
         ''        <div>'',
         ''          <p class="section-kicker">OAuth</p>'',
         ''          <h2 class="panel-title">Clients</h2>'',
         ''        </div>'',
         ''        <a class="button" href="/admin/clients/new">New client</a>'',
         ''      </div>'',
         ''      ''],
      Cond (Dot [''Clients''])
        [Txt
           [[],
            ''        <div class="token-list">'',
            ''          ''],
         Range (Dot [''Clients''])
           admin_client_row
           [],
         Txt
           [[],
            ''        </div>'',
            ''      '']]
        [Txt
           [[],
            ''        <p class="muted">No clients configured.</p>'',
            ''      '']],
      Txt
        [[],
         ''    </section>'',
         [],
         ''    <section class="panel">'',
         ''      <div class="panel-header">'',
         ''        <div>'',
         ''          <p class="section-kicker">Access</p>'',
         ''          <h2 class="panel-title">App token profiles</h2>'',
         ''        </div>'',
         ''        <a class="button" href="/admin/app-tokens/new">New app token</a>'',
         ''      </div>'',
         ''      ''],
      Cond (Dot [''AppTokens''])
        [Txt
           [[],
            ''        <div class="token-list">'',
            ''          ''],
         Range (Dot [''AppTokens''])
           admin_token_row
           [],
         Txt
           [[],
            ''        </div>'',
            ''      '']]
        [Txt
           [[],
            ''        <p class="muted">No app token profiles configured.</p>'',
            ''      '']],
      Txt
        [[],
         ''    </section>'',
         ''  </main>'',
         ''</body>'',
         ''</html>'']]\<close>

definition adminClientFormTemplate :: "tmpl list" where
  \<open>adminClientFormTemplate =
     [Txt
        [''<!doctype html>'',
         ''<html lang="en">'',
         ''<head>'',
         ''  <meta charset="utf-8">'',
         ''  <meta name="viewport" content="width=device-width, initial-scale=1">'',
         ''  <title>New client '' @ [CHR 0xC2, CHR 0xB7] @ '' ''],
      Put (Dot [''DisplayName'']),
      Txt
        [''</title>'',
         ''  <link rel="stylesheet" href="/assets/authbroker.css">'',
         ''</head>'',
         ''<body>'',
         ''  <main class="shell">'',
         ''    <header class="topbar">'',
         ''      <div class="brand">'',
         ''        <div class="brand-mark">AB</div>'',
         ''        <div>'',
         ''          <h1 class="brand-title">''],
      Put (Dot [''DisplayName'']),
      Txt
        [''</h1>'',
         ''          <div class="brand-subtitle">New OAuth client</div>'',
         ''        </div>'',
         ''      </div>'',
         ''      <div class="status-pill">Admin: ''],
      Put (Dot [''UserID'']),
      Txt
        [''</div>'',
         ''    </header>'',
         ''    <nav class="admin-breadcrumb"><a href="/admin">&larr; Admin home</a></nav>'',
         ''    ''],
      Cond (Dot [''Error''])
        [Txt [''<div class="flash danger">''],
         Put (Dot [''Error'']),
         Txt [''</div>'']]
        [],
      Txt
        [[],
         ''    <section class="panel">'',
         ''      <p class="section-kicker">OAuth</p>'',
         ''      <h2 class="panel-title">Create client</h2>'',
         ''      <form method="post" action="/admin/clients" class="form-grid">'',
         ''        <input type="hidden" name="csrf_token" value="''],
      Put (Dot [''CSRFToken'']),
      Txt
        [''">'',
         ''        <label class="field">'',
         ''          <span>Client ID</span>'',
         ''          <input name="client_id" required autocomplete="off">'',
         ''        </label>'',
         ''        <label class="field">'',
         ''          <span>Redirect URIs (one per line)</span>'',
         ''          <textarea name="redirect_uris" rows="3" class="token-output" required></textarea>'',
         ''        </label>'',
         ''        <label class="field">'',
         ''          <span>Post-logout redirect URIs (optional, one per line)</span>'',
         ''          <textarea name="post_logout_redirect_uris" rows="2" class="token-output"></textarea>'',
         ''        </label>'',
         ''        <label class="field">'',
         ''          <span>Allowed authorization scopes</span>'',
         ''          <input name="allowed_scopes" autocomplete="off" value="openid profile email groups">'',
         ''        </label>'',
         ''        <label class="field">'',
         ''          <span>Client credentials scopes</span>'',
         ''          <input name="client_credentials_scopes" autocomplete="off">'',
         ''        </label>'',
         ''        <label class="checkbox"><input type="checkbox" name="public"> Public client (no client_secret)</label>'',
         ''        <label class="checkbox"><input type="checkbox" name="require_pkce" checked> Require PKCE</label>'',
         ''        <label class="checkbox"><input type="checkbox" name="allow_offline_access"> Allow offline_access refresh tokens</label>'',
         ''        <label class="checkbox"><input type="checkbox" name="require_consent" checked> Require consent screen</label>'',
         ''        <div class="actions">'',
         ''          <button type="submit">Create client</button>'',
         ''          <a class="button secondary" href="/admin">Cancel</a>'',
         ''        </div>'',
         ''      </form>'',
         ''    </section>'',
         ''  </main>'',
         ''</body>'',
         ''</html>'']]\<close>

definition adminClientCreatedTemplate :: "tmpl list" where
  \<open>adminClientCreatedTemplate =
     [Txt
        [''<!doctype html>'',
         ''<html lang="en">'',
         ''<head>'',
         ''  <meta charset="utf-8">'',
         ''  <meta name="viewport" content="width=device-width, initial-scale=1">'',
         ''  <title>Client created '' @ [CHR 0xC2, CHR 0xB7] @ '' ''],
      Put (Dot [''DisplayName'']),
      Txt
        [''</title>'',
         ''  <link rel="stylesheet" href="/assets/authbroker.css">'',
         ''  <script defer src="/assets/authbroker.js"></script>'',
         ''</head>'',
         ''<body>'',
         ''  <main class="shell">'',
         ''    <header class="topbar">'',
         ''      <div class="brand">'',
         ''        <div class="brand-mark">AB</div>'',
         ''        <div>'',
         ''          <h1 class="brand-title">''],
      Put (Dot [''DisplayName'']),
      Txt
        [''</h1>'',
         ''          <div class="brand-subtitle">Client created</div>'',
         ''        </div>'',
         ''      </div>'',
         ''      <div class="status-pill">Admin: ''],
      Put (Dot [''UserID'']),
      Txt
        [''</div>'',
         ''    </header>'',
         ''    <section class="panel">'',
         ''      <p class="section-kicker">OAuth</p>'',
         ''      <h2 class="panel-title">''],
      Put (Dot [''ClientID'']),
      Txt
        [''</h2>'',
         ''      ''],
      Cond (Dot [''Public''])
        [Txt
           [[],
            ''        <p class="muted">Public client '' @ [CHR 0xE2, CHR 0x80, CHR 0x94] @ '' no client_secret was generated.</p>'',
            ''      '']]
        [Txt
           [[],
            ''        <p>This is the only time the client secret will be shown. Copy it now.</p>'',
            ''        <textarea id="client-secret-value" class="token-output" readonly spellcheck="false" autocomplete="off">''],
         Put (Dot [''ClientSecret'']),
         Txt
           [''</textarea>'',
            ''        <div class="actions">'',
            ''          <button type="button" class="secondary" data-copy-target="client-secret-value">Copy secret</button>'',
            ''          <span class="copy-status" data-copy-status></span>'',
            ''        </div>'',
            ''      '']],
      Txt
        [[],
         ''      <div class="actions">'',
         ''        <a class="button" href="/admin">Back to admin</a>'',
         ''      </div>'',
         ''    </section>'',
         ''  </main>'',
         ''</body>'',
         ''</html>'']]\<close>

definition adminAppTokenFormTemplate :: "tmpl list" where
  \<open>adminAppTokenFormTemplate =
     [Txt
        [''<!doctype html>'',
         ''<html lang="en">'',
         ''<head>'',
         ''  <meta charset="utf-8">'',
         ''  <meta name="viewport" content="width=device-width, initial-scale=1">'',
         ''  <title>New app token '' @ [CHR 0xC2, CHR 0xB7] @ '' ''],
      Put (Dot [''DisplayName'']),
      Txt
        [''</title>'',
         ''  <link rel="stylesheet" href="/assets/authbroker.css">'',
         ''</head>'',
         ''<body>'',
         ''  <main class="shell">'',
         ''    <header class="topbar">'',
         ''      <div class="brand">'',
         ''        <div class="brand-mark">AB</div>'',
         ''        <div>'',
         ''          <h1 class="brand-title">''],
      Put (Dot [''DisplayName'']),
      Txt
        [''</h1>'',
         ''          <div class="brand-subtitle">New app token profile</div>'',
         ''        </div>'',
         ''      </div>'',
         ''      <div class="status-pill">Admin: ''],
      Put (Dot [''UserID'']),
      Txt
        [''</div>'',
         ''    </header>'',
         ''    <nav class="admin-breadcrumb"><a href="/admin">&larr; Admin home</a></nav>'',
         ''    ''],
      Cond (Dot [''Error''])
        [Txt [''<div class="flash danger">''],
         Put (Dot [''Error'']),
         Txt [''</div>'']]
        [],
      Txt
        [[],
         ''    <section class="panel">'',
         ''      <p class="section-kicker">Access</p>'',
         ''      <h2 class="panel-title">Create app token profile</h2>'',
         ''      <form method="post" action="/admin/app-tokens" class="form-grid">'',
         ''        <input type="hidden" name="csrf_token" value="''],
      Put (Dot [''CSRFToken'']),
      Txt
        [''">'',
         ''        <label class="field">'',
         ''          <span>ID</span>'',
         ''          <input name="id" required autocomplete="off">'',
         ''        </label>'',
         ''        <label class="field">'',
         ''          <span>Display name (optional, defaults to ID)</span>'',
         ''          <input name="display_name" autocomplete="off">'',
         ''        </label>'',
         ''        <label class="field">'',
         ''          <span>Audience (optional, defaults to ID)</span>'',
         ''          <input name="audience" autocomplete="off">'',
         ''          <small class="muted">A confidential OAuth client whose <code>client_id</code> equals this audience may call <code>/oauth2/introspect</code> on tokens minted from this profile, even if it never received the token directly. Pick the audience that names the intended resource server.</small>'',
         ''        </label>'',
         ''        <label class="field">'',
         ''          <span>Client ID (optional, defaults to audience)</span>'',
         ''          <input name="client_id" autocomplete="off">'',
         ''        </label>'',
         ''        <label class="field">'',
         ''          <span>Scope (defaults to "openid profile email groups")</span>'',
         ''          <input name="scope" autocomplete="off">'',
         ''        </label>'',
         ''        <label class="field">'',
         ''          <span>Token TTL minutes (defaults to 480)</span>'',
         ''          <input name="token_ttl_minutes" inputmode="numeric" autocomplete="off">'',
         ''        </label>'',
         ''        <div class="actions">'',
         ''          <button type="submit">Create app token</button>'',
         ''          <a class="button secondary" href="/admin">Cancel</a>'',
         ''        </div>'',
         ''      </form>'',
         ''    </section>'',
         ''  </main>'',
         ''</body>'',
         ''</html>'']]\<close>

section \<open>Rendering\<close>

definition page_templates :: "(string \<times> tmpl list) list" where
  "page_templates =
     [(''home'', brokerHomeTemplate), (''logout'', brokerLogoutTemplate), (''login'', loginTemplate),
      (''consent'', consentTemplate), (''admin_home'', adminHomeTemplate), (''admin_client_form'', adminClientFormTemplate),
      (''admin_client_created'', adminClientCreatedTemplate), (''admin_app_token_form'', adminAppTokenFormTemplate)]"

text \<open>The text of a response; \<open>other\<close> renders what is no page.\<close>

definition body_text :: "golib \<Rightarrow> (body \<Rightarrow> string) \<Rightarrow> body \<Rightarrow> string" where
  "body_text G other b =
     (case b of
        Page name data \<Rightarrow> (case map_of page_templates name of None \<Rightarrow> [] | Some t \<Rightarrow> execute G t data)
      | _ \<Rightarrow> other b)"

text \<open>In every template each value stands in text or in an attribute with quotes, and no branch ends elsewhere.\<close>

lemma user_pages_accepted:
  "accepted brokerHomeTemplate" "accepted brokerLogoutTemplate" "accepted loginTemplate" "accepted consentTemplate"
  by code_simp+

lemma admin_pages_accepted:
  "accepted adminHomeTemplate" "accepted adminClientFormTemplate" "accepted adminClientCreatedTemplate" "accepted adminAppTokenFormTemplate"
  by code_simp+

lemma pages_accepted: "map_of page_templates name = Some t \<Longrightarrow> accepted t"
  by (auto simp: page_templates_def user_pages_accepted admin_pages_accepted split: if_splits)

text \<open>
  C10. No injection.  In the template of every page of the broker each value stands in text or in a quoted
  attribute (for the URL of a form, before its query), so that the escaping of the package
  applies to it and nothing is refused.  Therefore the skeleton of a page, that is all of it but text and
  quoted attribute values (tags, attributes, scripts), does not depend on
  the strings in its data: two pages whose data differ in non-empty strings only have the same.  A
  user name, client name or error text of a request opens no tag, adds no attribute and ends no quote.
\<close>

theorem pages_injection_free:
  assumes "map_of page_templates name = Some t" and "alike (JObj data) (JObj data')"
  shows "escapables CText t \<and> afters CText t = CText \<and>
    body_text G other (Page name data) = execs G CText (JObj data) (JObj data) 0 t \<and>
    skeleton CText (body_text G other (Page name data)) = skeleton CText (body_text G other (Page name data'))"
proof -
  have t: "accepted t" by (rule pages_accepted [OF assms(1)])
  then show ?thesis
    using exec_skeleton(2) [of CText t, OF _ assms(2,2)] assms(1) by (simp add: body_text_def execute_def accepted_def)
qed

theorem pages_injection_free_witness:
  "skeleton CText (body_text demo_lib (\<lambda>_. []) (Page ''admin_client_created''
     [(''DisplayName'', JStr ''<script>''), (''UserID'', JStr ''a''), (''ClientID'', JStr ''x\"y''), (''ClientSecret'', JStr []), (''Public'', JBool True)])) =
   skeleton CText (body_text demo_lib (\<lambda>_. []) (Page ''admin_client_created''
     [(''DisplayName'', JStr ''B''), (''UserID'', JStr ''a''), (''ClientID'', JStr ''web''), (''ClientSecret'', JStr []), (''Public'', JBool True)]))"
  by (rule conjunct2 [OF conjunct2 [OF conjunct2 [OF pages_injection_free [where t = adminClientCreatedTemplate]]]])
    (simp_all add: page_templates_def)

section \<open>The data of the pages\<close>

abbreviation page_filled :: "tmpl list \<Rightarrow> (string \<times> json) list \<Rightarrow> bool" where
  "page_filled t data \<equiv> filleds (JObj data) (JObj data) 0 t"

text \<open>The home page, signed out and signed in, with and without a token just issued.\<close>

lemma home_row_filled:
  assumes "fld root [''CSRFToken''] \<noteq> JNull"
  shows "filleds root (JObj (view_json v)) n home_token_row"
  using assms
  by (simp add: home_token_row_def home_token_row_part1_def home_token_row_part2_def view_json_def)

lemma home_filled:
  assumes "sess = None \<longrightarrow> issued = None"
  shows "page_filled brokerHomeTemplate (homeData e sess issued s)"
proof -
  let ?D = "JObj (homeData e sess issued s)"
  have head: "filleds ?D ?D 0 brokerHomeTemplate_part1" by (simp add: brokerHomeTemplate_part1_def homeData_def)
  have "filleds ?D ?D 0 brokerHomeTemplate_part2"
  proof (cases sess)
    case None
    then show ?thesis using assms by (simp add: brokerHomeTemplate_part2_def home_signed_out_def homeData_def)
  next
    case (Some se)
    have d: "fld ?D [''AppTokens''] = JArr (map (\<lambda>v. JObj (view_json v)) (appTokenViews e s))" "fld ?D [''CSRFToken''] \<noteq> JNull"
      by (simp_all add: homeData_def Some)
    have "filled ?D ?D 0 (Range (Dot [''AppTokens'']) home_token_row [])"
      by (rule filled_Range) (use d home_row_filled in auto)
    then have "filleds ?D ?D 0 home_tokens" by (simp add: home_tokens_def del: filled.simps(4) deref.simps fld.simps)
    then have "filleds ?D ?D 0 home_signed_in_part2" by (simp add: home_signed_in_part2_def home_no_tokens_def)
    moreover have "filleds ?D ?D 0 home_signed_in_part3" 
      by (cases issued) (auto simp: home_signed_in_part3_def home_issued_def homeData_def Some view_json_def)
    moreover have "filleds ?D ?D 0 home_signed_in_part1" "filleds ?D ?D 0 home_signed_in_part4"
      by (simp_all add: home_signed_in_part1_def home_signed_in_part4_def homeData_def Some)
    moreover have "fld ?D [''Authenticated''] = JBool True" by (simp add: homeData_def Some)
    ultimately show ?thesis
      by (simp add: brokerHomeTemplate_part2_def home_signed_in_def filleds_append del: fld.simps)
  qed
  with head show ?thesis by (simp add: brokerHomeTemplate_def filleds_append)
qed

lemma login_filled:
  "page_filled loginTemplate
     [(''DisplayName'', JStr dn), (''RequestID'', JStr rid), (''ClientID'', JStr cid), (''TOTPHint'', JBool h), (''CSRFToken'', JStr tok)]"
  by (simp add: loginTemplate_def loginTemplate_part1_def loginTemplate_part2_def loginTemplate_part3_def)

lemma logout_filled:
  "page_filled brokerLogoutTemplate
     ((''DisplayName'', JStr dn) # (''UserID'', JStr u) # (''CSRFToken'', JStr tok) # (''Action'', JStr act) # hidden)"
  by (auto simp: brokerLogoutTemplate_def)

lemma consent_filled:
  "page_filled consentTemplate
     [(''DisplayName'', JStr dn), (''ClientID'', JStr cid), (''RequestID'', JStr rid), (''Scopes'', json_strings scopes),
      (''UserID'', JStr u), (''CSRFToken'', JStr tok)]"
  by (auto simp: consentTemplate_def json_strings_def in_set_enumerate_eq)

text \<open>The pages of the administrators.\<close>

lemma client_row_filled:
  assumes "fld root [''CSRFToken''] \<noteq> JNull"
  shows "filleds root (client_view_json v) n admin_client_row"
  using assms by (auto simp: admin_client_row_def client_view_json_def json_strings_def in_set_enumerate_eq)

lemma token_row_filled:
  assumes "fld root [''CSRFToken''] \<noteq> JNull"
  shows "filleds root (token_view_json v) n admin_token_row"
  using assms by (auto simp: admin_token_row_def token_view_json_def)

lemma admin_home_filled:
  "page_filled adminHomeTemplate
     (page_head e sess @ [(''CSRFToken'', JStr tok), (''Clients'', JArr (map client_view_json cs)),
        (''AppTokens'', JArr (map token_view_json ts)), (''Flash'', JStr flash)])" (is "page_filled _ ?data")
proof -
  have "filled (JObj ?data) (JObj ?data) 0 (Range (Dot [''Clients'']) admin_client_row [])"
    by (rule filled_Range) (auto simp: page_head_def intro!: client_row_filled)
  moreover have "filled (JObj ?data) (JObj ?data) 0 (Range (Dot [''AppTokens'']) admin_token_row [])"
    by (rule filled_Range) (auto simp: page_head_def intro!: token_row_filled)
  ultimately show ?thesis by (auto simp: adminHomeTemplate_def page_head_def simp del: filled.simps(4))
qed

lemma admin_forms_filled:
  "page_filled adminClientFormTemplate (page_head e sess @ [(''CSRFToken'', JStr tok), (''Error'', JStr err)])"
  "page_filled adminAppTokenFormTemplate (page_head e sess @ [(''CSRFToken'', JStr tok), (''Error'', JStr err)])"
  "page_filled adminClientCreatedTemplate
     (page_head e sess @ [(''ClientID'', JStr cid), (''ClientSecret'', JStr secret), (''Public'', JBool p)])"
  by (simp_all add: adminClientFormTemplate_def adminAppTokenFormTemplate_def adminClientCreatedTemplate_def page_head_def)

definition page_handlers :: "(env \<Rightarrow> http_request \<Rightarrow> st \<Rightarrow> response \<times> st) set" where
  "page_handlers = {handleHome, handleAppToken, handleLoginGet, handleLocalLogoutGet, handleLogout, handleConsentGet,
     handleAdminHome, handleAdminClientsNew, handleAdminAppTokensNew, handleAdminClientsCreate}"

text \<open>What the handlers answer with, if it is a page.\<close>

lemmas no_page = http_Error_def http_Redirect_def writeJSON_def

lemmas page_splits = if_splits prod.splits option.splits sum.splits

lemma issue_for_filled:
  "issue_for e r sess s = (Resp status (Page name data), s') \<Longrightarrow> name = ''home'' \<and> page_filled brokerHomeTemplate data"
  by (auto simp: issue_for_def no_page Let_def intro: home_filled split: page_splits)

lemma handleHome_page:
  "handleHome e r s = (Resp status (Page name data), s') \<Longrightarrow> name = ''home'' \<and> page_filled brokerHomeTemplate data"
  by (auto simp: handleHome_def no_page intro: home_filled split: page_splits)

lemma handleAppToken_page:
  "handleAppToken e r s = (Resp status (Page name data), s') \<Longrightarrow> name = ''home'' \<and> page_filled brokerHomeTemplate data"
  by (auto simp: handleAppToken_def requireRecentReAuth_def no_page dest: issue_for_filled split: page_splits)

lemma handleLoginGet_page:
  "handleLoginGet e r s = (Resp status (Page name data), s') \<Longrightarrow> name = ''login'' \<and> page_filled loginTemplate data"
  by (auto simp: handleLoginGet_def allowPreAuthWrite_def preauth_check_def no_page Let_def intro: login_filled split: page_splits)

lemma logout_parts_no_page:
  "resolveLogoutClientID e c hint s = (Inl resp, s') \<Longrightarrow> resp \<noteq> Resp status (Page name data)"
  "handlePostLogoutRedirect e r c uri st s \<noteq> (Resp status (Page name data), s')"
  by (auto simp: resolveLogoutClientID_def handlePostLogoutRedirect_def no_page split: page_splits)

lemma logout_pages:
  "handleLocalLogoutGet e r s = (Resp status (Page name data), s') \<Longrightarrow> name = ''logout'' \<and> page_filled brokerLogoutTemplate data"
  "renderRPLogoutConfirm e sess hint c uri st s = (Resp status (Page name data), s') \<Longrightarrow>
     name = ''logout'' \<and> page_filled brokerLogoutTemplate data"
  by (auto simp: handleLocalLogoutGet_def renderRPLogoutConfirm_def no_page intro: logout_filled split: page_splits)

lemma handleLogout_page:
  "handleLogout e r s = (Resp status (Page name data), s') \<Longrightarrow> name = ''logout'' \<and> page_filled brokerLogoutTemplate data"
  unfolding handleLogout_def Let_def
  by (auto simp: no_page logout_parts_no_page dest!: logout_pages(2) split: page_splits dest: logout_parts_no_page(1))

lemma handleConsentGet_page:
  "handleConsentGet e r s = (Resp status (Page name data), s') \<Longrightarrow> name = ''consent'' \<and> page_filled consentTemplate data"
  by (auto simp: handleConsentGet_def no_page Let_def intro: consent_filled split: page_splits)

lemma adminAuth_no_page:
  "adminAuth e r s = (Inl resp, s') \<Longrightarrow> resp \<noteq> Resp status (Page name data)"
  "admin_form e r s = (Inl resp, s') \<Longrightarrow> resp \<noteq> Resp status (Page name data)"
  by (auto simp: admin_form_def adminAuth_def no_page split: page_splits)

lemma admin_pages:
  "handleAdminHome e r s = (Resp status (Page name data), s') \<Longrightarrow> name = ''admin_home'' \<and> page_filled adminHomeTemplate data"
  "handleAdminClientsNew e r s = (Resp status (Page name data), s') \<Longrightarrow> name = ''admin_client_form'' \<and> page_filled adminClientFormTemplate data"
  "handleAdminAppTokensNew e r s = (Resp status (Page name data), s') \<Longrightarrow> name = ''admin_app_token_form'' \<and> page_filled adminAppTokenFormTemplate data"
  by (auto simp: handleAdminHome_def handleAdminClientsNew_def handleAdminAppTokensNew_def admin_form_page_def html_page_def
      intro: admin_home_filled admin_forms_filled dest: adminAuth_no_page split: page_splits)

lemma handleAdminClientsCreate_page:
  "handleAdminClientsCreate e r s = (Resp status (Page name data), s') \<Longrightarrow>
     name = ''admin_client_created'' \<and> page_filled adminClientCreatedTemplate data"
  by (auto simp: handleAdminClientsCreate_def html_page_def adminClientsFormRedirect_def no_page
      intro: admin_forms_filled dest: adminAuth_no_page split: page_splits)

text \<open>
  C11. A page shows what its template asks for: whenever a handler answers with a page, the page has a
  template, and the data of the handler have every field that the template shows on that page, in the
  rows of its lists too.
\<close>

theorem pages_filled:
  assumes "h \<in> page_handlers" and "h e r s = (Resp status (Page name data), s')"
  shows "\<exists>t. map_of page_templates name = Some t \<and> page_filled t data"
proof -
  have t: "map_of page_templates ''home'' = Some brokerHomeTemplate" "map_of page_templates ''login'' = Some loginTemplate"
    "map_of page_templates ''logout'' = Some brokerLogoutTemplate" "map_of page_templates ''consent'' = Some consentTemplate"
    "map_of page_templates ''admin_home'' = Some adminHomeTemplate" "map_of page_templates ''admin_client_form'' = Some adminClientFormTemplate"
    "map_of page_templates ''admin_app_token_form'' = Some adminAppTokenFormTemplate"
    "map_of page_templates ''admin_client_created'' = Some adminClientCreatedTemplate"
    by (simp_all add: page_templates_def)
  from assms(1) consider "h = handleHome" | "h = handleAppToken" | "h = handleLoginGet" | "h = handleLocalLogoutGet"
    | "h = handleLogout" | "h = handleConsentGet" | "h = handleAdminHome" | "h = handleAdminClientsNew"
    | "h = handleAdminAppTokensNew" | "h = handleAdminClientsCreate" unfolding page_handlers_def by blast
  then show ?thesis
  proof cases
    case 1 then show ?thesis using handleHome_page [of e r s] assms(2) t by blast
  next
    case 2 then show ?thesis using handleAppToken_page [of e r s] assms(2) t by blast
  next
    case 3 then show ?thesis using handleLoginGet_page [of e r s] assms(2) t by blast
  next
    case 4 then show ?thesis using logout_pages(1) [of e r s] assms(2) t by blast
  next
    case 5 then show ?thesis using handleLogout_page [of e r s] assms(2) t by blast
  next
    case 6 then show ?thesis using handleConsentGet_page [of e r s] assms(2) t by blast
  next
    case 7 then show ?thesis using admin_pages(1) [of e r s] assms(2) t by blast
  next
    case 8 then show ?thesis using admin_pages(2) [of e r s] assms(2) t by blast
  next
    case 9 then show ?thesis using admin_pages(3) [of e r s] assms(2) t by blast
  next
    case 10 then show ?thesis using handleAdminClientsCreate_page [of e r s] assms(2) t by blast
  qed
qed

theorem pages_filled_witness:
  "\<exists>data s'. handleHome demo_env demo_request demo_st = (Resp 200 (Page ''home'' data), s') \<and>
     page_filled brokerHomeTemplate data"
proof -
  have "\<exists>data s'. handleHome demo_env demo_request demo_st = (Resp 200 (Page ''home'' data), s')"
    by (simp add: handleHome_def maybeExtendSession_def session_id_def demo_request_def)
  then obtain data s' where h: "handleHome demo_env demo_request demo_st = (Resp 200 (Page ''home'' data), s')" by blast
  from pages_filled [where h = handleHome, OF _ h] have "page_filled brokerHomeTemplate data" by (simp add: page_handlers_def page_templates_def)
  with h show ?thesis by blast
qed

end
