(* ===== verification/PasskeyDemo.thy ===== *)
theory PasskeyDemo
  imports WebUi Templates Webauthn
begin

text \<open>
  The demo of passkeys (\<^verbatim>\<open>passkey-demo/main.go\<close>): a page in front of the broker that logs in with a
  password, shows whose session it is and passes the passkey requests on.  It talks to the broker as
  a browser would: it takes the CSRF token out of the login page and the user out of the home page.
  Its names carry the prefix \<open>pd\<close>.
\<close>

section \<open>The application\<close>

record pd_app =
  pa_listen :: string
  pa_publicBaseURL :: string
  pa_brokerPublicURL :: string
  pa_brokerInternalURL :: string
  pa_brokerInternal :: URL

definition pd_env :: "(string \<Rightarrow> string) \<Rightarrow> string \<Rightarrow> string \<Rightarrow> string" where
  "pd_env getenv key fallback = (let v = TrimSpace (getenv key) in if v \<noteq> [] then v else fallback)"

text \<open>\<open>None\<close> is the end of the process for a URL of the broker that does not parse.\<close>

definition pd_main_app :: "golib \<Rightarrow> (string \<Rightarrow> string) \<Rightarrow> pd_app option" where
  "pd_main_app G getenv =
     (let internal = TrimRightChars {CHR ''/''} (pd_env getenv ''AUTHBROKER_INTERNAL_URL'' ''http://localhost:8080'') in
      case g_url_Parse G internal of
        None \<Rightarrow> None
      | Some internalURL \<Rightarrow>
          Some \<lparr>pa_listen = pd_env getenv ''PASSKEY_DEMO_LISTEN'' '':8091'',
            pa_publicBaseURL = TrimRightChars {CHR ''/''} (pd_env getenv ''PUBLIC_BASE_URL'' ''http://localhost:8091''),
            pa_brokerPublicURL = TrimRightChars {CHR ''/''} (pd_env getenv ''AUTHBROKER_PUBLIC_URL'' ''http://localhost:8080''),
            pa_brokerInternalURL = internal, pa_brokerInternal = internalURL\<rparr>)"

definition brokerSessionCookieName :: string where "brokerSessionCookieName = ''broker_session''"
definition brokerCSRFCookieName :: string where "brokerCSRFCookieName = ''broker_csrf''"
definition pd_csrfFormField :: string where "pd_csrfFormField = ''csrf_token''"

record brokerError =
  be_message :: string
  be_status :: nat
  be_body :: string

definition brokerError_Error :: "(nat \<Rightarrow> string) \<Rightarrow> brokerError \<Rightarrow> string" where
  "brokerError_Error statusText err =
     (let b = TrimSpace (be_body err) in
      if b = [] then be_message err else be_message err @ '': status='' @ statusText (be_status err) @ '' body='' @ b)"

section \<open>Reading the pages of the broker\<close>

text \<open>
  Matching as \<^verbatim>\<open>regexp\<close> does: the leftmost match, and in it each repetition as long as the rest allows.
  The expressions are matched byte by byte; their literals are ASCII, so no match ends inside a rune.
\<close>

definition expect :: "string \<Rightarrow> (string \<Rightarrow> 'a option) \<Rightarrow> string \<Rightarrow> 'a option" where
  "expect l k s = (if HasPrefix s l then k (drop (length l) s) else None)"

fun greedy :: "(char \<Rightarrow> bool) \<Rightarrow> (string \<Rightarrow> string \<Rightarrow> 'a option) \<Rightarrow> string \<Rightarrow> string \<Rightarrow> 'a option" where
  "greedy p k v [] = k v []"
| "greedy p k v (c # s) =
     (if p c then (case greedy p k (v @ [c]) s of Some x \<Rightarrow> Some x | None \<Rightarrow> k v (c # s)) else k v (c # s))"

fun leftmost :: "(string \<Rightarrow> 'a option) \<Rightarrow> string \<Rightarrow> 'a option" where
  "leftmost m [] = m []"
| "leftmost m (c # s) = (case m (c # s) of Some x \<Rightarrow> Some x | None \<Rightarrow> leftmost m s)"

definition signedInPattern :: "string \<Rightarrow> string option" where
  "signedInPattern =
     expect ''Signed in as <strong>''
       (greedy ((\<noteq>) CHR ''<'') (\<lambda>v s. if v = [] then None else expect ''</strong>'' (\<lambda>_. Some v) s) [])"

definition csrfTokenPattern :: "string \<Rightarrow> string option" where
  \<open>csrfTokenPattern =
     expect ''<input'' (greedy ((\<noteq>) CHR ''>'') (\<lambda>_.
       expect ''name="csrf_token"'' (greedy ((\<noteq>) CHR ''>'') (\<lambda>_.
         expect ''value="'' (greedy ((\<noteq>) CHR 0x22) (\<lambda>v. expect [CHR 0x22] (\<lambda>_. Some v)) [])) [])) [])\<close>

definition csrfTokenFromHTML :: "string \<Rightarrow> string" where
  "csrfTokenFromHTML html = (case leftmost csrfTokenPattern html of None \<Rightarrow> [] | Some v \<Rightarrow> v)"

section \<open>Talking to the broker\<close>

record pd_request = client_request +
  q_Cookies :: "(string \<times> string) list"

text \<open>A \<^verbatim>\<open>Set-Cookie\<close> line is the cookie it sets; \<open>wr_ReadError\<close> is the error after the bytes of the body.\<close>

record wire_response =
  wr_Status :: nat
  wr_SetCookie :: "cookie list"
  wr_Body :: "byte list"
  wr_ReadError :: "string option"

text \<open>\<open>pl_Do\<close> is told whether redirects are followed.\<close>

record 'w pd_lib =
  pl_NewRequest :: "string \<Rightarrow> string option"
  pl_Do :: "bool \<Rightarrow> pd_request \<Rightarrow> 'w \<Rightarrow> (string + wire_response) \<times> 'w"
  pl_StatusText :: "nat \<Rightarrow> string"

text \<open>\<^verbatim>\<open>io.ReadAll\<close> of an \<^verbatim>\<open>io.LimitReader\<close>.\<close>

definition read_limited :: "nat \<Rightarrow> wire_response \<Rightarrow> string \<times> string option" where
  "read_limited n resp =
     (string_of (take n (wr_Body resp)), if length (wr_Body resp) < n then wr_ReadError resp else None)"

definition brokerSessionCookie :: "http_request \<Rightarrow> (string \<times> string) option" where
  "brokerSessionCookie r =
     (case r_Cookie r brokerSessionCookieName of
        None \<Rightarrow> None
      | Some v \<Rightarrow> if v = [] then None else Some (brokerSessionCookieName, v))"

definition responseCookie :: "wire_response \<Rightarrow> string \<Rightarrow> (string \<times> string) option" where
  "responseCookie resp name =
     (case List.find (\<lambda>c. k_Name c = name) (wr_SetCookie resp) of None \<Rightarrow> None | Some c \<Rightarrow> Some (k_Name c, k_Value c))"

definition forward_request ::
  "pd_app \<Rightarrow> http_request \<Rightarrow> string \<Rightarrow> string \<Rightarrow> (string \<times> string) list option \<Rightarrow> (string \<times> string) list \<Rightarrow> pd_request" where
  "forward_request a r meth path form extraCookies =
     \<lparr>q_Method = meth, q_URL = pa_brokerInternalURL a @ path,
      q_ContentType = (if form \<noteq> None then ''application/x-www-form-urlencoded'' else []),
      q_Authorization = [], q_BasicAuth = None,
      q_Body = (case form of None \<Rightarrow> [] | Some f \<Rightarrow> values_Encode f),
      q_Cookies = (case brokerSessionCookie r of None \<Rightarrow> [] | Some c \<Rightarrow> [c]) @ extraCookies\<rparr>"

definition forwardForm ::
  "'w pd_lib \<Rightarrow> pd_app \<Rightarrow> http_request \<Rightarrow> string \<Rightarrow> string \<Rightarrow> (string \<times> string) list option \<Rightarrow> (string \<times> string) list \<Rightarrow> 'w \<Rightarrow>
     (string + wire_response) \<times> 'w" where
  "forwardForm L a r meth path form extraCookies w =
     (let req = forward_request a r meth path form extraCookies in
      case pl_NewRequest L (q_URL req) of
        Some err \<Rightarrow> (Inl err, w)
      | None \<Rightarrow>
          (case pl_Do L False req w of
             (Inl err, w1) \<Rightarrow> (Inl err, w1)
           | (Inr resp, w1) \<Rightarrow> (case wr_ReadError resp of Some err \<Rightarrow> (Inl err, w1) | None \<Rightarrow> (Inr resp, w1))))"

definition get_request :: "pd_app \<Rightarrow> string \<Rightarrow> (string \<times> string) list \<Rightarrow> pd_request" where
  "get_request a path cookies =
     \<lparr>q_Method = ''GET'', q_URL = pa_brokerInternalURL a @ path, q_ContentType = [], q_Authorization = [],
      q_BasicAuth = None, q_Body = [], q_Cookies = cookies\<rparr>"

definition loginCSRF :: "'w pd_lib \<Rightarrow> pd_app \<Rightarrow> 'w \<Rightarrow> (string + string \<times> (string \<times> string)) \<times> 'w" where
  "loginCSRF L a w =
     (let req = get_request a ''/login'' [] in
      case pl_NewRequest L (q_URL req) of
        Some err \<Rightarrow> (Inl err, w)
      | None \<Rightarrow>
          (case pl_Do L True req w of
             (Inl err, w1) \<Rightarrow> (Inl err, w1)
           | (Inr resp, w1) \<Rightarrow>
               if wr_Status resp \<noteq> 200
               then (Inl (brokerError_Error (pl_StatusText L)
                       \<lparr>be_message = ''load login csrf'', be_status = wr_Status resp, be_body = fst (read_limited (4 * 1024) resp)\<rparr>), w1)
               else (case read_limited (64 * 1024) resp of
                   (_, Some err) \<Rightarrow> (Inl err, w1)
                 | (html, None) \<Rightarrow>
                     let token = csrfTokenFromHTML html in
                     (case responseCookie resp brokerCSRFCookieName of
                        Some cookie \<Rightarrow>
                          if token = []
                          then (Inl (brokerError_Error (pl_StatusText L)
                                  \<lparr>be_message = ''login csrf token missing'', be_status = wr_Status resp, be_body = []\<rparr>), w1)
                          else (Inr (token, cookie), w1)
                      | None \<Rightarrow>
                          (Inl (brokerError_Error (pl_StatusText L)
                             \<lparr>be_message = ''login csrf token missing'', be_status = wr_Status resp, be_body = []\<rparr>), w1)))))"

text \<open>The user, the CSRF token and whether someone is signed in.\<close>

definition currentBrokerSession :: "'w pd_lib \<Rightarrow> pd_app \<Rightarrow> http_request \<Rightarrow> 'w \<Rightarrow> (string \<times> string \<times> bool) \<times> 'w" where
  "currentBrokerSession L a r w =
     (case brokerSessionCookie r of
        None \<Rightarrow> (([], [], False), w)
      | Some cookie \<Rightarrow>
          let req = get_request a ''/'' [cookie] in
          (case pl_NewRequest L (q_URL req) of
             Some _ \<Rightarrow> (([], [], False), w)
           | None \<Rightarrow>
               (case pl_Do L True req w of
                  (Inl _, w1) \<Rightarrow> (([], [], False), w1)
                | (Inr resp, w1) \<Rightarrow>
                    let html = fst (read_limited (64 * 1024) resp) in
                    (case leftmost signedInPattern html of
                       None \<Rightarrow> (([], [], False), w1)
                     | Some user \<Rightarrow> ((user, csrfTokenFromHTML html, True), w1)))))"

section \<open>The pages\<close>

text \<open>The response writer: headers set, and cookies added.\<close>

record pd_writer =
  pw_header :: "string \<rightharpoonup> string"
  pw_cookies :: "cookie list"

definition copySetCookie :: "wire_response \<Rightarrow> pd_writer \<Rightarrow> pd_writer" where
  "copySetCookie resp pw = pw\<lparr>pw_cookies := pw_cookies pw @ wr_SetCookie resp\<rparr>"

definition clearBrokerCookie :: "pd_writer \<Rightarrow> pd_writer" where
  "clearBrokerCookie pw =
     pw\<lparr>pw_cookies := pw_cookies pw @
       [\<lparr>k_Name = brokerSessionCookieName, k_Value = [], k_Secure = False, k_Expires = None, k_MaxAge = - 1\<rparr>]\<rparr>"

record pageData =
  pg_BrokerURL :: string
  pg_PublicBaseURL :: string
  pg_SignedIn :: bool
  pg_UserID :: string
  pg_CSRFToken :: string
  pg_HasCookie :: bool
  pg_Error :: string

definition page_json :: "pageData \<Rightarrow> (string \<times> json) list" where
  "page_json d =
     [(''BrokerURL'', JStr (pg_BrokerURL d)), (''PublicBaseURL'', JStr (pg_PublicBaseURL d)), (''SignedIn'', JBool (pg_SignedIn d)),
      (''UserID'', JStr (pg_UserID d)), (''CSRFToken'', JStr (pg_CSRFToken d)), (''HasCookie'', JBool (pg_HasCookie d)),
      (''Error'', JStr (pg_Error d))]"

definition pd_handleIndex :: "'w pd_lib \<Rightarrow> pd_app \<Rightarrow> http_request \<Rightarrow> pd_writer \<Rightarrow> 'w \<Rightarrow> response \<times> pd_writer \<times> 'w" where
  "pd_handleIndex L a r pw w =
     (case currentBrokerSession L a r w of ((userID, csrfToken, signedIn), w1) \<Rightarrow>
        (Resp 200 (Page ''page'' (page_json
           \<lparr>pg_BrokerURL = pa_brokerPublicURL a, pg_PublicBaseURL = pa_publicBaseURL a, pg_SignedIn = signedIn, pg_UserID = userID,
            pg_CSRFToken = csrfToken, pg_HasCookie = (brokerSessionCookie r \<noteq> None), pg_Error = r_Query r ''error''\<rparr>)),
         pw\<lparr>pw_header := (pw_header pw)(''Content-Type'' \<mapsto> ''text/html; charset=utf-8'')\<rparr>, w1))"

text \<open>The page, up to the text of its script.\<close>

definition pd_page_head :: "tmpl list" where
  \<open>pd_page_head =
     [Txt
        [''<!doctype html>'',
         ''<html lang="en">'',
         ''<head>'',
         ''  <meta charset="utf-8">'',
         ''  <meta name="viewport" content="width=device-width, initial-scale=1">'',
         ''  ''],
      Cond (Dot [''CSRFToken''])
        [Txt [''<meta name="broker-csrf-token" content="''],
         Put (Dot [''CSRFToken'']),
         Txt [''">'']]
        [],
      Txt
        [[],
         ''  <title>Passkey Demo</title>'',
         ''  <style>'',
         ''    body { font-family: system-ui, sans-serif; margin: 0; background: #f5f7fb; color: #16202a; }'',
         ''    main { max-width: 780px; margin: 48px auto; padding: 28px; background: #fff; border: 1px solid #d8dee8; border-radius: 8px; }'',
         ''    h1 { margin: 0 0 8px; font-size: 28px; }'',
         ''    h2 { margin-top: 28px; font-size: 18px; }'',
         ''    p { line-height: 1.5; }'',
         ''    label { display: block; margin: 12px 0; color: #334155; }'',
         ''    input { width: 100%; box-sizing: border-box; margin-top: 4px; padding: 9px 10px; border: 1px solid #bcc7d6; border-radius: 6px; font: inherit; }'',
         ''    button { border: 0; border-radius: 6px; background: #135e4f; color: #fff; padding: 10px 14px; font: inherit; cursor: pointer; }'',
         ''    button.secondary { background: #185abc; }'',
         ''    button.warn { background: #9f2d2d; }'',
         ''    code, .mono { font-family: ui-monospace, SFMono-Regular, Menlo, Consolas, monospace; }'',
         ''    .muted { color: #64748b; }'',
         ''    .status { padding: 12px 14px; background: #eef6f2; border: 1px solid #cfe8dc; border-radius: 6px; margin: 18px 0; }'',
         ''    .error { padding: 12px 14px; background: #fff1f2; border: 1px solid #fecdd3; border-radius: 6px; margin: 18px 0; color: #9f1239; }'',
         ''    .grid { display: grid; grid-template-columns: 1fr 1fr; gap: 24px; }'',
         ''    @media (max-width: 760px) { .grid { grid-template-columns: 1fr; } main { margin: 0; min-height: 100vh; border: 0; border-radius: 0; } }'',
         ''  </style>'',
         ''</head>'',
         ''<body>'',
         ''  <main>'',
         ''    <h1>Passkey Demo</h1>'',
         ''    <p class="muted">Uses authbroker WebAuthn endpoints through this app origin: <span class="mono">''],
      Put (Dot [''PublicBaseURL'']),
      Txt
        [''</span></p>'',
         ''    ''],
      Cond (Dot [''Error''])
        [Txt [''<div class="error">''],
         Put (Dot [''Error'']),
         Txt [''</div>'']]
        [],
      Txt
        [[],
         ''    <div class="status">'',
         ''      ''],
      Cond (Dot [''SignedIn''])
        [Txt
           [[],
            ''        Broker session: signed in as <strong>''],
         Put (Dot [''UserID'']),
         Txt
           [''</strong>.'',
            ''      '']]
        [Cond (Dot [''HasCookie''])
           [Txt
              [[],
               ''        Broker session cookie exists, but the session was not accepted by authbroker.'',
               ''      '']]
           [Txt
              [[],
               ''        Broker session: not signed in.'',
               ''      '']]],
      Txt
        [[],
         ''    </div>'',
         [],
         ''    <div class="grid">'',
         ''      <section>'',
         ''        <h2>1. Password sign-in for enrollment</h2>'',
         ''        <p class="muted">Sign in with LDAP first, then register a passkey for that account.</p>'',
         ''        <form method="post" action="/password-login">'',
         ''          <label>Username<input name="username" autocomplete="username" required value="johndoe"></label>'',
         ''          <label>Password<input name="password" type="password" autocomplete="current-password" required value="dogood"></label>'',
         ''          <label>TOTP code<input name="otp" inputmode="numeric" autocomplete="one-time-code"></label>'',
         ''          <button type="submit">Password sign in</button>'',
         ''        </form>'',
         ''        <p><button class="secondary" id="register-passkey" type="button">Register passkey</button></p>'',
         ''      </section>'',
         [],
         ''      <section>'',
         ''        <h2>2. Passkey sign-in</h2>'',
         ''        <p class="muted">After registration, sign out and use the passkey for the same username.</p>'',
         ''        <label>Username<input id="passkey-username" autocomplete="username webauthn" value="johndoe"></label>'',
         ''        <p><button class="secondary" id="login-passkey" type="button">Sign in with passkey</button></p>'',
         ''        <form method="post" action="/logout">'',
         ''          <button class="warn" type="submit">Sign out demo broker session</button>'',
         ''        </form>'',
         ''      </section>'',
         ''    </div>'',
         [],
         ''    <p id="message" class="muted"></p>'',
         ''  </main>'',
         ''<script>'']]\<close>

definition pd_pageTemplate :: "string list \<Rightarrow> tmpl list" where
  "pd_pageTemplate script = pd_page_head @ [Txt script]"

lemma pd_page_filled:
  assumes "pd_handleIndex L a r pw w = (Resp status (Page name data), pw', w')"
  shows "filleds (JObj data) (JObj data) 0 (pd_pageTemplate script)"
  using assms by (auto simp: pd_handleIndex_def pd_pageTemplate_def pd_page_head_def page_json_def filleds_append split: prod.splits)

text \<open>\<^verbatim>\<open>ParseForm\<close> without a limit of the handler reads at most 10 MB.\<close>

definition maxFormSize :: nat where "maxFormSize = 10 * 1024 * 1024"

definition login_fields :: "(string \<Rightarrow> string) \<Rightarrow> string \<Rightarrow> (string \<times> string) list" where
  "login_fields form csrfToken =
     [(''username'', form ''username''), (''password'', form ''password''), (''otp'', form ''otp''), (pd_csrfFormField, csrfToken)]"

definition error_redirect :: "string \<Rightarrow> response" where
  "error_redirect msg = http_Redirect (''/?error='' @ QueryEscape msg)"

definition pd_handlePasswordLogin ::
  "'w pd_lib \<Rightarrow> pd_app \<Rightarrow> http_request \<Rightarrow> pd_writer \<Rightarrow> 'w \<Rightarrow> response \<times> pd_writer \<times> 'w" where
  "pd_handlePasswordLogin L a r pw w =
     (if \<not> form_ok r maxFormSize then (http_Error ''bad form'' 400, pw, w)
      else case loginCSRF L a w of
          (Inl err, w1) \<Rightarrow> (error_redirect err, pw, w1)
        | (Inr (csrfToken, csrfCookie), w1) \<Rightarrow>
            (case forwardForm L a r ''POST'' ''/login'' (Some (login_fields (form_get r maxFormSize) csrfToken)) [csrfCookie] w1 of
               (Inl err, w2) \<Rightarrow> (error_redirect err, pw, w2)
             | (Inr resp, w2) \<Rightarrow>
                 let pw1 = copySetCookie resp pw in
                 if wr_Status resp < 300 \<or> wr_Status resp \<ge> 400
                 then (error_redirect (TrimSpace (string_of (wr_Body resp))), pw1, w2)
                 else (http_Redirect ''/'', pw1, w2)))"

definition pd_handleLogout :: "'w pd_lib \<Rightarrow> pd_app \<Rightarrow> http_request \<Rightarrow> pd_writer \<Rightarrow> 'w \<Rightarrow> response \<times> pd_writer \<times> 'w" where
  "pd_handleLogout L a r pw w =
     (case forwardForm L a r ''POST'' ''/oauth2/logout'' None [] w of
        (Inl err, w1) \<Rightarrow> (error_redirect err, clearBrokerCookie pw, w1)
      | (Inr resp, w1) \<Rightarrow> (http_Redirect ''/'', clearBrokerCookie (copySetCookie resp pw), w1))"

text \<open>The director of the proxy for the passkey requests, over the one of \<^verbatim>\<open>httputil\<close>.\<close>

record proxy_request =
  px_Host :: string
  px_Scheme :: string
  px_URLHost :: string
  px_Path :: string

definition webauthnProxy :: "(URL \<Rightarrow> proxy_request \<Rightarrow> proxy_request) \<Rightarrow> pd_app \<Rightarrow> proxy_request \<Rightarrow> proxy_request" where
  "webauthnProxy originalDirector a req =
     (originalDirector (pa_brokerInternal a) req)\<lparr>px_Host := url_Host (pa_brokerInternal a),
        px_Scheme := url_Scheme (pa_brokerInternal a), px_URLHost := url_Host (pa_brokerInternal a)\<rparr>"

section \<open>Matching\<close>

lemma leftmost_skip:
  assumes "\<And>i. i < length s \<Longrightarrow> m (drop i (s @ rest)) = None"
  shows "leftmost m (s @ rest) = leftmost m rest"
  using assms
proof (induction s)
  case (Cons c s)
  from Cons.prems [of 0] have "m (c # s @ rest) = None" by simp
  moreover have "m (drop i (s @ rest)) = None" if "i < length s" for i using Cons.prems [of "Suc i"] that by simp
  ultimately show ?case using Cons.IH by simp
qed simp

lemma leftmost_here: "m s = Some x \<Longrightarrow> leftmost m s = Some x"
  by (cases s) simp_all

lemma greedy_none:
  assumes "\<forall>c \<in> set x. p c" and "y = [] \<or> \<not> p (hd y)" and "\<And>i. i \<le> length x \<Longrightarrow> k (v @ take i x) (drop i x @ y) = None"
  shows "greedy p k v (x @ y) = None"
  using assms
proof (induction x arbitrary: v)
  case Nil
  from Nil(3) [of 0] Nil(2) show ?case by (cases y) simp_all
next
  case (Cons c x)
  have "greedy p k (v @ [c]) (x @ y) = None"
    using Cons.prems by (intro Cons.IH) (auto dest: Cons.prems(3) [of "Suc _", simplified])
  then show ?case using Cons.prems(1) Cons.prems(3) [of 0] by simp
qed

text \<open>The longest repetition after which the rest matches.\<close>

lemma greedy_at:
  assumes "\<forall>c \<in> set (x1 @ x2). p c" and "y = [] \<or> \<not> p (hd y)"
    and "\<And>i. i < length x2 \<Longrightarrow> k (v @ x1 @ take (Suc i) x2) (drop (Suc i) x2 @ y) = None" and "k (v @ x1) (x2 @ y) = Some r"
  shows "greedy p k v (x1 @ x2 @ y) = Some r"
  using assms
proof (induction x1 arbitrary: v)
  case Nil
  show ?case
  proof (cases x2)
    case Nil
    then show ?thesis using \<open>y = [] \<or> \<not> p (hd y)\<close> Nil.prems(4) by (cases y) simp_all
  next
    case (Cons c x)
    have "greedy p k (v @ [c]) (x @ y) = None"
      using Nil.prems Cons by (intro greedy_none) (auto dest: Nil.prems(3))
    then show ?thesis using Nil.prems(1,4) Cons by simp
  qed
next
  case (Cons c x1)
  have "greedy p k (v @ [c]) (x1 @ x2 @ y) = Some r" using Cons.prems by (intro Cons.IH) simp_all
  then show ?case using Cons.prems(1) by simp
qed

text \<open>A literal with one quote cannot start in a quoted value that does not have the part before the quote.\<close>

lemma prefix_quote:
  assumes "HasPrefix (y @ q # z) (u @ q # w)" and "q \<notin> set y" and "q \<notin> set u"
  shows "y = u \<and> HasPrefix z w"
proof -
  from assms(1) obtain t where "y @ q # z = (u @ q # w) @ t" by (metis HasPrefix_def append_take_drop_id)
  moreover from this have "takeWhile ((\<noteq>) q) (y @ q # z) = takeWhile ((\<noteq>) q) (u @ q # w @ t)" by simp
  moreover have "takeWhile ((\<noteq>) q) (a @ q # b) = a" if "q \<notin> set a" for a b
    using that by (simp add: takeWhile_tail) (metis takeWhile_eq_all_conv)
  ultimately have "y = u" using assms(2,3) by metis
  with \<open>y @ q # z = (u @ q # w) @ t\<close> show ?thesis by (simp add: HasPrefix_def)
qed

lemma quoted_tail_fails:
  assumes "free_text (u @ q # w) l" and "q \<notin> set v" and "q \<notin> set u" and "u \<noteq> []" and "hd u \<noteq> e"
    and "\<And>j. drop j v = u \<Longrightarrow> \<not> HasPrefix (e # rest) w" and "i \<le> length (l @ v @ [q])"
  shows "\<not> HasPrefix (drop i (l @ v @ [q]) @ e # rest) (u @ q # w)"
proof (cases "i < length l")
  case True
  then have "\<not> HasPrefix (drop i (l @ v @ q # e # rest)) (u @ q # w)"
    using free_text_of [OF assms(1)] by (simp add: free_of_def)
  then show ?thesis using True by simp
next
  case False
  then obtain j where i: "i = length l + j" using le_Suc_ex by (metis linorder_not_less)
  show ?thesis
  proof (cases "j \<le> length v")
    case True
    then have d: "drop i (l @ v @ [q]) @ e # rest = drop j v @ q # e # rest" using i by simp
    have "q \<notin> set (drop j v)" using assms(2) by (meson in_set_dropD)
    then show ?thesis using prefix_quote [of "drop j v" q "e # rest" u w] assms(3,6) unfolding d by blast
  next
    case False
    then have "drop i (l @ v @ [q]) @ e # rest = e # rest" using assms(7) i by simp
    then show ?thesis using assms(4,5) by (cases u) (auto simp: HasPrefix_def)
  qed
qed

lemma csrf_here:
  assumes "CHR 0x22 \<notin> set tok" and "CHR ''>'' \<notin> set tok" and "CHR ''='' \<notin> set tok"
  shows \<open>csrfTokenPattern (''<input type="hidden" name="csrf_token" value="'' @ tok @ ''">'' @ rest) = Some tok\<close>
proof -
  let ?q = "CHR 0x22" and ?k3 = "greedy ((\<noteq>) CHR 0x22) (\<lambda>v. expect [CHR 0x22] (\<lambda>_. Some v)) []"
  let ?k2 = \<open>greedy ((\<noteq>) CHR ''>'') (\<lambda>_. expect ''value="'' ?k3) []\<close>
  let ?y = "CHR ''>'' # rest"
  have no: "drop j tok \<noteq> ''value=''" for j
    using assms(3) in_set_dropD [of "CHR ''=''" j tok] by auto
  have k3: "?k3 (tok @ ?q # ?y) = Some tok"
    using greedy_at [of tok "[]" "(\<noteq>) ?q" "?q # ?y" "\<lambda>v. expect [?q] (\<lambda>_. Some v)" "[]" tok] assms(1)
    by (auto simp: expect_def HasPrefix_def)
  have f2: "free_text (''value='' @ ?q # []) (''alue='' @ [?q])"
    and f1: \<open>free_text (''name='' @ ?q # ''csrf_token"'') (''ame="csrf_token" value="'')\<close> by code_simp+
  have k2: \<open>?k2 ('' '' @ (''value="'' @ tok @ [?q]) @ ?y) = Some tok\<close>
  proof (rule greedy_at)
    fix i assume \<open>i < length (''value="'' @ tok @ [?q])\<close>
    then have "\<not> HasPrefix (drop i ((''alue='' @ [?q]) @ tok @ [?q]) @ ?y) (''value='' @ ?q # [])"
      using assms(1) no by (intro quoted_tail_fails [OF f2]) auto
    then show \<open>expect ''value="'' ?k3 (drop (Suc i) (''value="'' @ tok @ [?q]) @ ?y) = None\<close>
      by (simp add: expect_def)
  qed (use assms k3 in \<open>auto simp: expect_def HasPrefix_def\<close>)
  have \<open>greedy ((\<noteq>) CHR ''>'') (\<lambda>_. expect ''name="csrf_token"'' ?k2) []
      ('' type="hidden" '' @ (''name="csrf_token" value="'' @ tok @ [?q]) @ ?y) = Some tok\<close>
  proof (rule greedy_at)
    fix i assume \<open>i < length (''name="csrf_token" value="'' @ tok @ [?q])\<close>
    then have \<open>\<not> HasPrefix (drop i ((''ame="csrf_token" value="'') @ tok @ [?q]) @ ?y) (''name='' @ ?q # ''csrf_token"'')\<close>
      using assms(1) by (intro quoted_tail_fails [OF f1]) (auto simp: HasPrefix_def)
    then show \<open>expect ''name="csrf_token"'' ?k2 (drop (Suc i) (''name="csrf_token" value="'' @ tok @ [?q]) @ ?y) = None\<close>
      by (simp add: expect_def)
  qed (use assms k2 in \<open>auto simp: expect_def HasPrefix_def\<close>)
  then show ?thesis by (simp add: csrfTokenPattern_def expect_def HasPrefix_def)
qed

lemma prefix_drop: "HasPrefix s (u @ w) \<Longrightarrow> HasPrefix (drop (length u) s) w"
  by (metis HasPrefix_def append_eq_conv_conj drop_drop length_append take_add take_drop)

lemma prefix_skip:
  assumes "free_of (c # w) s" and "c \<notin> set u" and "i < length s"
  shows "\<not> HasPrefix (drop i (s @ u @ t)) (u @ c # w)"
proof
  assume "HasPrefix (drop i (s @ u @ t)) (u @ c # w)"
  from prefix_drop [OF this] have d: "HasPrefix (drop (i + length u) (s @ u @ t)) (c # w)" by (metis add.commute drop_drop)
  show False
  proof (cases "i + length u < length s")
    case True
    then show ?thesis using assms(1) d unfolding free_of_def by blast
  next
    case False
    then obtain j where j: "i + length u = length s + j" by (metis le_Suc_ex not_less)
    with assms(3) have "j < length u" by linarith
    moreover from d j have "HasPrefix (drop j (u @ t)) (c # w)" by simp
    ultimately have "u ! j = c" by (auto simp: HasPrefix_def Cons_nth_drop_Suc [symmetric])
    then show False using \<open>j < length u\<close> assms(2) nth_mem by blast
  qed
qed

text \<open>An expression that starts with a literal text and the opening of a tag: text without that tag is skipped.\<close>

locale tag_pattern =
  fixes m :: "string \<Rightarrow> 'a option" and before :: string and lt :: char and tag :: string
  assumes starts: "m s \<noteq> None \<Longrightarrow> HasPrefix s (before @ lt # tag)"
    and apart: "lt \<notin> set before"
begin

lemma skip: "free_of (lt # tag) s \<Longrightarrow> leftmost m (s @ before @ rest) = leftmost m (before @ rest)"
  by (rule leftmost_skip) (meson starts prefix_skip [OF _ apart])

end

interpretation csrf: tag_pattern csrfTokenPattern "[]" "CHR ''<''" "''input''"
  by unfold_locales (auto simp: csrfTokenPattern_def expect_def split: if_splits)

interpretation signed: tag_pattern signedInPattern "''Signed in as ''" "CHR ''<''" "''strong>''"
  by unfold_locales (auto simp: signedInPattern_def expect_def split: if_splits)

lemma csrf_skip: "free_of ''<input'' s \<Longrightarrow> leftmost csrfTokenPattern (s @ rest) = leftmost csrfTokenPattern rest"
  using csrf.skip [of s rest] by simp

lemma signed_skip:
  "free_of ''<strong>'' s \<Longrightarrow>
     leftmost signedInPattern (s @ ''Signed in as <strong>'' @ rest) = leftmost signedInPattern (''Signed in as <strong>'' @ rest)"
  using signed.skip [of s "''<strong>'' @ rest"] by simp

lemma csrf_other_input:
  assumes "CHR 0x22 \<notin> set v" and "CHR ''>'' \<notin> set v"
  shows \<open>csrfTokenPattern (''<input type="hidden" name="request_id" value="'' @ v @ ''">'' @ rest) = None\<close>
proof -
  let ?q = "CHR 0x22" and ?y = "CHR ''>'' # rest"
  have f: \<open>free_text (''name='' @ ?q # ''csrf_token"'') (''  type="hidden" name="request_id" value="'')\<close> by code_simp
  have \<open>greedy ((\<noteq>) CHR ''>'') (\<lambda>_. expect ''name="csrf_token"'' k) [] (('' type="hidden" name="request_id" value="'' @ v @ [?q]) @ ?y) = None\<close> for k
  proof (rule greedy_none)
    fix i assume \<open>i \<le> length ('' type="hidden" name="request_id" value="'' @ v @ [?q])\<close>
    then have \<open>\<not> HasPrefix (drop (Suc i) (''  type="hidden" name="request_id" value="'' @ v @ [?q]) @ ?y) (''name='' @ ?q # ''csrf_token"'')\<close>
      using assms(1) by (intro quoted_tail_fails [OF f]) (auto simp: HasPrefix_def)
    then show \<open>expect ''name="csrf_token"'' k (drop i ('' type="hidden" name="request_id" value="'' @ v @ [?q]) @ ?y) = None\<close>
      by (simp add: expect_def)
  qed (use assms in auto)
  then show ?thesis by (simp add: csrfTokenPattern_def expect_def HasPrefix_def)
qed

lemma signed_here:
  assumes "v \<noteq> []" and "CHR ''<'' \<notin> set v"
  shows "signedInPattern (''Signed in as <strong>'' @ v @ ''</strong>'' @ rest) = Some v"
proof -
  have "greedy ((\<noteq>) CHR ''<'') (\<lambda>v s. if v = [] then None else expect ''</strong>'' (\<lambda>_. Some v) s) [] (v @ [] @ ''</strong>'' @ rest) = Some v"
    using assms by (intro greedy_at) (auto simp: expect_def HasPrefix_def)
  then show ?thesis by (simp add: signedInPattern_def expect_def HasPrefix_def)
qed

section \<open>The token of the login page\<close>

lemma login_parts_free:
  "list_all (tmpl_free ''<input'') loginTemplate_part1"
  by code_simp

text \<open>The parts begin and end in text, and the tokens stand in a quoted attribute.\<close>

lemma login_contexts:
  "afters CText loginTemplate_part1 = CText" "afters CText loginTemplate_part2 = CText"
  by code_simp+

lemma hidden_contexts:
  \<open>scan CText ''<input type="hidden" name="csrf_token" value="'' = CVal ''input'' True PlainAttr NoPart\<close>
  \<open>scan CText ''<input type="hidden" name="request_id" value="'' = CVal ''input'' True PlainAttr NoPart\<close>
  \<open>scan CText ''Signed in as <strong>'' = CText\<close>
  by code_simp+

lemma csrf_skip_input:
  assumes "CHR ''<'' \<notin> set v" and "CHR ''>'' \<notin> set v" and "CHR 0x22 \<notin> set v"
  shows \<open>leftmost csrfTokenPattern (''<input type="hidden" name="request_id" value="'' @ v @ ''">'' @ rest) = leftmost csrfTokenPattern rest\<close>
proof -
  have f: \<open>free_of ''<input'' (''input type="hidden" name="request_id" value="'' @ v @ ''">'')\<close>
    by (rule free_of_char) (use assms in auto)
  show ?thesis using csrf_other_input [OF assms(3,2), of rest] csrf_skip [OF f, of rest] by simp
qed

text \<open>The token is found on the login page, whatever the other data of the page are.\<close>

lemma login_page_token:
  assumes "map_of data ''CSRFToken'' = Some (JStr tok)" and "list_all unreserved tok"
  shows "csrfTokenFromHTML (execute G loginTemplate data) = tok"
proof -
  let ?D = "JObj data"
  have n: "\<not> unreserved (CHR 0x22)" "\<not> unreserved (CHR ''>'')" "\<not> unreserved (CHR ''='')" by code_simp+
  then have t: "CHR 0x22 \<notin> set tok" "CHR ''>'' \<notin> set tok" "CHR ''='' \<notin> set tok"
    using assms(2) by (auto simp: list_all_iff)
  have f: "free_of ''<input'' (execs G CText ?D ?D 0 loginTemplate_part1)" using exec_free(2) login_parts_free by blast
  have \<open>\<exists>rest. execs G CText ?D ?D 0 loginTemplate_part3 = ''<input type="hidden" name="csrf_token" value="'' @ tok @ ''">'' @ rest\<close>
    unfolding loginTemplate_part3_def using assms by (simp add: html_escape_unreserved hidden_contexts)
  then obtain rest where p3: \<open>execs G CText ?D ?D 0 loginTemplate_part3 = ''<input type="hidden" name="csrf_token" value="'' @ tok @ ''">'' @ rest\<close> ..
  have p2: \<open>execs G CText ?D ?D 0 loginTemplate_part2 = ''<input type="hidden" name="request_id" value="'' @
      escape G InText (sprint (deref ?D ?D 0 (Dot [''RequestID'']))) @ ''">'' @ CHR 0x0A # ''        ''\<close>
    unfolding loginTemplate_part2_def by (simp add: hidden_contexts)
  have w: "free_of ''<input'' (CHR 0x0A # ''        '')" by (rule free_of_char) simp
  have "leftmost csrfTokenPattern (execs G CText ?D ?D 0 loginTemplate_part2 @ execs G CText ?D ?D 0 loginTemplate_part3) = Some tok"
    unfolding p2 p3 append_assoc csrf_skip_input [OF escape_no_lt] csrf_skip [OF w]
    by (rule leftmost_here, rule csrf_here [OF t])
  then show ?thesis
    by (simp add: csrfTokenFromHTML_def execute_def user_pages_accepted(3), simp add: loginTemplate_def execs_append login_contexts csrf_skip [OF f])
qed

section \<open>The user and the token of the home page\<close>

lemma home_parts_free:
  "list_all (tmpl_free ''<input'') brokerHomeTemplate_part1" "list_all (tmpl_free ''<strong>'') brokerHomeTemplate_part1"
  "list_all (tmpl_free ''<input'') home_signed_in_part1" "list_all (tmpl_free ''<strong>'') home_signed_in_part1"
  "list_all (tmpl_free ''<strong>'') home_signed_in_part2" "list_all (tmpl_free ''<input'') home_no_tokens"
  "list_all (tmpl_free ''<input'') home_signed_in_part3" "list_all (tmpl_free ''<strong>'') home_signed_in_part3"
  "list_all (tmpl_free ''<input'') home_signed_in_part4" "list_all (tmpl_free ''<input'') home_token_row_part1"
  by code_simp+

lemma home_contexts:
  "afters CText brokerHomeTemplate_part1 = CText" "afters CText home_signed_in_part1 = CText" "afters CText home_signed_in_part2 = CText"
  "afters CText home_signed_in_part3 = CText" "afters CText home_signed_in = CText" "afters CText home_token_row_part1 = CText"
  by code_simp+

lemma free_execs:
  "list_all (tmpl_free ''<input'') ts \<Longrightarrow> free_of ''<input'' (execs G c root dot i ts)"
  "list_all (tmpl_free ''<strong>'') ts \<Longrightarrow> free_of ''<strong>'' (execs G c root dot i ts)"
  using exec_free(2) by blast+

lemma home_page_parts:
  assumes "map_of data ''Authenticated'' = Some (JBool True)"
  obtains rest where "free_of ''<input'' rest" "execute G brokerHomeTemplate data =
    execs G CText (JObj data) (JObj data) 0 brokerHomeTemplate_part1 @ execs G CText (JObj data) (JObj data) 0 home_signed_in_part1 @
    execs G CText (JObj data) (JObj data) 0 home_signed_in_part2 @ execs G CText (JObj data) (JObj data) 0 home_signed_in_part3 @
    execs G CText (JObj data) (JObj data) 0 home_signed_in_part4 @ rest"
proof -
  let ?rest = "Join [[], ''  </main>'', ''</body>'', ''</html>''] [CHR 0x0A]"
  have "free_text ''<input'' ?rest" by code_simp
  then have "free_of ''<input'' ?rest" by (rule free_text_of)
  moreover have "execute G brokerHomeTemplate data =
    execs G CText (JObj data) (JObj data) 0 brokerHomeTemplate_part1 @ execs G CText (JObj data) (JObj data) 0 home_signed_in_part1 @
    execs G CText (JObj data) (JObj data) 0 home_signed_in_part2 @ execs G CText (JObj data) (JObj data) 0 home_signed_in_part3 @
    execs G CText (JObj data) (JObj data) 0 home_signed_in_part4 @ ?rest"
    using assms by (simp add: execute_def user_pages_accepted(1) del: Join.simps, simp add: brokerHomeTemplate_def brokerHomeTemplate_part2_def
        home_signed_in_def execs_append home_contexts del: Join.simps)
  ultimately show thesis by (rule that)
qed

lemma home_page_user:
  assumes "map_of data ''Authenticated'' = Some (JBool True)" and "map_of data ''UserID'' = Some (JStr u)" and "u \<noteq> []"
  shows "leftmost signedInPattern (execute G brokerHomeTemplate data) = Some (html_escape u)"
proof -
  let ?D = "JObj data"
  obtain rest where p: "execute G brokerHomeTemplate data = execs G CText ?D ?D 0 brokerHomeTemplate_part1 @
      execs G CText ?D ?D 0 home_signed_in_part1 @ execs G CText ?D ?D 0 home_signed_in_part2 @ execs G CText ?D ?D 0 home_signed_in_part3 @
      execs G CText ?D ?D 0 home_signed_in_part4 @ rest" by (rule home_page_parts [OF assms(1)])
  have f: "free_of ''<strong>'' (execs G CText ?D ?D 0 brokerHomeTemplate_part1 @ execs G CText ?D ?D 0 home_signed_in_part1 @
      execs G CText ?D ?D 0 home_signed_in_part2 @ execs G CText ?D ?D 0 home_signed_in_part3)"
    by (intro free_of_append free_execs home_parts_free)
  have "\<exists>t. execs G CText ?D ?D 0 home_signed_in_part4 = ''Signed in as <strong>'' @ html_escape u @ ''</strong>'' @ t"
    unfolding home_signed_in_part4_def using assms(2) by (simp add: hidden_contexts)
  then obtain t where t: "execs G CText ?D ?D 0 home_signed_in_part4 = ''Signed in as <strong>'' @ html_escape u @ ''</strong>'' @ t" ..
  have "html_escape u \<noteq> []" using assms(3) by (cases u) (auto simp: html_escape_def html_escape_char_def)
  then have "leftmost signedInPattern (''Signed in as <strong>'' @ html_escape u @ ''</strong>'' @ t @ rest) = Some (html_escape u)"
    using escape_no_lt(1) [of G InText u] by (intro leftmost_here signed_here) simp_all
  then show ?thesis using signed_skip [OF f, of "html_escape u @ ''</strong>'' @ t @ rest"] p t by simp
qed

text \<open>The token stands in the form of the first app token; without one it is not on the page.\<close>

lemma home_page_token:
  assumes "map_of data ''Authenticated'' = Some (JBool True)" and "map_of data ''CSRFToken'' = Some (JStr tok)"
    and "map_of data ''AppTokens'' = Some (JArr ts)" and "list_all unreserved tok"
  shows "csrfTokenFromHTML (execute G brokerHomeTemplate data) = (if ts = [] then [] else tok)"
proof -
  let ?D = "JObj data"
  obtain rest where r: "free_of ''<input'' rest" and p: "execute G brokerHomeTemplate data = execs G CText ?D ?D 0 brokerHomeTemplate_part1 @
      execs G CText ?D ?D 0 home_signed_in_part1 @ execs G CText ?D ?D 0 home_signed_in_part2 @ execs G CText ?D ?D 0 home_signed_in_part3 @
      execs G CText ?D ?D 0 home_signed_in_part4 @ rest" by (rule home_page_parts [OF assms(1)])
  have pre: "free_of ''<input'' (execs G CText ?D ?D 0 brokerHomeTemplate_part1 @ execs G CText ?D ?D 0 home_signed_in_part1)"
    by (intro free_of_append free_execs home_parts_free)
  show ?thesis
  proof (cases ts)
    case Nil
    then have "execs G CText ?D ?D 0 home_signed_in_part2 = execs G CText ?D ?D 0 home_no_tokens"
      using assms(3) by (simp add: home_signed_in_part2_def)
    then have "free_of ''<input'' (execute G brokerHomeTemplate data)"
      unfolding p by (auto intro!: free_of_append free_execs home_parts_free r)
    from csrf_skip [OF this, of "[]"] have "leftmost csrfTokenPattern (execute G brokerHomeTemplate data) = None"
      by (simp add: csrfTokenPattern_def expect_def HasPrefix_def)
    then show ?thesis using Nil by (simp add: csrfTokenFromHTML_def)
  next
    case (Cons x xs)
    have n: "\<not> unreserved (CHR 0x22)" "\<not> unreserved (CHR ''>'')" "\<not> unreserved (CHR ''='')" by code_simp+
    then have t: "CHR 0x22 \<notin> set tok" "CHR ''>'' \<notin> set tok" "CHR ''='' \<notin> set tok"
      using assms(4) by (auto simp: list_all_iff)
    have \<open>\<exists>z. execs G CText ?D x 0 home_token_row_part2 = ''<input type="hidden" name="csrf_token" value="'' @ tok @ ''">'' @ z\<close>
      unfolding home_token_row_part2_def using assms(2,4) by (simp add: html_escape_unreserved hidden_contexts)
    then obtain z where z: \<open>execs G CText ?D x 0 home_token_row_part2 = ''<input type="hidden" name="csrf_token" value="'' @ tok @ ''">'' @ z\<close> ..
    let ?head = "Join [[], ''            <div class=\"token-list\">'', ''              ''] [CHR 0x0A]"
    have "free_text ''<input'' ?head" and hc: "scan CText ?head = CText" by code_simp+
    then have h: "free_of ''<input'' (?head @ execs G CText ?D x 0 home_token_row_part1)"
      by (intro free_of_append free_execs home_parts_free free_text_of)
    have "\<exists>y. execs G CText ?D ?D 0 home_signed_in_part2 = (?head @ execs G CText ?D x 0 home_token_row_part1) @ execs G CText ?D x 0 home_token_row_part2 @ y"
      using Cons assms(3) by (simp add: home_signed_in_part2_def home_tokens_def home_token_row_def execs_append hc home_contexts del: Join.simps)
    then obtain y where "execs G CText ?D ?D 0 home_signed_in_part2 =
        (?head @ execs G CText ?D x 0 home_token_row_part1) @ execs G CText ?D x 0 home_token_row_part2 @ y" ..
    then have "leftmost csrfTokenPattern (execute G brokerHomeTemplate data) = Some tok"
      using csrf_skip [OF pre] csrf_skip [OF h] leftmost_here [of csrfTokenPattern, OF csrf_here [OF t]] p z
      by (simp del: Join.simps)
    then show ?thesis using Cons by (simp add: csrfTokenFromHTML_def)
  qed
qed

section \<open>The demo in front of the broker\<close>

text \<open>
  The broker as the network of the demo: every request starts with an empty response; \<open>deliver\<close> is
  what it becomes on the way, and pages come back as their text.
\<close>

definition fresh :: "st \<Rightarrow> st" where
  "fresh s = s\<lparr>w_header := Map.empty, w_cookies := []\<rparr>"

definition pd_broker_Do ::
  "(pd_request \<Rightarrow> http_request) \<Rightarrow> (body \<Rightarrow> string) \<Rightarrow> env \<Rightarrow> bool \<Rightarrow> pd_request \<Rightarrow> st \<Rightarrow> (string + wire_response) \<times> st" where
  "pd_broker_Do deliver other e follow q s =
     (let r = deliver q in
      case (if r_Path r = ''/login'' then (if r_Method r = ''GET'' then handleLoginGet e r (fresh s) else handleLoginPost e r (fresh s))
            else if r_Path r = ''/oauth2/logout'' then handleLogout e r (fresh s)
            else handleHome e r (fresh s)) of
        (Resp status b, s') \<Rightarrow>
          (Inr \<lparr>wr_Status = status, wr_SetCookie = w_cookies s', wr_Body = bytes_of (body_text (e_lib e) other b), wr_ReadError = None\<rparr>, s')
      | (Panic, s') \<Rightarrow> (Inl ''EOF'', s'))"

text \<open>What \<^verbatim>\<open>net/http\<close> does with a request on its way: method, path, cookies and the fields of the form arrive.\<close>

definition delivered :: "(pd_request \<Rightarrow> http_request) \<Rightarrow> nat \<Rightarrow> string \<Rightarrow> (string \<times> string) list \<Rightarrow> pd_request \<Rightarrow> bool" where
  "delivered deliver n path flds q =
     (let r = deliver q in
      r_Method r = q_Method q \<and> r_Path r = path \<and> r_Query r = (\<lambda>_. []) \<and> r_Cookie r = map_of (q_Cookies q) \<and>
      (length (q_Body q) \<le> n \<longrightarrow> form_ok r n \<and> form_get r n = (\<lambda>k. case map_of flds k of None \<Rightarrow> [] | Some v \<Rightarrow> v)))"

lemma login_page_size:
  assumes "length dn \<le> 3000" and "length tok \<le> 3000"
  shows "length (execute G loginTemplate
    [(''DisplayName'', JStr dn), (''RequestID'', JStr []), (''ClientID'', JStr ''authbroker''), (''TOTPHint'', JBool hint), (''CSRFToken'', JStr tok)])
    < 64 * 1024" (is "length (execute G loginTemplate ?data) < _")
proof -
  let ?ks = "[''DisplayName'', ''RequestID'', ''ClientID'', ''CSRFToken'']"
  have "straights ?ks CText loginTemplate" by code_simp
  moreover have "length (html_escape (sprint (fld (JObj ?data) [k]))) \<le> 15000" if "k \<in> set ?ks" for k
  proof -
    have "length (sprint (fld (JObj ?data) [k])) \<le> 3000" using that assms by auto
    then show ?thesis using length_html_escape [of "sprint (fld (JObj ?data) [k])"] by linarith
  qed
  ultimately have "length (execute G loginTemplate ?data) \<le>
      sum_list (map text_size loginTemplate) + sum_list (map puts loginTemplate) * 15000"
    using exec_size(2) [of ?ks CText loginTemplate "JObj ?data" 15000] by (simp add: execute_def user_pages_accepted(3))
  moreover have "sum_list (map text_size loginTemplate) \<le> 2500" "sum_list (map puts loginTemplate) = 4" by code_simp+
  ultimately show ?thesis by simp
qed

lemma string_of_take: "string_of (take n (bytes_of t)) = take n t"
  by (metis bytes_of_def string_of_bytes_of take_map)

lemma login_get_page:
  assumes "r_Query r = (\<lambda>_. [])"
  obtains s1 cs where "handleLoginGet e r (fresh s) = (Resp 200 (Page ''login''
      [(''DisplayName'', JStr (cf_DisplayName (e_cfg e))), (''RequestID'', JStr []), (''ClientID'', JStr ''authbroker''),
       (''TOTPHint'', JBool (cf_MFA_TOTPRequired (e_cfg e))), (''CSRFToken'', JStr (fst (randomB64 e 32 s)))]), s1)"
    "w_cookies s1 = [cs]" "k_Name cs = brokerCSRFCookieName" "k_Value cs = fst (randomB64 e 32 s)"
  using assms
  by (auto simp: handleLoginGet_def anonymousCSRFToken_def randomB64_def SetCookie_def set_header_def fresh_def Let_def
      csrfCookieName_def brokerCSRFCookieName_def)

text \<open>The demo gets the token of the login page, and the cookie with it.\<close>

lemma loginCSRF_broker:
  assumes "pl_Do L = pd_broker_Do deliver other e" and "pl_NewRequest L = (\<lambda>_. None)"
    and "delivered deliver n ''/login'' [] (get_request a ''/login'' [])"
    and "length (cf_DisplayName (e_cfg e)) \<le> 3000" and "\<And>i n. length (g_entropy (e_lib e) i n) = n"
  shows "loginCSRF L a s = (Inr (fst (randomB64 e 32 s), (brokerCSRFCookieName, fst (randomB64 e 32 s))),
    snd (handleLoginGet e (deliver (get_request a ''/login'' [])) (fresh s)))"
proof -
  let ?r = "deliver (get_request a ''/login'' [])" and ?tok = "fst (randomB64 e 32 s)"
  have r: "r_Query ?r = (\<lambda>_. [])" "r_Path ?r = ''/login''" "r_Method ?r = ''GET''"
    using assms(3) by (simp_all add: delivered_def Let_def get_request_def)
  obtain s1 cs where g: "handleLoginGet e ?r (fresh s) = (Resp 200 (Page ''login''
      [(''DisplayName'', JStr (cf_DisplayName (e_cfg e))), (''RequestID'', JStr []), (''ClientID'', JStr ''authbroker''),
       (''TOTPHint'', JBool (cf_MFA_TOTPRequired (e_cfg e))), (''CSRFToken'', JStr ?tok)]), s1)"
    and c: "w_cookies s1 = [cs]" "k_Name cs = brokerCSRFCookieName" "k_Value cs = ?tok"
    by (rule login_get_page [OF r(1)])
  let ?data = "[(''DisplayName'', JStr (cf_DisplayName (e_cfg e))), (''RequestID'', JStr []), (''ClientID'', JStr ''authbroker''),
       (''TOTPHint'', JBool (cf_MFA_TOTPRequired (e_cfg e))), (''CSRFToken'', JStr ?tok)]"
  have tok: "list_all unreserved ?tok" "length ?tok = 43" "?tok \<noteq> []"
  proof -
    show "list_all unreserved ?tok" "length ?tok = 43"
      using assms(5) by (simp_all add: randomB64_def base64RawURL_unreserved length_base64RawURL)
    then show "?tok \<noteq> []" by auto
  qed
  have page: "body_text (e_lib e) other (Page ''login'' ?data) = execute (e_lib e) loginTemplate ?data"
    by (simp add: body_text_def page_templates_def)
  have size: "length (execute (e_lib e) loginTemplate ?data) < 64 * 1024"
    using login_page_size [OF assms(4), of ?tok] tok(2) by simp
  have found: "csrfTokenFromHTML (execute (e_lib e) loginTemplate ?data) = ?tok"
    by (rule login_page_token) (simp_all add: tok)
  let ?resp = "\<lparr>wr_Status = 200, wr_SetCookie = [cs], wr_Body = bytes_of (execute (e_lib e) loginTemplate ?data), wr_ReadError = None\<rparr>"
  have "pl_Do L True (get_request a ''/login'' []) s = (Inr ?resp, s1)"
    using r g c(1) assms(1) by (simp add: pd_broker_Do_def Let_def page del: page_templates_def)
  moreover have "read_limited (64 * 1024) ?resp = (execute (e_lib e) loginTemplate ?data, None)"
    using size by (simp add: read_limited_def string_of_take)
  moreover have "responseCookie ?resp brokerCSRFCookieName = Some (brokerCSRFCookieName, ?tok)"
    using c by (simp add: responseCookie_def)
  ultimately show ?thesis using assms(2) found tok(3) g by (simp add: loginCSRF_def Let_def)
qed

text \<open>
  C12. A password login through the demo is a login at the broker.  The CSRF check of the broker passes:
  the token that the demo takes out of the login page is the one in the cookie it sends.  So the demo
  answers as the login of the broker does with the name, the password and the code of the form: it
  redirects to its start page if the broker redirects, and shows the error otherwise; the browser gets
  the cookies of the broker, and the state is the one the broker's login leaves.
\<close>

theorem pd_login_forwarded:
  assumes "pl_Do L = pd_broker_Do deliver other e" and "pl_NewRequest L = (\<lambda>_. None)"
    and "length (cf_DisplayName (e_cfg e)) \<le> 3000" and "\<And>i n. length (g_entropy (e_lib e) i n) = n"
    and "delivered deliver maxLoginBodyBytes ''/login'' [] (get_request a ''/login'' [])"
    and "tok = fst (randomB64 e 32 s)" and "form_ok r maxFormSize"
    and "q = forward_request a r ''POST'' ''/login'' (Some (login_fields (form_get r maxFormSize) tok)) [(brokerCSRFCookieName, tok)]"
    and "delivered deliver maxLoginBodyBytes ''/login'' (login_fields (form_get r maxFormSize) tok) q"
    and "length (q_Body q) \<le> maxLoginBodyBytes"
    and "handleLoginGet e (deliver (get_request a ''/login'' [])) (fresh s) = (page, s1)"
  shows "verifyAnonymousCSRF (deliver q) (form_get (deliver q) maxLoginBodyBytes) \<and>
    form_get (deliver q) maxLoginBodyBytes ''username'' = form_get r maxFormSize ''username'' \<and>
    form_get (deliver q) maxLoginBodyBytes ''password'' = form_get r maxFormSize ''password'' \<and>
    pd_handlePasswordLogin L a r pw s =
      (case handleLoginPost e (deliver q) (fresh s1) of
         (Resp status b, s2) \<Rightarrow>
           (if 300 \<le> status \<and> status < 400 then http_Redirect ''/'' else error_redirect (TrimSpace (body_text (e_lib e) other b)),
            pw\<lparr>pw_cookies := pw_cookies pw @ w_cookies s2\<rparr>, s2)
       | (Panic, s2) \<Rightarrow> (error_redirect ''EOF'', pw, s2))"
proof -
  have l: "loginCSRF L a s = (Inr (tok, (brokerCSRFCookieName, tok)), s1)"
    using loginCSRF_broker [OF assms(1,2,5,3,4)] assms(6,11) by simp
  have d: "r_Method (deliver q) = ''POST''" "r_Path (deliver q) = ''/login''" "r_Cookie (deliver q) = map_of (q_Cookies q)"
    "form_get (deliver q) maxLoginBodyBytes = (\<lambda>k. case map_of (login_fields (form_get r maxFormSize) tok) k of None \<Rightarrow> [] | Some v \<Rightarrow> v)"
    using assms(9,10) by (simp_all add: delivered_def Let_def assms(8) forward_request_def)
  have "tok \<noteq> []" using assms(4,6) base64RawURL_eq_Nil by (metis fst_conv length_greater_0_conv randomB64_def zero_less_numeral)
  moreover have "map_of (q_Cookies q) csrfCookieName = Some tok"
    by (simp add: assms(8) forward_request_def brokerSessionCookie_def brokerSessionCookieName_def brokerCSRFCookieName_def
        csrfCookieName_def split: option.splits)
  moreover have "form_get (deliver q) maxLoginBodyBytes csrfFormField = tok"
    unfolding d(4) by (simp add: login_fields_def pd_csrfFormField_def csrfFormField_def)
  ultimately have v: "verifyAnonymousCSRF (deliver q) (form_get (deliver q) maxLoginBodyBytes)"
    by (simp add: verifyAnonymousCSRF_def d(3) csrfTokenMatches_def)
  have u: "form_get (deliver q) maxLoginBodyBytes ''username'' = form_get r maxFormSize ''username''"
    "form_get (deliver q) maxLoginBodyBytes ''password'' = form_get r maxFormSize ''password''"
    unfolding d(4) by (simp_all add: login_fields_def)
  have "pd_handlePasswordLogin L a r pw s =
      (case handleLoginPost e (deliver q) (fresh s1) of
         (Resp status b, s2) \<Rightarrow>
           (if 300 \<le> status \<and> status < 400 then http_Redirect ''/'' else error_redirect (TrimSpace (body_text (e_lib e) other b)),
            pw\<lparr>pw_cookies := pw_cookies pw @ w_cookies s2\<rparr>, s2)
       | (Panic, s2) \<Rightarrow> (error_redirect ''EOF'', pw, s2))"
    using l d(1,2) assms(1,2,7)
    by (auto simp: pd_handlePasswordLogin_def forwardForm_def assms(8) [symmetric] pd_broker_Do_def copySetCookie_def Let_def
        split: prod.splits response.splits)
  with u v show ?thesis by blast
qed

text \<open>The session cookie of the browser arrives at the broker.\<close>

lemma session_cookie_delivered:
  assumes "r_Cookie r brokerSessionCookieName = Some v" and "v \<noteq> []"
  shows "brokerSessionCookie r = Some (brokerSessionCookieName, v)"
    and "r_Cookie r' = map_of ((brokerSessionCookieName, v) # cs) \<Longrightarrow> session_id r' = Some v"
  using assms by (auto simp: brokerSessionCookie_def session_id_def brokerSessionCookieName_def sessionCookieName_def neq_Nil_conv)

text \<open>
  C13. What the demo makes of a session: for a browser with a live session of the broker it shows the
  user, as the home page escapes it, and hands its script a CSRF token only if the broker has an app
  token, since the forms of the app tokens are the only ones on the home page with the token.  So the
  registration of a passkey from that page gets past the CSRF check exactly if there is an app token.
\<close>

theorem pd_index_token:
  assumes "pl_Do L = pd_broker_Do deliver other e" and "pl_NewRequest L = (\<lambda>_. None)"
    and "r_Cookie r brokerSessionCookieName = Some v" and "v \<noteq> []"
    and "q = get_request a ''/'' [(brokerSessionCookieName, v)]" and "delivered deliver n ''/'' [] q"
    and "maybeExtendSession e (deliver q) (fresh s) = (Some sess, s1)"
    and "s_UserID sess \<noteq> []" and "s_CSRFToken sess \<noteq> []" and "list_all unreserved (s_CSRFToken sess)"
    and "length (body_text (e_lib e) other (Page ''home'' (homeData e (Some sess) None s1))) \<le> 64 * 1024"
    and "token = (if appTokenViews e s1 = [] then [] else s_CSRFToken sess)"
  shows "fst (pd_handleIndex L a r pw s) = Resp 200 (Page ''page'' (page_json
      \<lparr>pg_BrokerURL = pa_brokerPublicURL a, pg_PublicBaseURL = pa_publicBaseURL a, pg_SignedIn = True,
       pg_UserID = html_escape (s_UserID sess), pg_CSRFToken = token, pg_HasCookie = True, pg_Error = r_Query r ''error''\<rparr>)) \<and>
    (\<forall>r' s' s''. r_Header r' csrfHeaderName = token \<and> validSession e r' s' = (Some sess, s'') \<longrightarrow>
       (requireSessionCSRF r' (\<lambda>_. []) sess = None \<longleftrightarrow> appTokenViews e s1 \<noteq> []) \<and>
       (appTokenViews e s1 = [] \<longrightarrow> fst (handleWebAuthnRegisterBegin e r' s') = http_Error ''invalid csrf token'' 403))"
proof -
  let ?data = "homeData e (Some sess) None s1" and ?s2 = "set_header ''Content-Type'' ''text/html; charset=utf-8'' s1"
  let ?page = "execute (e_lib e) brokerHomeTemplate ?data"
  have d: "r_Path (deliver q) = ''/''" using assms(6) by (simp add: delivered_def Let_def)
  have page: "body_text (e_lib e) other (Page ''home'' ?data) = ?page" by (simp add: body_text_def page_templates_def)
  have m: "map_of ?data ''Authenticated'' = Some (JBool True)" "map_of ?data ''UserID'' = Some (JStr (s_UserID sess))"
    "map_of ?data ''CSRFToken'' = Some (JStr (s_CSRFToken sess))"
    "map_of ?data ''AppTokens'' = Some (JArr (map (\<lambda>v. JObj (view_json v)) (appTokenViews e s1)))"
    by (simp_all add: homeData_def)
  let ?resp = "\<lparr>wr_Status = 200, wr_SetCookie = w_cookies ?s2, wr_Body = bytes_of ?page, wr_ReadError = None\<rparr>"
  have "pl_Do L True q s = (Inr ?resp, ?s2)"
    using d assms(1,7) by (simp add: pd_broker_Do_def handleHome_def Let_def page)
  moreover have "fst (read_limited (64 * 1024) ?resp) = ?page"
    using assms(11) unfolding page by (simp add: read_limited_def string_of_take)
  ultimately have "currentBrokerSession L a r s = ((html_escape (s_UserID sess), token, True), ?s2)"
    using session_cookie_delivered(1) [OF assms(3,4)] home_page_user [OF m(1,2) assms(8), of "e_lib e"]
      home_page_token [OF m(1,3,4) assms(10), of "e_lib e"] assms(2,5,12)
    by (simp add: currentBrokerSession_def Let_def)
  then have i: "fst (pd_handleIndex L a r pw s) = Resp 200 (Page ''page'' (page_json
      \<lparr>pg_BrokerURL = pa_brokerPublicURL a, pg_PublicBaseURL = pa_publicBaseURL a, pg_SignedIn = True,
       pg_UserID = html_escape (s_UserID sess), pg_CSRFToken = token, pg_HasCookie = True, pg_Error = r_Query r ''error''\<rparr>))"
    using session_cookie_delivered(1) [OF assms(3,4)] by (simp add: pd_handleIndex_def)
  have c: "requireSessionCSRF r' (\<lambda>_. []) sess = (if appTokenViews e s1 = [] then Some (http_Error ''invalid csrf token'' 403) else None)"
    if "r_Header r' csrfHeaderName = token" for r'
    using that assms(9,12) by (simp add: requireSessionCSRF_def verifySessionCSRF_def csrfTokenMatches_def Let_def)
  show ?thesis using i c by (auto simp: handleWebAuthnRegisterBegin_def)
qed

text \<open>The logout of the demo ends the session at the broker and clears the cookie.\<close>

theorem pd_logout_ends:
  assumes "pl_Do L = pd_broker_Do deliver other e" and "pl_NewRequest L = (\<lambda>_. None)"
    and "r_Cookie r brokerSessionCookieName = Some v" and "v \<noteq> []"
    and "q = forward_request a r ''POST'' ''/oauth2/logout'' None []" and "delivered deliver maxLogoutBodyBytes ''/oauth2/logout'' [] q"
    and "db_open (st_db s)"
  shows "\<exists>pw' s'. pd_handleLogout L a r pw s = (http_Redirect ''/'', clearBrokerCookie pw', s') \<and> session_at s' v = None"
proof -
  have q: "q_Method q = ''POST''" "q_Body q = []" "q_Cookies q = [(brokerSessionCookieName, v)]"
    using session_cookie_delivered(1) [OF assms(3,4)] assms(5) by (simp_all add: forward_request_def)
  have d: "r_Method (deliver q) = ''POST''" "r_Path (deliver q) = ''/oauth2/logout''" "form_ok (deliver q) maxLogoutBodyBytes"
    "form_get (deliver q) maxLogoutBodyBytes = (\<lambda>k. [])" "r_Cookie (deliver q) = map_of [(brokerSessionCookieName, v)]"
    using assms(6) q by (simp_all add: delivered_def Let_def)
  have sid: "session_id (deliver q) = Some v" by (rule session_cookie_delivered(2) [OF assms(3,4) d(5)])
  obtain x s2 where v1: "validSession e (deliver q) (fresh s) = (x, s2)" by fastforce
  obtain y s3 where v2: "validSession e (deliver q) s2 = (y, s3)" by fastforce
  have "db_open (st_db s3)"
    using session_frameD [OF validSession_frame [OF v1]] session_frameD [OF validSession_frame [OF v2]] assms(7)
    by (simp add: fresh_def)
  then have c: "clearSession e (deliver q) s3 = (Inr (), SetCookie (session_cookie e [] None (- 1))
      (s3\<lparr>st_db := (st_db s3)\<lparr>db_sessions := bdel v (db_sessions (st_db s3))\<rparr>\<rparr>))"
    using sid by (simp add: clearSession_def on_db_def DeleteSession_def db_update_def)
  have t: "TrimSpace [] = []" by code_simp
  have "\<exists>b s'. handleLogout e (deliver q) (fresh s) = (Resp 200 b, s') \<and> session_at s' v = None"
    using d t v1 v2 c
    by (auto simp: handleLogout_def logoutParam_def resolveLogoutClientID_def audit_logout_def bget_bdel Let_def split: option.splits)
  then obtain b s' where "handleLogout e (deliver q) (fresh s) = (Resp 200 b, s')" "session_at s' v = None" by blast
  then show ?thesis using d(1,2) assms(1,2,5)
    by (auto simp: pd_handleLogout_def forwardForm_def pd_broker_Do_def Let_def)
qed

section \<open>Evaluating the properties\<close>

definition demo_pd_app :: pd_app where
  "demo_pd_app = \<lparr>pa_listen = [], pa_publicBaseURL = ''https://d'', pa_brokerPublicURL = ''https://b'', pa_brokerInternalURL = [],
     pa_brokerInternal = \<lparr>url_Scheme = ''http'', url_Host = ''b'', url_Hostname = ''b''\<rparr>\<rparr>"

definition demo_pd_request :: http_request where
  "demo_pd_request = demo_request\<lparr>r_Form := (\<lambda>_. (True, (\<lambda>_. [])(''username'' := ''alice'', ''password'' := ''pw''))),
     r_Cookie := [brokerSessionCookieName \<mapsto> ''sid'']\<rparr>"

definition demo_pd_fields :: "(string \<times> string) list" where
  "demo_pd_fields = [(''username'', ''alice''), (''password'', ''pw''), (''otp'', []), (''csrf_token'', base64RawURL (replicate 32 0))]"

lemma demo_pd_fields_eq: "demo_pd_fields = login_fields (form_get demo_pd_request maxFormSize) (base64RawURL (replicate 32 0))"
  by (simp add: demo_pd_fields_def login_fields_def demo_pd_request_def demo_request_def pd_csrfFormField_def)

definition demo_pd_env :: env where
  "demo_pd_env = demo_ui_env\<lparr>e_lib := demo_ui_lib\<lparr>g_Format := (\<lambda>_ _. [])\<rparr>\<rparr>"

definition demo_pd_deliver :: "pd_request \<Rightarrow> http_request" where
  "demo_pd_deliver q = demo_request\<lparr>r_Method := q_Method q, r_Path := q_URL q, r_Cookie := map_of (q_Cookies q),
     r_Form := (\<lambda>_. (True, \<lambda>k. if q_Body q = [] then [] else case map_of demo_pd_fields k of None \<Rightarrow> [] | Some v \<Rightarrow> v))\<rparr>"

definition demo_pd_lib :: "st pd_lib" where
  "demo_pd_lib = \<lparr>pl_NewRequest = (\<lambda>_. None), pl_Do = pd_broker_Do demo_pd_deliver (\<lambda>_. []) demo_pd_env, pl_StatusText = (\<lambda>_. [])\<rparr>"

definition demo_forwarded :: pd_request where
  "demo_forwarded = forward_request demo_pd_app demo_pd_request ''POST'' ''/login'' (Some demo_pd_fields)
     [(brokerCSRFCookieName, base64RawURL (replicate 32 0))]"

lemma demo_forwarded_body: "length (q_Body demo_forwarded) \<le> 1000" "q_Body demo_forwarded \<noteq> []"
  by code_simp+

theorem pd_login_forwarded_witness:
  "verifyAnonymousCSRF (demo_pd_deliver demo_forwarded) (form_get (demo_pd_deliver demo_forwarded) maxLoginBodyBytes)"
proof -
  have tok: "base64RawURL (replicate 32 0) = fst (randomB64 demo_pd_env 32 demo_st)" by (simp add: randomB64_def demo_pd_env_def)
  have q: "demo_forwarded = forward_request demo_pd_app demo_pd_request ''POST'' ''/login''
      (Some (login_fields (form_get demo_pd_request maxFormSize) (base64RawURL (replicate 32 0))))
      [(brokerCSRFCookieName, base64RawURL (replicate 32 0))]"
    by (simp add: demo_forwarded_def demo_pd_fields_eq)
  have d1: "delivered demo_pd_deliver maxLoginBodyBytes ''/login'' [] (get_request demo_pd_app ''/login'' [])"
    by (simp add: delivered_def demo_pd_deliver_def get_request_def demo_pd_app_def demo_request_def Let_def)
  have "q_Method demo_forwarded = ''POST''" "q_URL demo_forwarded = ''/login''"
    by (simp_all add: demo_forwarded_def forward_request_def demo_pd_app_def)
  then have d2: "delivered demo_pd_deliver maxLoginBodyBytes ''/login''
      (login_fields (form_get demo_pd_request maxFormSize) (base64RawURL (replicate 32 0))) demo_forwarded"
    using demo_forwarded_body(2) by (simp add: delivered_def demo_pd_deliver_def demo_pd_fields_eq demo_request_def Let_def)
  show ?thesis
    using pd_login_forwarded [where L = demo_pd_lib and other = "\<lambda>_. []" and e = demo_pd_env,
        OF _ _ _ _ d1 tok _ q d2 _ prod.collapse [symmetric]] demo_forwarded_body(1)
    by (simp add: demo_pd_lib_def demo_pd_env_def demo_cfg_def demo_pd_request_def demo_request_def maxLoginBodyBytes_def)
qed

definition demo_home_st :: st where
  "demo_home_st = demo_st\<lparr>st_db := empty_Store\<lparr>db_sessions := [(''sid'', Json demo_session)]\<rparr>\<rparr>"

lemma demo_home_size: "length (execute G brokerHomeTemplate
    [(''DisplayName'', JStr ''B''), (''Issuer'', JStr ''https://b''), (''AppTokens'', JArr []), (''Authenticated'', JBool True),
     (''UserID'', JStr ''alice''), (''ExpiresAt'', JStr []), (''CSRFToken'', JStr ''tok''), (''IsAdmin'', JBool False)]) \<le> 5000"
  by (simp only: execute_def user_pages_accepted(1) if_True) code_simp

lemma demo_extended:
  obtains sess s1 where "maybeExtendSession demo_pd_env (demo_pd_deliver (get_request demo_pd_app ''/'' [(brokerSessionCookieName, ''sid'')]))
      (fresh demo_home_st) = (Some sess, s1)" "s_UserID sess = ''alice''" "s_CSRFToken sess = ''tok''"
    "st_appTokens s1 = Map.empty" "userIsAdmin demo_pd_env (GetUser ''alice'' (st_db s1)) = False"
proof -
  let ?r = "demo_pd_deliver (get_request demo_pd_app ''/'' [(brokerSessionCookieName, ''sid'')])"
  have sid: "session_id ?r = Some ''sid''"
    by (simp add: session_id_def demo_pd_deliver_def get_request_def brokerSessionCookieName_def sessionCookieName_def)
  have l: "load_session demo_pd_env ''sid'' (fresh demo_home_st) = (Some demo_session, fresh demo_home_st)"
    by (simp add: load_session_def fresh_def demo_home_st_def GetSession_def db_view_def getJSON_def bget_def empty_Store_def
        session_expired_def demo_pd_env_def zero_Session_def IsZero_def zero_time_def)
  obtain o1 s1 where m: "maybeExtendSession demo_pd_env ?r (fresh demo_home_st) = (o1, s1)" by fastforce
  have "\<exists>sess. o1 = Some sess \<and> s_UserID sess = ''alice'' \<and> s_CSRFToken sess = ''tok''"
    using m sid l by (auto simp: maybeExtendSession_def Let_def split: if_splits prod.splits sum.splits)
  moreover have f: "st_appTokens s1 = Map.empty" "db_users (st_db s1) = []"
    using session_frameD [OF maybeExtendSession_frame [OF m]] by (simp_all add: fresh_def demo_home_st_def empty_Store_def)
  moreover have "userIsAdmin demo_pd_env (GetUser ''alice'' (st_db s1)) = False"
    by (simp add: userIsAdmin_def demo_pd_env_def demo_cfg_def demo_ui_env_def split: option.split)
  ultimately show thesis using that m by blast
qed

theorem pd_index_token_witness:
  "\<exists>page. fst (pd_handleIndex demo_pd_lib demo_pd_app demo_pd_request \<lparr>pw_header = Map.empty, pw_cookies = []\<rparr> demo_home_st) =
       Resp 200 (Page ''page'' page) \<and>
     map_of page ''UserID'' = Some (JStr (html_escape ''alice'')) \<and> map_of page ''CSRFToken'' = Some (JStr [])"
proof -
  let ?q = "get_request demo_pd_app ''/'' [(brokerSessionCookieName, ''sid'')]"
  have d: "delivered demo_pd_deliver 0 ''/'' [] ?q"
    by (simp add: delivered_def demo_pd_deliver_def get_request_def demo_pd_app_def demo_request_def Let_def)
  obtain sess s1 where m: "maybeExtendSession demo_pd_env (demo_pd_deliver ?q) (fresh demo_home_st) = (Some sess, s1)"
    and s: "s_UserID sess = ''alice''" "s_CSRFToken sess = ''tok''" and t: "st_appTokens s1 = Map.empty"
    and ad: "userIsAdmin demo_pd_env (GetUser ''alice'' (st_db s1)) = False"
    by (rule demo_extended)
  have a: "appTokenViews demo_pd_env s1 = []"
    using t by (simp add: appTokenViews_def snapshotAppTokens_def sorted_ids_def demo_pd_env_def demo_ui_env_def demo_env_def Let_def)
  have h: "homeData demo_pd_env (Some sess) None s1 =
      [(''DisplayName'', JStr ''B''), (''Issuer'', JStr ''https://b''), (''AppTokens'', JArr []), (''Authenticated'', JBool True),
       (''UserID'', JStr ''alice''), (''ExpiresAt'', JStr []), (''CSRFToken'', JStr ''tok''), (''IsAdmin'', JBool False)]"
    using s ad a by (simp add: homeData_def demo_pd_env_def demo_cfg_def)
  have size: "length (body_text (e_lib demo_pd_env) (\<lambda>_. []) (Page ''home'' (homeData demo_pd_env (Some sess) None s1))) \<le> 64 * 1024"
    using demo_home_size [of "e_lib demo_pd_env"] unfolding h by (simp add: body_text_def page_templates_def)
  have u: "list_all unreserved (s_CSRFToken sess)" unfolding s by code_simp
  show ?thesis
    using pd_index_token [where L = demo_pd_lib and other = "\<lambda>_. []" and r = demo_pd_request, OF _ _ _ _ refl d m _ _ u size refl] s a
    by (simp add: demo_pd_lib_def demo_pd_request_def page_json_def)
qed

end
