(* ===== verification/Spec2Isabelle.thy ===== *)
theory Spec2Isabelle
  imports Lifecycle Snapshot PasskeyDemo
begin

text \<open>
  A verification development of the authentication broker \<^verbatim>\<open>authbroker-go\<close>: an OAuth 2 and
  OpenID Connect provider in front of an LDAP directory, one Go package, with all its state in
  one bbolt database file.

  \<^bold>\<open>The program.\<close>  A browser is sent to the authorize endpoint by a client.  The broker checks the
  request, logs the user in (password with an optional one-time code, or passkey), asks for consent
  if the client requires it, and redirects back with a single-use code.  The client exchanges the
  code at the token endpoint for signed tokens and, for \<open>offline_access\<close>, a refresh token, which
  rotates on every use; a used one that comes back revokes its whole family.  Tokens are checked
  at the userinfo and introspection endpoints and ended by revocation; sessions are ended by
  logout.  Administrators add and remove clients and app tokens.  Limiters guard the login, the
  token endpoint and the writes before a login; a background sweep removes what has expired.

  \<^bold>\<open>The theories\<close>, in the order of their imports, and the files under \<^verbatim>\<open>src/\<close> they model.

  \<^item> \<open>Prelude\<close>: bytes and strings, \<^verbatim>\<open>strings.TrimSpace\<close>, \<^verbatim>\<open>Fields\<close>, \<^verbatim>\<open>Split\<close>, time and durations
    with the 64-bit wrap of a product, shared lemmas and the named collections.
  \<^item> \<open>Codec\<close> (\<^verbatim>\<open>util.go\<close>, \<^verbatim>\<open>pkce.go\<close>, \<^verbatim>\<open>hashSecret\<close>): base64url and hex with round trips, PKCE.
  \<^item> \<open>Model\<close> (types of \<^verbatim>\<open>broker.go\<close>, \<^verbatim>\<open>config.go\<close>, \<^verbatim>\<open>store.go\<close>, \<^verbatim>\<open>groups.go\<close>, \<^verbatim>\<open>ldap.go\<close>,
    \<^verbatim>\<open>signing_keys.go\<close>): the records.
  \<^item> \<open>Bucket\<close>: a bbolt bucket as an association list sorted by key, whose values may be undecodable;
    the locale \<open>kv_bucket\<close> states what a bucket promises and is interpreted on it.
  \<^item> \<open>Store\<close> and \<open>Snapshot\<close> (\<^verbatim>\<open>store.go\<close>): every transaction of the store; \<open>store_ok\<close> is kept by
    all of them; snapshots and seeds of all runtime buckets.
  \<^item> \<open>Contracts\<close>: what the callers of the store rely on.  The locale \<open>one_time\<close> (an entry is handed
    out at most once under any interleaving of transactions) is interpreted for codes,
    authorization requests and both kinds of WebAuthn challenge; rotation, family revocation,
    the sweep, consent records, the staging of TOTP secrets.
  \<^item> \<open>RateLimit\<close> and \<open>ClientIP\<close> (\<^verbatim>\<open>ratelimit.go\<close>): the limiter, its burst bound and lockout; the client
    address behind trusted proxies, which cannot be forged.
  \<^item> \<open>Scopes\<close> (\<^verbatim>\<open>scopes.go\<close>): normalization and validation of scopes.
  \<^item> \<open>Golib\<close>: the functions of other packages as a record of parameters (SHA-256, HMAC, RSA, ECDSA,
    JSON, PEM, URL, IP, DN and regular expression parsers, the directory, randomness), and small
    functions of the Go library that are modelled outright.
  \<^item> \<open>GroupMapping\<close> (\<^verbatim>\<open>groups.go\<close>, \<^verbatim>\<open>ldapGroupName\<close> of \<^verbatim>\<open>ldap.go\<close>): direct, scoped and regular
    expression mappings.
  \<^item> \<open>Broker\<close> (\<^verbatim>\<open>broker.go\<close>, \<^verbatim>\<open>audit.go\<close>, constants of \<^verbatim>\<open>config.go\<close>): request, response, state and
    effects; the client registries.
  \<^item> \<open>Jwt\<close> (\<^verbatim>\<open>jwt.go\<close>): signing, verification, the revocation list.
  \<^item> \<open>Sessions\<close> (\<^verbatim>\<open>handlers_session.go\<close>): sessions, CSRF, login buckets; the locale
    \<open>session_property\<close> and the step relation \<open>session_step\<close> carry the lifetime bound.
  \<^item> \<open>Consent\<close> (\<^verbatim>\<open>consent.go\<close>): the consent gate and page, the code redirect.
  \<^item> \<open>Totp\<close> (\<^verbatim>\<open>handlers_totp.go\<close>): base32, one-time codes, enrolment.
  \<^item> \<open>Login\<close> (\<^verbatim>\<open>handlers_session.go\<close>): login, re-authentication, both logouts.
  \<^item> \<open>Token\<close> and \<open>OAuth\<close> (\<^verbatim>\<open>handlers_oauth.go\<close>): the token endpoint with its three grants; authorize,
    userinfo, introspection, revocation, app tokens.
  \<^item> \<open>Cbor\<close> and \<open>Webauthn\<close> (\<^verbatim>\<open>cbor.go\<close>, \<^verbatim>\<open>handlers_webauthn.go\<close>): the decoder with an encoder as its
    reference, and the four endpoints of the passkey ceremonies.
  \<^item> \<open>SigningKeys\<close> (\<^verbatim>\<open>signing_keys.go\<close>): the managed key set, its rotation and pruning, restarts.
  \<^item> \<open>Config\<close> (\<^verbatim>\<open>config.go\<close>): defaults, and the checks of shape and for production.
  \<^item> \<open>Observability\<close> (\<^verbatim>\<open>observability.go\<close>): request ids, the metrics registry, path labels, the
    security headers.
  \<^item> \<open>Home\<close> (\<^verbatim>\<open>handlers_home.go\<close>) and \<open>Admin\<close> (\<^verbatim>\<open>admin.go\<close>): the home page, app tokens, assets and
    operational endpoints; the pages and mutations of the administrators.
  \<^item> \<open>Startup\<close> (\<^verbatim>\<open>NewBroker\<close>, parts of \<^verbatim>\<open>main.go\<close>): from configuration and database to a broker.
  \<^item> \<open>Ldap\<close> (\<^verbatim>\<open>ldap.go\<close>): the directory client behind the locale \<open>authenticator\<close>.
  \<^item> \<open>Frames\<close>: the locales \<open>request_invariant\<close> and \<open>server_invariant\<close>, a lemma per handler, and the
    contracts \<open>request_view\<close>, \<open>response_view\<close> and \<open>db_invariant\<close> that give such invariants.
  \<^item> \<open>Routes\<close> (\<^verbatim>\<open>buildRoutes\<close> of \<^verbatim>\<open>broker.go\<close>): the route table over a model of \<^verbatim>\<open>http.ServeMux\<close>; all
    handlers behind one function, and what holds of every request.
  \<^item> \<open>Invariants\<close>: the type of the data at rest, in every state of the step relation \<open>reach\<close>.
  \<^item> \<open>Lifecycle\<close> (\<^verbatim>\<open>main.go\<close>, \<^verbatim>\<open>NewStore\<close>, \<^verbatim>\<open>loadConfig\<close>, the sweeper): the process from its flags to
    its exit status, as a trace of events.
  \<^item> \<open>Flow\<close>: what the token endpoint answers to the client a code was made for; the lemmas behind the
    flow through the broker and through the example client.
  \<^item> \<open>Html\<close>: the part of \<^verbatim>\<open>html/template\<close> that the pages use (fields, \<^verbatim>\<open>if\<close>, \<^verbatim>\<open>range\<close>, \<^verbatim>\<open>with\<close>, the
    escaping of values), as a datatype of templates and a function that executes them.
  \<^item> \<open>Templates\<close> (\<^verbatim>\<open>templates.go\<close>, \<^verbatim>\<open>admin_templates.go\<close>): the text of every page and the table by
    which a handler's page becomes the bytes of its body.
  \<^item> \<open>WebUi\<close> (\<^verbatim>\<open>test-web-ui/main.go\<close>): the example client, alone and with the broker as its network.
  \<^item> \<open>PasskeyDemo\<close> (\<^verbatim>\<open>passkey-demo/main.go\<close>): the proxy that logs in over the broker's pages, with the
    patterns by which it reads the hidden fields of a page; the locale \<open>tag_pattern\<close> states what such
    a pattern finds and is interpreted for both of them.

  \<^bold>\<open>Conventions.\<close>  A handler maps the immutable broker (\<open>env\<close>), the request and the state (\<open>st\<close>) to
  the response and the new state.  A method of the store is one transaction, and so is one step;
  interleavings are lists of steps.  All clock readings of a request give one time.  Integers are
  \<open>int\<close> with the wrap of 64 bits written out where the code can overflow (\<open>dur\<close>, \<open>wrap64\<close>),
  WebAuthn counters are 32-bit words.  Errors are values (\<open>store_error\<close>, \<open>jwt_error\<close> and so on in a
  sum); a handler that panics answers \<open>Panic\<close>.  Randomness is a stream of byte lists, indexed by
  the number of draws.  No fuel is used: every function is total but the loop of the sweeper, whose
  value is \<open>None\<close> when it does not return.  Log lines are left out, the audit log is kept.
  \<^verbatim>\<open>Retry-After\<close> ignores the rounding of \<^verbatim>\<open>float64\<close>.  A handler
  answers a page by its template's name with its data, which \<open>body_text\<close> of \<open>Templates\<close> renders.

  \<^bold>\<open>What is shown.\<close>  Per component: round trips of the codecs, bounds of the limiter, exactness of
  the store's transactions, and for each endpoint what a success implies (who is authenticated, what
  is consumed, what is bound to what) and what an error leaves alone.  Across components: the code
  flow completes (below), and so does a login through the example client and the broker; a
  login posted to the passkey demo reaches the broker with the token of the broker's own page; no
  value on a page can add markup to it, and every page finds the fields it names; a started
  production broker insists on PKCE; LDAP is used over verified TLS only; the whole server changes the operator's state for administrators alone, sends its
  security headers on every response, keeps the type of its data in every reachable state, and
  cleans up on every way out.

  \<^bold>\<open>Not modelled\<close>: the text of the style sheet and the script of the pages (\<^verbatim>\<open>assets.go\<close>: two
  constants that are served as they are, and run in the browser), the script on the page of the
  passkey demo, and the text of log lines.  Cryptography, parsers of other packages, the network,
  the operating system and certmagic are parameters.
\<close>

section \<open>The whole code flow\<close>

text \<open>
  C4. The code flow completes: if the broker has redirected with a code, then the client of the
  request, presenting that code before it expires with the redirect URI of the request and, if
  the request had an S256 challenge, the verifier that hashes to it, gets its tokens, with the
  scope of the request.  SHA-256 gives 32 bytes, and JSON encoding and RSA signing do not fail.
\<close>

theorem code_flow_completes:
  assumes "issueCodeRedirect e ar sess s = (Inr redirect, s1)"
    and "form ''code'' = fst (randomB64 e 32 s)" and "form ''redirect_uri'' = ar_RedirectURI ar"
    and "c_ClientID client = ar_ClientID ar"
    and "ar_CodeChallenge ar = [] \<or> ar_CodeChallengeMethod ar = ''S256'' \<and> validPKCEVerifier (form ''code_verifier'') \<and>
           ar_CodeChallenge ar = base64RawURL (g_sha256 (e_lib e) (bytes_of (form ''code_verifier'')))"
    and "e_lib e2 = e_lib e"
    and "e_now e2 \<le> e_now e + dur (cf_AuthCodeTTLSeconds (e_cfg e)) Second"
    and "\<And>b. length (g_sha256 (e_lib e) b) = 32"
    and "\<And>m. g_json_marshal (e_lib e) m \<noteq> None" and "\<And>h. g_rsa_sign (e_lib e) (key_Private (e_activeKey e2)) h \<noteq> None"
  shows "\<exists>resp s2. tokenAuthorizationCode e2 r form client s1 = (Resp 200 (JsonBody resp), s2) \<and>
           resp ''scope'' = Some (JStr (ar_Scope ar))"
proof -
  have c: "db_open (st_db s1)" "code_at (st_db s1) (hash_secret e2 (form ''code'')) = Some (Json (code_for e ar sess))"
    using code_stored [OF assms(1,6)] assms(2) by simp_all
  obtain resp s2 s3 inc s4 where "tokenAuthorizationCode e2 r form client s1 = (Resp 200 (JsonBody resp), s2)"
    and i: "issueUserTokens e2 (ac_UserID (code_for e ar sess)) (c_ClientID client) (ac_Scope (code_for e ar sess))
      (ac_Nonce (code_for e ar sess)) (ac_AuthTime (code_for e ar sess)) (ac_AMR (code_for e ar sess)) inc s3 = (Inr resp, s4)"
    by (rule code_redeemed [where form = form and client = client and r = r, OF c]) (use assms(3-10) in \<open>simp_all add: code_for_def\<close>)
  moreover have "resp ''scope'' = Some (JStr (ar_Scope ar))" using issueUserTokens_resp [OF i] by (simp add: code_for_def)
  ultimately show ?thesis by blast
qed

definition demo_flow_env :: env where
  "demo_flow_env = demo_env\<lparr>e_lib := demo_lib\<lparr>g_sha256 := (\<lambda>_. replicate 32 0)\<rparr>\<rparr>"

definition demo_flow_request :: AuthorizationRequest where
  "demo_flow_request = demo_ar\<lparr>ar_CodeChallenge := base64RawURL (replicate 32 0)\<rparr>"

definition demo_flow_form :: "string \<Rightarrow> string" where
  "demo_flow_form = (\<lambda>_. [])(''code'' := fst (randomB64 demo_flow_env 32 demo_st), ''redirect_uri'' := ''https://a/cb'',
     ''code_verifier'' := replicate 43 CHR ''a'')"

theorem code_flow_completes_witness:
  "\<exists>redirect s1 resp s2. issueCodeRedirect demo_flow_env demo_flow_request demo_session demo_st = (Inr redirect, s1) \<and>
     tokenAuthorizationCode demo_flow_env demo_request demo_flow_form demo_client s1 = (Resp 200 (JsonBody resp), s2)"
proof -
  have sha: "g_sha256 (e_lib demo_flow_env) b = replicate 32 0" for b by (simp add: demo_flow_env_def)
  have lib: "g_json_marshal (e_lib demo_flow_env) m \<noteq> None" "g_rsa_sign (e_lib demo_flow_env) k h \<noteq> None" for m h k
    by (simp_all add: demo_flow_env_def)
  have k: "hash_secret demo_flow_env x \<noteq> []" "length (hash_secret demo_flow_env x) \<le> 32768" for x
    using hash_secret_key [of demo_flow_env] sha by simp_all
  obtain acode s0 where r: "randomB64 demo_flow_env 32 demo_st = (acode, s0)" "db_open (st_db s0)"
    using effects_db(3) [of demo_flow_env 32 demo_st] by (cases "randomB64 demo_flow_env 32 demo_st") (simp add: empty_Store_def)
  obtain s1 where p: "on_db (PutAuthCode (hash_secret demo_flow_env acode) (code_for demo_flow_env demo_flow_request demo_session)) s0 = (Inr (), s1)"
    using r(2) k by (simp add: on_db_eq db_simps)
  obtain redirect where i: "issueCodeRedirect demo_flow_env demo_flow_request demo_session demo_st = (Inr redirect, s1)"
    using r(1) p by (simp add: issueCodeRedirect_def demo_flow_env_def)
  have v: "validPKCEVerifier (demo_flow_form ''code_verifier'')"
    by (simp add: validPKCEVerifier_def demo_flow_form_def pkceVerifierMinLen_def pkceVerifierMaxLen_def unreserved_def list_all_iff)
  have "\<exists>resp s2. tokenAuthorizationCode demo_flow_env demo_request demo_flow_form demo_client s1 = (Resp 200 (JsonBody resp), s2) \<and>
      resp ''scope'' = Some (JStr (ar_Scope demo_flow_request))"
    by (rule code_flow_completes [OF i _ _ _ _ refl])
      (use v lib in \<open>simp_all add: demo_flow_form_def demo_flow_request_def sha demo_flow_env_def dur_def wrap64_id demo_cfg_def\<close>)
  then show ?thesis using i by blast
qed

end
